(* ===== verification/Prelude.thy ===== *)
theory Prelude
  imports Main "HOL-Library.Sublist"
begin

text \<open>
  Shared vocabulary of the development.

  The TypeScript sources under src/ run every write inside a Prisma transaction: an
  \<open>async\<close> callback that reads and writes tables and either returns a value or throws, in
  which case the database rolls everything back. The theory models such a callback as a
  function from the database state to an exception or a value with the new state (type
  \<open>tx\<close>), and gives the table operations the sources call (\<open>findUnique\<close>,
  \<open>updateMany\<close>, \<open>update\<close>, \<open>createMany\<close> with \<open>skipDuplicates\<close>, \<open>create\<close>)
  over tables that are lists of rows in insertion order. A database is one state type with a
  getter and an updater per table.

  Invariants are stated with \<open>keeps\<close>: a transaction that starts in a state with the
  property and returns ends in a state with it; the rules of the collection
  \<open>keeps_intros\<close> decompose a transaction along the combinators, and \<open>tx_simps\<close>
  executes one.
\<close>

section \<open>Time, identifiers and exceptions\<close>

text \<open>
  A JavaScript \<open>Date\<close> is its \<open>getTime()\<close>: milliseconds since the epoch. An
  identifier is the text of a UUID.
\<close>

type_synonym time = int
type_synonym ident = string

abbreviation second_ms :: int where "second_ms \<equiv> 1000"
abbreviation minute_ms :: int where "minute_ms \<equiv> 60000"
abbreviation day_ms :: int where "day_ms \<equiv> 86400000"

text \<open>The reasons a spend of subscription minutes is refused for (credits.ts, \<open>BookingSpendResult\<close>).\<close>

datatype spend_refusal = NO_CURRENT_PERIOD | INSUFFICIENT_CREDITS | SPEND_DUPLICATE

text \<open>
  What a transaction can throw: a plain \<open>Error\<close> with its message, Prisma's
  record-not-found, an SQL error with its SQLSTATE (23505 unique violation, 23P01 exclusion
  violation, 40P01 deadlock), and the error classes the booking code declares for itself.
\<close>

datatype exn =
    JsError string
  | NotFoundError
  | SqlError string
  | PointsUnavailable
  | VoucherUnusable
  | PrizeAlreadySpent
  | EntitlementGone
  | MinutesUnavailable spend_refusal

section \<open>Transactions\<close>

type_synonym ('s, 'a) tx = "'s \<Rightarrow> exn + 'a \<times> 's"

definition ret :: "'a \<Rightarrow> ('s, 'a) tx" where
  "ret x = (\<lambda>s. Inr (x, s))"

definition throw :: "exn \<Rightarrow> ('s, 'a) tx" where
  "throw e = (\<lambda>s. Inl e)"

definition bindt :: "('s, 'a) tx \<Rightarrow> ('a \<Rightarrow> ('s, 'b) tx) \<Rightarrow> ('s, 'b) tx" where
  "bindt m f = (\<lambda>s. case m s of Inl e \<Rightarrow> Inl e | Inr (x, s') \<Rightarrow> f x s')"

definition reads :: "('s \<Rightarrow> 'a) \<Rightarrow> ('s, 'a) tx" where
  "reads f = (\<lambda>s. Inr (f s, s))"

definition modifies :: "('s \<Rightarrow> 's) \<Rightarrow> ('s, unit) tx" where
  "modifies f = (\<lambda>s. Inr ((), f s))"

fun for_each :: "'a list \<Rightarrow> ('a \<Rightarrow> ('s, unit) tx) \<Rightarrow> ('s, unit) tx" where
  "for_each [] f = ret ()"
| "for_each (x # xs) f = bindt (f x) (\<lambda>_. for_each xs f)"

fun tx_map :: "('e \<Rightarrow> ('s, 'r) tx) \<Rightarrow> 'e list \<Rightarrow> ('s, 'r list) tx" where
  "tx_map f [] = ret []"
| "tx_map f (e # es) = bindt (f e) (\<lambda>r. bindt (tx_map f es) (\<lambda>rs. ret (r # rs)))"

text \<open>\<open>$transaction\<close>: what the callback threw leaves the database as it was.\<close>

definition transaction :: "('s, 'a) tx \<Rightarrow> 's \<Rightarrow> (exn + 'a) \<times> 's" where
  "transaction m s = (case m s of Inl e \<Rightarrow> (Inl e, s) | Inr (x, s') \<Rightarrow> (Inr x, s'))"

section \<open>Tables\<close>

text \<open>
  A table is a list of rows. Rows are changed in place (\<open>updateMany\<close>) and appended;
  nothing the sources do here deletes one. The transaction versions take the table's getter
  and updater from the database record.
\<close>

definition updateMany :: "('r \<Rightarrow> bool) \<Rightarrow> ('r \<Rightarrow> 'r) \<Rightarrow> 'r list \<Rightarrow> 'r list" where
  "updateMany P f t = map (\<lambda>r. if P r then f r else r) t"

definition tx_updateMany ::
  "('s \<Rightarrow> 'r list) \<Rightarrow> (('r list \<Rightarrow> 'r list) \<Rightarrow> 's \<Rightarrow> 's) \<Rightarrow> ('r \<Rightarrow> bool) \<Rightarrow> ('r \<Rightarrow> 'r) \<Rightarrow> ('s, nat) tx" where
  "tx_updateMany get upd P f =
     (\<lambda>s. Inr (length (filter P (get s)), upd (\<lambda>_. updateMany P f (get s)) s))"

definition tx_update ::
  "('s \<Rightarrow> 'r list) \<Rightarrow> (('r list \<Rightarrow> 'r list) \<Rightarrow> 's \<Rightarrow> 's) \<Rightarrow> ('r \<Rightarrow> bool) \<Rightarrow> ('r \<Rightarrow> 'r) \<Rightarrow> ('s, unit) tx" where
  "tx_update get upd P f =
     (\<lambda>s. if list_ex P (get s) then Inr ((), upd (\<lambda>_. updateMany P f (get s)) s) else Inl NotFoundError)"

text \<open>\<open>C\<close> is the uniqueness constraint: whether the new row conflicts with an existing one.\<close>

definition tx_createSkip ::
  "('s \<Rightarrow> 'r list) \<Rightarrow> (('r list \<Rightarrow> 'r list) \<Rightarrow> 's \<Rightarrow> 's) \<Rightarrow> ('r \<Rightarrow> 'r \<Rightarrow> bool) \<Rightarrow> 'r \<Rightarrow> ('s, nat) tx" where
  "tx_createSkip get upd C r =
     (\<lambda>s. if list_ex (C r) (get s) then Inr (0, s) else Inr (1, upd (\<lambda>_. get s @ [r]) s))"

definition tx_create ::
  "('s \<Rightarrow> 'r list) \<Rightarrow> (('r list \<Rightarrow> 'r list) \<Rightarrow> 's \<Rightarrow> 's) \<Rightarrow> ('r \<Rightarrow> 'r \<Rightarrow> bool) \<Rightarrow> 'r \<Rightarrow> ('s, 'r) tx" where
  "tx_create get upd C r =
     (\<lambda>s. if list_ex (C r) (get s) then Inl (SqlError ''23505'') else Inr (r, upd (\<lambda>_. get s @ [r]) s))"

definition tx_find :: "('s \<Rightarrow> 'r list) \<Rightarrow> ('r \<Rightarrow> bool) \<Rightarrow> ('s, 'r option) tx" where
  "tx_find get P = reads (\<lambda>s. find P (get s))"

definition tx_findOrThrow :: "('s \<Rightarrow> 'r list) \<Rightarrow> ('r \<Rightarrow> bool) \<Rightarrow> ('s, 'r) tx" where
  "tx_findOrThrow get P =
     (\<lambda>s. case find P (get s) of None \<Rightarrow> Inl NotFoundError | Some r \<Rightarrow> Inr (r, s))"

section \<open>Partial correctness\<close>

definition hoare :: "('s \<Rightarrow> bool) \<Rightarrow> ('s, 'a) tx \<Rightarrow> ('a \<Rightarrow> 's \<Rightarrow> bool) \<Rightarrow> bool" where
  "hoare P m Q \<longleftrightarrow> (\<forall>s x s'. P s \<longrightarrow> m s = Inr (x, s') \<longrightarrow> Q x s')"

definition keeps :: "('s \<Rightarrow> bool) \<Rightarrow> ('s, 'a) tx \<Rightarrow> bool" where
  "keeps I m \<longleftrightarrow> hoare I m (\<lambda>_. I)"

named_theorems tx_simps "execution of transactions"
named_theorems keeps_intros "decomposition of invariant preservation"
named_theorems const_simps "the constants of the sources, unfolded"

lemma ret_apply [tx_simps]: "ret x s = Inr (x, s)"
  by (simp add: ret_def)

lemma throw_apply [tx_simps]: "throw e s = Inl e"
  by (simp add: throw_def)

lemma reads_apply [tx_simps]: "reads f s = Inr (f s, s)"
  by (simp add: reads_def)

lemma modifies_apply [tx_simps]: "modifies f s = Inr ((), f s)"
  by (simp add: modifies_def)

lemma bindt_Inr: "m s = Inr (x, s') \<Longrightarrow> bindt m f s = f x s'"
  by (simp add: bindt_def)

lemma bindt_Inl: "m s = Inl e \<Longrightarrow> bindt m f s = Inl e"
  by (simp add: bindt_def)

lemma bindt_if [tx_simps]:
  "bindt (if c then m1 else m2) f s = (if c then bindt m1 f s else bindt m2 f s)"
  by simp

lemma bindt_ret [tx_simps]: "bindt (ret x) f = f x"
  by (rule ext) (simp add: bindt_def ret_def)

lemma bindt_assoc [tx_simps]: "bindt (bindt m f) g = bindt m (\<lambda>x. bindt (f x) g)"
  by (rule ext) (auto simp: bindt_def split: sum.splits prod.splits)

lemma bindt_steps [tx_simps]:
  "bindt (throw e) f s = Inl e"
  "bindt (reads g) f s = f (g s) s"
  "bindt (modifies h) k s = k () (h s)"
  by (simp_all add: bindt_def throw_def reads_def modifies_def)

lemma tx_updateMany_apply [tx_simps]:
  "tx_updateMany get upd P f s = Inr (length (filter P (get s)), upd (\<lambda>_. updateMany P f (get s)) s)"
  "bindt (tx_updateMany get upd P f) k s =
     k (length (filter P (get s))) (upd (\<lambda>_. updateMany P f (get s)) s)"
  by (simp_all add: tx_updateMany_def bindt_def)

lemma tx_update_apply [tx_simps]:
  "tx_update get upd P f s =
     (if list_ex P (get s) then Inr ((), upd (\<lambda>_. updateMany P f (get s)) s) else Inl NotFoundError)"
  "bindt (tx_update get upd P f) k s =
     (if list_ex P (get s) then k () (upd (\<lambda>_. updateMany P f (get s)) s) else Inl NotFoundError)"
  by (simp_all add: tx_update_def bindt_def)

lemma tx_createSkip_apply [tx_simps]:
  "tx_createSkip get upd C r s =
     (if list_ex (C r) (get s) then Inr (0, s) else Inr (1, upd (\<lambda>_. get s @ [r]) s))"
  "bindt (tx_createSkip get upd C r) k s =
     (if list_ex (C r) (get s) then k 0 s else k 1 (upd (\<lambda>_. get s @ [r]) s))"
  by (simp_all add: tx_createSkip_def bindt_def)

lemma tx_create_apply [tx_simps]:
  "tx_create get upd C r s =
     (if list_ex (C r) (get s) then Inl (SqlError ''23505'') else Inr (r, upd (\<lambda>_. get s @ [r]) s))"
  "bindt (tx_create get upd C r) k s =
     (if list_ex (C r) (get s) then Inl (SqlError ''23505'') else k r (upd (\<lambda>_. get s @ [r]) s))"
  by (simp_all add: tx_create_def bindt_def)

lemma tx_find_apply [tx_simps]:
  "tx_find get P s = Inr (find P (get s), s)"
  "bindt (tx_find get P) k s = k (find P (get s)) s"
  by (simp_all add: tx_find_def reads_def bindt_def)

lemma tx_findOrThrow_apply [tx_simps]:
  "tx_findOrThrow get P s = (case find P (get s) of None \<Rightarrow> Inl NotFoundError | Some r \<Rightarrow> Inr (r, s))"
  "bindt (tx_findOrThrow get P) k s =
     (case find P (get s) of None \<Rightarrow> Inl NotFoundError | Some r \<Rightarrow> k r s)"
  by (simp_all add: tx_findOrThrow_def bindt_def split: option.splits)

lemma bindt_eq_Inr:
  "bindt m f s = Inr (y, s2) \<longleftrightarrow> (\<exists>x s1. m s = Inr (x, s1) \<and> f x s1 = Inr (y, s2))"
  by (auto simp: bindt_def split: sum.splits)

lemma hoareI: "(\<And>s x s'. P s \<Longrightarrow> m s = Inr (x, s') \<Longrightarrow> Q x s') \<Longrightarrow> hoare P m Q"
  by (simp add: hoare_def)

lemma hoareD: "hoare P m Q \<Longrightarrow> P s \<Longrightarrow> m s = Inr (x, s') \<Longrightarrow> Q x s'"
  by (auto simp: hoare_def)

lemma keepsI: "(\<And>s x s'. I s \<Longrightarrow> m s = Inr (x, s') \<Longrightarrow> I s') \<Longrightarrow> keeps I m"
  by (simp add: keeps_def hoare_def)

lemma keepsD: "keeps I m \<Longrightarrow> I s \<Longrightarrow> m s = Inr (x, s') \<Longrightarrow> I s'"
  by (auto simp: keeps_def hoare_def)

lemma hoare_bindt:
  assumes "hoare P m R" and "\<And>x. hoare (R x) (f x) Q"
  shows "hoare P (bindt m f) Q"
  using assms unfolding hoare_def bindt_eq_Inr by blast

lemma keeps_ret [keeps_intros]: "keeps I (ret x)"
  by (rule keepsI) (simp add: ret_def)

lemma keeps_throw [keeps_intros]: "keeps I (throw e)"
  by (rule keepsI) (simp add: throw_def)

lemma keeps_reads [keeps_intros]: "keeps I (reads f)"
  by (rule keepsI) (simp add: reads_def)

lemma keeps_bindt [keeps_intros]:
  "keeps I m \<Longrightarrow> (\<And>x. keeps I (f x)) \<Longrightarrow> keeps I (bindt m f)"
  unfolding keeps_def by (rule hoare_bindt)

lemma keeps_if [keeps_intros]:
  "(c \<Longrightarrow> keeps I m1) \<Longrightarrow> (\<not> c \<Longrightarrow> keeps I m2) \<Longrightarrow> keeps I (if c then m1 else m2)"
  by simp

lemma keeps_option [keeps_intros]:
  "(v = None \<Longrightarrow> keeps I m) \<Longrightarrow> (\<And>x. v = Some x \<Longrightarrow> keeps I (f x)) \<Longrightarrow>
   keeps I (case v of None \<Rightarrow> m | Some x \<Rightarrow> f x)"
  by (cases v) auto

lemma keeps_let [keeps_intros]: "keeps I (f v) \<Longrightarrow> keeps I (let x = v in f x)"
  by simp

lemma keeps_for_each [keeps_intros]:
  "(\<And>x. x \<in> set xs \<Longrightarrow> keeps I (f x)) \<Longrightarrow> keeps I (for_each xs f)"
  by (induction xs) (auto intro!: keeps_intros)

lemma keeps_find [keeps_intros]: "keeps I (tx_find get P)"
  by (simp add: tx_find_def keeps_reads)

lemma keeps_findOrThrow [keeps_intros]: "keeps I (tx_findOrThrow get P)"
  by (rule keepsI) (auto simp: tx_findOrThrow_def split: option.splits)

lemma keeps_modifies: "(\<And>s. I s \<Longrightarrow> I (f s)) \<Longrightarrow> keeps I (modifies f)"
  by (rule keepsI) (auto simp: modifies_def)

lemma keeps_updateMany:
  "(\<And>s. I s \<Longrightarrow> I (upd (\<lambda>_. updateMany P f (get s)) s)) \<Longrightarrow> keeps I (tx_updateMany get upd P f)"
  by (rule keepsI) (auto simp: tx_updateMany_def)

lemma keeps_update:
  "(\<And>s. I s \<Longrightarrow> I (upd (\<lambda>_. updateMany P f (get s)) s)) \<Longrightarrow> keeps I (tx_update get upd P f)"
  by (rule keepsI) (auto simp: tx_update_def split: if_splits)

lemma keeps_createSkip:
  "(\<And>s. I s \<Longrightarrow> \<not> list_ex (C r) (get s) \<Longrightarrow> I (upd (\<lambda>_. get s @ [r]) s)) \<Longrightarrow>
   keeps I (tx_createSkip get upd C r)"
  by (rule keepsI) (auto simp: tx_createSkip_def split: if_splits)

lemma keeps_create:
  "(\<And>s. I s \<Longrightarrow> \<not> list_ex (C r) (get s) \<Longrightarrow> I (upd (\<lambda>_. get s @ [r]) s)) \<Longrightarrow>
   keeps I (tx_create get upd C r)"
  by (rule keepsI) (auto simp: tx_create_def split: if_splits)

lemmas keeps_table = keeps_modifies keeps_updateMany keeps_update keeps_createSkip keeps_create

lemma keeps_conj: "keeps I m \<Longrightarrow> keeps J m \<Longrightarrow> keeps (\<lambda>s. I s \<and> J s) m"
  by (auto simp: keeps_def hoare_def)

text \<open>A transaction that keeps an invariant keeps it whether it commits or rolls back.\<close>

lemma transaction_keeps: "keeps I m \<Longrightarrow> I s \<Longrightarrow> I (snd (transaction m s))"
  by (auto simp: transaction_def dest: keepsD split: sum.splits prod.splits)

section \<open>Rows and lists\<close>

lemma find_Some_iff_ex: "(\<exists>r. find P xs = Some r) \<longleftrightarrow> list_ex P xs"
  by (induction xs) auto

lemma find_None_iff_ex: "find P xs = None \<longleftrightarrow> \<not> list_ex P xs"
  by (induction xs) auto

lemma find_SomeD: "find P xs = Some r \<Longrightarrow> P r \<and> r \<in> set xs"
  by (induction xs) (auto split: if_splits)

lemma find_append: "find P (xs @ ys) = (case find P xs of None \<Rightarrow> find P ys | Some r \<Rightarrow> Some r)"
  by (induction xs) auto

lemma length_updateMany [simp]: "length (updateMany P f t) = length t"
  by (simp add: updateMany_def)

lemma updateMany_simps [simp]:
  "updateMany P f [] = []"
  "updateMany P f (r # t) = (if P r then f r else r) # updateMany P f t"
  "updateMany P f (t @ u) = updateMany P f t @ updateMany P f u"
  by (simp_all add: updateMany_def)

lemma set_updateMany: "set (updateMany P f t) = (\<lambda>r. if P r then f r else r) ` set t"
  by (simp add: updateMany_def)

lemma map_updateMany_inv:
  "(\<And>r. P r \<Longrightarrow> k (f r) = k r) \<Longrightarrow> map k (updateMany P f t) = map k t"
  by (simp add: updateMany_def)

lemma image_updateMany_inv:
  assumes "\<And>r. P r \<Longrightarrow> k (f r) = k r"
  shows "k ` set (updateMany P f t) = k ` set t"
  using map_updateMany_inv [of P k f t] assms by (metis list.set_map)

lemma bex_updateMany:
  "(\<exists>r \<in> set (updateMany P f t). Q r) \<longleftrightarrow> (\<exists>r \<in> set t. Q (if P r then f r else r))"
  by (induction t) auto

lemma ball_updateMany:
  "(\<forall>r \<in> set (updateMany P f t). Q r) \<longleftrightarrow> (\<forall>r \<in> set t. Q (if P r then f r else r))"
  by (induction t) auto

lemma filter_updateMany_inv:
  "(\<And>r. P r \<Longrightarrow> Q (f r) = Q r) \<Longrightarrow> filter Q (updateMany P f t) = updateMany P f (filter Q t)"
  by (induction t) auto

lemma updateMany_id: "(\<And>r. r \<in> set t \<Longrightarrow> \<not> P r) \<Longrightarrow> updateMany P f t = t"
  by (simp add: updateMany_def map_idI)

lemma list_ex_updateMany:
  "(\<And>r. P r \<Longrightarrow> Q (f r) = Q r) \<Longrightarrow> list_ex Q (updateMany P f t) = list_ex Q t"
  by (induction t) auto

lemma find_updateMany_key:
  assumes "\<And>r. Q (f r) = Q r"
  shows "find Q (updateMany P f t) = map_option (\<lambda>r. if P r then f r else r) (find Q t)"
  using assms by (induction t) auto

lemma distinct_map_append:
  "distinct (map k (t @ [r])) \<longleftrightarrow> distinct (map k t) \<and> k r \<notin> k ` set t"
  by auto

lemma distinct_find:
  assumes "distinct (map k t)" and "r \<in> set t"
  shows "find (\<lambda>r'. k r' = k r) t = Some r"
  using assms by (induction t) (auto simp: rev_image_eqI)

lemma distinct_key_eq:
  assumes "distinct (map k t)" and "r \<in> set t" and "r' \<in> set t" and "k r = k r'"
  shows "r = r'"
  using assms by (induction t) (auto simp: rev_image_eqI)

subsection \<open>Tables with a key\<close>

text \<open>
  A column with a unique index: \<open>distinct (map k t)\<close>. The lemmas rewrite the queries and
  updates the sources make on such a column to the one row they concern.
\<close>

lemma keyed_filter:
  assumes "distinct (map k t)" and "find (\<lambda>r. k r = x) t = Some r"
  shows "filter (\<lambda>r. k r = x \<and> Q r) t = (if Q r then [r] else [])"
  using assms
proof (induction t)
  case (Cons a t)
  show ?case
  proof (cases "k a = x")
    case True
    with Cons.prems have "a = r" and "\<And>r'. r' \<in> set t \<Longrightarrow> k r' \<noteq> x"
      by (auto simp: rev_image_eqI)
    with True show ?thesis by (auto intro!: filter_False)
  next
    case False
    with Cons show ?thesis by auto
  qed
qed simp

lemma keyed_filter_None:
  assumes "find (\<lambda>r. k r = x) t = None"
  shows "filter (\<lambda>r. k r = x \<and> Q r) t = []"
  using assms by (induction t) (auto split: if_splits)

lemma keyed_updateMany:
  assumes "distinct (map k t)" and "find (\<lambda>r. k r = x) t = Some r"
  shows "updateMany (\<lambda>r. k r = x \<and> Q r) f t = (if Q r then updateMany (\<lambda>r. k r = x) f t else t)"
proof -
  have "k r' = x \<Longrightarrow> r' \<in> set t \<Longrightarrow> r' = r" for r'
    using assms distinct_key_eq [OF assms(1)] by (auto dest: find_SomeD)
  then show ?thesis
    by (auto simp: updateMany_def intro!: map_idI)
qed

lemma keyed_updateMany_None:
  assumes "find (\<lambda>r. k r = x) t = None"
  shows "updateMany (\<lambda>r. k r = x \<and> Q r) f t = t"
  using assms by (induction t) (auto split: if_splits)

lemma find_keyed_update:
  assumes "\<And>r. k (f r) = k r"
  shows "find (\<lambda>r. k r = y) (updateMany (\<lambda>r. k r = x) f t) =
    (if y = x then map_option f (find (\<lambda>r. k r = x) t) else find (\<lambda>r. k r = y) t)"
  using assms by (induction t) auto

lemma keyed_update_compose:
  assumes "\<And>r. k (f r) = k r"
  shows "updateMany (\<lambda>r. k r = x) g (updateMany (\<lambda>r. k r = x) f t) = updateMany (\<lambda>r. k r = x) (\<lambda>r. g (f r)) t"
  using assms by (induction t) auto

lemma updateMany_ident: "(\<And>r. f r = r) \<Longrightarrow> updateMany P f t = t"
  by (simp add: updateMany_def map_idI)

lemma list_ex_find: "list_ex P t \<longleftrightarrow> find P t \<noteq> None"
  by (induction t) auto

lemma list_ex_key: "list_ex (\<lambda>r. x = k r) t \<longleftrightarrow> x \<in> k ` set t"
  by (induction t) auto

text \<open>\<open>toUpperCase\<close>, on ASCII letters.\<close>

definition upper :: "char \<Rightarrow> char" where
  "upper c = (let n = (of_char c :: nat) in if 97 \<le> n \<and> n \<le> 122 then char_of (n - 32) else c)"

text \<open>\<open>Number.isSafeInteger\<close>.\<close>

definition isSafeInteger :: "int \<Rightarrow> bool" where
  "isSafeInteger n \<longleftrightarrow> \<bar>n\<bar> \<le> 2 ^ 53 - 1"

end
