(* ===== verification/Schema.thy ===== *)
theory Schema
  imports Complex_Main Prelude
begin

text \<open>
  The tables of src/packages/db/prisma/schema.prisma that the modelled operations read and
  write, as records, and the database as one record of tables. Column names carry the
  table's prefix because Isabelle's record selectors share one name space. Left out of a row
  are columns no modelled operation reads: surrogate ids of append-only tables, \<open>createdAt\<close>
  and \<open>updatedAt\<close> (where row order carries the same information, the booking's \<open>createdAt\<close> excepted), and display texts.
\<close>

section \<open>Enumerations\<close>

datatype currency = GEL
datatype observatoryMode = SIMULATED | REAL
datatype bookingStatus =
  BK_PENDING_PAYMENT | BK_CONFIRMED | BK_CANCELLED | BK_EXPIRED | BK_REFUNDED
datatype paymentStatus =
  PAY_PENDING | PAY_AUTHORIZED | PAY_CAPTURED | PAY_FAILED | PAY_REFUNDED
datatype paymentPurpose =
  FOR_BOOKING | FOR_OBSERVER_PACK | FOR_GIFT_VOUCHER | FOR_SUBSCRIPTION
datatype paymentProvider = SANDBOX | BOG_IPAY
datatype missionState =
  MS_REQUESTED | MS_SCHEDULED | MS_PREPARING | MS_SLEWING | MS_VERIFYING | MS_CENTERING
| MS_OBSERVING | MS_CAPTURING | MS_PROCESSING | MS_COMPLETE | MS_WEATHER_HOLD
| MS_NOT_VISIBLE | MS_HARDWARE_ERROR | MS_CANCELLED | MS_FAILED
datatype missionFailureReason =
  PLATE_SOLVE_FAILED | SLEW_TIMEOUT | CENTERING_ITERATIONS_EXHAUSTED | TRACKING_LOST
| MOUNT_FAULT | CAMERA_FAULT | FOCUSER_FAULT | AGENT_LINK_LOST | HEARTBEAT_LOST
| MF_SAFETY_REFUSED | MF_SAFETY_ENVELOPE_UNMEASURED | TARGET_SET_BELOW_LIMIT
| WEATHER_UNSAFE | SESSION_EXPIRED | OPERATOR_ABORT | CUSTOMER_CANCELLED | MF_PAYMENT_FAILED
datatype joinPolicy = JOIN_DISABLED | JOIN_OPEN
datatype missionEventSource = FROM_CLOUD | FROM_AGENT | FROM_OPERATOR
datatype commandType =
  CMD_GOTO | CMD_NUDGE | CMD_CAPTURE | CMD_FOCUS | CMD_ABORT | CMD_PARK | CMD_SET_PROFILE | CMD_RETARGET
datatype commandStatus =
  CS_RECEIVED | CS_AUTHORIZED | CS_EXECUTING | CS_COMPLETED | CS_REJECTED | CS_EXPIRED | CS_FAILED
datatype acceptanceStatus = AS_ACCEPTED | AS_REJECTED | AS_DUPLICATE | AS_EXPIRED | AS_COMPLETED | AS_FAILED
datatype creditLedgerReason =
  SUBSCRIPTION_GRANT | MISSION_DEBIT | PRIVATE_SESSION_DEBIT | CREDIT_REFUND | ADJUSTMENT | EXPIRY
datatype loyaltyEntryKind =
  WELCOME_BONUS | REFERRAL_BONUS | PURCHASE_EARNED | PURCHASE_REVERSED | REDEEMED_POINTS
| REDEMPTION_RELEASED | ADMIN_ADJUSTMENT
datatype entitlementOutcome = EN_NONE | EN_OPEN | EN_REFUNDED | EN_RESCHEDULED
datatype lossCause = LOSS_WEATHER | LOSS_OBSERVATORY_FAULT
datatype voucherStatus = GV_PENDING_PAYMENT | GV_ACTIVE | GV_REDEEMED | GV_CANCELLED
datatype prizeStatus = PZ_ACTIVE | PZ_REDEEMED
datatype prizeKind = FREE_SLOT | OBSERVER_SEAT | DISCOUNT
datatype subscriptionStatus = SUB_TRIALING | SUB_ACTIVE | SUB_PAUSED | SUB_CANCELLED | SUB_EXPIRED
datatype subscriptionPlan = PLAN_OBSERVER | PLAN_EXPLORER | PLAN_ADVANCED
datatype packStatus = PK_PENDING_PAYMENT | PK_PAID | PK_CANCELLED | PK_EXPIRED
datatype waitlistStatus = WL_WAITING | WL_OFFERED | WL_CLAIMED | WL_LAPSED | WL_ENDED | WL_LEFT
datatype observatoryStatus = OB_ONLINE | OB_OFFLINE | OB_WEATHER_HOLD | OB_MAINTENANCE
datatype agentPosture = AP_SIMULATED | AP_ATTENDED | AP_UNATTENDED | AP_DISARMED
datatype disarmReason =
  HARDWARE_FAULT | PARK_FAILED | LINK_LOST | APPROVAL_WITHDRAWN | LOCAL_DISARM | SKY_SENSOR_STALE
datatype approvalStatus = NODE_DRAFT | NODE_UNDER_REVIEW | NODE_APPROVED | NODE_SUSPENDED
datatype auditCategory =
  AUTH | BOOKING | PAYMENT | MISSION | COMMAND | SAFETY | OBSERVATORY_MODE
| OPERATOR_OVERRIDE | AGENT_LINK | LOYALTY | SUBSCRIPTION | CARD_DRAW
datatype emailKind =
  MAIL_BOOKING_CONFIRMED | MAIL_SLOT_REMINDER | MAIL_WEATHER_HOLD | MAIL_CAPTURE_READY
| MAIL_ENTITLEMENT_AVAILABLE | MAIL_BOOKING_REFUNDED | MAIL_GIFT_VOUCHER_ISSUED
| MAIL_GIFT_VOUCHER_RESTORED | MAIL_SUBSCRIPTION_MINUTES_RETURNED
| MAIL_OBSERVER_PACK_REFUNDED | MAIL_CARD_PRIZE_WON | MAIL_WAITLIST_OFFER | MAIL_SESSION_SUMMARY

text \<open>A JSON value, of an audit detail or of a request body.\<close>

datatype json =
  JNull | JBool bool | JNum int | JReal real | JStr string | JList "json list" | JObj "(string \<times> json) list"

abbreviation json_opt :: "string option \<Rightarrow> json" where
  "json_opt v \<equiv> (case v of None \<Rightarrow> JNull | Some t \<Rightarrow> JStr t)"

section \<open>Rows\<close>

record creditAccount_row =
  ca_userId :: ident
  ca_balance :: int

record creditLedger_row =
  cl_userId :: ident
  cl_missionId :: "ident option"
  cl_amount :: int
  cl_balanceAfter :: int
  cl_reason :: creditLedgerReason
  cl_idempotencyKey :: string
  cl_note :: "string option"
  cl_isDemo :: bool

record loyaltyAccount_row =
  la_userId :: ident
  la_balance :: int
  la_tierPoints :: int
  la_tierCode :: string
  la_referralCode :: string
  la_referredByUserId :: "ident option"
  la_referralRewardedAt :: "time option"

record loyaltyLedger_row =
  le_userId :: ident
  le_kind :: loyaltyEntryKind
  le_points :: int
  le_tierPoints :: int
  le_sourceRef :: string
  le_bookingId :: "ident option"
  le_reason :: "string option"
  le_actorUserId :: "ident option"

record loyaltyScheme_row =
  ls_id :: int
  ls_pointsPerGel :: int
  ls_pointsPerGelRedeemed :: int
  ls_welcomeBonusPoints :: int
  ls_referralBonusPoints :: int
  ls_minimumPayableMinor :: int

record loyaltyTier_row =
  lt_code :: string
  lt_thresholdPoints :: int
  lt_discountPercent :: int

record auditLog_row =
  au_category :: auditCategory
  au_action :: string
  au_actorUserId :: "ident option"
  au_missionId :: "ident option"
  au_commandId :: "ident option"
  au_entityType :: "string option"
  au_entityId :: "ident option"
  au_metadata :: "(string \<times> json) list"
  au_isDemo :: bool

record email_row =
  ml_userId :: ident
  ml_kind :: emailKind
  ml_dedupeKey :: string
  ml_payload :: "(string \<times> string) list"

record booking_row =
  bk_id :: ident
  bk_userId :: ident
  bk_targetId :: ident
  bk_observatoryId :: ident
  bk_telescopeId :: ident
  bk_missionId :: "ident option"
  bk_paymentId :: "ident option"
  bk_slotStartAt :: time
  bk_durationMinutes :: int
  bk_status :: bookingStatus
  bk_holdExpiresAt :: "time option"
  bk_priceMinor :: int
  bk_currency :: currency
  bk_idempotencyKey :: "string option"
  bk_tierDiscountMinor :: int
  bk_loyaltyPointsRedeemed :: int
  bk_subscriptionMinutesSpent :: int
  bk_isDemo :: bool
  bk_createdAt :: time

record payment_row =
  pay_id :: ident
  pay_userId :: ident
  pay_purpose :: paymentPurpose
  pay_provider :: paymentProvider
  pay_status :: paymentStatus
  pay_amountMinor :: int
  pay_currency :: currency
  pay_providerRef :: "string option"
  pay_redirectUrl :: "string option"
  pay_failureReason :: "string option"
  pay_capturedAt :: "time option"
  pay_refundedAt :: "time option"
  pay_subscriptionId :: "ident option"
  pay_periodStart :: "time option"
  pay_isDemo :: bool

record mission_row =
  mi_id :: ident
  mi_userId :: ident
  mi_targetId :: ident
  mi_observatoryId :: ident
  mi_telescopeId :: ident
  mi_state :: missionState
  mi_mode :: observatoryMode
  mi_observerCapacity :: nat
  mi_requestedAt :: time
  mi_scheduledFor :: "time option"
  mi_isDemo :: bool
  mi_failureReason :: "missionFailureReason option"
  mi_joinPolicy :: joinPolicy
  mi_broadcast :: bool
  mi_startedAt :: "time option"
  mi_completedAt :: "time option"
  mi_currentTargetId :: "ident option"
  mi_currentTargetSince :: "time option"
  mi_imageUnrecoveredSince :: "time option"
  mi_slotEndNotifiedAt :: "time option"
  mi_sessionEndedNotifiedAt :: "time option"

record missionEvent_row =
  ev_missionId :: ident
  ev_state :: missionState
  ev_failureReason :: "missionFailureReason option"
  ev_source :: missionEventSource
  ev_commandId :: "ident option"
  ev_message :: "string option"
  ev_occurredAt :: time
  ev_simulated :: bool
  ev_isDemo :: bool

record entitlement_row =
  en_id :: ident
  en_bookingId :: ident
  en_userId :: ident
  en_outcome :: entitlementOutcome
  en_resolvedAt :: "time option"
  en_rescheduledBookingId :: "ident option"
  en_cause :: "lossCause option"
  en_minutesLost :: int
  en_expiresAt :: "time option"

record giftVoucher_row =
  gv_id :: ident
  gv_paymentId :: ident
  gv_codeHash :: string
  gv_durationMinutes :: int
  gv_status :: voucherStatus
  gv_expiresAt :: "time option"
  gv_redeemedAt :: "time option"
  gv_redeemedByUserId :: "ident option"
  gv_redeemedBookingId :: "ident option"

record cardPrize_row =
  pz_id :: ident
  pz_drawId :: ident
  pz_userId :: ident
  pz_observatoryId :: ident
  pz_kind :: prizeKind
  pz_status :: prizeStatus
  pz_codeHash :: string
  pz_codeLast4 :: string
  pz_durationMinutes :: "int option"
  pz_percentOff :: "int option"
  pz_expiresAt :: time
  pz_redeemedAt :: "time option"
  pz_redeemedBookingId :: "ident option"
  pz_redeemedObserverPackId :: "ident option"
  pz_isDemo :: bool
  pz_createdAt :: time

text \<open>The weekly card draw: the odds, a deal, its cards, and the free slots a week's deals hold.\<close>

datatype cardRarity = CR_LEGENDARY | CR_EPIC | CR_RARE | CR_COMMON

record cardDrawScheme_row =
  cs_id :: int
  cs_freeSlotChanceBp :: int
  cs_observerSeatChanceBp :: int
  cs_discountChanceBp :: int
  cs_freeSlotsPerWeek :: int
  cs_discountPercentOff :: int
  cs_prizeValidDays :: int

record cardDraw_row =
  cd_id :: ident
  cd_userId :: ident
  cd_observatoryId :: ident
  cd_week :: time
  cd_closesAt :: time
  cd_pickedPosition :: "int option"
  cd_pickedAt :: "time option"
  cd_pickIdempotencyKey :: "string option"
  cd_isDemo :: bool
  cd_createdAt :: time

record cardDrawCard_row =
  cc_drawId :: ident
  cc_position :: int
  cc_rarity :: cardRarity
  cc_targetId :: "ident option"

record cardDrawWeek_row =
  cw_observatoryId :: ident
  cw_week :: time
  cw_freeSlotsHeld :: int

record subscription_row =
  sb_id :: ident
  sb_userId :: ident
  sb_plan :: subscriptionPlan
  sb_status :: subscriptionStatus
  sb_startsAt :: time
  sb_priceMinor :: int
  sb_endsAt :: "time option"
  sb_currentPeriodStart :: "time option"
  sb_currentPeriodEnd :: "time option"
  sb_cancelAtPeriodEnd :: bool
  sb_pausedAt :: "time option"
  sb_providerMandateRef :: "string option"
  sb_lastPaymentId :: "ident option"
  sb_isDemo :: bool

record planConfig_row =
  pc_plan :: subscriptionPlan
  pc_minutesPerPeriod :: int
  pc_priceMinor :: int
  pc_isAvailable :: bool

record observerPack_row =
  pk_id :: ident
  pk_missionId :: ident
  pk_userId :: ident
  pk_paymentId :: "ident option"
  pk_status :: packStatus
  pk_holdExpiresAt :: "time option"
  pk_paidAt :: "time option"
  pk_priceMinor :: int
  pk_currency :: currency
  pk_isDemo :: bool
  pk_refundedMinor :: "int option"
  pk_refundedAt :: "time option"
  pk_refundOwedMinor :: "int option"

record waitlist_row =
  wl_id :: ident
  wl_userId :: ident
  wl_observatoryId :: ident
  wl_slotStartAt :: time
  wl_durationMinutes :: int
  wl_status :: waitlistStatus
  wl_offeredAt :: "time option"
  wl_offerExpiresAt :: "time option"
  wl_endedAt :: "time option"
  wl_claimedBookingId :: "ident option"
  wl_createdAt :: time

record observatory_row =
  ob_id :: ident
  ob_mode :: observatoryMode
  ob_status :: observatoryStatus
  ob_isDemo :: bool
  ob_timezone :: string
  ob_latitude :: real
  ob_longitude :: real
  ob_agentPosture :: "agentPosture option"
  ob_agentDisarmReason :: "disarmReason option"
  ob_holdActive :: "bool option"
  ob_linkLostAt :: "time option"
  ob_agentBootedAt :: "time option"

record availabilityWindow_row =
  aw_weekday :: int
  aw_startMinute :: int
  aw_endMinute :: int
  aw_enabled :: bool

datatype nodeKind = NODE_FIRST_PARTY | NODE_PARTNER

record networkNode_row =
  nn_observatoryId :: ident
  nn_kind :: nodeKind
  nn_approvalStatus :: approvalStatus
  nn_primaryTelescopeId :: "ident option"
  nn_availabilityWindows :: "availabilityWindow_row list"

datatype targetType = TT_MOON | TT_PLANET | TT_DOUBLE_STAR | TT_GLOBULAR_CLUSTER | TT_PLANETARY_NEBULA | TT_BRIGHT_NEBULA
datatype opticalConfig = F20_BARLOW | F10_NATIVE | F6_3_REDUCER
datatype imagingProfile =
  IP_LUNAR | IP_PLANETARY | IP_DOUBLE_STAR | IP_GLOBULAR_CLUSTER | IP_PLANETARY_NEBULA | IP_BRIGHT_NEBULA
datatype positionSource = POS_FIXED | POS_EPHEMERIS
datatype solarSystemBody =
  BODY_MOON | BODY_MERCURY | BODY_VENUS | BODY_MARS | BODY_JUPITER | BODY_SATURN | BODY_URANUS | BODY_NEPTUNE

record target_row =
  tg_id :: ident
  tg_slug :: string
  tg_nameEn :: string
  tg_type :: targetType
  tg_positionSource :: positionSource
  tg_rightAscensionHours :: "real option"
  tg_declinationDegrees :: "real option"
  tg_solarSystemBody :: "solarSystemBody option"
  tg_angularSizeArcmin :: real
  tg_magnitude :: real
  tg_opticalConfig :: opticalConfig
  tg_imagingProfile :: imagingProfile
  tg_minAltitudeDegrees :: real
  tg_expectedMissionMinutes :: int
  tg_enabled :: bool

text \<open>A stored floating-point number that the sources test with \<open>Number.isFinite\<close>.\<close>

datatype number = Num real | NaN | PosInf | NegInf

record horizonMaskEntry =
  hm_azimuthDegrees :: real
  hm_minAltitudeDegrees :: real

record azimuthSector =
  sx_fromDegrees :: real
  sx_toDegrees :: real

record safetyEnvelopeConfig =
  se_observatoryId :: ident
  se_minAltitudeDegrees :: real
  se_maxAltitudeDegrees :: "real option"
  se_maxAltitudeMeasuredBy :: "string option"
  se_horizonMask :: "horizonMaskEntry list"
  se_forbiddenAzimuthSectors :: "azimuthSector list"
  se_sunExclusionDegrees :: number
  se_daylightLockSunAltitudeDegrees :: number
  se_nudgeMaxDegrees :: real
  se_nudgeRateDegreesPerSecond :: real

record forecastHour_row =
  vf_observatoryId :: ident
  vf_at :: time
  vf_fetchedAt :: time
  vf_cloudCoverPercent :: "int option"

text \<open>The contract's \<open>EquatorialCoordinates\<close> and command payloads, as a command row stores them.\<close>

record equatorial =
  eq_raHours :: real
  eq_decDegrees :: real

record goto_payload =
  gp_targetId :: ident
  gp_coordinates :: equatorial
  gp_opticalConfig :: opticalConfig
  gp_imagingProfile :: imagingProfile

datatype nudgeAxis = AXIS_ALTITUDE | AXIS_AZIMUTH
datatype nudgeDirection = DIR_POSITIVE | DIR_NEGATIVE
datatype focusMode = AUTOFOCUS | FOCUS_ABSOLUTE

record nudge_payload =
  np_axis :: nudgeAxis
  np_direction :: nudgeDirection
  np_stepArcminutes :: real

record capture_payload =
  cpp_imagingProfile :: imagingProfile
  cpp_requestedFrames :: "int option"
  cpp_targetIntegrationSeconds :: "real option"

record setProfile_payload =
  sp_imagingProfile :: imagingProfile
  sp_exposureMilliseconds :: "real option"
  sp_gain :: "int option"
  sp_regionOfInterest :: "(int \<times> int \<times> int \<times> int) option"

datatype commandPayload =
    Goto goto_payload "bool option"
  | Nudge nudge_payload
  | Capture capture_payload
  | Focus focusMode "int option"
  | Abort "string option"
  | Park "string option"
  | SetProfile setProfile_payload
  | Retarget goto_payload

record missionSession_row =
  ss_id :: ident
  ss_missionId :: ident
  ss_userId :: ident
  ss_issuedAt :: time
  ss_expiresAt :: time
  ss_revokedAt :: "time option"
  ss_revokedFor :: "string option"
  ss_isDemo :: bool

record commandResult =
  cr_status :: acceptanceStatus
  cr_rejectionReason :: "string option"
  cr_detail :: "string option"
  cr_decidedAt :: time

record command_row =
  cm_id :: ident
  cm_missionId :: ident
  cm_sessionId :: ident
  cm_userId :: ident
  cm_observatoryId :: ident
  cm_type :: commandType
  cm_status :: commandStatus
  cm_issuedAt :: time
  cm_expiresAt :: time
  cm_relayedAt :: "time option"
  cm_completedAt :: "time option"
  cm_payload :: commandPayload
  cm_result :: "commandResult option"
  cm_simulated :: bool
  cm_isDemo :: bool

datatype assetKind = ASSET_IMAGE | ASSET_THUMBNAIL | ASSET_FITS | ASSET_UNMARKED

record capture_row =
  cp_id :: ident
  cp_userId :: ident
  cp_missionId :: ident
  cp_targetId :: ident
  cp_observatoryId :: ident
  cp_telescopeId :: ident
  cp_commandId :: "ident option"
  cp_capturedAt :: time
  cp_imagingProfile :: imagingProfile
  cp_opticalConfig :: opticalConfig
  cp_exposureMilliseconds :: real
  cp_gain :: int
  cp_framesStacked :: int
  cp_integrationSeconds :: real
  cp_widthPx :: "int option"
  cp_heightPx :: "int option"
  cp_solvedFocalLengthMm :: "real option"
  cp_fitsAvailable :: bool
  cp_processingPreset :: string
  cp_assets :: "(assetKind \<times> string) list"
  cp_mode :: observatoryMode
  cp_isDemo :: bool

record captureAccess_row =
  cx_captureId :: ident
  cx_missionId :: ident
  cx_userId :: ident
  cx_status :: string
  cx_isDemo :: bool

datatype participantStatus = MP_JOINED | MP_LEFT

record participant_row =
  mp_id :: ident
  mp_missionId :: ident
  mp_userId :: ident
  mp_status :: participantStatus
  mp_joinedAt :: time
  mp_leftAt :: "time option"
  mp_canSaveCaptures :: bool
  mp_isDemo :: bool

text \<open>What \<open>pg_notify\<close> carries to the realtime service (relay.ts), in the order it was sent.\<close>

datatype agentNotification =
    NOTIFY_COMMAND (nt_commandId: ident) ident
  | NOTIFY_SESSION ident ident "ident option"
  | NOTIFY_ENVELOPE ident
  | NOTIFY_WEATHER ident
  | NOTIFY_OPERATING ident
  | NOTIFY_CREDENTIAL ident

section \<open>The database\<close>

record db =
  creditAccount :: "creditAccount_row list"
  creditLedger :: "creditLedger_row list"
  loyaltyAccount :: "loyaltyAccount_row list"
  loyaltyLedgerEntry :: "loyaltyLedger_row list"
  loyaltyScheme :: "loyaltyScheme_row list"
  loyaltyTier :: "loyaltyTier_row list"
  auditLog :: "auditLog_row list"
  emailNotification :: "email_row list"
  booking :: "booking_row list"
  payment :: "payment_row list"
  mission :: "mission_row list"
  missionEvent :: "missionEvent_row list"
  bookingEntitlement :: "entitlement_row list"
  giftVoucher :: "giftVoucher_row list"
  cardPrize :: "cardPrize_row list"
  cardDrawScheme :: "cardDrawScheme_row list"
  cardDraw :: "cardDraw_row list"
  cardDrawCard :: "cardDrawCard_row list"
  cardDrawWeek :: "cardDrawWeek_row list"
  subscription :: "subscription_row list"
  subscriptionPlanConfig :: "planConfig_row list"
  observerPack :: "observerPack_row list"
  waitlistEntry :: "waitlist_row list"
  observatory :: "observatory_row list"
  observatoryNetworkNode :: "networkNode_row list"
  target :: "target_row list"
  viewingForecastHour :: "forecastHour_row list"
  safetyEnvelope :: "safetyEnvelopeConfig list"
  missionSession :: "missionSession_row list"
  observatoryCommand :: "command_row list"
  capture :: "capture_row list"
  captureAccess :: "captureAccess_row list"
  missionParticipant :: "participant_row list"
  agentMessage :: "ident list"
  agentChannel :: "agentNotification list"

definition empty_db :: db where
  "empty_db = \<lparr>creditAccount = [], creditLedger = [], loyaltyAccount = [], loyaltyLedgerEntry = [],
     loyaltyScheme = [], loyaltyTier = [], auditLog = [], emailNotification = [], booking = [],
     payment = [], mission = [], missionEvent = [], bookingEntitlement = [], giftVoucher = [],
     cardPrize = [], cardDrawScheme = [], cardDraw = [], cardDrawCard = [], cardDrawWeek = [], subscription = [], subscriptionPlanConfig = [], observerPack = [],
     waitlistEntry = [], observatory = [], observatoryNetworkNode = [], target = [],
     viewingForecastHour = [], safetyEnvelope = [], missionSession = [], observatoryCommand = [],
     capture = [], captureAccess = [], missionParticipant = [], agentMessage = [], agentChannel = []\<rparr>"

end
