(* ===== verification/Audit_Log.thy ===== *)
theory Audit_Log
  imports Schema
begin

text \<open>
  The audit trail and the email outbox: \<open>recordAuditEvent\<close> and
  \<open>assertDetailCarriesNoSecret\<close> of src/packages/db/audit.ts and \<open>queueEmail\<close> of
  src/packages/db/notifications.ts. Both are called inside the transactions of every other
  component, so their effect on the rest of the database (none) and the fact that a literal
  detail never trips the secret guard are collected here once.
\<close>

section \<open>Definitions\<close>

text \<open>The \<open>i\<close> flag of the guard's regular expression: letters equal up to the case bit.\<close>

fun same_letter :: "char \<Rightarrow> char \<Rightarrow> bool" where
  "same_letter (Char a0 a1 a2 a3 a4 a5 a6 a7) (Char b0 b1 b2 b3 b4 b5 b6 b7) \<longleftrightarrow>
     a0 = b0 \<and> a1 = b1 \<and> a2 = b2 \<and> a3 = b3 \<and> a4 = b4 \<and> a6 = b6 \<and> a7 = b7"

fun starts_with_ic :: "string \<Rightarrow> string \<Rightarrow> bool" where
  "starts_with_ic [] cs = True"
| "starts_with_ic (w # ws) [] = False"
| "starts_with_ic (w # ws) (c # cs) = (same_letter w c \<and> starts_with_ic ws cs)"

fun contains_ic :: "string \<Rightarrow> string \<Rightarrow> bool" where
  "contains_ic w [] = (w = [])"
| "contains_ic w (c # cs) = (starts_with_ic w (c # cs) \<or> contains_ic w cs)"

definition forbidden_words :: "string list" where
  "forbidden_words = [''token'', ''secret'', ''password'', ''passphrase'', ''credential'',
     ''cookie'', ''authorization'', ''apiKey'', ''privateKey'']"

definition FORBIDDEN_DETAIL_KEYS :: "string \<Rightarrow> bool" where
  "FORBIDDEN_DETAIL_KEYS key = list_ex (\<lambda>w. contains_ic w key) forbidden_words"

definition offending_keys :: "(string \<times> 'v) list \<Rightarrow> string list" where
  "offending_keys detail = filter FORBIDDEN_DETAIL_KEYS (map fst detail)"

definition assertDetailCarriesNoSecret :: "(string \<times> 'v) list \<Rightarrow> ('s, unit) tx" where
  "assertDetailCarriesNoSecret detail =
     (if offending_keys detail \<noteq> []
      then throw (JsError ''Audit detail may not carry a secret, token or device address'')
      else ret ())"

definition recordAuditEvent :: "auditLog_row \<Rightarrow> (db, unit) tx" where
  "recordAuditEvent entry =
     bindt (assertDetailCarriesNoSecret (au_metadata entry)) (\<lambda>_.
     modifies (\<lambda>s. s\<lparr>auditLog := auditLog s @ [entry]\<rparr>))"

definition queueEmail :: "email_row \<Rightarrow> (db, bool) tx" where
  "queueEmail email =
     bindt (assertDetailCarriesNoSecret (ml_payload email)) (\<lambda>_.
     bindt (tx_createSkip emailNotification emailNotification_update
              (\<lambda>new old. ml_dedupeKey new = ml_dedupeKey old) email) (\<lambda>count.
     ret (count = 1)))"

text \<open>An audit entry with every optional field absent.\<close>

definition audit_entry :: "auditCategory \<Rightarrow> string \<Rightarrow> (string \<times> json) list \<Rightarrow> auditLog_row" where
  "audit_entry c a d = \<lparr>au_category = c, au_action = a, au_actorUserId = None, au_missionId = None,
     au_commandId = None, au_entityType = None, au_entityId = None, au_metadata = d, au_isDemo = False\<rparr>"

definition email :: "ident \<Rightarrow> emailKind \<Rightarrow> string \<Rightarrow> (string \<times> string) list \<Rightarrow> email_row" where
  "email u k key p = \<lparr>ml_userId = u, ml_kind = k, ml_dedupeKey = key, ml_payload = p\<rparr>"

section \<open>The guard on literal keys\<close>

text \<open>
  Every detail key in the modelled sources is a literal; each is checked once here, and the
  bundle makes the guard disappear from the transactions that write it.
\<close>

lemma offending_keys_simps [simp]:
  "offending_keys [] = []"
  "offending_keys ((k, v) # d) =
     (if FORBIDDEN_DETAIL_KEYS k then k # offending_keys d else offending_keys d)"
  by (simp_all add: offending_keys_def)

lemmas guard_eval = FORBIDDEN_DETAIL_KEYS_def forbidden_words_def

lemma key_amount [simp]: "\<not> FORBIDDEN_DETAIL_KEYS ''amount''"
  and key_reason [simp]: "\<not> FORBIDDEN_DETAIL_KEYS ''reason''"
  and key_idempotencyKey [simp]: "\<not> FORBIDDEN_DETAIL_KEYS ''idempotencyKey''"
  and key_missionId [simp]: "\<not> FORBIDDEN_DETAIL_KEYS ''missionId''"
  and key_note [simp]: "\<not> FORBIDDEN_DETAIL_KEYS ''note''"
  and key_balanceAfter [simp]: "\<not> FORBIDDEN_DETAIL_KEYS ''balanceAfter''"
  and key_points [simp]: "\<not> FORBIDDEN_DETAIL_KEYS ''points''"
  and key_tierPoints [simp]: "\<not> FORBIDDEN_DETAIL_KEYS ''tierPoints''"
  and key_sourceRef [simp]: "\<not> FORBIDDEN_DETAIL_KEYS ''sourceRef''"
  and key_bookingId [simp]: "\<not> FORBIDDEN_DETAIL_KEYS ''bookingId''"
  and key_balance [simp]: "\<not> FORBIDDEN_DETAIL_KEYS ''balance''"
  and key_from [simp]: "\<not> FORBIDDEN_DETAIL_KEYS ''from''"
  and key_to [simp]: "\<not> FORBIDDEN_DETAIL_KEYS ''to''"
  by (simp_all add: guard_eval)

lemma key_cause [simp]: "\<not> FORBIDDEN_DETAIL_KEYS ''cause''"
  and key_expiresAt [simp]: "\<not> FORBIDDEN_DETAIL_KEYS ''expiresAt''"
  and key_automatic [simp]: "\<not> FORBIDDEN_DETAIL_KEYS ''automatic''"
  and key_provider [simp]: "\<not> FORBIDDEN_DETAIL_KEYS ''provider''"
  and key_amountMinor [simp]: "\<not> FORBIDDEN_DETAIL_KEYS ''amountMinor''"
  and key_currency [simp]: "\<not> FORBIDDEN_DETAIL_KEYS ''currency''"
  and key_paidBookingId [simp]: "\<not> FORBIDDEN_DETAIL_KEYS ''paidBookingId''"
  and key_minutes [simp]: "\<not> FORBIDDEN_DETAIL_KEYS ''minutes''"
  and key_voucherId [simp]: "\<not> FORBIDDEN_DETAIL_KEYS ''voucherId''"
  and key_waitlistEntryId [simp]: "\<not> FORBIDDEN_DETAIL_KEYS ''waitlistEntryId''"
  and key_kind [simp]: "\<not> FORBIDDEN_DETAIL_KEYS ''kind''"
  and key_prizeDiscountMinor [simp]: "\<not> FORBIDDEN_DETAIL_KEYS ''prizeDiscountMinor''"
  by (simp_all add: guard_eval)

lemma key_targetId [simp]: "\<not> FORBIDDEN_DETAIL_KEYS ''targetId''"
  and key_observatoryId [simp]: "\<not> FORBIDDEN_DETAIL_KEYS ''observatoryId''"
  and key_slotStartAt [simp]: "\<not> FORBIDDEN_DETAIL_KEYS ''slotStartAt''"
  and key_durationMinutes [simp]: "\<not> FORBIDDEN_DETAIL_KEYS ''durationMinutes''"
  and key_priceMinor [simp]: "\<not> FORBIDDEN_DETAIL_KEYS ''priceMinor''"
  and key_listPriceMinor [simp]: "\<not> FORBIDDEN_DETAIL_KEYS ''listPriceMinor''"
  and key_tierDiscountMinor [simp]: "\<not> FORBIDDEN_DETAIL_KEYS ''tierDiscountMinor''"
  and key_loyaltyPointsRedeemed [simp]: "\<not> FORBIDDEN_DETAIL_KEYS ''loyaltyPointsRedeemed''"
  and key_subscriptionMinutesSpent [simp]: "\<not> FORBIDDEN_DETAIL_KEYS ''subscriptionMinutesSpent''"
  and key_holdExpiresAt [simp]: "\<not> FORBIDDEN_DETAIL_KEYS ''holdExpiresAt''"
  and key_paymentId [simp]: "\<not> FORBIDDEN_DETAIL_KEYS ''paymentId''"
  and key_providerRef [simp]: "\<not> FORBIDDEN_DETAIL_KEYS ''providerRef''"
  by (simp_all add: guard_eval)

lemma key_failureReason [simp]: "\<not> FORBIDDEN_DETAIL_KEYS ''failureReason''"
  and key_bookingStatus [simp]: "\<not> FORBIDDEN_DETAIL_KEYS ''bookingStatus''"
  and key_scheduledFor [simp]: "\<not> FORBIDDEN_DETAIL_KEYS ''scheduledFor''"
  and key_seatReleased [simp]: "\<not> FORBIDDEN_DETAIL_KEYS ''seatReleased''"
  and key_result [simp]: "\<not> FORBIDDEN_DETAIL_KEYS ''result''"
  and key_expectedProvider [simp]: "\<not> FORBIDDEN_DETAIL_KEYS ''expectedProvider''"
  and key_expectedAmountMinor [simp]: "\<not> FORBIDDEN_DETAIL_KEYS ''expectedAmountMinor''"
  and key_expectedCurrency [simp]: "\<not> FORBIDDEN_DETAIL_KEYS ''expectedCurrency''"
  and key_reportedAmountMinor [simp]: "\<not> FORBIDDEN_DETAIL_KEYS ''reportedAmountMinor''"
  and key_reportedCurrency [simp]: "\<not> FORBIDDEN_DETAIL_KEYS ''reportedCurrency''"
  and key_settledStatus [simp]: "\<not> FORBIDDEN_DETAIL_KEYS ''settledStatus''"
  and key_plan [simp]: "\<not> FORBIDDEN_DETAIL_KEYS ''plan''"
  by (simp_all add: guard_eval)

lemma key_seatsTaken [simp]: "\<not> FORBIDDEN_DETAIL_KEYS ''seatsTaken''"
  and key_capacity [simp]: "\<not> FORBIDDEN_DETAIL_KEYS ''capacity''"
  and key_observerPackId [simp]: "\<not> FORBIDDEN_DETAIL_KEYS ''observerPackId''"
  and key_seatsHeld [simp]: "\<not> FORBIDDEN_DETAIL_KEYS ''seatsHeld''"
  and key_paidAt [simp]: "\<not> FORBIDDEN_DETAIL_KEYS ''paidAt''"
  and key_closedAt [simp]: "\<not> FORBIDDEN_DETAIL_KEYS ''closedAt''"
  and key_refundOwedMinor [simp]: "\<not> FORBIDDEN_DETAIL_KEYS ''refundOwedMinor''"
  and key_refundedMinor [simp]: "\<not> FORBIDDEN_DETAIL_KEYS ''refundedMinor''"
  and key_observable [simp]: "\<not> FORBIDDEN_DETAIL_KEYS ''observable''"
  and key_detached [simp]: "\<not> FORBIDDEN_DETAIL_KEYS ''detached''"
  and key_refunds [simp]: "\<not> FORBIDDEN_DETAIL_KEYS ''refunds''"
  by (simp_all add: guard_eval)

lemma key_actorRole [simp]: "\<not> FORBIDDEN_DETAIL_KEYS ''actorRole''"
  and key_bounded [simp]: "\<not> FORBIDDEN_DETAIL_KEYS ''bounded''"
  and key_sessionId [simp]: "\<not> FORBIDDEN_DETAIL_KEYS ''sessionId''"
  and key_coordinates [simp]: "\<not> FORBIDDEN_DETAIL_KEYS ''coordinates''"
  and key_revokedCount [simp]: "\<not> FORBIDDEN_DETAIL_KEYS ''revokedCount''"
  and key_commandType [simp]: "\<not> FORBIDDEN_DETAIL_KEYS ''commandType''"
  and key_rejectionReason [simp]: "\<not> FORBIDDEN_DETAIL_KEYS ''rejectionReason''"
  and key_requestedType [simp]: "\<not> FORBIDDEN_DETAIL_KEYS ''requestedType''"
  and key_simulated [simp]: "\<not> FORBIDDEN_DETAIL_KEYS ''simulated''"
  and key_disarmReason [simp]: "\<not> FORBIDDEN_DETAIL_KEYS ''disarmReason''"
  and key_outcome [simp]: "\<not> FORBIDDEN_DETAIL_KEYS ''outcome''"
  and key_sessionOwnerId [simp]: "\<not> FORBIDDEN_DETAIL_KEYS ''sessionOwnerId''"
  and key_lostAt [simp]: "\<not> FORBIDDEN_DETAIL_KEYS ''lostAt''"
  by (simp_all add: guard_eval)

lemma key_framesStacked [simp]: "\<not> FORBIDDEN_DETAIL_KEYS ''framesStacked''"
  and key_integrationSeconds [simp]: "\<not> FORBIDDEN_DETAIL_KEYS ''integrationSeconds''"
  and key_assetKinds [simp]: "\<not> FORBIDDEN_DETAIL_KEYS ''assetKinds''"
  and key_mode [simp]: "\<not> FORBIDDEN_DETAIL_KEYS ''mode''"
  and key_captureId [simp]: "\<not> FORBIDDEN_DETAIL_KEYS ''captureId''"
  and key_status [simp]: "\<not> FORBIDDEN_DETAIL_KEYS ''status''"
  and key_detail [simp]: "\<not> FORBIDDEN_DETAIL_KEYS ''detail''"
  and key_decidedAt [simp]: "\<not> FORBIDDEN_DETAIL_KEYS ''decidedAt''"
  and key_acceptedAt [simp]: "\<not> FORBIDDEN_DETAIL_KEYS ''acceptedAt''"
  and key_slotEndedAt [simp]: "\<not> FORBIDDEN_DETAIL_KEYS ''slotEndedAt''"
  and key_endReason [simp]: "\<not> FORBIDDEN_DETAIL_KEYS ''endReason''"
  and key_parked [simp]: "\<not> FORBIDDEN_DETAIL_KEYS ''parked''"
  and key_captureCount [simp]: "\<not> FORBIDDEN_DETAIL_KEYS ''captureCount''"
  and key_summaryEmailQueued [simp]: "\<not> FORBIDDEN_DETAIL_KEYS ''summaryEmailQueued''"
  and key_resolution [simp]: "\<not> FORBIDDEN_DETAIL_KEYS ''resolution''"
  and key_sessionsRevoked [simp]: "\<not> FORBIDDEN_DETAIL_KEYS ''sessionsRevoked''"
  and key_wasLive [simp]: "\<not> FORBIDDEN_DETAIL_KEYS ''wasLive''"
  by (simp_all add: guard_eval)

section \<open>Lemmas\<close>

lemma audit_entry_metadata [simp]:
  "au_metadata (audit_entry c a d) = d"
  "au_metadata (r\<lparr>au_actorUserId := u\<rparr>) = au_metadata r"
  "au_metadata (r\<lparr>au_missionId := m\<rparr>) = au_metadata r"
  "au_metadata (r\<lparr>au_commandId := cmd\<rparr>) = au_metadata r"
  "au_metadata (r\<lparr>au_entityType := t\<rparr>) = au_metadata r"
  "au_metadata (r\<lparr>au_entityId := i\<rparr>) = au_metadata r"
  "au_metadata (r\<lparr>au_isDemo := b\<rparr>) = au_metadata r"
  by (simp_all add: audit_entry_def)

lemma email_simps [simp]:
  "ml_payload (email u k key p) = p"
  "ml_dedupeKey (email u k key p) = key"
  "ml_userId (email u k key p) = u"
  "ml_kind (email u k key p) = k"
  by (simp_all add: email_def)

lemma recordAuditEvent_ok [tx_simps]:
  "offending_keys (au_metadata e) = [] \<Longrightarrow>
   recordAuditEvent e s = Inr ((), s\<lparr>auditLog := auditLog s @ [e]\<rparr>)"
  "offending_keys (au_metadata e) = [] \<Longrightarrow>
   bindt (recordAuditEvent e) k s = k () (s\<lparr>auditLog := auditLog s @ [e]\<rparr>)"
  by (simp_all add: recordAuditEvent_def assertDetailCarriesNoSecret_def bindt_def ret_def modifies_def)

lemma queueEmail_ok [tx_simps]:
  "offending_keys (ml_payload e) = [] \<Longrightarrow>
   queueEmail e s =
     (if list_ex (\<lambda>old. ml_dedupeKey e = ml_dedupeKey old) (emailNotification s) then Inr (False, s)
      else Inr (True, s\<lparr>emailNotification := emailNotification s @ [e]\<rparr>))"
  "offending_keys (ml_payload e) = [] \<Longrightarrow>
   bindt (queueEmail e) k s =
     (if list_ex (\<lambda>old. ml_dedupeKey e = ml_dedupeKey old) (emailNotification s) then k False s
      else k True (s\<lparr>emailNotification := emailNotification s @ [e]\<rparr>))"
  by (simp_all add: queueEmail_def assertDetailCarriesNoSecret_def bindt_def ret_def tx_createSkip_def)

text \<open>Neither touches a table of the domain: a property of the rest survives both.\<close>

lemma keeps_assert [keeps_intros]: "keeps I (assertDetailCarriesNoSecret d)"
  by (simp add: assertDetailCarriesNoSecret_def keeps_intros)

lemma keeps_recordAuditEvent:
  "(\<And>s t. I s \<Longrightarrow> I (s\<lparr>auditLog := t\<rparr>)) \<Longrightarrow> keeps I (recordAuditEvent e)"
  unfolding recordAuditEvent_def by (intro keeps_intros keeps_modifies) simp

lemma keeps_queueEmail:
  "(\<And>s t. I s \<Longrightarrow> I (s\<lparr>emailNotification := t\<rparr>)) \<Longrightarrow> keeps I (queueEmail e)"
  unfolding queueEmail_def by (intro keeps_intros keeps_createSkip) simp

text \<open>The definitions that evaluate a transaction on a concrete database.\<close>

lemmas eval_tx = bindt_def ret_def throw_def reads_def modifies_def tx_find_def tx_findOrThrow_def
  tx_createSkip_def tx_create_def tx_update_def tx_updateMany_def recordAuditEvent_def
  assertDetailCarriesNoSecret_def queueEmail_def

lemmas keeps_outbox = keeps_recordAuditEvent keeps_queueEmail

end
