(* ===== verification/Calendar.thy ===== *)
theory Calendar
  imports Prelude
begin

text \<open>
  The part of JavaScript's \<open>Date\<close> the sources use: the proleptic Gregorian calendar on
  milliseconds since the epoch (\<open>getUTCFullYear\<close>, \<open>getUTCMonth\<close>, \<open>getUTCDate\<close>,
  \<open>getUTCDay\<close>, \<open>Date.UTC\<close>, \<open>toISOString\<close>), after the ECMAScript abstract operations
  of the same names. The lemmas show that the calendar fields and the day number determine
  each other and that the ISO text determines the instant, which is what makes a ledger key
  that names a period by its ISO text unique to the period.
\<close>

section \<open>Definitions\<close>

definition InLeapYear :: "int \<Rightarrow> bool" where
  "InLeapYear y \<longleftrightarrow> y mod 4 = 0 \<and> (y mod 100 \<noteq> 0 \<or> y mod 400 = 0)"

definition DayFromYear :: "int \<Rightarrow> int" where
  "DayFromYear y =
     365 * (y - 1970) + (y - 1969) div 4 - (y - 1901) div 100 + (y - 1601) div 400"

text \<open>The largest year whose first day is not after the day: an estimate, corrected by one.\<close>

definition YearFromDay :: "int \<Rightarrow> int" where
  "YearFromDay d =
     (let y = 1970 + (400 * d) div 146097
      in if d < DayFromYear y then y - 1
         else if DayFromYear (y + 1) \<le> d then y + 1 else y)"

text \<open>Days before the first of a month (0 = January) in its year.\<close>

definition month_start :: "bool \<Rightarrow> int \<Rightarrow> int" where
  "month_start leap m =
     (if m \<le> 0 then 0 else if m = 1 then 31
      else (if m = 2 then 59 else if m = 3 then 90 else if m = 4 then 120 else if m = 5 then 151
            else if m = 6 then 181 else if m = 7 then 212 else if m = 8 then 243
            else if m = 9 then 273 else if m = 10 then 304 else if m = 11 then 334 else 365)
           + (if leap then 1 else 0))"

definition month_of_day :: "bool \<Rightarrow> int \<Rightarrow> int" where
  "month_of_day leap n =
     (if n < month_start leap 1 then 0 else if n < month_start leap 2 then 1
      else if n < month_start leap 3 then 2 else if n < month_start leap 4 then 3
      else if n < month_start leap 5 then 4 else if n < month_start leap 6 then 5
      else if n < month_start leap 7 then 6 else if n < month_start leap 8 then 7
      else if n < month_start leap 9 then 8 else if n < month_start leap 10 then 9
      else if n < month_start leap 11 then 10 else 11)"

definition days_in_month :: "int \<Rightarrow> int \<Rightarrow> int" where
  "days_in_month y m =
     month_start (InLeapYear y) (m + 1) - month_start (InLeapYear y) m"

definition year_of :: "int \<Rightarrow> int" where "year_of d = YearFromDay d"

definition month_of :: "int \<Rightarrow> int" where
  "month_of d = month_of_day (InLeapYear (year_of d)) (d - DayFromYear (year_of d))"

definition date_of :: "int \<Rightarrow> int" where
  "date_of d =
     d - DayFromYear (year_of d) - month_start (InLeapYear (year_of d)) (month_of d) + 1"

definition MakeDay :: "int \<Rightarrow> int \<Rightarrow> int \<Rightarrow> int" where
  "MakeDay y m dt =
     (let ym = y + m div 12; mn = m mod 12
      in DayFromYear ym + month_start (InLeapYear ym) mn + dt - 1)"

definition Day :: "time \<Rightarrow> int" where "Day t = t div day_ms"

definition TimeWithinDay :: "time \<Rightarrow> int" where "TimeWithinDay t = t mod day_ms"

definition WeekDay :: "int \<Rightarrow> int" where "WeekDay d = (d + 4) mod 7"

text \<open>\<open>Date.UTC(year, month, day)\<close>: two-digit years are of the twentieth century.\<close>

definition DateUTC :: "int \<Rightarrow> int \<Rightarrow> int \<Rightarrow> time" where
  "DateUTC y m dt =
     MakeDay (if 0 \<le> y \<and> y \<le> 99 then 1900 + y else y) m dt * day_ms"

text \<open>\<open>setUTCMonth(month)\<close>: the day of the month and the time of day stay.\<close>

definition setUTCMonth :: "time \<Rightarrow> int \<Rightarrow> time" where
  "setUTCMonth t m =
     MakeDay (year_of (Day t)) m (date_of (Day t)) * day_ms + TimeWithinDay t"

definition digit :: "int \<Rightarrow> char" where
  "digit n = char_of (48 + nat n)"

fun pad :: "nat \<Rightarrow> int \<Rightarrow> string" where
  "pad 0 n = []"
| "pad (Suc w) n = pad w (n div 10) @ [digit (n mod 10)]"

definition toISOString :: "time \<Rightarrow> string" where
  "toISOString t =
     (let d = Day t; s = TimeWithinDay t; y = year_of d
      in (if 0 \<le> y \<and> y \<le> 9999 then pad 4 y
          else (if y < 0 then ''-'' else ''+'') @ pad 6 \<bar>y\<bar>)
         @ ''-'' @ pad 2 (month_of d + 1) @ ''-'' @ pad 2 (date_of d)
         @ ''T'' @ pad 2 (s div 3600000) @ '':'' @ pad 2 (s div 60000 mod 60)
         @ '':'' @ pad 2 (s div 1000 mod 60) @ ''.'' @ pad 3 (s mod 1000) @ ''Z'')"

section \<open>Years and months\<close>

lemma div_bracket: "0 < n \<Longrightarrow> n * (x div n) \<le> x \<and> x < n * (x div n) + n" for x n :: int
  using mult_div_mod_eq [of n x] pos_mod_sign [of n x] pos_mod_bound [of n x] by linarith

lemma div_Suc_int:
  fixes x n :: int
  assumes "1 < n"
  shows "(x + 1) div n = x div n + (if n dvd x + 1 then 1 else 0)"
proof (cases "n dvd x + 1")
  case True
  then obtain k where k: "x + 1 = n * k" by blast
  then have "x = n * (k - 1) + (n - 1)" by (simp add: algebra_simps)
  then have "x div n = k - 1"
    using assms by (intro int_div_pos_eq [of _ _ _ "n - 1"]) auto
  with k True assms show ?thesis by simp
next
  case False
  let ?q = "x div n" and ?r = "x mod n"
  have r: "0 \<le> ?r" "?r < n" "x = n * ?q + ?r" using assms by simp_all
  have "?r + 1 \<noteq> n"
  proof
    assume "?r + 1 = n"
    with r(3) have "x + 1 = n * ?q + n * 1" by linarith
    then have "x + 1 = n * (?q + 1)" by (simp only: distrib_left)
    with False show False by simp
  qed
  then have "(x + 1) div n = ?q"
    using r by (intro int_div_pos_eq [of _ _ _ "?r + 1"]) auto
  with False show ?thesis by simp
qed

lemma leap_length:
  "(q \<longrightarrow> p) \<Longrightarrow> (r \<longrightarrow> q) \<Longrightarrow>
   (if p \<and> (\<not> q \<or> r) then 366 else 365 :: int) =
   365 + (if p then 1 else 0) - (if q then 1 else 0) + (if r then 1 else 0)"
  by (cases p; cases q; cases r) simp_all

lemma DayFromYear_Suc:
  "DayFromYear (y + 1) = DayFromYear y + (if InLeapYear y then 366 else 365)"
proof -
  have q: "(y + 1 - 1969) div 4 = (y - 1969) div 4 + (if 4 dvd y then 1 else 0)"
    "(y + 1 - 1901) div 100 = (y - 1901) div 100 + (if 100 dvd y then 1 else 0)"
    "(y + 1 - 1601) div 400 = (y - 1601) div 400 + (if 400 dvd y then 1 else 0)"
    using div_Suc_int [of 4 "y - 1969"] div_Suc_int [of 100 "y - 1901"] div_Suc_int [of 400 "y - 1601"]
      dvd_diff_left_iff [of 4 1968 y] dvd_diff_left_iff [of 100 1900 y] dvd_diff_left_iff [of 400 1600 y]
    by simp_all
  have m: "100 dvd y \<longrightarrow> 4 dvd y" "400 dvd y \<longrightarrow> 100 dvd y"
    by (rule impI, erule dvd_trans [rotated], simp)+
  have "InLeapYear y \<longleftrightarrow> 4 dvd y \<and> (\<not> 100 dvd y \<or> 400 dvd y)"
    by (simp only: InLeapYear_def dvd_eq_mod_eq_0)
  then have "(if InLeapYear y then 366 else 365 :: int) =
      365 + (if 4 dvd y then 1 else 0) - (if 100 dvd y then 1 else 0) + (if 400 dvd y then 1 else 0)"
    using leap_length [OF m] by (simp only:)
  then show ?thesis
    unfolding DayFromYear_def q by (simp only: algebra_simps)
qed

lemma DayFromYear_bounds:
  "400 * DayFromYear y \<le> 146097 * (y - 1970) + 800"
  "146097 * (y - 1970) - 800 \<le> 400 * DayFromYear y"
proof -
  define a b c where "a = (y - 1969) div 4" and "b = (y - 1901) div 100" and "c = (y - 1601) div 400"
  have *: "4 * a \<le> y - 1969" "y - 1969 < 4 * a + 4"
    "100 * b \<le> y - 1901" "y - 1901 < 100 * b + 100"
    "400 * c \<le> y - 1601" "y - 1601 < 400 * c + 400"
    unfolding a_def b_def c_def
    using div_bracket [of 4 "y - 1969"] div_bracket [of 100 "y - 1901"] div_bracket [of 400 "y - 1601"]
    by simp_all
  have d: "DayFromYear y = 365 * (y - 1970) + a - b + c"
    by (simp add: DayFromYear_def a_def b_def c_def)
  show "400 * DayFromYear y \<le> 146097 * (y - 1970) + 800"
    using * by (simp add: d right_diff_distrib distrib_left)
  show "146097 * (y - 1970) - 800 \<le> 400 * DayFromYear y"
    using * by (simp add: d right_diff_distrib distrib_left)
qed

lemma DayFromYear_mono: "y \<le> z \<Longrightarrow> DayFromYear y \<le> DayFromYear z"
proof (induction z rule: int_ge_induct)
  case (step z)
  then show ?case using DayFromYear_Suc [of z] by (auto split: if_splits)
qed simp

lemma YearFromDay_bracket:
  "DayFromYear (YearFromDay d) \<le> d" "d < DayFromYear (YearFromDay d + 1)"
proof -
  define y where "y = 1970 + (400 * d) div 146097"
  have e: "146097 * (y - 1970) \<le> 400 * d" "400 * d < 146097 * (y - 1970) + 146097"
    unfolding y_def using div_bracket [of 146097 "400 * d"] by simp_all
  have lo: "DayFromYear (y - 1) \<le> d"
    using DayFromYear_bounds(1) [of "y - 1"] e by (simp add: right_diff_distrib)
  have hi: "d < DayFromYear (y + 2)"
    using DayFromYear_bounds(2) [of "y + 2"] e by (simp add: right_diff_distrib)
  show "DayFromYear (YearFromDay d) \<le> d" "d < DayFromYear (YearFromDay d + 1)"
    using lo hi unfolding YearFromDay_def y_def [symmetric] Let_def by (auto simp: add.commute)
qed

lemma YearFromDay_unique:
  assumes "DayFromYear y \<le> d" and "d < DayFromYear (y + 1)"
  shows "YearFromDay d = y"
proof (rule ccontr)
  assume "YearFromDay d \<noteq> y"
  then consider "YearFromDay d + 1 \<le> y" | "y + 1 \<le> YearFromDay d" by linarith
  then show False
  proof cases
    case 1
    from DayFromYear_mono [OF 1] YearFromDay_bracket [of d] assms show False by linarith
  next
    case 2
    from DayFromYear_mono [OF 2] YearFromDay_bracket [of d] assms show False by linarith
  qed
qed

lemma month_of_day_range: "0 \<le> month_of_day l n" "month_of_day l n \<le> 11"
  by (simp_all add: month_of_day_def)

lemma month_of_day_bracket:
  assumes "0 \<le> n" and "n < (if l then 366 else 365)"
  shows "month_start l (month_of_day l n) \<le> n" "n < month_start l (month_of_day l n + 1)"
  using assms by (auto simp: month_of_day_def month_start_def)

lemma month_of_day_unique:
  assumes "0 \<le> m" and "m \<le> 11" and "month_start l m \<le> n" and "n < month_start l (m + 1)"
  shows "month_of_day l n = m"
proof -
  have "m = 0 \<or> m = 1 \<or> m = 2 \<or> m = 3 \<or> m = 4 \<or> m = 5 \<or> m = 6 \<or> m = 7 \<or> m = 8 \<or> m = 9
    \<or> m = 10 \<or> m = 11"
    using assms(1,2) by presburger
  then show ?thesis
    using assms(3,4)
    by (elim disjE) (simp_all add: month_of_day_def month_start_def split: if_splits)
qed

lemma month_start_12: "month_start l 12 = (if l then 366 else 365)"
  by (simp add: month_start_def)

lemma days_in_month_bounds: "0 \<le> m \<Longrightarrow> m \<le> 11 \<Longrightarrow> 28 \<le> days_in_month y m \<and> days_in_month y m \<le> 31"
proof -
  assume "0 \<le> m" "m \<le> 11"
  then have "m = 0 \<or> m = 1 \<or> m = 2 \<or> m = 3 \<or> m = 4 \<or> m = 5 \<or> m = 6 \<or> m = 7 \<or> m = 8 \<or> m = 9
    \<or> m = 10 \<or> m = 11"
    by presburger
  then show ?thesis
    by (elim disjE) (simp_all add: days_in_month_def month_start_def)
qed

lemma day_in_year:
  "0 \<le> d - DayFromYear (year_of d)"
  "d - DayFromYear (year_of d) < (if InLeapYear (year_of d) then 366 else 365)"
  using YearFromDay_bracket [of d] DayFromYear_Suc [of "YearFromDay d"]
  by (auto simp: year_of_def split: if_splits)

lemma month_of_range: "0 \<le> month_of d" "month_of d \<le> 11"
  by (simp_all add: month_of_def month_of_day_range)

lemma date_of_range: "1 \<le> date_of d" "date_of d \<le> days_in_month (year_of d) (month_of d)"
  using month_of_day_bracket [OF day_in_year [of d]]
  by (simp_all add: date_of_def days_in_month_def month_of_def)

section \<open>Round trips\<close>

lemma MakeDay_fields: "MakeDay (year_of d) (month_of d) (date_of d) = d"
  using month_of_range [of d] by (simp add: MakeDay_def date_of_def)

lemma month_start_mono12: "0 \<le> m \<Longrightarrow> m \<le> 11 \<Longrightarrow> 0 \<le> month_start l m \<and> month_start l (m + 1) \<le> month_start l 12"
  by (auto simp: month_start_def)

lemma fields_MakeDay:
  assumes "0 \<le> m" and "m \<le> 11" and "1 \<le> dt" and "dt \<le> days_in_month y m"
  shows "year_of (MakeDay y m dt) = y" "month_of (MakeDay y m dt) = m" "date_of (MakeDay y m dt) = dt"
proof -
  let ?l = "InLeapYear y" and ?d = "MakeDay y m dt"
  have d: "?d = DayFromYear y + month_start ?l m + dt - 1"
    using assms(1,2) by (simp add: MakeDay_def)
  have lo: "month_start ?l m \<le> ?d - DayFromYear y" and hi: "?d - DayFromYear y < month_start ?l (m + 1)"
    using assms(3,4) by (simp_all add: d days_in_month_def)
  have "0 \<le> month_start ?l m" "month_start ?l (m + 1) \<le> month_start ?l 12"
    using month_start_mono12 [OF assms(1,2)] by auto
  then have "DayFromYear y \<le> ?d" "?d < DayFromYear (y + 1)"
    using lo hi by (auto simp: DayFromYear_Suc month_start_12 split: if_splits)
  then show y: "year_of ?d = y"
    by (simp add: year_of_def YearFromDay_unique)
  show m: "month_of ?d = m"
    unfolding month_of_def y by (rule month_of_day_unique [OF assms(1,2) lo hi])
  show "date_of ?d = dt"
    unfolding date_of_def m y by (simp add: d)
qed

lemma fields_determine_day:
  "year_of d = year_of e \<Longrightarrow> month_of d = month_of e \<Longrightarrow> date_of d = date_of e \<Longrightarrow> d = e"
  by (metis MakeDay_fields)

lemma Day_TimeWithinDay: "t = Day t * day_ms + TimeWithinDay t"
  by (simp add: Day_def TimeWithinDay_def)

lemma TimeWithinDay_range: "0 \<le> TimeWithinDay t" "TimeWithinDay t < day_ms"
  by (simp_all add: TimeWithinDay_def)

lemma Day_of_parts: "0 \<le> s \<Longrightarrow> s < day_ms \<Longrightarrow> Day (d * day_ms + s) = d"
  "0 \<le> s \<Longrightarrow> s < day_ms \<Longrightarrow> TimeWithinDay (d * day_ms + s) = s"
  by (simp_all add: Day_def TimeWithinDay_def)

section \<open>The ISO text\<close>

lemma length_pad [simp]: "length (pad w n) = w"
  by (induction w n rule: pad.induct) simp_all

lemma digit_inj:
  assumes "0 \<le> a" "a < 10" "0 \<le> b" "b < 10" "digit a = digit b"
  shows "a = b"
proof -
  have "of_char (digit a) = (of_char (digit b) :: nat)" using assms(5) by simp
  then have "48 + nat a = 48 + nat b"
    using assms(1-4) by (simp add: digit_def)
  with assms(1,3) show ?thesis by simp
qed

lemma pad_inj:
  "0 \<le> a \<Longrightarrow> a < 10 ^ w \<Longrightarrow> 0 \<le> b \<Longrightarrow> b < 10 ^ w \<Longrightarrow> pad w a = pad w b \<Longrightarrow> a = b"
proof (induction w arbitrary: a b)
  case (Suc w)
  have "a div 10 = b div 10"
    using Suc.prems by (intro Suc.IH) auto
  moreover have "digit (a mod 10) = digit (b mod 10)"
    using Suc.prems(5) by simp
  then have "a mod 10 = b mod 10"
    by (intro digit_inj) auto
  ultimately show ?case
    by (metis div_mult_mod_eq)
qed simp

lemma ms_split:
  "x = 3600000 * (x div 3600000) + 60000 * (x div 60000 mod 60)
     + 1000 * (x div 1000 mod 60) + x mod 1000" for x :: int
proof -
  have "x div 60000 div 60 = x div 3600000" "x div 1000 div 60 = x div 60000"
    by (simp_all add: zdiv_zmult2_eq [symmetric])
  then have "x div 60000 = 60 * (x div 3600000) + x div 60000 mod 60"
    "x div 1000 = 60 * (x div 60000) + x div 1000 mod 60"
    using mult_div_mod_eq [of 60 "x div 60000"] mult_div_mod_eq [of 60 "x div 1000"] by simp_all
  moreover have "x = 1000 * (x div 1000) + x mod 1000" by simp
  ultimately show ?thesis by linarith
qed

text \<open>Instants of the years 0 to 9999, which is every instant the platform handles.\<close>

definition four_digit_year :: "time \<Rightarrow> bool" where
  "four_digit_year t \<longleftrightarrow> 0 \<le> year_of (Day t) \<and> year_of (Day t) \<le> 9999"

lemma toISOString_inj:
  assumes "four_digit_year t" and "four_digit_year u" and "toISOString t = toISOString u"
  shows "t = u"
proof -
  let ?s = "TimeWithinDay t" and ?r = "TimeWithinDay u"
  have eqs: "pad 4 (year_of (Day t)) = pad 4 (year_of (Day u))"
    "pad 2 (month_of (Day t) + 1) = pad 2 (month_of (Day u) + 1)"
    "pad 2 (date_of (Day t)) = pad 2 (date_of (Day u))"
    "pad 2 (?s div 3600000) = pad 2 (?r div 3600000)"
    "pad 2 (?s div 60000 mod 60) = pad 2 (?r div 60000 mod 60)"
    "pad 2 (?s div 1000 mod 60) = pad 2 (?r div 1000 mod 60)"
    "pad 3 (?s mod 1000) = pad 3 (?r mod 1000)"
    using assms by (auto simp: toISOString_def four_digit_year_def Let_def)
  have y: "year_of (Day t) = year_of (Day u)"
    using assms eqs(1) by (intro pad_inj [of _ 4]) (auto simp: four_digit_year_def)
  have m: "month_of (Day t) = month_of (Day u)"
    using pad_inj [OF _ _ _ _ eqs(2)] month_of_range [of "Day t"] month_of_range [of "Day u"] by simp
  have le31: "date_of e \<le> 31" for e
    using date_of_range(2) [of e] days_in_month_bounds [OF month_of_range, of "year_of e" e] by linarith
  have d: "date_of (Day t) = date_of (Day u)"
    using date_of_range(1) [of "Day t"] date_of_range(1) [of "Day u"] le31 [of "Day t"] le31 [of "Day u"]
    by (intro pad_inj [OF _ _ _ _ eqs(3)]) auto
  have day: "Day t = Day u"
    by (rule fields_determine_day [OF y m d])
  have rng: "0 \<le> ?s" "?s < 86400000" "0 \<le> ?r" "?r < 86400000"
    by (simp_all add: TimeWithinDay_def)
  have h: "?s div 3600000 = ?r div 3600000"
    using rng by (intro pad_inj [OF _ _ _ _ eqs(4)]) auto
  have mi: "?s div 60000 mod 60 = ?r div 60000 mod 60"
    by (intro pad_inj [OF _ _ _ _ eqs(5)]) (auto intro: order.strict_trans [OF pos_mod_bound])
  have se: "?s div 1000 mod 60 = ?r div 1000 mod 60"
    by (intro pad_inj [OF _ _ _ _ eqs(6)]) (auto intro: order.strict_trans [OF pos_mod_bound])
  have ms: "?s mod 1000 = ?r mod 1000"
    by (intro pad_inj [OF _ _ _ _ eqs(7)]) auto
  have "?s = ?r"
    using ms_split [of ?s] ms_split [of ?r] h mi se ms by simp
  with day show ?thesis
    by (metis Day_TimeWithinDay)
qed

end
