(* ===== verification/Ledger.thy ===== *)
theory Ledger
  imports Prelude
begin

text \<open>
  The contract of an append-only ledger that is idempotent by source, which the header
  comments of src/packages/db/credits.ts and src/packages/db/loyalty.ts both state: posting
  an entry either records its key and moves the balance of its owner by its amount, or
  changes neither. The client lemmas are proved once from that contract; the credit ledger
  and the loyalty ledger interpret it.
\<close>

fun posted_entries :: "('r \<Rightarrow> bool) \<Rightarrow> 'e list \<Rightarrow> 'r list \<Rightarrow> 'e list" where
  "posted_entries ok (e # es) (r # rs) =
     (if ok r then e # posted_entries ok es rs else posted_entries ok es rs)"
| "posted_entries ok _ _ = []"

locale idempotent_ledger =
  fixes post :: "'e \<Rightarrow> ('s, 'r) tx"
    and posted :: "'r \<Rightarrow> bool"
    and bal :: "'s \<Rightarrow> ident \<Rightarrow> int"
    and keys :: "'s \<Rightarrow> 'k set"
    and key :: "'e \<Rightarrow> 'k"
    and owner :: "'e \<Rightarrow> ident"
    and amount :: "'e \<Rightarrow> int"
    and inv :: "'s \<Rightarrow> bool"
  assumes post_posted:
      "inv s \<Longrightarrow> post e s = Inr (r, s') \<Longrightarrow> posted r \<Longrightarrow>
       key e \<notin> keys s \<and> keys s' = insert (key e) (keys s)
       \<and> bal s' = (bal s)(owner e := bal s (owner e) + amount e)"
    and post_refused:
      "inv s \<Longrightarrow> post e s = Inr (r, s') \<Longrightarrow> \<not> posted r \<Longrightarrow> keys s' = keys s \<and> bal s' = bal s"
    and post_inv: "inv s \<Longrightarrow> post e s = Inr (r, s') \<Longrightarrow> inv s'"
begin

lemma recorded_never_posts:
  assumes "inv s" and "key e \<in> keys s" and "post e s = Inr (r, s')"
  shows "\<not> posted r \<and> bal s' = bal s \<and> keys s' = keys s"
proof -
  have "\<not> posted r" using post_posted [OF assms(1,3)] assms(2) by blast
  then show ?thesis using post_refused [OF assms(1,3)] by blast
qed

lemma post_twice:
  assumes "inv s" and "post e s = Inr (r, s1)" and "posted r" and "key e' = key e"
    and "post e' s1 = Inr (r', s2)"
  shows "\<not> posted r' \<and> bal s2 = bal s1 \<and> keys s2 = keys s1"
proof -
  have "key e' \<in> keys s1" using post_posted [OF assms(1-3)] assms(4) by simp
  with post_inv [OF assms(1,2)] show ?thesis using assms(5) by (rule recorded_never_posts)
qed

lemma keys_grow: "inv s \<Longrightarrow> post e s = Inr (r, s') \<Longrightarrow> keys s \<subseteq> keys s'"
  using post_posted post_refused by (cases "posted r") blast+

lemma post_all:
  assumes "inv s" and "tx_map post es s = Inr (rs, s')"
  shows "inv s' \<and> keys s' = keys s \<union> key ` set (posted_entries posted es rs)
    \<and> distinct (map key (posted_entries posted es rs))
    \<and> key ` set (posted_entries posted es rs) \<inter> keys s = {}
    \<and> (\<forall>u. bal s' u = bal s u
         + sum_list (map amount (filter (\<lambda>e. owner e = u) (posted_entries posted es rs))))"
  using assms
proof (induction es arbitrary: s rs)
  case Nil
  then show ?case by (simp add: tx_simps)
next
  case (Cons e es)
  from Cons.prems(2) obtain r s1 rs1 where p: "post e s = Inr (r, s1)"
    and m: "tx_map post es s1 = Inr (rs1, s')" and rs: "rs = r # rs1"
    by (auto simp: bindt_eq_Inr ret_def)
  note IH = Cons.IH [OF post_inv [OF Cons.prems(1) p] m]
  show ?case
  proof (cases "posted r")
    case True
    with IH post_posted [OF Cons.prems(1) p True] rs show ?thesis by auto
  next
    case False
    with IH post_refused [OF Cons.prems(1) p False] rs show ?thesis by auto
  qed
qed

end

end
