(* ===== verification/Credits.thy ===== *)
theory Credits
  imports Audit_Log Calendar Ledger
begin

text \<open>
  The credit ledger, src/packages/db/credits.ts: a balance of observation minutes per user,
  moved only by ledger entries that are unique on their idempotency key.

  \<open>postCreditEntry_with env\<close> takes what other transactions commit between the lookup of
  the key and the claim on the balance as a transaction \<open>env\<close>; \<open>postCreditEntry\<close> is the
  undisturbed case. The invariant \<open>credit_inv\<close> (every balance is the non-negative sum of
  its ledger entries, every entry's \<open>balanceAfter\<close> is the running sum, keys are unique) is
  kept under any interference that keeps it.
\<close>

section \<open>Definitions\<close>

record creditEntry =
  ce_userId :: ident
  ce_amount :: int
  ce_reason :: creditLedgerReason
  ce_idempotencyKey :: string
  ce_missionId :: "ident option"
  ce_note :: "string option"
  ce_actorUserId :: "ident option"
  ce_isDemo :: bool

datatype creditPostResult = Posted int | Not_posted spend_refusal

definition ensureCreditAccount :: "ident \<Rightarrow> (db, creditAccount_row) tx" where
  "ensureCreditAccount u =
     bindt (tx_createSkip creditAccount creditAccount_update
              (\<lambda>new old. ca_userId new = ca_userId old) \<lparr>ca_userId = u, ca_balance = 0\<rparr>) (\<lambda>_.
     tx_findOrThrow creditAccount (\<lambda>a. ca_userId a = u))"

definition ledger_row :: "creditEntry \<Rightarrow> int \<Rightarrow> creditLedger_row" where
  "ledger_row e after = \<lparr>cl_userId = ce_userId e, cl_missionId = ce_missionId e,
     cl_amount = ce_amount e, cl_balanceAfter = after, cl_reason = ce_reason e,
     cl_idempotencyKey = ce_idempotencyKey e, cl_note = ce_note e, cl_isDemo = ce_isDemo e\<rparr>"

fun creditReason_text :: "creditLedgerReason \<Rightarrow> string" where
  "creditReason_text SUBSCRIPTION_GRANT = ''SUBSCRIPTION_GRANT''"
| "creditReason_text MISSION_DEBIT = ''MISSION_DEBIT''"
| "creditReason_text PRIVATE_SESSION_DEBIT = ''PRIVATE_SESSION_DEBIT''"
| "creditReason_text CREDIT_REFUND = ''REFUND''"
| "creditReason_text ADJUSTMENT = ''ADJUSTMENT''"
| "creditReason_text EXPIRY = ''EXPIRY''"

definition credit_audit :: "creditEntry \<Rightarrow> int \<Rightarrow> auditLog_row" where
  "credit_audit e after =
     (audit_entry SUBSCRIPTION (''CREDIT_'' @ creditReason_text (ce_reason e))
        [(''amount'', JNum (ce_amount e)), (''reason'', JStr (creditReason_text (ce_reason e))),
         (''idempotencyKey'', JStr (ce_idempotencyKey e)),
         (''missionId'', json_opt (ce_missionId e)), (''note'', json_opt (ce_note e)),
         (''balanceAfter'', JNum after)])
     \<lparr>au_actorUserId := ce_actorUserId e, au_entityType := Some ''CreditAccount'',
      au_entityId := Some (ce_userId e)\<rparr>"

text \<open>The write half: claim the balance, append the entry, give the claim back when the
  entry turns out to be recorded already.\<close>

definition appendCreditEntry :: "creditEntry \<Rightarrow> (db, creditPostResult) tx" where
  "appendCreditEntry e =
     bindt (tx_findOrThrow creditAccount (\<lambda>a. ca_userId a = ce_userId e)) (\<lambda>account.
     bindt (tx_createSkip creditLedger creditLedger_update
              (\<lambda>new old. cl_idempotencyKey new = cl_idempotencyKey old)
              (ledger_row e (ca_balance account))) (\<lambda>count.
     if count = 0
     then bindt (tx_update creditAccount creditAccount_update
              (\<lambda>a. ca_userId a = ce_userId e)
              (\<lambda>a. a\<lparr>ca_balance := ca_balance a + - ce_amount e\<rparr>)) (\<lambda>_.
            ret (Not_posted SPEND_DUPLICATE))
     else bindt (recordAuditEvent (credit_audit e (ca_balance account))) (\<lambda>_.
            ret (Posted (ca_balance account)))))"

definition writeCreditEntry :: "creditEntry \<Rightarrow> (db, creditPostResult) tx" where
  "writeCreditEntry e =
     bindt (if ce_amount e < 0
            then tx_updateMany creditAccount creditAccount_update
                   (\<lambda>a. ca_userId a = ce_userId e \<and> - ce_amount e \<le> ca_balance a)
                   (\<lambda>a. a\<lparr>ca_balance := ca_balance a + ce_amount e\<rparr>)
            else if 0 < ce_amount e
            then bindt (tx_update creditAccount creditAccount_update
                   (\<lambda>a. ca_userId a = ce_userId e)
                   (\<lambda>a. a\<lparr>ca_balance := ca_balance a + ce_amount e\<rparr>)) (\<lambda>_. ret 1)
            else ret 1) (\<lambda>claimed.
     if claimed = 0 then ret (Not_posted INSUFFICIENT_CREDITS) else appendCreditEntry e)"

definition postCreditEntry_with :: "(db, unit) tx \<Rightarrow> creditEntry \<Rightarrow> (db, creditPostResult) tx" where
  "postCreditEntry_with env e =
     (if ce_reason e = PRIVATE_SESSION_DEBIT
      then throw (JsError ''PRIVATE_SESSION_DEBIT is not written in Phase 1 (ADR-022).'')
      else if \<not> isSafeInteger (ce_amount e)
      then throw (JsError ''A credit entry moves a whole number of minutes.'')
      else bindt (ensureCreditAccount (ce_userId e)) (\<lambda>_.
           bindt (tx_find creditLedger (\<lambda>r. cl_idempotencyKey r = ce_idempotencyKey e)) (\<lambda>already.
           if already \<noteq> None then ret (Not_posted SPEND_DUPLICATE)
           else bindt env (\<lambda>_. writeCreditEntry e))))"

definition postCreditEntry :: "creditEntry \<Rightarrow> (db, creditPostResult) tx" where
  "postCreditEntry e = postCreditEntry_with (ret ()) e"

definition readCreditBalance :: "db \<Rightarrow> ident \<Rightarrow> int" where
  "readCreditBalance s u =
     (case find (\<lambda>a. ca_userId a = u) (creditAccount s) of None \<Rightarrow> 0 | Some a \<Rightarrow> ca_balance a)"

definition booking_key :: "ident \<Rightarrow> string" where "booking_key b = ''booking:'' @ b"
definition release_key :: "ident \<Rightarrow> string" where "release_key b = ''booking:'' @ b @ '':release''"
definition renewal_key :: "ident \<Rightarrow> time \<Rightarrow> string" where
  "renewal_key sub start = ''renewal:'' @ sub @ '':'' @ toISOString start"
definition expiry_key :: "ident \<Rightarrow> time \<Rightarrow> string" where
  "expiry_key sub end = ''expiry:'' @ sub @ '':'' @ toISOString end"

definition plain_entry :: "ident \<Rightarrow> int \<Rightarrow> creditLedgerReason \<Rightarrow> string \<Rightarrow> creditEntry" where
  "plain_entry u n r k = \<lparr>ce_userId = u, ce_amount = n, ce_reason = r, ce_idempotencyKey = k,
     ce_missionId = None, ce_note = None, ce_actorUserId = None, ce_isDemo = False\<rparr>"

datatype bookingSpendResult = Spent | Not_spent spend_refusal

definition spendable_period :: "subscription_row option \<Rightarrow> time \<Rightarrow> bool" where
  "spendable_period sub now \<longleftrightarrow>
     (case sub of None \<Rightarrow> False
      | Some s \<Rightarrow> (sb_status s = SUB_ACTIVE \<or> sb_status s = SUB_PAUSED)
          \<and> (case sb_currentPeriodEnd s of None \<Rightarrow> False | Some e \<Rightarrow> now < e))"

definition spendBookingMinutes ::
  "ident \<Rightarrow> ident \<Rightarrow> int \<Rightarrow> bool \<Rightarrow> time \<Rightarrow> (db, bookingSpendResult) tx" where
  "spendBookingMinutes bookingId userId minutes isDemo now =
     bindt (tx_find subscription (\<lambda>s. sb_userId s = userId)) (\<lambda>sub.
     if \<not> spendable_period sub now then ret (Not_spent NO_CURRENT_PERIOD)
     else bindt (postCreditEntry ((plain_entry userId (- minutes) MISSION_DEBIT (booking_key bookingId))
                   \<lparr>ce_actorUserId := Some userId, ce_isDemo := isDemo\<rparr>)) (\<lambda>result.
     ret (case result of Posted _ \<Rightarrow> Spent | Not_posted r \<Rightarrow> Not_spent r)))"

definition hasRunningPeriod :: "ident \<Rightarrow> time \<Rightarrow> (db, bool) tx" where
  "hasRunningPeriod userId now =
     bindt (tx_find subscription (\<lambda>s. sb_userId s = userId)) (\<lambda>sub.
     ret (case sub of None \<Rightarrow> False
          | Some s \<Rightarrow> (case sb_currentPeriodEnd s of None \<Rightarrow> False | Some e \<Rightarrow> now < e)))"

definition releaseSpentMinutes :: "ident \<Rightarrow> ident \<Rightarrow> int \<Rightarrow> time \<Rightarrow> (db, unit) tx" where
  "releaseSpentMinutes bookingId userId minutesSpent now =
     (if minutesSpent \<le> 0 then ret ()
      else bindt (hasRunningPeriod userId now) (\<lambda>running.
           if \<not> running then ret ()
           else bindt (postCreditEntry
                  (plain_entry userId minutesSpent CREDIT_REFUND (release_key bookingId))) (\<lambda>_.
                ret ())))"

definition expireSubscriptionMinutes ::
  "subscription_row \<Rightarrow> time \<Rightarrow> (db, creditPostResult option) tx" where
  "expireSubscriptionMinutes sub periodEnd =
     bindt (reads (\<lambda>s. readCreditBalance s (sb_userId sub))) (\<lambda>balance.
     if balance \<le> 0 then ret None
     else bindt (postCreditEntry ((plain_entry (sb_userId sub) (- balance) EXPIRY
                    (expiry_key (sb_id sub) periodEnd))\<lparr>ce_isDemo := sb_isDemo sub\<rparr>)) (\<lambda>r.
          ret (Some r)))"

definition grantSubscriptionMinutes ::
  "subscription_row \<Rightarrow> time \<Rightarrow> int \<Rightarrow> (db, creditPostResult) tx" where
  "grantSubscriptionMinutes sub periodStart minutes =
     postCreditEntry ((plain_entry (sb_userId sub) minutes SUBSCRIPTION_GRANT
        (renewal_key (sb_id sub) periodStart))\<lparr>ce_isDemo := sb_isDemo sub\<rparr>)"

section \<open>The invariant\<close>

definition ledger_sum :: "ident \<Rightarrow> creditLedger_row list \<Rightarrow> int" where
  "ledger_sum u rows = sum_list (map cl_amount (filter (\<lambda>r. cl_userId r = u) rows))"

fun running_ok :: "creditLedger_row list \<Rightarrow> creditLedger_row list \<Rightarrow> bool" where
  "running_ok before [] = True"
| "running_ok before (r # rows) \<longleftrightarrow>
     cl_balanceAfter r = ledger_sum (cl_userId r) (before @ [r]) \<and> running_ok (before @ [r]) rows"

definition credit_inv :: "db \<Rightarrow> bool" where
  "credit_inv s \<longleftrightarrow>
     distinct (map ca_userId (creditAccount s))
     \<and> distinct (map cl_idempotencyKey (creditLedger s))
     \<and> (\<forall>a \<in> set (creditAccount s).
          0 \<le> ca_balance a \<and> ca_balance a = ledger_sum (ca_userId a) (creditLedger s))
     \<and> (\<forall>r \<in> set (creditLedger s). cl_userId r \<in> ca_userId ` set (creditAccount s))
     \<and> running_ok [] (creditLedger s)"

abbreviation credit_keys :: "db \<Rightarrow> string set" where
  "credit_keys s \<equiv> cl_idempotencyKey ` set (creditLedger s)"

section \<open>Closed forms\<close>

lemma credit_audit_clean [simp]: "offending_keys (au_metadata (credit_audit e n)) = []"
  by (simp add: credit_audit_def)

lemma ledger_row_simps [simp]:
  "cl_userId (ledger_row e n) = ce_userId e"
  "cl_amount (ledger_row e n) = ce_amount e"
  "cl_balanceAfter (ledger_row e n) = n"
  "cl_idempotencyKey (ledger_row e n) = ce_idempotencyKey e"
  by (simp_all add: ledger_row_def)

lemma plain_entry_simps [simp]:
  "ce_userId (plain_entry u n r k) = u" "ce_amount (plain_entry u n r k) = n"
  "ce_reason (plain_entry u n r k) = r" "ce_idempotencyKey (plain_entry u n r k) = k"
  by (simp_all add: plain_entry_def)

text \<open>The state an account is ensured in.\<close>

definition ensured :: "ident \<Rightarrow> db \<Rightarrow> db" where
  "ensured u s =
     (if u \<in> ca_userId ` set (creditAccount s) then s
      else s\<lparr>creditAccount := creditAccount s @ [\<lparr>ca_userId = u, ca_balance = 0\<rparr>]\<rparr>)"

lemma find_user_None: "find (\<lambda>a. ca_userId a = u) t = None \<longleftrightarrow> u \<notin> ca_userId ` set t"
  by (induction t) auto

lemma ensureCreditAccount_eq:
  "\<exists>a. ensureCreditAccount u s = Inr (a, ensured u s)"
proof (cases "u \<in> ca_userId ` set (creditAccount s)")
  case True
  then obtain a where "find (\<lambda>a. ca_userId a = u) (creditAccount s) = Some a"
    using find_user_None by fastforce
  with True show ?thesis
    by (auto simp: ensureCreditAccount_def ensured_def bindt_def tx_createSkip_def list_ex_key
        tx_findOrThrow_def)
next
  case False
  then have "find (\<lambda>a. ca_userId a = u) (creditAccount s) = None"
    by (simp add: find_user_None)
  with False show ?thesis
    by (auto simp: ensureCreditAccount_def ensured_def bindt_def tx_createSkip_def list_ex_key
        tx_findOrThrow_def find_append)
qed

lemma bindt_ensureCreditAccount [tx_simps]:
  "bindt (ensureCreditAccount u) (\<lambda>_. m) s = m (ensured u s)"
  using ensureCreditAccount_eq [of u s] by (auto simp: bindt_def)

lemma ensured_simps [simp]:
  "creditLedger (ensured u s) = creditLedger s"
  "u \<in> ca_userId ` set (creditAccount (ensured u s))"
  "subscription (ensured u s) = subscription s"
  "readCreditBalance (ensured u s) = readCreditBalance s"
  by (auto simp: ensured_def readCreditBalance_def find_append fun_eq_iff split: option.splits)

lemma ensured_idem: "u \<in> ca_userId ` set (creditAccount s) \<Longrightarrow> ensured u s = s"
  by (simp add: ensured_def)

text \<open>What a posted entry leaves behind.\<close>

definition credited :: "creditEntry \<Rightarrow> db \<Rightarrow> db" where
  "credited e s =
     (let n = readCreditBalance s (ce_userId e) + ce_amount e
      in s\<lparr>creditAccount := updateMany (\<lambda>a. ca_userId a = ce_userId e)
                              (\<lambda>a. a\<lparr>ca_balance := ca_balance a + ce_amount e\<rparr>) (creditAccount s),
           creditLedger := creditLedger s @ [ledger_row e n],
           auditLog := auditLog s @ [credit_audit e n]\<rparr>)"

lemma appendCreditEntry_eq:
  assumes a: "find (\<lambda>a. ca_userId a = ce_userId e) (creditAccount s) = Some a"
    and s1: "s1 = s\<lparr>creditAccount := updateMany (\<lambda>a. ca_userId a = ce_userId e)
                     (\<lambda>a. a\<lparr>ca_balance := ca_balance a + ce_amount e\<rparr>) (creditAccount s)\<rparr>"
  shows "appendCreditEntry e s1 =
    (if ce_idempotencyKey e \<in> credit_keys s then Inr (Not_posted SPEND_DUPLICATE, s)
     else Inr (Posted (ca_balance a + ce_amount e), credited e s))"
proof -
  let ?P = "\<lambda>a. ca_userId a = ce_userId e"
  have fnd: "find ?P (creditAccount s1) = Some (a\<lparr>ca_balance := ca_balance a + ce_amount e\<rparr>)"
    using find_keyed_update [of ca_userId _ "ce_userId e" "ce_userId e" "creditAccount s"] a
    by (simp add: s1)
  have undo: "updateMany ?P (\<lambda>a. a\<lparr>ca_balance := ca_balance a - ce_amount e\<rparr>) (creditAccount s1)
      = creditAccount s"
    by (simp add: s1 keyed_update_compose updateMany_ident)
  have ex: "list_ex ?P (creditAccount s1)" using fnd by (simp add: list_ex_find)
  have "readCreditBalance s (ce_userId e) = ca_balance a"
    using a by (simp add: readCreditBalance_def)
  with fnd undo ex show ?thesis
    by (simp add: appendCreditEntry_def tx_simps list_ex_key credited_def Let_def)
      (simp add: s1)
qed

lemma writeCreditEntry_eq:
  assumes d: "distinct (map ca_userId (creditAccount s))"
    and a: "find (\<lambda>a. ca_userId a = ce_userId e) (creditAccount s) = Some a"
  shows "writeCreditEntry e s =
    (if ce_amount e < 0 \<and> ca_balance a < - ce_amount e then Inr (Not_posted INSUFFICIENT_CREDITS, s)
     else if ce_idempotencyKey e \<in> credit_keys s then Inr (Not_posted SPEND_DUPLICATE, s)
     else Inr (Posted (ca_balance a + ce_amount e), credited e s))"
proof -
  let ?P = "\<lambda>a. ca_userId a = ce_userId e"
  let ?f = "\<lambda>a. a\<lparr>ca_balance := ca_balance a + ce_amount e\<rparr>"
  let ?s1 = "s\<lparr>creditAccount := updateMany ?P ?f (creditAccount s)\<rparr>"
  have ex: "list_ex ?P (creditAccount s)" using a by (simp add: list_ex_find)
  have zero: "ce_amount e = 0 \<Longrightarrow> ?s1 = s" by (simp add: updateMany_ident)
  have claim: "filter (\<lambda>a. ?P a \<and> - ce_amount e \<le> ca_balance a) (creditAccount s)
      = (if - ce_amount e \<le> ca_balance a then [a] else [])"
    "updateMany (\<lambda>a. ?P a \<and> - ce_amount e \<le> ca_balance a) ?f (creditAccount s)
      = (if - ce_amount e \<le> ca_balance a then updateMany ?P ?f (creditAccount s) else creditAccount s)"
    using keyed_filter [OF d a] keyed_updateMany [OF d a] by simp_all
  have "writeCreditEntry e s =
    (if ce_amount e < 0 \<and> ca_balance a < - ce_amount e then Inr (Not_posted INSUFFICIENT_CREDITS, s)
     else appendCreditEntry e ?s1)"
  proof (cases "ce_amount e" "0 :: int" rule: linorder_cases)
    case less
    then show ?thesis
      unfolding writeCreditEntry_def by (simp add: tx_simps claim not_le)
  next
    case equal
    then show ?thesis
      unfolding writeCreditEntry_def using zero by (simp add: tx_simps)
  next
    case greater
    then show ?thesis
      unfolding writeCreditEntry_def by (simp add: tx_simps ex bindt_assoc)
  qed
  with appendCreditEntry_eq [OF a refl] show ?thesis by simp
qed

lemma distinct_ensured:
  "distinct (map ca_userId (creditAccount s)) \<Longrightarrow> distinct (map ca_userId (creditAccount (ensured u s)))"
  by (auto simp: ensured_def)

lemma ensured_account:
  "\<exists>a. find (\<lambda>a. ca_userId a = u) (creditAccount (ensured u s)) = Some a
     \<and> ca_balance a = readCreditBalance s u"
proof -
  obtain a where a: "find (\<lambda>a. ca_userId a = u) (creditAccount (ensured u s)) = Some a"
    using ensured_simps(2) [of u s] find_user_None by fastforce
  then have "readCreditBalance (ensured u s) u = ca_balance a"
    unfolding readCreditBalance_def by simp
  with a show ?thesis by simp
qed

lemma find_key_None:
  "find (\<lambda>r. cl_idempotencyKey r = k) t = None \<longleftrightarrow> k \<notin> cl_idempotencyKey ` set t"
  by (induction t) auto

lemma postCreditEntry_with_eq:
  assumes "ce_reason e \<noteq> PRIVATE_SESSION_DEBIT" and "isSafeInteger (ce_amount e)"
  shows "postCreditEntry_with env e s =
    (if ce_idempotencyKey e \<in> credit_keys s then Inr (Not_posted SPEND_DUPLICATE, ensured (ce_userId e) s)
     else bindt env (\<lambda>_. writeCreditEntry e) (ensured (ce_userId e) s))"
  using assms find_key_None [of "ce_idempotencyKey e" "creditLedger s"]
  by (auto simp: postCreditEntry_with_def tx_simps)

lemma postCreditEntry_eq:
  assumes "distinct (map ca_userId (creditAccount s))"
    and "ce_reason e \<noteq> PRIVATE_SESSION_DEBIT" and "isSafeInteger (ce_amount e)"
  shows "postCreditEntry e s =
    (let s1 = ensured (ce_userId e) s; b = readCreditBalance s (ce_userId e)
     in if ce_idempotencyKey e \<in> credit_keys s then Inr (Not_posted SPEND_DUPLICATE, s1)
        else if ce_amount e < 0 \<and> b < - ce_amount e then Inr (Not_posted INSUFFICIENT_CREDITS, s1)
        else Inr (Posted (b + ce_amount e), credited e s1))"
proof -
  obtain a where a: "find (\<lambda>a. ca_userId a = ce_userId e) (creditAccount (ensured (ce_userId e) s)) = Some a"
    "ca_balance a = readCreditBalance s (ce_userId e)"
    using ensured_account by blast
  show ?thesis
    unfolding postCreditEntry_def postCreditEntry_with_eq [OF assms(2,3)] bindt_ret Let_def
    using writeCreditEntry_eq [OF distinct_ensured [OF assms(1)] a(1)] a(2) by simp
qed

lemma postCreditEntry_cases:
  assumes "distinct (map ca_userId (creditAccount s))" and "postCreditEntry e s = Inr (r, s')"
  obtains
    (duplicate) "ce_idempotencyKey e \<in> credit_keys s" "r = Not_posted SPEND_DUPLICATE"
      "s' = ensured (ce_userId e) s"
  | (insufficient) "ce_idempotencyKey e \<notin> credit_keys s" "r = Not_posted INSUFFICIENT_CREDITS"
      "s' = ensured (ce_userId e) s" "readCreditBalance s (ce_userId e) < - ce_amount e"
  | (posted) "ce_idempotencyKey e \<notin> credit_keys s"
      "r = Posted (readCreditBalance s (ce_userId e) + ce_amount e)"
      "s' = credited e (ensured (ce_userId e) s)"
      "0 \<le> ce_amount e \<or> 0 \<le> readCreditBalance s (ce_userId e) + ce_amount e"
proof -
  have "ce_reason e \<noteq> PRIVATE_SESSION_DEBIT" "isSafeInteger (ce_amount e)"
    using assms(2) by (auto simp: postCreditEntry_def postCreditEntry_with_def throw_def split: if_splits)
  with assms that show thesis
    by (auto simp: postCreditEntry_eq Let_def split: if_splits)
qed

section \<open>Preservation of the invariant\<close>

lemma ledger_sum_simps [simp]:
  "ledger_sum u [] = 0"
  "ledger_sum u (rows @ [r]) = ledger_sum u rows + (if cl_userId r = u then cl_amount r else 0)"
  by (simp_all add: ledger_sum_def)

lemma running_ok_append:
  "running_ok before (rows @ [r]) \<longleftrightarrow>
     running_ok before rows \<and> cl_balanceAfter r = ledger_sum (cl_userId r) (before @ rows @ [r])"
proof (induction rows arbitrary: before)
  case (Cons x rows)
  show ?case using Cons.IH [of "before @ [x]"] by auto
qed auto

lemma ledger_sum_unknown:
  "(\<And>r. r \<in> set rows \<Longrightarrow> cl_userId r \<noteq> u) \<Longrightarrow> ledger_sum u rows = 0"
  by (simp add: ledger_sum_def)

lemma credit_inv_balance:
  "credit_inv s \<Longrightarrow> readCreditBalance s u = ledger_sum u (creditLedger s) \<and> 0 \<le> readCreditBalance s u"
proof (cases "find (\<lambda>a. ca_userId a = u) (creditAccount s)")
  case None
  assume inv: "credit_inv s"
  have "ledger_sum u (creditLedger s) = 0"
    using inv None by (intro ledger_sum_unknown) (auto simp: credit_inv_def find_user_None)
  with None show ?thesis by (simp add: readCreditBalance_def)
next
  case (Some a)
  moreover assume "credit_inv s"
  ultimately show ?thesis
    by (auto simp: credit_inv_def readCreditBalance_def dest: find_SomeD)
qed

lemma credit_balance_nonneg: "credit_inv s \<Longrightarrow> 0 \<le> readCreditBalance s u"
  using credit_inv_balance by blast

lemma credit_inv_ensured: "credit_inv s \<Longrightarrow> credit_inv (ensured u s)"
proof (cases "u \<in> ca_userId ` set (creditAccount s)")
  case False
  moreover assume inv: "credit_inv s"
  moreover have "ledger_sum u (creditLedger s) = 0"
    using inv False by (intro ledger_sum_unknown) (auto simp: credit_inv_def)
  ultimately show ?thesis
    by (auto simp: credit_inv_def ensured_def)
qed (simp add: ensured_def)

lemma credit_inv_credited:
  assumes inv: "credit_inv s" and acc: "ce_userId e \<in> ca_userId ` set (creditAccount s)"
    and key: "ce_idempotencyKey e \<notin> credit_keys s"
    and nonneg: "0 \<le> readCreditBalance s (ce_userId e) + ce_amount e"
  shows "credit_inv (credited e s)"
proof -
  let ?u = "ce_userId e" and ?n = "readCreditBalance s (ce_userId e) + ce_amount e"
  let ?P = "\<lambda>a. ca_userId a = ?u" and ?f = "\<lambda>a. a\<lparr>ca_balance := ca_balance a + ce_amount e\<rparr>"
  have bal: "ledger_sum ?u (creditLedger s) = readCreditBalance s ?u"
    using credit_inv_balance [OF inv] by simp
  have acct: "ca_balance a = readCreditBalance s ?u" if "a \<in> set (creditAccount s)" "ca_userId a = ?u" for a
    using inv that bal by (auto simp: credit_inv_def)
  have users: "map ca_userId (updateMany ?P ?f (creditAccount s)) = map ca_userId (creditAccount s)"
    by (rule map_updateMany_inv) simp
  then have set_users: "ca_userId ` set (updateMany ?P ?f (creditAccount s)) = ca_userId ` set (creditAccount s)"
    by (metis list.set_map)
  have accounts: "\<forall>a \<in> set (updateMany ?P ?f (creditAccount s)).
      0 \<le> ca_balance a \<and> ca_balance a = ledger_sum (ca_userId a) (creditLedger s @ [ledger_row e ?n])"
    using inv nonneg acct bal by (auto simp: credit_inv_def set_updateMany)
  have "running_ok [] (creditLedger s @ [ledger_row e ?n])"
    using inv bal by (simp add: running_ok_append credit_inv_def)
  with inv acc key accounts show ?thesis
    by (auto simp: credit_inv_def credited_def Let_def users set_users)
qed

lemma credit_inv_post:
  assumes "credit_inv s" and "postCreditEntry e s = Inr (r, s')"
  shows "credit_inv s'"
proof -
  note inv1 = credit_inv_ensured [OF assms(1), of "ce_userId e"]
  have "distinct (map ca_userId (creditAccount s))" using assms(1) by (simp add: credit_inv_def)
  then show ?thesis using assms(2)
  proof (cases rule: postCreditEntry_cases)
    case posted
    have "0 \<le> readCreditBalance s (ce_userId e) + ce_amount e"
      using posted(4) credit_inv_balance [OF assms(1), of "ce_userId e"] by auto
    with inv1 posted show ?thesis by (auto intro!: credit_inv_credited)
  qed (simp_all add: inv1)
qed

lemma keeps_credit_inv_post: "keeps credit_inv (postCreditEntry e)"
  by (rule keepsI) (rule credit_inv_post)

lemma write_keeps_credit_inv: "keeps credit_inv (writeCreditEntry e)"
proof (rule keepsI)
  fix s r s'
  assume inv: "credit_inv s" and w: "writeCreditEntry e s = Inr (r, s')"
  have d: "distinct (map ca_userId (creditAccount s))" using inv by (simp add: credit_inv_def)
  show "credit_inv s'"
  proof (cases "find (\<lambda>a. ca_userId a = ce_userId e) (creditAccount s)")
    case None
    then have "s' = s"
      using w keyed_filter_None [OF None] keyed_updateMany_None [OF None]
      by (auto simp: writeCreditEntry_def appendCreditEntry_def tx_simps list_ex_find split: if_splits)
    with inv show ?thesis by simp
  next
    case (Some a)
    have bal: "readCreditBalance s (ce_userId e) = ca_balance a"
      using Some by (simp add: readCreditBalance_def)
    moreover have "0 \<le> ca_balance a" using credit_inv_balance [OF inv, of "ce_userId e"] bal by simp
    moreover have "ce_userId e \<in> ca_userId ` set (creditAccount s)"
      using find_SomeD [OF Some] by (metis image_eqI)
    ultimately show ?thesis
      using inv w writeCreditEntry_eq [OF d Some] by (auto split: if_splits intro!: credit_inv_credited)
  qed
qed

lemma write_outcome:
  assumes "credit_inv s" and "writeCreditEntry e s = Inr (r, s')"
  shows "((\<exists>n. r = Posted n) \<longleftrightarrow>
      ce_idempotencyKey e \<notin> credit_keys s \<and> 0 \<le> readCreditBalance s (ce_userId e) + ce_amount e)
    \<and> (\<forall>reason. r = Not_posted reason \<longrightarrow> s' = s)"
proof (cases "find (\<lambda>a. ca_userId a = ce_userId e) (creditAccount s)")
  case None
  then show ?thesis
    using assms(2) keyed_filter_None [OF None] keyed_updateMany_None [OF None]
    by (auto simp: writeCreditEntry_def appendCreditEntry_def tx_simps list_ex_find readCreditBalance_def
        split: if_splits)
next
  case (Some a)
  then have "readCreditBalance s (ce_userId e) = ca_balance a" by (simp add: readCreditBalance_def)
  moreover have "0 \<le> readCreditBalance s (ce_userId e)"
    using assms(1) by (rule credit_balance_nonneg)
  moreover have "distinct (map ca_userId (creditAccount s))" using assms(1) by (simp add: credit_inv_def)
  ultimately show ?thesis
    using assms(2) writeCreditEntry_eq [OF _ Some] by (auto split: if_splits)
qed

lemma credit_inv_empty: "credit_inv empty_db"
  by (simp add: credit_inv_def empty_db_def)

section \<open>The contract\<close>

lemma readCreditBalance_credited:
  "ce_userId e \<in> ca_userId ` set (creditAccount s) \<Longrightarrow>
   readCreditBalance (credited e s) =
     (readCreditBalance s)(ce_userId e := readCreditBalance s (ce_userId e) + ce_amount e)"
proof (rule ext)
  fix u
  assume "ce_userId e \<in> ca_userId ` set (creditAccount s)"
  then obtain a where "find (\<lambda>a. ca_userId a = ce_userId e) (creditAccount s) = Some a"
    using find_user_None by fastforce
  then show "readCreditBalance (credited e s) u =
     ((readCreditBalance s)(ce_userId e := readCreditBalance s (ce_userId e) + ce_amount e)) u"
    using find_keyed_update [of ca_userId "\<lambda>a. a\<lparr>ca_balance := ca_balance a + ce_amount e\<rparr>" u
        "ce_userId e" "creditAccount s"]
    by (auto simp: readCreditBalance_def credited_def Let_def)
qed

definition credit_posted :: "creditPostResult \<Rightarrow> bool" where
  "credit_posted r \<longleftrightarrow> (\<exists>n. r = Posted n)"

interpretation credits: idempotent_ledger postCreditEntry credit_posted readCreditBalance credit_keys
  ce_idempotencyKey ce_userId ce_amount credit_inv
proof
  fix s e r s'
  assume inv: "credit_inv s" and p: "postCreditEntry e s = Inr (r, s')"
  have d: "distinct (map ca_userId (creditAccount s))" using inv by (simp add: credit_inv_def)
  show "credit_inv s'" using inv p by (rule credit_inv_post)
  show "ce_idempotencyKey e \<notin> credit_keys s \<and> credit_keys s' = insert (ce_idempotencyKey e) (credit_keys s)
     \<and> readCreditBalance s' = (readCreditBalance s)(ce_userId e := readCreditBalance s (ce_userId e) + ce_amount e)"
    if "credit_posted r"
    using d p
  proof (cases rule: postCreditEntry_cases)
    case posted
    then show ?thesis
      using readCreditBalance_credited [OF ensured_simps(2), of e s] by (simp add: credited_def Let_def)
  qed (use that in \<open>simp_all add: credit_posted_def\<close>)
  show "credit_keys s' = credit_keys s \<and> readCreditBalance s' = readCreditBalance s"
    if "\<not> credit_posted r"
    using d p
  proof (cases rule: postCreditEntry_cases)
    case posted
    with that show ?thesis by (simp add: credit_posted_def)
  qed simp_all
qed

section \<open>Spending, releasing, expiring and granting\<close>

lemma post_inv_distinct: "credit_inv s \<Longrightarrow> distinct (map ca_userId (creditAccount s))"
  by (simp add: credit_inv_def)

lemma credited_simps [simp]:
  "creditLedger (credited e s) =
     creditLedger s @ [ledger_row e (readCreditBalance s (ce_userId e) + ce_amount e)]"
  "subscription (credited e s) = subscription s"
  "ca_userId ` set (creditAccount (credited e s)) = ca_userId ` set (creditAccount s)"
proof -
  have "map ca_userId (creditAccount (credited e s)) = map ca_userId (creditAccount s)"
    by (simp add: credited_def Let_def map_updateMany_inv)
  then show "ca_userId ` set (creditAccount (credited e s)) = ca_userId ` set (creditAccount s)"
    by (metis list.set_map)
qed (simp_all add: credited_def Let_def)

text \<open>What posting an entry that is not thrown out comes to, for its callers.\<close>

lemma post_outcome:
  assumes "credit_inv s" and "ce_reason e \<noteq> PRIVATE_SESSION_DEBIT" and "isSafeInteger (ce_amount e)"
  obtains r s' where "postCreditEntry e s = Inr (r, s')" and "credit_inv s'"
    and "r = (if ce_idempotencyKey e \<in> credit_keys s then Not_posted SPEND_DUPLICATE
           else if readCreditBalance s (ce_userId e) + ce_amount e < 0 then Not_posted INSUFFICIENT_CREDITS
           else Posted (readCreditBalance s (ce_userId e) + ce_amount e))"
    and "readCreditBalance s' = (if credit_posted r then (readCreditBalance s)
           (ce_userId e := readCreditBalance s (ce_userId e) + ce_amount e) else readCreditBalance s)"
    and "credit_keys s' = (if credit_posted r then insert (ce_idempotencyKey e) (credit_keys s) else credit_keys s)"
    and "subscription s' = subscription s"
proof -
  let ?b = "readCreditBalance s (ce_userId e)"
  have "0 \<le> ?b"
    using assms(1) by (rule credit_balance_nonneg)
  then obtain r s' where p: "postCreditEntry e s = Inr (r, s')" and
    r: "r = (if ce_idempotencyKey e \<in> credit_keys s then Not_posted SPEND_DUPLICATE
           else if ?b + ce_amount e < 0 then Not_posted INSUFFICIENT_CREDITS
           else Posted (?b + ce_amount e))" and "subscription s' = subscription s"
    using postCreditEntry_eq [OF post_inv_distinct [OF assms(1)] assms(2,3)]
    by (auto simp: Let_def split: if_splits)
  moreover have "credit_inv s'" using assms(1) p by (rule credit_inv_post)
  moreover have "readCreditBalance s' = (if credit_posted r then (readCreditBalance s)
           (ce_userId e := readCreditBalance s (ce_userId e) + ce_amount e) else readCreditBalance s)"
    and "credit_keys s' = (if credit_posted r then insert (ce_idempotencyKey e) (credit_keys s) else credit_keys s)"
    using credits.post_posted [OF assms(1) p] credits.post_refused [OF assms(1) p] by simp_all
  ultimately show thesis by (intro that)
qed

lemma credit_posted_simps [simp]: "credit_posted (Posted n)" "\<not> credit_posted (Not_posted x)"
  by (simp_all add: credit_posted_def)

lemmas bindt_post = bindt_def [of "postCreditEntry e" for e]

lemma hasRunningPeriod_apply [tx_simps]:
  "bindt (hasRunningPeriod u now) k s =
     k (case find (\<lambda>s. sb_userId s = u) (subscription s) of None \<Rightarrow> False
        | Some s \<Rightarrow> (case sb_currentPeriodEnd s of None \<Rightarrow> False | Some e \<Rightarrow> now < e)) s"
  by (simp add: hasRunningPeriod_def tx_simps)

lemma spendable_running:
  "spendable_period (find (\<lambda>s. sb_userId s = u) (subscription s)) now \<Longrightarrow>
   (case find (\<lambda>s. sb_userId s = u) (subscription s) of None \<Rightarrow> False
        | Some s \<Rightarrow> (case sb_currentPeriodEnd s of None \<Rightarrow> False | Some e \<Rightarrow> now < e))"
  by (auto simp: spendable_period_def split: option.splits)

lemma safe_neg [simp]: "isSafeInteger (- n) = isSafeInteger n"
  by (simp add: isSafeInteger_def)

section \<open>What the ledger does not touch\<close>

text \<open>A property that does not depend on the ledger's tables survives its operations.\<close>

lemma keeps_postCreditEntry:
  assumes "\<And>s t. I s \<Longrightarrow> I (s\<lparr>creditAccount := t\<rparr>)" and "\<And>s t. I s \<Longrightarrow> I (s\<lparr>creditLedger := t\<rparr>)"
    and "\<And>s t. I s \<Longrightarrow> I (s\<lparr>auditLog := t\<rparr>)"
  shows "keeps I (postCreditEntry e)"
  unfolding postCreditEntry_def postCreditEntry_with_def ensureCreditAccount_def writeCreditEntry_def
    appendCreditEntry_def
  by (intro keeps_intros keeps_table keeps_outbox assms)

lemma keeps_releaseSpentMinutes:
  assumes "\<And>s t. I s \<Longrightarrow> I (s\<lparr>creditAccount := t\<rparr>)" and "\<And>s t. I s \<Longrightarrow> I (s\<lparr>creditLedger := t\<rparr>)"
    and "\<And>s t. I s \<Longrightarrow> I (s\<lparr>auditLog := t\<rparr>)"
  shows "keeps I (releaseSpentMinutes b u n now)"
  unfolding releaseSpentMinutes_def hasRunningPeriod_def
  by (intro keeps_intros keeps_postCreditEntry assms)

lemma keeps_spendBookingMinutes:
  assumes "\<And>s t. I s \<Longrightarrow> I (s\<lparr>creditAccount := t\<rparr>)" and "\<And>s t. I s \<Longrightarrow> I (s\<lparr>creditLedger := t\<rparr>)"
    and "\<And>s t. I s \<Longrightarrow> I (s\<lparr>auditLog := t\<rparr>)"
  shows "keeps I (spendBookingMinutes b u n demo now)"
  unfolding spendBookingMinutes_def by (intro keeps_intros keeps_postCreditEntry assms)

lemmas keeps_credit_frame = keeps_postCreditEntry keeps_releaseSpentMinutes keeps_spendBookingMinutes

lemma credit_inv_frame [simp]:
  "credit_inv (s\<lparr>loyaltyAccount := x_loyaltyAccount\<rparr>) = credit_inv s"
  "credit_inv (s\<lparr>loyaltyLedgerEntry := x_loyaltyLedgerEntry\<rparr>) = credit_inv s"
  "credit_inv (s\<lparr>loyaltyScheme := x_loyaltyScheme\<rparr>) = credit_inv s"
  "credit_inv (s\<lparr>loyaltyTier := x_loyaltyTier\<rparr>) = credit_inv s"
  "credit_inv (s\<lparr>auditLog := x_auditLog\<rparr>) = credit_inv s"
  "credit_inv (s\<lparr>emailNotification := x_emailNotification\<rparr>) = credit_inv s"
  "credit_inv (s\<lparr>booking := x_booking\<rparr>) = credit_inv s"
  "credit_inv (s\<lparr>payment := x_payment\<rparr>) = credit_inv s"
  "credit_inv (s\<lparr>mission := x_mission\<rparr>) = credit_inv s"
  "credit_inv (s\<lparr>missionEvent := x_missionEvent\<rparr>) = credit_inv s"
  "credit_inv (s\<lparr>bookingEntitlement := x_bookingEntitlement\<rparr>) = credit_inv s"
  "credit_inv (s\<lparr>giftVoucher := x_giftVoucher\<rparr>) = credit_inv s"
  "credit_inv (s\<lparr>cardPrize := x_cardPrize\<rparr>) = credit_inv s"
  "credit_inv (s\<lparr>subscription := x_subscription\<rparr>) = credit_inv s"
  "credit_inv (s\<lparr>subscriptionPlanConfig := x_subscriptionPlanConfig\<rparr>) = credit_inv s"
  "credit_inv (s\<lparr>observerPack := x_observerPack\<rparr>) = credit_inv s"
  "credit_inv (s\<lparr>waitlistEntry := x_waitlistEntry\<rparr>) = credit_inv s"
  "credit_inv (s\<lparr>observatory := x_observatory\<rparr>) = credit_inv s"
  by (simp_all add: credit_inv_def)

text \<open>The invariant of the ledger survives the bookings' use of it and every other table.\<close>

lemma keeps_credit_inv_spend [keeps_intros]:
  "keeps credit_inv (releaseSpentMinutes b u n now)" "keeps credit_inv (spendBookingMinutes b u n demo now)"
  unfolding releaseSpentMinutes_def spendBookingMinutes_def hasRunningPeriod_def
  by (intro keeps_intros keeps_credit_inv_post)+

section \<open>Idempotency keys\<close>

text \<open>Ids are UUIDs: they contain no colon.\<close>

abbreviation colon_free :: "string \<Rightarrow> bool" where "colon_free t \<equiv> CHR '':'' \<notin> set t"

lemma append_colon_inj:
  assumes "colon_free a" and "colon_free b" and "a @ CHR '':'' # x = b @ CHR '':'' # y"
  shows "a = b \<and> x = y"
proof -
  have tw: "takeWhile (\<lambda>c. c \<noteq> CHR '':'') (a @ CHR '':'' # x) = a" if "colon_free a" for a x
    using that by (simp add: takeWhile_append)
  have "a = b" using tw [OF assms(1), of x] tw [OF assms(2), of y] assms(3) by simp
  with assms(3) show ?thesis by simp
qed

lemma release_key_not_booking:
  assumes "colon_free b" and "colon_free b'"
  shows "booking_key b \<noteq> release_key b'"
proof
  assume "booking_key b = release_key b'"
  then have "b = b' @ '':release''" by (simp add: booking_key_def release_key_def)
  then have "CHR '':'' \<in> set b" by simp
  with assms(1) show False by simp
qed

lemma key_classes:
  "booking_key b \<noteq> renewal_key x t" "booking_key b \<noteq> expiry_key x t"
  "release_key b \<noteq> renewal_key x t" "release_key b \<noteq> expiry_key x t"
  "renewal_key y t' \<noteq> expiry_key x t" "booking_key b \<noteq> release_key b"
  by (simp_all add: booking_key_def release_key_def renewal_key_def expiry_key_def)

lemma key_parts:
  "booking_key b = booking_key b' \<longleftrightarrow> b = b'"
  "release_key b = release_key b' \<longleftrightarrow> b = b'"
  by (simp_all add: booking_key_def release_key_def)

lemma period_key_parts:
  assumes "colon_free x" and "colon_free y" and "four_digit_year t" and "four_digit_year t'"
  shows "renewal_key x t = renewal_key y t' \<longleftrightarrow> x = y \<and> t = t'"
    and "expiry_key x t = expiry_key y t' \<longleftrightarrow> x = y \<and> t = t'"
  using append_colon_inj [OF assms(1,2)] toISOString_inj [OF assms(3,4)]
  by (auto simp: renewal_key_def expiry_key_def)

lemma releaseSpentMinutes_outcome:
  assumes "credit_inv s" and "0 < minutes" and "isSafeInteger minutes"
    and "find (\<lambda>x. sb_userId x = u) (subscription s) = Some sub"
    and "sb_currentPeriodEnd sub = Some periodEnd" and "now < periodEnd"
  obtains s' where "releaseSpentMinutes b u minutes now s = Inr ((), s')" and "credit_inv s'"
    and "readCreditBalance s' = (if release_key b \<in> credit_keys s then readCreditBalance s
           else (readCreditBalance s)(u := readCreditBalance s u + minutes))"
    and "release_key b \<in> credit_keys s'" and "subscription s' = subscription s"
proof -
  let ?e = "plain_entry u minutes CREDIT_REFUND (release_key b)"
  have nonneg: "\<not> readCreditBalance s u + minutes < 0"
    using credit_balance_nonneg [OF assms(1), of u] assms(2) by simp
  from assms(1) obtain r s' where "postCreditEntry ?e s = Inr (r, s')" "credit_inv s'"
    "r = (if release_key b \<in> credit_keys s then Not_posted SPEND_DUPLICATE
         else Posted (readCreditBalance s u + minutes))"
    "readCreditBalance s' = (if credit_posted r then (readCreditBalance s)
           (u := readCreditBalance s u + minutes) else readCreditBalance s)"
    "credit_keys s' = (if credit_posted r then insert (release_key b) (credit_keys s) else credit_keys s)"
    "subscription s' = subscription s"
    by (rule post_outcome [of s ?e]) (use assms(3) nonneg in simp_all)
  then show thesis
    using assms that by (auto simp: releaseSpentMinutes_def tx_simps bindt_post split: if_splits)
qed

lemma expire_outcome:
  fixes sub periodEnd
  defines "u \<equiv> sb_userId sub" and "x \<equiv> expiry_key (sb_id sub) periodEnd"
  assumes "credit_inv s" and "isSafeInteger (readCreditBalance s (sb_userId sub))"
  obtains v s' where "expireSubscriptionMinutes sub periodEnd s = Inr (v, s')" and "credit_inv s'"
    and "readCreditBalance s' = (if x \<in> credit_keys s then readCreditBalance s else (readCreditBalance s)(u := 0))"
    and "credit_keys s' = (if 0 < readCreditBalance s u then insert x (credit_keys s) else credit_keys s)"
proof (cases "readCreditBalance s u \<le> 0")
  case True
  with credit_balance_nonneg [OF assms(3), of u] have "readCreditBalance s u = 0" by simp
  then show thesis
    using assms(3) that by (auto simp: expireSubscriptionMinutes_def tx_simps u_def fun_upd_idem)
next
  case False
  let ?e = "(plain_entry u (- readCreditBalance s u) EXPIRY x)\<lparr>ce_isDemo := sb_isDemo sub\<rparr>"
  from assms(3) obtain r s' where "postCreditEntry ?e s = Inr (r, s')" "credit_inv s'"
    "r = (if x \<in> credit_keys s then Not_posted SPEND_DUPLICATE else Posted 0)"
    "readCreditBalance s' = (if credit_posted r then (readCreditBalance s)(u := 0) else readCreditBalance s)"
    "credit_keys s' = (if credit_posted r then insert x (credit_keys s) else credit_keys s)"
    by (rule post_outcome [of s ?e]) (use assms(4) in \<open>simp_all add: u_def\<close>)
  then show thesis
    using False that
    by (auto simp: expireSubscriptionMinutes_def tx_simps bindt_post u_def x_def insert_absorb
        split: if_splits)
qed

lemma grant_outcome:
  fixes sub periodStart
  defines "u \<equiv> sb_userId sub" and "g \<equiv> renewal_key (sb_id sub) periodStart"
  assumes "credit_inv s" and "0 \<le> minutes" and "isSafeInteger minutes"
  obtains r s' where "grantSubscriptionMinutes sub periodStart minutes s = Inr (r, s')" and "credit_inv s'"
    and "readCreditBalance s' = (if g \<in> credit_keys s then readCreditBalance s
           else (readCreditBalance s)(u := readCreditBalance s u + minutes))"
    and "credit_keys s' = insert g (credit_keys s)"
proof -
  let ?e = "(plain_entry u minutes SUBSCRIPTION_GRANT g)\<lparr>ce_isDemo := sb_isDemo sub\<rparr>"
  have nonneg: "\<not> readCreditBalance s u + minutes < 0"
    using credit_balance_nonneg [OF assms(3), of u] assms(4) by simp
  from assms(3) obtain r s' where "postCreditEntry ?e s = Inr (r, s')" "credit_inv s'"
    "r = (if g \<in> credit_keys s then Not_posted SPEND_DUPLICATE else Posted (readCreditBalance s u + minutes))"
    "readCreditBalance s' = (if credit_posted r then (readCreditBalance s)
       (u := readCreditBalance s u + minutes) else readCreditBalance s)"
    "credit_keys s' = (if credit_posted r then insert g (credit_keys s) else credit_keys s)"
    by (rule post_outcome [of s ?e]) (use assms(5) nonneg in simp_all)
  then show thesis
    using that by (auto simp: grantSubscriptionMinutes_def u_def g_def insert_absorb split: if_splits)
qed

section \<open>Properties\<close>

text \<open>
  C2: The credit ledger keeps its invariant (every balance is the non-negative sum of the
  user's ledger entries, every \<open>balanceAfter\<close> the running sum, keys unique) whatever other
  transactions commit between the lookup of the idempotency key and the claim on the balance,
  provided they keep it; the entry is posted exactly when its key is still unrecorded and the
  balance covers it, and a refused entry leaves the others' state untouched.
\<close>

theorem credit_ledger_survives_interference:
  assumes "credit_inv s" and "keeps credit_inv env"
    and "postCreditEntry_with env e s = Inr (r, s')"
  shows "credit_inv s' \<and>
    (\<forall>s2. ce_idempotencyKey e \<notin> credit_keys s \<longrightarrow> env (ensured (ce_userId e) s) = Inr ((), s2) \<longrightarrow>
       ((\<exists>n. r = Posted n) \<longleftrightarrow>
          ce_idempotencyKey e \<notin> credit_keys s2
          \<and> 0 \<le> readCreditBalance s2 (ce_userId e) + ce_amount e)
       \<and> (\<forall>reason. r = Not_posted reason \<longrightarrow> s' = s2))"
proof -
  have ok: "ce_reason e \<noteq> PRIVATE_SESSION_DEBIT" "isSafeInteger (ce_amount e)"
    using assms(3) by (auto simp: postCreditEntry_with_def throw_def split: if_splits)
  note inv1 = credit_inv_ensured [OF assms(1), of "ce_userId e"]
  show ?thesis
  proof (cases "ce_idempotencyKey e \<in> credit_keys s")
    case True
    with assms(3) inv1 show ?thesis by (simp add: postCreditEntry_with_eq [OF ok])
  next
    case False
    with assms(3) obtain s2 where env: "env (ensured (ce_userId e) s) = Inr ((), s2)"
      and w: "writeCreditEntry e s2 = Inr (r, s')"
      by (auto simp: postCreditEntry_with_eq [OF ok] bindt_eq_Inr)
    have inv2: "credit_inv s2" using assms(2) inv1 env by (rule keepsD)
    have "credit_inv s'" using write_keeps_credit_inv inv2 w by (rule keepsD)
    with env write_outcome [OF inv2 w] show ?thesis by simp
  qed
qed

theorem credit_ledger_survives_interference_witness:
  "let e = plain_entry ''u1'' 30 SUBSCRIPTION_GRANT ''renewal:s1:t'';
       env = bindt (postCreditEntry e) (\<lambda>_. ret ())
   in \<exists>s'. postCreditEntry_with env e empty_db = Inr (Not_posted SPEND_DUPLICATE, s')
        \<and> credit_inv s' \<and> readCreditBalance s' ''u1'' = 30"
proof -
  let ?e = "plain_entry ''u1'' 30 SUBSCRIPTION_GRANT ''renewal:s1:t''"
  let ?env = "bindt (postCreditEntry ?e) (\<lambda>_. ret ()) :: (db, unit) tx"
  have env: "keeps credit_inv ?env" by (intro keeps_intros keeps_credit_inv_post)
  have p: "postCreditEntry_with ?env ?e empty_db =
      Inr (Not_posted SPEND_DUPLICATE, credited ?e (ensured ''u1'' empty_db))"
    by (simp add: postCreditEntry_with_def postCreditEntry_def writeCreditEntry_def appendCreditEntry_def
        eval_tx ensureCreditAccount_def isSafeInteger_def empty_db_def ensured_def plain_entry_def credited_def
        readCreditBalance_def ledger_row_def)
  have "readCreditBalance (credited ?e (ensured ''u1'' empty_db)) ''u1'' = 30"
    by (simp add: readCreditBalance_def credited_def ensured_def empty_db_def)
  with credit_ledger_survives_interference [OF credit_inv_empty env p] p show ?thesis
    by (simp add: Let_def)
qed

text \<open>
  \<open>postCreditEntry\<close>, every branch: a private-session debit and a fractional amount are
  thrown out; a recorded key is a duplicate; a spend over the balance is refused; otherwise
  the account moves by the amount, the entry with the new balance is appended and one audit
  row written.
\<close>

theorem postCreditEntry_branches:
  assumes "credit_inv s"
  shows "postCreditEntry e s =
    (let s1 = ensured (ce_userId e) s; b = readCreditBalance s (ce_userId e)
     in if ce_reason e = PRIVATE_SESSION_DEBIT
        then Inl (JsError ''PRIVATE_SESSION_DEBIT is not written in Phase 1 (ADR-022).'')
        else if \<not> isSafeInteger (ce_amount e)
        then Inl (JsError ''A credit entry moves a whole number of minutes.'')
        else if ce_idempotencyKey e \<in> credit_keys s then Inr (Not_posted SPEND_DUPLICATE, s1)
        else if b + ce_amount e < 0 then Inr (Not_posted INSUFFICIENT_CREDITS, s1)
        else Inr (Posted (b + ce_amount e),
           s1\<lparr>creditAccount := updateMany (\<lambda>a. ca_userId a = ce_userId e)
                (\<lambda>a. a\<lparr>ca_balance := ca_balance a + ce_amount e\<rparr>) (creditAccount s1),
              creditLedger := creditLedger s @ [ledger_row e (b + ce_amount e)],
              auditLog := auditLog s1 @ [credit_audit e (b + ce_amount e)]\<rparr>))"
proof (cases "ce_reason e = PRIVATE_SESSION_DEBIT \<or> \<not> isSafeInteger (ce_amount e)")
  case True
  then show ?thesis by (auto simp: postCreditEntry_def postCreditEntry_with_def tx_simps Let_def)
next
  case False
  have "0 \<le> readCreditBalance s (ce_userId e)"
    using assms by (rule credit_balance_nonneg)
  with False show ?thesis
    using postCreditEntry_eq [OF post_inv_distinct [OF assms], of e]
    by (auto simp: Let_def credited_def)
qed

theorem postCreditEntry_branches_witness:
  "postCreditEntry (plain_entry ''u1'' (-5) MISSION_DEBIT ''booking:b1'') empty_db
     = Inr (Not_posted INSUFFICIENT_CREDITS, ensured ''u1'' empty_db)"
  using postCreditEntry_branches [OF credit_inv_empty, of "plain_entry ''u1'' (-5) MISSION_DEBIT ''booking:b1''"]
  by (simp add: isSafeInteger_def readCreditBalance_def empty_db_def)

text \<open>
  Over any sequence of postings each user's balance moves by exactly the amounts of the
  entries that were posted, those have pairwise different keys, none of which was recorded
  before: no source event is counted twice however often and in whatever order it is
  delivered.
\<close>

theorem credit_postings_add_up:
  assumes "credit_inv s" and "tx_map postCreditEntry es s = Inr (rs, s')"
  shows "credit_inv s'
    \<and> distinct (map ce_idempotencyKey (posted_entries credit_posted es rs))
    \<and> ce_idempotencyKey ` set (posted_entries credit_posted es rs) \<inter> credit_keys s = {}
    \<and> credit_keys s' = credit_keys s \<union> ce_idempotencyKey ` set (posted_entries credit_posted es rs)
    \<and> (\<forall>u. readCreditBalance s' u = readCreditBalance s u
         + sum_list (map ce_amount (filter (\<lambda>e. ce_userId e = u) (posted_entries credit_posted es rs))))"
  using credits.post_all [OF assms] by blast

theorem credit_postings_add_up_witness:
  "let e = plain_entry ''u1'' 30 SUBSCRIPTION_GRANT ''renewal:s1:t''
   in \<exists>rs s'. tx_map postCreditEntry [e, e] empty_db = Inr (rs, s') \<and> readCreditBalance s' ''u1'' = 30"
proof -
  let ?e = "plain_entry ''u1'' 30 SUBSCRIPTION_GRANT ''renewal:s1:t''"
  have p: "tx_map postCreditEntry [?e, ?e] empty_db =
      Inr ([Posted 30, Not_posted SPEND_DUPLICATE], credited ?e (ensured ''u1'' empty_db))"
    by (simp add: postCreditEntry_with_def postCreditEntry_def writeCreditEntry_def appendCreditEntry_def
        eval_tx ensureCreditAccount_def isSafeInteger_def empty_db_def ensured_def plain_entry_def credited_def
        readCreditBalance_def ledger_row_def)
  show ?thesis
    using credit_postings_add_up [OF credit_inv_empty p] p
    by (auto simp: Let_def credit_posted_def readCreditBalance_def empty_db_def)
qed

text \<open>
  \<open>spendBookingMinutes\<close> takes the minutes exactly when the subscription is active or
  paused, its period is running, the booking has not spent before and the balance covers it;
  otherwise it names the reason and no balance moves.
\<close>

theorem spendBookingMinutes_outcomes:
  assumes "credit_inv s" and "0 \<le> minutes" and "isSafeInteger minutes"
  shows "\<exists>r s'. spendBookingMinutes b u minutes demo now s = Inr (r, s') \<and> credit_inv s' \<and>
    r = (if \<not> spendable_period (find (\<lambda>x. sb_userId x = u) (subscription s)) now
         then Not_spent NO_CURRENT_PERIOD
         else if booking_key b \<in> credit_keys s then Not_spent SPEND_DUPLICATE
         else if readCreditBalance s u < minutes then Not_spent INSUFFICIENT_CREDITS
         else Spent) \<and>
    readCreditBalance s' =
      (if r = Spent then (readCreditBalance s)(u := readCreditBalance s u - minutes)
       else readCreditBalance s)"
proof (cases "spendable_period (find (\<lambda>x. sb_userId x = u) (subscription s)) now")
  case False
  with assms(1) show ?thesis by (simp add: spendBookingMinutes_def tx_simps)
next
  case True
  let ?e = "(plain_entry u (- minutes) MISSION_DEBIT (booking_key b))\<lparr>ce_actorUserId := Some u, ce_isDemo := demo\<rparr>"
  from assms(1) obtain r s' where "postCreditEntry ?e s = Inr (r, s')" "credit_inv s'"
    "r = (if booking_key b \<in> credit_keys s then Not_posted SPEND_DUPLICATE
         else if readCreditBalance s u < minutes then Not_posted INSUFFICIENT_CREDITS
         else Posted (readCreditBalance s u - minutes))"
    "readCreditBalance s' = (if credit_posted r then (readCreditBalance s)
           (u := readCreditBalance s u - minutes) else readCreditBalance s)"
    by (rule post_outcome [of s ?e]) (use assms(3) in simp_all)
  with True show ?thesis
    by (auto simp: spendBookingMinutes_def tx_simps bindt_post)
qed


theorem spendBookingMinutes_outcomes_witness:
  "\<exists>r s'. spendBookingMinutes ''b1'' ''u1'' 5 False 10 empty_db = Inr (r, s') \<and> r = Not_spent NO_CURRENT_PERIOD"
  using spendBookingMinutes_outcomes [OF credit_inv_empty, of 5 "''b1''" "''u1''" False 10]
  by (auto simp: isSafeInteger_def spendable_period_def empty_db_def)

text \<open>
  C38: Minutes a booking spent come back exactly once: a release while a period is running
  restores every balance to what it was before the spend, a second release changes nothing,
  and a release after the period ended returns nothing.
\<close>

theorem spend_release_round_trip:
  assumes "credit_inv s" and "0 < minutes" and "isSafeInteger minutes"
    and "release_key b \<notin> credit_keys s"
    and "spendBookingMinutes b u minutes demo now s = Inr (Spent, s1)"
    and "find (\<lambda>x. sb_userId x = u) (subscription s) = Some sub"
    and "sb_currentPeriodEnd sub = Some periodEnd"
  shows "(t < periodEnd \<longrightarrow>
      (\<exists>s2 s3. releaseSpentMinutes b u minutes t s1 = Inr ((), s2) \<and>
         readCreditBalance s2 = readCreditBalance s \<and>
         releaseSpentMinutes b u minutes t s2 = Inr ((), s3) \<and>
         readCreditBalance s3 = readCreditBalance s \<and> credit_inv s3))
    \<and> (periodEnd \<le> t \<longrightarrow> releaseSpentMinutes b u minutes t s1 = Inr ((), s1))"
proof -
  let ?e = "(plain_entry u (- minutes) MISSION_DEBIT (booking_key b))\<lparr>ce_actorUserId := Some u, ce_isDemo := demo\<rparr>"
  from assms(5) obtain n where p: "postCreditEntry ?e s = Inr (Posted n, s1)"
    by (auto simp: spendBookingMinutes_def tx_simps bindt_post
        split: if_splits sum.splits prod.splits creditPostResult.splits)
  have inv: "credit_inv s1" using assms(1) p by (rule credit_inv_post)
  have sub: "subscription s1 = subscription s"
    by (rule post_outcome [of s ?e]) (use assms(1,3) p in simp_all)
  have bal: "readCreditBalance s1 = (readCreditBalance s)(u := readCreditBalance s u - minutes)"
    and key: "release_key b \<notin> credit_keys s1"
    using credits.post_posted [OF assms(1) p] assms(4) key_classes(6) [of b] by auto
  show ?thesis
  proof (intro conjI impI)
    assume t: "t < periodEnd"
    obtain s2 where s2: "releaseSpentMinutes b u minutes t s1 = Inr ((), s2)" "credit_inv s2"
      "readCreditBalance s2 = (readCreditBalance s1)(u := readCreditBalance s1 u + minutes)"
      "release_key b \<in> credit_keys s2" "subscription s2 = subscription s1"
      by (rule releaseSpentMinutes_outcome [OF inv assms(2,3) _ assms(7) t, where b = b])
        (use assms(6) sub key in auto)
    obtain s3 where s3: "releaseSpentMinutes b u minutes t s2 = Inr ((), s3)" "credit_inv s3"
      "readCreditBalance s3 = readCreditBalance s2"
      by (rule releaseSpentMinutes_outcome [OF s2(2) assms(2,3) _ assms(7) t, where b = b])
        (use assms(6) sub s2(4,5) in auto)
    show "\<exists>s2 s3. releaseSpentMinutes b u minutes t s1 = Inr ((), s2) \<and>
         readCreditBalance s2 = readCreditBalance s \<and>
         releaseSpentMinutes b u minutes t s2 = Inr ((), s3) \<and>
         readCreditBalance s3 = readCreditBalance s \<and> credit_inv s3"
      using s2 s3 bal by auto
  next
    assume "periodEnd \<le> t"
    then show "releaseSpentMinutes b u minutes t s1 = Inr ((), s1)"
      using assms sub by (simp add: releaseSpentMinutes_def tx_simps)
  qed
qed

text \<open>A subscriber with thirty minutes, for the examples.\<close>

definition subscriber :: subscription_row where
  "subscriber = \<lparr>sb_id = ''s1'', sb_userId = ''u1'', sb_plan = PLAN_OBSERVER,
     sb_status = SUB_ACTIVE, sb_startsAt = 0, sb_priceMinor = 4000, sb_endsAt = None, sb_currentPeriodStart = Some 0,
     sb_currentPeriodEnd = Some 1000, sb_cancelAtPeriodEnd = False, sb_pausedAt = None,
     sb_providerMandateRef = None, sb_lastPaymentId = None, sb_isDemo = False\<rparr>"

definition subscriber_db :: db where
  "subscriber_db = empty_db
     \<lparr>creditAccount := [\<lparr>ca_userId = ''u1'', ca_balance = 30\<rparr>],
      creditLedger := [ledger_row (plain_entry ''u1'' 30 ADJUSTMENT ''admin:a1'') 30],
      subscription := [subscriber]\<rparr>"

lemma subscriber_facts:
  "credit_inv subscriber_db"
  "readCreditBalance subscriber_db ''u1'' = 30"
  "credit_keys subscriber_db = {''admin:a1''}"
  "find (\<lambda>x. sb_userId x = ''u1'') (subscription subscriber_db) = Some subscriber"
  "sb_currentPeriodEnd subscriber = Some 1000" "sb_userId subscriber = ''u1''" "sb_id subscriber = ''s1''"
  by (simp_all add: credit_inv_def subscriber_db_def subscriber_def empty_db_def ledger_row_def
      ledger_sum_def plain_entry_def readCreditBalance_def)

theorem spend_release_round_trip_witness:
  "\<exists>s1 s2. spendBookingMinutes ''b1'' ''u1'' 20 False 10 subscriber_db = Inr (Spent, s1)
     \<and> releaseSpentMinutes ''b1'' ''u1'' 20 500 s1 = Inr ((), s2)
     \<and> readCreditBalance s2 ''u1'' = 30"
proof -
  have "\<exists>s1. spendBookingMinutes ''b1'' ''u1'' 20 False 10 subscriber_db = Inr (Spent, s1)"
    by (simp add: spendBookingMinutes_def postCreditEntry_def postCreditEntry_with_def
        writeCreditEntry_def appendCreditEntry_def ensureCreditAccount_def eval_tx
        subscriber_db_def subscriber_def empty_db_def ledger_row_def plain_entry_def
        isSafeInteger_def booking_key_def spendable_period_def)
  then obtain s1 where s1: "spendBookingMinutes ''b1'' ''u1'' 20 False 10 subscriber_db = Inr (Spent, s1)" ..
  have "release_key ''b1'' \<notin> credit_keys subscriber_db"
    by (simp add: subscriber_facts release_key_def)
  then show ?thesis
    using spend_release_round_trip [OF subscriber_facts(1) _ _ _ s1 subscriber_facts(4,5), of 500] s1
      subscriber_facts(2)
    by (auto simp: isSafeInteger_def)
qed

text \<open>
  The turn of a billing period: expiring what the old period left and granting the new
  one leaves exactly the new period's minutes, and running the sweep again changes no balance
  - the second pass never expires the new grant.
\<close>

theorem period_turnover:
  assumes "credit_inv s" and "0 \<le> minutes" and "isSafeInteger minutes"
    and "isSafeInteger (readCreditBalance s (sb_userId sub))"
    and "0 < readCreditBalance s (sb_userId sub)"
    and "expiry_key (sb_id sub) periodEnd \<notin> credit_keys s"
    and "renewal_key (sb_id sub) periodEnd \<notin> credit_keys s"
  shows "let turn = bindt (expireSubscriptionMinutes sub periodEnd) (\<lambda>_.
                    bindt (grantSubscriptionMinutes sub periodEnd minutes) (\<lambda>_. ret ()))
    in \<exists>s1 s2. turn s = Inr ((), s1) \<and>
         readCreditBalance s1 = (readCreditBalance s)(sb_userId sub := minutes) \<and>
         turn s1 = Inr ((), s2) \<and> readCreditBalance s2 = readCreditBalance s1"
proof -
  let ?u = "sb_userId sub" and ?x = "expiry_key (sb_id sub) periodEnd"
    and ?g = "renewal_key (sb_id sub) periodEnd"
  obtain v s1 where s1: "expireSubscriptionMinutes sub periodEnd s = Inr (v, s1)" "credit_inv s1"
    "readCreditBalance s1 = (readCreditBalance s)(?u := 0)" "credit_keys s1 = insert ?x (credit_keys s)"
    by (rule expire_outcome [OF assms(1,4), of periodEnd]) (use assms(5,6) in auto)
  obtain w s2 where s2: "grantSubscriptionMinutes sub periodEnd minutes s1 = Inr (w, s2)" "credit_inv s2"
    "readCreditBalance s2 = (readCreditBalance s)(?u := minutes)" "credit_keys s2 = insert ?g (credit_keys s1)"
    by (rule grant_outcome [OF s1(2) assms(2,3), of sub periodEnd])
      (use assms(7) s1(3,4) key_classes(5) in auto)
  have safe: "isSafeInteger (readCreditBalance s2 ?u)" using assms(3) s2(3) by simp
  have known: "insert ?x (credit_keys s2) = credit_keys s2" using s1(4) s2(4) by auto
  obtain v' s3 where s3: "expireSubscriptionMinutes sub periodEnd s2 = Inr (v', s3)" "credit_inv s3"
    "readCreditBalance s3 = readCreditBalance s2" "credit_keys s3 = credit_keys s2"
    by (rule expire_outcome [OF s2(2) safe, of periodEnd]) (use known in \<open>auto split: if_splits\<close>)
  obtain w' s4 where s4: "grantSubscriptionMinutes sub periodEnd minutes s3 = Inr (w', s4)"
    "readCreditBalance s4 = readCreditBalance s3"
    by (rule grant_outcome [OF s3(2) assms(2,3), of sub periodEnd]) (use s2(4) s3(4) in auto)
  show ?thesis
    using s1(1) s2(1,3) s3(1,3) s4 by (auto simp: Let_def bindt_def ret_def)
qed

theorem period_turnover_witness:
  "\<exists>s1. bindt (expireSubscriptionMinutes subscriber 1000) (\<lambda>_.
         bindt (grantSubscriptionMinutes subscriber 1000 40) (\<lambda>_. ret ())) subscriber_db = Inr ((), s1)
     \<and> readCreditBalance s1 ''u1'' = 40"
proof -
  have "expiry_key (sb_id subscriber) 1000 \<notin> credit_keys subscriber_db"
    by (simp add: subscriber_facts expiry_key_def)
  moreover have "renewal_key (sb_id subscriber) 1000 \<notin> credit_keys subscriber_db"
    by (simp add: subscriber_facts renewal_key_def)
  ultimately show ?thesis
    using period_turnover [OF subscriber_facts(1), of 40 subscriber 1000] subscriber_facts(2,6)
    by (auto simp: isSafeInteger_def Let_def)
qed

text \<open>
  The idempotency keys name their source: for ids without a colon and four-digit years, a
  booking's spend, its release, a period's grant and its expiry have keys of four disjoint
  families, each injective in what it names.
\<close>

theorem credit_keys_name_their_source:
  assumes "colon_free b" and "colon_free b'" and "colon_free x" and "colon_free y"
    and "four_digit_year t" and "four_digit_year t'"
  shows "(booking_key b = booking_key b' \<longleftrightarrow> b = b')
    \<and> (release_key b = release_key b' \<longleftrightarrow> b = b')
    \<and> (renewal_key x t = renewal_key y t' \<longleftrightarrow> x = y \<and> t = t')
    \<and> (expiry_key x t = expiry_key y t' \<longleftrightarrow> x = y \<and> t = t')
    \<and> distinct [booking_key b, release_key b', renewal_key x t, expiry_key y t']"
  using key_parts period_key_parts [OF assms(3-6)] key_classes release_key_not_booking [OF assms(1,2)]
  by simp

theorem credit_keys_name_their_source_witness:
  "renewal_key ''s1'' 0 \<noteq> renewal_key ''s1'' 86400000"
proof -
  have "four_digit_year 0" "four_digit_year 86400000" by code_simp+
  then show ?thesis
    using credit_keys_name_their_source [of "''b1''" "''b2''" "''s1''" "''s1''" 0 86400000] by simp
qed

end
