(* ===== verification/Loyalty.thy ===== *)
theory Loyalty
  imports Audit_Log Ledger "HOL-Library.Word"
begin

text \<open>
  The loyalty ledger, src/packages/db/loyalty.ts: points per user, moved by ledger entries
  that are unique on (user, kind, source), and a tier derived from the purchase points alone.

  \<open>codes\<close> gives the referral code drawn when a user's account has to be created. As in the
  credit ledger, \<open>env\<close> is what other transactions commit between the lookup of an entry and
  the claim on the account.
\<close>

unbundle bit_operations_syntax

section \<open>Definitions\<close>

definition readLoyaltyScheme :: "(db, loyaltyScheme_row \<times> loyaltyTier_row list) tx" where
  "readLoyaltyScheme =
     bindt (tx_findOrThrow loyaltyScheme (\<lambda>r. ls_id r = 1)) (\<lambda>scheme.
     bindt (reads (\<lambda>s. sort_key lt_thresholdPoints (loyaltyTier s))) (\<lambda>tiers.
     if tiers = [] \<or> lt_thresholdPoints (hd tiers) \<noteq> 0
     then throw (JsError ''The loyalty scheme needs a tier that starts at zero points.'')
     else ret (scheme, tiers)))"

text \<open>\<open>None\<close> is JavaScript's \<open>undefined\<close>: the first element of an empty list of tiers.\<close>

definition tierFor :: "loyaltyTier_row list \<Rightarrow> int \<Rightarrow> loyaltyTier_row option" where
  "tierFor tiers tierPoints =
     (let reached = filter (\<lambda>tier. lt_thresholdPoints tier \<le> max tierPoints 0) tiers
      in if reached \<noteq> [] then Some (last reached)
         else if tiers \<noteq> [] then Some (hd tiers) else None)"

definition REFERRAL_ALPHABET :: string where
  "REFERRAL_ALPHABET = ''0123456789ABCDEFGHJKMNPQRSTVWXYZ''"

definition newReferralCode :: "8 word list \<Rightarrow> string" where
  "newReferralCode bytes = map (\<lambda>byte. REFERRAL_ALPHABET ! unat (byte AND 31)) bytes"

definition new_account :: "ident \<Rightarrow> string \<Rightarrow> ident option \<Rightarrow> string \<Rightarrow> loyaltyAccount_row" where
  "new_account u tier referredBy code = \<lparr>la_userId = u, la_balance = 0, la_tierPoints = 0,
     la_tierCode = tier, la_referralCode = code,
     la_referredByUserId = (if referredBy \<noteq> None \<and> referredBy \<noteq> Some [] \<and> referredBy \<noteq> Some u
        then referredBy else None),
     la_referralRewardedAt = None\<rparr>"

definition ensureLoyaltyAccount ::
  "(ident \<Rightarrow> string) \<Rightarrow> ident \<Rightarrow> ident option \<Rightarrow> (db, loyaltyAccount_row) tx" where
  "ensureLoyaltyAccount codes u referredBy =
     bindt (tx_find loyaltyAccount (\<lambda>a. la_userId a = u)) (\<lambda>existing.
     case existing of Some a \<Rightarrow> ret a
     | None \<Rightarrow>
         bindt readLoyaltyScheme (\<lambda>(scheme, tiers).
         bindt (tx_createSkip loyaltyAccount loyaltyAccount_update
                  (\<lambda>new old. la_userId new = la_userId old \<or> la_referralCode new = la_referralCode old)
                  (new_account u (lt_code (hd tiers)) referredBy (codes u))) (\<lambda>_.
         tx_findOrThrow loyaltyAccount (\<lambda>a. la_userId a = u))))"

record loyaltyEntry =
  lp_userId :: ident
  lp_kind :: loyaltyEntryKind
  lp_points :: int
  lp_tierPoints :: "int option"
  lp_sourceRef :: string
  lp_bookingId :: "ident option"
  lp_reason :: "string option"
  lp_actorUserId :: "ident option"
  lp_refuseNegativeBalance :: bool

datatype loyaltyRefusal = LOYALTY_DUPLICATE | INSUFFICIENT_POINTS
datatype postResult = Points_posted int int | Points_refused loyaltyRefusal

abbreviation tier_points :: "loyaltyEntry \<Rightarrow> int" where
  "tier_points e \<equiv> (case lp_tierPoints e of None \<Rightarrow> 0 | Some n \<Rightarrow> n)"

definition points_row :: "loyaltyEntry \<Rightarrow> loyaltyLedger_row" where
  "points_row e = \<lparr>le_userId = lp_userId e, le_kind = lp_kind e, le_points = lp_points e,
     le_tierPoints = tier_points e, le_sourceRef = lp_sourceRef e, le_bookingId = lp_bookingId e,
     le_reason = lp_reason e, le_actorUserId = lp_actorUserId e\<rparr>"

abbreviation row_key :: "loyaltyLedger_row \<Rightarrow> ident \<times> loyaltyEntryKind \<times> string" where
  "row_key r \<equiv> (le_userId r, le_kind r, le_sourceRef r)"

abbreviation entry_key :: "loyaltyEntry \<Rightarrow> ident \<times> loyaltyEntryKind \<times> string" where
  "entry_key e \<equiv> (lp_userId e, lp_kind e, lp_sourceRef e)"

fun loyaltyKind_text :: "loyaltyEntryKind \<Rightarrow> string" where
  "loyaltyKind_text WELCOME_BONUS = ''WELCOME_BONUS''"
| "loyaltyKind_text REFERRAL_BONUS = ''REFERRAL_BONUS''"
| "loyaltyKind_text PURCHASE_EARNED = ''PURCHASE_EARNED''"
| "loyaltyKind_text PURCHASE_REVERSED = ''PURCHASE_REVERSED''"
| "loyaltyKind_text REDEEMED_POINTS = ''REDEEMED''"
| "loyaltyKind_text REDEMPTION_RELEASED = ''REDEMPTION_RELEASED''"
| "loyaltyKind_text ADMIN_ADJUSTMENT = ''ADMIN_ADJUSTMENT''"

definition loyalty_audit :: "loyaltyEntry \<Rightarrow> int \<Rightarrow> auditLog_row" where
  "loyalty_audit e balance =
     (audit_entry LOYALTY (''LOYALTY_'' @ loyaltyKind_text (lp_kind e))
        [(''points'', JNum (lp_points e)), (''tierPoints'', JNum (tier_points e)),
         (''sourceRef'', JStr (lp_sourceRef e)), (''bookingId'', json_opt (lp_bookingId e)),
         (''reason'', json_opt (lp_reason e)), (''balance'', JNum balance)])
     \<lparr>au_actorUserId := lp_actorUserId e, au_entityType := Some ''LoyaltyAccount'',
      au_entityId := Some (lp_userId e)\<rparr>"

definition tier_audit :: "ident \<Rightarrow> string \<Rightarrow> string \<Rightarrow> int \<Rightarrow> auditLog_row" where
  "tier_audit u old new points =
     (audit_entry LOYALTY ''LOYALTY_TIER_CHANGED''
        [(''from'', JStr old), (''to'', JStr new), (''tierPoints'', JNum points)])
     \<lparr>au_entityType := Some ''LoyaltyAccount'', au_entityId := Some u\<rparr>"

definition move_points :: "int \<Rightarrow> int \<Rightarrow> loyaltyAccount_row \<Rightarrow> loyaltyAccount_row" where
  "move_points p t a = a\<lparr>la_balance := la_balance a + p, la_tierPoints := la_tierPoints a + t\<rparr>"

text \<open>The last step of a posting: an entry that moved tier points may change the tier.\<close>

definition retier :: "loyaltyEntry \<Rightarrow> loyaltyAccount_row \<Rightarrow> (db, unit) tx" where
  "retier e account =
     (if tier_points e \<noteq> 0
      then bindt readLoyaltyScheme (\<lambda>(scheme, tiers).
           case tierFor tiers (la_tierPoints account) of None \<Rightarrow> throw (JsError ''TypeError'')
           | Some tier \<Rightarrow>
               if lt_code tier \<noteq> la_tierCode account
               then bindt (tx_update loyaltyAccount loyaltyAccount_update
                       (\<lambda>a. la_userId a = lp_userId e) (\<lambda>a. a\<lparr>la_tierCode := lt_code tier\<rparr>)) (\<lambda>_.
                    recordAuditEvent (tier_audit (lp_userId e) (la_tierCode account) (lt_code tier)
                       (la_tierPoints account)))
               else ret ())
      else ret ())"

definition appendLoyaltyEntry :: "loyaltyEntry \<Rightarrow> (db, postResult) tx" where
  "appendLoyaltyEntry e =
     bindt (tx_createSkip loyaltyLedgerEntry loyaltyLedgerEntry_update
              (\<lambda>new old. row_key new = row_key old) (points_row e)) (\<lambda>count.
     if count = 0
     then bindt (tx_update loyaltyAccount loyaltyAccount_update (\<lambda>a. la_userId a = lp_userId e)
              (move_points (- lp_points e) (- tier_points e))) (\<lambda>_.
            ret (Points_refused LOYALTY_DUPLICATE))
     else bindt (tx_findOrThrow loyaltyAccount (\<lambda>a. la_userId a = lp_userId e)) (\<lambda>account.
          bindt (recordAuditEvent (loyalty_audit e (la_balance account))) (\<lambda>_.
          bindt (retier e account) (\<lambda>_.
          ret (Points_posted (la_balance account) (la_tierPoints account))))))"

definition writeLoyaltyEntry :: "loyaltyEntry \<Rightarrow> (db, postResult) tx" where
  "writeLoyaltyEntry e =
     bindt (if lp_refuseNegativeBalance e \<and> lp_points e < 0
            then tx_updateMany loyaltyAccount loyaltyAccount_update
                   (\<lambda>a. la_userId a = lp_userId e \<and> - lp_points e \<le> la_balance a)
                   (move_points (lp_points e) (tier_points e))
            else bindt (tx_update loyaltyAccount loyaltyAccount_update
                   (\<lambda>a. la_userId a = lp_userId e)
                   (move_points (lp_points e) (tier_points e))) (\<lambda>_. ret 1)) (\<lambda>claimed.
     if claimed = 0 then ret (Points_refused INSUFFICIENT_POINTS) else appendLoyaltyEntry e)"

definition postLoyaltyEntry_with ::
  "(db, unit) tx \<Rightarrow> (ident \<Rightarrow> string) \<Rightarrow> loyaltyEntry \<Rightarrow> (db, postResult) tx" where
  "postLoyaltyEntry_with env codes e =
     bindt (ensureLoyaltyAccount codes (lp_userId e) None) (\<lambda>_.
     bindt (tx_find loyaltyLedgerEntry (\<lambda>r. row_key r = entry_key e)) (\<lambda>already.
     if already \<noteq> None then ret (Points_refused LOYALTY_DUPLICATE)
     else bindt env (\<lambda>_. writeLoyaltyEntry e)))"

definition postLoyaltyEntry ::
  "(ident \<Rightarrow> string) \<Rightarrow> loyaltyEntry \<Rightarrow> (db, postResult) tx" where
  "postLoyaltyEntry codes e = postLoyaltyEntry_with (ret ()) codes e"

definition pointsEarnedFor :: "loyaltyScheme_row \<Rightarrow> int \<Rightarrow> int" where
  "pointsEarnedFor scheme amountMinor = (amountMinor * ls_pointsPerGel scheme) div 100"

definition loyalty_entry :: "ident \<Rightarrow> loyaltyEntryKind \<Rightarrow> int \<Rightarrow> string \<Rightarrow> loyaltyEntry" where
  "loyalty_entry u k n src = \<lparr>lp_userId = u, lp_kind = k, lp_points = n, lp_tierPoints = None,
     lp_sourceRef = src, lp_bookingId = None, lp_reason = None, lp_actorUserId = None,
     lp_refuseNegativeBalance = False\<rparr>"

definition payment_source :: "ident \<Rightarrow> string" where "payment_source p = ''payment:'' @ p"
definition booking_source :: "ident \<Rightarrow> string" where "booking_source b = ''booking:'' @ b"
definition referee_source :: "ident \<Rightarrow> string" where "referee_source u = ''referee:'' @ u"

definition earn_entry :: "ident \<Rightarrow> ident \<Rightarrow> int \<Rightarrow> ident option \<Rightarrow> loyaltyEntry" where
  "earn_entry paymentId userId points bookingId =
     (loyalty_entry userId PURCHASE_EARNED points (payment_source paymentId))
       \<lparr>lp_tierPoints := Some points, lp_bookingId := bookingId\<rparr>"

definition earnOnSettledPayment ::
  "(ident \<Rightarrow> string) \<Rightarrow> ident \<Rightarrow> ident \<Rightarrow> int \<Rightarrow> ident option \<Rightarrow> (db, unit) tx" where
  "earnOnSettledPayment codes paymentId userId amountMinor bookingId =
     bindt readLoyaltyScheme (\<lambda>(scheme, _).
     let points = pointsEarnedFor scheme amountMinor
     in if points \<le> 0 then ret ()
        else bindt (postLoyaltyEntry codes (earn_entry paymentId userId points bookingId)) (\<lambda>_. ret ()))"

definition rewardReferralOnFirstPaidBooking ::
  "(ident \<Rightarrow> string) \<Rightarrow> ident \<Rightarrow> time \<Rightarrow> (db, unit) tx" where
  "rewardReferralOnFirstPaidBooking codes refereeId now =
     bindt (tx_find loyaltyAccount (\<lambda>a. la_userId a = refereeId)) (\<lambda>account.
     case account of None \<Rightarrow> ret ()
     | Some a \<Rightarrow>
        (case la_referredByUserId a of None \<Rightarrow> ret ()
         | Some referrer \<Rightarrow>
            if la_referralRewardedAt a \<noteq> None then ret ()
            else bindt (tx_updateMany loyaltyAccount loyaltyAccount_update
                     (\<lambda>r. la_userId r = refereeId \<and> la_referralRewardedAt r = None)
                     (\<lambda>r. r\<lparr>la_referralRewardedAt := Some now\<rparr>)) (\<lambda>count.
                 if count = 0 then ret ()
                 else bindt readLoyaltyScheme (\<lambda>(scheme, _).
                      if ls_referralBonusPoints scheme \<le> 0 then ret ()
                      else for_each [refereeId, referrer] (\<lambda>userId.
                             bindt (postLoyaltyEntry codes
                                (loyalty_entry userId REFERRAL_BONUS (ls_referralBonusPoints scheme)
                                   (referee_source refereeId))) (\<lambda>_. ret ()))))))"

definition release_entry :: "ident \<Rightarrow> ident \<Rightarrow> int \<Rightarrow> loyaltyEntry" where
  "release_entry bookingId userId points =
     (loyalty_entry userId REDEMPTION_RELEASED points (booking_source bookingId))
       \<lparr>lp_bookingId := Some bookingId\<rparr>"

definition releaseRedeemedPoints ::
  "(ident \<Rightarrow> string) \<Rightarrow> ident \<Rightarrow> ident \<Rightarrow> int \<Rightarrow> (db, unit) tx" where
  "releaseRedeemedPoints codes bookingId userId points =
     (if points \<le> 0 then ret ()
      else bindt (postLoyaltyEntry codes (release_entry bookingId userId points)) (\<lambda>_. ret ()))"

definition reverse_entry :: "ident \<Rightarrow> ident \<Rightarrow> loyaltyLedger_row \<Rightarrow> loyaltyEntry" where
  "reverse_entry paymentId userId earned =
     (loyalty_entry userId PURCHASE_REVERSED (- le_points earned) (payment_source paymentId))
       \<lparr>lp_tierPoints := Some (- le_tierPoints earned), lp_bookingId := le_bookingId earned\<rparr>"

definition reverseLoyaltyForRefund ::
  "(ident \<Rightarrow> string) \<Rightarrow> ident \<Rightarrow> ident \<Rightarrow> booking_row option \<Rightarrow> (db, unit) tx" where
  "reverseLoyaltyForRefund codes paymentId userId b =
     bindt (tx_find loyaltyLedgerEntry
        (\<lambda>r. row_key r = (userId, PURCHASE_EARNED, payment_source paymentId))) (\<lambda>earned.
     bindt (case earned of None \<Rightarrow> ret ()
            | Some x \<Rightarrow> bindt (postLoyaltyEntry codes (reverse_entry paymentId userId x)) (\<lambda>_. ret ())) (\<lambda>_.
     case b of None \<Rightarrow> ret ()
     | Some bk \<Rightarrow> releaseRedeemedPoints codes (bk_id bk) (bk_userId bk) (bk_loyaltyPointsRedeemed bk)))"

section \<open>The invariant\<close>

definition points_sum :: "ident \<Rightarrow> loyaltyLedger_row list \<Rightarrow> int" where
  "points_sum u rows = sum_list (map le_points (filter (\<lambda>r. le_userId r = u) rows))"

definition tier_points_sum :: "ident \<Rightarrow> loyaltyLedger_row list \<Rightarrow> int" where
  "tier_points_sum u rows = sum_list (map le_tierPoints (filter (\<lambda>r. le_userId r = u) rows))"

definition loyalty_inv :: "db \<Rightarrow> bool" where
  "loyalty_inv s \<longleftrightarrow>
     distinct (map la_userId (loyaltyAccount s))
     \<and> distinct (map la_referralCode (loyaltyAccount s))
     \<and> distinct (map row_key (loyaltyLedgerEntry s))
     \<and> (\<forall>a \<in> set (loyaltyAccount s).
          la_balance a = points_sum (la_userId a) (loyaltyLedgerEntry s)
          \<and> la_tierPoints a = tier_points_sum (la_userId a) (loyaltyLedgerEntry s))
     \<and> (\<forall>r \<in> set (loyaltyLedgerEntry s). le_userId r \<in> la_userId ` set (loyaltyAccount s))"

abbreviation loyalty_keys :: "db \<Rightarrow> (ident \<times> loyaltyEntryKind \<times> string) set" where
  "loyalty_keys s \<equiv> row_key ` set (loyaltyLedgerEntry s)"

definition pointsBalance :: "db \<Rightarrow> ident \<Rightarrow> int" where
  "pointsBalance s u =
     (case find (\<lambda>a. la_userId a = u) (loyaltyAccount s) of None \<Rightarrow> 0 | Some a \<Rightarrow> la_balance a)"

definition tierPointsOf :: "db \<Rightarrow> ident \<Rightarrow> int" where
  "tierPointsOf s u =
     (case find (\<lambda>a. la_userId a = u) (loyaltyAccount s) of None \<Rightarrow> 0 | Some a \<Rightarrow> la_tierPoints a)"

section \<open>Closed forms\<close>

lemma loyalty_audit_clean [simp]:
  "offending_keys (au_metadata (loyalty_audit e n)) = []"
  "offending_keys (au_metadata (tier_audit u old new p)) = []"
  by (simp_all add: loyalty_audit_def tier_audit_def)

lemma points_row_simps [simp]:
  "le_userId (points_row e) = lp_userId e" "le_kind (points_row e) = lp_kind e"
  "le_points (points_row e) = lp_points e" "le_tierPoints (points_row e) = tier_points e"
  "le_sourceRef (points_row e) = lp_sourceRef e"
  by (simp_all add: points_row_def)

lemma move_points_simps [simp]:
  "la_userId (move_points p t a) = la_userId a"
  "la_referralCode (move_points p t a) = la_referralCode a"
  "la_balance (move_points p t a) = la_balance a + p"
  "la_tierPoints (move_points p t a) = la_tierPoints a + t"
  "la_tierCode (move_points p t a) = la_tierCode a"
  "la_referredByUserId (move_points p t a) = la_referredByUserId a"
  "la_referralRewardedAt (move_points p t a) = la_referralRewardedAt a"
  by (simp_all add: move_points_def)

lemma loyalty_entry_simps [simp]:
  "lp_userId (loyalty_entry u k n src) = u" "lp_kind (loyalty_entry u k n src) = k"
  "lp_points (loyalty_entry u k n src) = n" "lp_tierPoints (loyalty_entry u k n src) = None"
  "lp_sourceRef (loyalty_entry u k n src) = src"
  "lp_refuseNegativeBalance (loyalty_entry u k n src) = False"
  by (simp_all add: loyalty_entry_def)

lemma new_account_simps [simp]:
  "la_userId (new_account u t r c) = u" "la_balance (new_account u t r c) = 0"
  "la_tierPoints (new_account u t r c) = 0" "la_tierCode (new_account u t r c) = t"
  "la_referralCode (new_account u t r c) = c" "la_referralRewardedAt (new_account u t r c) = None"
  by (simp_all add: new_account_def)

lemma find_member_None: "find (\<lambda>a. la_userId a = u) t = None \<longleftrightarrow> u \<notin> la_userId ` set t"
  by (induction t) auto

lemma find_row_None: "find (\<lambda>r. row_key r = k) t = None \<longleftrightarrow> k \<notin> row_key ` set t"
  by (induction t) auto

text \<open>The tiers as \<open>readLoyaltyScheme\<close> returns them.\<close>

definition sorted_tiers :: "db \<Rightarrow> loyaltyTier_row list" where
  "sorted_tiers s = sort_key lt_thresholdPoints (loyaltyTier s)"

lemma readLoyaltyScheme_eq:
  "readLoyaltyScheme s = Inr (v, s') \<longleftrightarrow>
     s' = s \<and> snd v = sorted_tiers s \<and> find (\<lambda>r. ls_id r = 1) (loyaltyScheme s) = Some (fst v)
     \<and> sorted_tiers s \<noteq> [] \<and> lt_thresholdPoints (hd (sorted_tiers s)) = 0"
  by (cases v) (auto simp: readLoyaltyScheme_def tx_simps sorted_tiers_def split: option.splits)

lemma keeps_readLoyaltyScheme [keeps_intros]: "keeps I readLoyaltyScheme"
  by (rule keepsI) (simp add: readLoyaltyScheme_eq)

text \<open>The state after a posted entry: the account moved and put in tier \<open>c\<close>, the entry appended.\<close>

definition pointed :: "loyaltyEntry \<Rightarrow> string \<Rightarrow> auditLog_row list \<Rightarrow> db \<Rightarrow> db" where
  "pointed e c au s = s\<lparr>loyaltyAccount := updateMany (\<lambda>a. la_userId a = lp_userId e)
        (\<lambda>a. (move_points (lp_points e) (tier_points e) a)\<lparr>la_tierCode := c\<rparr>) (loyaltyAccount s),
     loyaltyLedgerEntry := loyaltyLedgerEntry s @ [points_row e], auditLog := au\<rparr>"

definition tier_after :: "db \<Rightarrow> loyaltyEntry \<Rightarrow> loyaltyAccount_row \<Rightarrow> string \<Rightarrow> bool" where
  "tier_after s e a c \<longleftrightarrow>
     (if tier_points e = 0 then c = la_tierCode a
      else map_option lt_code (tierFor (sorted_tiers s) (la_tierPoints a + tier_points e)) = Some c)"

lemma updateMany_set_tier:
  assumes "distinct (map la_userId t)" and "find (\<lambda>a. la_userId a = u) t = Some a"
    and "c = la_tierCode a"
  shows "updateMany (\<lambda>a. la_userId a = u) (\<lambda>a. a\<lparr>la_tierCode := c\<rparr>) t = t"
proof -
  have "x\<lparr>la_tierCode := c\<rparr> = x" if "x \<in> set t" "la_userId x = u" for x
  proof -
    have "x = a"
      using find_SomeD [OF assms(2)] that by (intro distinct_key_eq [OF assms(1)]) simp_all
    with assms(3) show ?thesis by simp
  qed
  then show ?thesis unfolding updateMany_def by (intro map_idI) auto
qed

lemma retier_effect:
  assumes "retier e account s = Inr (x, s')"
    and "distinct (map la_userId (loyaltyAccount s))"
    and "find (\<lambda>a. la_userId a = lp_userId e) (loyaltyAccount s) = Some account"
  obtains c au where "s' = s\<lparr>loyaltyAccount := updateMany (\<lambda>a. la_userId a = lp_userId e)
      (\<lambda>a. a\<lparr>la_tierCode := c\<rparr>) (loyaltyAccount s), auditLog := au\<rparr>"
    and "if tier_points e = 0 then c = la_tierCode account
         else map_option lt_code (tierFor (sorted_tiers s) (la_tierPoints account)) = Some c"
proof (cases "tier_points e = 0")
  case True
  with assms(1) have "s' = s" by (simp add: retier_def tx_simps)
  with True that [where c = "la_tierCode account" and au = "auditLog s"] updateMany_set_tier [OF assms(2,3)]
  show thesis by simp
next
  case False
  with assms(1) obtain sch tiers where v: "readLoyaltyScheme s = Inr ((sch, tiers), s)"
    and r: "(case tierFor tiers (la_tierPoints account) of None \<Rightarrow> throw (JsError ''TypeError'')
           | Some tier \<Rightarrow>
               if lt_code tier \<noteq> la_tierCode account
               then bindt (tx_update loyaltyAccount loyaltyAccount_update
                       (\<lambda>a. la_userId a = lp_userId e) (\<lambda>a. a\<lparr>la_tierCode := lt_code tier\<rparr>)) (\<lambda>_.
                    recordAuditEvent (tier_audit (lp_userId e) (la_tierCode account) (lt_code tier)
                       (la_tierPoints account)))
               else ret ()) s = Inr (x, s')"
    by (auto simp: retier_def bindt_eq_Inr readLoyaltyScheme_eq)
  from v have tiers: "tiers = sorted_tiers s" by (simp add: readLoyaltyScheme_eq)
  from r obtain t where t: "tierFor (sorted_tiers s) (la_tierPoints account) = Some t"
    by (auto simp: tiers tx_simps split: option.splits)
  show thesis
  proof (cases "lt_code t = la_tierCode account")
    case True
    with r t have "s' = s" by (simp add: tiers tx_simps)
    with False t True that [where c = "lt_code t" and au = "auditLog s"] updateMany_set_tier [OF assms(2,3)]
    show thesis by simp
  next
    case ne: False
    with r t have "s' = s\<lparr>loyaltyAccount := updateMany (\<lambda>a. la_userId a = lp_userId e)
          (\<lambda>a. a\<lparr>la_tierCode := lt_code t\<rparr>) (loyaltyAccount s),
        auditLog := auditLog s @ [tier_audit (lp_userId e) (la_tierCode account) (lt_code t)
          (la_tierPoints account)]\<rparr>"
      by (simp add: tiers tx_simps split: if_splits)
    with False t that show thesis by (metis option.simps(9))
  qed
qed

abbreviation moved_accounts :: "loyaltyEntry \<Rightarrow> loyaltyAccount_row list \<Rightarrow> loyaltyAccount_row list" where
  "moved_accounts e t \<equiv> updateMany (\<lambda>a. la_userId a = lp_userId e) (move_points (lp_points e) (tier_points e)) t"

lemma find_moved:
  "find (\<lambda>a. la_userId a = lp_userId e) t = Some a \<Longrightarrow>
   find (\<lambda>a. la_userId a = lp_userId e) (moved_accounts e t) = Some (move_points (lp_points e) (tier_points e) a)"
  by (simp add: find_keyed_update)

lemma appendLoyaltyEntry_cases:
  assumes d: "distinct (map la_userId (loyaltyAccount s))"
    and a: "find (\<lambda>a. la_userId a = lp_userId e) (loyaltyAccount s) = Some a"
    and r: "appendLoyaltyEntry e (s\<lparr>loyaltyAccount := moved_accounts e (loyaltyAccount s)\<rparr>) = Inr (r, s')"
  obtains
    (duplicate) "entry_key e \<in> loyalty_keys s" "r = Points_refused LOYALTY_DUPLICATE" "s' = s"
  | (posted) c au where "entry_key e \<notin> loyalty_keys s"
      "r = Points_posted (la_balance a + lp_points e) (la_tierPoints a + tier_points e)"
      "s' = pointed e c au s" "tier_after s e a c"
proof (cases "entry_key e \<in> loyalty_keys s")
  case True
  have undo: "updateMany (\<lambda>a. la_userId a = lp_userId e) (move_points (- lp_points e) (- tier_points e))
      (moved_accounts e (loyaltyAccount s)) = loyaltyAccount s"
    by (simp add: keyed_update_compose updateMany_ident move_points_def)
  have "list_ex (\<lambda>a. la_userId a = lp_userId e) (moved_accounts e (loyaltyAccount s))"
    using find_moved [OF a] by (simp add: list_ex_find)
  moreover have "list_ex (\<lambda>old. row_key (points_row e) = row_key old) (loyaltyLedgerEntry s)"
    using True list_ex_key [of "entry_key e" row_key "loyaltyLedgerEntry s"] by simp
  ultimately have "r = Points_refused LOYALTY_DUPLICATE \<and> s' = s"
    using r undo by (simp add: appendLoyaltyEntry_def tx_simps)
  with True show thesis using duplicate by blast
next
  case False
  let ?a = "move_points (lp_points e) (tier_points e) a"
  let ?s1 = "s\<lparr>loyaltyAccount := moved_accounts e (loyaltyAccount s),
     loyaltyLedgerEntry := loyaltyLedgerEntry s @ [points_row e],
     auditLog := auditLog s @ [loyalty_audit e (la_balance ?a)]\<rparr>"
  have fresh: "\<not> list_ex (\<lambda>old. row_key (points_row e) = row_key old) (loyaltyLedgerEntry s)"
    using False list_ex_key [of "entry_key e" row_key "loyaltyLedgerEntry s"] by simp
  with r find_moved [OF a] obtain x where rt: "retier e ?a ?s1 = Inr (x, s')"
    and res: "r = Points_posted (la_balance ?a) (la_tierPoints ?a)"
    by (auto simp: appendLoyaltyEntry_def tx_simps bindt_def [of "retier e z" for z]
        split: sum.splits)
  have d1: "distinct (map la_userId (loyaltyAccount ?s1))"
    using d by (simp add: map_updateMany_inv)
  have a1: "find (\<lambda>a. la_userId a = lp_userId e) (loyaltyAccount ?s1) = Some ?a"
    using find_moved [OF a] by simp
  obtain c au where s': "s' = ?s1\<lparr>loyaltyAccount := updateMany (\<lambda>a. la_userId a = lp_userId e)
      (\<lambda>a. a\<lparr>la_tierCode := c\<rparr>) (loyaltyAccount ?s1), auditLog := au\<rparr>"
    and c: "if tier_points e = 0 then c = la_tierCode ?a
         else map_option lt_code (tierFor (sorted_tiers ?s1) (la_tierPoints ?a)) = Some c"
    using retier_effect [OF rt d1 a1] by metis
  have "s' = pointed e c au s"
    unfolding s' pointed_def by (cases s) (simp add: keyed_update_compose)
  moreover have "tier_after s e a c"
    using c by (auto simp: tier_after_def sorted_tiers_def split: if_splits)
  ultimately show thesis using False res posted by simp
qed

lemma writeLoyaltyEntry_cases:
  assumes d: "distinct (map la_userId (loyaltyAccount s))"
    and r: "writeLoyaltyEntry e s = Inr (r, s')"
  obtains
    (insufficient) "lp_refuseNegativeBalance e" "lp_points e < 0" "pointsBalance s (lp_userId e) < - lp_points e"
      "r = Points_refused INSUFFICIENT_POINTS" "s' = s"
  | (duplicate) "entry_key e \<in> loyalty_keys s" "r = Points_refused LOYALTY_DUPLICATE" "s' = s"
  | (posted) a c au where "entry_key e \<notin> loyalty_keys s"
      "find (\<lambda>a. la_userId a = lp_userId e) (loyaltyAccount s) = Some a"
      "r = Points_posted (la_balance a + lp_points e) (la_tierPoints a + tier_points e)"
      "s' = pointed e c au s" "tier_after s e a c"
      "lp_refuseNegativeBalance e \<and> lp_points e < 0 \<longrightarrow> 0 \<le> la_balance a + lp_points e"
proof (cases "find (\<lambda>a. la_userId a = lp_userId e) (loyaltyAccount s)")
  case None
  with r keyed_filter_None [OF None] keyed_updateMany_None [OF None] insufficient show thesis
    by (auto simp: writeLoyaltyEntry_def tx_simps list_ex_find pointsBalance_def split: if_splits)
next
  case (Some a)
  have bal: "pointsBalance s (lp_userId e) = la_balance a" using Some by (simp add: pointsBalance_def)
  have claim: "filter (\<lambda>a. la_userId a = lp_userId e \<and> - lp_points e \<le> la_balance a) (loyaltyAccount s)
        = (if - lp_points e \<le> la_balance a then [a] else [])"
    "updateMany (\<lambda>a. la_userId a = lp_userId e \<and> - lp_points e \<le> la_balance a)
        (move_points (lp_points e) (tier_points e)) (loyaltyAccount s)
        = (if - lp_points e \<le> la_balance a then moved_accounts e (loyaltyAccount s) else loyaltyAccount s)"
    using keyed_filter [OF d Some] keyed_updateMany [OF d Some] by simp_all
  show thesis
  proof (cases "lp_refuseNegativeBalance e \<and> lp_points e < 0 \<and> la_balance a < - lp_points e")
    case True
    with r claim have "r = Points_refused INSUFFICIENT_POINTS \<and> s' = s"
      by (simp add: writeLoyaltyEntry_def tx_simps)
    with True bal show thesis using insufficient by simp
  next
    case False
    then have "writeLoyaltyEntry e s =
        appendLoyaltyEntry e (s\<lparr>loyaltyAccount := moved_accounts e (loyaltyAccount s)\<rparr>)"
      using claim Some by (auto simp: writeLoyaltyEntry_def tx_simps list_ex_find not_less)
    then have "appendLoyaltyEntry e (s\<lparr>loyaltyAccount := moved_accounts e (loyaltyAccount s)\<rparr>) = Inr (r, s')"
      using r by simp
    then show thesis
    proof (cases rule: appendLoyaltyEntry_cases [OF d Some, consumes 1, case_names dup new])
      case dup
      then show thesis by (rule duplicate)
    next
      case (new c au)
      with False Some show thesis by (intro posted) auto
    qed
  qed
qed

text \<open>The account a posting finds or creates.\<close>

definition joined :: "(ident \<Rightarrow> string) \<Rightarrow> ident \<Rightarrow> db \<Rightarrow> db" where
  "joined codes u s =
     (if u \<in> la_userId ` set (loyaltyAccount s) then s
      else s\<lparr>loyaltyAccount := loyaltyAccount s @
             [new_account u (lt_code (hd (sorted_tiers s))) None (codes u)]\<rparr>)"

text \<open>What creating an account needs: the scheme, a tier at zero and an unused referral code.\<close>

definition can_join :: "(ident \<Rightarrow> string) \<Rightarrow> ident \<Rightarrow> db \<Rightarrow> bool" where
  "can_join codes u s \<longleftrightarrow> u \<in> la_userId ` set (loyaltyAccount s) \<or>
     ((\<exists>v. readLoyaltyScheme s = Inr (v, s)) \<and> codes u \<notin> la_referralCode ` set (loyaltyAccount s))"

lemma ensureLoyaltyAccount_eq:
  "(\<exists>a. ensureLoyaltyAccount codes u None s = Inr (a, s')) \<longleftrightarrow> can_join codes u s \<and> s' = joined codes u s"
proof (cases "find (\<lambda>a. la_userId a = u) (loyaltyAccount s)")
  case None
  then have new: "u \<notin> la_userId ` set (loyaltyAccount s)" by (simp add: find_member_None)
  then have "list_ex (\<lambda>old. u = la_userId old \<or> codes u = la_referralCode old) (loyaltyAccount s)
      \<longleftrightarrow> codes u \<in> la_referralCode ` set (loyaltyAccount s)"
    by (auto simp: list_ex_iff)
  with None new show ?thesis
    by (auto simp: ensureLoyaltyAccount_def can_join_def joined_def tx_simps bindt_eq_Inr
        readLoyaltyScheme_eq find_append split: if_splits)
next
  case (Some a)
  then have "u \<in> la_userId ` set (loyaltyAccount s)"
    using find_SomeD [OF Some] by (metis image_eqI)
  with Some show ?thesis
    by (auto simp: ensureLoyaltyAccount_def can_join_def joined_def tx_simps)
qed

lemma bindt_ensureLoyaltyAccount:
  "bindt (ensureLoyaltyAccount codes u None) (\<lambda>_. m) s = Inr (r, s') \<longleftrightarrow>
     can_join codes u s \<and> m (joined codes u s) = Inr (r, s')"
  unfolding bindt_eq_Inr using ensureLoyaltyAccount_eq [of codes u s] by metis

lemma lookup_entry:
  "bindt (tx_find loyaltyLedgerEntry (\<lambda>r. row_key r = k)) (\<lambda>already.
     if already \<noteq> None then m1 else m2) s = (if k \<in> loyalty_keys s then m1 s else m2 s)"
  using find_row_None [of k "loyaltyLedgerEntry s"] unfolding tx_simps by presburger

lemma postLoyaltyEntry_with_eq:
  "postLoyaltyEntry_with env codes e s = Inr (r, s') \<longleftrightarrow>
     can_join codes (lp_userId e) s \<and>
     (if entry_key e \<in> loyalty_keys s
      then r = Points_refused LOYALTY_DUPLICATE \<and> s' = joined codes (lp_userId e) s
      else bindt env (\<lambda>_. writeLoyaltyEntry e) (joined codes (lp_userId e) s) = Inr (r, s'))"
  unfolding postLoyaltyEntry_with_def bindt_ensureLoyaltyAccount lookup_entry
  by (auto simp: joined_def tx_simps)

lemma joined_simps [simp]:
  "loyaltyLedgerEntry (joined codes u s) = loyaltyLedgerEntry s"
  "u \<in> la_userId ` set (loyaltyAccount (joined codes u s))"
  "pointsBalance (joined codes u s) = pointsBalance s"
  "tierPointsOf (joined codes u s) = tierPointsOf s"
  "sorted_tiers (joined codes u s) = sorted_tiers s"
  by (auto simp: joined_def pointsBalance_def tierPointsOf_def sorted_tiers_def find_append fun_eq_iff
      split: option.splits)

section \<open>Preservation of the invariant\<close>

lemma sum_simps [simp]:
  "points_sum u [] = 0" "tier_points_sum u [] = 0"
  "points_sum u (rows @ [r]) = points_sum u rows + (if le_userId r = u then le_points r else 0)"
  "tier_points_sum u (rows @ [r]) = tier_points_sum u rows + (if le_userId r = u then le_tierPoints r else 0)"
  by (simp_all add: points_sum_def tier_points_sum_def)

lemma sums_unknown:
  assumes "\<And>r. r \<in> set rows \<Longrightarrow> le_userId r \<noteq> u"
  shows "points_sum u rows = 0" "tier_points_sum u rows = 0"
  using assms by (simp_all add: points_sum_def tier_points_sum_def)

lemma loyalty_inv_distinct: "loyalty_inv s \<Longrightarrow> distinct (map la_userId (loyaltyAccount s))"
  by (simp add: loyalty_inv_def)

lemma loyalty_inv_joined:
  assumes inv: "loyalty_inv s" and "can_join codes u s"
  shows "loyalty_inv (joined codes u s)"
proof (cases "u \<in> la_userId ` set (loyaltyAccount s)")
  case False
  then have "r \<in> set (loyaltyLedgerEntry s) \<Longrightarrow> le_userId r \<noteq> u" for r
    using inv by (auto simp: loyalty_inv_def)
  with sums_unknown [of "loyaltyLedgerEntry s" u] False assms show ?thesis
    by (auto simp: loyalty_inv_def joined_def can_join_def)
qed (use inv in \<open>simp add: joined_def\<close>)

lemma pointed_accounts:
  "map la_userId (loyaltyAccount (pointed e c au s)) = map la_userId (loyaltyAccount s)"
  "map la_referralCode (loyaltyAccount (pointed e c au s)) = map la_referralCode (loyaltyAccount s)"
  "la_userId ` set (loyaltyAccount (pointed e c au s)) = la_userId ` set (loyaltyAccount s)"
proof -
  show u: "map la_userId (loyaltyAccount (pointed e c au s)) = map la_userId (loyaltyAccount s)"
    by (simp add: pointed_def map_updateMany_inv)
  then show "la_userId ` set (loyaltyAccount (pointed e c au s)) = la_userId ` set (loyaltyAccount s)"
    by (metis list.set_map)
qed (simp add: pointed_def map_updateMany_inv)

lemma loyalty_inv_pointed:
  assumes inv: "loyalty_inv s" and acc: "lp_userId e \<in> la_userId ` set (loyaltyAccount s)"
    and key: "entry_key e \<notin> loyalty_keys s"
  shows "loyalty_inv (pointed e c au s)"
proof -
  have "\<forall>a \<in> set (loyaltyAccount (pointed e c au s)).
      la_balance a = points_sum (la_userId a) (loyaltyLedgerEntry s @ [points_row e]) \<and>
      la_tierPoints a = tier_points_sum (la_userId a) (loyaltyLedgerEntry s @ [points_row e])"
    using inv by (auto simp: loyalty_inv_def pointed_def set_updateMany)
  moreover have "loyaltyLedgerEntry (pointed e c au s) = loyaltyLedgerEntry s @ [points_row e]"
    by (simp add: pointed_def)
  ultimately show ?thesis
    using inv acc key unfolding loyalty_inv_def pointed_accounts by auto
qed

lemma write_keeps_loyalty_inv: "keeps loyalty_inv (writeLoyaltyEntry e)"
proof (rule keepsI)
  fix s r s'
  assume inv: "loyalty_inv s" and w: "writeLoyaltyEntry e s = Inr (r, s')"
  from loyalty_inv_distinct [OF inv] w show "loyalty_inv s'"
  proof (cases rule: writeLoyaltyEntry_cases)
    case (posted a c au)
    have "lp_userId e \<in> la_userId ` set (loyaltyAccount s)"
      using find_SomeD [OF posted(2)] by (metis image_eqI)
    with inv posted(1,4) show ?thesis by (simp add: loyalty_inv_pointed)
  qed (use inv in simp_all)
qed

section \<open>The contract\<close>

lemma find_pointed:
  "find (\<lambda>a. la_userId a = u) (loyaltyAccount (pointed e c au s)) =
     (if u = lp_userId e
      then map_option (\<lambda>a. (move_points (lp_points e) (tier_points e) a)\<lparr>la_tierCode := c\<rparr>)
             (find (\<lambda>a. la_userId a = u) (loyaltyAccount s))
      else find (\<lambda>a. la_userId a = u) (loyaltyAccount s))"
  by (simp add: pointed_def find_keyed_update)

lemma pointed_balances:
  assumes "lp_userId e \<in> la_userId ` set (loyaltyAccount s)"
  shows "pointsBalance (pointed e c au s) =
      (pointsBalance s)(lp_userId e := pointsBalance s (lp_userId e) + lp_points e)"
    and "tierPointsOf (pointed e c au s) =
      (tierPointsOf s)(lp_userId e := tierPointsOf s (lp_userId e) + tier_points e)"
proof -
  obtain a where "find (\<lambda>a. la_userId a = lp_userId e) (loyaltyAccount s) = Some a"
    using assms find_member_None [of "lp_userId e" "loyaltyAccount s"] by auto
  then show "pointsBalance (pointed e c au s) =
      (pointsBalance s)(lp_userId e := pointsBalance s (lp_userId e) + lp_points e)"
    "tierPointsOf (pointed e c au s) =
      (tierPointsOf s)(lp_userId e := tierPointsOf s (lp_userId e) + tier_points e)"
    by (auto simp: fun_eq_iff pointsBalance_def tierPointsOf_def find_pointed)
qed

lemma postLoyaltyEntry_cases:
  assumes inv: "loyalty_inv s" and p: "postLoyaltyEntry codes e s = Inr (r, s')"
  obtains
    (refused) why where "r = Points_refused why" "s' = joined codes (lp_userId e) s"
      "why = LOYALTY_DUPLICATE \<longleftrightarrow> entry_key e \<in> loyalty_keys s"
      "why = INSUFFICIENT_POINTS \<longrightarrow> lp_refuseNegativeBalance e \<and> lp_points e < 0
         \<and> pointsBalance s (lp_userId e) < - lp_points e"
  | (posted) a c au where "entry_key e \<notin> loyalty_keys s"
      "find (\<lambda>a. la_userId a = lp_userId e) (loyaltyAccount (joined codes (lp_userId e) s)) = Some a"
      "r = Points_posted (pointsBalance s (lp_userId e) + lp_points e) (tierPointsOf s (lp_userId e) + tier_points e)"
      "s' = pointed e c au (joined codes (lp_userId e) s)"
      "tier_after (joined codes (lp_userId e) s) e a c"
      "lp_refuseNegativeBalance e \<and> lp_points e < 0 \<longrightarrow> 0 \<le> pointsBalance s (lp_userId e) + lp_points e"
proof (cases "entry_key e \<in> loyalty_keys s")
  case True
  with p have "r = Points_refused LOYALTY_DUPLICATE" "s' = joined codes (lp_userId e) s"
    by (simp_all add: postLoyaltyEntry_def postLoyaltyEntry_with_eq)
  with True show thesis by (intro refused [of LOYALTY_DUPLICATE]) simp_all
next
  case False
  let ?s1 = "joined codes (lp_userId e) s"
  from False p have w: "writeLoyaltyEntry e ?s1 = Inr (r, s')" and "can_join codes (lp_userId e) s"
    by (simp_all add: postLoyaltyEntry_def postLoyaltyEntry_with_eq bindt_ret)
  then have "distinct (map la_userId (loyaltyAccount ?s1))"
    using inv by (intro loyalty_inv_distinct loyalty_inv_joined)
  then show thesis using w
  proof (cases rule: writeLoyaltyEntry_cases)
    case insufficient
    with False show thesis by (intro refused [of INSUFFICIENT_POINTS]) simp_all
  next
    case duplicate
    with False show thesis by simp
  next
    case (posted a c au)
    have "pointsBalance s (lp_userId e) = la_balance a" "tierPointsOf s (lp_userId e) = la_tierPoints a"
      using posted(2) joined_simps(3,4) [of codes "lp_userId e" s]
      unfolding pointsBalance_def [of ?s1] tierPointsOf_def [of ?s1] fun_eq_iff by (metis option.simps(5))+
    with False posted show thesis by (intro that(2)) simp_all
  qed
qed

lemma can_join_of_post: "postLoyaltyEntry codes e s = Inr (r, s') \<Longrightarrow> can_join codes (lp_userId e) s"
  by (simp add: postLoyaltyEntry_def postLoyaltyEntry_with_eq)

definition points_posted :: "postResult \<Rightarrow> bool" where
  "points_posted r \<longleftrightarrow> (\<exists>b t. r = Points_posted b t)"

lemma points_posted_simps [simp]: "points_posted (Points_posted b t)" "\<not> points_posted (Points_refused w)"
  by (simp_all add: points_posted_def)

lemma post_effect:
  assumes inv: "loyalty_inv s" and p: "postLoyaltyEntry codes e s = Inr (r, s')"
  shows "loyalty_inv s'
    \<and> (points_posted r \<longrightarrow> entry_key e \<notin> loyalty_keys s)
    \<and> loyaltyLedgerEntry s' = (if points_posted r then loyaltyLedgerEntry s @ [points_row e] else loyaltyLedgerEntry s)
    \<and> pointsBalance s' = (if points_posted r
        then (pointsBalance s)(lp_userId e := pointsBalance s (lp_userId e) + lp_points e) else pointsBalance s)
    \<and> tierPointsOf s' = (if points_posted r
        then (tierPointsOf s)(lp_userId e := tierPointsOf s (lp_userId e) + tier_points e) else tierPointsOf s)"
proof -
  have inv1: "loyalty_inv (joined codes (lp_userId e) s)"
    using inv can_join_of_post [OF p] by (rule loyalty_inv_joined)
  from inv p show ?thesis
  proof (cases rule: postLoyaltyEntry_cases)
    case (refused why)
    with inv1 show ?thesis by simp
  next
    case (posted a c au)
    have "loyalty_inv s'"
      unfolding posted(4) by (rule loyalty_inv_pointed [OF inv1]) (use posted(1) in simp_all)
    with posted pointed_balances [OF joined_simps(2), of e c au codes s] show ?thesis
      by (simp add: pointed_def)
  qed
qed

interpretation loyalty: idempotent_ledger "postLoyaltyEntry codes" points_posted pointsBalance
  loyalty_keys entry_key lp_userId lp_points loyalty_inv
  for codes
proof
  fix s e r s'
  assume inv: "loyalty_inv s" and p: "postLoyaltyEntry codes e s = Inr (r, s')"
  note eff = post_effect [OF inv p]
  show "loyalty_inv s'" using eff by blast
  show "entry_key e \<notin> loyalty_keys s \<and> loyalty_keys s' = insert (entry_key e) (loyalty_keys s)
     \<and> pointsBalance s' = (pointsBalance s)(lp_userId e := pointsBalance s (lp_userId e) + lp_points e)"
    if "points_posted r" using eff that by simp
  show "loyalty_keys s' = loyalty_keys s \<and> pointsBalance s' = pointsBalance s"
    if "\<not> points_posted r" using eff that by simp
qed

section \<open>Tiers\<close>

text \<open>
  The tiers a club may have (the constraints of the tables: thresholds are unique, and
  \<open>readLoyaltyScheme\<close> insists on one at zero), and every account in the tier of its points.
\<close>

definition scheme_ok :: "db \<Rightarrow> bool" where
  "scheme_ok s \<longleftrightarrow> list_ex (\<lambda>r. ls_id r = 1) (loyaltyScheme s) \<and> loyaltyTier s \<noteq> []
     \<and> distinct (map lt_thresholdPoints (loyaltyTier s)) \<and> lt_thresholdPoints (hd (sorted_tiers s)) = 0"

definition tier_inv :: "db \<Rightarrow> bool" where
  "tier_inv s \<longleftrightarrow> scheme_ok s \<and> (\<forall>a \<in> set (loyaltyAccount s).
     map_option lt_code (tierFor (sorted_tiers s) (la_tierPoints a)) = Some (la_tierCode a))"

lemma sorted_tiers_props:
  "sorted (map lt_thresholdPoints (sorted_tiers s))" "set (sorted_tiers s) = set (loyaltyTier s)"
  by (simp_all add: sorted_tiers_def)

lemma scheme_ok_reads: "scheme_ok s \<Longrightarrow> \<exists>v. readLoyaltyScheme s = Inr (v, s)"
  using find_Some_iff_ex [of "\<lambda>r. ls_id r = 1" "loyaltyScheme s"] sorted_tiers_props(2) [of s]
  by (auto simp: scheme_ok_def readLoyaltyScheme_eq)

lemma sorted_threshold_le:
  "sorted (map lt_thresholdPoints ts) \<Longrightarrow> t \<in> set ts \<Longrightarrow> lt_thresholdPoints t \<le> lt_thresholdPoints (last ts)"
  by (induction ts) auto

lemma tierFor_highest:
  assumes "sorted (map lt_thresholdPoints ts)" and "ts \<noteq> []" and "lt_thresholdPoints (hd ts) = 0"
  obtains t where "tierFor ts n = Some t" and "t \<in> set ts" and "lt_thresholdPoints t \<le> max n 0"
    and "\<And>t'. t' \<in> set ts \<Longrightarrow> lt_thresholdPoints t' \<le> max n 0 \<Longrightarrow> lt_thresholdPoints t' \<le> lt_thresholdPoints t"
proof -
  let ?r = "filter (\<lambda>tier. lt_thresholdPoints tier \<le> max n 0) ts"
  have ne: "?r \<noteq> []" using assms(2,3) by (cases ts) auto
  then have "last ?r \<in> set ?r" by (rule last_in_set)
  moreover have "lt_thresholdPoints t' \<le> lt_thresholdPoints (last ?r)"
    if "t' \<in> set ts" "lt_thresholdPoints t' \<le> max n 0" for t'
    using that sorted_threshold_le [OF sorted_filter [OF assms(1)], of t'] by simp
  ultimately show thesis using ne by (intro that [of "last ?r"]) (simp_all add: tierFor_def Let_def)
qed

lemma tierFor_zero:
  assumes "scheme_ok s"
  shows "tierFor (sorted_tiers s) 0 = Some (hd (sorted_tiers s))"
proof -
  have ok: "sorted_tiers s \<noteq> []" "lt_thresholdPoints (hd (sorted_tiers s)) = 0"
    using assms sorted_tiers_props(2) [of s] by (auto simp: scheme_ok_def)
  have d: "distinct (map lt_thresholdPoints (sorted_tiers s))"
    using assms by (simp add: scheme_ok_def sorted_tiers_def distinct_map)
  obtain t where t: "tierFor (sorted_tiers s) 0 = Some t" "t \<in> set (sorted_tiers s)"
    "lt_thresholdPoints t \<le> 0"
    and max: "\<And>t'. t' \<in> set (sorted_tiers s) \<Longrightarrow> lt_thresholdPoints t' \<le> max 0 0 \<Longrightarrow>
      lt_thresholdPoints t' \<le> lt_thresholdPoints t"
    by (rule tierFor_highest [OF sorted_tiers_props(1) ok, of 0]) simp
  have h: "hd (sorted_tiers s) \<in> set (sorted_tiers s)" using ok(1) by simp
  with max [of "hd (sorted_tiers s)"] ok(2) t(3) have "lt_thresholdPoints t = lt_thresholdPoints (hd (sorted_tiers s))"
    by simp
  with distinct_key_eq [OF d t(2) h] t(1) show ?thesis by simp
qed

lemma tier_inv_joined: "tier_inv s \<Longrightarrow> tier_inv (joined codes u s)"
  using tierFor_zero [of s] by (auto simp: tier_inv_def joined_def scheme_ok_def sorted_tiers_def)

lemma scheme_pointed [simp]:
  "scheme_ok (pointed e c au s) = scheme_ok s" "sorted_tiers (pointed e c au s) = sorted_tiers s"
  by (simp_all add: pointed_def scheme_ok_def sorted_tiers_def)

lemma tier_inv_pointed:
  assumes inv: "tier_inv s" and d: "distinct (map la_userId (loyaltyAccount s))"
    and a: "find (\<lambda>a. la_userId a = lp_userId e) (loyaltyAccount s) = Some a" and c: "tier_after s e a c"
  shows "tier_inv (pointed e c au s)"
proof -
  have "x = a" if "x \<in> set (loyaltyAccount s)" "la_userId x = lp_userId e" for x
    using find_SomeD [OF a] that by (intro distinct_key_eq [OF d]) simp_all
  moreover have "map_option lt_code (tierFor (sorted_tiers s) (la_tierPoints a + tier_points e)) = Some c"
    using c inv find_SomeD [OF a] by (auto simp: tier_after_def tier_inv_def split: if_splits)
  ultimately show ?thesis
    using inv unfolding tier_inv_def scheme_pointed by (auto simp: pointed_def set_updateMany)
qed

lemma tier_inv_post:
  assumes "loyalty_inv s" and "tier_inv s" and p: "postLoyaltyEntry codes e s = Inr (r, s')"
  shows "tier_inv s'"
  using assms(1) p
proof (cases rule: postLoyaltyEntry_cases)
  case (refused why)
  with assms(2) show ?thesis by (simp add: tier_inv_joined)
next
  case (posted a c au)
  have "distinct (map la_userId (loyaltyAccount (joined codes (lp_userId e) s)))"
    using assms(1) can_join_of_post [OF p] by (intro loyalty_inv_distinct loyalty_inv_joined)
  with posted assms(2) show ?thesis by (auto intro: tier_inv_pointed tier_inv_joined)
qed

section \<open>Postings that go through\<close>

lemma tierFor_total: "scheme_ok s \<Longrightarrow> \<exists>t. tierFor (sorted_tiers s) n = Some t"
  using sorted_tiers_props(2) [of s] by (auto simp: tierFor_def scheme_ok_def Let_def)

lemma retier_total:
  assumes "scheme_ok s" and "lp_userId e \<in> la_userId ` set (loyaltyAccount s)"
  shows "\<exists>v. retier e a s = Inr v"
proof -
  obtain sch where v: "readLoyaltyScheme s = Inr ((sch, sorted_tiers s), s)"
    using scheme_ok_reads [OF assms(1)] by (auto simp: readLoyaltyScheme_eq)
  have "bindt readLoyaltyScheme f s = f (sch, sorted_tiers s) s" for f :: "_ \<Rightarrow> (db, unit) tx"
    using v by (simp add: bindt_def)
  moreover have "list_ex (\<lambda>a. la_userId a = lp_userId e) (loyaltyAccount s)"
    using assms(2) by (auto simp: list_ex_iff)
  moreover obtain t where "tierFor (sorted_tiers s) (la_tierPoints a) = Some t"
    using tierFor_total [OF assms(1)] by blast
  ultimately show ?thesis by (simp add: retier_def tx_simps)
qed

lemma scheme_ok_cong:
  "loyaltyScheme s' = loyaltyScheme s \<Longrightarrow> loyaltyTier s' = loyaltyTier s \<Longrightarrow> scheme_ok s' = scheme_ok s"
  by (simp add: scheme_ok_def sorted_tiers_def)

lemma append_total:
  assumes ok: "scheme_ok s"
    and a: "find (\<lambda>a. la_userId a = lp_userId e) (loyaltyAccount s) = Some a"
  shows "\<exists>v. appendLoyaltyEntry e s = Inr v"
proof -
  have acc: "lp_userId e \<in> la_userId ` set (loyaltyAccount s)"
    using find_SomeD [OF a] by (metis image_eqI)
  let ?s1 = "s\<lparr>loyaltyLedgerEntry := loyaltyLedgerEntry s @ [points_row e],
     auditLog := auditLog s @ [loyalty_audit e (la_balance a)]\<rparr>"
  obtain v where "retier e a ?s1 = Inr v"
    using retier_total [of ?s1 e a] ok acc by (auto simp: scheme_ok_def sorted_tiers_def)
  then show ?thesis
    using a by (simp add: appendLoyaltyEntry_def tx_simps list_ex_find bindt_def [of "retier x y" for x y]
        split: prod.splits)
qed

lemma write_total:
  assumes "scheme_ok s" and "lp_userId e \<in> la_userId ` set (loyaltyAccount s)"
  shows "\<exists>v. writeLoyaltyEntry e s = Inr v"
proof -
  obtain a where a: "find (\<lambda>a. la_userId a = lp_userId e) (loyaltyAccount s) = Some a"
    using assms(2) find_member_None [of "lp_userId e" "loyaltyAccount s"] by auto
  have "\<exists>v. appendLoyaltyEntry e (s\<lparr>loyaltyAccount := updateMany P (move_points p t) (loyaltyAccount s)\<rparr>) = Inr v"
    for P p t
  proof -
    have "find (\<lambda>a. la_userId a = lp_userId e) (updateMany P (move_points p t) (loyaltyAccount s))
        = Some (if P a then move_points p t a else a)"
      by (subst find_updateMany_key) (simp_all add: a)
    then show ?thesis
      by (intro append_total) (use assms(1) in \<open>simp_all add: scheme_ok_def sorted_tiers_def\<close>)
  qed
  then show ?thesis
    using a by (auto simp: writeLoyaltyEntry_def tx_simps list_ex_find)
qed

lemma post_outcome_points:
  assumes "loyalty_inv s" and "scheme_ok s" and "can_join codes (lp_userId e) s"
  obtains r s' where "postLoyaltyEntry codes e s = Inr (r, s')" and "loyalty_inv s'" and "scheme_ok s'"
    and "points_posted r \<longleftrightarrow> entry_key e \<notin> loyalty_keys s \<and>
      (lp_refuseNegativeBalance e \<and> lp_points e < 0 \<longrightarrow> 0 \<le> pointsBalance s (lp_userId e) + lp_points e)"
    and "loyaltyLedgerEntry s' = (if points_posted r then loyaltyLedgerEntry s @ [points_row e] else loyaltyLedgerEntry s)"
    and "pointsBalance s' = (if points_posted r
        then (pointsBalance s)(lp_userId e := pointsBalance s (lp_userId e) + lp_points e) else pointsBalance s)"
    and "tierPointsOf s' = (if points_posted r
        then (tierPointsOf s)(lp_userId e := tierPointsOf s (lp_userId e) + tier_points e) else tierPointsOf s)"
proof -
  have ok1: "scheme_ok (joined codes (lp_userId e) s)"
    using assms(2) by (simp add: joined_def scheme_ok_def sorted_tiers_def)
  obtain v where "writeLoyaltyEntry e (joined codes (lp_userId e) s) = Inr v"
    using write_total [OF ok1] joined_simps(2) by blast
  then obtain r s' where p: "postLoyaltyEntry codes e s = Inr (r, s')"
    using assms(3) postLoyaltyEntry_with_eq [of "ret ()" codes e s, unfolded bindt_ret]
    unfolding postLoyaltyEntry_def by (metis surj_pair)
  have "scheme_ok s' \<and> (points_posted r \<longleftrightarrow> entry_key e \<notin> loyalty_keys s \<and>
      (lp_refuseNegativeBalance e \<and> lp_points e < 0 \<longrightarrow> 0 \<le> pointsBalance s (lp_userId e) + lp_points e))"
    using assms(1) p
  proof (cases rule: postLoyaltyEntry_cases)
    case (refused why)
    then show ?thesis using ok1 by (cases why) auto
  next
    case (posted a c au)
    then show ?thesis using ok1 by auto
  qed
  with p post_effect [OF assms(1) p] show thesis by (elim conjE) (rule that)
qed

lemma can_join_after:
  "postLoyaltyEntry codes e s = Inr (r, s') \<Longrightarrow> loyalty_inv s \<Longrightarrow> can_join codes (lp_userId e) s'"
  by (elim postLoyaltyEntry_cases [rotated])
    (simp_all add: can_join_def pointed_accounts)

section \<open>What the ledger does not touch\<close>

text \<open>A property that does not depend on the ledger's tables survives its operations.\<close>

lemma keeps_ensureLoyaltyAccount:
  assumes "\<And>s t. I s \<Longrightarrow> I (s\<lparr>loyaltyAccount := t\<rparr>)"
  shows "keeps I (ensureLoyaltyAccount codes u by')"
  unfolding ensureLoyaltyAccount_def prod.case_eq_if by (intro keeps_intros keeps_table assms)

lemma keeps_postLoyaltyEntry:
  assumes "\<And>s t. I s \<Longrightarrow> I (s\<lparr>loyaltyAccount := t\<rparr>)" and "\<And>s t. I s \<Longrightarrow> I (s\<lparr>loyaltyLedgerEntry := t\<rparr>)"
    and "\<And>s t. I s \<Longrightarrow> I (s\<lparr>auditLog := t\<rparr>)"
  shows "keeps I (postLoyaltyEntry codes e)"
  unfolding postLoyaltyEntry_def postLoyaltyEntry_with_def writeLoyaltyEntry_def appendLoyaltyEntry_def
    retier_def prod.case_eq_if
  by (intro keeps_intros keeps_table keeps_outbox keeps_ensureLoyaltyAccount assms)

lemma keeps_loyalty_frame:
  assumes "\<And>s t. I s \<Longrightarrow> I (s\<lparr>loyaltyAccount := t\<rparr>)" and "\<And>s t. I s \<Longrightarrow> I (s\<lparr>loyaltyLedgerEntry := t\<rparr>)"
    and "\<And>s t. I s \<Longrightarrow> I (s\<lparr>auditLog := t\<rparr>)"
  shows "keeps I (postLoyaltyEntry codes e)" "keeps I (ensureLoyaltyAccount codes u r)"
    "keeps I (releaseRedeemedPoints codes b u n)" "keeps I (reverseLoyaltyForRefund codes p u bk)"
    "keeps I (earnOnSettledPayment codes p u n bk')" "keeps I (rewardReferralOnFirstPaidBooking codes u now)"
  unfolding releaseRedeemedPoints_def reverseLoyaltyForRefund_def earnOnSettledPayment_def
    rewardReferralOnFirstPaidBooking_def prod.case_eq_if
  by (intro keeps_intros keeps_table keeps_postLoyaltyEntry keeps_ensureLoyaltyAccount assms; assumption)+

lemma loyalty_inv_frame [simp]:
  "loyalty_inv (s\<lparr>creditAccount := x_creditAccount\<rparr>) = loyalty_inv s"
  "loyalty_inv (s\<lparr>creditLedger := x_creditLedger\<rparr>) = loyalty_inv s"
  "loyalty_inv (s\<lparr>loyaltyScheme := x_loyaltyScheme\<rparr>) = loyalty_inv s"
  "loyalty_inv (s\<lparr>loyaltyTier := x_loyaltyTier\<rparr>) = loyalty_inv s"
  "loyalty_inv (s\<lparr>auditLog := x_auditLog\<rparr>) = loyalty_inv s"
  "loyalty_inv (s\<lparr>emailNotification := x_emailNotification\<rparr>) = loyalty_inv s"
  "loyalty_inv (s\<lparr>booking := x_booking\<rparr>) = loyalty_inv s"
  "loyalty_inv (s\<lparr>payment := x_payment\<rparr>) = loyalty_inv s"
  "loyalty_inv (s\<lparr>mission := x_mission\<rparr>) = loyalty_inv s"
  "loyalty_inv (s\<lparr>missionEvent := x_missionEvent\<rparr>) = loyalty_inv s"
  "loyalty_inv (s\<lparr>bookingEntitlement := x_bookingEntitlement\<rparr>) = loyalty_inv s"
  "loyalty_inv (s\<lparr>giftVoucher := x_giftVoucher\<rparr>) = loyalty_inv s"
  "loyalty_inv (s\<lparr>cardPrize := x_cardPrize\<rparr>) = loyalty_inv s"
  "loyalty_inv (s\<lparr>subscription := x_subscription\<rparr>) = loyalty_inv s"
  "loyalty_inv (s\<lparr>subscriptionPlanConfig := x_subscriptionPlanConfig\<rparr>) = loyalty_inv s"
  "loyalty_inv (s\<lparr>observerPack := x_observerPack\<rparr>) = loyalty_inv s"
  "loyalty_inv (s\<lparr>waitlistEntry := x_waitlistEntry\<rparr>) = loyalty_inv s"
  "loyalty_inv (s\<lparr>observatory := x_observatory\<rparr>) = loyalty_inv s"
  by (simp_all add: loyalty_inv_def)

text \<open>The invariant of the ledger survives every composite operation.\<close>

lemma keeps_loyalty_inv_post [keeps_intros]: "keeps loyalty_inv (postLoyaltyEntry codes e)"
  by (rule keepsI) (use post_effect in blast)

lemma keeps_loyalty_inv_ops [keeps_intros]:
  "keeps loyalty_inv (releaseRedeemedPoints codes b u n)" "keeps loyalty_inv (reverseLoyaltyForRefund codes p u bk)"
  "keeps loyalty_inv (earnOnSettledPayment codes p u n bk')"
  unfolding releaseRedeemedPoints_def reverseLoyaltyForRefund_def earnOnSettledPayment_def prod.case_eq_if
  by (intro keeps_intros)+

lemma keeps_loyalty_inv_ensure [keeps_intros]: "keeps loyalty_inv (ensureLoyaltyAccount codes u None)"
proof (rule keepsI)
  fix s a s'
  assume "loyalty_inv s" and "ensureLoyaltyAccount codes u None s = Inr (a, s')"
  then show "loyalty_inv s'"
    using ensureLoyaltyAccount_eq [of codes u s s'] loyalty_inv_joined by auto
qed

section \<open>Properties\<close>

text \<open>
  C3: The loyalty ledger keeps its invariant (every balance and every tier-point total is the
  sum of the user's entries, entries unique on user, kind and source, referral codes unique)
  whatever invariant-keeping transactions commit between the lookup and the claim; a refused
  entry leaves the others' state untouched, and a spend that refuses a negative balance never
  posts one.
\<close>

theorem loyalty_ledger_survives_interference:
  assumes "loyalty_inv s" and "keeps loyalty_inv env"
    and "postLoyaltyEntry_with env codes e s = Inr (r, s')"
  shows "loyalty_inv s' \<and>
    (\<forall>s2. entry_key e \<notin> loyalty_keys s \<longrightarrow> env (joined codes (lp_userId e) s) = Inr ((), s2) \<longrightarrow>
       (\<forall>why. r = Points_refused why \<longrightarrow> s' = s2) \<and>
       (\<forall>b t. r = Points_posted b t \<longrightarrow> entry_key e \<notin> loyalty_keys s2 \<and>
          b = pointsBalance s2 (lp_userId e) + lp_points e \<and>
          (lp_refuseNegativeBalance e \<and> lp_points e < 0 \<longrightarrow> 0 \<le> b)))"
proof (cases "entry_key e \<in> loyalty_keys s")
  case True
  with assms show ?thesis by (auto simp: postLoyaltyEntry_with_eq loyalty_inv_joined)
next
  case False
  with assms(3) obtain s2 where env: "env (joined codes (lp_userId e) s) = Inr ((), s2)"
    and w: "writeLoyaltyEntry e s2 = Inr (r, s')" and "can_join codes (lp_userId e) s"
    by (auto simp: postLoyaltyEntry_with_eq bindt_eq_Inr)
  then have inv2: "loyalty_inv s2"
    using assms(1,2) loyalty_inv_joined by (blast intro: keepsD)
  have "loyalty_inv s'" using write_keeps_loyalty_inv inv2 w by (rule keepsD)
  moreover have "(\<forall>why. r = Points_refused why \<longrightarrow> s' = s2) \<and>
       (\<forall>b t. r = Points_posted b t \<longrightarrow> entry_key e \<notin> loyalty_keys s2 \<and>
          b = pointsBalance s2 (lp_userId e) + lp_points e \<and>
          (lp_refuseNegativeBalance e \<and> lp_points e < 0 \<longrightarrow> 0 \<le> b))"
    using loyalty_inv_distinct [OF inv2] w
    by (cases rule: writeLoyaltyEntry_cases) (simp_all add: pointsBalance_def)
  ultimately show ?thesis using env by simp
qed

text \<open>A club with two tiers and two members, for the examples.\<close>

definition club_account :: "ident \<Rightarrow> string \<Rightarrow> ident option \<Rightarrow> loyaltyAccount_row" where
  "club_account u code by = (new_account u ''COMET'' by code)"

definition club_db :: db where
  "club_db = empty_db
     \<lparr>loyaltyScheme := [\<lparr>ls_id = 1, ls_pointsPerGel = 10, ls_pointsPerGelRedeemed = 100,
        ls_welcomeBonusPoints = 50, ls_referralBonusPoints = 200, ls_minimumPayableMinor = 100\<rparr>],
      loyaltyTier := [\<lparr>lt_code = ''COMET'', lt_thresholdPoints = 0, lt_discountPercent = 0\<rparr>,
        \<lparr>lt_code = ''NOVA'', lt_thresholdPoints = 500, lt_discountPercent = 5\<rparr>],
      loyaltyAccount := [club_account ''u1'' ''AAAA1111'' (Some ''u2''), club_account ''u2'' ''BBBB2222'' None]\<rparr>"

lemma club_facts:
  "loyalty_inv club_db" "scheme_ok club_db" "tier_inv club_db"
  "loyalty_keys club_db = {}"
  "can_join codes ''u1'' club_db" "can_join codes ''u2'' club_db"
  "pointsBalance club_db ''u1'' = 0" "tierPointsOf club_db ''u1'' = 0" "pointsBalance club_db ''u2'' = 0"
  "find (\<lambda>r. ls_id r = 1) (loyaltyScheme club_db) = Some \<lparr>ls_id = 1, ls_pointsPerGel = 10,
     ls_pointsPerGelRedeemed = 100, ls_welcomeBonusPoints = 50, ls_referralBonusPoints = 200,
     ls_minimumPayableMinor = 100\<rparr>"
  by (simp_all add: club_db_def club_account_def empty_db_def loyalty_inv_def scheme_ok_def tier_inv_def
      sorted_tiers_def tierFor_def can_join_def pointsBalance_def tierPointsOf_def)

theorem loyalty_ledger_survives_interference_witness:
  "\<exists>r s'. postLoyaltyEntry_with
       (bindt (postLoyaltyEntry (\<lambda>u. u) (loyalty_entry ''u1'' WELCOME_BONUS 50 ''welcome'')) (\<lambda>_. ret ()))
       (\<lambda>u. u) (loyalty_entry ''u1'' WELCOME_BONUS 50 ''welcome'') club_db = Inr (r, s') \<and> loyalty_inv s'"
proof -
  let ?e = "loyalty_entry ''u1'' WELCOME_BONUS 50 ''welcome''"
  let ?env = "bindt (postLoyaltyEntry (\<lambda>u. u) ?e) (\<lambda>_. ret ()) :: (db, unit) tx"
  have env: "keeps loyalty_inv ?env" by (intro keeps_intros)
  have j: "joined (\<lambda>u. u) ''u1'' club_db = club_db"
    by (simp add: joined_def club_db_def club_account_def)
  obtain r1 s1 where s1: "postLoyaltyEntry (\<lambda>u. u) ?e club_db = Inr (r1, s1)" "loyalty_inv s1" "scheme_ok s1"
    by (rule post_outcome_points [of club_db "\<lambda>u. u" ?e]) (use club_facts in simp_all)
  have "lp_userId ?e \<in> la_userId ` set (loyaltyAccount s1)"
    using can_join_after [OF s1(1) club_facts(1)] s1(1)
    by (elim postLoyaltyEntry_cases [OF club_facts(1)])
      (simp_all only: pointed_accounts joined_simps loyalty_entry_simps)
  then obtain r s' where w: "writeLoyaltyEntry ?e s1 = Inr (r, s')"
    using write_total [OF s1(3)] by fastforce
  have p: "postLoyaltyEntry_with ?env (\<lambda>u. u) ?e club_db = Inr (r, s')"
    using s1(1) w club_facts(4,5) j
    by (simp add: postLoyaltyEntry_with_eq bindt_assoc bindt_ret bindt_eq_Inr)
  from loyalty_ledger_survives_interference [OF club_facts(1) env p] p show ?thesis by blast
qed

text \<open>
  Over any sequence of postings each member's balance moves by exactly the points of the
  entries that were posted; those are pairwise different in user, kind and source and were not
  recorded before.
\<close>

theorem loyalty_postings_add_up:
  assumes "loyalty_inv s" and "tx_map (postLoyaltyEntry codes) es s = Inr (rs, s')"
  shows "loyalty_inv s'
    \<and> distinct (map entry_key (posted_entries points_posted es rs))
    \<and> entry_key ` set (posted_entries points_posted es rs) \<inter> loyalty_keys s = {}
    \<and> (\<forall>u. pointsBalance s' u = pointsBalance s u
         + sum_list (map lp_points (filter (\<lambda>e. lp_userId e = u) (posted_entries points_posted es rs))))"
  using loyalty.post_all [OF assms] by blast

theorem loyalty_postings_add_up_witness:
  "\<exists>r s'. tx_map (postLoyaltyEntry (\<lambda>u. u)) [loyalty_entry ''u1'' WELCOME_BONUS 50 ''welcome''] club_db
     = Inr ([r], s') \<and> pointsBalance s' ''u1'' = 50"
proof -
  let ?e = "loyalty_entry ''u1'' WELCOME_BONUS 50 ''welcome''"
  obtain r s' where s': "postLoyaltyEntry (\<lambda>u. u) ?e club_db = Inr (r, s')" "points_posted r"
    by (rule post_outcome_points [of club_db "\<lambda>u. u" ?e]) (use club_facts in simp_all)
  then have p: "tx_map (postLoyaltyEntry (\<lambda>u. u)) [?e] club_db = Inr ([r], s')"
    by (simp add: bindt_def ret_def)
  show ?thesis
    using loyalty_postings_add_up [OF club_facts(1) p] p s'(2) club_facts(7) by simp
qed

text \<open>
  \<open>tierFor\<close> on the tiers of a usable scheme returns the highest tier whose threshold the
  purchase points reach, points below zero counting as zero.
\<close>

theorem tierFor_is_highest:
  assumes "scheme_ok s"
  shows "\<exists>t. tierFor (sorted_tiers s) n = Some t \<and> t \<in> set (loyaltyTier s)
    \<and> lt_thresholdPoints t \<le> max n 0
    \<and> (\<forall>t' \<in> set (loyaltyTier s). lt_thresholdPoints t' \<le> max n 0 \<longrightarrow>
         lt_thresholdPoints t' \<le> lt_thresholdPoints t)"
proof -
  have "sorted_tiers s \<noteq> []" "lt_thresholdPoints (hd (sorted_tiers s)) = 0"
    using assms sorted_tiers_props(2) [of s] by (auto simp: scheme_ok_def)
  then show ?thesis
    using tierFor_highest [OF sorted_tiers_props(1), of s n] sorted_tiers_props(2) [of s] by metis
qed

theorem tierFor_is_highest_witness: "map_option lt_code (tierFor (sorted_tiers club_db) 600) = Some ''NOVA''"
  using tierFor_is_highest [OF club_facts(2), of 600]
  by (auto simp: club_db_def empty_db_def)

text \<open>
  Every account stays in the tier of its purchase points, and an entry without tier points
  - a bonus, a redemption, an adjustment - changes neither anybody's purchase points nor the
  tier of an existing account.
\<close>

theorem tier_follows_purchases:
  assumes "loyalty_inv s" and "tier_inv s" and "postLoyaltyEntry codes e s = Inr (r, s')"
  shows "tier_inv s' \<and>
    (tier_points e = 0 \<longrightarrow> tierPointsOf s' = tierPointsOf s \<and>
       (\<forall>u a. find (\<lambda>x. la_userId x = u) (loyaltyAccount s) = Some a \<longrightarrow>
          (\<exists>a'. find (\<lambda>x. la_userId x = u) (loyaltyAccount s') = Some a' \<and> la_tierCode a' = la_tierCode a)))"
proof -
  have inv': "tier_inv s'" using assms by (rule tier_inv_post)
  have "\<exists>a'. find (\<lambda>x. la_userId x = u) (loyaltyAccount s') = Some a' \<and> la_tierCode a' = la_tierCode a"
    if t: "tier_points e = 0" and f: "find (\<lambda>x. la_userId x = u) (loyaltyAccount s) = Some a" for u a
  proof -
    have j: "find (\<lambda>x. la_userId x = u) (loyaltyAccount (joined codes (lp_userId e) s)) = Some a"
      using f by (simp add: joined_def find_append)
    from assms(1,3) show ?thesis
    proof (cases rule: postLoyaltyEntry_cases)
      case (refused why)
      with j show ?thesis by simp
    next
      case (posted b c au)
      with j t show ?thesis by (auto simp: find_pointed tier_after_def)
    qed
  qed
  moreover have "tierPointsOf s' = tierPointsOf s" if "tier_points e = 0"
    using post_effect [OF assms(1,3)] that by auto
  ultimately show ?thesis using inv' by blast
qed

theorem tier_follows_purchases_witness:
  "\<exists>r s'. postLoyaltyEntry (\<lambda>u. u) (loyalty_entry ''u1'' REFERRAL_BONUS 900 ''referee:u3'') club_db = Inr (r, s')
     \<and> tier_inv s' \<and> tierPointsOf s' ''u1'' = 0"
proof -
  let ?e = "loyalty_entry ''u1'' REFERRAL_BONUS 900 ''referee:u3''"
  obtain r s' where "postLoyaltyEntry (\<lambda>u. u) ?e club_db = Inr (r, s')"
    by (rule post_outcome_points [of club_db "\<lambda>u. u" ?e]) (use club_facts in simp_all)
  with tier_follows_purchases [OF club_facts(1,3) this] club_facts(8) show ?thesis by simp
qed

text \<open>
  What a settled payment earned is taken back exactly: after \<open>earnOnSettledPayment\<close> and
  \<open>reverseLoyaltyForRefund\<close> every balance and every purchase-point total is what it was, and
  reversing again changes nothing.
\<close>

theorem earn_reverse_round_trip:
  assumes "loyalty_inv s" and "scheme_ok s" and "can_join codes u s"
    and "(u, PURCHASE_EARNED, payment_source p) \<notin> loyalty_keys s"
    and "(u, PURCHASE_REVERSED, payment_source p) \<notin> loyalty_keys s"
  shows "\<exists>s1 s2 s3. earnOnSettledPayment codes p u amount b s = Inr ((), s1) \<and>
    reverseLoyaltyForRefund codes p u None s1 = Inr ((), s2) \<and>
    pointsBalance s2 = pointsBalance s \<and> tierPointsOf s2 = tierPointsOf s \<and>
    reverseLoyaltyForRefund codes p u None s2 = Inr ((), s3) \<and>
    pointsBalance s3 = pointsBalance s \<and> tierPointsOf s3 = tierPointsOf s \<and> loyalty_inv s3"
proof -
  obtain sch where sch: "readLoyaltyScheme s = Inr ((sch, sorted_tiers s), s)"
    using scheme_ok_reads [OF assms(2)] by (auto simp: readLoyaltyScheme_eq)
  let ?n = "pointsEarnedFor sch amount" and ?k = "(u, PURCHASE_EARNED, payment_source p)"
  show ?thesis
  proof (cases "?n \<le> 0")
    case True
    then have "earnOnSettledPayment codes p u amount b s = Inr ((), s)"
      using sch by (simp add: earnOnSettledPayment_def bindt_def Let_def ret_def)
    moreover have "reverseLoyaltyForRefund codes p u None s = Inr ((), s)"
      using assms(4) find_row_None [of ?k "loyaltyLedgerEntry s"]
      by (simp add: reverseLoyaltyForRefund_def tx_simps)
    ultimately show ?thesis using assms(1) by blast
  next
    case False
    let ?e = "earn_entry p u ?n b"
    obtain r1 s1 where s1: "postLoyaltyEntry codes ?e s = Inr (r1, s1)" "loyalty_inv s1" "scheme_ok s1"
      "loyaltyLedgerEntry s1 = loyaltyLedgerEntry s @ [points_row ?e]"
      "pointsBalance s1 = (pointsBalance s)(u := pointsBalance s u + ?n)"
      "tierPointsOf s1 = (tierPointsOf s)(u := tierPointsOf s u + ?n)"
      by (rule post_outcome_points [of s codes ?e]) (use assms in \<open>simp_all add: earn_entry_def\<close>)
    have earn: "earnOnSettledPayment codes p u amount b s = Inr ((), s1)"
      using sch False s1(1) by (simp add: earnOnSettledPayment_def bindt_def Let_def ret_def)
    have found: "find (\<lambda>r. row_key r = ?k) (loyaltyLedgerEntry s1) = Some (points_row ?e)"
      using assms(4) find_row_None [of ?k "loyaltyLedgerEntry s"]
      by (simp add: s1(4) find_append earn_entry_def)
    let ?x = "reverse_entry p u (points_row ?e)"
    have x: "entry_key ?x = (u, PURCHASE_REVERSED, payment_source p)" "lp_userId ?x = u"
      "lp_points ?x = - ?n" "tier_points ?x = - ?n" "\<not> lp_refuseNegativeBalance ?x"
      by (simp_all add: reverse_entry_def earn_entry_def)
    have rev: "reverseLoyaltyForRefund codes p u None t =
        bindt (postLoyaltyEntry codes ?x) (\<lambda>_. ret ()) t"
      if "find (\<lambda>r. row_key r = ?k) (loyaltyLedgerEntry t) = Some (points_row ?e)" for t
      using that by (simp add: reverseLoyaltyForRefund_def tx_simps bindt_def ret_def split: sum.split)
    have k1: "entry_key ?x \<notin> loyalty_keys s1"
      using assms(5) unfolding x(1) by (simp add: s1(4) earn_entry_def)
    have j1: "can_join codes (lp_userId ?x) s1"
      using can_join_after [OF s1(1) assms(1)] unfolding x(2) by (simp add: earn_entry_def)
    obtain r2 s2 where s2: "postLoyaltyEntry codes ?x s1 = Inr (r2, s2)" "loyalty_inv s2" "scheme_ok s2"
      "loyaltyLedgerEntry s2 = loyaltyLedgerEntry s1 @ [points_row ?x]"
      "pointsBalance s2 = pointsBalance s" "tierPointsOf s2 = tierPointsOf s"
      by (rule post_outcome_points [OF s1(2,3) j1])
        (use k1 x in \<open>auto simp: s1(5,6) fun_eq_iff\<close>)
    have j2: "can_join codes (lp_userId ?x) s2" using s2(1) s1(2) by (rule can_join_after)
    have k2: "entry_key ?x \<in> loyalty_keys s2" by (simp add: s2(4) x(1))
    obtain r3 s3 where s3: "postLoyaltyEntry codes ?x s2 = Inr (r3, s3)" "loyalty_inv s3"
      "pointsBalance s3 = pointsBalance s2" "tierPointsOf s3 = tierPointsOf s2"
      by (rule post_outcome_points [OF s2(2,3) j2]) (use k2 in simp_all)
    have "find (\<lambda>r. row_key r = ?k) (loyaltyLedgerEntry s2) = Some (points_row ?e)"
      using found by (simp add: s2(4) find_append)
    with earn found rev s2 s3 show ?thesis by (auto simp: bindt_def ret_def)
  qed
qed

theorem earn_reverse_round_trip_witness:
  "\<exists>s1 s2. earnOnSettledPayment (\<lambda>u. u) ''p1'' ''u1'' 8000 None club_db = Inr ((), s1)
     \<and> reverseLoyaltyForRefund (\<lambda>u. u) ''p1'' ''u1'' None s1 = Inr ((), s2)
     \<and> pointsBalance s2 ''u1'' = 0"
  using earn_reverse_round_trip [of club_db "\<lambda>u. u" "''u1''" "''p1''" 8000 None] club_facts
  by (auto simp: fun_eq_iff)

section \<open>Referrals\<close>

lemma account_after_post:
  assumes "loyalty_inv s" and "postLoyaltyEntry codes e s = Inr (r, s')"
    and "find (\<lambda>x. la_userId x = u) (loyaltyAccount s) = Some a"
  obtains a' where "find (\<lambda>x. la_userId x = u) (loyaltyAccount s') = Some a'"
    and "la_referralRewardedAt a' = la_referralRewardedAt a"
    and "la_referredByUserId a' = la_referredByUserId a"
proof -
  have j: "find (\<lambda>x. la_userId x = u) (loyaltyAccount (joined codes (lp_userId e) s)) = Some a"
    using assms(3) by (simp add: joined_def find_append)
  from assms(1,2) show thesis
  proof (cases rule: postLoyaltyEntry_cases)
    case (refused why)
    with j that show thesis by simp
  next
    case (posted b c au)
    with j that show thesis by (cases "u = lp_userId e") (auto simp: find_pointed)
  qed
qed

definition rewarded :: "ident \<Rightarrow> time \<Rightarrow> db \<Rightarrow> db" where
  "rewarded u now s = s\<lparr>loyaltyAccount := updateMany (\<lambda>r. la_userId r = u)
     (\<lambda>r. r\<lparr>la_referralRewardedAt := Some now\<rparr>) (loyaltyAccount s)\<rparr>"

lemma rewarded_simps [simp]:
  "loyaltyLedgerEntry (rewarded u now s) = loyaltyLedgerEntry s"
  "pointsBalance (rewarded u now s) = pointsBalance s"
  "tierPointsOf (rewarded u now s) = tierPointsOf s"
  "scheme_ok (rewarded u now s) = scheme_ok s"
  "find (\<lambda>x. la_userId x = w) (loyaltyAccount (rewarded u now s)) =
     (if w = u then map_option (\<lambda>r. r\<lparr>la_referralRewardedAt := Some now\<rparr>)
        (find (\<lambda>x. la_userId x = u) (loyaltyAccount s))
      else find (\<lambda>x. la_userId x = w) (loyaltyAccount s))"
  by (auto simp: rewarded_def pointsBalance_def tierPointsOf_def scheme_ok_def sorted_tiers_def
      find_keyed_update fun_eq_iff split: option.splits)

lemma loyalty_inv_rewarded: "loyalty_inv (rewarded u now s) = loyalty_inv s"
proof -
  have "map la_userId (loyaltyAccount (rewarded u now s)) = map la_userId (loyaltyAccount s)"
    "map la_referralCode (loyaltyAccount (rewarded u now s)) = map la_referralCode (loyaltyAccount s)"
    by (simp_all add: rewarded_def map_updateMany_inv)
  moreover from this(1) have "la_userId ` set (loyaltyAccount (rewarded u now s)) = la_userId ` set (loyaltyAccount s)"
    by (metis list.set_map)
  moreover have "(\<forall>a \<in> set (loyaltyAccount (rewarded u now s)). Q (la_userId a) (la_balance a) (la_tierPoints a))
      \<longleftrightarrow> (\<forall>a \<in> set (loyaltyAccount s). Q (la_userId a) (la_balance a) (la_tierPoints a))" for Q
    by (auto simp: rewarded_def ball_updateMany)
  note this [of "\<lambda>u b t. b = points_sum u (loyaltyLedgerEntry s) \<and> t = tier_points_sum u (loyaltyLedgerEntry s)"]
  ultimately show ?thesis unfolding loyalty_inv_def rewarded_simps by presburger
qed

lemma keeps_loyalty_inv_referral [keeps_intros]:
  "keeps loyalty_inv (rewardReferralOnFirstPaidBooking codes u now)"
proof -
  have "keeps loyalty_inv (tx_updateMany loyaltyAccount loyaltyAccount_update
      (\<lambda>r. la_userId r = u \<and> la_referralRewardedAt r = None) (\<lambda>r. r\<lparr>la_referralRewardedAt := Some now\<rparr>))"
  proof (rule keeps_updateMany)
    fix s
    assume "loyalty_inv s"
    then show "loyalty_inv (s\<lparr>loyaltyAccount := updateMany (\<lambda>r. la_userId r = u \<and> la_referralRewardedAt r = None)
        (\<lambda>r. r\<lparr>la_referralRewardedAt := Some now\<rparr>) (loyaltyAccount s)\<rparr>)"
      by (simp add: loyalty_inv_def map_updateMany_inv image_updateMany_inv ball_updateMany)
  qed
  then show ?thesis
    unfolding rewardReferralOnFirstPaidBooking_def prod.case_eq_if by (intro keeps_intros)
qed

text \<open>
  The referral bonus is granted once, to both sides: on the referred member's first paid
  booking both balances rise by the scheme's bonus, nobody's purchase points change, and every
  later call leaves the database as it is.
\<close>

theorem referral_rewarded_once:
  assumes inv: "loyalty_inv s" and ok: "scheme_ok s"
    and a: "find (\<lambda>x. la_userId x = u) (loyaltyAccount s) = Some a"
    and ref: "la_referredByUserId a = Some w" and new: "la_referralRewardedAt a = None" and "w \<noteq> u"
    and w: "w \<in> la_userId ` set (loyaltyAccount s)"
    and sch: "find (\<lambda>r. ls_id r = 1) (loyaltyScheme s) = Some sch" and bonus: "0 < ls_referralBonusPoints sch"
    and keys: "(u, REFERRAL_BONUS, referee_source u) \<notin> loyalty_keys s"
      "(w, REFERRAL_BONUS, referee_source u) \<notin> loyalty_keys s"
  shows "\<exists>s1. rewardReferralOnFirstPaidBooking codes u now s = Inr ((), s1) \<and> loyalty_inv s1 \<and>
    pointsBalance s1 = (pointsBalance s)(u := pointsBalance s u + ls_referralBonusPoints sch,
      w := pointsBalance s w + ls_referralBonusPoints sch) \<and>
    tierPointsOf s1 = tierPointsOf s \<and>
    rewardReferralOnFirstPaidBooking codes u later s1 = Inr ((), s1)"
proof -
  let ?b = "ls_referralBonusPoints sch"
  let ?e = "\<lambda>x. loyalty_entry x REFERRAL_BONUS ?b (referee_source u)"
  let ?s0 = "rewarded u now s"
  have d: "distinct (map la_userId (loyaltyAccount s))" using inv by (rule loyalty_inv_distinct)
  have claim: "length (filter (\<lambda>r. la_userId r = u \<and> la_referralRewardedAt r = None) (loyaltyAccount s)) = 1"
    "updateMany (\<lambda>r. la_userId r = u \<and> la_referralRewardedAt r = None)
       (\<lambda>r. r\<lparr>la_referralRewardedAt := Some now\<rparr>) (loyaltyAccount s) = loyaltyAccount ?s0"
    using keyed_filter [OF d a] keyed_updateMany [OF d a] new by (simp_all add: rewarded_def)
  have ids: "la_userId ` set (loyaltyAccount ?s0) = la_userId ` set (loyaltyAccount s)"
    by (simp add: rewarded_def image_updateMany_inv)
  have j0: "can_join codes (lp_userId (?e u)) ?s0" "can_join codes (lp_userId (?e w)) ?s0"
    using w find_SomeD [OF a] ids by (auto simp: can_join_def)
  have i0: "loyalty_inv ?s0" "scheme_ok ?s0" using inv ok by (simp_all add: loyalty_inv_rewarded)
  obtain r1 s1 where s1: "postLoyaltyEntry codes (?e u) ?s0 = Inr (r1, s1)" "loyalty_inv s1" "scheme_ok s1"
    "loyaltyLedgerEntry s1 = loyaltyLedgerEntry s @ [points_row (?e u)]"
    "pointsBalance s1 = (pointsBalance s)(u := pointsBalance s u + ?b)" "tierPointsOf s1 = tierPointsOf s"
    by (rule post_outcome_points [OF i0 j0(1)]) (use keys in auto)
  obtain aw where "find (\<lambda>x. la_userId x = w) (loyaltyAccount ?s0) = Some aw"
    using w ids find_member_None [of w "loyaltyAccount ?s0"] by auto
  then obtain aw' where "find (\<lambda>x. la_userId x = w) (loyaltyAccount s1) = Some aw'"
    using account_after_post [OF i0(1) s1(1)] by metis
  then have j1: "can_join codes (lp_userId (?e w)) s1"
    by (auto simp: can_join_def dest: find_SomeD)
  obtain r2 s2 where s2: "postLoyaltyEntry codes (?e w) s1 = Inr (r2, s2)" "loyalty_inv s2"
    "pointsBalance s2 = (pointsBalance s)(u := pointsBalance s u + ?b, w := pointsBalance s w + ?b)"
    "tierPointsOf s2 = tierPointsOf s"
    by (rule post_outcome_points [OF s1(2,3) j1]) (use keys assms(6) in \<open>auto simp: s1(4,5,6)\<close>)
  have "find (\<lambda>x. la_userId x = u) (loyaltyAccount ?s0) = Some (a\<lparr>la_referralRewardedAt := Some now\<rparr>)"
    using a by simp
  then obtain a1 where "find (\<lambda>x. la_userId x = u) (loyaltyAccount s1) = Some a1"
    "la_referralRewardedAt a1 = Some now"
    by (rule account_after_post [OF i0(1) s1(1)]) simp
  then obtain a2 where a2: "find (\<lambda>x. la_userId x = u) (loyaltyAccount s2) = Some a2"
    "la_referralRewardedAt a2 = Some now"
    using account_after_post [OF s1(2) s2(1)] by metis
  have "s\<lparr>loyaltyAccount := loyaltyAccount ?s0\<rparr> = ?s0" by (simp add: rewarded_def)
  moreover have "readLoyaltyScheme ?s0 = Inr ((sch, sorted_tiers ?s0), ?s0)"
    using scheme_ok_reads [OF i0(2)] sch by (auto simp: readLoyaltyScheme_eq rewarded_def)
  ultimately have "rewardReferralOnFirstPaidBooking codes u now s = Inr ((), s2)"
    using a ref new claim bonus s1(1) s2(1)
    by (simp add: rewardReferralOnFirstPaidBooking_def tx_simps bindt_def [of readLoyaltyScheme])
      (simp add: bindt_def ret_def)
  moreover have "rewardReferralOnFirstPaidBooking codes u later s2 = Inr ((), s2)"
    using a2 by (simp add: rewardReferralOnFirstPaidBooking_def tx_simps split: option.splits)
  ultimately show ?thesis using s2 by blast
qed

theorem referral_rewarded_once_witness:
  "\<exists>s1. rewardReferralOnFirstPaidBooking (\<lambda>u. u) ''u1'' 7 club_db = Inr ((), s1)
     \<and> pointsBalance s1 ''u1'' = 200 \<and> pointsBalance s1 ''u2'' = 200"
proof -
  let ?a = "club_account ''u1'' ''AAAA1111'' (Some ''u2'')"
  have "find (\<lambda>x. la_userId x = ''u1'') (loyaltyAccount club_db) = Some ?a"
    "la_referredByUserId ?a = Some ''u2''" "la_referralRewardedAt ?a = None"
    "''u2'' \<in> la_userId ` set (loyaltyAccount club_db)"
    by (simp_all add: club_db_def club_account_def new_account_def)
  from referral_rewarded_once [OF club_facts(1,2) this(1,2,3) _ this(4) club_facts(10), of "\<lambda>u. u" 7 8]
  show ?thesis using club_facts(4,7,9) by auto
qed

end
