(* ===== verification/Conflict.thy ===== *)
theory Conflict
  imports Prelude
begin

text \<open>
  When two sessions on one telescope conflict. The sources state the rule three times: the
  exclusion constraint of the booking table (src/packages/db/prisma/migrations,
  \<open>Booking_held_slot_exclusion\<close>), \<open>clashesWithHeld\<close> of src/apps/api/src/lib/slots/generate.ts
  and \<open>span\<close>/\<open>overlaps\<close> of src/packages/db/waitlist.ts. Each is an interpretation of the
  locale below, so the three agree and share the lemmas that make the rule mean what it
  should: two sessions that do not conflict never run, or turn around, at the same instant.
\<close>

definition turnaround :: int where "turnaround = 10"

lemma turnaround_eq [const_simps]: "turnaround = 10" by (simp add: turnaround_def)

locale slot_conflict =
  fixes telescope :: "'b \<Rightarrow> ident" and start :: "'b \<Rightarrow> time" and minutes :: "'b \<Rightarrow> int"
    and conflict :: "'b \<Rightarrow> 'b \<Rightarrow> bool"
  assumes conflict_iff:
    "conflict a b \<longleftrightarrow> telescope a = telescope b
       \<and> start a < start b + (minutes b + turnaround) * minute_ms
       \<and> start b < start a + (minutes a + turnaround) * minute_ms"
begin

lemma conflict_sym: "conflict a b \<longleftrightarrow> conflict b a"
  by (auto simp: conflict_iff)

lemma conflict_self: "0 < minutes a \<Longrightarrow> conflict a a"
  by (simp add: conflict_iff const_simps)

text \<open>A conflict is an instant at which both hold the telescope.\<close>

lemma conflict_instant:
  assumes "0 < minutes a" and "0 < minutes b"
  shows "conflict a b \<longleftrightarrow> telescope a = telescope b \<and>
    (\<exists>t. start a \<le> t \<and> t < start a + (minutes a + turnaround) * minute_ms
       \<and> start b \<le> t \<and> t < start b + (minutes b + turnaround) * minute_ms)"
proof
  assume "conflict a b"
  then show "telescope a = telescope b \<and>
    (\<exists>t. start a \<le> t \<and> t < start a + (minutes a + turnaround) * minute_ms
       \<and> start b \<le> t \<and> t < start b + (minutes b + turnaround) * minute_ms)"
    using assms by (intro conjI exI [of _ "max (start a) (start b)"]) (auto simp: conflict_iff const_simps)
qed (auto simp: conflict_iff)

text \<open>Sessions on one telescope that do not conflict are a turnaround apart.\<close>

lemma apart:
  "\<not> conflict a b \<Longrightarrow> telescope a = telescope b \<Longrightarrow>
     start a + minutes a * minute_ms + turnaround * minute_ms \<le> start b
     \<or> start b + minutes b * minute_ms + turnaround * minute_ms \<le> start a"
  by (auto simp: conflict_iff algebra_simps)

text \<open>A schedule: pairwise without conflict.\<close>

abbreviation conflict_free :: "'b list \<Rightarrow> bool" where
  "conflict_free \<equiv> sorted_wrt (\<lambda>a b. \<not> conflict a b)"

lemma conflict_free_pair:
  "conflict_free bs \<Longrightarrow> a \<in> set bs \<Longrightarrow> b \<in> set bs \<Longrightarrow> a \<noteq> b \<Longrightarrow> \<not> conflict a b"
  by (induction bs) (auto simp: conflict_sym)

lemma conflict_free_add:
  "conflict_free bs \<Longrightarrow> (\<And>x. x \<in> set bs \<Longrightarrow> \<not> conflict b x) \<Longrightarrow> conflict_free (bs @ [b])"
  using conflict_sym by (auto simp: sorted_wrt_append)

text \<open>At most one session of a schedule holds a telescope at an instant.\<close>

lemma one_at_a_time:
  assumes "conflict_free bs" and "a \<in> set bs" and "b \<in> set bs" and "telescope a = telescope b"
    and "start a \<le> t" and "t < start a + (minutes a + turnaround) * minute_ms"
    and "start b \<le> t" and "t < start b + (minutes b + turnaround) * minute_ms"
  shows "a = b"
  using conflict_free_pair [OF assms(1-3)] assms(4-) by (auto simp: conflict_iff)

end

end
