(* ===== verification/Slots.thy ===== *)
theory Slots
  imports Calendar Conflict Schema
begin

text \<open>
  Which sessions are offered: src/apps/api/src/lib/slots/generate.ts (the grid of starts, the
  clash with held bookings, the one reason a slot is unavailable for), darkness.ts (the dark
  window of a local date) and availability.ts (the hours an owner offers, intersected with
  darkness).

  Two things the sources take from outside are parameters: \<open>parts\<close>, the wall-clock fields
  that \<open>Intl.DateTimeFormat\<close> reports for an instant in the observatory's time zone, and
  \<open>search\<close>, the astronomy engine's \<open>SearchAltitude\<close> for the Sun at -18 degrees within a day.
  A local calendar date is its three numbers (year, month 1-12, day).
\<close>

section \<open>Sessions and slots (generate.ts)\<close>

definition SLOT_DURATION_MINUTES :: int where "SLOT_DURATION_MINUTES = 30"
definition SESSION_MIN_MINUTES :: int where "SESSION_MIN_MINUTES = 15"
definition SESSION_MAX_MINUTES :: int where "SESSION_MAX_MINUTES = 240"
definition SESSION_STEP_MINUTES :: int where "SESSION_STEP_MINUTES = 15"
definition SLOT_TURNAROUND_MINUTES :: int where "SLOT_TURNAROUND_MINUTES = 10"
definition SLOT_STRIDE_MINUTES :: int where "SLOT_STRIDE_MINUTES = 15"
definition PROVISIONAL_SLOT_PRICE_MINOR :: int where "PROVISIONAL_SLOT_PRICE_MINOR = 4500"
definition SLOT_ALIGNMENT_MINUTES :: int where "SLOT_ALIGNMENT_MINUTES = 15"

lemmas slot_constants [const_simps] =
  SLOT_DURATION_MINUTES_def SESSION_MIN_MINUTES_def SESSION_MAX_MINUTES_def SESSION_STEP_MINUTES_def
  SLOT_TURNAROUND_MINUTES_def SLOT_STRIDE_MINUTES_def PROVISIONAL_SLOT_PRICE_MINOR_def
  SLOT_ALIGNMENT_MINUTES_def

definition isSessionLength :: "int \<Rightarrow> bool" where
  "isSessionLength minutes \<longleftrightarrow> SESSION_MIN_MINUTES \<le> minutes \<and> minutes \<le> SESSION_MAX_MINUTES
     \<and> minutes mod SESSION_STEP_MINUTES = 0"

definition sessionPriceMinor :: "int \<Rightarrow> int" where
  "sessionPriceMinor minutes = (PROVISIONAL_SLOT_PRICE_MINOR * minutes) div SLOT_DURATION_MINUTES"

text \<open>\<open>Math.ceil(at / step) * step\<close>.\<close>

definition alignForward :: "time \<Rightarrow> int \<Rightarrow> time" where
  "alignForward t minutes = (let step = minutes * minute_ms in - ((- t) div step) * step)"

record nightWindow =
  duskAt :: time
  dawnAt :: time

record heldBooking =
  hb_slotStartAt :: time
  hb_durationMinutes :: int

datatype viewingStatus = VC_KNOWN | VC_UNKNOWN

record slotForecast =
  fc_status :: viewingStatus
  fc_cloudCoverPercent :: "int option"

definition UNKNOWN_FORECAST :: slotForecast where
  "UNKNOWN_FORECAST = \<lparr>fc_status = VC_UNKNOWN, fc_cloudCoverPercent = None\<rparr>"

record slotAvailabilityInput =
  si_observatoryId :: ident
  si_window :: nightWindow
  si_now :: time
  si_online :: bool
  si_weatherHold :: bool
  si_held :: "heldBooking list"
  si_offers :: "heldBooking list option"
  si_forecastFor :: "(time \<Rightarrow> time \<Rightarrow> slotForecast) option"
  si_durationMinutes :: "int option"

datatype slotUnavailableReason =
  IN_THE_PAST | ALREADY_BOOKED | HELD_FOR_WAITLIST | WEATHER_HOLD | OBSERVATORY_OFFLINE

record slot =
  sl_observatoryId :: ident
  sl_startAt :: string
  sl_endAt :: string
  sl_durationMinutes :: int
  sl_available :: bool
  sl_priceMinor :: int
  sl_currency :: currency
  sl_unavailableReason :: "slotUnavailableReason option"
  sl_forecast :: slotForecast

definition clashesWithHeld :: "time \<Rightarrow> int \<Rightarrow> heldBooking list \<Rightarrow> bool" where
  "clashesWithHeld startMs durationMinutes held =
     (let turnaroundMs = SLOT_TURNAROUND_MINUTES * minute_ms;
          endMs = startMs + durationMinutes * minute_ms + turnaroundMs
      in list_ex (\<lambda>b. let heldStartMs = hb_slotStartAt b;
                          heldEndMs = heldStartMs + hb_durationMinutes b * minute_ms + turnaroundMs
                      in startMs < heldEndMs \<and> heldStartMs < endMs) held)"

definition unavailableReason ::
  "time \<Rightarrow> int \<Rightarrow> slotAvailabilityInput \<Rightarrow> slotUnavailableReason option" where
  "unavailableReason slotStartAt durationMinutes input =
     (if slotStartAt \<le> si_now input then Some IN_THE_PAST
      else if clashesWithHeld slotStartAt durationMinutes (si_held input) then Some ALREADY_BOOKED
      else if clashesWithHeld slotStartAt durationMinutes
                (case si_offers input of None \<Rightarrow> [] | Some o' \<Rightarrow> o') then Some HELD_FOR_WAITLIST
      else if si_weatherHold input then Some WEATHER_HOLD
      else if \<not> si_online input then Some OBSERVATORY_OFFLINE
      else None)"

definition slot_at :: "slotAvailabilityInput \<Rightarrow> int \<Rightarrow> time \<Rightarrow> slot" where
  "slot_at input durationMinutes startMs =
     (let durationMs = durationMinutes * minute_ms;
          reason = unavailableReason startMs durationMinutes input
      in \<lparr>sl_observatoryId = si_observatoryId input,
          sl_startAt = toISOString startMs,
          sl_endAt = toISOString (startMs + durationMs),
          sl_durationMinutes = durationMinutes,
          sl_available = (reason = None),
          sl_priceMinor = sessionPriceMinor durationMinutes,
          sl_currency = GEL,
          sl_unavailableReason = reason,
          sl_forecast = (case si_forecastFor input of None \<Rightarrow> UNKNOWN_FORECAST
                         | Some f \<Rightarrow> f startMs (startMs + durationMs))\<rparr>)"

text \<open>The loop of \<open>generateSlots\<close>: the start moves on by the stride until the session no longer fits.\<close>

function slots_from :: "slotAvailabilityInput \<Rightarrow> int \<Rightarrow> time \<Rightarrow> slot list" where
  "slots_from input durationMinutes startMs =
     (if startMs + durationMinutes * minute_ms \<le> dawnAt (si_window input)
      then slot_at input durationMinutes startMs
           # slots_from input durationMinutes (startMs + SLOT_STRIDE_MINUTES * minute_ms)
      else [])"
  by auto
termination
  by (relation "measure (\<lambda>(input, d, t). nat (dawnAt (si_window input) - d * minute_ms - t + 1))")
    (auto simp: SLOT_STRIDE_MINUTES_def)

declare slots_from.simps [simp del]

abbreviation session_minutes :: "slotAvailabilityInput \<Rightarrow> int" where
  "session_minutes input \<equiv>
     (case si_durationMinutes input of None \<Rightarrow> SLOT_DURATION_MINUTES | Some d \<Rightarrow> d)"

definition generateSlots :: "slotAvailabilityInput \<Rightarrow> slot list" where
  "generateSlots input =
     slots_from input (session_minutes input)
       (alignForward (duskAt (si_window input)) SLOT_ALIGNMENT_MINUTES)"

section \<open>Darkness (darkness.ts)\<close>

type_synonym wall_parts = "int \<times> int \<times> int \<times> int \<times> int \<times> int"
type_synonym local_date = "int \<times> int \<times> int"

text \<open>\<open>Date.UTC\<close> with all its fields.\<close>

fun DateUTC_parts :: "wall_parts \<Rightarrow> time" where
  "DateUTC_parts (y, m, d, h, mi, sec) =
     DateUTC y (m - 1) d + h * 3600000 + mi * minute_ms + sec * second_ms"

definition zoneOffsetMilliseconds :: "(time \<Rightarrow> wall_parts) \<Rightarrow> time \<Rightarrow> int" where
  "zoneOffsetMilliseconds parts t = DateUTC_parts (parts t) - t"

fun localWallClockToUtc :: "(time \<Rightarrow> wall_parts) \<Rightarrow> local_date \<Rightarrow> int \<Rightarrow> exn + time" where
  "localWallClockToUtc parts (year, month, day) hour =
     (if year = 0 \<or> month = 0 \<or> day = 0 then Inl (JsError ''invalid date'')
      else let guess = DateUTC_parts (year, month, day, hour, 0, 0);
               offsetAtGuess = zoneOffsetMilliseconds parts guess;
               corrected = guess - offsetAtGuess;
               offsetAtCorrected = zoneOffsetMilliseconds parts corrected
           in Inr (guess - offsetAtCorrected))"

definition nightWindow ::
  "(int \<Rightarrow> time \<Rightarrow> time option) \<Rightarrow> (time \<Rightarrow> wall_parts) \<Rightarrow> local_date \<Rightarrow> exn + nightWindow option" where
  "nightWindow search parts isoDate =
     (case localWallClockToUtc parts isoDate 12 of Inl e \<Rightarrow> Inl e
      | Inr noon \<Rightarrow>
          Inr (case search (- 1) noon of None \<Rightarrow> None
               | Some dusk \<Rightarrow> (case search 1 dusk of None \<Rightarrow> None
                  | Some dawn \<Rightarrow> Some \<lparr>duskAt = dusk, dawnAt = dawn\<rparr>)))"

section \<open>Owners' hours (availability.ts)\<close>

record localWindow =
  lw_weekday :: int
  lw_startMinute :: int
  lw_endMinute :: int

definition MINUTES_PER_DAY :: int where "MINUTES_PER_DAY = 1440"

definition localDate :: "(time \<Rightarrow> wall_parts) \<Rightarrow> time \<Rightarrow> local_date" where
  "localDate parts t = (case parts t of (y, m, d, _) \<Rightarrow> (y, m, d))"

fun weekdayOf :: "local_date \<Rightarrow> int" where
  "weekdayOf (year, month, day) = WeekDay (Day (DateUTC year (month - 1) day))"

fun nextDate :: "local_date \<Rightarrow> local_date" where
  "nextDate (year, month, day) =
     (let d = Day (DateUTC year (month - 1) (day + 1)) in (year_of d, month_of d + 1, date_of d))"

definition instantsFor ::
  "(time \<Rightarrow> wall_parts) \<Rightarrow> localWindow \<Rightarrow> local_date \<Rightarrow> exn + nightWindow" where
  "instantsFor parts window isoDate =
     (case localWallClockToUtc parts isoDate 0 of Inl e \<Rightarrow> Inl e
      | Inr midnight \<Rightarrow> Inr \<lparr>duskAt = midnight + lw_startMinute window * minute_ms,
                              dawnAt = midnight + lw_endMinute window * minute_ms\<rparr>)"

definition overlap :: "nightWindow \<Rightarrow> nightWindow \<Rightarrow> nightWindow option" where
  "overlap a b =
     (let start = max (duskAt a) (duskAt b); end = min (dawnAt a) (dawnAt b)
      in if end \<le> start then None else Some \<lparr>duskAt = start, dawnAt = end\<rparr>)"

definition merge_step :: "nightWindow list \<Rightarrow> nightWindow \<Rightarrow> nightWindow list" where
  "merge_step merged interval =
     (if merged \<noteq> [] \<and> duskAt interval \<le> dawnAt (last merged)
      then if dawnAt (last merged) < dawnAt interval
           then butlast merged @ [\<lparr>duskAt = duskAt (last merged), dawnAt = dawnAt interval\<rparr>]
           else merged
      else merged @ [interval])"

definition merge :: "nightWindow list \<Rightarrow> nightWindow list" where
  "merge intervals = foldl merge_step [] (sort_key duskAt intervals)"

definition usable_window :: "localWindow \<Rightarrow> bool" where
  "usable_window w \<longleftrightarrow> lw_startMinute w < lw_endMinute w \<and> 0 \<le> lw_startMinute w
     \<and> lw_endMinute w \<le> MINUTES_PER_DAY"

fun clip_windows ::
  "(time \<Rightarrow> wall_parts) \<Rightarrow> nightWindow \<Rightarrow> local_date \<Rightarrow> localWindow list \<Rightarrow> exn + nightWindow list" where
  "clip_windows parts night date [] = Inr []"
| "clip_windows parts night date (w # ws) =
     (if lw_weekday w \<noteq> weekdayOf date then clip_windows parts night date ws
      else case instantsFor parts w date of Inl e \<Rightarrow> Inl e
           | Inr i \<Rightarrow>
              (case clip_windows parts night date ws of Inl e \<Rightarrow> Inl e
               | Inr rest \<Rightarrow> Inr (case overlap night i of None \<Rightarrow> rest | Some c \<Rightarrow> c # rest)))"

definition openIntervals ::
  "(time \<Rightarrow> wall_parts) \<Rightarrow> nightWindow \<Rightarrow> localWindow list \<Rightarrow> exn + nightWindow list" where
  "openIntervals parts night windows =
     (let usable = filter usable_window windows
      in if usable = [] then Inr [night]
         else let evening = localDate parts (duskAt night)
              in case clip_windows parts night evening usable of Inl e \<Rightarrow> Inl e
                 | Inr a \<Rightarrow> (case clip_windows parts night (nextDate evening) usable of Inl e \<Rightarrow> Inl e
                    | Inr b \<Rightarrow> Inr (merge (a @ b))))"

section \<open>The grid of starts\<close>

lemma alignForward_least:
  assumes "0 < m"
  shows "t \<le> alignForward t m" and "alignForward t m < t + m * minute_ms"
    and "alignForward t m mod (m * minute_ms) = 0"
proof -
  let ?s = "m * minute_ms"
  have s: "0 < ?s" using assms by simp
  have "- t = ?s * ((- t) div ?s) + (- t) mod ?s" by (rule mult_div_mod_eq [symmetric])
  moreover have "0 \<le> (- t) mod ?s" "(- t) mod ?s < ?s"
    using s by (auto intro: pos_mod_sign pos_mod_bound)
  moreover have e: "alignForward t m = - (?s * ((- t) div ?s))"
    by (simp add: alignForward_def Let_def mult.commute)
  ultimately show "t \<le> alignForward t m" "alignForward t m < t + ?s" by linarith+
  show "alignForward t m mod ?s = 0" unfolding e by (simp add: mod_minus_eq)
qed

lemma grid_point:
  assumes "(t::int) mod s = 0" and "(u::int) mod s = 0" and "0 < s"
  shows "t \<le> u \<longleftrightarrow> t < u + s"
proof -
  obtain a b where "t = s * a" "u = s * b"
    using assms(1,2) by (metis dvd_def mod_0_imp_dvd)
  moreover have "s * a < s * b + s \<longleftrightarrow> s * a < s * (b + 1)" by (simp add: algebra_simps)
  ultimately show ?thesis using assms(3) by (simp add: zless_add1_eq order_le_less)
qed

lemma slots_from_starts:
  "\<exists>ts. slots_from input d t = map (slot_at input d) ts \<and> sorted_wrt (<) ts
    \<and> set ts = {u. t \<le> u \<and> (u - t) mod 900000 = 0 \<and> u + d * minute_ms \<le> dawnAt (si_window input)}"
proof (induction input d t rule: slots_from.induct)
  case (1 input d t)
  let ?S = "\<lambda>t. {u. t \<le> u \<and> (u - t) mod 900000 = 0 \<and> u + d * minute_ms \<le> dawnAt (si_window input)}"
  show ?case
  proof (cases "t + d * minute_ms \<le> dawnAt (si_window input)")
    case False
    then have "?S t = {}" by auto
    with False show ?thesis by (intro exI [of _ "[]"]) (simp add: slots_from.simps)
  next
    case True
    from 1 [OF True] obtain ts where ts: "slots_from input d (t + 900000) = map (slot_at input d) ts"
      "sorted_wrt (<) ts" "set ts = ?S (t + 900000)"
      by (auto simp: const_simps)
    have "?S t = insert t (?S (t + 900000))"
    proof (intro set_eqI iffI)
      fix u
      assume "u \<in> ?S t"
      then show "u \<in> insert t (?S (t + 900000))"
        by (auto simp: algebra_simps elim!: dvdE dest!: mod_0_imp_dvd)
    next
      fix u
      assume "u \<in> insert t (?S (t + 900000))"
      moreover have "(u - (t + 900000)) mod 900000 = (u - t) mod 900000"
        by (metis diff_diff_eq minus_mod_self2)
      ultimately show "u \<in> ?S t" using True by auto
    qed
    with ts True show ?thesis
      by (intro exI [of _ "t # ts"]) (auto simp: slots_from.simps [of input d t] const_simps)
  qed
qed

lemma first_start_grid:
  assumes u: "u mod 900000 = 0"
  shows "alignForward t 15 \<le> u \<longleftrightarrow> t \<le> u"
proof -
  note a = alignForward_least [of 15 t, simplified]
  show ?thesis
  proof
    assume "t \<le> u"
    with a(2) have "alignForward t 15 < u + 900000" by linarith
    with grid_point [OF a(3) u] show "alignForward t 15 \<le> u" by simp
  qed (use a(1) in linarith)
qed

lemma shift_mod: "(t::int) mod s = 0 \<Longrightarrow> (u - t) mod s = 0 \<longleftrightarrow> u mod s = 0"
  by (metis diff_zero mod_diff_right_eq)

lemma generateSlots_starts:
  "\<exists>ts. generateSlots input = map (slot_at input (session_minutes input)) ts \<and> sorted_wrt (<) ts
    \<and> set ts = {u. u mod 900000 = 0 \<and> duskAt (si_window input) \<le> u
                  \<and> u + session_minutes input * minute_ms \<le> dawnAt (si_window input)}"
proof -
  let ?d = "session_minutes input" and ?t = "alignForward (duskAt (si_window input)) 15"
  note a = alignForward_least(3) [of 15 "duskAt (si_window input)", simplified]
  obtain ts where ts: "slots_from input ?d ?t = map (slot_at input ?d) ts" "sorted_wrt (<) ts"
    "set ts = {u. ?t \<le> u \<and> (u - ?t) mod 900000 = 0 \<and> u + ?d * minute_ms \<le> dawnAt (si_window input)}"
    using slots_from_starts by blast
  have "set ts = {u. u mod 900000 = 0 \<and> duskAt (si_window input) \<le> u \<and> u + ?d * minute_ms \<le> dawnAt (si_window input)}"
    unfolding ts(3) shift_mod [OF a] by (rule Collect_cong) (metis first_start_grid)
  with ts(1,2) show ?thesis by (auto simp: generateSlots_def SLOT_ALIGNMENT_MINUTES_def)
qed

section \<open>Conflicts with held bookings\<close>

interpretation held: slot_conflict "\<lambda>_. []" hb_slotStartAt hb_durationMinutes
  "\<lambda>a b. clashesWithHeld (hb_slotStartAt a) (hb_durationMinutes a) [b]"
  by unfold_locales (auto simp: clashesWithHeld_def Let_def const_simps algebra_simps)

lemma clashesWithHeld_ex:
  "clashesWithHeld t d bs \<longleftrightarrow> (\<exists>b \<in> set bs. clashesWithHeld t d [b])"
  by (simp add: clashesWithHeld_def list_ex_iff Let_def)

lemma clash_instant:
  assumes "0 < d" and "0 < hb_durationMinutes b"
  shows "clashesWithHeld t d [b] \<longleftrightarrow>
    (\<exists>x. t \<le> x \<and> x < t + (d + 10) * minute_ms
       \<and> hb_slotStartAt b \<le> x \<and> x < hb_slotStartAt b + (hb_durationMinutes b + 10) * minute_ms)"
  using held.conflict_instant [of "\<lparr>hb_slotStartAt = t, hb_durationMinutes = d\<rparr>" b] assms
  by (simp add: const_simps)

section \<open>Merging\<close>

definition covers :: "nightWindow list \<Rightarrow> time \<Rightarrow> bool" where
  "covers ws x \<longleftrightarrow> (\<exists>w \<in> set ws. duskAt w \<le> x \<and> x < dawnAt w)"

text \<open>Non-empty intervals in order with a gap between neighbours.\<close>

definition separated :: "nightWindow list \<Rightarrow> bool" where
  "separated ws \<longleftrightarrow> sorted_wrt (\<lambda>a b. dawnAt a < duskAt b) ws \<and> (\<forall>w \<in> set ws. duskAt w < dawnAt w)"

lemma covers_simps [simp]:
  "covers [] x = False" "covers (w # ws) x = (duskAt w \<le> x \<and> x < dawnAt w \<or> covers ws x)"
  "covers (us @ ws) x = (covers us x \<or> covers ws x)"
  by (auto simp: covers_def)

lemma merge_step_separated:
  assumes "separated ms" and "duskAt i < dawnAt i" and "\<And>m. m \<in> set ms \<Longrightarrow> duskAt m \<le> duskAt i"
  shows "separated (merge_step ms i) \<and> (\<forall>x. covers (merge_step ms i) x \<longleftrightarrow> covers ms x \<or> covers [i] x)
    \<and> (\<forall>m \<in> set (merge_step ms i). duskAt m \<le> duskAt i)"
proof (cases ms rule: rev_cases)
  case Nil
  with assms show ?thesis by (auto simp: merge_step_def separated_def)
next
  case (snoc us l)
  with assms show ?thesis
    by (auto simp: merge_step_def separated_def sorted_wrt_append) (force+)?
qed

lemma merge_fold:
  assumes "separated ms" and "sorted (map duskAt is)" and "\<forall>i \<in> set is. duskAt i < dawnAt i"
    and "\<forall>m \<in> set ms. \<forall>i \<in> set is. duskAt m \<le> duskAt i"
  shows "separated (foldl merge_step ms is) \<and>
    (\<forall>x. covers (foldl merge_step ms is) x \<longleftrightarrow> covers ms x \<or> covers is x)"
  using assms
proof (induction "is" arbitrary: ms)
  case (Cons i "is")
  note step = merge_step_separated [of ms i]
  have "separated (foldl merge_step (merge_step ms i) is) \<and>
    (\<forall>x. covers (foldl merge_step (merge_step ms i) is) x \<longleftrightarrow> covers (merge_step ms i) x \<or> covers is x)"
  proof (rule Cons.IH)
    show "\<forall>m \<in> set (merge_step ms i). \<forall>j \<in> set is. duskAt m \<le> duskAt j"
      using step Cons.prems by (auto intro: order_trans)
  qed (use step Cons.prems in auto)
  with step Cons.prems show ?case by auto
qed simp

lemma merge_correct:
  assumes "\<forall>i \<in> set is. duskAt i < dawnAt i"
  shows "separated (merge is)" and "covers (merge is) x \<longleftrightarrow> covers is x"
  using merge_fold [of "[]" "sort_key duskAt is"] assms
  by (simp_all add: merge_def separated_def covers_def)

section \<open>Wall clocks\<close>

text \<open>The wall-clock fields of an instant read in UTC.\<close>

definition utc_parts :: "time \<Rightarrow> wall_parts" where
  "utc_parts t = (let d = Day t; s = TimeWithinDay t
     in (year_of d, month_of d + 1, date_of d, s div 3600000, s div 60000 mod 60, s div 1000 mod 60))"

text \<open>A time zone a fixed number of whole seconds ahead of UTC.\<close>

definition fixed_zone :: "int \<Rightarrow> time \<Rightarrow> wall_parts" where
  "fixed_zone offset t = utc_parts (t + offset)"

lemma mixed_radix:
  fixes s :: int
  assumes "s = 1000 * a + r" and "a = 60 * b + c" and "b = 60 * e + f"
  shows "e * 3600000 + f * 60000 + c * 1000 = s - r"
  unfolding assms by (simp add: algebra_simps)

lemma seconds_of_day:
  fixes s :: int
  shows "s div 3600000 * 3600000 + s div 60000 mod 60 * 60000 + s div 1000 mod 60 * 1000 = s - s mod 1000"
proof -
  have e: "s div 60000 = s div 1000 div 60" "s div 3600000 = s div 1000 div 60 div 60"
    by (simp_all add: zdiv_zmult2_eq [symmetric])
  show ?thesis
    unfolding e by (rule mixed_radix) (rule mult_div_mod_eq [symmetric])+
qed

lemma DateUTC_utc_parts:
  assumes "100 \<le> year_of (Day t)"
  shows "DateUTC_parts (utc_parts t) = t - t mod 1000"
proof -
  have "TimeWithinDay t mod 1000 = t mod 1000"
    by (simp add: TimeWithinDay_def mod_mod_cancel)
  moreover have "DateUTC_parts (utc_parts t) = Day t * day_ms + (TimeWithinDay t - TimeWithinDay t mod 1000)"
    using assms seconds_of_day [of "TimeWithinDay t"]
    by (simp add: utc_parts_def Let_def DateUTC_def MakeDay_fields algebra_simps)
  ultimately show ?thesis using Day_TimeWithinDay [of t] by simp
qed

lemma utc_parts_DateUTC:
  assumes "100 \<le> y" and "1 \<le> m" and "m \<le> 12" and "1 \<le> d" and "d \<le> days_in_month y (m - 1)"
    and "0 \<le> h" and "h < 24"
  shows "utc_parts (DateUTC_parts (y, m, d, h, 0, 0)) = (y, m, d, h, 0, 0)"
proof -
  let ?D = "MakeDay y (m - 1) d"
  have t: "DateUTC_parts (y, m, d, h, 0, 0) = ?D * day_ms + h * 3600000"
    using assms(1) by (simp add: DateUTC_def)
  have "Day (?D * day_ms + h * 3600000) = ?D" "TimeWithinDay (?D * day_ms + h * 3600000) = h * 3600000"
    using assms(6,7) by (simp_all add: Day_of_parts)
  moreover have "h * 3600000 div 60000 mod 60 = 0" "h * 3600000 div 1000 mod 60 = 0"
    using nonzero_mult_div_cancel_right [of 60000 "h * 60"] nonzero_mult_div_cancel_right [of 1000 "h * 3600"]
      mod_mult_self2_is_0 [of h 60] mod_mult_self2_is_0 [of "h * 60" 60] by (simp_all add: mult.assoc)
  ultimately show ?thesis
    unfolding t utc_parts_def Let_def using fields_MakeDay [of "m - 1" d y] assms by simp
qed

lemma localWallClockToUtc_fixed:
  assumes "100 \<le> y" and "1 \<le> m" and "m \<le> 12" and "1 \<le> d" and "d \<le> days_in_month y (m - 1)"
    and "0 \<le> h" and "h < 24" and off: "offset mod 1000 = 0"
    and far: "100 \<le> year_of (Day (DateUTC_parts (y, m, d, h, 0, 0) + offset))"
  shows "localWallClockToUtc (fixed_zone offset) (y, m, d) h = Inr (DateUTC_parts (y, m, d, h, 0, 0) - offset)"
proof -
  let ?g = "DateUTC_parts (y, m, d, h, 0, 0)"
  have "1000 dvd ?g" unfolding DateUTC_parts.simps DateUTC_def by (intro dvd_add dvd_mult) simp_all
  then have g: "?g mod 1000 = 0" by (rule dvd_imp_mod_0)
  have z: "zoneOffsetMilliseconds (fixed_zone offset) t = offset"
    if "t mod 1000 = 0" "100 \<le> year_of (Day (t + offset))" for t
  proof -
    have "(t + offset) mod 1000 = 0" using that(1) off by (metis add_0 mod_add_eq mod_0)
    with DateUTC_utc_parts [OF that(2)] show ?thesis
      by (simp add: zoneOffsetMilliseconds_def fixed_zone_def)
  qed
  have "(?g - offset) mod 1000 = 0" using g off by (metis diff_zero mod_diff_eq mod_0)
  moreover have "Day ?g = MakeDay y (m - 1) d"
    using assms(1,6,7) by (simp add: DateUTC_def Day_of_parts)
  then have "year_of (Day ?g) = y" using fields_MakeDay(1) [of "m - 1" d y] assms by simp
  ultimately have "zoneOffsetMilliseconds (fixed_zone offset) (?g - offset) = offset"
    using z [of "?g - offset"] assms(1) by simp
  with z [OF g far] show ?thesis using assms by (simp add: Let_def del: DateUTC_parts.simps)
qed

section \<open>Owners' hours\<close>

lemma overlap_iff:
  "overlap a b = Some c \<Longrightarrow> duskAt c < dawnAt c \<and>
     (\<forall>x. duskAt c \<le> x \<and> x < dawnAt c \<longleftrightarrow> duskAt a \<le> x \<and> x < dawnAt a \<and> duskAt b \<le> x \<and> x < dawnAt b)"
  "overlap a b = None \<Longrightarrow> \<not> (duskAt a \<le> x \<and> x < dawnAt a \<and> duskAt b \<le> x \<and> x < dawnAt b)"
  by (auto simp: overlap_def Let_def split: if_splits)

text \<open>The instants a list of windows offers on a date.\<close>

definition offered :: "(time \<Rightarrow> wall_parts) \<Rightarrow> local_date \<Rightarrow> localWindow list \<Rightarrow> time \<Rightarrow> bool" where
  "offered parts date ws x \<longleftrightarrow> (\<exists>w \<in> set ws. lw_weekday w = weekdayOf date \<and>
     (\<exists>i. instantsFor parts w date = Inr i \<and> duskAt i \<le> x \<and> x < dawnAt i))"

lemma clip_windows_covers:
  assumes "clip_windows parts night date ws = Inr cs"
  shows "(\<forall>c \<in> set cs. duskAt c < dawnAt c) \<and>
    (\<forall>x. covers cs x \<longleftrightarrow> duskAt night \<le> x \<and> x < dawnAt night \<and> offered parts date ws x)"
  using assms
proof (induction ws arbitrary: cs)
  case Nil
  then show ?case by (simp add: offered_def)
next
  case (Cons w ws)
  show ?case
  proof (cases "lw_weekday w = weekdayOf date")
    case False
    with Cons show ?thesis by (auto simp: offered_def)
  next
    case True
    with Cons.prems obtain i rest where i: "instantsFor parts w date = Inr i"
      and rest: "clip_windows parts night date ws = Inr rest"
      and cs: "cs = (case overlap night i of None \<Rightarrow> rest | Some c \<Rightarrow> c # rest)"
      by (auto split: sum.splits)
    have "offered parts date (w # ws) x \<longleftrightarrow> duskAt i \<le> x \<and> x < dawnAt i \<or> offered parts date ws x" for x
      using True i by (auto simp: offered_def)
    with Cons.IH [OF rest] overlap_iff [of night i] show ?thesis
      unfolding cs by (cases "overlap night i") auto
  qed
qed

lemma clip_windows_total:
  assumes "\<And>h. \<exists>t. localWallClockToUtc parts date h = Inr t"
  shows "\<exists>cs. clip_windows parts night date ws = Inr cs"
proof (induction ws)
  case (Cons w ws)
  then obtain cs where "clip_windows parts night date ws = Inr cs" ..
  moreover obtain t where "localWallClockToUtc parts date 0 = Inr t" using assms by blast
  ultimately show ?case by (simp add: instantsFor_def)
qed simp

lemma localWallClock_total:
  assumes "y \<noteq> 0" and "m \<noteq> 0" and "d \<noteq> 0"
  shows "\<exists>t. localWallClockToUtc parts (y, m, d) h = Inr t"
  using assms by (simp add: Let_def)

lemma nextDate_parts:
  "\<exists>y m d. nextDate date = (y, m, d) \<and> m \<noteq> 0 \<and> d \<noteq> 0"
proof -
  obtain y m d where date: "date = (y, m, d)" by (cases date)
  let ?n = "Day (DateUTC y (m - 1) (d + 1))"
  have "month_of ?n + 1 \<noteq> 0" "date_of ?n \<noteq> 0"
    using month_of_range(1) [of ?n] date_of_range(1) [of ?n] by linarith+
  then show ?thesis unfolding date nextDate.simps Let_def by blast
qed

lemma slot_available_parts:
  assumes "0 < d" and "\<forall>b \<in> set (si_held input). 0 < hb_durationMinutes b"
    and "si_offers input = Some offers" and "\<forall>b \<in> set offers. 0 < hb_durationMinutes b"
  shows "sl_available (slot_at input d t) \<longleftrightarrow>
      si_now input < t \<and> \<not> si_weatherHold input \<and> si_online input
      \<and> (\<forall>b \<in> set (si_held input @ offers). \<nexists>x. t \<le> x \<and> x < t + (d + 10) * 60000
           \<and> hb_slotStartAt b \<le> x \<and> x < hb_slotStartAt b + (hb_durationMinutes b + 10) * 60000)"
    and "sl_unavailableReason (slot_at input d t) =
      (if t \<le> si_now input then Some IN_THE_PAST
       else if clashesWithHeld t d (si_held input) then Some ALREADY_BOOKED
       else if clashesWithHeld t d offers then Some HELD_FOR_WAITLIST
       else if si_weatherHold input then Some WEATHER_HOLD
       else if \<not> si_online input then Some OBSERVATORY_OFFLINE else None)"
proof -
  show "sl_unavailableReason (slot_at input d t) =
      (if t \<le> si_now input then Some IN_THE_PAST
       else if clashesWithHeld t d (si_held input) then Some ALREADY_BOOKED
       else if clashesWithHeld t d offers then Some HELD_FOR_WAITLIST
       else if si_weatherHold input then Some WEATHER_HOLD
       else if \<not> si_online input then Some OBSERVATORY_OFFLINE else None)"
    using assms(3) by (simp add: slot_at_def unavailableReason_def Let_def)
  have clash: "clashesWithHeld t d bs \<longleftrightarrow> (\<exists>b \<in> set bs. \<exists>x. t \<le> x \<and> x < t + (d + 10) * 60000
      \<and> hb_slotStartAt b \<le> x \<and> x < hb_slotStartAt b + (hb_durationMinutes b + 10) * 60000)"
    if "\<forall>b \<in> set bs. 0 < hb_durationMinutes b" for bs
    using clash_instant [OF assms(1)] that clashesWithHeld_ex [of t d bs] by blast
  have "sl_available (slot_at input d t) \<longleftrightarrow> si_now input < t \<and> \<not> clashesWithHeld t d (si_held input)
      \<and> \<not> clashesWithHeld t d offers \<and> \<not> si_weatherHold input \<and> si_online input"
    using assms(3) by (auto simp: slot_at_def unavailableReason_def Let_def)
  with clash [OF assms(2)] clash [OF assms(4)] show "sl_available (slot_at input d t) \<longleftrightarrow>
      si_now input < t \<and> \<not> si_weatherHold input \<and> si_online input
      \<and> (\<forall>b \<in> set (si_held input @ offers). \<nexists>x. t \<le> x \<and> x < t + (d + 10) * 60000
           \<and> hb_slotStartAt b \<le> x \<and> x < hb_slotStartAt b + (hb_durationMinutes b + 10) * 60000)"
    by (auto simp: ball_Un)
qed

section \<open>Properties\<close>

text \<open>
  \<open>generateSlots\<close> offers exactly the quarter-hour starts whose whole session lies between
  dusk and dawn, in order and once each, every slot of the asked length at the price of that
  length.
\<close>

theorem generateSlots_exact:
  "\<exists>ts. generateSlots input = map (slot_at input (session_minutes input)) ts \<and> sorted_wrt (<) ts
    \<and> set ts = {u. u mod (15 * 60000) = 0 \<and> duskAt (si_window input) \<le> u
                  \<and> u + session_minutes input * 60000 \<le> dawnAt (si_window input)}"
  using generateSlots_starts [of input] by simp

definition example_night :: slotAvailabilityInput where
  "example_night = \<lparr>si_observatoryId = ''o1'', si_window = \<lparr>duskAt = 7000, dawnAt = 7200000\<rparr>, si_now = 0,
     si_online = True, si_weatherHold = False,
     si_held = [\<lparr>hb_slotStartAt = 900000, hb_durationMinutes = 30\<rparr>], si_offers = Some [],
     si_forecastFor = None, si_durationMinutes = None\<rparr>"

text \<open>
  A generated slot is marked available exactly when it starts in the future, at no instant
  shares the telescope with a held booking or an open waitlist offer (each holding its session
  plus the ten-minute turnaround), there is no weather hold and the observatory is online; and
  the reason given otherwise is the first that applies.
\<close>

theorem slot_available_iff:
  assumes "0 < d" and "\<forall>b \<in> set (si_held input). 0 < hb_durationMinutes b"
    and "si_offers input = Some offers" and "\<forall>b \<in> set offers. 0 < hb_durationMinutes b"
  shows "(sl_available (slot_at input d t) \<longleftrightarrow>
      si_now input < t \<and> \<not> si_weatherHold input \<and> si_online input
      \<and> (\<forall>b \<in> set (si_held input @ offers). \<nexists>x. t \<le> x \<and> x < t + (d + 10) * 60000
           \<and> hb_slotStartAt b \<le> x \<and> x < hb_slotStartAt b + (hb_durationMinutes b + 10) * 60000))
    \<and> sl_unavailableReason (slot_at input d t) =
      (if t \<le> si_now input then Some IN_THE_PAST
       else if clashesWithHeld t d (si_held input) then Some ALREADY_BOOKED
       else if clashesWithHeld t d offers then Some HELD_FOR_WAITLIST
       else if si_weatherHold input then Some WEATHER_HOLD
       else if \<not> si_online input then Some OBSERVATORY_OFFLINE else None)"
  using slot_available_parts [OF assms] by (rule conjI)

theorem slot_available_iff_witness:
  "sl_available (slot_at example_night 30 3600000) \<and> \<not> sl_available (slot_at example_night 30 2700000)"
  using slot_available_iff [of 30 example_night "[]" 3600000] slot_available_iff [of 30 example_night "[]" 2700000]
  by (simp add: example_night_def slot_at_def unavailableReason_def clashesWithHeld_def Let_def const_simps)

text \<open>
  The hours an owner offers only ever narrow the night: with at least one usable window,
  \<open>openIntervals\<close> returns disjoint, ordered intervals with a gap between neighbours that cover
  exactly the instants of the night which some window of the evening's or the next morning's
  weekday offers.
\<close>

theorem openIntervals_exact:
  assumes "list_ex usable_window windows"
    and "localDate parts (duskAt night) = (y, m, d)" and "y \<noteq> 0" and "m \<noteq> 0" and "d \<noteq> 0"
    and "fst (nextDate (y, m, d)) \<noteq> 0"
  shows "\<exists>is. openIntervals parts night windows = Inr is \<and> separated is \<and>
    (\<forall>x. covers is x \<longleftrightarrow> duskAt night \<le> x \<and> x < dawnAt night \<and>
       (offered parts (y, m, d) (filter usable_window windows) x
        \<or> offered parts (nextDate (y, m, d)) (filter usable_window windows) x))"
proof -
  let ?ws = "filter usable_window windows" and ?e = "(y, m, d)"
  obtain a where a: "clip_windows parts night ?e ?ws = Inr a"
    using clip_windows_total [OF localWallClock_total [OF assms(3-5)]] by blast
  obtain y' m' d' where n: "nextDate ?e = (y', m', d')" "m' \<noteq> 0" "d' \<noteq> 0"
    using nextDate_parts by blast
  then have "y' \<noteq> 0" using assms(6) by simp
  with n obtain b where b: "clip_windows parts night (nextDate ?e) ?ws = Inr b"
    using clip_windows_total [OF localWallClock_total] by metis
  have "?ws \<noteq> []" using assms(1) by (auto simp: list_ex_iff filter_empty_conv)
  then have "openIntervals parts night windows = Inr (merge (a @ b))"
    using a b by (simp add: openIntervals_def Let_def assms(2) del: nextDate.simps)
  moreover have "\<forall>i \<in> set (a @ b). duskAt i < dawnAt i"
    using clip_windows_covers [OF a] clip_windows_covers [OF b] by auto
  ultimately show ?thesis
    using merge_correct [of "a @ b"] clip_windows_covers [OF a] clip_windows_covers [OF b] by auto
qed

theorem openIntervals_exact_witness:
  "\<exists>is. openIntervals (fixed_zone 14400000) \<lparr>duskAt = 1600000000000, dawnAt = 1600020000000\<rparr>
      [\<lparr>lw_weekday = 0, lw_startMinute = 0, lw_endMinute = 1440\<rparr>] = Inr is \<and> separated is"
proof -
  have "localDate (fixed_zone 14400000) 1600000000000 = (2020, 9, 13)" by code_simp
  moreover have "fst (nextDate (2020, 9, 13)) \<noteq> 0" by code_simp
  ultimately show ?thesis
    using openIntervals_exact [of "[\<lparr>lw_weekday = 0, lw_startMinute = 0, lw_endMinute = 1440\<rparr>]"
        "fixed_zone 14400000" "\<lparr>duskAt = 1600000000000, dawnAt = 1600020000000\<rparr>" 2020 9 13]
    by (auto simp: usable_window_def MINUTES_PER_DAY_def)
qed

text \<open>
  \<open>localWallClockToUtc\<close> is right in a zone a fixed number of seconds from UTC: for every
  calendar date and hour it returns the instant at which that zone's clock shows them.
\<close>

theorem localWallClockToUtc_shows_the_hour:
  assumes "100 \<le> y" and "1 \<le> m" and "m \<le> 12" and "1 \<le> d" and "d \<le> days_in_month y (m - 1)"
    and "0 \<le> h" and "h < 24" and "offset mod 1000 = 0"
    and "100 \<le> year_of (Day (DateUTC_parts (y, m, d, h, 0, 0) + offset))"
  shows "\<exists>t. localWallClockToUtc (fixed_zone offset) (y, m, d) h = Inr t
    \<and> fixed_zone offset t = (y, m, d, h, 0, 0)"
  using localWallClockToUtc_fixed [OF assms] utc_parts_DateUTC [OF assms(1-7)]
  by (simp add: fixed_zone_def del: DateUTC_parts.simps localWallClockToUtc.simps)

theorem localWallClockToUtc_shows_the_hour_witness:
  "\<exists>t. localWallClockToUtc (fixed_zone 14400000) (2026, 9, 3) 12 = Inr t
    \<and> fixed_zone 14400000 t = (2026, 9, 3, 12, 0, 0)"
proof -
  have "3 \<le> days_in_month 2026 (9 - 1)" by code_simp
  moreover have "100 \<le> year_of (Day (DateUTC_parts (2026, 9, 3, 12, 0, 0) + 14400000))" by code_simp
  ultimately show ?thesis
    using localWallClockToUtc_shows_the_hour [of 2026 9 3 12 14400000] by simp
qed

end
