(* ===== verification/Jobs.thy ===== *)
theory Jobs
  imports Prelude
begin

text \<open>
  Code that runs outside one transaction: the sweeps and request handlers that issue several
  statements or transactions, each committed on its own. What was committed before an
  exception stays, so a job returns its outcome and the database it leaves in every case. A
  single statement or a \<open>$transaction\<close> inside a job is \<open>transaction m\<close>.
\<close>

type_synonym ('s, 'a) job = "'s \<Rightarrow> (exn + 'a) \<times> 's"

definition retj :: "'a \<Rightarrow> ('s, 'a) job" where
  "retj x = (\<lambda>s. (Inr x, s))"

definition throwj :: "exn \<Rightarrow> ('s, 'a) job" where
  "throwj e = (\<lambda>s. (Inl e, s))"

definition bindj :: "('s, 'a) job \<Rightarrow> ('a \<Rightarrow> ('s, 'b) job) \<Rightarrow> ('s, 'b) job" where
  "bindj m f = (\<lambda>s. case m s of (Inl e, s') \<Rightarrow> (Inl e, s') | (Inr x, s') \<Rightarrow> f x s')"

definition readsj :: "('s \<Rightarrow> 'a) \<Rightarrow> ('s, 'a) job" where
  "readsj f = (\<lambda>s. (Inr (f s), s))"

text \<open>\<open>try\<close> around a job: the handler sees the exception and the state it left.\<close>

definition catchj :: "('s, 'a) job \<Rightarrow> (exn \<Rightarrow> ('s, 'a) job) \<Rightarrow> ('s, 'a) job" where
  "catchj m h = (\<lambda>s. case m s of (Inl e, s') \<Rightarrow> h e s' | (Inr x, s') \<Rightarrow> (Inr x, s'))"

definition keepsj :: "('s \<Rightarrow> bool) \<Rightarrow> ('s, 'a) job \<Rightarrow> bool" where
  "keepsj I m \<longleftrightarrow> (\<forall>s. I s \<longrightarrow> I (snd (m s)))"

named_theorems keepsj_intros "invariants of jobs"

lemma job_simps [simp]:
  "retj x s = (Inr x, s)" "throwj e s = (Inl e, s)" "readsj f s = (Inr (f s), s)"
  "bindj (retj x) k s = k x s" "bindj (readsj f) k s = k (f s) s" "bindj (throwj e) k' s = (Inl e, s)"
  by (simp_all add: retj_def throwj_def readsj_def bindj_def)

lemma bindj_step:
  "m s = (Inr x, s') \<Longrightarrow> bindj m f s = f x s'"
  "m s = (Inl e, s') \<Longrightarrow> bindj m f s = (Inl e, s')"
  by (simp_all add: bindj_def)

lemma bindj_eq_Inr:
  "bindj m f s = (Inr y, s2) \<longleftrightarrow> (\<exists>x s1. m s = (Inr x, s1) \<and> f x s1 = (Inr y, s2))"
  by (auto simp: bindj_def split: prod.splits sum.splits)

lemma transaction_eq_Inr: "transaction m s = (Inr x, s') \<longleftrightarrow> m s = Inr (x, s')"
  by (auto simp: transaction_def split: sum.splits)

lemma keepsjD: "keepsj I m \<Longrightarrow> I s \<Longrightarrow> I (snd (m s))"
  by (simp add: keepsj_def)

lemma keepsj_ret [keepsj_intros]: "keepsj I (retj x)"
  by (simp add: keepsj_def)

lemma keepsj_throw [keepsj_intros]: "keepsj I (throwj e)"
  by (simp add: keepsj_def)

lemma keepsj_reads [keepsj_intros]: "keepsj I (readsj f)"
  by (simp add: keepsj_def)

lemma keepsj_bind [keepsj_intros]:
  assumes "keepsj I m" and "\<And>x. keepsj I (f x)"
  shows "keepsj I (bindj m f)"
  unfolding keepsj_def
proof (intro allI impI)
  fix s
  assume "I s"
  with assms(1) have "I (snd (m s))" by (rule keepsjD)
  then show "I (snd (bindj m f s))"
    using assms(2) by (auto simp: bindj_def keepsj_def split: prod.splits sum.splits)
qed

lemma keepsj_catch [keepsj_intros]:
  assumes "keepsj I m" and "\<And>e. keepsj I (h e)"
  shows "keepsj I (catchj m h)"
  unfolding keepsj_def
proof (intro allI impI)
  fix s
  assume "I s"
  with assms(1) have "I (snd (m s))" by (rule keepsjD)
  then show "I (snd (catchj m h s))"
    using assms(2) by (auto simp: catchj_def keepsj_def split: prod.splits sum.splits)
qed

lemma keepsj_if [keepsj_intros]:
  "(c \<Longrightarrow> keepsj I m1) \<Longrightarrow> (\<not> c \<Longrightarrow> keepsj I m2) \<Longrightarrow> keepsj I (if c then m1 else m2)"
  by simp

lemma keepsj_option [keepsj_intros]:
  "(v = None \<Longrightarrow> keepsj I m) \<Longrightarrow> (\<And>x. v = Some x \<Longrightarrow> keepsj I (f x)) \<Longrightarrow>
   keepsj I (case v of None \<Rightarrow> m | Some x \<Rightarrow> f x)"
  by (cases v) auto

lemma keepsj_transaction: "keeps I m \<Longrightarrow> keepsj I (transaction m)"
  by (simp add: keepsj_def transaction_keeps)

end
