(* ===== verification/Waitlist.thy ===== *)
theory Waitlist
  imports Audit_Log Calendar Conflict Jobs
begin

text \<open>
  The waitlist for a taken slot, src/packages/db/waitlist.ts: who holds a slot, which offers
  surround it, and the sweep that ends, claims, lapses and makes offers.

  The sweep's statements are committed one by one; only an offer and its email share a
  transaction. Two unique indexes of the table take part: one OFFERED row per observatory and
  start, and one row per claimed booking. A statement that would break one throws SQLSTATE
  23505 and changes nothing. Rows are kept in the order people joined, which is the order of
  \<open>createdAt\<close>.
\<close>

section \<open>Definitions\<close>

definition WAITLIST_OFFER_MINUTES :: int where "WAITLIST_OFFER_MINUTES = 15"
definition TURNAROUND_MINUTES :: int where "TURNAROUND_MINUTES = 10"
definition LOOK_MS :: int where "LOOK_MS = 24 * 60 * 60000"

lemmas waitlist_constants [const_simps] =
  WAITLIST_OFFER_MINUTES_def TURNAROUND_MINUTES_def LOOK_MS_def

definition ACTIVE_PLACE :: "waitlistStatus \<Rightarrow> bool" where
  "ACTIVE_PLACE st \<longleftrightarrow> st = WL_WAITING \<or> st = WL_OFFERED"

definition span :: "time \<Rightarrow> int \<Rightarrow> int \<times> int" where
  "span startAt durationMinutes =
     (startAt, startAt + (durationMinutes + TURNAROUND_MINUTES) * minute_ms)"

definition overlaps :: "int \<times> int \<Rightarrow> int \<times> int \<Rightarrow> bool" where
  "overlaps a b \<longleftrightarrow> fst a < snd b \<and> fst b < snd a"

record slot_ref =
  sr_observatoryId :: ident
  sr_slotStartAt :: time
  sr_durationMinutes :: int

definition slot_of :: "waitlist_row \<Rightarrow> slot_ref" where
  "slot_of w = \<lparr>sr_observatoryId = wl_observatoryId w, sr_slotStartAt = wl_slotStartAt w,
     sr_durationMinutes = wl_durationMinutes w\<rparr>"

text \<open>A booking that holds the telescope: confirmed, or reserved and not yet lapsed.\<close>

definition holding :: "time \<Rightarrow> booking_row \<Rightarrow> bool" where
  "holding now b \<longleftrightarrow> bk_status b = BK_CONFIRMED
     \<or> bk_status b = BK_PENDING_PAYMENT \<and> (case bk_holdExpiresAt b of None \<Rightarrow> False | Some e \<Rightarrow> now < e)"

definition bookingsHolding :: "db \<Rightarrow> slot_ref \<Rightarrow> time \<Rightarrow> (ident \<times> ident) list" where
  "bookingsHolding s slot now =
     (let wanted = span (sr_slotStartAt slot) (sr_durationMinutes slot);
          rows = filter (\<lambda>b. bk_observatoryId b = sr_observatoryId slot
                   \<and> fst wanted - LOOK_MS < bk_slotStartAt b \<and> bk_slotStartAt b < snd wanted + LOOK_MS
                   \<and> holding now b) (booking s)
      in map (\<lambda>b. (bk_id b, bk_userId b))
           (filter (\<lambda>b. overlaps wanted (span (bk_slotStartAt b) (bk_durationMinutes b))) rows))"

definition open_offer :: "time \<Rightarrow> waitlist_row \<Rightarrow> bool" where
  "open_offer now w \<longleftrightarrow> wl_status w = WL_OFFERED
     \<and> (case wl_offerExpiresAt w of None \<Rightarrow> False | Some e \<Rightarrow> now < e)"

definition offersAround :: "db \<Rightarrow> slot_ref \<Rightarrow> time \<Rightarrow> ident option \<Rightarrow> waitlist_row list" where
  "offersAround s slot now exceptUserId =
     (let wanted = span (sr_slotStartAt slot) (sr_durationMinutes slot);
          rows = filter (\<lambda>w. wl_observatoryId w = sr_observatoryId slot \<and> open_offer now w
                   \<and> fst wanted - LOOK_MS < wl_slotStartAt w \<and> wl_slotStartAt w < snd wanted + LOOK_MS
                   \<and> (case exceptUserId of None \<Rightarrow> True | Some u \<Rightarrow> wl_userId w \<noteq> u)) (waitlistEntry s)
      in filter (\<lambda>w. overlaps wanted (span (wl_slotStartAt w) (wl_durationMinutes w))) rows)"

record waitlistSweep =
  sw_ended :: nat
  sw_claimed :: nat
  sw_lapsed :: nat
  sw_offered :: nat

text \<open>The unique indexes: one offer per observatory and start, one place per claimed booking.\<close>

definition one_offer_per_slot :: "waitlist_row list \<Rightarrow> bool" where
  "one_offer_per_slot ws \<longleftrightarrow>
     distinct (map (\<lambda>w. (wl_observatoryId w, wl_slotStartAt w)) (filter (\<lambda>w. wl_status w = WL_OFFERED) ws))"

definition claimed_once :: "waitlist_row list \<Rightarrow> bool" where
  "claimed_once ws \<longleftrightarrow> distinct (map wl_claimedBookingId (filter (\<lambda>w. wl_claimedBookingId w \<noteq> None) ws))"

text \<open>An \<open>updateMany\<close> on the table, subject to its unique indexes.\<close>

definition update_places ::
  "(waitlist_row \<Rightarrow> bool) \<Rightarrow> (waitlist_row \<Rightarrow> waitlist_row) \<Rightarrow> (db, nat) tx" where
  "update_places P f =
     bindt (tx_updateMany waitlistEntry waitlistEntry_update P f) (\<lambda>count.
     bindt (reads waitlistEntry) (\<lambda>ws.
     if one_offer_per_slot ws \<and> claimed_once ws then ret count else throw (SqlError ''23505'')))"

text \<open>Steps 2 and 3, for one active place: claimed by its holder, or lapsed.\<close>

definition settle_place :: "time \<Rightarrow> waitlist_row \<Rightarrow> waitlistSweep \<Rightarrow> (db, waitlistSweep) job" where
  "settle_place now entry result =
     bindj (readsj (\<lambda>s. bookingsHolding s (slot_of entry) now)) (\<lambda>holders.
     case find (\<lambda>h. snd h = wl_userId entry) holders of
       None \<Rightarrow>
         if wl_status entry = WL_OFFERED
            \<and> (case wl_offerExpiresAt entry of None \<Rightarrow> False | Some e \<Rightarrow> e \<le> now)
         then bindj (transaction (update_places
                  (\<lambda>w. wl_id w = wl_id entry \<and> wl_status w = WL_OFFERED)
                  (\<lambda>w. w\<lparr>wl_status := WL_LAPSED, wl_endedAt := Some now\<rparr>))) (\<lambda>count.
              retj (result\<lparr>sw_lapsed := sw_lapsed result + count\<rparr>))
         else retj result
     | Some mine \<Rightarrow>
         bindj (transaction (update_places
                  (\<lambda>w. wl_id w = wl_id entry \<and> wl_status w = wl_status entry)
                  (\<lambda>w. w\<lparr>wl_status := WL_CLAIMED, wl_endedAt := Some now,
                        wl_claimedBookingId := Some (fst mine)\<rparr>))) (\<lambda>count.
         retj (result\<lparr>sw_claimed := sw_claimed result + count\<rparr>)))"

definition offer_email :: "waitlist_row \<Rightarrow> email_row" where
  "offer_email entry = email (wl_userId entry) MAIL_WAITLIST_OFFER (''waitlist-offer:'' @ wl_id entry)
     [(''waitlistEntryId'', wl_id entry)]"

text \<open>Step 4, the offer itself, and its email.\<close>

definition make_offer :: "time \<Rightarrow> waitlist_row \<Rightarrow> (db, nat) tx" where
  "make_offer now entry =
     bindt (update_places
              (\<lambda>w. wl_id w = wl_id entry \<and> wl_status w = WL_WAITING)
              (\<lambda>w. w\<lparr>wl_status := WL_OFFERED, wl_offeredAt := Some now,
                    wl_offerExpiresAt := Some (now + WAITLIST_OFFER_MINUTES * minute_ms)\<rparr>)) (\<lambda>count.
     if count = 0 then ret 0
     else bindt (queueEmail (offer_email entry)) (\<lambda>_. ret 1))"

definition offer_place :: "time \<Rightarrow> waitlist_row \<Rightarrow> waitlistSweep \<Rightarrow> (db, waitlistSweep) job" where
  "offer_place now entry result =
     bindj (readsj (\<lambda>s. length (filter (\<lambda>w. wl_observatoryId w = wl_observatoryId entry
              \<and> wl_slotStartAt w = wl_slotStartAt entry \<and> wl_status w = WL_OFFERED) (waitlistEntry s)))) (\<lambda>offered.
     if 0 < offered then retj result
     else bindj (readsj (\<lambda>s. bookingsHolding s (slot_of entry) now)) (\<lambda>holders.
     if holders \<noteq> [] then retj result
     else bindj (readsj (\<lambda>s. offersAround s (slot_of entry) now (Some (wl_userId entry)))) (\<lambda>others.
     if others \<noteq> [] then retj result
     else bindj (catchj (transaction (make_offer now entry))
                   (\<lambda>e. if e = SqlError ''23505'' then retj 0 else throwj e)) (\<lambda>n.
          retj (result\<lparr>sw_offered := sw_offered result + n\<rparr>)))))"

fun sweep_active :: "time \<Rightarrow> waitlist_row list \<Rightarrow> waitlistSweep \<Rightarrow> (db, waitlistSweep) job" where
  "sweep_active now [] result = retj result"
| "sweep_active now (entry # rest) result =
     bindj (settle_place now entry result) (\<lambda>result'. sweep_active now rest result')"

definition slot_key :: "waitlist_row \<Rightarrow> string" where
  "slot_key entry = wl_observatoryId entry @ '':'' @ toISOString (wl_slotStartAt entry)"

fun sweep_waiting :: "time \<Rightarrow> string list \<Rightarrow> waitlist_row list \<Rightarrow> waitlistSweep \<Rightarrow> (db, waitlistSweep) job" where
  "sweep_waiting now seen [] result = retj result"
| "sweep_waiting now seen (entry # rest) result =
     (if slot_key entry \<in> set seen then sweep_waiting now seen rest result
      else bindj (offer_place now entry result) (\<lambda>result'.
           sweep_waiting now (slot_key entry # seen) rest result'))"

definition sweepWaitlist :: "time \<Rightarrow> (db, waitlistSweep) job" where
  "sweepWaitlist now =
     bindj (transaction (update_places
              (\<lambda>w. ACTIVE_PLACE (wl_status w) \<and> wl_slotStartAt w \<le> now)
              (\<lambda>w. w\<lparr>wl_status := WL_ENDED, wl_endedAt := Some now\<rparr>))) (\<lambda>ended.
     bindj (readsj (\<lambda>s. filter (\<lambda>w. ACTIVE_PLACE (wl_status w)) (waitlistEntry s))) (\<lambda>active.
     bindj (sweep_active now active
              \<lparr>sw_ended = ended, sw_claimed = 0, sw_lapsed = 0, sw_offered = 0\<rparr>) (\<lambda>result.
     bindj (readsj (\<lambda>s. filter (\<lambda>w. wl_status w = WL_WAITING \<and> now < wl_slotStartAt w) (waitlistEntry s))) (\<lambda>waiting.
     sweep_waiting now [] waiting result))))"

section \<open>Conflicts\<close>

abbreviation slots_conflict :: "slot_ref \<Rightarrow> slot_ref \<Rightarrow> bool" where
  "slots_conflict a b \<equiv> sr_observatoryId a = sr_observatoryId b \<and>
     overlaps (span (sr_slotStartAt a) (sr_durationMinutes a)) (span (sr_slotStartAt b) (sr_durationMinutes b))"

interpretation waiting: slot_conflict sr_observatoryId sr_slotStartAt sr_durationMinutes slots_conflict
  by unfold_locales (auto simp: span_def overlaps_def const_simps)

definition booking_slot :: "booking_row \<Rightarrow> slot_ref" where
  "booking_slot b = \<lparr>sr_observatoryId = bk_observatoryId b, sr_slotStartAt = bk_slotStartAt b,
     sr_durationMinutes = bk_durationMinutes b\<rparr>"

lemma booking_slot_simps [simp]:
  "sr_observatoryId (booking_slot b) = bk_observatoryId b" "sr_slotStartAt (booking_slot b) = bk_slotStartAt b"
  "sr_durationMinutes (booking_slot b) = bk_durationMinutes b"
  by (simp_all add: booking_slot_def)

text \<open>The window of a day either side never hides a session of at most a day less the turnaround.\<close>

lemma look_window:
  assumes "overlaps (span t d) (span t' d')" and "0 < d" and "0 < d'" and "d' \<le> 1430"
  shows "t - LOOK_MS < t' \<and> t' < snd (span t d) + LOOK_MS"
  using assms by (auto simp: overlaps_def span_def const_simps)

section \<open>Preservation of the indexes\<close>

definition wait_inv :: "db \<Rightarrow> bool" where
  "wait_inv s \<longleftrightarrow> distinct (map wl_id (waitlistEntry s))
     \<and> one_offer_per_slot (waitlistEntry s) \<and> claimed_once (waitlistEntry s)"

lemma update_places_eq_Inr:
  "update_places P f s = Inr (n, s') \<longleftrightarrow>
     n = length (filter P (waitlistEntry s)) \<and> s' = s\<lparr>waitlistEntry := updateMany P f (waitlistEntry s)\<rparr>
     \<and> one_offer_per_slot (waitlistEntry s') \<and> claimed_once (waitlistEntry s')"
  by (auto simp: update_places_def tx_simps)

lemma keeps_update_places:
  assumes "\<And>w. wl_id (f w) = wl_id w"
  shows "keeps wait_inv (update_places P f)"
  by (rule keepsI) (use assms in \<open>auto simp: wait_inv_def update_places_eq_Inr map_updateMany_inv\<close>)

lemma keeps_make_offer: "keeps wait_inv (make_offer now entry)"
  unfolding make_offer_def
  by (intro keeps_intros keeps_update_places keeps_outbox) (auto simp: wait_inv_def)

lemma keepsj_settle_place: "keepsj wait_inv (settle_place now entry result)"
  unfolding settle_place_def
  by (intro keepsj_intros keepsj_transaction keeps_update_places) simp_all

lemma keepsj_offer_place: "keepsj wait_inv (offer_place now entry result)"
  unfolding offer_place_def
  by (intro keepsj_intros keepsj_transaction keeps_make_offer)

lemma keepsj_sweep_active: "keepsj wait_inv (sweep_active now entries result)"
  by (induction entries arbitrary: result) (auto intro!: keepsj_intros keepsj_settle_place)

lemma keepsj_sweep_waiting: "keepsj wait_inv (sweep_waiting now seen entries result)"
  by (induction entries arbitrary: seen result) (auto intro!: keepsj_intros keepsj_offer_place)

section \<open>What a sweep leaves\<close>

text \<open>A place the sweep must not leave: an active one whose slot started, an offer run out.\<close>

definition overdue :: "time \<Rightarrow> waitlist_row \<Rightarrow> bool" where
  "overdue now w \<longleftrightarrow> ACTIVE_PLACE (wl_status w) \<and> wl_slotStartAt w \<le> now
     \<or> wl_status w = WL_OFFERED \<and> (case wl_offerExpiresAt w of None \<Rightarrow> False | Some e \<Rightarrow> e \<le> now)"

abbreviation started :: "time \<Rightarrow> waitlist_row \<Rightarrow> bool" where
  "started now w \<equiv> ACTIVE_PLACE (wl_status w) \<and> wl_slotStartAt w \<le> now"

lemma settle_place_effect:
  assumes "settle_place now e r s = (Inr r', s')" and "distinct (map wl_id (waitlistEntry s))"
    and "e \<in> set (waitlistEntry s)" and "\<not> started now e"
  shows "(\<forall>w \<in> set (waitlistEntry s'). overdue now w \<longrightarrow> w \<in> set (waitlistEntry s) \<and> wl_id w \<noteq> wl_id e)
    \<and> {w \<in> set (waitlistEntry s'). wl_id w \<noteq> wl_id e} = {w \<in> set (waitlistEntry s). wl_id w \<noteq> wl_id e}
    \<and> map wl_id (waitlistEntry s') = map wl_id (waitlistEntry s)"
proof -
  have same: "w = e" if "w \<in> set (waitlistEntry s)" "wl_id w = wl_id e" for w
    using distinct_key_eq [OF assms(2) that(1) assms(3) that(2)] .
  show ?thesis
  proof (cases "find (\<lambda>h. snd h = wl_userId e) (bookingsHolding s (slot_of e) now)")
    case (Some mine)
    then have "waitlistEntry s' = updateMany (\<lambda>w. wl_id w = wl_id e \<and> wl_status w = wl_status e)
        (\<lambda>w. w\<lparr>wl_status := WL_CLAIMED, wl_endedAt := Some now, wl_claimedBookingId := Some (fst mine)\<rparr>)
        (waitlistEntry s)"
      using assms(1) by (auto simp: settle_place_def bindj_eq_Inr transaction_eq_Inr update_places_eq_Inr)
    then show ?thesis
      using same by (auto simp: set_updateMany map_updateMany_inv overdue_def ACTIVE_PLACE_def)
  next
    case None
    show ?thesis
    proof (cases "wl_status e = WL_OFFERED \<and> (case wl_offerExpiresAt e of None \<Rightarrow> False | Some e \<Rightarrow> e \<le> now)")
      case True
      then have "waitlistEntry s' = updateMany (\<lambda>w. wl_id w = wl_id e \<and> wl_status w = WL_OFFERED)
          (\<lambda>w. w\<lparr>wl_status := WL_LAPSED, wl_endedAt := Some now\<rparr>) (waitlistEntry s)"
        using assms(1) None by (auto simp: settle_place_def bindj_eq_Inr transaction_eq_Inr update_places_eq_Inr)
      then show ?thesis
        using same True by (auto simp: set_updateMany map_updateMany_inv overdue_def ACTIVE_PLACE_def)
    next
      case False
      then have "s' = s"
        using assms(1) None by (auto simp: settle_place_def split: if_splits)
      then show ?thesis using same False assms(4) by (auto simp: overdue_def)
    qed
  qed
qed

lemma sweep_active_effect:
  assumes "sweep_active now es r s = (Inr r', s')" and "distinct (map wl_id (waitlistEntry s))"
    and "set es \<subseteq> set (waitlistEntry s)" and "distinct (map wl_id es)"
    and "\<forall>e \<in> set es. \<not> started now e"
  shows "\<forall>w \<in> set (waitlistEntry s'). overdue now w \<longrightarrow> w \<in> set (waitlistEntry s) \<and> wl_id w \<notin> wl_id ` set es"
  using assms
proof (induction es arbitrary: r s)
  case Nil
  then show ?case by simp
next
  case (Cons e es)
  from Cons.prems(1) obtain r1 s1 where st: "settle_place now e r s = (Inr r1, s1)"
    and rest: "sweep_active now es r1 s1 = (Inr r', s')"
    by (auto simp: bindj_eq_Inr)
  have eff: "\<forall>w \<in> set (waitlistEntry s1). overdue now w \<longrightarrow> w \<in> set (waitlistEntry s) \<and> wl_id w \<noteq> wl_id e"
    "{w \<in> set (waitlistEntry s1). wl_id w \<noteq> wl_id e} = {w \<in> set (waitlistEntry s). wl_id w \<noteq> wl_id e}"
    "map wl_id (waitlistEntry s1) = map wl_id (waitlistEntry s)"
    using settle_place_effect [OF st Cons.prems(2)] Cons.prems(3,5) by simp_all
  have "set es \<subseteq> set (waitlistEntry s1)"
  proof
    fix x
    assume "x \<in> set es"
    then have "x \<in> {w \<in> set (waitlistEntry s). wl_id w \<noteq> wl_id e}"
      using Cons.prems(3,4) by (auto simp: rev_image_eqI)
    then show "x \<in> set (waitlistEntry s1)" unfolding eff(2) [symmetric] by simp
  qed
  then have "\<forall>w \<in> set (waitlistEntry s'). overdue now w \<longrightarrow> w \<in> set (waitlistEntry s1) \<and> wl_id w \<notin> wl_id ` set es"
    using Cons.IH [OF rest] Cons.prems eff(3) by simp
  with eff(1) show ?case by auto
qed

lemma make_offer_places:
  "make_offer now e s = Inr (n, s') \<Longrightarrow>
   waitlistEntry s' = updateMany (\<lambda>w. wl_id w = wl_id e \<and> wl_status w = WL_WAITING)
      (\<lambda>w. w\<lparr>wl_status := WL_OFFERED, wl_offeredAt := Some now,
            wl_offerExpiresAt := Some (now + WAITLIST_OFFER_MINUTES * minute_ms)\<rparr>) (waitlistEntry s)
   \<and> booking s' = booking s"
  by (auto simp: make_offer_def bindt_eq_Inr update_places_eq_Inr queueEmail_ok offer_email_def tx_simps
      split: if_splits)

lemma keeps_make_offer_due: "keeps (\<lambda>s. \<forall>w \<in> set (waitlistEntry s). \<not> overdue now w) (make_offer now e)"
proof (rule keepsI)
  fix s n s'
  assume due: "\<forall>w \<in> set (waitlistEntry s). \<not> overdue now w" and m: "make_offer now e s = Inr (n, s')"
  show "\<forall>w \<in> set (waitlistEntry s'). \<not> overdue now w"
    unfolding make_offer_places [OF m, THEN conjunct1] ball_updateMany
    using due by (auto simp: overdue_def ACTIVE_PLACE_def const_simps)
qed

lemma keepsj_offer_due: "keepsj (\<lambda>s. \<forall>w \<in> set (waitlistEntry s). \<not> overdue now w) (offer_place now e r)"
  unfolding offer_place_def by (intro keepsj_intros keepsj_transaction keeps_make_offer_due)

lemma keepsj_sweep_due:
  "keepsj (\<lambda>s. \<forall>w \<in> set (waitlistEntry s). \<not> overdue now w) (sweep_waiting now seen es r)"
  by (induction es arbitrary: seen r) (auto intro!: keepsj_intros keepsj_offer_due)

text \<open>
  What holds throughout a sweep that started with bookings \<open>B\<close> and places \<open>R\<close>: nobody's
  slot changes, and an offer that was not there before is for a slot nobody holds.
\<close>

definition fresh_offers :: "time \<Rightarrow> db \<Rightarrow> db \<Rightarrow> bool" where
  "fresh_offers now s0 s \<longleftrightarrow> booking s = booking s0
     \<and> map (\<lambda>w. (wl_id w, slot_of w)) (waitlistEntry s) = map (\<lambda>w. (wl_id w, slot_of w)) (waitlistEntry s0)
     \<and> (\<forall>w \<in> set (waitlistEntry s). wl_status w = WL_OFFERED \<longrightarrow> w \<in> set (waitlistEntry s0)
          \<or> bookingsHolding s0 (slot_of w) now = []
            \<and> wl_offerExpiresAt w = Some (now + WAITLIST_OFFER_MINUTES * minute_ms))"

lemma bookingsHolding_cong: "booking s = booking s' \<Longrightarrow> bookingsHolding s = bookingsHolding s'"
  by (simp add: fun_eq_iff bookingsHolding_def)

lemma fresh_offers_close:
  assumes "fresh_offers now s0 s" and "\<And>w. slot_of (f w) = slot_of w" and "\<And>w. wl_id (f w) = wl_id w"
    and "\<And>w. wl_status (f w) \<noteq> WL_OFFERED"
  shows "fresh_offers now s0 (s\<lparr>waitlistEntry := updateMany P f (waitlistEntry s)\<rparr>)"
  using assms by (simp add: fresh_offers_def map_updateMany_inv ball_updateMany)

lemma keeps_fresh_close:
  assumes "\<And>w. slot_of (f w) = slot_of w" and "\<And>w. wl_id (f w) = wl_id w"
    and "\<And>w. wl_status (f w) \<noteq> WL_OFFERED"
  shows "keeps (fresh_offers now s0) (update_places P f)"
  by (rule keepsI) (use fresh_offers_close [OF _ assms] in \<open>auto simp: update_places_eq_Inr\<close>)

lemma keepsj_fresh_settle: "keepsj (fresh_offers now s0) (settle_place now e r)"
  unfolding settle_place_def
  by (intro keepsj_intros keepsj_transaction keeps_fresh_close) (simp_all add: slot_of_def)

lemma keepsj_fresh_active: "keepsj (fresh_offers now s0) (sweep_active now es r)"
  by (induction es arbitrary: r) (auto intro!: keepsj_intros keepsj_fresh_settle)

lemma offer_place_effect:
  "snd (offer_place now e r s) = s \<or>
     bookingsHolding s (slot_of e) now = [] \<and> (\<exists>n. make_offer now e s = Inr (n, snd (offer_place now e r s)))"
  by (cases "make_offer now e s")
    (auto simp: offer_place_def bindj_def catchj_def transaction_def readsj_def)

lemma map_eq_mem: "map h t' = map h t \<Longrightarrow> w \<in> set t' \<Longrightarrow> h w \<in> h ` set t"
  by (metis image_eqI list.set_map)

lemma map_pair_fst:
  assumes "map (\<lambda>w. (k w, g w)) t' = map (\<lambda>w. (k w, g w)) t"
  shows "map k t' = map k t"
proof -
  have "map k t = map fst (map (\<lambda>w. (k w, g w)) t)" for t by simp
  then show ?thesis using assms by metis
qed

lemma pairs_key:
  assumes "distinct (map k t)" and "map (\<lambda>w. (k w, g w)) t' = map (\<lambda>w. (k w, g w)) t"
    and "w \<in> set t'" and "e \<in> set t" and "k w = k e"
  shows "g w = g e"
proof -
  have "(k w, g w) \<in> (\<lambda>w. (k w, g w)) ` set t"
    using map_eq_mem [OF assms(2,3)] .
  then obtain x where "x \<in> set t" "k x = k w" "g x = g w" by auto
  with distinct_key_eq [OF assms(1) this(1) assms(4)] assms(5) show ?thesis by simp
qed

lemma fresh_offer:
  assumes fresh: "fresh_offers now s0 s" and d: "distinct (map wl_id (waitlistEntry s0))"
    and e: "\<exists>e0 \<in> set (waitlistEntry s0). wl_id e0 = wl_id e \<and> slot_of e0 = slot_of e"
  shows "fresh_offers now s0 (snd (offer_place now e r s))"
  using offer_place_effect [of now e r s]
proof
  assume "snd (offer_place now e r s) = s"
  with fresh show ?thesis by simp
next
  assume "bookingsHolding s (slot_of e) now = [] \<and> (\<exists>n. make_offer now e s = Inr (n, snd (offer_place now e r s)))"
  then obtain n where free: "bookingsHolding s (slot_of e) now = []"
    and m: "make_offer now e s = Inr (n, snd (offer_place now e r s))" by blast
  have holders: "bookingsHolding s0 (slot_of e) now = []"
    using free fresh bookingsHolding_cong [of s s0] by (simp add: fresh_offers_def)
  obtain e0 where e0: "e0 \<in> set (waitlistEntry s0)" "wl_id e0 = wl_id e" "slot_of e0 = slot_of e"
    using e by blast
  have "slot_of w = slot_of e" if "w \<in> set (waitlistEntry s)" "wl_id w = wl_id e" for w
    using pairs_key [OF d _ that(1) e0(1), of slot_of] fresh that(2) e0(2,3) by (simp add: fresh_offers_def)
  moreover have "slot_of (w\<lparr>wl_status := a, wl_offeredAt := b, wl_offerExpiresAt := c\<rparr>) = slot_of w" for w a b c
    by (simp add: slot_of_def)
  ultimately show ?thesis
    using fresh holders make_offer_places [OF m]
    by (auto simp: fresh_offers_def map_updateMany_inv ball_updateMany)
qed

lemma fresh_sweep_waiting:
  assumes "fresh_offers now s0 s" and "distinct (map wl_id (waitlistEntry s0))"
    and "\<forall>e \<in> set es. \<exists>e0 \<in> set (waitlistEntry s0). wl_id e0 = wl_id e \<and> slot_of e0 = slot_of e"
  shows "fresh_offers now s0 (snd (sweep_waiting now seen es r s))"
  using assms
proof (induction es arbitrary: seen r s)
  case (Cons e es)
  show ?case
  proof (cases "slot_key e \<in> set seen")
    case False
    have "fresh_offers now s0 (snd (offer_place now e r s))"
      using fresh_offer Cons.prems by simp
    with False Cons show ?thesis
      by (cases "offer_place now e r s") (auto simp: bindj_def split: sum.splits)
  qed (use Cons in simp)
qed simp

lemma fresh_sweep:
  assumes "distinct (map wl_id (waitlistEntry s))"
  shows "fresh_offers now s (snd (sweepWaitlist now s))"
proof -
  let ?ending = "update_places (\<lambda>w. ACTIVE_PLACE (wl_status w) \<and> wl_slotStartAt w \<le> now)
      (\<lambda>w. w\<lparr>wl_status := WL_ENDED, wl_endedAt := Some now\<rparr>)"
  have start: "fresh_offers now s s" by (simp add: fresh_offers_def)
  have "keepsj (fresh_offers now s) (transaction ?ending)"
    by (intro keepsj_transaction keeps_fresh_close) (simp_all add: slot_of_def)
  then have f1: "fresh_offers now s (snd (transaction ?ending s))" using start by (rule keepsjD)
  show ?thesis
  proof (cases "transaction ?ending s")
    case (Pair o1 s1)
    show ?thesis
    proof (cases o1)
      case (Inl x)
      with Pair f1 show ?thesis by (simp add: sweepWaitlist_def bindj_def)
    next
      case (Inr ended)
      let ?r0 = "\<lparr>sw_ended = ended, sw_claimed = 0, sw_lapsed = 0, sw_offered = 0\<rparr>"
      let ?act = "sweep_active now (filter (\<lambda>w. ACTIVE_PLACE (wl_status w)) (waitlistEntry s1)) ?r0 s1"
      have f2: "fresh_offers now s (snd ?act)"
        using keepsjD [OF keepsj_fresh_active] f1 Pair by simp
      have known: "\<exists>e0 \<in> set (waitlistEntry s). wl_id e0 = wl_id e \<and> slot_of e0 = slot_of e"
        if "e \<in> set (waitlistEntry (snd ?act))" for e
      proof -
        have "(wl_id e, slot_of e) \<in> (\<lambda>w. (wl_id w, slot_of w)) ` set (waitlistEntry s)"
          using f2 map_eq_mem [OF _ that, of "\<lambda>w. (wl_id w, slot_of w)" "waitlistEntry s"]
          by (simp add: fresh_offers_def)
        then show ?thesis by (auto simp: image_iff)
      qed
      have "snd (sweepWaitlist now s) =
          (case ?act of (Inl x, s2) \<Rightarrow> s2
           | (Inr r, s2) \<Rightarrow> snd (sweep_waiting now []
               (filter (\<lambda>w. wl_status w = WL_WAITING \<and> now < wl_slotStartAt w) (waitlistEntry s2)) r s2))"
        using Pair Inr by (simp add: sweepWaitlist_def bindj_def split: prod.split sum.split)
      with f2 known show ?thesis
        by (cases ?act) (auto split: sum.splits intro!: fresh_sweep_waiting [OF _ assms])
    qed
  qed
qed

section \<open>Properties\<close>

text \<open>
  A slot is counted as held exactly by the bookings that are live and share an instant of
  telescope time with it on the same observatory: the one-day look-around of
  \<open>bookingsHolding\<close> never hides a session of bookable length.
\<close>

theorem bookingsHolding_complete:
  assumes "0 < sr_durationMinutes slot"
    and "\<forall>b \<in> set (booking s). 0 < bk_durationMinutes b \<and> bk_durationMinutes b \<le> 240"
  shows "set (bookingsHolding s slot now) =
    {(bk_id b, bk_userId b) | b. b \<in> set (booking s) \<and> holding now b
       \<and> bk_observatoryId b = sr_observatoryId slot
       \<and> (\<exists>t. sr_slotStartAt slot \<le> t \<and> t < sr_slotStartAt slot + (sr_durationMinutes slot + 10) * 60000
            \<and> bk_slotStartAt b \<le> t \<and> t < bk_slotStartAt b + (bk_durationMinutes b + 10) * 60000)}"
proof -
  let ?shares = "\<lambda>b. \<exists>t. sr_slotStartAt slot \<le> t \<and> t < sr_slotStartAt slot + (sr_durationMinutes slot + 10) * 60000
      \<and> bk_slotStartAt b \<le> t \<and> t < bk_slotStartAt b + (bk_durationMinutes b + 10) * 60000"
  have share: "slots_conflict slot (booking_slot b) \<longleftrightarrow> bk_observatoryId b = sr_observatoryId slot \<and> ?shares b"
    if "b \<in> set (booking s)" for b
    using waiting.conflict_instant [of slot "booking_slot b"] assms that by (auto simp: const_simps)
  have "bookingsHolding s slot now =
      map (\<lambda>b. (bk_id b, bk_userId b)) (filter (\<lambda>b. holding now b \<and> slots_conflict slot (booking_slot b)) (booking s))"
    unfolding bookingsHolding_def Let_def filter_filter
  proof (intro arg_cong [of _ _ "map _"] filter_cong refl)
    fix b
    assume "b \<in> set (booking s)"
    with assms look_window [of "sr_slotStartAt slot" "sr_durationMinutes slot" "bk_slotStartAt b" "bk_durationMinutes b"]
    show "((bk_observatoryId b = sr_observatoryId slot
          \<and> fst (span (sr_slotStartAt slot) (sr_durationMinutes slot)) - LOOK_MS < bk_slotStartAt b
          \<and> bk_slotStartAt b < snd (span (sr_slotStartAt slot) (sr_durationMinutes slot)) + LOOK_MS
          \<and> holding now b)
        \<and> overlaps (span (sr_slotStartAt slot) (sr_durationMinutes slot)) (span (bk_slotStartAt b) (bk_durationMinutes b)))
      = (holding now b \<and> slots_conflict slot (booking_slot b))"
      by (auto simp: span_def)
  qed
  then have "set (bookingsHolding s slot now) =
      {(bk_id b, bk_userId b) | b. b \<in> set (booking s) \<and> holding now b \<and> slots_conflict slot (booking_slot b)}"
    by (simp add: image_Collect)
  also have "\<dots> = {(bk_id b, bk_userId b) | b. b \<in> set (booking s) \<and> holding now b
      \<and> bk_observatoryId b = sr_observatoryId slot \<and> ?shares b}"
    by (rule Collect_cong) (metis share)
  finally show ?thesis .
qed

text \<open>
  C37: Whatever the waitlist sweep does and even when it throws, no slot has two open offers, no
  booking is claimed by two places and no place is lost; a sweep that returns leaves no active
  place for a slot that has started and no offer that has run out, and every offer it made is
  for a slot nobody holds and runs out fifteen minutes later.
\<close>

theorem sweepWaitlist_correct:
  assumes "wait_inv s" and "sweepWaitlist now s = (r, s')"
  shows "wait_inv s'
    \<and> map wl_id (waitlistEntry s') = map wl_id (waitlistEntry s)
    \<and> (\<forall>w \<in> set (waitlistEntry s'). wl_status w = WL_OFFERED \<and> w \<notin> set (waitlistEntry s) \<longrightarrow>
          bookingsHolding s (slot_of w) now = [] \<and> wl_offerExpiresAt w = Some (now + 15 * 60000))
    \<and> ((\<exists>v. r = Inr v) \<longrightarrow> (\<forall>w \<in> set (waitlistEntry s'). \<not> overdue now w))"
proof -
  have fresh: "fresh_offers now s s'"
    using fresh_sweep [of s now] assms by (simp add: wait_inv_def)
  have ids: "map wl_id (waitlistEntry s') = map wl_id (waitlistEntry s)"
    using fresh map_pair_fst by (auto simp: fresh_offers_def)
  have "keepsj wait_inv (sweepWaitlist now)"
    unfolding sweepWaitlist_def
    by (intro keepsj_intros keepsj_transaction keeps_update_places keepsj_sweep_active keepsj_sweep_waiting) simp
  then have inv: "wait_inv s'" using keepsjD [of wait_inv "sweepWaitlist now" s] assms by simp
  have "\<forall>w \<in> set (waitlistEntry s'). \<not> overdue now w" if "r = Inr v" for v
  proof -
    from assms(2) that obtain s1 s2 n r2 where
      s1: "s1 = s\<lparr>waitlistEntry := updateMany (\<lambda>w. ACTIVE_PLACE (wl_status w) \<and> wl_slotStartAt w \<le> now)
          (\<lambda>w. w\<lparr>wl_status := WL_ENDED, wl_endedAt := Some now\<rparr>) (waitlistEntry s)\<rparr>"
      and s2: "sweep_active now (filter (\<lambda>w. ACTIVE_PLACE (wl_status w)) (waitlistEntry s1))
          \<lparr>sw_ended = n, sw_claimed = 0, sw_lapsed = 0, sw_offered = 0\<rparr> s1 = (Inr r2, s2)"
      and s3: "sweep_waiting now [] (filter (\<lambda>w. wl_status w = WL_WAITING \<and> now < wl_slotStartAt w)
          (waitlistEntry s2)) r2 s2 = (Inr v, s')"
      by (auto simp: sweepWaitlist_def bindj_eq_Inr transaction_eq_Inr update_places_eq_Inr)
    have d1: "distinct (map wl_id (waitlistEntry s1))"
      using assms(1) by (simp add: wait_inv_def s1 map_updateMany_inv)
    have ns: "\<forall>w \<in> set (waitlistEntry s1). \<not> started now w"
      by (simp add: s1 ball_updateMany ACTIVE_PLACE_def)
    have "distinct (map wl_id (filter (\<lambda>w. ACTIVE_PLACE (wl_status w)) (waitlistEntry s1)))"
      using d1 by (rule distinct_map_filter)
    with ns have "\<forall>w \<in> set (waitlistEntry s2). overdue now w \<longrightarrow> w \<in> set (waitlistEntry s1)
        \<and> wl_id w \<notin> wl_id ` set (filter (\<lambda>w. ACTIVE_PLACE (wl_status w)) (waitlistEntry s1))"
      by (intro sweep_active_effect [OF s2 d1]) auto
    then have "\<forall>w \<in> set (waitlistEntry s2). \<not> overdue now w"
      by (auto simp: overdue_def ACTIVE_PLACE_def)
    then show ?thesis using keepsjD [OF keepsj_sweep_due, of s2 now] s3 by (metis snd_conv)
  qed
  with fresh ids inv show ?thesis by (auto simp: fresh_offers_def const_simps)
qed

text \<open>Two people waiting: one for a free slot in an hour, one whose offer has run out.\<close>

definition waiting_place :: "ident \<Rightarrow> ident \<Rightarrow> time \<Rightarrow> waitlistStatus \<Rightarrow> time option \<Rightarrow> waitlist_row" where
  "waiting_place i u t st expires = \<lparr>wl_id = i, wl_userId = u, wl_observatoryId = ''o1'',
     wl_slotStartAt = t, wl_durationMinutes = 30, wl_status = st, wl_offeredAt = None,
     wl_offerExpiresAt = expires, wl_endedAt = None, wl_claimedBookingId = None, wl_createdAt = 0\<rparr>"

theorem sweepWaitlist_correct_witness:
  "let s = empty_db\<lparr>waitlistEntry := [waiting_place ''w1'' ''u1'' 3600000 WL_OFFERED (Some 5)]\<rparr>;
       s' = snd (sweepWaitlist 10 s)
   in wait_inv s \<and> (\<forall>w \<in> set (waitlistEntry s'). \<not> overdue 10 w) \<and> map wl_id (waitlistEntry s') = [''w1'']"
proof -
  let ?s = "empty_db\<lparr>waitlistEntry := [waiting_place ''w1'' ''u1'' 3600000 WL_OFFERED (Some 5)]\<rparr>"
  have inv: "wait_inv ?s"
    by (simp add: wait_inv_def one_offer_per_slot_def claimed_once_def waiting_place_def)
  have "\<exists>v. fst (sweepWaitlist 10 ?s) = Inr v"
    by (simp add: sweepWaitlist_def update_places_def eval_tx transaction_def bindj_def readsj_def retj_def
        ACTIVE_PLACE_def waiting_place_def one_offer_per_slot_def claimed_once_def settle_place_def
        bookingsHolding_def empty_db_def)
  with sweepWaitlist_correct [OF inv, of 10 "fst (sweepWaitlist 10 ?s)" "snd (sweepWaitlist 10 ?s)"] inv
  show ?thesis by (simp add: Let_def waiting_place_def)
qed

theorem bookingsHolding_complete_witness:
  "bookingsHolding empty_db \<lparr>sr_observatoryId = ''o1'', sr_slotStartAt = 0, sr_durationMinutes = 30\<rparr> 0 = []"
  using bookingsHolding_complete [of "\<lparr>sr_observatoryId = ''o1'', sr_slotStartAt = 0, sr_durationMinutes = 30\<rparr>"
      empty_db 0]
  by (simp add: empty_db_def)

section \<open>Two places and one booking\<close>

text \<open>
  A person may wait for several overlapping starts. Once they hold one booking that covers two
  of their places, the sweep claims the first and then tries to claim the second for the same
  booking, which the unique index on \<open>claimedBookingId\<close> refuses.
\<close>

definition own_booking :: "db \<Rightarrow> time \<Rightarrow> ident \<Rightarrow> slot_ref \<Rightarrow> ident option" where
  "own_booking s now u slot = map_option fst (find (\<lambda>h. snd h = u) (bookingsHolding s slot now))"

lemma own_booking_cong: "booking s = booking s' \<Longrightarrow> own_booking s = own_booking s'"
  using bookingsHolding_cong [of s s'] by (simp add: own_booking_def fun_eq_iff)

lemma update_places_job:
  "transaction (update_places P f) s =
     (let ws = updateMany P f (waitlistEntry s)
      in if one_offer_per_slot ws \<and> claimed_once ws then (Inr (length (filter P (waitlistEntry s))), s\<lparr>waitlistEntry := ws\<rparr>)
         else (Inl (SqlError ''23505''), s))"
  by (simp add: transaction_def update_places_def tx_simps Let_def)

text \<open>What one place comes to in the second step: nothing, a claim for the holder's booking, or a lapse.\<close>

lemma settle_place_state:
  "snd (settle_place now e r s) = s
   \<or> (\<exists>b. own_booking s now (wl_userId e) (slot_of e) = Some b \<and> snd (settle_place now e r s) =
       s\<lparr>waitlistEntry := updateMany (\<lambda>w. wl_id w = wl_id e \<and> wl_status w = wl_status e)
          (\<lambda>w. w\<lparr>wl_status := WL_CLAIMED, wl_endedAt := Some now, wl_claimedBookingId := Some b\<rparr>) (waitlistEntry s)\<rparr>)
   \<or> own_booking s now (wl_userId e) (slot_of e) = None \<and> snd (settle_place now e r s) =
       s\<lparr>waitlistEntry := updateMany (\<lambda>w. wl_id w = wl_id e \<and> wl_status w = WL_OFFERED)
          (\<lambda>w. w\<lparr>wl_status := WL_LAPSED, wl_endedAt := Some now\<rparr>) (waitlistEntry s)\<rparr>"
proof (cases "find (\<lambda>h. snd h = wl_userId e) (bookingsHolding s (slot_of e) now)")
  case None
  then have own: "own_booking s now (wl_userId e) (slot_of e) = None" by (simp add: own_booking_def)
  show ?thesis unfolding own by (simp add: settle_place_def None bindj_def readsj_def retj_def update_places_job Let_def)
next
  case (Some mine)
  then have own: "own_booking s now (wl_userId e) (slot_of e) = Some (fst mine)" by (simp add: own_booking_def)
  show ?thesis unfolding own by (simp add: settle_place_def Some bindj_def readsj_def retj_def update_places_job Let_def)
qed

lemma settle_place_fails: "settle_place now e r s = (Inl x, s') \<Longrightarrow> x = SqlError ''23505''"
  by (auto simp: settle_place_def bindj_def readsj_def retj_def update_places_job Let_def split: option.splits if_splits)

lemma sweep_active_fails: "sweep_active now es r s = (Inl x, s') \<Longrightarrow> x = SqlError ''23505''"
proof (induction es arbitrary: r s)
  case (Cons e es)
  obtain q s1 where st: "settle_place now e r s = (q, s1)" by fastforce
  with Cons settle_place_fails show ?case by (cases q) (auto simp: bindj_def)
qed (simp add: retj_def)

text \<open>Nothing but the places changes before the offers, and no place becomes an offer.\<close>

definition no_new_offers :: "db \<Rightarrow> db \<Rightarrow> bool" where
  "no_new_offers s0 s \<longleftrightarrow> booking s = booking s0 \<and> emailNotification s = emailNotification s0
     \<and> (\<forall>w \<in> set (waitlistEntry s). wl_status w = WL_OFFERED \<longrightarrow> w \<in> set (waitlistEntry s0))"

text \<open>The place of a person that still waits, or has been claimed for the booking.\<close>

definition waits_for :: "ident \<Rightarrow> ident \<Rightarrow> slot_ref \<Rightarrow> ident \<Rightarrow> db \<Rightarrow> bool" where
  "waits_for i u slot b s \<longleftrightarrow> (\<exists>w \<in> set (waitlistEntry s). wl_id w = i \<and> wl_userId w = u \<and> slot_of w = slot
     \<and> (ACTIVE_PLACE (wl_status w) \<or> wl_claimedBookingId w = Some b))"

lemma slot_of_update [simp]:
  "slot_of (w\<lparr>wl_status := st, wl_endedAt := t, wl_claimedBookingId := c\<rparr>) = slot_of w"
  "slot_of (w\<lparr>wl_status := st, wl_endedAt := t\<rparr>) = slot_of w"
  by (simp_all add: slot_of_def)

lemma no_new_offers_active: "keepsj (no_new_offers s0) (sweep_active now es r)"
proof (induction es arbitrary: r)
  case (Cons e es)
  have "keepsj (no_new_offers s0) (settle_place now e r)"
    unfolding keepsj_def
  proof (intro allI impI)
    fix s
    assume "no_new_offers s0 s"
    then show "no_new_offers s0 (snd (settle_place now e r s))"
      using settle_place_state [of now e r s] by (elim disjE exE conjE) (simp_all add: no_new_offers_def ball_updateMany)
  qed
  with Cons show ?case by (simp add: keepsj_intros)
qed (simp add: keepsj_intros)

lemma waits_for_active:
  assumes "\<forall>e \<in> set es. wl_id e = i \<longrightarrow> slot_of e = slot \<and> wl_userId e = u" and "own_booking s0 now u slot = Some b"
  shows "keepsj (\<lambda>s. booking s = booking s0 \<and> waits_for i u slot b s) (sweep_active now es r)"
  using assms(1)
proof (induction es arbitrary: r)
  case (Cons e es)
  have "keepsj (\<lambda>s. booking s = booking s0 \<and> waits_for i u slot b s) (settle_place now e r)"
    unfolding keepsj_def
  proof (intro allI impI)
    fix s
    assume s: "booking s = booking s0 \<and> waits_for i u slot b s"
    then obtain w where w: "w \<in> set (waitlistEntry s)" "wl_id w = i" "wl_userId w = u" "slot_of w = slot"
      "ACTIVE_PLACE (wl_status w) \<or> wl_claimedBookingId w = Some b" by (auto simp: waits_for_def)
    have own: "own_booking s now (wl_userId e) (slot_of e) = Some b" if "wl_id e = i"
      using that Cons.prems assms(2) own_booking_cong [of s s0] s by simp
    show "booking (snd (settle_place now e r s)) = booking s0 \<and> waits_for i u slot b (snd (settle_place now e r s))"
      using settle_place_state [of now e r s]
    proof (elim disjE exE conjE)
      fix b'
      assume b': "own_booking s now (wl_userId e) (slot_of e) = Some b'"
        and st: "snd (settle_place now e r s) = s\<lparr>waitlistEntry := updateMany (\<lambda>w. wl_id w = wl_id e \<and> wl_status w = wl_status e)
          (\<lambda>w. w\<lparr>wl_status := WL_CLAIMED, wl_endedAt := Some now, wl_claimedBookingId := Some b'\<rparr>) (waitlistEntry s)\<rparr>"
      have "b' = b" if "wl_id e = i" using own [OF that] b' by simp
      with w s show ?thesis unfolding st waits_for_def by (auto simp: bex_updateMany intro!: bexI [OF _ w(1)])
    next
      assume none: "own_booking s now (wl_userId e) (slot_of e) = None"
        and st: "snd (settle_place now e r s) = s\<lparr>waitlistEntry := updateMany (\<lambda>w. wl_id w = wl_id e \<and> wl_status w = WL_OFFERED)
          (\<lambda>w. w\<lparr>wl_status := WL_LAPSED, wl_endedAt := Some now\<rparr>) (waitlistEntry s)\<rparr>"
      have "wl_id e \<noteq> i" using none own by auto
      with w s show ?thesis unfolding st waits_for_def by (auto simp: bex_updateMany intro!: bexI [OF _ w(1)])
    qed (use s in simp)
  qed
  with Cons show ?case by (simp add: keepsj_intros)
qed (simp add: keepsj_intros)

text \<open>A second step that ends has claimed every place whose person holds a booking.\<close>

lemma sweep_active_claims:
  assumes "sweep_active now es r s = (Inr r', s')" and "distinct (map wl_id (waitlistEntry s))"
    and "set es \<subseteq> set (waitlistEntry s)" and "distinct (map wl_id es)" and "\<forall>e \<in> set es. \<not> started now e"
  shows "{w \<in> set (waitlistEntry s'). wl_id w \<notin> wl_id ` set es} = {w \<in> set (waitlistEntry s). wl_id w \<notin> wl_id ` set es}
    \<and> (\<forall>e \<in> set es. \<forall>b. own_booking s now (wl_userId e) (slot_of e) = Some b \<longrightarrow>
        (\<exists>w \<in> set (waitlistEntry s'). wl_id w = wl_id e \<and> wl_claimedBookingId w = Some b))"
  using assms
proof (induction es arbitrary: r s)
  case (Cons e es)
  from Cons.prems(1) obtain r1 s1 where st: "settle_place now e r s = (Inr r1, s1)"
    and rest: "sweep_active now es r1 s1 = (Inr r', s')" by (auto simp: bindj_eq_Inr)
  have eff: "{w \<in> set (waitlistEntry s1). wl_id w \<noteq> wl_id e} = {w \<in> set (waitlistEntry s). wl_id w \<noteq> wl_id e}"
    "map wl_id (waitlistEntry s1) = map wl_id (waitlistEntry s)"
    using settle_place_effect [OF st Cons.prems(2)] Cons.prems(3,5) by simp_all
  have sub: "set es \<subseteq> set (waitlistEntry s1)"
  proof
    fix x
    assume "x \<in> set es"
    then have "x \<in> {w \<in> set (waitlistEntry s). wl_id w \<noteq> wl_id e}" using Cons.prems(3,4) by (auto simp: rev_image_eqI)
    then show "x \<in> set (waitlistEntry s1)" unfolding eff(1) [symmetric] by simp
  qed
  note ih = Cons.IH [OF rest _ sub]
  have i1: "{w \<in> set (waitlistEntry s'). wl_id w \<notin> wl_id ` set es} = {w \<in> set (waitlistEntry s1). wl_id w \<notin> wl_id ` set es}"
    and i2: "\<forall>e \<in> set es. \<forall>b. own_booking s1 now (wl_userId e) (slot_of e) = Some b \<longrightarrow>
        (\<exists>w \<in> set (waitlistEntry s'). wl_id w = wl_id e \<and> wl_claimedBookingId w = Some b)"
    using ih Cons.prems eff(2) by simp_all
  have "booking s1 = booking s" using settle_place_state [of now e r s] st by auto
  from own_booking_cong [OF this] have own: "own_booking s1 = own_booking s" .
  have mine: "\<exists>w \<in> set (waitlistEntry s'). wl_id w = wl_id e \<and> wl_claimedBookingId w = Some b"
    if "own_booking s now (wl_userId e) (slot_of e) = Some b" for b
  proof -
    have "waitlistEntry s1 = updateMany (\<lambda>w. wl_id w = wl_id e \<and> wl_status w = wl_status e)
        (\<lambda>w. w\<lparr>wl_status := WL_CLAIMED, wl_endedAt := Some now, wl_claimedBookingId := Some b\<rparr>) (waitlistEntry s)"
      using st that by (auto simp: settle_place_def own_booking_def bindj_eq_Inr transaction_eq_Inr update_places_eq_Inr)
    then have "e\<lparr>wl_status := WL_CLAIMED, wl_endedAt := Some now, wl_claimedBookingId := Some b\<rparr>
        \<in> {w \<in> set (waitlistEntry s1). wl_id w \<notin> wl_id ` set es}"
      using Cons.prems(3,4) by (auto simp: set_updateMany)
    then show ?thesis unfolding i1 [symmetric] by (auto intro: bexI [rotated])
  qed
  have "{w \<in> set (waitlistEntry s'). wl_id w \<notin> wl_id ` set (e # es)}
      = {w \<in> {w \<in> set (waitlistEntry s'). wl_id w \<notin> wl_id ` set es}. wl_id w \<noteq> wl_id e}" by auto
  also have "\<dots> = {w \<in> {w \<in> set (waitlistEntry s1). wl_id w \<noteq> wl_id e}. wl_id w \<notin> wl_id ` set es}" unfolding i1 by auto
  also have "\<dots> = {w \<in> set (waitlistEntry s). wl_id w \<notin> wl_id ` set (e # es)}" unfolding eff(1) by auto
  finally show ?case using i2 mine unfolding own by simp
qed (simp add: retj_def)

lemma place_claimed:
  assumes "sweep_active now (filter (\<lambda>w. ACTIVE_PLACE (wl_status w)) (waitlistEntry s)) r s = (Inr r', s')"
    and d: "distinct (map wl_id (waitlistEntry s))"
    and "\<forall>e \<in> set (filter (\<lambda>w. ACTIVE_PLACE (wl_status w)) (waitlistEntry s)). \<not> started now e"
    and "waits_for k u slot b s" and "own_booking s now u slot = Some b"
  shows "\<exists>w \<in> set (waitlistEntry s'). wl_id w = k \<and> wl_claimedBookingId w = Some b"
proof -
  define es where "es = filter (\<lambda>w. ACTIVE_PLACE (wl_status w)) (waitlistEntry s)"
  have es: "set es \<subseteq> set (waitlistEntry s)" "distinct (map wl_id es)" using d by (auto simp: es_def distinct_map_filter)
  note claims = sweep_active_claims [OF assms(1) [folded es_def] d es assms(3) [folded es_def]]
  from assms(4) obtain w where w: "w \<in> set (waitlistEntry s)" "wl_id w = k" "wl_userId w = u" "slot_of w = slot"
    "ACTIVE_PLACE (wl_status w) \<or> wl_claimedBookingId w = Some b" by (auto simp: waits_for_def)
  show ?thesis
  proof (cases "w \<in> set es")
    case True
    with claims w assms(5) show ?thesis by blast
  next
    case False
    have "wl_id w \<notin> wl_id ` set es"
    proof
      assume "wl_id w \<in> wl_id ` set es"
      then obtain e where "e \<in> set es" "wl_id w = wl_id e" by blast
      with distinct_key_eq [OF d w(1), of e] es(1) False show False by auto
    qed
    with w(1) have "w \<in> {w \<in> set (waitlistEntry s). wl_id w \<notin> wl_id ` set es}" by simp
    then have "w \<in> set (waitlistEntry s')" unfolding claims [THEN conjunct1, symmetric] by simp
    with False w show ?thesis by (auto simp: es_def)
  qed
qed

lemma claimed_once_same:
  "claimed_once ws \<Longrightarrow> v \<in> set ws \<Longrightarrow> w \<in> set ws \<Longrightarrow> wl_claimedBookingId v = Some b \<Longrightarrow> wl_claimedBookingId w = Some b \<Longrightarrow> v = w"
  unfolding claimed_once_def by (rule distinct_key_eq [of wl_claimedBookingId "filter (\<lambda>w. wl_claimedBookingId w \<noteq> None) ws"]) auto

text \<open>One sweep over two places of one person that one booking covers.\<close>

definition stuck :: "db \<Rightarrow> ident \<Rightarrow> ident \<Rightarrow> slot_ref \<Rightarrow> ident \<Rightarrow> slot_ref \<Rightarrow> ident \<Rightarrow> db \<Rightarrow> bool" where
  "stuck s0 u i slot j slot' b s \<longleftrightarrow> wait_inv s \<and> no_new_offers s0 s \<and> waits_for i u slot b s \<and> waits_for j u slot' b s"

lemma stuck_sweep:
  assumes "stuck s0 u i slot j slot' b s" and "i \<noteq> j" and "now < sr_slotStartAt slot" and "now < sr_slotStartAt slot'"
    and own: "own_booking s0 now u slot = Some b" "own_booking s0 now u slot' = Some b"
    and "sweepWaitlist now s = (r, s')"
  shows "r = Inl (SqlError ''23505'') \<and> stuck s0 u i slot j slot' b s'"
proof -
  let ?P = "\<lambda>w. ACTIVE_PLACE (wl_status w) \<and> wl_slotStartAt w \<le> now"
  let ?f = "\<lambda>w. w\<lparr>wl_status := WL_ENDED, wl_endedAt := Some now\<rparr>"
  let ?ending = "update_places ?P ?f"
  show ?thesis
  proof (cases "fst (transaction ?ending s)")
    case (Inl x)
    then show ?thesis using assms(1,7) by (auto simp: sweepWaitlist_def bindj_def update_places_job Let_def split: if_splits)
  next
    case (Inr n)
    then obtain s1 where e: "transaction ?ending s = (Inr n, s1)" by (metis prod.collapse)
    then have s1: "s1 = s\<lparr>waitlistEntry := updateMany ?P ?f (waitlistEntry s)\<rparr>" by (auto simp: update_places_job Let_def split: if_splits)
    have inv1: "wait_inv s1" using keepsjD [OF keepsj_transaction [OF keeps_update_places [of ?f ?P]], of s] assms(1) e
      by (simp add: stuck_def)
    have no1: "no_new_offers s0 s1" using assms(1) by (simp add: stuck_def no_new_offers_def s1 ball_updateMany)
    have keep1: "waits_for k u sl b s1" if "waits_for k u sl b s" "now < sr_slotStartAt sl" for k sl
    proof -
      from that obtain w where w: "w \<in> set (waitlistEntry s)" "wl_id w = k" "wl_userId w = u" "slot_of w = sl"
        "ACTIVE_PLACE (wl_status w) \<or> wl_claimedBookingId w = Some b" by (auto simp: waits_for_def)
      then have "\<not> ?P w" using that(2) by (auto simp: slot_of_def)
      with w show ?thesis unfolding s1 waits_for_def by (auto simp: bex_updateMany intro!: bexI [OF _ w(1)])
    qed
    have w1: "waits_for i u slot b s1" "waits_for j u slot' b s1" using keep1 assms(1,3,4) by (simp_all add: stuck_def)
    define es where "es = filter (\<lambda>w. ACTIVE_PLACE (wl_status w)) (waitlistEntry s1)"
    have d1: "distinct (map wl_id (waitlistEntry s1))" using inv1 by (simp add: wait_inv_def)
    have es: "set es \<subseteq> set (waitlistEntry s1)" "distinct (map wl_id es)" "\<forall>e \<in> set es. \<not> started now e"
      using d1 by (auto simp: es_def distinct_map_filter) (auto simp: s1 set_updateMany ACTIVE_PLACE_def split: if_splits)
    have ident: "\<forall>e \<in> set es. wl_id e = k \<longrightarrow> slot_of e = sl \<and> wl_userId e = u" if "waits_for k u sl b s1" for k sl
      using that distinct_key_eq [OF d1] es(1) unfolding waits_for_def by blast
    obtain q s2 where act: "sweep_active now es \<lparr>sw_ended = n, sw_claimed = 0, sw_lapsed = 0, sw_offered = 0\<rparr> s1 = (q, s2)" by fastforce
    have b1: "booking s1 = booking s0" using no1 by (simp add: no_new_offers_def)
    let ?act = "sweep_active now es \<lparr>sw_ended = n, sw_claimed = 0, sw_lapsed = 0, sw_offered = 0\<rparr>"
    have s2: "s2 = snd (?act s1)" by (simp add: act)
    have after: "waits_for i u slot b s2" "waits_for j u slot' b s2" "no_new_offers s0 s2" "wait_inv s2"
      unfolding s2
      using keepsjD [OF waits_for_active [OF ident [OF w1(1)] own(1)], of s1] keepsjD [OF waits_for_active [OF ident [OF w1(2)] own(2)], of s1]
        keepsjD [OF no_new_offers_active no1] keepsjD [OF keepsj_sweep_active inv1] w1 b1 by blast+
    have "\<exists>x. q = Inl x"
    proof (rule ccontr)
      assume "\<nexists>x. q = Inl x"
      then obtain r' where q: "q = Inr r'" by (cases q) auto
      have b2: "own_booking s1 = own_booking s0" by (rule own_booking_cong [OF b1])
      have own1: "own_booking s1 now u slot = Some b" "own_booking s1 now u slot' = Some b" using own by (simp_all add: b2)
      note claimed = place_claimed [OF act [unfolded q es_def] d1 es(3) [unfolded es_def]]
      obtain v w where "v \<in> set (waitlistEntry s2)" "wl_id v = i" "wl_claimedBookingId v = Some b"
        "w \<in> set (waitlistEntry s2)" "wl_id w = j" "wl_claimedBookingId w = Some b"
        using claimed [OF w1(1) own1(1)] claimed [OF w1(2) own1(2)] by blast
      moreover have "claimed_once (waitlistEntry s2)" using after(4) by (simp add: wait_inv_def)
      ultimately show False using claimed_once_same assms(2) by blast
    qed
    then obtain x where q: "q = Inl x" by blast
    have "sweepWaitlist now s = (Inl x, s2)"
      using e act q by (simp add: sweepWaitlist_def bindj_def readsj_def es_def)
    with assms(7) sweep_active_fails [OF act [unfolded q]] after show ?thesis by (simp add: stuck_def)
  qed
qed

text \<open>Sweeps one after the other, with what each returned.\<close>

fun sweeps :: "time list \<Rightarrow> db \<Rightarrow> (exn + waitlistSweep) list \<times> db" where
  "sweeps [] s = ([], s)"
| "sweeps (t # ts) s = (case sweepWaitlist t s of (r, s1) \<Rightarrow> case sweeps ts s1 of (rs, s2) \<Rightarrow> (r # rs, s2))"

lemma stuck_sweeps:
  assumes "stuck s0 u i slot j slot' b s" and "i \<noteq> j"
    and "\<forall>t \<in> set ts. t < sr_slotStartAt slot \<and> t < sr_slotStartAt slot'
      \<and> own_booking s0 t u slot = Some b \<and> own_booking s0 t u slot' = Some b"
  shows "set (fst (sweeps ts s)) \<subseteq> {Inl (SqlError ''23505'')} \<and> stuck s0 u i slot j slot' b (snd (sweeps ts s))"
  using assms(1,3)
proof (induction ts arbitrary: s)
  case (Cons t ts)
  obtain r s1 where run: "sweepWaitlist t s = (r, s1)" by fastforce
  have one: "r = Inl (SqlError ''23505'')" "stuck s0 u i slot j slot' b s1"
    using stuck_sweep [OF Cons.prems(1) assms(2) _ _ _ _ run] Cons.prems(2) by simp_all
  with Cons.IH [OF one(2)] Cons.prems(2) run show ?case by (auto split: prod.splits)
qed simp

text \<open>
  C39: One person waiting for two overlapping starts who books one of them stops the waitlist for
  everybody. Whoever else waits, as long as two active places of one person whose slots have not
  started are covered by the same booking of theirs (the first of theirs the sweep finds for each),
  every sweep throws a unique violation, and no sweep offers a place or emails anybody.
\<close>

theorem overlapping_places_stop_the_sweep:
  assumes "wait_inv s" and "p \<in> set (waitlistEntry s)" and "q \<in> set (waitlistEntry s)" and "wl_id p \<noteq> wl_id q"
    and "wl_userId q = wl_userId p" and "ACTIVE_PLACE (wl_status p)" and "ACTIVE_PLACE (wl_status q)"
    and "\<forall>t \<in> set ts. t < wl_slotStartAt p \<and> t < wl_slotStartAt q
      \<and> own_booking s t (wl_userId p) (slot_of p) = Some b \<and> own_booking s t (wl_userId p) (slot_of q) = Some b"
    and "sweeps ts s = (rs, s')"
  shows "set rs \<subseteq> {Inl (SqlError ''23505'')} \<and> length rs = length ts \<and> emailNotification s' = emailNotification s
    \<and> (\<forall>w \<in> set (waitlistEntry s'). wl_status w = WL_OFFERED \<longrightarrow> w \<in> set (waitlistEntry s))"
proof -
  have "stuck s (wl_userId p) (wl_id p) (slot_of p) (wl_id q) (slot_of q) b s"
    using assms(1-7) by (auto simp: stuck_def no_new_offers_def waits_for_def)
  from stuck_sweeps [OF this assms(4), of ts] assms(8) have offers: "set (fst (sweeps ts s)) \<subseteq> {Inl (SqlError ''23505'')}"
    "no_new_offers s (snd (sweeps ts s))" by (simp_all add: stuck_def slot_of_def)
  have len: "length (fst (sweeps ts x)) = length ts" for x
    by (induction ts arbitrary: x) (simp_all add: case_prod_beta)
  from len [of s] offers show ?thesis unfolding assms(9) fst_conv snd_conv no_new_offers_def by blast
qed

definition two_places_db :: db where
  "two_places_db = empty_db\<lparr>
     waitlistEntry := [waiting_place ''w1'' ''u1'' 3600000 WL_WAITING None,
                       waiting_place ''w2'' ''u1'' 4500000 WL_WAITING None,
                       waiting_place ''w3'' ''u2'' 36000000 WL_WAITING None],
     booking := [\<lparr>bk_id = ''b1'', bk_userId = ''u1'', bk_targetId = ''t1'', bk_observatoryId = ''o1'',
       bk_telescopeId = ''s1'', bk_missionId = None, bk_paymentId = None, bk_slotStartAt = 3600000,
       bk_durationMinutes = 30, bk_status = BK_CONFIRMED, bk_holdExpiresAt = None, bk_priceMinor = 4500,
       bk_currency = GEL, bk_idempotencyKey = None, bk_tierDiscountMinor = 0,
       bk_loyaltyPointsRedeemed = 0, bk_subscriptionMinutesSpent = 0, bk_isDemo = False, bk_createdAt = 0\<rparr>]\<rparr>"

theorem overlapping_places_stop_the_sweep_witness:
  "\<exists>rs s'. sweeps [10, 20, 30] two_places_db = (rs, s') \<and> set rs \<subseteq> {Inl (SqlError ''23505'')} \<and> length rs = 3
     \<and> bookingsHolding two_places_db (slot_of (waitlistEntry two_places_db ! 2)) 10 = []"
proof -
  let ?p = "waiting_place ''w1'' ''u1'' 3600000 WL_WAITING None" and ?q = "waiting_place ''w2'' ''u1'' 4500000 WL_WAITING None"
  have inv: "wait_inv two_places_db"
    by (simp add: wait_inv_def one_offer_per_slot_def claimed_once_def two_places_db_def waiting_place_def)
  have in_db: "?p \<in> set (waitlistEntry two_places_db)" "?q \<in> set (waitlistEntry two_places_db)" by (simp_all add: two_places_db_def)
  have rows: "wl_id ?p \<noteq> wl_id ?q" "wl_userId ?q = wl_userId ?p" "ACTIVE_PLACE (wl_status ?p)" "ACTIVE_PLACE (wl_status ?q)"
    by (simp_all add: waiting_place_def ACTIVE_PLACE_def)
  have own: "own_booking two_places_db t (wl_userId ?p) (slot_of ?p) = Some ''b1'' \<and> own_booking two_places_db t (wl_userId ?p) (slot_of ?q) = Some ''b1''" for t
    by (simp add: own_booking_def bookingsHolding_def two_places_db_def Let_def slot_of_def waiting_place_def span_def overlaps_def holding_def const_simps)
  obtain rs s' where run: "sweeps [10, 20, 30] two_places_db = (rs, s')" by fastforce
  have due: "\<forall>t \<in> set [10, 20, 30]. t < wl_slotStartAt ?p \<and> t < wl_slotStartAt ?q
      \<and> own_booking two_places_db t (wl_userId ?p) (slot_of ?p) = Some ''b1''
      \<and> own_booking two_places_db t (wl_userId ?p) (slot_of ?q) = Some ''b1''"
    using own by (simp add: waiting_place_def)
  have free: "bookingsHolding two_places_db (slot_of (waitlistEntry two_places_db ! 2)) 10 = []"
    by (simp add: bookingsHolding_def two_places_db_def Let_def slot_of_def waiting_place_def span_def overlaps_def holding_def const_simps)
  from overlapping_places_stop_the_sweep [OF inv in_db rows due run] run free show ?thesis by auto
qed

end
