(* ===== verification/Vouchers.thy ===== *)
theory Vouchers
  imports Calendar Schema "HOL-Library.Word"
begin

text \<open>
  Gift-voucher and prize codes, src/packages/db/vouchers.ts: a code is sixteen Crockford
  base32 characters taken from an HMAC digest, five bits at a time; what a customer types is
  normalised and hashed.

  \<open>hmac\<close> (HMAC-SHA256 of a message under a secret, as its bytes) and \<open>sha256\<close> (as hex text)
  are the platform's cryptography and are parameters. Text is ASCII.
\<close>

unbundle bit_operations_syntax

section \<open>Definitions\<close>

definition ALPHABET :: string where "ALPHABET = ''0123456789ABCDEFGHJKMNPQRSTVWXYZ''"
definition CODE_LENGTH :: nat where "CODE_LENGTH = 16"

text \<open>The inner \<open>while\<close>: emit a character for every five bits held, up to the code's length.\<close>

fun emit :: "32 word \<Rightarrow> nat \<Rightarrow> string \<Rightarrow> nat \<times> string" where
  "emit buffer bits code =
     (if 5 \<le> bits \<and> length code < CODE_LENGTH
      then emit buffer (bits - 5) (code @ [ALPHABET ! unat (signed_drop_bit (bits - 5) buffer AND 31)])
      else (bits, code))"

declare emit.simps [simp del]

text \<open>The loop over the digest: a 32-bit buffer, the number of bits it holds, the code so far.\<close>

fun code_from :: "8 word list \<Rightarrow> 32 word \<Rightarrow> nat \<Rightarrow> string \<Rightarrow> string" where
  "code_from [] buffer bits code = code"
| "code_from (byte # digest) buffer bits code =
     (let buffer = (push_bit 8 buffer) OR ucast byte;
          (bits, code) = emit buffer (bits + 8) code;
          buffer = buffer AND (push_bit bits 1 - 1)
      in if length code = CODE_LENGTH then code else code_from digest buffer bits code)"

text \<open>\<open>match(/.{4}/g)\<close>: the successive groups of four characters, a shorter rest dropped.\<close>

fun groups_of_four :: "string \<Rightarrow> string list" where
  "groups_of_four (a # b # c # d # rest) = [a, b, c, d] # groups_of_four rest"
| "groups_of_four _ = []"

fun join_hyphen :: "string list \<Rightarrow> string" where
  "join_hyphen [] = []"
| "join_hyphen [g] = g"
| "join_hyphen (g # gs) = g @ ''-'' @ join_hyphen gs"

definition deriveCode :: "(string \<Rightarrow> string \<Rightarrow> 8 word list) \<Rightarrow> string \<Rightarrow> string \<Rightarrow> string" where
  "deriveCode hmac secret message = join_hyphen (groups_of_four (code_from (hmac secret message) 0 0 []))"

definition deriveVoucherCode :: "(string \<Rightarrow> string \<Rightarrow> 8 word list) \<Rightarrow> string \<Rightarrow> ident \<Rightarrow> string" where
  "deriveVoucherCode hmac secret voucherId = deriveCode hmac secret (''gift-voucher:'' @ voucherId)"

definition deriveCardPrizeCode :: "(string \<Rightarrow> string \<Rightarrow> 8 word list) \<Rightarrow> string \<Rightarrow> ident \<Rightarrow> string" where
  "deriveCardPrizeCode hmac secret prizeId = deriveCode hmac secret (''card-prize:'' @ prizeId)"

definition digit_or_capital :: "char \<Rightarrow> bool" where
  "digit_or_capital c \<longleftrightarrow> (let n = (of_char c :: nat) in 48 \<le> n \<and> n \<le> 57 \<or> 65 \<le> n \<and> n \<le> 90)"

definition read_as_digit :: "char \<Rightarrow> char" where
  "read_as_digit c = (if c = CHR ''O'' then CHR ''0''
     else if c = CHR ''I'' \<or> c = CHR ''L'' then CHR ''1'' else c)"

definition normaliseVoucherCode :: "string \<Rightarrow> string option" where
  "normaliseVoucherCode input =
     (let code = map read_as_digit (filter digit_or_capital (map upper input))
      in if length code \<noteq> CODE_LENGTH \<or> CHR ''U'' \<in> set code then None else Some code)"

definition strip_hyphens :: "string \<Rightarrow> string" where
  "strip_hyphens code = filter (\<lambda>c. c \<noteq> CHR ''-'') code"

definition hashVoucherCode :: "(string \<Rightarrow> string) \<Rightarrow> string \<Rightarrow> string" where
  "hashVoucherCode sha256 code = sha256 (strip_hyphens code)"

definition voucherCodeLast4 :: "string \<Rightarrow> string" where
  "voucherCodeLast4 code = (let c = strip_hyphens code in drop (length c - 4) c)"

definition RESTORED_VOUCHER_MIN_DAYS :: int where "RESTORED_VOUCHER_MIN_DAYS = 30"

definition voucherExpiry :: "time \<Rightarrow> time" where
  "voucherExpiry t = setUTCMonth t (month_of (Day t) + 12)"

section \<open>Derived codes\<close>

lemma alphabet_length [simp]: "length ALPHABET = 32"
  by (simp add: ALPHABET_def)

lemma and31_bound: "unat (w AND 31 :: 32 word) < 32"
proof -
  have "w AND 31 \<le> 31" by (rule word_and_le1)
  then have "unat (w AND 31) \<le> unat (31 :: 32 word)" by (simp only: word_le_nat_alt)
  then show ?thesis by simp
qed

lemma emit_spec:
  assumes "length code \<le> 16" and "set code \<subseteq> set ALPHABET"
  shows "\<exists>bits' code'. emit buffer bits code = (bits', code') \<and> set code' \<subseteq> set ALPHABET
    \<and> length code' \<le> 16 \<and> 5 * length code' + bits' = 5 * length code + bits
    \<and> (length code' < 16 \<longrightarrow> bits' < 5)"
  using assms
proof (induction buffer bits code rule: emit.induct)
  case (1 buffer bits code)
  show ?case
  proof (cases "5 \<le> bits \<and> length code < CODE_LENGTH")
    case True
    let ?c = "ALPHABET ! unat (signed_drop_bit (bits - 5) buffer AND 31)"
    have "?c \<in> set ALPHABET" by (rule nth_mem) (simp add: and31_bound)
    with 1(2,3) True have "length (code @ [?c]) \<le> 16" "set (code @ [?c]) \<subseteq> set ALPHABET"
      by (auto simp: CODE_LENGTH_def)
    from 1(1) [OF True this] True show ?thesis by (auto simp: emit.simps [of buffer bits code])
  next
    case False
    with 1 show ?thesis by (auto simp: emit.simps [of buffer bits code] CODE_LENGTH_def)
  qed
qed

lemma code_from_spec:
  assumes "length code < 16" and "set code \<subseteq> set ALPHABET" and "bits < 5"
    and "80 \<le> 5 * length code + bits + 8 * length digest"
  shows "length (code_from digest buffer bits code) = 16 \<and> set (code_from digest buffer bits code) \<subseteq> set ALPHABET"
  using assms
proof (induction digest arbitrary: buffer bits code)
  case Nil
  then show ?case by simp
next
  case (Cons byte digest)
  let ?b = "push_bit 8 buffer OR ucast byte :: 32 word"
  obtain bits' code' where e: "emit ?b (bits + 8) code = (bits', code')" "set code' \<subseteq> set ALPHABET"
    "length code' \<le> 16" "5 * length code' + bits' = 5 * length code + (bits + 8)" "length code' < 16 \<longrightarrow> bits' < 5"
    using emit_spec [of code ?b "bits + 8"] Cons.prems(1,2) by auto
  show ?case
  proof (cases "length code' = 16")
    case True
    with e show ?thesis by (simp add: CODE_LENGTH_def Let_def)
  next
    case False
    with e Cons.prems(4) have "length code' < 16" "80 \<le> 5 * length code' + bits' + 8 * length digest" by simp_all
    with Cons.IH [of code' bits'] e False show ?thesis by (simp add: CODE_LENGTH_def Let_def)
  qed
qed

lemma sixteen:
  assumes "length xs = 16"
  obtains a b c d e f g h i j k l m n p q where "xs = [a, b, c, d, e, f, g, h, i, j, k, l, m, n, p, q]"
  using assms by (auto simp: numeral_eq_Suc length_Suc_conv)

lemma filter_code:
  assumes "\<And>c. c \<in> set xs \<Longrightarrow> P c" and "\<not> P (CHR ''-'')" and "length xs = 16"
  shows "filter P (join_hyphen (groups_of_four xs)) = xs"
  using assms(3)
proof (rule sixteen)
  fix a b c d e f g h i j k l m n p q
  assume "xs = [a, b, c, d, e, f, g, h, i, j, k, l, m, n, p, q]"
  with assms(1,2) show ?thesis by simp
qed

lemma alphabet_chars:
  assumes "c \<in> set ALPHABET"
  shows "upper c = c" "digit_or_capital c" "read_as_digit c = c" "c \<noteq> CHR ''-''" "c \<noteq> CHR ''U''"
proof -
  have "\<forall>c \<in> set ALPHABET. upper c = c \<and> digit_or_capital c \<and> read_as_digit c = c \<and> c \<noteq> CHR ''-'' \<and> c \<noteq> CHR ''U''"
    by code_simp
  with assms show "upper c = c" "digit_or_capital c" "read_as_digit c = c" "c \<noteq> CHR ''-''" "c \<noteq> CHR ''U''"
    by blast+
qed

lemma hyphen_char: "upper (CHR ''-'') = CHR ''-''" "\<not> digit_or_capital (CHR ''-'')"
  by code_simp+

lemma derived_code:
  assumes "10 \<le> length (hmac secret message)"
  obtains code where "deriveCode hmac secret message = join_hyphen (groups_of_four code)"
    and "length code = 16" and "set code \<subseteq> set ALPHABET"
    and "strip_hyphens (deriveCode hmac secret message) = code"
proof -
  let ?code = "code_from (hmac secret message) 0 0 []"
  have c: "length ?code = 16" "set ?code \<subseteq> set ALPHABET"
    using code_from_spec [of "[]" 0 "hmac secret message" 0] assms by simp_all
  have "strip_hyphens (deriveCode hmac secret message) = ?code"
    unfolding strip_hyphens_def deriveCode_def
    by (rule filter_code) (use c alphabet_chars(4) in auto)
  with c show thesis by (intro that) (simp_all add: deriveCode_def)
qed

lemma MakeDay_month_overflow: "MakeDay y (m + 12) d = MakeDay (y + 1) m d"
  by (simp add: MakeDay_def algebra_simps)

lemma leap_not_successive: "InLeapYear y \<Longrightarrow> \<not> InLeapYear (y + 1)"
  unfolding InLeapYear_def by presburger

section \<open>Properties\<close>

text \<open>
  A derived voucher or prize code is sixteen characters of the Crockford alphabet in four
  groups, and whatever a customer types that reads as it - in any case, with any separators, O
  for 0, I or L for 1 - normalises to exactly those characters and hashes to the stored hash.
\<close>

theorem typed_code_reaches_its_hash:
  assumes "10 \<le> length (hmac secret message)" and "code = deriveCode hmac secret message"
    and "list_all2 (\<lambda>c t. read_as_digit (upper t) = c) (strip_hyphens code)
           (filter (\<lambda>t. digit_or_capital (upper t)) typed)"
  shows "length (strip_hyphens code) = 16 \<and> length code = 19 \<and> set (strip_hyphens code) \<subseteq> set ALPHABET
    \<and> (\<exists>n. normaliseVoucherCode typed = Some n \<and> n = strip_hyphens code
         \<and> hashVoucherCode sha256 n = hashVoucherCode sha256 code)"
proof -
  obtain c where c: "deriveCode hmac secret message = join_hyphen (groups_of_four c)"
    "length c = 16" "set c \<subseteq> set ALPHABET" "strip_hyphens (deriveCode hmac secret message) = c"
    using assms(1) by (rule derived_code)
  have len: "length code = 19" unfolding assms(2) c(1) by (rule sixteen [OF c(2)]) simp
  have "map (\<lambda>t. read_as_digit (upper t)) (filter (\<lambda>t. digit_or_capital (upper t)) typed) = c"
    using assms(3) unfolding assms(2) c(4)
    by (auto simp: list_all2_conv_all_nth intro!: nth_equalityI)
  then have "map read_as_digit (filter digit_or_capital (map upper typed)) = c"
    by (simp add: filter_map comp_def)
  moreover have "CHR ''U'' \<notin> set c" using c(3) alphabet_chars(5) by blast
  moreover have "strip_hyphens c = c"
    using c(3) alphabet_chars(4) by (auto simp: strip_hyphens_def filter_id_conv)
  ultimately show ?thesis
    using c(2-4) len assms(2) by (simp add: normaliseVoucherCode_def CODE_LENGTH_def hashVoucherCode_def Let_def)
qed

theorem typed_code_reaches_its_hash_witness:
  "normaliseVoucherCode ''ooo0 000o-0000_000i'' = Some ''0000000000000001''"
proof -
  let ?hmac = "\<lambda>s m. [0, 0, 0, 0, 0, 0, 0, 0, 0, 1] :: 8 word list"
  have code: "deriveCode ?hmac [] [] = ''0000-0000-0000-0001''"
    by (simp add: deriveCode_def emit.simps CODE_LENGTH_def ALPHABET_def)
  have chars: "upper (CHR ''o'') = CHR ''O''" "upper (CHR ''0'') = CHR ''0''" "upper (CHR '' '') = CHR '' ''"
    "upper (CHR ''_'') = CHR ''_''" "upper (CHR ''i'') = CHR ''I''"
    "digit_or_capital (CHR ''O'')" "digit_or_capital (CHR ''0'')" "\<not> digit_or_capital (CHR '' '')"
    "\<not> digit_or_capital (CHR ''_'')" "digit_or_capital (CHR ''I'')"
    by code_simp+
  have "strip_hyphens ''0000-0000-0000-0001'' = ''0000000000000001''" by (simp add: strip_hyphens_def)
  moreover have "list_all2 (\<lambda>c t. read_as_digit (upper t) = c) (strip_hyphens ''0000-0000-0000-0001'')
      (filter (\<lambda>t. digit_or_capital (upper t)) ''ooo0 000o-0000_000i'')"
    by (simp add: strip_hyphens_def chars hyphen_char read_as_digit_def)
  ultimately show ?thesis
    using typed_code_reaches_its_hash [of ?hmac "[]" "[]" "''0000-0000-0000-0001''" "''ooo0 000o-0000_000i''" "\<lambda>x. x"] code
    by simp
qed

text \<open>
  A voucher lives twelve calendar months: \<open>voucherExpiry\<close> keeps the time of day, month and
  day of the month and moves to the next year, except that 29 February becomes 1 March.
\<close>

theorem voucherExpiry_is_next_year:
  "let d = Day t; e = Day (voucherExpiry t) in
     TimeWithinDay (voucherExpiry t) = TimeWithinDay t \<and> year_of e = year_of d + 1 \<and>
     (if month_of d = 1 \<and> date_of d = 29 then month_of e = 2 \<and> date_of e = 1
      else month_of e = month_of d \<and> date_of e = date_of d)"
proof -
  let ?d = "Day t"
  let ?y = "year_of ?d" and ?m = "month_of ?d" and ?n = "date_of ?d"
  have parts: "Day (voucherExpiry t) = MakeDay (?y + 1) ?m ?n" "TimeWithinDay (voucherExpiry t) = TimeWithinDay t"
    using TimeWithinDay_range [of t]
    by (simp_all add: voucherExpiry_def setUTCMonth_def MakeDay_month_overflow Day_of_parts)
  note r = month_of_range [of ?d] date_of_range [of ?d]
  show ?thesis
  proof (cases "?m = 1 \<and> ?n = 29")
    case False
    have "?n \<le> days_in_month (?y + 1) ?m"
    proof (cases "?m = 1")
      case True
      with False r(4) have "?n \<le> 28"
        by (auto simp: days_in_month_def month_start_def split: if_splits)
      with days_in_month_bounds [of ?m "?y + 1"] r show ?thesis by linarith
    next
      case other: False
      then have "days_in_month (?y + 1) ?m = days_in_month ?y ?m"
        by (auto simp: days_in_month_def month_start_def)
      with r(4) show ?thesis by simp
    qed
    with fields_MakeDay [of ?m ?n "?y + 1"] r False parts show ?thesis unfolding Let_def by simp argo
  next
    case True
    with r(4) have "InLeapYear ?y" by (auto simp: days_in_month_def month_start_def split: if_splits)
    then have "\<not> InLeapYear (?y + 1)" by (rule leap_not_successive)
    then have "MakeDay (?y + 1) 1 29 = MakeDay (?y + 1) 2 1" "1 \<le> days_in_month (?y + 1) 2"
      by (simp_all add: MakeDay_def month_start_def days_in_month_def)
    with fields_MakeDay [of 2 1 "?y + 1"] True parts show ?thesis by (simp add: Let_def)
  qed
qed

end
