(* ===== verification/Card_Prizes.thy ===== *)
theory Card_Prizes
  imports Audit_Log Calendar Vouchers
begin

text \<open>
  Spending a card-draw prize and giving it back: \<open>findSpendablePrize\<close> and \<open>claimPrize\<close> of
  src/apps/api/src/features/cards/draw.ts and \<open>releaseCardPrize\<close> of
  src/packages/db/card-prizes.ts.
\<close>

section \<open>Definitions\<close>

datatype releaseCause = HOLD_RELEASED | BOOKING_REFUNDED

fun cause_text :: "releaseCause \<Rightarrow> string" where
  "cause_text HOLD_RELEASED = ''HOLD_RELEASED''"
| "cause_text BOOKING_REFUNDED = ''BOOKING_REFUNDED''"

definition findSpendablePrize :: "string \<Rightarrow> ident \<Rightarrow> time \<Rightarrow> (db, cardPrize_row option) tx" where
  "findSpendablePrize codeHash userId now =
     bindt (tx_find cardPrize (\<lambda>p. pz_codeHash p = codeHash)) (\<lambda>prize.
     ret (case prize of None \<Rightarrow> None
          | Some p \<Rightarrow> if pz_userId p \<noteq> userId then None
              else if pz_status p \<noteq> PZ_ACTIVE \<or> pz_expiresAt p \<le> now then None
              else Some p))"

definition claimPrize :: "ident \<Rightarrow> ident \<Rightarrow> time \<Rightarrow> ident option \<Rightarrow> ident option \<Rightarrow> (db, bool) tx" where
  "claimPrize prizeId userId now bookingId observerPackId =
     bindt (tx_updateMany cardPrize cardPrize_update
              (\<lambda>p. pz_id p = prizeId \<and> pz_userId p = userId \<and> pz_status p = PZ_ACTIVE \<and> now < pz_expiresAt p)
              (\<lambda>p. p\<lparr>pz_status := PZ_REDEEMED, pz_redeemedAt := Some now,
                    pz_redeemedBookingId := bookingId, pz_redeemedObserverPackId := observerPackId\<rparr>)) (\<lambda>count.
     ret (count = 1))"

definition prize_audit :: "cardPrize_row \<Rightarrow> ident \<Rightarrow> releaseCause \<Rightarrow> ident option \<Rightarrow> time \<Rightarrow> auditLog_row" where
  "prize_audit p bookingId cause actorUserId expiresAt =
     (audit_entry CARD_DRAW ''CARD_PRIZE_RESTORED''
        [(''bookingId'', JStr bookingId), (''cause'', JStr (cause_text cause)),
         (''expiresAt'', JStr (toISOString expiresAt))])
     \<lparr>au_actorUserId := actorUserId, au_entityType := Some ''CardPrize'', au_entityId := Some (pz_id p),
      au_isDemo := pz_isDemo p\<rparr>"

definition restored_until :: "releaseCause \<Rightarrow> time \<Rightarrow> time \<Rightarrow> time" where
  "restored_until cause now expiresAt =
     (let floor = now + RESTORED_VOUCHER_MIN_DAYS * day_ms
      in if cause = BOOKING_REFUNDED \<and> expiresAt < floor then floor else expiresAt)"

definition releaseCardPrize ::
  "ident \<Rightarrow> releaseCause \<Rightarrow> ident option \<Rightarrow> time \<Rightarrow> (db, ident option) tx" where
  "releaseCardPrize bookingId cause actorUserId now =
     bindt (tx_find cardPrize (\<lambda>p. pz_redeemedBookingId p = Some bookingId)) (\<lambda>prize.
     case prize of None \<Rightarrow> ret None
     | Some p \<Rightarrow>
        if pz_status p \<noteq> PZ_REDEEMED then ret None
        else let expiresAt = restored_until cause now (pz_expiresAt p)
             in bindt (tx_updateMany cardPrize cardPrize_update
                  (\<lambda>q. pz_id q = pz_id p \<and> pz_status q = PZ_REDEEMED \<and> pz_redeemedBookingId q = Some bookingId)
                  (\<lambda>q. q\<lparr>pz_status := PZ_ACTIVE, pz_expiresAt := expiresAt, pz_redeemedAt := None,
                        pz_redeemedBookingId := None\<rparr>)) (\<lambda>count.
                if count = 0 then ret None
                else bindt (recordAuditEvent (prize_audit p bookingId cause actorUserId expiresAt)) (\<lambda>_.
                     ret (Some (pz_id p)))))"

section \<open>Lemmas\<close>

lemma prize_audit_clean [simp]: "offending_keys (au_metadata (prize_audit p b c a t)) = []"
  by (simp add: prize_audit_def)

lemma restored_until_props:
  "expiresAt \<le> restored_until cause now expiresAt"
  "restored_until HOLD_RELEASED now expiresAt = expiresAt"
  "now + 30 * day_ms \<le> restored_until BOOKING_REFUNDED now expiresAt"
  by (auto simp: restored_until_def RESTORED_VOUCHER_MIN_DAYS_def Let_def)

text \<open>A prize is one row per id, spent on at most one booking.\<close>

definition prize_inv :: "db \<Rightarrow> bool" where
  "prize_inv s \<longleftrightarrow> distinct (map pz_id (cardPrize s))
     \<and> distinct (map pz_redeemedBookingId (filter (\<lambda>p. pz_redeemedBookingId p \<noteq> None) (cardPrize s)))"

lemma releaseCardPrize_frame:
  assumes "\<And>s t. I s \<Longrightarrow> I (s\<lparr>cardPrize := t\<rparr>)" and "\<And>s t. I s \<Longrightarrow> I (s\<lparr>auditLog := t\<rparr>)"
  shows "keeps I (releaseCardPrize b c a now)"
  unfolding releaseCardPrize_def by (intro keeps_intros keeps_table keeps_outbox assms)

lemma claimPrize_frame:
  assumes "\<And>s t. I s \<Longrightarrow> I (s\<lparr>cardPrize := t\<rparr>)"
  shows "keeps I (claimPrize p u now b k)"
  unfolding claimPrize_def by (intro keeps_intros keeps_table assms)

lemma claimPrize_eq:
  assumes "distinct (map pz_id (cardPrize s))" and "find (\<lambda>p. pz_id p = i) (cardPrize s) = Some p"
  shows "claimPrize i u now b k s =
    (if pz_userId p = u \<and> pz_status p = PZ_ACTIVE \<and> now < pz_expiresAt p
     then Inr (True, s\<lparr>cardPrize := updateMany (\<lambda>p. pz_id p = i)
        (\<lambda>p. p\<lparr>pz_status := PZ_REDEEMED, pz_redeemedAt := Some now,
              pz_redeemedBookingId := b, pz_redeemedObserverPackId := k\<rparr>) (cardPrize s)\<rparr>)
     else Inr (False, s))"
  using keyed_filter [OF assms] keyed_updateMany [OF assms]
  by (simp add: claimPrize_def tx_simps)

lemma releaseCardPrize_eq:
  assumes "distinct (map pz_id (cardPrize s))"
    and "find (\<lambda>p. pz_redeemedBookingId p = Some b) (cardPrize s) = Some p" and "pz_status p = PZ_REDEEMED"
  shows "releaseCardPrize b cause a now s =
    Inr (Some (pz_id p), s\<lparr>cardPrize := updateMany (\<lambda>q. pz_id q = pz_id p)
        (\<lambda>q. q\<lparr>pz_status := PZ_ACTIVE, pz_expiresAt := restored_until cause now (pz_expiresAt p),
              pz_redeemedAt := None, pz_redeemedBookingId := None\<rparr>) (cardPrize s),
      auditLog := auditLog s @ [prize_audit p b cause a (restored_until cause now (pz_expiresAt p))]\<rparr>)"
proof -
  have p: "pz_redeemedBookingId p = Some b" "p \<in> set (cardPrize s)" using find_SomeD [OF assms(2)] by simp_all
  have f: "find (\<lambda>q. pz_id q = pz_id p) (cardPrize s) = Some p"
    using distinct_find [OF assms(1) p(2)] .
  have "length (filter (\<lambda>q. pz_id q = pz_id p \<and> pz_status q = PZ_REDEEMED \<and> pz_redeemedBookingId q = Some b)
      (cardPrize s)) = 1"
    using keyed_filter [OF assms(1) f] assms(3) p(1) by simp
  with keyed_updateMany [OF assms(1) f] assms(2,3) p(1) show ?thesis
    by (simp add: releaseCardPrize_def tx_simps Let_def)
qed

definition spent_on :: "time \<Rightarrow> ident \<Rightarrow> cardPrize_row \<Rightarrow> cardPrize_row" where
  "spent_on now b p = p\<lparr>pz_status := PZ_REDEEMED, pz_redeemedAt := Some now,
     pz_redeemedBookingId := Some b, pz_redeemedObserverPackId := None\<rparr>"

lemma find_spent:
  assumes "\<forall>q \<in> set t. pz_redeemedBookingId q \<noteq> Some b"
  shows "find (\<lambda>q. pz_redeemedBookingId q = Some b) (updateMany (\<lambda>q. pz_id q = i) (spent_on now b) t) =
    map_option (spent_on now b) (find (\<lambda>q. pz_id q = i) t)"
  using assms by (induction t) (auto simp: spent_on_def)

lemma spent_on_simps [simp]:
  "pz_id (spent_on now b p) = pz_id p" "pz_status (spent_on now b p) = PZ_REDEEMED"
  "pz_expiresAt (spent_on now b p) = pz_expiresAt p" "pz_redeemedBookingId (spent_on now b p) = Some b"
  by (simp_all add: spent_on_def)

section \<open>Properties\<close>

text \<open>
  A prize spent on a booking comes back once: after \<open>claimPrize\<close> and the release of the
  hold the prize table is exactly what it was before, a second release changes nothing, and on
  a refund the prize is usable for at least thirty days more.
\<close>

theorem prize_claim_release_round_trip:
  assumes "distinct (map pz_id (cardPrize s))" and "p \<in> set (cardPrize s)"
    and "pz_userId p = u" and "pz_status p = PZ_ACTIVE" and "now < pz_expiresAt p"
    and "pz_redeemedAt p = None" and "pz_redeemedBookingId p = None" and "pz_redeemedObserverPackId p = None"
    and "\<forall>q \<in> set (cardPrize s). pz_redeemedBookingId q \<noteq> Some b"
  shows "\<exists>s1 s2. claimPrize (pz_id p) u now (Some b) None s = Inr (True, s1) \<and>
    claimPrize (pz_id p) u later (Some b') None s1 = Inr (False, s1) \<and>
    releaseCardPrize b HOLD_RELEASED a now s1 = Inr (Some (pz_id p), s2) \<and> cardPrize s2 = cardPrize s \<and>
    releaseCardPrize b HOLD_RELEASED a now s2 = Inr (None, s2) \<and>
    (\<exists>s3 q. releaseCardPrize b BOOKING_REFUNDED a later s1 = Inr (Some (pz_id p), s3) \<and>
       q \<in> set (cardPrize s3) \<and> pz_id q = pz_id p \<and> pz_status q = PZ_ACTIVE \<and>
       pz_expiresAt q = max (pz_expiresAt p) (later + 30 * day_ms))"
proof -
  let ?P = "\<lambda>q. pz_id q = pz_id p" and ?f = "spent_on now b"
  let ?g = "\<lambda>e p. p\<lparr>pz_status := PZ_ACTIVE, pz_expiresAt := e, pz_redeemedAt := None, pz_redeemedBookingId := None\<rparr>"
  let ?s1 = "s\<lparr>cardPrize := updateMany ?P ?f (cardPrize s)\<rparr>"
  have f: "find ?P (cardPrize s) = Some p" using assms(1,2) by (rule distinct_find)
  have same: "q = p" if "q \<in> set (cardPrize s)" "pz_id q = pz_id p" for q
    using distinct_key_eq [OF assms(1) that(1) assms(2) that(2)] .
  have claim: "claimPrize (pz_id p) u now (Some b) None s = Inr (True, ?s1)"
    using claimPrize_eq [OF assms(1) f] assms(3-5) by (simp add: spent_on_def [abs_def])
  have d1: "distinct (map pz_id (cardPrize ?s1))" using assms(1) by (simp add: map_updateMany_inv)
  have f1: "find ?P (cardPrize ?s1) = Some (?f p)" using f by (simp add: find_keyed_update)
  have again: "claimPrize (pz_id p) u later (Some b') None ?s1 = Inr (False, ?s1)"
    using claimPrize_eq [OF d1 f1] by simp
  have f2: "find (\<lambda>q. pz_redeemedBookingId q = Some b) (cardPrize ?s1) = Some (?f p)"
    using find_spent [OF assms(9)] f by simp
  have undone: "updateMany ?P (?g (pz_expiresAt p)) (cardPrize ?s1) = cardPrize s"
  proof -
    have "?g (pz_expiresAt p) (?f p) = p"
      using assms(4,6-8) by (cases p) (simp add: spent_on_def)
    then have "?g (pz_expiresAt p) (?f q) = q" if "q \<in> set (cardPrize s)" "pz_id q = pz_id p" for q
      using same [OF that] by simp
    then show ?thesis by (auto simp: updateMany_def intro!: map_idI)
  qed
  let ?s2 = "s\<lparr>auditLog := auditLog s @ [prize_audit (?f p) b HOLD_RELEASED a (pz_expiresAt p)]\<rparr>"
  have release: "releaseCardPrize b HOLD_RELEASED a now ?s1 = Inr (Some (pz_id p), ?s2)"
    using releaseCardPrize_eq [OF d1 f2, of HOLD_RELEASED a now] undone by (simp add: restored_until_props(2))
  have "find (\<lambda>q. pz_redeemedBookingId q = Some b) (cardPrize s) = None"
    using assms(9) by (simp add: find_None_iff)
  then have gone: "releaseCardPrize b HOLD_RELEASED a now ?s2 = Inr (None, ?s2)"
    by (simp add: releaseCardPrize_def tx_simps)
  let ?e = "restored_until BOOKING_REFUNDED later (pz_expiresAt p)"
  have e: "?e = max (pz_expiresAt p) (later + 30 * day_ms)"
    by (auto simp: restored_until_def RESTORED_VOUCHER_MIN_DAYS_def Let_def)
  have "?g ?e (?f p) \<in> set (updateMany ?P (?g ?e) (cardPrize ?s1))"
    using find_SomeD [OF f1] by (force simp: set_updateMany)
  then have refund: "\<exists>s3 q. releaseCardPrize b BOOKING_REFUNDED a later ?s1 = Inr (Some (pz_id p), s3) \<and>
       q \<in> set (cardPrize s3) \<and> pz_id q = pz_id p \<and> pz_status q = PZ_ACTIVE \<and> pz_expiresAt q = ?e"
    unfolding releaseCardPrize_eq [OF d1 f2 spent_on_simps(2), of BOOKING_REFUNDED a later]
    by (intro exI [of _ "?s1\<lparr>cardPrize := updateMany ?P (?g ?e) (cardPrize ?s1),
        auditLog := auditLog s @ [prize_audit (?f p) b BOOKING_REFUNDED a ?e]\<rparr>"] exI [of _ "?g ?e (?f p)"]) simp
  show ?thesis
    by (rule exI [of _ ?s1], rule exI [of _ ?s2]) (use claim again release gone refund e in simp)
qed

text \<open>A free-slot prize, for the examples.\<close>

definition example_prize :: cardPrize_row where
  "example_prize = \<lparr>pz_id = ''z1'', pz_drawId = ''d1'', pz_userId = ''u1'', pz_observatoryId = ''o1'', pz_kind = FREE_SLOT,
     pz_status = PZ_ACTIVE, pz_codeHash = ''h'', pz_codeLast4 = ''ABCD'', pz_durationMinutes = Some 30, pz_percentOff = None,
     pz_expiresAt = 5000, pz_redeemedAt = None, pz_redeemedBookingId = None,
     pz_redeemedObserverPackId = None, pz_isDemo = False, pz_createdAt = 0\<rparr>"

theorem prize_claim_release_round_trip_witness:
  "\<exists>s1 s2. claimPrize ''z1'' ''u1'' 10 (Some ''b1'') None (empty_db\<lparr>cardPrize := [example_prize]\<rparr>) = Inr (True, s1)
     \<and> releaseCardPrize ''b1'' HOLD_RELEASED None 10 s1 = Inr (Some ''z1'', s2) \<and> cardPrize s2 = [example_prize]"
  using prize_claim_release_round_trip [of "empty_db\<lparr>cardPrize := [example_prize]\<rparr>" example_prize "''u1''" 10 "''b1''"
      20 "''b2''" None]
  by (auto simp: example_prize_def)

end
