(* ===== verification/Refunds.thy ===== *)
theory Refunds
  imports Credits Loyalty Card_Prizes
begin

text \<open>
  Refunding a booking that holds an open entitlement, src/packages/db/refunds.ts: the walk
  back through reschedules to whatever paid, and the return of money, voucher, prize or
  minutes. Relations of the source are looked up by the columns that carry them: a booking's
  payment by \<open>paymentId\<close>, the voucher or prize spent on it by \<open>redeemedBookingId\<close>, the
  entitlement it was rescheduled from by \<open>rescheduledBookingId\<close>.
\<close>

section \<open>Definitions\<close>

datatype refundRefusal = NO_OPEN_ENTITLEMENT | NOTHING_TO_REFUND | PROVIDER_REFUND_UNAVAILABLE

text \<open>A refund: payment, voucher, prize and minutes that went back.\<close>

datatype refundResult =
    Refunded "ident option" "ident option" "ident option" int
  | Refund_refused refundRefusal

definition MAX_RESCHEDULE_CHAIN :: nat where "MAX_RESCHEDULE_CHAIN = 12"

text \<open>What paid for a chain of reschedules, as the walk finds it.\<close>

datatype funding =
    By_payment payment_row
  | By_voucher giftVoucher_row
  | By_free_slot ident
  | By_minutes booking_row
  | Unfunded

definition payment_of :: "db \<Rightarrow> booking_row \<Rightarrow> payment_row option" where
  "payment_of s b = (case bk_paymentId b of None \<Rightarrow> None
     | Some i \<Rightarrow> find (\<lambda>p. pay_id p = i) (payment s))"

definition voucher_of :: "db \<Rightarrow> booking_row \<Rightarrow> giftVoucher_row option" where
  "voucher_of s b = find (\<lambda>v. gv_redeemedBookingId v = Some (bk_id b)) (giftVoucher s)"

definition prize_of :: "db \<Rightarrow> booking_row \<Rightarrow> cardPrize_row option" where
  "prize_of s b = find (\<lambda>p. pz_redeemedBookingId p = Some (bk_id b)) (cardPrize s)"

definition rescheduledFrom :: "db \<Rightarrow> booking_row \<Rightarrow> ident option" where
  "rescheduledFrom s b =
     map_option en_bookingId (find (\<lambda>e. en_rescheduledBookingId e = Some (bk_id b)) (bookingEntitlement s))"

definition funding_of :: "db \<Rightarrow> booking_row \<Rightarrow> funding" where
  "funding_of s b =
     (case payment_of s b of Some p \<Rightarrow> By_payment p
      | None \<Rightarrow> (case voucher_of s b of Some v \<Rightarrow> By_voucher v
      | None \<Rightarrow> if (case prize_of s b of None \<Rightarrow> False | Some z \<Rightarrow> pz_kind z = FREE_SLOT) then By_free_slot (bk_id b)
               else if 0 < bk_subscriptionMinutesSpent b then By_minutes b
               else Unfunded))"

text \<open>The loop of the walk: \<open>step < MAX_RESCHEDULE_CHAIN\<close> steps back from \<open>current\<close>.\<close>

fun walk_chain :: "nat \<Rightarrow> ident option \<Rightarrow> (db, funding) tx" where
  "walk_chain 0 current = ret Unfunded"
| "walk_chain (Suc steps) None = ret Unfunded"
| "walk_chain (Suc steps) (Some current) =
     bindt (tx_findOrThrow booking (\<lambda>b. bk_id b = current)) (\<lambda>b.
     bindt (reads (\<lambda>s. (funding_of s b, rescheduledFrom s b))) (\<lambda>(f, earlier).
     if f \<noteq> Unfunded then ret f else walk_chain steps earlier))"

text \<open>The conditional update all four paths start with, and the booking's new status.\<close>

definition close_entitlement :: "ident \<Rightarrow> time \<Rightarrow> (db, nat) tx" where
  "close_entitlement entitlementId now =
     tx_updateMany bookingEntitlement bookingEntitlement_update
       (\<lambda>e. en_id e = entitlementId \<and> en_outcome e = EN_OPEN)
       (\<lambda>e. e\<lparr>en_outcome := EN_REFUNDED, en_resolvedAt := Some now\<rparr>)"

definition mark_refunded :: "ident \<Rightarrow> (db, unit) tx" where
  "mark_refunded bookingId =
     tx_update booking booking_update (\<lambda>b. bk_id b = bookingId) (\<lambda>b. b\<lparr>bk_status := BK_REFUNDED\<rparr>)"

definition voucher_audit :: "ident \<Rightarrow> ident \<Rightarrow> ident option \<Rightarrow> time \<Rightarrow> bool \<Rightarrow> auditLog_row" where
  "voucher_audit voucherId bookingId actor expiresAt automatic =
     (audit_entry BOOKING ''GIFT_VOUCHER_RESTORED''
        [(''bookingId'', JStr bookingId), (''expiresAt'', JStr (toISOString expiresAt)), (''automatic'', JBool automatic)])
     \<lparr>au_actorUserId := actor, au_entityType := Some ''GiftVoucher'', au_entityId := Some voucherId\<rparr>"

definition restoreVoucher ::
  "entitlement_row \<Rightarrow> ident \<Rightarrow> giftVoucher_row \<Rightarrow> ident option \<Rightarrow> bool \<Rightarrow> time \<Rightarrow> (db, refundResult) tx" where
  "restoreVoucher en bookingId v actor automatic now =
     bindt (close_entitlement (en_id en) now) (\<lambda>count.
     if count = 0 then ret (Refund_refused NO_OPEN_ENTITLEMENT)
     else let floor = now + RESTORED_VOUCHER_MIN_DAYS * day_ms;
              expiresAt = (case gv_expiresAt v of None \<Rightarrow> floor | Some e \<Rightarrow> if floor < e then e else floor)
          in bindt (tx_update giftVoucher giftVoucher_update (\<lambda>g. gv_id g = gv_id v)
                 (\<lambda>g. g\<lparr>gv_status := GV_ACTIVE, gv_expiresAt := Some expiresAt, gv_redeemedAt := None,
                       gv_redeemedByUserId := None, gv_redeemedBookingId := None\<rparr>)) (\<lambda>_.
             bindt (mark_refunded bookingId) (\<lambda>_.
             bindt (recordAuditEvent (voucher_audit (gv_id v) bookingId actor expiresAt automatic)) (\<lambda>_.
             bindt (queueEmail (email (en_userId en) MAIL_GIFT_VOUCHER_RESTORED
                 (''gift-voucher-restored:'' @ gv_id v @ '':'' @ bookingId)
                 [(''voucherId'', gv_id v), (''bookingId'', bookingId)])) (\<lambda>_.
             ret (Refunded None (Some (gv_id v)) None 0))))))"

definition restoreFreeSlotPrize ::
  "entitlement_row \<Rightarrow> ident \<Rightarrow> ident \<Rightarrow> ident option \<Rightarrow> time \<Rightarrow> (db, refundResult) tx" where
  "restoreFreeSlotPrize en bookingId paidBookingId actor now =
     bindt (close_entitlement (en_id en) now) (\<lambda>count.
     if count = 0 then ret (Refund_refused NO_OPEN_ENTITLEMENT)
     else bindt (releaseCardPrize paidBookingId BOOKING_REFUNDED actor now) (\<lambda>prize.
          bindt (mark_refunded bookingId) (\<lambda>_.
          ret (Refunded None None prize 0))))"

definition minutes_audit :: "booking_row \<Rightarrow> ident \<Rightarrow> ident option \<Rightarrow> bool \<Rightarrow> auditLog_row" where
  "minutes_audit paid bookingId actor automatic =
     (audit_entry BOOKING ''BOOKING_MINUTES_RETURNED''
        [(''paidBookingId'', JStr (bk_id paid)), (''minutes'', JNum (bk_subscriptionMinutesSpent paid)),
         (''automatic'', JBool automatic)])
     \<lparr>au_actorUserId := actor, au_entityType := Some ''Booking'', au_entityId := Some bookingId\<rparr>"

definition returnMinutes ::
  "entitlement_row \<Rightarrow> ident \<Rightarrow> booking_row \<Rightarrow> ident option \<Rightarrow> bool \<Rightarrow> time \<Rightarrow> (db, refundResult) tx" where
  "returnMinutes en bookingId paid actor automatic now =
     bindt (close_entitlement (en_id en) now) (\<lambda>count.
     if count = 0 then ret (Refund_refused NO_OPEN_ENTITLEMENT)
     else bindt (releaseSpentMinutes (bk_id paid) (bk_userId paid) (bk_subscriptionMinutesSpent paid) now) (\<lambda>_.
          bindt (mark_refunded bookingId) (\<lambda>_.
          bindt (recordAuditEvent (minutes_audit paid bookingId actor automatic)) (\<lambda>_.
          bindt (queueEmail (email (bk_userId paid) MAIL_SUBSCRIPTION_MINUTES_RETURNED
              (''minutes-returned:'' @ bookingId)
              [(''bookingId'', bookingId), (''paidBookingId'', bk_id paid)])) (\<lambda>_.
          ret (Refunded None None None (bk_subscriptionMinutesSpent paid)))))))"

definition refund_audit :: "payment_row \<Rightarrow> ident \<Rightarrow> ident option \<Rightarrow> bool \<Rightarrow> auditLog_row" where
  "refund_audit p bookingId actor automatic =
     (audit_entry PAYMENT ''PAYMENT_REFUNDED''
        [(''bookingId'', JStr bookingId), (''provider'', JStr ''SANDBOX''),
         (''amountMinor'', JNum (pay_amountMinor p)), (''currency'', JStr ''GEL''), (''automatic'', JBool automatic)])
     \<lparr>au_actorUserId := actor, au_entityType := Some ''Payment'', au_entityId := Some (pay_id p)\<rparr>"

definition refundPayment ::
  "(ident \<Rightarrow> string) \<Rightarrow> entitlement_row \<Rightarrow> ident \<Rightarrow> payment_row \<Rightarrow> ident option \<Rightarrow> bool \<Rightarrow> time \<Rightarrow> (db, refundResult) tx" where
  "refundPayment codes en bookingId p actor automatic now =
     bindt (close_entitlement (en_id en) now) (\<lambda>count.
     if count = 0 then ret (Refund_refused NO_OPEN_ENTITLEMENT)
     else bindt (tx_update payment payment_update (\<lambda>q. pay_id q = pay_id p)
              (\<lambda>q. q\<lparr>pay_status := PAY_REFUNDED, pay_refundedAt := Some now\<rparr>)) (\<lambda>_.
          bindt (mark_refunded bookingId) (\<lambda>_.
          bindt (tx_find booking (\<lambda>b. bk_paymentId b = Some (pay_id p))) (\<lambda>paidBooking.
          bindt (reverseLoyaltyForRefund codes (pay_id p) (pay_userId p) paidBooking) (\<lambda>_.
          bindt (case paidBooking of None \<Rightarrow> ret None
                 | Some b \<Rightarrow> releaseCardPrize (bk_id b) BOOKING_REFUNDED actor now) (\<lambda>prize.
          bindt (recordAuditEvent (refund_audit p bookingId actor automatic)) (\<lambda>_.
          bindt (queueEmail (email (en_userId en) MAIL_BOOKING_REFUNDED (''booking-refunded:'' @ bookingId)
              [(''bookingId'', bookingId)])) (\<lambda>_.
          ret (Refunded (Some (pay_id p)) None prize 0)))))))))"

definition refundEntitledBooking ::
  "(ident \<Rightarrow> string) \<Rightarrow> ident \<Rightarrow> ident option \<Rightarrow> bool \<Rightarrow> time \<Rightarrow> (db, refundResult) tx" where
  "refundEntitledBooking codes bookingId actor automatic now =
     bindt (tx_find bookingEntitlement (\<lambda>e. en_bookingId e = bookingId)) (\<lambda>entitlement.
     case entitlement of None \<Rightarrow> ret (Refund_refused NO_OPEN_ENTITLEMENT)
     | Some en \<Rightarrow>
        if en_outcome en \<noteq> EN_OPEN then ret (Refund_refused NO_OPEN_ENTITLEMENT)
        else bindt (walk_chain MAX_RESCHEDULE_CHAIN (Some bookingId)) (\<lambda>funded.
        case funded of
          By_voucher v \<Rightarrow> restoreVoucher en bookingId v actor automatic now
        | By_free_slot paid \<Rightarrow> restoreFreeSlotPrize en bookingId paid actor now
        | By_minutes paid \<Rightarrow> returnMinutes en bookingId paid actor automatic now
        | Unfunded \<Rightarrow> ret (Refund_refused NOTHING_TO_REFUND)
        | By_payment p \<Rightarrow>
            if pay_status p \<noteq> PAY_CAPTURED then ret (Refund_refused NOTHING_TO_REFUND)
            else if pay_provider p \<noteq> SANDBOX then ret (Refund_refused PROVIDER_REFUND_UNAVAILABLE)
            else refundPayment codes en bookingId p actor automatic now))"

section \<open>The walk\<close>

lemma walk_chain_pure: "walk_chain n cur s = Inr (f, s') \<Longrightarrow> s' = s"
proof (induction n cur arbitrary: f rule: walk_chain.induct)
  case (3 steps current)
  then show ?case by (auto simp: tx_simps split: option.splits if_splits)
qed (auto simp: tx_simps)

lemma keeps_walk_chain [keeps_intros]: "keeps I (walk_chain n cur)"
  by (rule keepsI) (auto dest: walk_chain_pure)

text \<open>A chain of unfunded reschedules: each booking was rescheduled from the next.\<close>

fun reschedule_chain :: "db \<Rightarrow> ident \<Rightarrow> booking_row list \<Rightarrow> bool" where
  "reschedule_chain s i [] \<longleftrightarrow> False"
| "reschedule_chain s i [b] \<longleftrightarrow> find (\<lambda>x. bk_id x = i) (booking s) = Some b"
| "reschedule_chain s i (b # c # bs) \<longleftrightarrow> find (\<lambda>x. bk_id x = i) (booking s) = Some b
     \<and> funding_of s b = Unfunded \<and> rescheduledFrom s b = Some (bk_id c) \<and> reschedule_chain s (bk_id c) (c # bs)"

lemma walk_chain_reaches:
  assumes "reschedule_chain s i bs" and "length bs \<le> n" and "funding_of s (last bs) \<noteq> Unfunded"
  shows "walk_chain n (Some i) s = Inr (funding_of s (last bs), s)"
  using assms
proof (induction s i bs arbitrary: n rule: reschedule_chain.induct)
  case (2 s i b)
  then show ?case by (cases n) (auto simp: tx_simps)
next
  case (3 s i b c bs)
  then obtain m where n: "n = Suc m" by (cases n) auto
  have "walk_chain m (Some (bk_id c)) s = Inr (funding_of s (last (c # bs)), s)"
    using 3 n by simp
  with 3(2) show ?case by (simp add: n tx_simps)
qed simp

section \<open>What a refund does not touch\<close>

lemma audits_clean [simp]:
  "offending_keys (au_metadata (voucher_audit v b a t u)) = []"
  "offending_keys (au_metadata (minutes_audit pb b a u)) = []"
  "offending_keys (au_metadata (refund_audit p b a u)) = []"
  by (simp_all add: voucher_audit_def minutes_audit_def refund_audit_def)

lemmas refund_defs = refundEntitledBooking_def restoreVoucher_def restoreFreeSlotPrize_def returnMinutes_def
  refundPayment_def close_entitlement_def mark_refunded_def

lemma keeps_funding [keeps_intros]:
  assumes "\<And>p. f = By_payment p \<Longrightarrow> keeps I (m1 p)" and "\<And>v. f = By_voucher v \<Longrightarrow> keeps I (m2 v)"
    and "\<And>b. f = By_free_slot b \<Longrightarrow> keeps I (m3 b)" and "\<And>b. f = By_minutes b \<Longrightarrow> keeps I (m4 b)" and "keeps I m5"
  shows "keeps I (case f of By_payment p \<Rightarrow> m1 p | By_voucher v \<Rightarrow> m2 v | By_free_slot b \<Rightarrow> m3 b
     | By_minutes b \<Rightarrow> m4 b | Unfunded \<Rightarrow> m5)"
  using assms by (cases f) simp_all

lemma refund_keeps_credit_inv: "keeps credit_inv (refundEntitledBooking codes b a auto' now)"
  unfolding refund_defs
  by (intro keeps_intros keeps_table keeps_outbox keeps_loyalty_frame releaseCardPrize_frame)
    simp_all

lemma refund_keeps_loyalty_inv: "keeps loyalty_inv (refundEntitledBooking codes b a auto' now)"
  unfolding refund_defs
  by (intro keeps_intros keeps_table keeps_outbox keeps_credit_frame releaseCardPrize_frame)
    simp_all

section \<open>What a refund does\<close>

text \<open>The tables a refund must change in step; the ledgers and the prizes move beside them.\<close>

definition sale_tables :: "db \<Rightarrow> booking_row list \<times> payment_row list \<times> entitlement_row list" where
  "sale_tables s = (booking s, payment s, bookingEntitlement s)"

lemma sale_tables_eq: "sale_tables s' = sale_tables s \<longleftrightarrow>
    booking s' = booking s \<and> payment s' = payment s \<and> bookingEntitlement s' = bookingEntitlement s"
  by (auto simp: sale_tables_def)

lemma keeps_sale_tables:
  "keeps (\<lambda>s. sale_tables s = k) (reverseLoyaltyForRefund codes p u bk)"
  "keeps (\<lambda>s. sale_tables s = k) (releaseSpentMinutes b u n now)"
  "keeps (\<lambda>s. sale_tables s = k) (releaseCardPrize b c a now)"
  by (intro keeps_loyalty_frame keeps_credit_frame releaseCardPrize_frame; simp add: sale_tables_def)+

lemma reverse_frame: "reverseLoyaltyForRefund codes p u bk s = Inr (x, s') \<Longrightarrow>
    booking s' = booking s \<and> payment s' = payment s \<and> bookingEntitlement s' = bookingEntitlement s"
  using keepsD [OF keeps_sale_tables(1) refl] by (simp add: sale_tables_eq)

lemma minutes_frame: "releaseSpentMinutes b u n now s = Inr (x, s') \<Longrightarrow>
    booking s' = booking s \<and> payment s' = payment s \<and> bookingEntitlement s' = bookingEntitlement s"
  using keepsD [OF keeps_sale_tables(2) refl] by (simp add: sale_tables_eq)

lemma prize_frame: "releaseCardPrize b c a now s = Inr (x, s') \<Longrightarrow>
    booking s' = booking s \<and> payment s' = payment s \<and> bookingEntitlement s' = bookingEntitlement s"
  using keepsD [OF keeps_sale_tables(3) refl] by (simp add: sale_tables_eq)

text \<open>The sale tables after a refund of the booking, its payment (if any) and its entitlement.\<close>

definition refunded_bookings :: "ident \<Rightarrow> booking_row list \<Rightarrow> booking_row list" where
  "refunded_bookings i = updateMany (\<lambda>b. bk_id b = i) (\<lambda>b. b\<lparr>bk_status := BK_REFUNDED\<rparr>)"

definition refunded_payments :: "ident option \<Rightarrow> time \<Rightarrow> payment_row list \<Rightarrow> payment_row list" where
  "refunded_payments p now = updateMany (\<lambda>q. p = Some (pay_id q))
     (\<lambda>q. q\<lparr>pay_status := PAY_REFUNDED, pay_refundedAt := Some now\<rparr>)"

definition closed_entitlements :: "ident \<Rightarrow> time \<Rightarrow> entitlement_row list \<Rightarrow> entitlement_row list" where
  "closed_entitlements i now = updateMany (\<lambda>e. en_id e = i \<and> en_outcome e = EN_OPEN)
     (\<lambda>e. e\<lparr>en_outcome := EN_REFUNDED, en_resolvedAt := Some now\<rparr>)"

definition refund_step :: "ident \<Rightarrow> ident \<Rightarrow> ident option \<Rightarrow> time \<Rightarrow> db \<Rightarrow> db \<Rightarrow> bool" where
  "refund_step b en p now s s' \<longleftrightarrow> booking s' = refunded_bookings b (booking s)
     \<and> payment s' = refunded_payments p now (payment s)
     \<and> bookingEntitlement s' = closed_entitlements en now (bookingEntitlement s)
     \<and> list_ex (\<lambda>x. bk_id x = b) (booking s)"

lemmas refund_step_defs = refund_step_def refunded_bookings_def refunded_payments_def closed_entitlements_def

lemma no_payment [simp]: "refunded_payments None now t = t"
  by (simp add: refunded_payments_def updateMany_id)

lemma payment_flip: "(\<lambda>q. Some (i :: ident) = Some (pay_id q)) = (\<lambda>q. pay_id q = i)"
  by auto

lemma no_open_left:
  "length (filter P t) = 0 \<Longrightarrow> updateMany P f t = t"
  by (rule updateMany_id) (auto simp: filter_empty_conv)

lemma restoreVoucher_effect:
  assumes "restoreVoucher en b v a auto' now s = Inr (r, s')"
  shows "(r = Refund_refused NO_OPEN_ENTITLEMENT \<and> s' = s) \<or>
    (r = Refunded None (Some (gv_id v)) None 0 \<and> refund_step b (en_id en) None now s s')"
  using assms unfolding restoreVoucher_def close_entitlement_def mark_refunded_def Let_def
  by (auto simp: tx_simps refund_step_defs no_open_left updateMany_id split: if_splits)

lemma restoreFreeSlotPrize_effect:
  assumes "restoreFreeSlotPrize en b paid a now s = Inr (r, s')"
  shows "(r = Refund_refused NO_OPEN_ENTITLEMENT \<and> s' = s) \<or>
    (\<exists>z. r = Refunded None None z 0 \<and> refund_step b (en_id en) None now s s')"
  using assms unfolding restoreFreeSlotPrize_def close_entitlement_def mark_refunded_def
  by (auto simp: tx_simps refund_step_defs no_open_left updateMany_id bindt_eq_Inr dest!: prize_frame split: if_splits)

lemma returnMinutes_effect:
  assumes "returnMinutes en b paid a auto' now s = Inr (r, s')"
  shows "(r = Refund_refused NO_OPEN_ENTITLEMENT \<and> s' = s) \<or>
    (r = Refunded None None None (bk_subscriptionMinutesSpent paid) \<and> refund_step b (en_id en) None now s s')"
  using assms unfolding returnMinutes_def close_entitlement_def mark_refunded_def
  by (auto simp: tx_simps refund_step_defs no_open_left updateMany_id bindt_eq_Inr dest!: minutes_frame split: if_splits)

text \<open>The paths end with an audit entry and an email, which leave the sale tables alone.\<close>

lemma outbox_tail:
  assumes "bindt (recordAuditEvent e) (\<lambda>_. bindt (queueEmail m) (\<lambda>_. ret x)) s = Inr (r, s')"
    and "offending_keys (au_metadata e) = []" and "offending_keys (ml_payload m) = []"
  shows "r = x \<and> booking s' = booking s \<and> payment s' = payment s \<and> bookingEntitlement s' = bookingEntitlement s"
  using assms by (auto simp: tx_simps split: if_splits)

lemma refundPayment_effect:
  assumes "refundPayment codes en b p a auto' now s = Inr (r, s')"
  shows "(r = Refund_refused NO_OPEN_ENTITLEMENT \<and> s' = s) \<or>
    (\<exists>z. r = Refunded (Some (pay_id p)) None z 0 \<and> refund_step b (en_id en) (Some (pay_id p)) now s s')"
proof (cases "length (filter (\<lambda>e. en_id e = en_id en \<and> en_outcome e = EN_OPEN) (bookingEntitlement s)) = 0")
  case True
  with assms show ?thesis
    unfolding refundPayment_def close_entitlement_def by (simp add: tx_simps no_open_left [OF True])
next
  case False
  define s3 where "s3 = s\<lparr>bookingEntitlement := closed_entitlements (en_id en) now (bookingEntitlement s),
    payment := refunded_payments (Some (pay_id p)) now (payment s), booking := refunded_bookings b (booking s)\<rparr>"
  define bk where "bk = find (\<lambda>b. bk_paymentId b = Some (pay_id p)) (booking s3)"
  have b: "list_ex (\<lambda>x. bk_id x = b) (booking s)"
    using assms False unfolding refundPayment_def close_entitlement_def mark_refunded_def
    by (simp add: tx_updateMany_apply(2) tx_update_apply(2) split: if_splits)
  from assms False
  have "bindt (reverseLoyaltyForRefund codes (pay_id p) (pay_userId p) bk) (\<lambda>_.
      bindt (case bk of None \<Rightarrow> ret None | Some b \<Rightarrow> releaseCardPrize (bk_id b) BOOKING_REFUNDED a now) (\<lambda>prize.
      bindt (recordAuditEvent (refund_audit p b a auto')) (\<lambda>_.
      bindt (queueEmail (email (en_userId en) MAIL_BOOKING_REFUNDED (''booking-refunded:'' @ b) [(''bookingId'', b)])) (\<lambda>_.
      ret (Refunded (Some (pay_id p)) None prize 0))))) s3 = Inr (r, s')"
    unfolding refundPayment_def close_entitlement_def mark_refunded_def bk_def s3_def refund_step_defs payment_flip
    by (simp add: tx_updateMany_apply(2) tx_update_apply(2) tx_find_apply(2) split: if_splits)
  then obtain s4 s5 z where r: "reverseLoyaltyForRefund codes (pay_id p) (pay_userId p) bk s3 = Inr ((), s4)"
    and z: "(case bk of None \<Rightarrow> ret None | Some b \<Rightarrow> releaseCardPrize (bk_id b) BOOKING_REFUNDED a now) s4 = Inr (z, s5)"
    and t: "bindt (recordAuditEvent (refund_audit p b a auto')) (\<lambda>_.
      bindt (queueEmail (email (en_userId en) MAIL_BOOKING_REFUNDED (''booking-refunded:'' @ b) [(''bookingId'', b)])) (\<lambda>_.
      ret (Refunded (Some (pay_id p)) None z 0))) s5 = Inr (r, s')"
    unfolding bindt_eq_Inr [of "reverseLoyaltyForRefund codes (pay_id p) (pay_userId p) bk"]
      bindt_eq_Inr [of "case bk of None \<Rightarrow> ret None | Some b \<Rightarrow> releaseCardPrize (bk_id b) BOOKING_REFUNDED a now"] by auto
  have "booking s5 = booking s4 \<and> payment s5 = payment s4 \<and> bookingEntitlement s5 = bookingEntitlement s4"
    using z by (auto simp: tx_simps split: option.splits dest: prize_frame)
  with reverse_frame [OF r] outbox_tail [OF t] b show ?thesis
    by (auto simp: s3_def refund_step_def)
qed

lemma walk_payment: "walk_chain n cur s = Inr (By_payment p, s') \<Longrightarrow> p \<in> set (payment s)"
proof (induction n cur rule: walk_chain.induct)
  case (3 steps current)
  then show ?case
    by (auto simp: tx_simps funding_of_def payment_of_def dest: find_SomeD split: option.splits if_splits)
qed (auto simp: tx_simps)

lemma refund_effect:
  assumes "refundEntitledBooking codes b a auto' now s = Inr (r, s')"
  shows "(\<exists>why. r = Refund_refused why \<and> s' = s) \<or>
    (\<exists>en p v z m. r = Refunded p v z m \<and> find (\<lambda>e. en_bookingId e = b) (bookingEntitlement s) = Some en
       \<and> en_outcome en = EN_OPEN \<and> refund_step b (en_id en) p now s s'
       \<and> (\<forall>i. p = Some i \<longrightarrow> (\<exists>q \<in> set (payment s). pay_id q = i \<and> pay_status q = PAY_CAPTURED \<and> pay_provider q = SANDBOX)))"
proof (cases "find (\<lambda>e. en_bookingId e = b) (bookingEntitlement s)")
  case None
  with assms show ?thesis by (auto simp: refundEntitledBooking_def tx_simps)
next
  case (Some en)
  show ?thesis
  proof (cases "en_outcome en = EN_OPEN")
    case False
    with assms Some show ?thesis by (auto simp: refundEntitledBooking_def tx_simps)
  next
    case True
    with assms Some obtain f where w: "walk_chain MAX_RESCHEDULE_CHAIN (Some b) s = Inr (f, s)"
      and k: "(case f of By_voucher v \<Rightarrow> restoreVoucher en b v a auto' now
        | By_free_slot paid \<Rightarrow> restoreFreeSlotPrize en b paid a now
        | By_minutes paid \<Rightarrow> returnMinutes en b paid a auto' now
        | Unfunded \<Rightarrow> ret (Refund_refused NOTHING_TO_REFUND)
        | By_payment p \<Rightarrow> if pay_status p \<noteq> PAY_CAPTURED then ret (Refund_refused NOTHING_TO_REFUND)
            else if pay_provider p \<noteq> SANDBOX then ret (Refund_refused PROVIDER_REFUND_UNAVAILABLE)
            else refundPayment codes en b p a auto' now) s = Inr (r, s')"
      by (auto simp: refundEntitledBooking_def tx_find_apply bindt_eq_Inr [of "walk_chain n c" for n c] dest: walk_chain_pure)
    show ?thesis
    proof (cases f)
      case (By_payment p)
      with k w True Some show ?thesis
        by (auto simp: ret_apply dest!: refundPayment_effect walk_payment split: if_splits)
    next
      case (By_voucher v)
      with k True Some show ?thesis by (auto dest!: restoreVoucher_effect)
    next
      case (By_free_slot paid)
      with k True Some show ?thesis by (auto dest!: restoreFreeSlotPrize_effect)
    next
      case (By_minutes paid)
      with k True Some show ?thesis by (auto dest!: returnMinutes_effect)
    next
      case Unfunded
      with k show ?thesis by (auto simp: ret_apply)
    qed
  qed
qed

lemma find_closed:
  assumes "find (\<lambda>e. en_bookingId e = b) t = Some en"
  shows "find (\<lambda>e. en_bookingId e = b) (closed_entitlements (en_id en) now t)
    = Some (if en_outcome en = EN_OPEN then en\<lparr>en_outcome := EN_REFUNDED, en_resolvedAt := Some now\<rparr> else en)"
  unfolding closed_entitlements_def by (subst find_updateMany_key) (use assms in simp_all)

lemma walk_chain_too_long:
  assumes "reschedule_chain s i bs" and "n < length bs"
  shows "walk_chain n (Some i) s = Inr (Unfunded, s)"
  using assms
proof (induction s i bs arbitrary: n rule: reschedule_chain.induct)
  case (2 s i b)
  then show ?case by (simp add: tx_simps)
next
  case (3 s i b c bs)
  then show ?case by (cases n) (auto simp: tx_simps)
qed simp

section \<open>Properties\<close>

text \<open>
  C18: A refund that is refused leaves the database as it was. A refund that goes through
  found the booking's entitlement open and closes exactly that entitlement, marks exactly
  that booking refunded, and changes the payments in one case only: the payment it reports
  was captured on the sandbox provider, and it alone becomes refunded, at the given instant.
\<close>

theorem refund_is_all_or_nothing:
  assumes "refundEntitledBooking codes b a automatic now s = Inr (r, s')"
  shows "case r of
      Refund_refused why \<Rightarrow> s' = s
    | Refunded p v z m \<Rightarrow> \<exists>en. find (\<lambda>e. en_bookingId e = b) (bookingEntitlement s) = Some en
        \<and> en_outcome en = EN_OPEN
        \<and> bookingEntitlement s' = updateMany (\<lambda>e. en_id e = en_id en \<and> en_outcome e = EN_OPEN)
             (\<lambda>e. e\<lparr>en_outcome := EN_REFUNDED, en_resolvedAt := Some now\<rparr>) (bookingEntitlement s)
        \<and> list_ex (\<lambda>x. bk_id x = b) (booking s)
        \<and> booking s' = updateMany (\<lambda>x. bk_id x = b) (\<lambda>x. x\<lparr>bk_status := BK_REFUNDED\<rparr>) (booking s)
        \<and> payment s' = updateMany (\<lambda>q. p = Some (pay_id q))
             (\<lambda>q. q\<lparr>pay_status := PAY_REFUNDED, pay_refundedAt := Some now\<rparr>) (payment s)
        \<and> (\<forall>i. p = Some i \<longrightarrow> (\<exists>q \<in> set (payment s). pay_id q = i \<and> pay_status q = PAY_CAPTURED \<and> pay_provider q = SANDBOX))"
  using refund_effect [OF assms] by (auto simp: refund_step_defs)

text \<open>A paid and weathered-out booking, rescheduled once: the database the examples start from.\<close>

definition paid_booking :: booking_row where
  "paid_booking = \<lparr>bk_id = ''b1'', bk_userId = ''u1'', bk_targetId = ''m31'', bk_observatoryId = ''o1'',
     bk_telescopeId = ''t1'', bk_missionId = None, bk_paymentId = Some ''p1'', bk_slotStartAt = 1000,
     bk_durationMinutes = 30, bk_status = BK_CONFIRMED, bk_holdExpiresAt = None, bk_priceMinor = 9000,
     bk_currency = GEL, bk_idempotencyKey = None, bk_tierDiscountMinor = 0, bk_loyaltyPointsRedeemed = 0,
     bk_subscriptionMinutesSpent = 0, bk_isDemo = False, bk_createdAt = 0\<rparr>"

definition captured_payment :: payment_row where
  "captured_payment = \<lparr>pay_id = ''p1'', pay_userId = ''u1'', pay_purpose = FOR_BOOKING, pay_provider = SANDBOX,
     pay_status = PAY_CAPTURED, pay_amountMinor = 9000, pay_currency = GEL, pay_providerRef = None,
     pay_redirectUrl = None, pay_failureReason = None, pay_capturedAt = Some 500, pay_refundedAt = None,
     pay_subscriptionId = None, pay_periodStart = None, pay_isDemo = False\<rparr>"

definition refund_db :: db where
  "refund_db = empty_db\<lparr>booking := [paid_booking, paid_booking\<lparr>bk_id := ''b2'', bk_paymentId := None\<rparr>],
     payment := [captured_payment],
     bookingEntitlement := [
       \<lparr>en_id = ''e1'', en_bookingId = ''b1'', en_userId = ''u1'', en_outcome = EN_RESCHEDULED,
        en_resolvedAt = Some 600, en_rescheduledBookingId = Some ''b2'',
        en_cause = Some LOSS_WEATHER, en_minutesLost = 30, en_expiresAt = Some 900\<rparr>,
       \<lparr>en_id = ''e2'', en_bookingId = ''b2'', en_userId = ''u1'', en_outcome = EN_OPEN,
        en_resolvedAt = None, en_rescheduledBookingId = None,
        en_cause = Some LOSS_WEATHER, en_minutesLost = 30, en_expiresAt = Some 900\<rparr>]\<rparr>"

lemma refund_db_tables [simp]:
  "booking refund_db = [paid_booking, paid_booking\<lparr>bk_id := ''b2'', bk_paymentId := None\<rparr>]"
  "payment refund_db = [captured_payment]" "loyaltyLedgerEntry refund_db = []" "cardPrize refund_db = []"
  "giftVoucher refund_db = []" "emailNotification refund_db = []"
  "bookingEntitlement refund_db = [
       \<lparr>en_id = ''e1'', en_bookingId = ''b1'', en_userId = ''u1'', en_outcome = EN_RESCHEDULED,
        en_resolvedAt = Some 600, en_rescheduledBookingId = Some ''b2'',
        en_cause = Some LOSS_WEATHER, en_minutesLost = 30, en_expiresAt = Some 900\<rparr>,
       \<lparr>en_id = ''e2'', en_bookingId = ''b2'', en_userId = ''u1'', en_outcome = EN_OPEN,
        en_resolvedAt = None, en_rescheduledBookingId = None,
        en_cause = Some LOSS_WEATHER, en_minutesLost = 30, en_expiresAt = Some 900\<rparr>]"
  by (simp_all add: refund_db_def empty_db_def)

lemma refund_db_funding:
  "funding_of refund_db (paid_booking\<lparr>bk_id := ''b2'', bk_paymentId := None\<rparr>) = Unfunded"
  "funding_of refund_db paid_booking = By_payment captured_payment"
  by (simp_all add: funding_of_def payment_of_def voucher_of_def prize_of_def paid_booking_def captured_payment_def)

lemma refund_db_chain:
  "reschedule_chain refund_db ''b2'' [paid_booking\<lparr>bk_id := ''b2'', bk_paymentId := None\<rparr>, paid_booking]"
  by (simp add: refund_db_funding rescheduledFrom_def) (simp add: paid_booking_def)

lemma refund_db_refunded:
  "\<exists>s'. refundEntitledBooking codes ''b2'' None True 700 refund_db = Inr (Refunded (Some ''p1'') None None 0, s')"
proof -
  have "walk_chain MAX_RESCHEDULE_CHAIN (Some ''b2'') refund_db = Inr (By_payment captured_payment, refund_db)"
    using walk_chain_reaches [OF refund_db_chain, of MAX_RESCHEDULE_CHAIN]
    by (simp add: MAX_RESCHEDULE_CHAIN_def refund_db_funding)
  then show ?thesis
    by (simp add: refundEntitledBooking_def refundPayment_def close_entitlement_def mark_refunded_def tx_simps
        bindt_Inr reverseLoyaltyForRefund_def releaseRedeemedPoints_def releaseCardPrize_def
        captured_payment_def paid_booking_def)
qed

theorem refund_is_all_or_nothing_witness:
  "\<exists>s'. refundEntitledBooking (\<lambda>u. u) ''b2'' None True 700 refund_db = Inr (Refunded (Some ''p1'') None None 0, s')
     \<and> map bk_status (booking s') = [BK_CONFIRMED, BK_REFUNDED] \<and> map pay_status (payment s') = [PAY_REFUNDED]
     \<and> map en_outcome (bookingEntitlement s') = [EN_RESCHEDULED, EN_REFUNDED]"
proof -
  obtain s' where r: "refundEntitledBooking (\<lambda>u. u) ''b2'' None True 700 refund_db = Inr (Refunded (Some ''p1'') None None 0, s')"
    using refund_db_refunded by blast
  show ?thesis
    by (rule exI [of _ s']) (use r refund_is_all_or_nothing [OF r] in \<open>auto simp: paid_booking_def captured_payment_def\<close>)
qed

text \<open>
  C19: A booking is refunded at most once: after a refund that went through, every further
  call for that booking, by whoever and whenever, finds the entitlement closed and changes
  nothing.
\<close>

theorem refund_happens_once:
  assumes "refundEntitledBooking codes b a automatic now s = Inr (Refunded p v z m, s')"
  shows "refundEntitledBooking codes b a' automatic' later s' = Inr (Refund_refused NO_OPEN_ENTITLEMENT, s')"
  using refund_effect [OF assms]
  by (auto simp: refund_step_def refundEntitledBooking_def tx_simps find_closed)

theorem refund_happens_once_witness:
  "\<exists>s'. refundEntitledBooking (\<lambda>u. u) ''b2'' None True 700 refund_db = Inr (Refunded (Some ''p1'') None None 0, s')
     \<and> refundEntitledBooking (\<lambda>u. u) ''b2'' (Some ''op'') False 800 s' = Inr (Refund_refused NO_OPEN_ENTITLEMENT, s')"
proof -
  obtain s' where r: "refundEntitledBooking (\<lambda>u. u) ''b2'' None True 700 refund_db = Inr (Refunded (Some ''p1'') None None 0, s')"
    using refund_db_refunded by blast
  show ?thesis
    by (rule exI [of _ s']) (use r refund_happens_once [OF r] in blast)
qed

text \<open>
  The walk to whatever paid. Behind a chain of bookings of which only the oldest was
  paid for, a refund of the newest finds that booking's funding when the chain has at most
  twelve bookings; behind a longer chain it is refused as nothing to refund.
\<close>

theorem refund_walks_the_chain:
  assumes "reschedule_chain s b bs" and "funding_of s (last bs) \<noteq> Unfunded"
  shows "if length bs \<le> 12 then walk_chain MAX_RESCHEDULE_CHAIN (Some b) s = Inr (funding_of s (last bs), s)
    else \<exists>why. refundEntitledBooking codes b a automatic now s = Inr (Refund_refused why, s)
      \<and> why \<in> {NO_OPEN_ENTITLEMENT, NOTHING_TO_REFUND}"
  using walk_chain_reaches [OF assms(1) _ assms(2), of MAX_RESCHEDULE_CHAIN]
    walk_chain_too_long [OF assms(1), of MAX_RESCHEDULE_CHAIN]
  by (auto simp: MAX_RESCHEDULE_CHAIN_def refundEntitledBooking_def tx_find_apply ret_apply bindt_Inr split: option.split)

theorem refund_walks_the_chain_witness:
  "walk_chain MAX_RESCHEDULE_CHAIN (Some ''b2'') refund_db = Inr (By_payment captured_payment, refund_db)"
  using refund_walks_the_chain [OF refund_db_chain] by (simp add: refund_db_funding)

text \<open>
  Whatever a refund does, committed or rolled back, both ledgers stay consistent with
  their accounts: the credit ledger's and the loyalty ledger's invariants survive it.
\<close>

theorem refund_keeps_the_ledgers:
  assumes "credit_inv s" and "loyalty_inv s"
  shows "credit_inv (snd (transaction (refundEntitledBooking codes b a automatic now) s))
    \<and> loyalty_inv (snd (transaction (refundEntitledBooking codes b a automatic now) s))"
  using transaction_keeps [OF refund_keeps_credit_inv assms(1)] transaction_keeps [OF refund_keeps_loyalty_inv assms(2)]
  by blast

theorem refund_keeps_the_ledgers_witness:
  "credit_inv refund_db \<and> loyalty_inv refund_db
   \<and> credit_inv (snd (transaction (refundEntitledBooking (\<lambda>u. u) ''b2'' None True 700) refund_db))"
proof -
  have i: "credit_inv refund_db" "loyalty_inv refund_db"
    by (simp_all add: refund_db_def empty_db_def credit_inv_def loyalty_inv_def)
  with refund_keeps_the_ledgers [OF i] show ?thesis by blast
qed

end
