(* ===== verification/Safety.thy ===== *)
theory Safety
  imports Schema
begin

text \<open>
  The safety envelope: src/apps/api/src/lib/safety/envelope.ts, the coordinate functions of
  src/apps/api/src/lib/ephemeris/engine.ts it rests on, and the admission rule for simulated
  limits, src/packages/db/simulator-envelope.ts.

  Angles are real numbers: the arithmetic is exact where the sources round. Where the sources
  ask \<open>Number.isFinite\<close>, the value is a \<open>number\<close>, which may be none. The astronomy engine is a
  package outside the repository: its three functions the sources call are the fields of a
  record \<open>astronomy\<close>, an argument of every definition that needs one. A verdict carries the
  reason; the English detail beside it is display text and is left out.
\<close>

section \<open>Numbers and positions\<close>

fun isFinite :: "number \<Rightarrow> bool" where
  "isFinite (Num r) = True"
| "isFinite NaN = False"
| "isFinite PosInf = False"
| "isFinite NegInf = False"

fun real_of_number :: "number \<Rightarrow> real" where
  "real_of_number (Num r) = r"
| "real_of_number NaN = 0"
| "real_of_number PosInf = 0"
| "real_of_number NegInf = 0"

record site =
  st_latitudeDegrees :: real
  st_longitudeDegrees :: real
  st_elevationMetres :: "real option"

record horizontal =
  hz_altitudeDegrees :: real
  hz_azimuthDegrees :: real

datatype engineBody = Engine_Sun | Engine_Body solarSystemBody

text \<open>\<open>new Observer(latitude, longitude, elevation)\<close>.\<close>

type_synonym observer = "real \<times> real \<times> real"

text \<open>
  \<open>Equator(body, time, observer, ofDate, aberration)\<close>, \<open>Horizon(time, observer, ra, dec,
  refraction)\<close> (refraction is \<open>normal\<close> or absent) and \<open>SearchRiseSet\<close> for a star defined at
  the given coordinates, within a day.
\<close>

record astronomy =
  as_equator :: "engineBody \<Rightarrow> time \<Rightarrow> observer \<Rightarrow> bool \<Rightarrow> bool \<Rightarrow> equatorial"
  as_horizon :: "time \<Rightarrow> observer \<Rightarrow> real \<Rightarrow> real \<Rightarrow> bool \<Rightarrow> horizontal"
  as_riseSet :: "equatorial \<Rightarrow> observer \<Rightarrow> int \<Rightarrow> time \<Rightarrow> time option"

definition observerOf :: "site \<Rightarrow> observer" where
  "observerOf st = (st_latitudeDegrees st, st_longitudeDegrees st,
     (case st_elevationMetres st of None \<Rightarrow> 0 | Some e \<Rightarrow> e))"

definition equatorialOfBody :: "astronomy \<Rightarrow> solarSystemBody \<Rightarrow> time \<Rightarrow> site \<Rightarrow> equatorial" where
  "equatorialOfBody A body t st = as_equator A (Engine_Body body) t (observerOf st) False True"

definition horizontalOf :: "astronomy \<Rightarrow> equatorial \<Rightarrow> time \<Rightarrow> site \<Rightarrow> horizontal" where
  "horizontalOf A c t st = as_horizon A t (observerOf st) (eq_raHours c) (eq_decDegrees c) True"

definition horizontalAirlessOf :: "astronomy \<Rightarrow> equatorial \<Rightarrow> time \<Rightarrow> site \<Rightarrow> horizontal" where
  "horizontalAirlessOf A c t st = as_horizon A t (observerOf st) (eq_raHours c) (eq_decDegrees c) False"

definition sunHorizontal :: "astronomy \<Rightarrow> time \<Rightarrow> site \<Rightarrow> horizontal" where
  "sunHorizontal A t st =
     (let sun = as_equator A Engine_Sun t (observerOf st) True True
      in as_horizon A t (observerOf st) (eq_raHours sun) (eq_decDegrees sun) False)"

definition sunAltitudeDegrees :: "astronomy \<Rightarrow> time \<Rightarrow> site \<Rightarrow> real" where
  "sunAltitudeDegrees A t st = hz_altitudeDegrees (sunHorizontal A t st)"

text \<open>The spherical law of cosines, clamped into the domain of \<open>acos\<close>.\<close>

definition horizontalSeparationDegrees :: "horizontal \<Rightarrow> horizontal \<Rightarrow> real" where
  "horizontalSeparationDegrees left right =
     (let toRadians = pi / 180;
          alt1 = hz_altitudeDegrees left * toRadians; alt2 = hz_altitudeDegrees right * toRadians;
          az1 = hz_azimuthDegrees left * toRadians; az2 = hz_azimuthDegrees right * toRadians;
          cosine = sin alt1 * sin alt2 + cos alt1 * cos alt2 * cos (az2 - az1)
      in arccos (min 1 (max (- 1) cosine)) / toRadians)"

definition angularSeparationDegrees :: "equatorial \<Rightarrow> equatorial \<Rightarrow> real" where
  "angularSeparationDegrees left right =
     (let toRadians = pi / 180;
          ra1 = eq_raHours left * 15 * toRadians; ra2 = eq_raHours right * 15 * toRadians;
          dec1 = eq_decDegrees left * toRadians; dec2 = eq_decDegrees right * toRadians;
          cosine = sin dec1 * sin dec2 + cos dec1 * cos dec2 * cos (ra1 - ra2)
      in arccos (min 1 (max (- 1) cosine)) / toRadians)"

definition moonSeparationDegrees :: "astronomy \<Rightarrow> equatorial \<Rightarrow> time \<Rightarrow> site \<Rightarrow> real" where
  "moonSeparationDegrees A c t st = angularSeparationDegrees c (equatorialOfBody A BODY_MOON t st)"

definition riseSet :: "astronomy \<Rightarrow> equatorial \<Rightarrow> time \<Rightarrow> site \<Rightarrow> time option \<times> time option" where
  "riseSet A c t st = (as_riseSet A c (observerOf st) 1 t, as_riseSet A c (observerOf st) (- 1) t)"

section \<open>The envelope\<close>

datatype commandRejectionReason =
  SAFETY_ENVELOPE_UNMEASURED | DEVICE_UNAVAILABLE | SAFETY_SUN_EXCLUSION | SAFETY_DAYLIGHT_LOCK
| SAFETY_BELOW_MIN_ALTITUDE | SAFETY_ABOVE_MAX_ALTITUDE | SAFETY_HORIZON_MASK | SAFETY_FORBIDDEN_AZIMUTH
| SAFETY_NUDGE_LIMIT_EXCEEDED | SAFETY_SLEW_RATE

datatype safetyVerdict = PERMITTED | Refused_pointing commandRejectionReason

definition MIN_SUN_EXCLUSION_DEGREES :: real where "MIN_SUN_EXCLUSION_DEGREES = 15"
definition MAX_DAYLIGHT_LOCK_ALTITUDE_DEGREES :: real where "MAX_DAYLIGHT_LOCK_ALTITUDE_DEGREES = 0"

definition sunExclusionDegrees :: "safetyEnvelopeConfig \<Rightarrow> real" where
  "sunExclusionDegrees config =
     (let configured = se_sunExclusionDegrees config
      in if \<not> isFinite configured then 180 else max (real_of_number configured) MIN_SUN_EXCLUSION_DEGREES)"

definition daylightLockAltitudeDegrees :: "safetyEnvelopeConfig \<Rightarrow> real" where
  "daylightLockAltitudeDegrees config =
     (let configured = se_daylightLockSunAltitudeDegrees config
      in if \<not> isFinite configured then - 90
         else min (real_of_number configured) MAX_DAYLIGHT_LOCK_ALTITUDE_DEGREES)"

definition isMeasured :: "safetyEnvelopeConfig option \<Rightarrow> bool" where
  "isMeasured config \<longleftrightarrow> (case config of None \<Rightarrow> False | Some c \<Rightarrow> se_maxAltitudeDegrees c \<noteq> None)"

text \<open>JavaScript's \<open>%\<close>: the remainder takes the sign of the dividend.\<close>

definition js_rem :: "real \<Rightarrow> real \<Rightarrow> real" where
  "js_rem x y = x - y * of_int (if 0 \<le> x / y then floor (x / y) else ceiling (x / y))"

definition normaliseAzimuth :: "real \<Rightarrow> real" where
  "normaliseAzimuth azimuth =
     (let wrapped = js_rem (js_rem azimuth 360 + 360) 360 in if 360 \<le> wrapped then 0 else wrapped)"

definition azimuthInSector :: "real \<Rightarrow> real \<Rightarrow> real \<Rightarrow> bool" where
  "azimuthInSector azimuthDegrees fromDegrees toDegrees =
     (let azimuth = normaliseAzimuth azimuthDegrees;
          start = normaliseAzimuth fromDegrees;
          end' = normaliseAzimuth toDegrees
      in if start = end' then False
         else if start < end' then start \<le> azimuth \<and> azimuth < end'
         else start \<le> azimuth \<or> azimuth < end')"

abbreviation mask_azimuth :: "horizonMaskEntry \<Rightarrow> real" where
  "mask_azimuth e \<equiv> normaliseAzimuth (hm_azimuthDegrees e)"

text \<open>The survey between two bearings, at a fraction of the way.\<close>

definition interpolate :: "real \<Rightarrow> real \<Rightarrow> real \<Rightarrow> real \<Rightarrow> real \<Rightarrow> real" where
  "interpolate azimuth previousAzimuth previousMin entryAzimuth entryMin =
     (let spn = entryAzimuth - previousAzimuth;
          fraction = (if spn = 0 then 0 else (azimuth - previousAzimuth) / spn)
      in previousMin + (entryMin - previousMin) * fraction)"

text \<open>The loop over the sorted entries, with the entry before the current one and its bearing.\<close>

fun mask_scan :: "real \<Rightarrow> horizonMaskEntry \<Rightarrow> real \<Rightarrow> horizonMaskEntry list \<Rightarrow> real option" where
  "mask_scan azimuth previous previousAzimuth [] = None"
| "mask_scan azimuth previous previousAzimuth (entry # rest) =
     (if mask_azimuth entry = azimuth then Some (hm_minAltitudeDegrees entry)
      else if mask_azimuth entry > azimuth
           then Some (interpolate azimuth previousAzimuth (hm_minAltitudeDegrees previous)
                  (mask_azimuth entry) (hm_minAltitudeDegrees entry))
      else mask_scan azimuth entry (mask_azimuth entry) rest)"

definition horizonMinimumAltitude :: "real \<Rightarrow> horizonMaskEntry list \<Rightarrow> real option" where
  "horizonMinimumAltitude azimuthDegrees survey =
     (if survey = [] then None
      else let azimuth = normaliseAzimuth azimuthDegrees;
               entries = sort_key mask_azimuth survey
           in if length entries = 1 then Some (hm_minAltitudeDegrees (hd entries))
              else case mask_scan azimuth (last entries) (mask_azimuth (last entries) - 360) entries of
                Some m \<Rightarrow> Some m
              | None \<Rightarrow> Some (interpolate azimuth (mask_azimuth (last entries)) (hm_minAltitudeDegrees (last entries))
                          (mask_azimuth (hd entries) + 360) (hm_minAltitudeDegrees (hd entries))))"

record pointingInput =
  pi_config :: "safetyEnvelopeConfig option"
  pi_site :: "site option"
  pi_at :: time
  pi_altitudeDegrees :: number
  pi_azimuthDegrees :: number
  pi_operatorOverride :: bool

text \<open>The checks on a measured envelope and a finite position, in the order of the source.\<close>

definition judge_pointing ::
  "astronomy \<Rightarrow> safetyEnvelopeConfig \<Rightarrow> real \<Rightarrow> site \<Rightarrow> time \<Rightarrow> real \<Rightarrow> real \<Rightarrow> bool \<Rightarrow> safetyVerdict" where
  "judge_pointing A config maxAltitude st t altitude azimuth operatorOverride =
     (let sun = sunHorizontal A t st;
          separation = horizontalSeparationDegrees \<lparr>hz_altitudeDegrees = altitude, hz_azimuthDegrees = azimuth\<rparr> sun;
          surveyed = horizonMinimumAltitude azimuth (se_horizonMask config)
      in if separation < sunExclusionDegrees config then Refused_pointing SAFETY_SUN_EXCLUSION
         else if daylightLockAltitudeDegrees config < hz_altitudeDegrees sun \<and> \<not> operatorOverride
              then Refused_pointing SAFETY_DAYLIGHT_LOCK
         else if altitude < se_minAltitudeDegrees config then Refused_pointing SAFETY_BELOW_MIN_ALTITUDE
         else if maxAltitude < altitude then Refused_pointing SAFETY_ABOVE_MAX_ALTITUDE
         else if (case surveyed of None \<Rightarrow> False | Some m \<Rightarrow> altitude < m) then Refused_pointing SAFETY_HORIZON_MASK
         else if list_ex (\<lambda>sector. azimuthInSector azimuth (sx_fromDegrees sector) (sx_toDegrees sector))
                   (se_forbiddenAzimuthSectors config)
              then Refused_pointing SAFETY_FORBIDDEN_AZIMUTH
         else PERMITTED)"

definition evaluatePointing :: "astronomy \<Rightarrow> pointingInput \<Rightarrow> safetyVerdict" where
  "evaluatePointing A input =
     (case pi_config input of None \<Rightarrow> Refused_pointing SAFETY_ENVELOPE_UNMEASURED
      | Some config \<Rightarrow> (case se_maxAltitudeDegrees config of None \<Rightarrow> Refused_pointing SAFETY_ENVELOPE_UNMEASURED
      | Some maxAltitude \<Rightarrow>
          if \<not> isFinite (pi_altitudeDegrees input) \<or> \<not> isFinite (pi_azimuthDegrees input)
          then Refused_pointing DEVICE_UNAVAILABLE
          else case pi_site input of None \<Rightarrow> Refused_pointing SAFETY_SUN_EXCLUSION
               | Some st \<Rightarrow> judge_pointing A config maxAltitude st (pi_at input)
                   (real_of_number (pi_altitudeDegrees input)) (real_of_number (pi_azimuthDegrees input))
                   (pi_operatorOverride input)))"

definition evaluateNudgeStep :: "safetyEnvelopeConfig option \<Rightarrow> real \<Rightarrow> safetyVerdict" where
  "evaluateNudgeStep config requestedStepDegrees =
     (case config of None \<Rightarrow> Refused_pointing SAFETY_ENVELOPE_UNMEASURED
      | Some c \<Rightarrow>
          if \<not> isMeasured config then Refused_pointing SAFETY_ENVELOPE_UNMEASURED
          else if requestedStepDegrees < 0 then Refused_pointing SAFETY_NUDGE_LIMIT_EXCEEDED
          else if se_nudgeRateDegreesPerSecond c < requestedStepDegrees then Refused_pointing SAFETY_SLEW_RATE
          else if se_nudgeMaxDegrees c < requestedStepDegrees then Refused_pointing SAFETY_NUDGE_LIMIT_EXCEEDED
          else PERMITTED)"

section \<open>Simulated limits (simulator-envelope.ts)\<close>

text \<open>
  \<open>trim\<close> drops leading whitespace (what trails does not matter to a prefix), \<open>toUpperCase\<close> is
  taken on ASCII letters.
\<close>

definition white :: "char \<Rightarrow> bool" where
  "white c \<longleftrightarrow> c = CHR '' '' \<or> c \<in> {CHR 0x09, CHR 0x0A, CHR 0x0B, CHR 0x0C, CHR 0x0D}"

definition isSimulatorMarked :: "string option \<Rightarrow> bool" where
  "isSimulatorMarked measuredBy =
     (let text = map upper (dropWhile white (case measuredBy of None \<Rightarrow> [] | Some t \<Rightarrow> t))
      in take 9 text = ''SIMULATOR'')"

definition admitEnvelopeFor :: "safetyEnvelopeConfig \<Rightarrow> observatoryMode \<Rightarrow> safetyEnvelopeConfig" where
  "admitEnvelopeFor envelope mode =
     (if mode = SIMULATED \<or> \<not> isSimulatorMarked (se_maxAltitudeMeasuredBy envelope) then envelope
      else envelope\<lparr>se_maxAltitudeDegrees := None\<rparr>)"

section \<open>Loading an envelope (store.ts)\<close>

text \<open>
  The stored row and the contract's envelope have the same fields, so \<open>toContractEnvelope\<close> is
  the identity here; the survey is read in the order of its bearings.
\<close>

definition loadSafetyEnvelope :: "db \<Rightarrow> ident \<Rightarrow> exn + safetyEnvelopeConfig option" where
  "loadSafetyEnvelope s observatoryId =
     (case find (\<lambda>e. se_observatoryId e = observatoryId) (safetyEnvelope s) of None \<Rightarrow> Inr None
      | Some row \<Rightarrow>
         (case find (\<lambda>ob. ob_id ob = observatoryId) (observatory s) of None \<Rightarrow> Inl NotFoundError
          | Some ob \<Rightarrow> Inr (Some (admitEnvelopeFor
              (row\<lparr>se_horizonMask := sort_key hm_azimuthDegrees (se_horizonMask row)\<rparr>) (ob_mode ob)))))"

section \<open>Bearings\<close>

lemma js_rem_cong: "\<exists>n :: int. js_rem x 360 = x - 360 * of_int n"
  by (auto simp: js_rem_def)

lemma js_rem_lower: "- 360 < js_rem x 360"
proof (cases "0 \<le> x / 360")
  case True
  moreover have "of_int \<lfloor>x / 360\<rfloor> \<le> x / 360" by (rule of_int_floor_le)
  ultimately show ?thesis by (simp add: js_rem_def field_simps del: of_int_floor_le)
next
  case False
  then have "of_int \<lceil>x / 360\<rceil> < x / 360 + 1" by linarith
  with False show ?thesis by (simp add: js_rem_def)
qed

lemma js_rem_pos: "0 \<le> x \<Longrightarrow> js_rem x 360 = x - 360 * of_int \<lfloor>x / 360\<rfloor>"
  by (simp add: js_rem_def)

lemma turn_range: "0 \<le> x - 360 * of_int \<lfloor>x / 360\<rfloor>" "x - 360 * of_int \<lfloor>x / 360\<rfloor> < (360 :: real)"
proof -
  have a: "of_int \<lfloor>x / 360\<rfloor> \<le> x / 360" "x / 360 < of_int \<lfloor>x / 360\<rfloor> + 1" by linarith+
  define q where "q = real_of_int \<lfloor>x / 360\<rfloor>"
  from a have "q \<le> x / 360" "x / 360 < q + 1" unfolding q_def .
  then show "0 \<le> x - 360 * of_int \<lfloor>x / 360\<rfloor>" "x - 360 * of_int \<lfloor>x / 360\<rfloor> < 360"
    unfolding q_def [symmetric] by (simp_all add: field_simps)
qed

lemma floor_shift: "x / 360 = y / 360 + of_int k \<Longrightarrow> \<lfloor>x / 360 :: real\<rfloor> = \<lfloor>y / 360\<rfloor> + k"
  by (simp only: floor_add_int [symmetric])

lemma normaliseAzimuth_eq: "normaliseAzimuth x = x - 360 * of_int \<lfloor>x / 360\<rfloor>"
proof -
  obtain n where n: "js_rem x 360 = x - 360 * of_int n" using js_rem_cong by blast
  define y where "y = js_rem x 360 + 360"
  have "y / 360 = x / 360 + of_int (1 - n)" using n by (simp add: y_def field_simps)
  then have f: "\<lfloor>y / 360\<rfloor> = \<lfloor>x / 360\<rfloor> + (1 - n)" by (rule floor_shift)
  have "js_rem y 360 = y - 360 * of_int \<lfloor>y / 360\<rfloor>"
    by (rule js_rem_pos) (use js_rem_lower [of x] in \<open>simp add: y_def\<close>)
  also have "\<dots> = x - 360 * of_int \<lfloor>x / 360\<rfloor>" unfolding f by (simp add: n y_def algebra_simps)
  finally have "js_rem y 360 = x - 360 * of_int \<lfloor>x / 360\<rfloor>" .
  with turn_range [of x] show ?thesis by (simp add: normaliseAzimuth_def Let_def y_def)
qed

lemma normaliseAzimuth_range: "0 \<le> normaliseAzimuth x" "normaliseAzimuth x < 360"
  using turn_range by (simp_all add: normaliseAzimuth_eq)

text \<open>The only bearing of a turn that differs from the given one by whole turns.\<close>

lemma normaliseAzimuth_unique:
  assumes "0 \<le> y" and "y < 360" and "y = x + 360 * of_int k"
  shows "normaliseAzimuth x = y"
proof -
  have "x / 360 = y / 360 + of_int (- k)" using assms(3) by (simp add: field_simps)
  then have "\<lfloor>x / 360\<rfloor> = \<lfloor>y / 360\<rfloor> + (- k)" by (rule floor_shift)
  moreover have "\<lfloor>y / 360\<rfloor> = 0" using assms(1,2) by (simp add: floor_eq_iff)
  ultimately have "\<lfloor>x / 360\<rfloor> = - k" by simp
  with assms(3) show ?thesis by (simp add: normaliseAzimuth_eq)
qed

lemma normaliseAzimuth_diff:
  "normaliseAzimuth (a - b) =
     (if normaliseAzimuth b \<le> normaliseAzimuth a then normaliseAzimuth a - normaliseAzimuth b
      else normaliseAzimuth a - normaliseAzimuth b + 360)"
proof -
  let ?m = "\<lfloor>b / 360\<rfloor> - \<lfloor>a / 360\<rfloor>"
  have d: "normaliseAzimuth a - normaliseAzimuth b = (a - b) + 360 * of_int ?m"
    by (simp add: normaliseAzimuth_eq algebra_simps)
  then have e: "normaliseAzimuth a - normaliseAzimuth b + 360 = (a - b) + 360 * of_int (?m + 1)"
    by simp
  show ?thesis
    using normaliseAzimuth_unique [OF _ _ d] normaliseAzimuth_unique [OF _ _ e]
      normaliseAzimuth_range [of a] normaliseAzimuth_range [of b] by auto
qed

section \<open>The surveyed horizon\<close>

definition spanned_by :: "real set \<Rightarrow> real \<Rightarrow> bool" where
  "spanned_by S m \<longleftrightarrow> (\<exists>lo \<in> S. lo \<le> m) \<and> (\<exists>hi \<in> S. m \<le> hi)"

lemma interpolate_within:
  assumes "p \<le> a" and "a \<le> e" and "pm \<in> S" and "em \<in> S"
  shows "spanned_by S (interpolate a p pm e em)"
proof -
  define f where "f = (if e - p = 0 then 0 else (a - p) / (e - p))"
  have f: "0 \<le> f" "f \<le> 1" using assms(1,2) by (auto simp: f_def divide_le_eq)
  have i: "interpolate a p pm e em = (1 - f) * pm + f * em"
    by (simp add: interpolate_def f_def Let_def algebra_simps)
  have "min pm em \<le> (1 - f) * pm + f * em"
    using convex_bound_le [of "- pm" "- min pm em" "- em" "1 - f" f] f by simp
  moreover have "(1 - f) * pm + f * em \<le> max pm em"
    using convex_bound_le [of pm "max pm em" em "1 - f" f] f by simp
  ultimately show ?thesis
    using assms(3,4) unfolding spanned_by_def i by (metis min_def max_def)
qed

lemma mask_scan_within:
  assumes "mask_scan a p pa es = Some m" and "pa \<le> a" and "hm_minAltitudeDegrees p \<in> S"
    and "hm_minAltitudeDegrees ` set es \<subseteq> S"
  shows "spanned_by S m"
  using assms
proof (induction es arbitrary: p pa)
  case (Cons e es)
  then show ?case
    by (auto simp: interpolate_within split: if_splits intro: order_less_imp_le) (auto simp: spanned_by_def)
qed simp

lemma mask_scan_None: "mask_scan a p pa es = None \<Longrightarrow> e \<in> set es \<Longrightarrow> mask_azimuth e < a"
  by (induction es arbitrary: p pa) (auto split: if_splits)

lemma mask_scan_hit:
  assumes "mask_azimuth e = a" and "e \<in> set es" and "distinct (map mask_azimuth es)"
    and "sorted (map mask_azimuth es)"
  shows "mask_scan a p pa es = Some (hm_minAltitudeDegrees e)"
  using assms
proof (induction es arbitrary: p pa)
  case (Cons x es)
  then show ?case
  proof (cases "x = e")
    case False
    with Cons.prems have "mask_azimuth x < mask_azimuth e" by (auto simp: order_less_le)
    with False Cons show ?thesis by auto
  qed auto
qed simp

lemma distinct_sorted_survey:
  "distinct (map mask_azimuth (sort_key mask_azimuth survey)) = distinct (map mask_azimuth survey)"
  by (simp add: distinct_map)

lemma in_survey: "e \<in> set survey \<Longrightarrow> hm_minAltitudeDegrees e \<in> hm_minAltitudeDegrees ` set survey"
  by simp

lemma horizon_spanned:
  assumes "survey \<noteq> []"
  shows "\<exists>m. horizonMinimumAltitude a survey = Some m \<and> spanned_by (hm_minAltitudeDegrees ` set survey) m"
proof -
  let ?S = "hm_minAltitudeDegrees ` set survey" and ?es = "sort_key mask_azimuth survey"
  let ?a = "normaliseAzimuth a"
  have ne: "?es \<noteq> []" using assms by (metis set_empty set_sort)
  have last: "hm_minAltitudeDegrees (last ?es) \<in> ?S" and hd: "hm_minAltitudeDegrees (hd ?es) \<in> ?S"
    using ne last_in_set [OF ne] hd_in_set [OF ne] by simp_all
  show ?thesis
  proof (cases "length ?es = 1")
    case True
    with assms hd show ?thesis by (auto simp: horizonMinimumAltitude_def Let_def spanned_by_def)
  next
    case False
    show ?thesis
    proof (cases "mask_scan ?a (last ?es) (mask_azimuth (last ?es) - 360) ?es")
      case (Some m)
      have "spanned_by ?S m"
        by (rule mask_scan_within [OF Some])
          (use last normaliseAzimuth_range [of a] normaliseAzimuth_range [of "hm_azimuthDegrees (last ?es)"] in auto)
      with Some False assms show ?thesis by (simp add: horizonMinimumAltitude_def Let_def)
    next
      case None
      have "mask_azimuth (last ?es) < ?a" by (rule mask_scan_None [OF None last_in_set [OF ne]])
      then have "spanned_by ?S (interpolate ?a (mask_azimuth (last ?es)) (hm_minAltitudeDegrees (last ?es))
          (mask_azimuth (hd ?es) + 360) (hm_minAltitudeDegrees (hd ?es)))"
        by (intro interpolate_within last hd)
          (use normaliseAzimuth_range [of a] normaliseAzimuth_range [of "hm_azimuthDegrees (hd ?es)"] in auto)
      with None False assms show ?thesis by (simp add: horizonMinimumAltitude_def Let_def)
    qed
  qed
qed

lemma horizon_hit:
  assumes "e \<in> set survey" and "mask_azimuth e = normaliseAzimuth a" and "distinct (map mask_azimuth survey)"
  shows "horizonMinimumAltitude a survey = Some (hm_minAltitudeDegrees e)"
proof -
  let ?es = "sort_key mask_azimuth survey"
  have "mask_scan (normaliseAzimuth a) p pa ?es = Some (hm_minAltitudeDegrees e)" for p pa
    using assms by (intro mask_scan_hit) (simp_all add: distinct_sorted_survey)
  moreover have "hd ?es = e" if one: "length ?es = 1"
  proof -
    obtain x where x: "survey = [x]" using one by (cases survey) auto
    with assms(1) show ?thesis by simp
  qed
  ultimately show ?thesis using assms(1) by (auto simp: horizonMinimumAltitude_def Let_def)
qed

section \<open>Properties\<close>

text \<open>
  A forbidden sector is the clockwise arc from its start, included, to its end, excluded:
  a bearing is inside when its clockwise distance from the start is less than the end's, also
  when the arc passes through north, and a sector whose ends are one bearing forbids nothing.
\<close>

theorem sector_is_clockwise_arc:
  "azimuthInSector a f t \<longleftrightarrow>
     normaliseAzimuth f \<noteq> normaliseAzimuth t \<and> normaliseAzimuth (a - f) < normaliseAzimuth (t - f)"
  unfolding azimuthInSector_def Let_def normaliseAzimuth_diff
  using normaliseAzimuth_range [of a] normaliseAzimuth_range [of f] normaliseAzimuth_range [of t]
  by auto

text \<open>
  With a survey on file there is a minimum altitude at every bearing; it lies between the
  lowest and the highest surveyed one, and at a surveyed bearing it is the surveyed value
  (bearings being distinct, as the table requires).
\<close>

theorem horizon_follows_the_survey:
  assumes "survey \<noteq> []"
  shows "\<exists>m. horizonMinimumAltitude a survey = Some m
    \<and> (\<exists>e \<in> set survey. hm_minAltitudeDegrees e \<le> m) \<and> (\<exists>e \<in> set survey. m \<le> hm_minAltitudeDegrees e)
    \<and> (\<forall>e \<in> set survey. distinct (map mask_azimuth survey) \<and> mask_azimuth e = normaliseAzimuth a \<longrightarrow>
         m = hm_minAltitudeDegrees e)"
  using horizon_spanned [OF assms, of a] horizon_hit [of _ survey a] by (auto simp: spanned_by_def)

lemma normaliseAzimuth_id: "0 \<le> x \<Longrightarrow> x < 360 \<Longrightarrow> normaliseAzimuth x = x"
  by (rule normaliseAzimuth_unique [where k = 0]) simp_all

theorem horizon_follows_the_survey_witness:
  "\<exists>m. horizonMinimumAltitude 90 [\<lparr>hm_azimuthDegrees = 0, hm_minAltitudeDegrees = 10\<rparr>,
       \<lparr>hm_azimuthDegrees = 180, hm_minAltitudeDegrees = 30\<rparr>] = Some m \<and> 10 \<le> m \<and> m \<le> 30"
  using horizon_follows_the_survey [of "[\<lparr>hm_azimuthDegrees = 0, hm_minAltitudeDegrees = 10\<rparr>,
       \<lparr>hm_azimuthDegrees = 180, hm_minAltitudeDegrees = 30\<rparr>]" 90] by auto

lemma refused_unless: "((if c then Refused_pointing r else v) = PERMITTED) \<longleftrightarrow> \<not> c \<and> v = PERMITTED"
  by simp

lemma judge_permitted:
  "judge_pointing A c mx st t alt az ov = PERMITTED \<longleftrightarrow>
     sunExclusionDegrees c \<le> horizontalSeparationDegrees \<lparr>hz_altitudeDegrees = alt, hz_azimuthDegrees = az\<rparr> (sunHorizontal A t st)
     \<and> (ov \<or> sunAltitudeDegrees A t st \<le> daylightLockAltitudeDegrees c)
     \<and> se_minAltitudeDegrees c \<le> alt \<and> alt \<le> mx
     \<and> (case horizonMinimumAltitude az (se_horizonMask c) of None \<Rightarrow> True | Some m \<Rightarrow> m \<le> alt)
     \<and> list_all (\<lambda>x. \<not> azimuthInSector az (sx_fromDegrees x) (sx_toDegrees x)) (se_forbiddenAzimuthSectors c)"
  unfolding judge_pointing_def Let_def refused_unless sunAltitudeDegrees_def list_all_iff list_ex_iff
  by (auto simp: not_less split: option.splits)

lemma limits_eq:
  "sunExclusionDegrees c = (case se_sunExclusionDegrees c of Num x \<Rightarrow> max x 15 | _ \<Rightarrow> 180)"
  "daylightLockAltitudeDegrees c = (case se_daylightLockSunAltitudeDegrees c of Num x \<Rightarrow> min x 0 | _ \<Rightarrow> - 90)"
  by (simp_all add: sunExclusionDegrees_def MIN_SUN_EXCLUSION_DEGREES_def daylightLockAltitudeDegrees_def
      MAX_DAYLIGHT_LOCK_ALTITUDE_DEGREES_def split: number.split)

lemma isFinite_iff: "isFinite n \<longleftrightarrow> (\<exists>r. n = Num r)"
  by (cases n) auto

lemma evaluatePointing_judged:
  "evaluatePointing A input = PERMITTED \<longleftrightarrow>
    (\<exists>c mx st alt az. pi_config input = Some c \<and> se_maxAltitudeDegrees c = Some mx \<and> pi_site input = Some st
      \<and> pi_altitudeDegrees input = Num alt \<and> pi_azimuthDegrees input = Num az
      \<and> judge_pointing A c mx st (pi_at input) alt az (pi_operatorOverride input) = PERMITTED)"
  unfolding evaluatePointing_def by (auto simp: isFinite_iff split: option.splits)

text \<open>
  A limit the simulator made up never moves a real telescope. The envelope loaded for an
  observatory in real mode, when its limit is recorded under the simulator's mark, refuses
  every position as unmeasured and every nudge as well.
\<close>

theorem simulator_limit_stays_in_the_simulator:
  assumes "loadSafetyEnvelope s i = Inr (Some c)" and "find (\<lambda>x. ob_id x = i) (observatory s) = Some ob"
    and "ob_mode ob = REAL" and "isSimulatorMarked (se_maxAltitudeMeasuredBy c)"
  shows "(pi_config input = Some c \<longrightarrow> evaluatePointing A input = Refused_pointing SAFETY_ENVELOPE_UNMEASURED)
    \<and> evaluateNudgeStep (Some c) step = Refused_pointing SAFETY_ENVELOPE_UNMEASURED"
proof -
  have "se_maxAltitudeDegrees c = None"
    using assms by (auto simp: loadSafetyEnvelope_def admitEnvelopeFor_def split: option.splits if_splits)
  then show ?thesis by (simp add: evaluatePointing_def evaluateNudgeStep_def isMeasured_def)
qed

definition marked_envelope :: safetyEnvelopeConfig where
  "marked_envelope = \<lparr>se_observatoryId = ''o1'', se_minAltitudeDegrees = 20, se_maxAltitudeDegrees = Some 80,
     se_maxAltitudeMeasuredBy = Some ''  Simulator - not a measurement'', se_horizonMask = [],
     se_forbiddenAzimuthSectors = [], se_sunExclusionDegrees = Num 20, se_daylightLockSunAltitudeDegrees = Num (- 12),
     se_nudgeMaxDegrees = 1, se_nudgeRateDegreesPerSecond = 1\<rparr>"

definition real_observatory :: observatory_row where
  "real_observatory = \<lparr>ob_id = ''o1'', ob_mode = REAL, ob_status = OB_ONLINE, ob_isDemo = False,
     ob_timezone = ''Asia/Tbilisi'', ob_latitude = 41, ob_longitude = 44, ob_agentPosture = None, ob_agentDisarmReason = None, ob_holdActive = None,
     ob_linkLostAt = None, ob_agentBootedAt = None\<rparr>"

lemma simulator_mark_read: "isSimulatorMarked (Some ''  Simulator - not a measurement'')"
  by code_simp

theorem simulator_limit_stays_in_the_simulator_witness:
  "evaluateNudgeStep (Some (marked_envelope\<lparr>se_maxAltitudeDegrees := None\<rparr>)) 0 = Refused_pointing SAFETY_ENVELOPE_UNMEASURED"
proof -
  let ?s = "empty_db\<lparr>safetyEnvelope := [marked_envelope], observatory := [real_observatory]\<rparr>"
  let ?c = "marked_envelope\<lparr>se_maxAltitudeDegrees := None\<rparr>"
  have m: "isSimulatorMarked (se_maxAltitudeMeasuredBy marked_envelope)"
    using simulator_mark_read by (simp add: marked_envelope_def)
  have l: "loadSafetyEnvelope ?s ''o1'' = Inr (Some ?c)"
    using m by (simp add: loadSafetyEnvelope_def admitEnvelopeFor_def) (simp add: marked_envelope_def real_observatory_def)
  show ?thesis
    using simulator_limit_stays_in_the_simulator [OF l, of real_observatory] m
    by (simp add: real_observatory_def)
qed

end
