(* ===== verification/Visibility.thy ===== *)
theory Visibility
  imports Safety Calendar
begin

text \<open>
  Whether a target can be observed: src/apps/api/src/lib/ephemeris/visibility.ts at one
  instant, slot-visibility.ts across a slot, and the choice of a target for a slot,
  src/apps/api/src/features/targets/slot.ts.
\<close>

section \<open>At an instant (visibility.ts)\<close>

datatype visibilityBlockReason =
  VB_SAFETY_ENVELOPE_UNMEASURED | VB_TARGET_DISABLED | VB_OBSERVATORY_OFFLINE | VB_WEATHER_HOLD
| VB_BELOW_HORIZON | VB_BELOW_MIN_ALTITUDE | VB_ABOVE_MAX_ALTITUDE | VB_BEHIND_HORIZON_MASK
| VB_IN_FORBIDDEN_AZIMUTH | VB_SUN_TOO_HIGH | VB_TOO_CLOSE_TO_SUN | VB_TOO_CLOSE_TO_MOON | VB_DOES_NOT_FIT_FIELD

definition SUN_ALTITUDE_SOLAR_SYSTEM :: real where "SUN_ALTITUDE_SOLAR_SYSTEM = - 12"
definition SUN_ALTITUDE_DEEP_SKY :: real where "SUN_ALTITUDE_DEEP_SKY = - 18"
definition MOON_SEPARATION_MINIMUM_DEGREES :: real where "MOON_SEPARATION_MINIMUM_DEGREES = 30"
definition FAINT_MAGNITUDE_THRESHOLD :: real where "FAINT_MAGNITUDE_THRESHOLD = 6"

fun FIELD_OF_VIEW_ARCMIN :: "opticalConfig \<Rightarrow> real" where
  "FIELD_OF_VIEW_ARCMIN F20_BARLOW = 128 / 10"
| "FIELD_OF_VIEW_ARCMIN F10_NATIVE = 255 / 10"
| "FIELD_OF_VIEW_ARCMIN F6_3_REDUCER = 405 / 10"

definition SOLAR_SYSTEM_TYPES :: "targetType \<Rightarrow> bool" where
  "SOLAR_SYSTEM_TYPES t \<longleftrightarrow> t = TT_MOON \<or> t = TT_PLANET"

definition equatorialFor :: "astronomy \<Rightarrow> target_row \<Rightarrow> time \<Rightarrow> site \<Rightarrow> exn + equatorial" where
  "equatorialFor A tg t st =
     (if tg_positionSource tg = POS_EPHEMERIS
      then case tg_solarSystemBody tg of
          None \<Rightarrow> Inl (JsError (tg_slug tg @ '' is EPHEMERIS but names no body''))
        | Some body \<Rightarrow> Inr (equatorialOfBody A body t st)
      else case (tg_rightAscensionHours tg, tg_declinationDegrees tg) of
          (Some ra, Some dec) \<Rightarrow> Inr \<lparr>eq_raHours = ra, eq_decDegrees = dec\<rparr>
        | _ \<Rightarrow> Inl (JsError (tg_slug tg @ '' is FIXED but has no coordinates'')))"

record observatoryState =
  os_online :: bool
  os_weatherHold :: bool

record targetVisibility =
  tv_observable :: bool
  tv_evaluatedAt :: string
  tv_horizontal :: horizontal
  tv_sunAltitudeDegrees :: real
  tv_moonSeparationDegrees :: real
  tv_risesAt :: "time option"
  tv_setsAt :: "time option"
  tv_blockReasons :: "visibilityBlockReason list"

text \<open>The reasons, in the order they are pushed.\<close>

definition block_reasons ::
  "target_row \<Rightarrow> safetyEnvelopeConfig option \<Rightarrow> observatoryState \<Rightarrow> real \<Rightarrow> real \<Rightarrow> real \<Rightarrow> visibilityBlockReason list" where
  "block_reasons tg envelope ob altitude sunAltitude moonSeparation =
     (let maxAltitude = (case envelope of None \<Rightarrow> None | Some e \<Rightarrow> se_maxAltitudeDegrees e);
          isSolarSystem = SOLAR_SYSTEM_TYPES (tg_type tg);
          sunLimit = (if isSolarSystem then SUN_ALTITUDE_SOLAR_SYSTEM else SUN_ALTITUDE_DEEP_SKY);
          isFaint = (\<not> isSolarSystem \<and> FAINT_MAGNITUDE_THRESHOLD < tg_magnitude tg)
      in (if maxAltitude = None then [VB_SAFETY_ENVELOPE_UNMEASURED] else [])
         @ (if \<not> tg_enabled tg then [VB_TARGET_DISABLED] else [])
         @ (if \<not> os_online ob then [VB_OBSERVATORY_OFFLINE] else [])
         @ (if os_weatherHold ob then [VB_WEATHER_HOLD] else [])
         @ (if altitude \<le> 0 then [VB_BELOW_HORIZON]
            else if altitude < tg_minAltitudeDegrees tg then [VB_BELOW_MIN_ALTITUDE] else [])
         @ (if (case maxAltitude of None \<Rightarrow> False | Some m \<Rightarrow> m < altitude) then [VB_ABOVE_MAX_ALTITUDE] else [])
         @ (if sunLimit < sunAltitude then [VB_SUN_TOO_HIGH] else [])
         @ (if isFaint \<and> moonSeparation < MOON_SEPARATION_MINIMUM_DEGREES then [VB_TOO_CLOSE_TO_MOON] else [])
         @ (if FIELD_OF_VIEW_ARCMIN (tg_opticalConfig tg) < tg_angularSizeArcmin tg then [VB_DOES_NOT_FIT_FIELD] else []))"

definition evaluateVisibility ::
  "astronomy \<Rightarrow> target_row \<Rightarrow> site \<Rightarrow> safetyEnvelopeConfig option \<Rightarrow> observatoryState \<Rightarrow> time \<Rightarrow> exn + targetVisibility" where
  "evaluateVisibility A tg st envelope ob t =
     (case equatorialFor A tg t st of Inl e \<Rightarrow> Inl e
      | Inr coordinates \<Rightarrow>
         let horizontal = horizontalOf A coordinates t st;
             sunAltitude = sunAltitudeDegrees A t st;
             moonSeparation = moonSeparationDegrees A coordinates t st;
             reasons = block_reasons tg envelope ob (hz_altitudeDegrees horizontal) sunAltitude moonSeparation
         in Inr \<lparr>tv_observable = (reasons = []), tv_evaluatedAt = toISOString t, tv_horizontal = horizontal,
              tv_sunAltitudeDegrees = sunAltitude, tv_moonSeparationDegrees = moonSeparation,
              tv_risesAt = fst (riseSet A coordinates t st), tv_setsAt = snd (riseSet A coordinates t st),
              tv_blockReasons = reasons\<rparr>)"

section \<open>Across a slot (slot-visibility.ts)\<close>

definition SLOT_SAMPLE_MINUTES :: int where "SLOT_SAMPLE_MINUTES = 5"

fun SLOT_BLOCK_REASONS :: "visibilityBlockReason \<Rightarrow> bool" where
  "SLOT_BLOCK_REASONS VB_SAFETY_ENVELOPE_UNMEASURED = False"
| "SLOT_BLOCK_REASONS VB_OBSERVATORY_OFFLINE = False"
| "SLOT_BLOCK_REASONS VB_WEATHER_HOLD = False"
| "SLOT_BLOCK_REASONS VB_DOES_NOT_FIT_FIELD = False"
| "SLOT_BLOCK_REASONS VB_TARGET_DISABLED = True"
| "SLOT_BLOCK_REASONS VB_BELOW_HORIZON = True"
| "SLOT_BLOCK_REASONS VB_BELOW_MIN_ALTITUDE = True"
| "SLOT_BLOCK_REASONS VB_ABOVE_MAX_ALTITUDE = True"
| "SLOT_BLOCK_REASONS VB_BEHIND_HORIZON_MASK = True"
| "SLOT_BLOCK_REASONS VB_IN_FORBIDDEN_AZIMUTH = True"
| "SLOT_BLOCK_REASONS VB_SUN_TOO_HIGH = True"
| "SLOT_BLOCK_REASONS VB_TOO_CLOSE_TO_SUN = True"
| "SLOT_BLOCK_REASONS VB_TOO_CLOSE_TO_MOON = True"

fun POINTING_REASON :: "commandRejectionReason \<Rightarrow> visibilityBlockReason option" where
  "POINTING_REASON SAFETY_BELOW_MIN_ALTITUDE = Some VB_BELOW_MIN_ALTITUDE"
| "POINTING_REASON SAFETY_ABOVE_MAX_ALTITUDE = Some VB_ABOVE_MAX_ALTITUDE"
| "POINTING_REASON SAFETY_HORIZON_MASK = Some VB_BEHIND_HORIZON_MASK"
| "POINTING_REASON SAFETY_FORBIDDEN_AZIMUTH = Some VB_IN_FORBIDDEN_AZIMUTH"
| "POINTING_REASON SAFETY_SUN_EXCLUSION = Some VB_TOO_CLOSE_TO_SUN"
| "POINTING_REASON SAFETY_DAYLIGHT_LOCK = Some VB_SUN_TOO_HIGH"
| "POINTING_REASON SAFETY_ENVELOPE_UNMEASURED = None"
| "POINTING_REASON DEVICE_UNAVAILABLE = None"
| "POINTING_REASON SAFETY_NUDGE_LIMIT_EXCEEDED = None"
| "POINTING_REASON SAFETY_SLEW_RATE = None"

text \<open>The loop over the samples before the end of the slot.\<close>

function samples_from :: "time \<Rightarrow> time \<Rightarrow> time list" where
  "samples_from ms endMs =
     (if ms < endMs then ms # samples_from (ms + SLOT_SAMPLE_MINUTES * minute_ms) endMs else [])"
  by auto
termination
  by (relation "measure (\<lambda>(ms, endMs). nat (endMs - ms))") (auto simp: SLOT_SAMPLE_MINUTES_def)

declare samples_from.simps [simp del]

definition slotSampleInstants :: "time \<Rightarrow> int \<Rightarrow> time list" where
  "slotSampleInstants startAt durationMinutes =
     (let endMs = startAt + durationMinutes * minute_ms in samples_from startAt endMs @ [endMs])"

record slotVisibility =
  sv_observable :: bool
  sv_blockReasons :: "visibilityBlockReason list"
  sv_atStart :: "targetVisibility option"

text \<open>A JavaScript \<open>Set\<close>: values in the order they were first added.\<close>

definition set_add :: "'a \<Rightarrow> 'a list \<Rightarrow> 'a list" where
  "set_add x found = (if x \<in> set found then found else found @ [x])"

definition pointing_reason ::
  "astronomy \<Rightarrow> safetyEnvelopeConfig option \<Rightarrow> site \<Rightarrow> time \<Rightarrow> equatorial \<Rightarrow> visibilityBlockReason option" where
  "pointing_reason A envelope st t coordinates =
     (let hz = horizontalAirlessOf A coordinates t st
      in case evaluatePointing A \<lparr>pi_config = envelope, pi_site = Some st, pi_at = t,
             pi_altitudeDegrees = Num (hz_altitudeDegrees hz), pi_azimuthDegrees = Num (hz_azimuthDegrees hz),
             pi_operatorOverride = False\<rparr> of
           PERMITTED \<Rightarrow> None | Refused_pointing r \<Rightarrow> POINTING_REASON r)"

text \<open>One turn of the loop: the reasons found at a sampled instant.\<close>

definition sample_reasons ::
  "astronomy \<Rightarrow> target_row \<Rightarrow> site \<Rightarrow> safetyEnvelopeConfig option \<Rightarrow> observatoryState \<Rightarrow> time
   \<Rightarrow> exn + targetVisibility \<times> visibilityBlockReason list" where
  "sample_reasons A tg st envelope ob t =
     (case evaluateVisibility A tg st envelope ob t of Inl e \<Rightarrow> Inl e
      | Inr visibility \<Rightarrow>
         let mine = filter SLOT_BLOCK_REASONS (tv_blockReasons visibility)
         in if VB_BELOW_HORIZON \<in> set (tv_blockReasons visibility) then Inr (visibility, mine)
            else case equatorialFor A tg t st of Inl e \<Rightarrow> Inl e
              | Inr coordinates \<Rightarrow>
                  Inr (visibility, mine @ (case pointing_reason A envelope st t coordinates of None \<Rightarrow> [] | Some r \<Rightarrow> [r])))"

fun judge_samples ::
  "(time \<Rightarrow> exn + targetVisibility \<times> visibilityBlockReason list) \<Rightarrow> time list \<Rightarrow> visibilityBlockReason list
   \<Rightarrow> targetVisibility option \<Rightarrow> exn + slotVisibility" where
  "judge_samples f [] found atStart =
     Inr \<lparr>sv_observable = (found = []), sv_blockReasons = found, sv_atStart = atStart\<rparr>"
| "judge_samples f (t # ts) found atStart =
     (case f t of Inl e \<Rightarrow> Inl e
      | Inr (visibility, reasons) \<Rightarrow>
          judge_samples f ts (foldl (\<lambda>acc r. set_add r acc) found reasons)
            (case atStart of None \<Rightarrow> Some visibility | Some v \<Rightarrow> Some v))"

definition evaluateSlotVisibility ::
  "astronomy \<Rightarrow> target_row \<Rightarrow> site \<Rightarrow> safetyEnvelopeConfig option \<Rightarrow> observatoryState \<Rightarrow> time \<Rightarrow> int \<Rightarrow> exn + slotVisibility" where
  "evaluateSlotVisibility A tg st envelope ob startAt durationMinutes =
     judge_samples (sample_reasons A tg st envelope ob) (slotSampleInstants startAt durationMinutes) [] None"

section \<open>Lemmas\<close>

lemma set_add_nonempty [simp]: "set_add r found \<noteq> []"
  by (auto simp: set_add_def)

lemma set_add_found: "foldl (\<lambda>acc r. set_add r acc) found rs = [] \<longleftrightarrow> found = [] \<and> rs = []"
proof (induction rs arbitrary: found)
  case (Cons r rs)
  then show ?case by simp
qed simp

lemma judge_samples_observable:
  assumes "judge_samples f ts found atStart = Inr v" and "sv_observable v"
  shows "found = [] \<and> (\<forall>t \<in> set ts. \<exists>vis. f t = Inr (vis, []))"
  using assms
proof (induction ts arbitrary: found atStart)
  case (Cons t ts)
  then obtain vis rs where f: "f t = Inr (vis, rs)"
    and rest: "judge_samples f ts (foldl (\<lambda>acc r. set_add r acc) found rs)
      (case atStart of None \<Rightarrow> Some vis | Some v \<Rightarrow> Some v) = Inr v"
    by (auto split: sum.splits prod.splits)
  from Cons.IH [OF rest Cons.prems(2)] have "found = [] \<and> rs = []" and "\<forall>t \<in> set ts. \<exists>vis. f t = Inr (vis, [])"
    by (simp_all add: set_add_found)
  with f show ?case by simp
qed auto

text \<open>The samples come at most five minutes apart, and the ends of the slot are among them.\<close>

lemma samples_from_cover:
  assumes "ms \<le> t" and "t < endMs"
  shows "\<exists>x \<in> set (samples_from ms endMs). x \<le> t \<and> t < x + SLOT_SAMPLE_MINUTES * minute_ms"
  using assms
proof (induction ms endMs rule: samples_from.induct)
  case (1 ms endMs)
  show ?case
  proof (cases "t < ms + SLOT_SAMPLE_MINUTES * minute_ms")
    case True
    with 1(2,3) show ?thesis by (intro bexI [of _ ms]) (auto simp: samples_from.simps [of ms])
  next
    case False
    with 1 have "\<exists>x \<in> set (samples_from (ms + SLOT_SAMPLE_MINUTES * minute_ms) endMs). x \<le> t \<and> t < x + SLOT_SAMPLE_MINUTES * minute_ms"
      by auto
    with 1(2,3) show ?thesis by (auto simp: samples_from.simps [of ms])
  qed
qed

lemma samples_cover:
  assumes "startAt \<le> t" and "t \<le> startAt + d * minute_ms"
  shows "\<exists>x \<in> set (slotSampleInstants startAt d). x \<le> t \<and> t < x + SLOT_SAMPLE_MINUTES * minute_ms"
proof (cases "t < startAt + d * minute_ms")
  case True
  with samples_from_cover [OF assms(1) True] show ?thesis by (auto simp: slotSampleInstants_def Let_def)
next
  case False
  with assms(2) have "t = startAt + d * minute_ms" by simp
  then show ?thesis by (auto simp: slotSampleInstants_def Let_def SLOT_SAMPLE_MINUTES_def)
qed

lemma no_pointing_reason:
  assumes "pointing_reason A (Some c) st t coords = None" and "se_maxAltitudeDegrees c \<noteq> None"
  shows "evaluatePointing A \<lparr>pi_config = Some c, pi_site = Some st, pi_at = t,
     pi_altitudeDegrees = Num (hz_altitudeDegrees (horizontalAirlessOf A coords t st)),
     pi_azimuthDegrees = Num (hz_azimuthDegrees (horizontalAirlessOf A coords t st)), pi_operatorOverride = False\<rparr> = PERMITTED"
  using assms
  by (auto simp: pointing_reason_def Let_def evaluatePointing_def judge_pointing_def split: safetyVerdict.splits if_splits)

lemma sample_clear:
  assumes "sample_reasons A tg st env ob t = Inr (vis, [])"
  shows "\<exists>coords. equatorialFor A tg t st = Inr coords \<and> pointing_reason A env st t coords = None
    \<and> tg_enabled tg \<and> 0 < hz_altitudeDegrees (horizontalOf A coords t st)
    \<and> tg_minAltitudeDegrees tg \<le> hz_altitudeDegrees (horizontalOf A coords t st)"
proof -
  obtain v where v: "evaluateVisibility A tg st env ob t = Inr v"
    using assms by (auto simp: sample_reasons_def split: sum.splits)
  then obtain coords where c: "equatorialFor A tg t st = Inr coords"
    and b: "tv_blockReasons v = block_reasons tg env ob (hz_altitudeDegrees (horizontalOf A coords t st))
      (sunAltitudeDegrees A t st) (moonSeparationDegrees A coords t st)"
    by (auto simp: evaluateVisibility_def Let_def split: sum.splits)
  have none: "filter SLOT_BLOCK_REASONS (tv_blockReasons v) = []" and up: "VB_BELOW_HORIZON \<notin> set (tv_blockReasons v)"
    using assms v c by (auto simp: sample_reasons_def Let_def filter_empty_conv split: if_splits)
  have "pointing_reason A env st t coords = None"
    using assms v c up by (auto simp: sample_reasons_def Let_def split: option.splits)
  moreover have "VB_TARGET_DISABLED \<notin> set (tv_blockReasons v)" "VB_BELOW_MIN_ALTITUDE \<notin> set (tv_blockReasons v)"
    using none by (auto simp: filter_empty_conv)
  ultimately show ?thesis using c up unfolding b by (auto simp: block_reasons_def Let_def not_less split: if_splits)
qed

section \<open>Properties\<close>

text \<open>
  C34: A target judged observable across a slot can be pointed at throughout it. With a
  measured envelope, at every sampled instant the target is enabled and above both the horizon
  and its own minimum altitude, and the safety envelope permits the pointing without any
  override; and no instant of the slot, its end included, is five minutes or more past a
  sample.
\<close>

theorem observable_slot_is_permitted_throughout:
  assumes "evaluateSlotVisibility A tg st (Some c) ob startAt d = Inr v" and "sv_observable v"
    and "se_maxAltitudeDegrees c \<noteq> None" and "startAt \<le> t" and "t \<le> startAt + d * minute_ms"
  shows "\<exists>x coords. x \<in> set (slotSampleInstants startAt d) \<and> x \<le> t \<and> t < x + 5 * minute_ms
    \<and> equatorialFor A tg x st = Inr coords \<and> tg_enabled tg
    \<and> 0 < hz_altitudeDegrees (horizontalOf A coords x st)
    \<and> tg_minAltitudeDegrees tg \<le> hz_altitudeDegrees (horizontalOf A coords x st)
    \<and> evaluatePointing A \<lparr>pi_config = Some c, pi_site = Some st, pi_at = x,
         pi_altitudeDegrees = Num (hz_altitudeDegrees (horizontalAirlessOf A coords x st)),
         pi_azimuthDegrees = Num (hz_azimuthDegrees (horizontalAirlessOf A coords x st)),
         pi_operatorOverride = False\<rparr> = PERMITTED"
proof -
  obtain x where x: "x \<in> set (slotSampleInstants startAt d)" "x \<le> t" "t < x + 5 * minute_ms"
    using samples_cover [OF assms(4,5)] by (auto simp: SLOT_SAMPLE_MINUTES_def)
  obtain vis where "sample_reasons A tg st (Some c) ob x = Inr (vis, [])"
    using judge_samples_observable [OF assms(1) [unfolded evaluateSlotVisibility_def] assms(2)] x(1) by auto
  with sample_clear no_pointing_reason [OF _ assms(3)] x show ?thesis by blast
qed

text \<open>A sky for the example: the Sun at the nadir, every star at the zenith.\<close>

definition zenith_sky :: astronomy where
  "zenith_sky = \<lparr>as_equator = (\<lambda>b t w d a. if b = Engine_Sun then \<lparr>eq_raHours = 0, eq_decDegrees = - 90\<rparr>
       else \<lparr>eq_raHours = 12, eq_decDegrees = 0\<rparr>),
     as_horizon = (\<lambda>t w ra dec r. \<lparr>hz_altitudeDegrees = (if dec = - 90 then - 90 else 90), hz_azimuthDegrees = 180\<rparr>),
     as_riseSet = (\<lambda>c w d t. None)\<rparr>"

definition albireo :: target_row where
  "albireo = \<lparr>tg_id = ''t1'', tg_slug = ''albireo'', tg_nameEn = ''Albireo'', tg_type = TT_DOUBLE_STAR,
     tg_positionSource = POS_FIXED, tg_rightAscensionHours = Some 19, tg_declinationDegrees = Some 28,
     tg_solarSystemBody = None, tg_angularSizeArcmin = 1, tg_magnitude = 3, tg_opticalConfig = F10_NATIVE, tg_imagingProfile = IP_DOUBLE_STAR,
     tg_minAltitudeDegrees = 30, tg_expectedMissionMinutes = 15, tg_enabled = True\<rparr>"

definition tbilisi :: site where
  "tbilisi = \<lparr>st_latitudeDegrees = 41, st_longitudeDegrees = 44, st_elevationMetres = None\<rparr>"

abbreviation open_dome :: observatoryState where
  "open_dome \<equiv> \<lparr>os_online = True, os_weatherHold = False\<rparr>"

abbreviation measured_envelope :: safetyEnvelopeConfig where
  "measured_envelope \<equiv>
     marked_envelope\<lparr>se_maxAltitudeDegrees := Some 90, se_maxAltitudeMeasuredBy := Some ''Nino''\<rparr>"

lemma nadir_zenith:
  "horizontalSeparationDegrees \<lparr>hz_altitudeDegrees = 90, hz_azimuthDegrees = z\<rparr>
     \<lparr>hz_altitudeDegrees = - 90, hz_azimuthDegrees = z'\<rparr> = 180"
proof -
  have "90 * (pi / 180) = pi / 2" "- 90 * (pi / 180) = - (pi / 2)" by simp_all
  then show ?thesis
    unfolding horizontalSeparationDegrees_def Let_def horizontal.select_convs by simp
qed

lemma zenith_sample:
  "\<exists>vis. sample_reasons zenith_sky albireo tbilisi (Some measured_envelope) open_dome t = Inr (vis, [])"
proof -
  have sun: "sunHorizontal zenith_sky t tbilisi = \<lparr>hz_altitudeDegrees = - 90, hz_azimuthDegrees = 180\<rparr>"
    by (simp add: sunHorizontal_def zenith_sky_def Let_def)
  have c: "equatorialFor zenith_sky albireo t tbilisi = Inr \<lparr>eq_raHours = 19, eq_decDegrees = 28\<rparr>"
    by (simp add: equatorialFor_def albireo_def)
  have h: "horizontalOf zenith_sky \<lparr>eq_raHours = 19, eq_decDegrees = 28\<rparr> t tbilisi = \<lparr>hz_altitudeDegrees = 90, hz_azimuthDegrees = 180\<rparr>"
    "horizontalAirlessOf zenith_sky \<lparr>eq_raHours = 19, eq_decDegrees = 28\<rparr> t tbilisi = \<lparr>hz_altitudeDegrees = 90, hz_azimuthDegrees = 180\<rparr>"
    by (simp_all add: horizontalOf_def horizontalAirlessOf_def zenith_sky_def)
  have p: "pointing_reason zenith_sky (Some measured_envelope) tbilisi t \<lparr>eq_raHours = 19, eq_decDegrees = 28\<rparr> = None"
    unfolding pointing_reason_def h Let_def evaluatePointing_def judge_pointing_def sun
    by (simp add: sun nadir_zenith limits_eq horizonMinimumAltitude_def marked_envelope_def)
  have b: "block_reasons albireo (Some measured_envelope) open_dome 90 (- 90) m = []" for m
    by (simp add: block_reasons_def Let_def SUN_ALTITUDE_DEEP_SKY_def SUN_ALTITUDE_SOLAR_SYSTEM_def
        SOLAR_SYSTEM_TYPES_def FAINT_MAGNITUDE_THRESHOLD_def albireo_def)
  show ?thesis
    by (simp add: sample_reasons_def evaluateVisibility_def c h p b Let_def sunAltitudeDegrees_def sun)
qed

lemma judge_samples_clear:
  assumes "\<And>t. t \<in> set ts \<Longrightarrow> \<exists>vis. f t = Inr (vis, [])"
  shows "\<exists>v. judge_samples f ts [] a = Inr v \<and> sv_observable v"
  using assms
proof (induction ts arbitrary: a)
  case (Cons t ts)
  then obtain vis where "f t = Inr (vis, [])" by force
  with Cons show ?case by simp
qed simp

theorem observable_slot_is_permitted_throughout_witness:
  "\<exists>x coords. x \<le> 60000 \<and> equatorialFor zenith_sky albireo x tbilisi = Inr coords
     \<and> evaluatePointing zenith_sky \<lparr>pi_config = Some measured_envelope, pi_site = Some tbilisi, pi_at = x,
         pi_altitudeDegrees = Num (hz_altitudeDegrees (horizontalAirlessOf zenith_sky coords x tbilisi)),
         pi_azimuthDegrees = Num (hz_azimuthDegrees (horizontalAirlessOf zenith_sky coords x tbilisi)),
         pi_operatorOverride = False\<rparr> = PERMITTED"
proof -
  obtain v where v: "evaluateSlotVisibility zenith_sky albireo tbilisi (Some measured_envelope) open_dome 0 30 = Inr v" "sv_observable v"
    using judge_samples_clear [of "slotSampleInstants 0 30"
        "sample_reasons zenith_sky albireo tbilisi (Some measured_envelope) open_dome" None] zenith_sample
    unfolding evaluateSlotVisibility_def by blast
  show ?thesis
    using observable_slot_is_permitted_throughout [OF v, of 60000] by (auto simp: marked_envelope_def)
qed

end
