(* ===== verification/Slot_List.thy ===== *)
theory Slot_List
  imports Slots Waitlist Visibility "HOL-Library.List_Lexorder" "HOL-Library.Char_ord"
begin

text \<open>
  What a customer is shown: the bookable observatories
  (src/apps/api/src/features/booking/observatories.ts), the slots of a date
  (features/booking/slots.ts) and the target assigned to a slot (features/targets/slot.ts);
  and the question the booking path asks of the same generator, \<open>findGeneratedSlot\<close> of
  features/booking/reserve.ts.

  Two parameters run through: \<open>zone\<close>, the wall clock of a named time zone, and \<open>dark\<close>, the
  search for the Sun's passage through -18 degrees at a site.
\<close>

section \<open>Bookable observatories (observatories.ts)\<close>

record bookableObservatory =
  bo_id :: ident
  bo_timezone :: string
  bo_latitude :: real
  bo_longitude :: real
  bo_status :: observatoryStatus
  bo_isDemo :: bool
  bo_weatherHold :: bool
  bo_telescopeId :: ident
  bo_windows :: "localWindow list"

text \<open>The filter: an approved node with a telescope, whose observatory is not disarmed.\<close>

definition BOOKABLE :: "db \<Rightarrow> networkNode_row \<Rightarrow> bool" where
  "BOOKABLE s n \<longleftrightarrow> nn_approvalStatus n = NODE_APPROVED \<and> nn_primaryTelescopeId n \<noteq> None
     \<and> (case find (\<lambda>ob. ob_id ob = nn_observatoryId n) (observatory s) of None \<Rightarrow> False
        | Some ob \<Rightarrow> ob_agentPosture ob \<noteq> Some AP_DISARMED)"

definition bookable_from :: "networkNode_row \<Rightarrow> observatory_row \<Rightarrow> ident \<Rightarrow> bookableObservatory" where
  "bookable_from n ob telescope = \<lparr>bo_id = ob_id ob, bo_timezone = ob_timezone ob, bo_latitude = ob_latitude ob,
     bo_longitude = ob_longitude ob, bo_status = ob_status ob, bo_isDemo = ob_isDemo ob,
     bo_weatherHold = (case ob_holdActive ob of None \<Rightarrow> False | Some h \<Rightarrow> h), bo_telescopeId = telescope,
     bo_windows = map (\<lambda>w. \<lparr>lw_weekday = aw_weekday w, lw_startMinute = aw_startMinute w, lw_endMinute = aw_endMinute w\<rparr>)
       (filter aw_enabled (nn_availabilityWindows n))\<rparr>"

definition findBookableObservatory :: "db \<Rightarrow> ident \<Rightarrow> bookableObservatory option" where
  "findBookableObservatory s observatoryId =
     (case find (\<lambda>n. nn_observatoryId n = observatoryId \<and> BOOKABLE s n) (observatoryNetworkNode s) of
        None \<Rightarrow> None
      | Some n \<Rightarrow> (case (nn_primaryTelescopeId n, find (\<lambda>ob. ob_id ob = nn_observatoryId n) (observatory s)) of
          (Some telescope, Some ob) \<Rightarrow> Some (bookable_from n ob telescope)
        | _ \<Rightarrow> None))"

definition siteOf :: "bookableObservatory \<Rightarrow> site" where
  "siteOf ob = \<lparr>st_latitudeDegrees = bo_latitude ob, st_longitudeDegrees = bo_longitude ob, st_elevationMetres = None\<rparr>"

section \<open>The slots of a date (slots.ts)\<close>

definition HELD_LOOKBACK_MS :: int where "HELD_LOOKBACK_MS = 24 * 60 * minute_ms"
definition HOUR_MS :: int where "HOUR_MS = 3600000"

text \<open>The loop over the hours a session touches.\<close>

function cloudiest_from :: "(time \<Rightarrow> int option option) \<Rightarrow> time \<Rightarrow> time \<Rightarrow> int option \<Rightarrow> slotForecast" where
  "cloudiest_from byHour t endMs cloudiest =
     (if t < endMs
      then case byHour t of None \<Rightarrow> UNKNOWN_FORECAST
        | Some cover \<Rightarrow> cloudiest_from byHour (t + HOUR_MS) endMs
            (case cover of None \<Rightarrow> cloudiest
             | Some c \<Rightarrow> Some (case cloudiest of None \<Rightarrow> c | Some m \<Rightarrow> max m c))
      else \<lparr>fc_status = VC_KNOWN, fc_cloudCoverPercent = cloudiest\<rparr>)"
  by pat_completeness auto
termination
  by (relation "measure (\<lambda>(f, t, endMs, c). nat (endMs - t))") (auto simp: HOUR_MS_def)

declare cloudiest_from.simps [simp del]

definition readSlotForecasts ::
  "db \<Rightarrow> ident \<Rightarrow> nightWindow \<Rightarrow> time \<Rightarrow> int \<Rightarrow> time \<Rightarrow> time \<Rightarrow> slotForecast" where
  "readSlotForecasts s observatoryId window now maxAgeMinutes =
     (if maxAgeMinutes \<le> 0 then (\<lambda>startMs endMs. UNKNOWN_FORECAST)
      else let rows = filter (\<lambda>r. vf_observatoryId r = observatoryId
                        \<and> (duskAt window div HOUR_MS) * HOUR_MS \<le> vf_at r \<and> vf_at r < dawnAt window
                        \<and> now - maxAgeMinutes * minute_ms \<le> vf_fetchedAt r) (viewingForecastHour s);
               byHour = map_of (rev (map (\<lambda>r. (vf_at r, vf_cloudCoverPercent r)) rows))
           in (\<lambda>startMs endMs. cloudiest_from byHour ((startMs div HOUR_MS) * HOUR_MS) endMs None))"

record slotList =
  sls_observatoryId :: ident
  sls_date :: local_date
  sls_items :: "slot list"

text \<open>The bookings and offers around a night that the list reads.\<close>

definition near_night :: "nightWindow \<Rightarrow> time \<Rightarrow> bool" where
  "near_night window t \<longleftrightarrow> duskAt window - HELD_LOOKBACK_MS < t
     \<and> t < dawnAt window + SLOT_TURNAROUND_MINUTES * minute_ms"

definition held_around :: "db \<Rightarrow> ident \<Rightarrow> nightWindow \<Rightarrow> time \<Rightarrow> heldBooking list" where
  "held_around s observatoryId window now =
     map (\<lambda>b. \<lparr>hb_slotStartAt = bk_slotStartAt b, hb_durationMinutes = bk_durationMinutes b\<rparr>)
       (filter (\<lambda>b. bk_observatoryId b = observatoryId \<and> near_night window (bk_slotStartAt b) \<and> holding now b) (booking s))"

definition offers_around :: "db \<Rightarrow> ident \<Rightarrow> nightWindow \<Rightarrow> time \<Rightarrow> heldBooking list" where
  "offers_around s observatoryId window now =
     map (\<lambda>w. \<lparr>hb_slotStartAt = wl_slotStartAt w, hb_durationMinutes = wl_durationMinutes w\<rparr>)
       (filter (\<lambda>w. wl_observatoryId w = observatoryId \<and> open_offer now w \<and> near_night window (wl_slotStartAt w))
          (waitlistEntry s))"

definition listSlotsForDate ::
  "(string \<Rightarrow> time \<Rightarrow> wall_parts) \<Rightarrow> (site \<Rightarrow> int \<Rightarrow> time \<Rightarrow> time option) \<Rightarrow> db \<Rightarrow> ident \<Rightarrow> local_date \<Rightarrow> time
   \<Rightarrow> int \<Rightarrow> int \<Rightarrow> exn + slotList option" where
  "listSlotsForDate zone dark s observatoryId isoDate now forecastMaxAgeMinutes durationMinutes =
     (case findBookableObservatory s observatoryId of None \<Rightarrow> Inr None
      | Some ob \<Rightarrow>
         let empty = \<lparr>sls_observatoryId = bo_id ob, sls_date = isoDate, sls_items = []\<rparr>
         in case nightWindow (dark (siteOf ob)) (zone (bo_timezone ob)) isoDate of
              Inl e \<Rightarrow> Inl e
            | Inr None \<Rightarrow> Inr (Some empty)
            | Inr (Some window) \<Rightarrow>
               (case openIntervals (zone (bo_timezone ob)) window (bo_windows ob) of
                  Inl e \<Rightarrow> Inl e
                | Inr open' \<Rightarrow>
                   if open' = [] then Inr (Some empty)
                   else Inr (Some (empty\<lparr>sls_items := concat (map (\<lambda>interval. generateSlots
                          \<lparr>si_observatoryId = bo_id ob, si_window = interval, si_now = now,
                           si_online = (bo_status ob = OB_ONLINE), si_weatherHold = bo_weatherHold ob,
                           si_held = held_around s (bo_id ob) window now,
                           si_offers = Some (offers_around s (bo_id ob) window now),
                           si_forecastFor = Some (readSlotForecasts s (bo_id ob) window now forecastMaxAgeMinutes),
                           si_durationMinutes = Some durationMinutes\<rparr>) open')\<rparr>))))"

section \<open>Is this instant a slot? (reserve.ts)\<close>

fun previousDate :: "local_date \<Rightarrow> local_date" where
  "previousDate (year, month, day) =
     (let d = Day (DateUTC year (month - 1) (day - 1)) in (year_of d, month_of d + 1, date_of d))"

text \<open>
  The search of one date's intervals. A slot matches when its start parses back to the
  requested instant, that is when it prints as that instant does.
\<close>

definition slot_in :: "bookableObservatory \<Rightarrow> time \<Rightarrow> int \<Rightarrow> time \<Rightarrow> nightWindow \<Rightarrow> slot option" where
  "slot_in ob now durationMinutes slotStartAt interval =
     find (\<lambda>sl. sl_startAt sl = toISOString slotStartAt)
       (generateSlots \<lparr>si_observatoryId = bo_id ob, si_window = interval, si_now = now,
          si_online = (bo_status ob = OB_ONLINE), si_weatherHold = bo_weatherHold ob,
          si_held = [], si_offers = None, si_forecastFor = None, si_durationMinutes = Some durationMinutes\<rparr>)"

fun first_slot_in :: "bookableObservatory \<Rightarrow> time \<Rightarrow> int \<Rightarrow> time \<Rightarrow> nightWindow list \<Rightarrow> slot option" where
  "first_slot_in ob now durationMinutes slotStartAt [] = None"
| "first_slot_in ob now durationMinutes slotStartAt (i # is) =
     (case slot_in ob now durationMinutes slotStartAt i of Some sl \<Rightarrow> Some sl
      | None \<Rightarrow> first_slot_in ob now durationMinutes slotStartAt is)"

fun search_dates ::
  "(string \<Rightarrow> time \<Rightarrow> wall_parts) \<Rightarrow> (site \<Rightarrow> int \<Rightarrow> time \<Rightarrow> time option) \<Rightarrow> bookableObservatory \<Rightarrow> time \<Rightarrow> int
   \<Rightarrow> time \<Rightarrow> local_date list \<Rightarrow> exn + slot option" where
  "search_dates zone dark ob now durationMinutes slotStartAt [] = Inr None"
| "search_dates zone dark ob now durationMinutes slotStartAt (date # dates) =
     (case nightWindow (dark (siteOf ob)) (zone (bo_timezone ob)) date of
        Inl e \<Rightarrow> Inl e
      | Inr None \<Rightarrow> search_dates zone dark ob now durationMinutes slotStartAt dates
      | Inr (Some window) \<Rightarrow>
         (case openIntervals (zone (bo_timezone ob)) window (bo_windows ob) of
            Inl e \<Rightarrow> Inl e
          | Inr open' \<Rightarrow>
             (case first_slot_in ob now durationMinutes slotStartAt open' of
                Some sl \<Rightarrow> Inr (Some sl)
              | None \<Rightarrow> search_dates zone dark ob now durationMinutes slotStartAt dates)))"

definition findGeneratedSlot ::
  "(string \<Rightarrow> time \<Rightarrow> wall_parts) \<Rightarrow> (site \<Rightarrow> int \<Rightarrow> time \<Rightarrow> time option) \<Rightarrow> time \<Rightarrow> bookableObservatory \<Rightarrow> time
   \<Rightarrow> int \<Rightarrow> exn + slot option" where
  "findGeneratedSlot zone dark slotStartAt ob now durationMinutes =
     (let on = localDate (zone (bo_timezone ob)) slotStartAt
      in search_dates zone dark ob now durationMinutes slotStartAt [previousDate on, on])"

section \<open>Targets for a slot (slot.ts)\<close>

definition state_of :: "bookableObservatory \<Rightarrow> observatoryState" where
  "state_of ob = \<lparr>os_online = (bo_status ob = OB_ONLINE), os_weatherHold = bo_weatherHold ob\<rparr>"

definition slotVisibilityForBooking ::
  "astronomy \<Rightarrow> db \<Rightarrow> bookableObservatory \<Rightarrow> target_row \<Rightarrow> time \<Rightarrow> int \<Rightarrow> exn + slotVisibility" where
  "slotVisibilityForBooking A s ob tg startAt durationMinutes =
     (case loadSafetyEnvelope s (bo_id ob) of Inl e \<Rightarrow> Inl e
      | Inr envelope \<Rightarrow> evaluateSlotVisibility A tg (siteOf ob) envelope (state_of ob) startAt durationMinutes)"

text \<open>The loop of \<open>bestTargetForSlot\<close>: the best so far with its altitude at mid-slot.\<close>

fun best_from ::
  "astronomy \<Rightarrow> bookableObservatory \<Rightarrow> safetyEnvelopeConfig option \<Rightarrow> time \<Rightarrow> int \<Rightarrow> (target_row \<times> real) option
   \<Rightarrow> target_row list \<Rightarrow> exn + (target_row \<times> real) option" where
  "best_from A ob envelope startAt durationMinutes best [] = Inr best"
| "best_from A ob envelope startAt durationMinutes best (tg # tgs) =
     (case evaluateSlotVisibility A tg (siteOf ob) envelope (state_of ob) startAt durationMinutes of
        Inl e \<Rightarrow> Inl e
      | Inr visibility \<Rightarrow>
         if \<not> sv_observable visibility then best_from A ob envelope startAt durationMinutes best tgs
         else case evaluateVisibility A tg (siteOf ob) envelope (state_of ob) (startAt + durationMinutes * minute_ms div 2) of
                Inl e \<Rightarrow> Inl e
              | Inr v \<Rightarrow>
                 let altitude = hz_altitudeDegrees (tv_horizontal v)
                 in best_from A ob envelope startAt durationMinutes
                      (case best of None \<Rightarrow> Some (tg, altitude)
                       | Some (b, a) \<Rightarrow> if a < altitude then Some (tg, altitude) else Some (b, a)) tgs)"

definition bestTargetForSlot ::
  "astronomy \<Rightarrow> db \<Rightarrow> bookableObservatory \<Rightarrow> time \<Rightarrow> int \<Rightarrow> exn + target_row option" where
  "bestTargetForSlot A s ob startAt durationMinutes =
     (case loadSafetyEnvelope s (bo_id ob) of Inl e \<Rightarrow> Inl e
      | Inr envelope \<Rightarrow>
         (case best_from A ob envelope startAt durationMinutes None
                 (sort_key tg_slug
                    (filter (\<lambda>tg. tg_enabled tg \<and> tg_expectedMissionMinutes tg \<le> durationMinutes) (target s))) of
            Inl e \<Rightarrow> Inl e
          | Inr best \<Rightarrow> Inr (map_option fst best)))"

section \<open>Intervals lie in the night\<close>

lemma separated_in_night:
  assumes "separated ms" and "\<And>x. covers ms x \<Longrightarrow> duskAt night \<le> x \<and> x < dawnAt night" and "i \<in> set ms"
  shows "duskAt night \<le> duskAt i \<and> dawnAt i \<le> dawnAt night"
proof -
  have ne: "duskAt i < dawnAt i" using assms(1,3) by (simp add: separated_def)
  have "covers ms (duskAt i)" "covers ms (dawnAt i - 1)" using assms(3) ne by (auto simp: covers_def)
  with assms(2) show ?thesis by force
qed

lemma openIntervals_in_night:
  assumes "openIntervals parts night ws = Inr ms" and "i \<in> set ms"
  shows "duskAt night \<le> duskAt i \<and> dawnAt i \<le> dawnAt night"
proof (cases "filter usable_window ws = []")
  case True
  with assms show ?thesis by (auto simp: openIntervals_def Let_def)
next
  case False
  let ?e = "localDate parts (duskAt night)"
  from assms(1) False obtain a b where a: "clip_windows parts night ?e (filter usable_window ws) = Inr a"
    and b: "clip_windows parts night (nextDate ?e) (filter usable_window ws) = Inr b" and ms: "ms = merge (a @ b)"
    by (auto simp: openIntervals_def Let_def split: sum.splits)
  note ca = clip_windows_covers [OF a] and cb = clip_windows_covers [OF b]
  then have "\<forall>i \<in> set (a @ b). duskAt i < dawnAt i" by auto
  from merge_correct [OF this] ca cb show ?thesis
    by (intro separated_in_night [of ms night i]) (auto simp: ms assms(2) [unfolded ms])
qed

section \<open>What the window of the query can miss\<close>

text \<open>A session of at most a day less the turnaround that conflicts with a slot of the night is read.\<close>

lemma near_night_complete:
  assumes "clashesWithHeld t d [\<lparr>hb_slotStartAt = u, hb_durationMinutes = e\<rparr>]" and "e \<le> 1430"
    and "duskAt night \<le> t" and "t + d * minute_ms \<le> dawnAt night"
  shows "near_night night u"
  using assms by (auto simp: clashesWithHeld_def near_night_def HELD_LOOKBACK_MS_def Let_def const_simps)

lemma clashes_map: "clashesWithHeld t d (map f xs) \<longleftrightarrow> (\<exists>x \<in> set xs. clashesWithHeld t d [f x])"
  using clashesWithHeld_ex [of t d "map f xs"] by simp

lemma clashes_held_around:
  assumes "\<forall>b \<in> set (booking s). bk_durationMinutes b \<le> 1430"
    and "duskAt night \<le> t" and "t + d * minute_ms \<le> dawnAt night"
  shows "clashesWithHeld t d (held_around s i night now) \<longleftrightarrow>
    (\<exists>b \<in> set (booking s). bk_observatoryId b = i \<and> holding now b \<and>
       slots_conflict (booking_slot b) \<lparr>sr_observatoryId = i, sr_slotStartAt = t, sr_durationMinutes = d\<rparr>)"
proof -
  have c: "clashesWithHeld t d [\<lparr>hb_slotStartAt = bk_slotStartAt b, hb_durationMinutes = bk_durationMinutes b\<rparr>] \<longleftrightarrow>
      slots_conflict (booking_slot b) \<lparr>sr_observatoryId = i, sr_slotStartAt = t, sr_durationMinutes = d\<rparr>"
    if "bk_observatoryId b = i" for b
    using that by (auto simp: clashesWithHeld_def Let_def overlaps_def span_def const_simps algebra_simps)
  show ?thesis
    unfolding held_around_def clashes_map set_filter
    using near_night_complete [OF _ _ assms(2,3)] assms(1) c by (blast intro: bexI)
qed

lemma clashes_offers_around:
  assumes "\<forall>w \<in> set (waitlistEntry s). wl_durationMinutes w \<le> 1430"
    and "duskAt night \<le> t" and "t + d * minute_ms \<le> dawnAt night"
  shows "clashesWithHeld t d (offers_around s i night now) \<longleftrightarrow>
    (\<exists>w \<in> set (waitlistEntry s). wl_observatoryId w = i \<and> open_offer now w \<and>
       slots_conflict (slot_of w) \<lparr>sr_observatoryId = i, sr_slotStartAt = t, sr_durationMinutes = d\<rparr>)"
proof -
  have c: "clashesWithHeld t d [\<lparr>hb_slotStartAt = wl_slotStartAt w, hb_durationMinutes = wl_durationMinutes w\<rparr>] \<longleftrightarrow>
      slots_conflict (slot_of w) \<lparr>sr_observatoryId = i, sr_slotStartAt = t, sr_durationMinutes = d\<rparr>"
    if "wl_observatoryId w = i" for w
    using that by (auto simp: clashesWithHeld_def Let_def overlaps_def span_def slot_of_def const_simps algebra_simps)
  show ?thesis
    unfolding offers_around_def clashes_map set_filter
    using near_night_complete [OF _ _ assms(2,3)] assms(1) c by (blast intro: bexI)
qed

lemma findBookable_id: "findBookableObservatory s i = Some ob \<Longrightarrow> bo_id ob = i"
  by (auto simp: findBookableObservatory_def bookable_from_def dest!: find_SomeD split: option.splits)

lemma slot_at_available:
  "sl_available (slot_at input d t) \<longleftrightarrow> si_now input < t \<and> \<not> clashesWithHeld t d (si_held input)
    \<and> \<not> clashesWithHeld t d (case si_offers input of None \<Rightarrow> [] | Some os \<Rightarrow> os)
    \<and> \<not> si_weatherHold input \<and> si_online input"
  by (auto simp: slot_at_def unavailableReason_def Let_def)

text \<open>A listed slot comes from the generator run on an interval of the night.\<close>

lemma listed_slot:
  assumes "listSlotsForDate zone dark s i date now age d = Inr (Some L)" and "x \<in> set (sls_items L)"
  obtains ob night input t where "findBookableObservatory s i = Some ob"
    "nightWindow (dark (siteOf ob)) (zone (bo_timezone ob)) date = Inr (Some night)"
    "x = slot_at input d t" "duskAt night \<le> t" "t + d * minute_ms \<le> dawnAt night" "t mod 900000 = 0"
    "si_now input = now" "si_held input = held_around s i night now"
    "si_offers input = Some (offers_around s i night now)"
    "si_weatherHold input = bo_weatherHold ob" "si_online input = (bo_status ob = OB_ONLINE)"
proof -
  obtain ob where ob: "findBookableObservatory s i = Some ob"
    using assms(1) by (auto simp: listSlotsForDate_def split: option.splits)
  note id = findBookable_id [OF ob]
  obtain night where n: "nightWindow (dark (siteOf ob)) (zone (bo_timezone ob)) date = Inr (Some night)"
    using assms ob by (auto simp: listSlotsForDate_def Let_def split: sum.splits option.splits)
  obtain ms where ms: "openIntervals (zone (bo_timezone ob)) night (bo_windows ob) = Inr ms"
    using assms ob n by (auto simp: listSlotsForDate_def Let_def split: sum.splits)
  define inp where "inp = (\<lambda>interval. \<lparr>si_observatoryId = i, si_window = interval, si_now = now,
      si_online = (bo_status ob = OB_ONLINE), si_weatherHold = bo_weatherHold ob,
      si_held = held_around s i night now, si_offers = Some (offers_around s i night now),
      si_forecastFor = Some (readSlotForecasts s i night now age), si_durationMinutes = Some d\<rparr>)"
  have "sls_items L = (if ms = [] then [] else concat (map (\<lambda>j. generateSlots (inp j)) ms))"
    using assms(1) ob n ms id by (auto simp: listSlotsForDate_def Let_def inp_def split: if_splits)
  with assms(2) obtain j where j: "j \<in> set ms" "x \<in> set (generateSlots (inp j))" by (auto split: if_splits)
  obtain ts where ts: "generateSlots (inp j) = map (slot_at (inp j) d) ts"
    "set ts = {u. u mod 900000 = 0 \<and> duskAt j \<le> u \<and> u + d * minute_ms \<le> dawnAt j}"
    using generateSlots_starts [of "inp j"] by (auto simp: inp_def)
  then obtain t where t: "x = slot_at (inp j) d t" "t mod 900000 = 0" "duskAt j \<le> t" "t + d * minute_ms \<le> dawnAt j"
    using j(2) by auto
  from openIntervals_in_night [OF ms j(1)] t have "duskAt night \<le> t" "t + d * minute_ms \<le> dawnAt night" by auto
  with that [OF ob n t(1)] t(2) show thesis by (simp add: inp_def)
qed

text \<open>The booking path finds a slot only where the list of one of the two dates has one.\<close>

lemma first_slot_in_Some:
  "first_slot_in ob now d t is = Some sl \<Longrightarrow> \<exists>i \<in> set is. slot_in ob now d t i = Some sl"
  by (induction "is") (auto split: option.splits)

lemma search_dates_Some:
  assumes "search_dates zone dark ob now d t dates = Inr (Some sl)"
  shows "\<exists>date \<in> set dates. \<exists>night ms i. nightWindow (dark (siteOf ob)) (zone (bo_timezone ob)) date = Inr (Some night)
    \<and> openIntervals (zone (bo_timezone ob)) night (bo_windows ob) = Inr ms \<and> i \<in> set ms \<and> slot_in ob now d t i = Some sl"
  using assms
proof (induction dates)
  case (Cons date dates)
  then show ?case
    by (auto split: sum.splits option.splits dest!: first_slot_in_Some)
qed simp

lemma slot_in_Some:
  assumes "slot_in ob now d t i = Some sl"
  obtains u input where "sl = slot_at input d u" "toISOString u = toISOString t" "u mod 900000 = 0"
    "duskAt i \<le> u" "u + d * minute_ms \<le> dawnAt i"
    "si_now input = now" "si_online input = (bo_status ob = OB_ONLINE)" "si_weatherHold input = bo_weatherHold ob"
    "si_held input = []" "si_offers input = None"
proof -
  define input where "input = \<lparr>si_observatoryId = bo_id ob, si_window = i, si_now = now,
      si_online = (bo_status ob = OB_ONLINE), si_weatherHold = bo_weatherHold ob,
      si_held = [], si_offers = None, si_forecastFor = None, si_durationMinutes = Some d\<rparr>"
  obtain ts where ts: "generateSlots input = map (slot_at input d) ts"
    "set ts = {u. u mod 900000 = 0 \<and> duskAt i \<le> u \<and> u + d * minute_ms \<le> dawnAt i}"
    using generateSlots_starts [of input] by (auto simp: input_def)
  have "sl \<in> set (generateSlots input)" "sl_startAt sl = toISOString t"
    using assms by (auto simp: slot_in_def input_def dest: find_SomeD)
  with ts obtain u where u: "sl = slot_at input d u" "u mod 900000 = 0" "duskAt i \<le> u" "u + d * minute_ms \<le> dawnAt i"
    by auto
  have iso: "toISOString u = toISOString t"
    using \<open>sl_startAt sl = toISOString t\<close> by (simp add: u(1) slot_at_def Let_def)
  have "si_now input = now" "si_online input = (bo_status ob = OB_ONLINE)" "si_weatherHold input = bo_weatherHold ob"
    "si_held input = []" "si_offers input = None" by (simp_all add: input_def)
  then show thesis by (rule that [OF u(1) iso u(2-4)])
qed

lemma listed_start:
  assumes "findBookableObservatory s i = Some ob"
    and "nightWindow (dark (siteOf ob)) (zone (bo_timezone ob)) date = Inr (Some night)"
    and "openIntervals (zone (bo_timezone ob)) night (bo_windows ob) = Inr ms" and "j \<in> set ms"
    and "u mod 900000 = 0" and "duskAt j \<le> u" and "u + d * minute_ms \<le> dawnAt j"
  shows "\<exists>L x input. listSlotsForDate zone dark s i date now age d = Inr (Some L) \<and> x \<in> set (sls_items L)
    \<and> x = slot_at input d u"
proof -
  define inp where "inp = (\<lambda>interval. \<lparr>si_observatoryId = bo_id ob, si_window = interval, si_now = now,
      si_online = (bo_status ob = OB_ONLINE), si_weatherHold = bo_weatherHold ob,
      si_held = held_around s (bo_id ob) night now, si_offers = Some (offers_around s (bo_id ob) night now),
      si_forecastFor = Some (readSlotForecasts s (bo_id ob) night now age), si_durationMinutes = Some d\<rparr>)"
  obtain ts where ts: "generateSlots (inp j) = map (slot_at (inp j) d) ts"
    "set ts = {u. u mod 900000 = 0 \<and> duskAt j \<le> u \<and> u + d * minute_ms \<le> dawnAt j}"
    using generateSlots_starts [of "inp j"] by (auto simp: inp_def)
  with assms(5-7) have x: "slot_at (inp j) d u \<in> set (generateSlots (inp j))" by auto
  have "ms \<noteq> []" using assms(4) by auto
  then have "listSlotsForDate zone dark s i date now age d = Inr (Some \<lparr>sls_observatoryId = bo_id ob, sls_date = date,
      sls_items = concat (map (\<lambda>j. generateSlots (inp j)) ms)\<rparr>)"
    using assms(1-3) by (simp add: listSlotsForDate_def inp_def Let_def)
  with x assms(4) show ?thesis by fastforce
qed

lemma toISOString_eq:
  assumes "four_digit_year t" and "toISOString u = toISOString t"
  shows "u = t"
proof -
  have len: "length (toISOString x) = (if four_digit_year x then 24 else 27)" for x
    by (simp add: toISOString_def four_digit_year_def Let_def)
  have "four_digit_year u" using len [of u] len [of t] assms by (simp split: if_splits)
  then show ?thesis using assms by (intro toISOString_inj)
qed

text \<open>The slot the booking path finds: on the grid, in the night, judged with no bookings or offers.\<close>

lemma generated_slot:
  assumes "findGeneratedSlot zone dark t ob now d = Inr (Some sl)"
  obtains u input night date where "sl = slot_at input d u" "toISOString u = toISOString t" "u mod 900000 = 0"
    "nightWindow (dark (siteOf ob)) (zone (bo_timezone ob)) date = Inr (Some night)"
    "duskAt night \<le> u" "u + d * minute_ms \<le> dawnAt night"
    "si_now input = now" "si_online input = (bo_status ob = OB_ONLINE)" "si_weatherHold input = bo_weatherHold ob"
    "si_held input = []" "si_offers input = None"
proof -
  obtain date night ms j where
    n: "nightWindow (dark (siteOf ob)) (zone (bo_timezone ob)) date = Inr (Some night)"
    and m: "openIntervals (zone (bo_timezone ob)) night (bo_windows ob) = Inr ms" "j \<in> set ms"
    and sl: "slot_in ob now d t j = Some sl"
    using search_dates_Some [OF assms [unfolded findGeneratedSlot_def Let_def]] by blast
  obtain u input where u: "sl = slot_at input d u" "toISOString u = toISOString t" "u mod 900000 = 0"
    "duskAt j \<le> u" "u + d * minute_ms \<le> dawnAt j"
    and i: "si_now input = now" "si_online input = (bo_status ob = OB_ONLINE)" "si_weatherHold input = bo_weatherHold ob"
    "si_held input = []" "si_offers input = None" by (rule slot_in_Some [OF sl])
  from openIntervals_in_night [OF m] u have "duskAt night \<le> u" "u + d * minute_ms \<le> dawnAt night" by simp_all
  from that [OF u(1-3) n this i] show thesis .
qed

text \<open>The loop over the targets keeps the highest of the observable ones.\<close>

lemma best_from_correct:
  assumes "best_from A ob env t d best tgs = Inr r"
  defines "ok \<equiv> \<lambda>tg a. (\<exists>v. evaluateSlotVisibility A tg (siteOf ob) env (state_of ob) t d = Inr v \<and> sv_observable v)
      \<and> (\<exists>v. evaluateVisibility A tg (siteOf ob) env (state_of ob) (t + d * minute_ms div 2) = Inr v
           \<and> a = hz_altitudeDegrees (tv_horizontal v))"
  shows "(r = None \<longleftrightarrow> best = None \<and> (\<forall>tg \<in> set tgs. \<forall>a. \<not> ok tg a))
    \<and> (\<forall>tg a. r = Some (tg, a) \<longrightarrow> (best = Some (tg, a) \<or> tg \<in> set tgs \<and> ok tg a)
         \<and> (\<forall>tg' a'. best = Some (tg', a') \<or> tg' \<in> set tgs \<and> ok tg' a' \<longrightarrow> a' \<le> a))"
  using assms(1)
proof (induction tgs arbitrary: best)
  case Nil
  then show ?case by auto
next
  case (Cons x tgs)
  obtain v where v: "evaluateSlotVisibility A x (siteOf ob) env (state_of ob) t d = Inr v"
    using Cons.prems by (auto split: sum.splits)
  show ?case
  proof (cases "sv_observable v")
    case False
    with Cons.prems v have "best_from A ob env t d best tgs = Inr r" by simp
    moreover have "\<not> ok x a" for a using v False by (simp add: ok_def)
    ultimately show ?thesis using Cons.IH by (auto simp del: best_from.simps)
  next
    case True
    obtain w where w: "evaluateVisibility A x (siteOf ob) env (state_of ob) (t + d * minute_ms div 2) = Inr w"
      using Cons.prems v True by (auto split: sum.splits)
    define alt where "alt = hz_altitudeDegrees (tv_horizontal w)"
    define b where "b = (case best of None \<Rightarrow> Some (x, alt) | Some (b, a) \<Rightarrow> if a < alt then Some (x, alt) else Some (b, a))"
    have rest: "best_from A ob env t d b tgs = Inr r"
      using Cons.prems v True w unfolding b_def alt_def by (simp add: Let_def)
    have okx: "ok x a \<longleftrightarrow> a = alt" for a using v True w by (auto simp: ok_def alt_def)
    from Cons.IH [OF rest] show ?thesis
      unfolding b_def by (cases best) (auto simp: okx split: if_splits; fastforce)+
  qed
qed

lemma bestTarget_fits:
  assumes "bestTargetForSlot A s ob t d = Inr (Some tg)"
  shows "tg \<in> set (target s) \<and> tg_enabled tg \<and> tg_expectedMissionMinutes tg \<le> d
    \<and> (\<exists>v. slotVisibilityForBooking A s ob tg t d = Inr v \<and> sv_observable v)"
proof -
  let ?tgs = "sort_key tg_slug (filter (\<lambda>tg. tg_enabled tg \<and> tg_expectedMissionMinutes tg \<le> d) (target s))"
  obtain env b where env: "loadSafetyEnvelope s (bo_id ob) = Inr env"
    and b: "best_from A ob env t d None ?tgs = Inr (Some b)" "tg = fst b"
    using assms by (auto simp: bestTargetForSlot_def split: sum.splits)
  from best_from_correct [OF b(1)] b(2) env show ?thesis
    by (cases b) (auto simp: slotVisibilityForBooking_def)
qed

section \<open>Properties\<close>

text \<open>
  C35: The slot list never shows a taken slot as free, nor a free one as taken. A listed slot
  starts on a quarter hour, and it is available exactly when it starts in the future, the
  observatory is online without a weather hold, and no booking holding this observatory's
  telescope and no open waitlist offer conflicts with it, wherever in the tables it is, as
  long as sessions run at most 1430 minutes.
\<close>

theorem listed_slot_available_iff:
  assumes "listSlotsForDate zone dark s i date now age d = Inr (Some L)" and "x \<in> set (sls_items L)"
    and "\<forall>b \<in> set (booking s). bk_durationMinutes b \<le> 1430"
    and "\<forall>w \<in> set (waitlistEntry s). wl_durationMinutes w \<le> 1430"
  shows "\<exists>t ob. findBookableObservatory s i = Some ob \<and> sl_startAt x = toISOString t \<and> t mod 900000 = 0
    \<and> (sl_available x \<longleftrightarrow> now < t \<and> bo_status ob = OB_ONLINE \<and> \<not> bo_weatherHold ob
        \<and> \<not> (\<exists>b \<in> set (booking s). holding now b \<and>
               slots_conflict (booking_slot b) \<lparr>sr_observatoryId = i, sr_slotStartAt = t, sr_durationMinutes = d\<rparr>)
        \<and> \<not> (\<exists>w \<in> set (waitlistEntry s). open_offer now w \<and>
               slots_conflict (slot_of w) \<lparr>sr_observatoryId = i, sr_slotStartAt = t, sr_durationMinutes = d\<rparr>))"
proof -
  from listed_slot [OF assms(1,2)] obtain ob night input t where
    o: "findBookableObservatory s i = Some ob" and x: "x = slot_at input d t" and t: "t mod 900000 = 0"
    and n: "duskAt night \<le> t" "t + d * minute_ms \<le> dawnAt night"
    and f: "si_now input = now" "si_held input = held_around s i night now"
      "si_offers input = Some (offers_around s i night now)"
      "si_weatherHold input = bo_weatherHold ob" "si_online input = (bo_status ob = OB_ONLINE)" by metis
  have "sl_startAt x = toISOString t" by (simp add: x slot_at_def Let_def)
  moreover have "sl_available x \<longleftrightarrow> now < t \<and> bo_status ob = OB_ONLINE \<and> \<not> bo_weatherHold ob
      \<and> \<not> clashesWithHeld t d (held_around s i night now) \<and> \<not> clashesWithHeld t d (offers_around s i night now)"
    unfolding x slot_at_available f by auto
  ultimately show ?thesis
    using o t unfolding clashes_held_around [OF assms(3) n] clashes_offers_around [OF assms(4) n]
    by (intro exI [of _ t] exI [of _ ob]) (auto simp: slot_of_def)
qed

text \<open>
  C36: The booking path accepts nothing the list does not show. When \<open>findGeneratedSlot\<close> finds
  a slot of a bookable observatory at an instant, the list of the local date of that instant,
  or of the date before, shows a slot starting then, of that length at that price.
\<close>

theorem bookable_slot_is_listed:
  assumes "findBookableObservatory s i = Some ob" and "findGeneratedSlot zone dark t ob now d = Inr (Some sl)"
  shows "\<exists>date L x. date \<in> {previousDate (localDate (zone (bo_timezone ob)) t), localDate (zone (bo_timezone ob)) t}
    \<and> listSlotsForDate zone dark s i date now age d = Inr (Some L) \<and> x \<in> set (sls_items L)
    \<and> sl_startAt x = toISOString t \<and> sl_startAt sl = toISOString t
    \<and> sl_durationMinutes x = d \<and> sl_durationMinutes sl = d \<and> sl_priceMinor x = sl_priceMinor sl"
proof -
  let ?on = "localDate (zone (bo_timezone ob)) t"
  obtain date night ms j where date: "date \<in> {previousDate ?on, ?on}"
    and n: "nightWindow (dark (siteOf ob)) (zone (bo_timezone ob)) date = Inr (Some night)"
    and m: "openIntervals (zone (bo_timezone ob)) night (bo_windows ob) = Inr ms" "j \<in> set ms"
    and sl: "slot_in ob now d t j = Some sl"
    using search_dates_Some [OF assms(2) [unfolded findGeneratedSlot_def Let_def]] by (simp only: list.set) blast
  obtain u input where u: "sl = slot_at input d u" "toISOString u = toISOString t" "u mod 900000 = 0"
    "duskAt j \<le> u" "u + d * minute_ms \<le> dawnAt j" using slot_in_Some [OF sl] by metis
  obtain L x input' where "listSlotsForDate zone dark s i date now age d = Inr (Some L)" "x \<in> set (sls_items L)"
    "x = slot_at input' d u" using listed_start [of s i ob dark zone date night ms j u d now age] assms(1) n m u(3-5) by blast
  with date u(1,2) show ?thesis by (intro exI [of _ date] exI [of _ L] exI [of _ x]) (simp add: slot_at_def Let_def)
qed

text \<open>
  The target the platform assigns. It is one of the enabled targets that fit the slot's
  length and are judged observable across it, and none of these stands higher at mid-slot; no
  target is assigned only when none of them is observable.
\<close>

theorem bestTargetForSlot_is_highest:
  assumes "bestTargetForSlot A s ob t d = Inr r" and "loadSafetyEnvelope s (bo_id ob) = Inr env"
  defines "fits \<equiv> \<lambda>tg. tg \<in> set (target s) \<and> tg_enabled tg \<and> tg_expectedMissionMinutes tg \<le> d
      \<and> (\<exists>v. evaluateSlotVisibility A tg (siteOf ob) env (state_of ob) t d = Inr v \<and> sv_observable v)"
    and "height \<equiv> \<lambda>tg a. \<exists>v. evaluateVisibility A tg (siteOf ob) env (state_of ob) (t + d * minute_ms div 2) = Inr v
      \<and> a = hz_altitudeDegrees (tv_horizontal v)"
  shows "case r of None \<Rightarrow> \<not> (\<exists>tg a. fits tg \<and> height tg a)
    | Some tg \<Rightarrow> fits tg \<and> (\<exists>a. height tg a \<and> (\<forall>tg' a'. fits tg' \<and> height tg' a' \<longrightarrow> a' \<le> a))"
proof -
  let ?tgs = "sort_key tg_slug (filter (\<lambda>tg. tg_enabled tg \<and> tg_expectedMissionMinutes tg \<le> d) (target s))"
  obtain b where b: "best_from A ob env t d None ?tgs = Inr b" and r: "r = map_option fst b"
    using assms(1,2) by (auto simp: bestTargetForSlot_def split: sum.splits)
  from best_from_correct [OF b] show ?thesis
    unfolding r fits_def height_def by (cases b) auto
qed


text \<open>An observatory in Tbilisi with a night from 20:00 to 06:00, for the examples.\<close>

definition example_zone :: "string \<Rightarrow> time \<Rightarrow> wall_parts" where
  "example_zone z = fixed_zone 14400000"

definition example_dark :: "site \<Rightarrow> int \<Rightarrow> time \<Rightarrow> time option" where
  "example_dark st direction t = Some (if direction = - 1 then t + 28800000 else t + 36000000)"

definition example_site_db :: db where
  "example_site_db = empty_db\<lparr>
     observatory := [real_observatory],
     observatoryNetworkNode := [\<lparr>nn_observatoryId = ''o1'', nn_kind = NODE_FIRST_PARTY, nn_approvalStatus = NODE_APPROVED,
       nn_primaryTelescopeId = Some ''t1'', nn_availabilityWindows = []\<rparr>],
     target := [albireo],
     safetyEnvelope := [measured_envelope]\<rparr>"

abbreviation example_observatory :: bookableObservatory where
  "example_observatory \<equiv> \<lparr>bo_id = ''o1'', bo_timezone = ''Asia/Tbilisi'', bo_latitude = 41, bo_longitude = 44,
     bo_status = OB_ONLINE, bo_isDemo = False, bo_weatherHold = False, bo_telescopeId = ''t1'', bo_windows = []\<rparr>"

abbreviation example_dark_hours :: nightWindow where
  "example_dark_hours \<equiv> \<lparr>duskAt = 1788451200000, dawnAt = 1788487200000\<rparr>"

lemma example_site_tables [simp]:
  "booking example_site_db = []" "waitlistEntry example_site_db = []" "target example_site_db = [albireo]"
  by (simp_all add: example_site_db_def empty_db_def)

lemma example_bookable: "findBookableObservatory example_site_db ''o1'' = Some example_observatory"
  by (simp add: findBookableObservatory_def BOOKABLE_def bookable_from_def example_site_db_def real_observatory_def)

lemma example_nightWindow:
  "nightWindow (example_dark st) (example_zone z) (2026, 9, 3) = Inr (Some example_dark_hours)"
proof -
  have "localWallClockToUtc (fixed_zone 14400000) (2026, 9, 3) 12 = Inr 1788422400000" by code_simp
  then show ?thesis by (simp add: nightWindow_def example_zone_def example_dark_def del: localWallClockToUtc.simps)
qed

lemma example_open: "openIntervals (example_zone z) n [] = Inr [n]"
  by (simp add: openIntervals_def Let_def)

lemma example_listed:
  "\<exists>L x input. listSlotsForDate example_zone example_dark example_site_db ''o1'' (2026, 9, 3) 0 0 30 = Inr (Some L)
     \<and> x \<in> set (sls_items L) \<and> x = slot_at input 30 1788454800000"
  using listed_start [OF example_bookable, of example_dark example_zone "(2026, 9, 3)" example_dark_hours
      "[example_dark_hours]" example_dark_hours 1788454800000 30]
  by (simp add: example_nightWindow example_open)

theorem listed_slot_available_iff_witness:
  "\<exists>L x t. listSlotsForDate example_zone example_dark example_site_db ''o1'' (2026, 9, 3) 0 0 30 = Inr (Some L)
     \<and> x \<in> set (sls_items L) \<and> sl_startAt x = toISOString t \<and> (sl_available x \<longleftrightarrow> 0 < t)"
proof -
  obtain L x where l: "listSlotsForDate example_zone example_dark example_site_db ''o1'' (2026, 9, 3) 0 0 30 = Inr (Some L)"
    "x \<in> set (sls_items L)" using example_listed by blast
  from listed_slot_available_iff [OF l] l show ?thesis by (auto simp: example_bookable)
qed

lemma example_local_date: "localDate (example_zone z) 1788454800000 = (2026, 9, 3)"
  unfolding example_zone_def by code_simp

lemma example_previous: "previousDate (2026, 9, 3) = (2026, 9, 2)"
  by code_simp

lemma example_slot_in:
  "\<exists>sl. slot_in ob 0 30 1788454800000 example_dark_hours = Some sl"
proof -
  let ?input = "\<lparr>si_observatoryId = bo_id ob, si_window = example_dark_hours, si_now = 0,
      si_online = (bo_status ob = OB_ONLINE), si_weatherHold = bo_weatherHold ob,
      si_held = [], si_offers = None, si_forecastFor = None, si_durationMinutes = Some 30\<rparr>"
  obtain ts where "generateSlots ?input = map (slot_at ?input 30) ts"
    "set ts = {u. u mod 900000 = 0 \<and> 1788451200000 \<le> u \<and> u + 30 * minute_ms \<le> 1788487200000}"
    using generateSlots_starts [of ?input] by auto
  then have "slot_at ?input 30 1788454800000 \<in> set (generateSlots ?input)" by auto
  then have "list_ex (\<lambda>sl. sl_startAt sl = toISOString 1788454800000) (generateSlots ?input)"
    by (force simp: list_ex_iff slot_at_def Let_def)
  then show ?thesis unfolding slot_in_def by (simp add: list_ex_find)
qed

lemma example_generated:
  "\<exists>sl. findGeneratedSlot example_zone example_dark 1788454800000 example_observatory 0 30 = Inr (Some sl)"
proof -
  have "localWallClockToUtc (fixed_zone 14400000) (2026, 9, 2) 12 = Inr 1788336000000" by code_simp
  then have n: "nightWindow (example_dark st) (example_zone z) (2026, 9, 2)
      = Inr (Some \<lparr>duskAt = 1788364800000, dawnAt = 1788400800000\<rparr>)" for st z
    by (simp add: nightWindow_def example_zone_def example_dark_def del: localWallClockToUtc.simps)
  obtain sl where sl: "slot_in example_observatory 0 30 1788454800000 example_dark_hours = Some sl"
    using example_slot_in by blast
  show ?thesis
    by (simp add: findGeneratedSlot_def Let_def example_local_date example_previous n example_nightWindow example_open sl
        del: previousDate.simps split: option.split)
qed

theorem bookable_slot_is_listed_witness:
  "\<exists>date L x. listSlotsForDate example_zone example_dark example_site_db ''o1'' date 0 0 30 = Inr (Some L)
     \<and> x \<in> set (sls_items L) \<and> sl_startAt x = toISOString 1788454800000 \<and> sl_durationMinutes x = 30"
proof -
  obtain sl where "findGeneratedSlot example_zone example_dark 1788454800000 example_observatory 0 30 = Inr (Some sl)"
    using example_generated by blast
  from bookable_slot_is_listed [OF example_bookable this, of 0] show ?thesis by blast
qed

lemma example_envelope: "loadSafetyEnvelope example_site_db ''o1'' =
    Inr (Some (measured_envelope))"
proof -
  have "\<not> isSimulatorMarked (Some ''Nino'')" by code_simp
  then show ?thesis
    by (simp add: loadSafetyEnvelope_def admitEnvelopeFor_def example_site_db_def)
      (simp add: marked_envelope_def real_observatory_def)
qed

lemma example_best: "bestTargetForSlot zenith_sky example_site_db example_observatory 1788454800000 30 = Inr (Some albireo)"
proof -
  have st: "siteOf example_observatory = tbilisi" "state_of example_observatory = open_dome"
    by (simp_all add: siteOf_def state_of_def tbilisi_def)
  have "\<exists>v. evaluateSlotVisibility zenith_sky albireo tbilisi (Some measured_envelope) open_dome 1788454800000 30 = Inr v \<and> sv_observable v"
    unfolding evaluateSlotVisibility_def by (rule judge_samples_clear) (rule zenith_sample)
  moreover have "\<exists>v. evaluateVisibility zenith_sky albireo tbilisi (Some measured_envelope) open_dome 1788455700000 = Inr v"
    by (simp add: evaluateVisibility_def equatorialFor_def Let_def albireo_def)
  moreover have "tg_enabled albireo" "tg_expectedMissionMinutes albireo = 15" by (simp_all add: albireo_def)
  ultimately show ?thesis
    by (auto simp: bestTargetForSlot_def example_envelope st Let_def split: sum.split)
qed

theorem bestTargetForSlot_is_highest_witness:
  "\<exists>r. bestTargetForSlot zenith_sky example_site_db example_observatory 1788454800000 30 = Inr (Some r)
     \<and> r \<in> set (target example_site_db)"
  using bestTargetForSlot_is_highest [OF example_best, of "Some measured_envelope"] example_best
  by (simp add: example_envelope)

end
