(* ===== verification/Holds.thy ===== *)
theory Holds
  imports Waitlist Credits Loyalty Card_Prizes
begin

text \<open>
  Holding a slot and letting go of it: the booking table with the constraints the database
  enforces (src/packages/db/prisma/migrations), and from
  src/apps/api/src/features/booking/reserve.ts the operations on held bookings
  (\<open>expireLapsedHolds\<close>, \<open>releaseHeldSlot\<close>, \<open>releaseSlotForFailedPayment\<close>) and the handling of
  database errors (\<open>isSlotConflict\<close>, \<open>retryOnDeadlock\<close>).
\<close>

section \<open>The constraint (migrations)\<close>

definition held_status :: "booking_row \<Rightarrow> bool" where
  "held_status b \<longleftrightarrow> bk_status b = BK_PENDING_PAYMENT \<or> bk_status b = BK_CONFIRMED"

text \<open>\<open>Booking_held_slot_exclusion\<close>: overlapping ranges, each with its turnaround, at one observatory.\<close>

definition held_slot_exclusion :: "booking_row \<Rightarrow> booking_row \<Rightarrow> bool" where
  "held_slot_exclusion a b \<longleftrightarrow> bk_observatoryId a = bk_observatoryId b
     \<and> bk_slotStartAt a < bk_slotStartAt b + (bk_durationMinutes b + 10) * minute_ms
     \<and> bk_slotStartAt b < bk_slotStartAt a + (bk_durationMinutes a + 10) * minute_ms"

text \<open>The unique columns of a booking: id, payment, and the customer's idempotency key.\<close>

definition booking_unique :: "booking_row \<Rightarrow> booking_row \<Rightarrow> bool" where
  "booking_unique a b \<longleftrightarrow> bk_id a = bk_id b
     \<or> (bk_paymentId a \<noteq> None \<and> bk_paymentId a = bk_paymentId b)
     \<or> (bk_idempotencyKey a \<noteq> None \<and> bk_userId a = bk_userId b \<and> bk_idempotencyKey a = bk_idempotencyKey b)"

definition createBooking :: "booking_row \<Rightarrow> (db, booking_row) tx" where
  "createBooking b =
     (\<lambda>s. if list_ex (booking_unique b) (booking s) then Inl (SqlError ''23505'')
          else if held_status b \<and> list_ex (\<lambda>x. held_status x \<and> held_slot_exclusion b x) (booking s)
               then Inl (SqlError ''23P01'')
          else Inr (b, s\<lparr>booking := booking s @ [b]\<rparr>))"

section \<open>Letting go (reserve.ts)\<close>

definition lapsed :: "ident \<Rightarrow> time \<Rightarrow> booking_row \<Rightarrow> bool" where
  "lapsed observatoryId now b \<longleftrightarrow> bk_observatoryId b = observatoryId \<and> bk_status b = BK_PENDING_PAYMENT
     \<and> (case bk_holdExpiresAt b of None \<Rightarrow> False | Some e \<Rightarrow> e \<le> now)"

text \<open>What a booking that will not happen gives back.\<close>

definition give_back :: "(ident \<Rightarrow> string) \<Rightarrow> booking_row \<Rightarrow> time \<Rightarrow> (db, unit) tx" where
  "give_back codes b now =
     bindt (releaseRedeemedPoints codes (bk_id b) (bk_userId b) (bk_loyaltyPointsRedeemed b)) (\<lambda>_.
     bindt (releaseSpentMinutes (bk_id b) (bk_userId b) (bk_subscriptionMinutesSpent b) now) (\<lambda>_.
     bindt (releaseCardPrize (bk_id b) HOLD_RELEASED None now) (\<lambda>_. ret ())))"

definition expireLapsedHolds :: "(ident \<Rightarrow> string) \<Rightarrow> ident \<Rightarrow> time \<Rightarrow> (db, unit) tx" where
  "expireLapsedHolds codes observatoryId now =
     bindt (reads (\<lambda>s. filter (lapsed observatoryId now) (booking s))) (\<lambda>rows.
     if rows = [] then ret ()
     else bindt (tx_updateMany booking booking_update (\<lambda>b. bk_id b \<in> set (map bk_id rows))
              (\<lambda>b. b\<lparr>bk_status := BK_EXPIRED\<rparr>)) (\<lambda>_.
          for_each rows (\<lambda>b. give_back codes b now)))"

definition release_audit :: "booking_row \<Rightarrow> string \<Rightarrow> auditLog_row" where
  "release_audit b reason =
     (audit_entry BOOKING ''BOOKING_SLOT_RELEASED''
        [(''reason'', JStr reason), (''paymentId'', json_opt (bk_paymentId b))])
     \<lparr>au_entityType := Some ''Booking'', au_entityId := Some (bk_id b)\<rparr>"

definition releaseHeldSlot :: "(ident \<Rightarrow> string) \<Rightarrow> booking_row \<Rightarrow> string \<Rightarrow> time \<Rightarrow> (db, bool) tx" where
  "releaseHeldSlot codes b reason now =
     (if bk_status b \<noteq> BK_PENDING_PAYMENT then ret False
      else if bk_missionId b \<noteq> None
           then throw (JsError (''Booking '' @ bk_id b @ '' already has a mission; a failed payment may not unwind it.''))
      else bindt (case bk_paymentId b of None \<Rightarrow> ret ()
             | Some p \<Rightarrow> tx_update payment payment_update (\<lambda>q. pay_id q = p)
                 (\<lambda>q. q\<lparr>pay_status := PAY_FAILED, pay_failureReason := Some reason\<rparr>)) (\<lambda>_.
           bindt (tx_update booking booking_update (\<lambda>x. bk_id x = bk_id b) (\<lambda>x. x\<lparr>bk_status := BK_CANCELLED\<rparr>)) (\<lambda>_.
           bindt (give_back codes b now) (\<lambda>_.
           bindt (recordAuditEvent (release_audit b reason)) (\<lambda>_. ret True)))))"

definition releaseSlotForFailedPayment :: "(ident \<Rightarrow> string) \<Rightarrow> ident \<Rightarrow> string \<Rightarrow> time \<Rightarrow> (db, bool) tx" where
  "releaseSlotForFailedPayment codes bookingId reason now =
     bindt (tx_find booking (\<lambda>b. bk_id b = bookingId)) (\<lambda>b.
     case b of None \<Rightarrow> ret False | Some b \<Rightarrow> releaseHeldSlot codes b reason now)"

section \<open>Database errors (reserve.ts)\<close>

definition isSlotConflict :: "exn \<Rightarrow> bool" where
  "isSlotConflict e \<longleftrightarrow> e = SqlError ''23P01'' \<or> e = SqlError ''23505''"

definition DEADLOCK_ATTEMPTS :: nat where "DEADLOCK_ATTEMPTS = 5"

text \<open>
  \<open>attempt n\<close> is the n-th run of the same transaction: what the database and the other
  sessions do meanwhile may differ from run to run.
\<close>

function retry_from :: "(nat \<Rightarrow> ('s, 'a) job) \<Rightarrow> nat \<Rightarrow> ('s, 'a) job" where
  "retry_from attempt tries =
     catchj (attempt tries) (\<lambda>e.
       if DEADLOCK_ATTEMPTS \<le> tries \<or> e \<noteq> SqlError ''40P01'' then throwj e
       else retry_from attempt (tries + 1))"
  by auto
termination
  by (relation "measure (\<lambda>(attempt, tries). DEADLOCK_ATTEMPTS - tries)") auto

declare retry_from.simps [simp del]

definition retryOnDeadlock :: "(nat \<Rightarrow> ('s, 'a) job) \<Rightarrow> ('s, 'a) job" where
  "retryOnDeadlock attempt = retry_from attempt 1"

section \<open>The schedule\<close>

interpretation schedule: slot_conflict bk_observatoryId bk_slotStartAt bk_durationMinutes held_slot_exclusion
  by unfold_locales (auto simp: held_slot_exclusion_def const_simps)

text \<open>
  The invariant the constraints keep: the held bookings never conflict, and ids, payments and
  idempotency keys are unique.
\<close>

definition schedule_inv :: "db \<Rightarrow> bool" where
  "schedule_inv s \<longleftrightarrow> schedule.conflict_free (filter held_status (booking s))
     \<and> sorted_wrt (\<lambda>a b. \<not> booking_unique a b) (booking s)"

lemma schedule_inv_cong: "booking s' = booking s \<Longrightarrow> schedule_inv s' = schedule_inv s"
  by (simp add: schedule_inv_def)

lemma booking_unique_sym: "booking_unique a b \<longleftrightarrow> booking_unique b a"
  by (auto simp: booking_unique_def)

lemma createBooking_eq_Inr:
  "createBooking b s = Inr (x, s') \<longleftrightarrow> x = b \<and> s' = s\<lparr>booking := booking s @ [b]\<rparr>
     \<and> \<not> list_ex (booking_unique b) (booking s)
     \<and> \<not> (held_status b \<and> list_ex (\<lambda>x. held_status x \<and> held_slot_exclusion b x) (booking s))"
  by (auto simp: createBooking_def)

lemma createBooking_keeps_schedule [keeps_intros]: "keeps schedule_inv (createBooking b)"
proof (rule keepsI)
  fix s x s'
  assume inv: "schedule_inv s" and run: "createBooking b s = Inr (x, s')"
  from run have s': "s' = s\<lparr>booking := booking s @ [b]\<rparr>" and u: "\<not> list_ex (booking_unique b) (booking s)"
    and c: "held_status b \<Longrightarrow> \<not> list_ex (\<lambda>x. held_status x \<and> held_slot_exclusion b x) (booking s)"
    by (auto simp: createBooking_eq_Inr)
  have "schedule.conflict_free (filter held_status (booking s) @ [b])" if "held_status b"
    using inv c [OF that] by (intro schedule.conflict_free_add) (auto simp: schedule_inv_def list_ex_iff)
  moreover have "sorted_wrt (\<lambda>a b. \<not> booking_unique a b) (booking s @ [b])"
    using inv u booking_unique_sym by (auto simp: schedule_inv_def sorted_wrt_append list_ex_iff)
  ultimately show "schedule_inv s'" using inv by (simp add: schedule_inv_def s')
qed

text \<open>A change of bookings that keeps each one's slot and keys, and holds nothing new.\<close>

lemma sorted_wrt_map_keep:
  assumes "sorted_wrt P xs" and "\<And>a b. P a b \<Longrightarrow> Q (f a) (f b)"
  shows "sorted_wrt Q (map f xs)"
  using sorted_wrt_mono_rel [OF _ assms(1)] assms(2) by (simp add: sorted_wrt_map)

lemma filter_map_sub:
  assumes "\<And>x. x \<in> set xs \<Longrightarrow> H (f x) \<Longrightarrow> H x"
  shows "filter H (map f xs) = map f (filter (\<lambda>x. H (f x)) (filter H xs))"
  using assms by (induction xs) auto

lemma schedule_inv_update:
  assumes inv: "schedule_inv s"
    and keep: "\<And>b. bk_id (f b) = bk_id b \<and> bk_observatoryId (f b) = bk_observatoryId b \<and> bk_slotStartAt (f b) = bk_slotStartAt b
       \<and> bk_durationMinutes (f b) = bk_durationMinutes b \<and> bk_userId (f b) = bk_userId b
       \<and> bk_idempotencyKey (f b) = bk_idempotencyKey b \<and> bk_paymentId (f b) = bk_paymentId b"
    and held: "\<And>b. b \<in> set (booking s) \<Longrightarrow> P b \<Longrightarrow> held_status (f b) \<Longrightarrow> held_status b"
  shows "schedule_inv (s\<lparr>booking := updateMany P f (booking s)\<rparr>)"
proof -
  let ?g = "\<lambda>r. if P r then f r else r"
  have sub: "filter held_status (map ?g (booking s)) = map ?g (filter (\<lambda>x. held_status (?g x)) (filter held_status (booking s)))"
    by (rule filter_map_sub) (use held in \<open>auto split: if_splits\<close>)
  have "schedule.conflict_free (filter (\<lambda>x. held_status (?g x)) (filter held_status (booking s)))"
    using inv unfolding schedule_inv_def by (blast intro: sorted_wrt_filter)
  then have "schedule.conflict_free (filter held_status (map ?g (booking s)))"
    unfolding sub by (rule sorted_wrt_map_keep) (use keep in \<open>auto simp: held_slot_exclusion_def\<close>)
  moreover have "sorted_wrt (\<lambda>a b. \<not> booking_unique a b) (map ?g (booking s))"
    by (rule sorted_wrt_map_keep [of "\<lambda>a b. \<not> booking_unique a b"])
      (use inv keep in \<open>auto simp: schedule_inv_def booking_unique_def\<close>)
  ultimately show ?thesis by (simp add: schedule_inv_def updateMany_def)
qed

section \<open>What letting go keeps\<close>

lemma schedule_inv_frame [simp]:
  "schedule_inv (s\<lparr>creditAccount := x1\<rparr>) = schedule_inv s" "schedule_inv (s\<lparr>creditLedger := x2\<rparr>) = schedule_inv s"
  "schedule_inv (s\<lparr>loyaltyAccount := x3\<rparr>) = schedule_inv s" "schedule_inv (s\<lparr>loyaltyLedgerEntry := x4\<rparr>) = schedule_inv s"
  "schedule_inv (s\<lparr>auditLog := x5\<rparr>) = schedule_inv s" "schedule_inv (s\<lparr>emailNotification := x6\<rparr>) = schedule_inv s"
  "schedule_inv (s\<lparr>payment := x7\<rparr>) = schedule_inv s" "schedule_inv (s\<lparr>mission := x8\<rparr>) = schedule_inv s"
  "schedule_inv (s\<lparr>missionEvent := x9\<rparr>) = schedule_inv s" "schedule_inv (s\<lparr>giftVoucher := x10\<rparr>) = schedule_inv s"
  "schedule_inv (s\<lparr>cardPrize := x11\<rparr>) = schedule_inv s" "schedule_inv (s\<lparr>subscription := x12\<rparr>) = schedule_inv s"
  "schedule_inv (s\<lparr>observerPack := x13\<rparr>) = schedule_inv s"
  by (simp_all add: schedule_inv_def)

lemma give_back_frame:
  assumes "\<And>s t. I s \<Longrightarrow> I (s\<lparr>loyaltyAccount := t\<rparr>)" and "\<And>s t. I s \<Longrightarrow> I (s\<lparr>loyaltyLedgerEntry := t\<rparr>)"
    and "\<And>s t. I s \<Longrightarrow> I (s\<lparr>creditAccount := t\<rparr>)" and "\<And>s t. I s \<Longrightarrow> I (s\<lparr>creditLedger := t\<rparr>)"
    and "\<And>s t. I s \<Longrightarrow> I (s\<lparr>cardPrize := t\<rparr>)" and "\<And>s t. I s \<Longrightarrow> I (s\<lparr>auditLog := t\<rparr>)"
  shows "keeps I (give_back codes b now)"
  unfolding give_back_def
  by (intro keeps_intros keeps_loyalty_frame keeps_credit_frame releaseCardPrize_frame assms)

lemma give_back_keeps [keeps_intros]:
  "keeps schedule_inv (give_back codes b now)" "keeps credit_inv (give_back codes b now)"
  "keeps loyalty_inv (give_back codes b now)"
proof -
  show "keeps schedule_inv (give_back codes b now)" by (rule give_back_frame) simp_all
  show "keeps credit_inv (give_back codes b now)" "keeps loyalty_inv (give_back codes b now)"
    unfolding give_back_def
    by (intro keeps_intros keeps_loyalty_frame releaseCardPrize_frame keeps_credit_frame; simp)+
qed

lemma keeps_booking_update:
  assumes "\<And>s b. I s \<Longrightarrow> I (s\<lparr>booking := b\<rparr>)"
  shows "keeps I (tx_updateMany booking booking_update P f)" "keeps I (tx_update booking booking_update P f)"
  by (intro keeps_table assms; assumption)+

text \<open>Ending a booking, whichever way, frees its slot and changes nothing else of it.\<close>

lemma schedule_inv_end:
  assumes "schedule_inv s" and "\<not> held_status (b\<lparr>bk_status := st\<rparr>)"
  shows "schedule_inv (s\<lparr>booking := updateMany P (\<lambda>b. b\<lparr>bk_status := st\<rparr>) (booking s)\<rparr>)"
  by (rule schedule_inv_update [OF assms(1)]) (use assms(2) in \<open>auto simp: held_status_def\<close>)

lemma expireLapsedHolds_keeps [keeps_intros]:
  "keeps schedule_inv (expireLapsedHolds codes ob now)" "keeps credit_inv (expireLapsedHolds codes ob now)"
  "keeps loyalty_inv (expireLapsedHolds codes ob now)"
  unfolding expireLapsedHolds_def
  by (intro keeps_intros keeps_table; simp add: schedule_inv_end held_status_def)+

lemma releaseHeldSlot_keeps [keeps_intros]:
  "keeps schedule_inv (releaseHeldSlot codes b reason now)" "keeps credit_inv (releaseHeldSlot codes b reason now)"
  "keeps loyalty_inv (releaseHeldSlot codes b reason now)"
  unfolding releaseHeldSlot_def
  by (intro keeps_intros keeps_table keeps_outbox; simp add: schedule_inv_end held_status_def)+

lemma releaseSlotForFailedPayment_keeps [keeps_intros]:
  "keeps schedule_inv (releaseSlotForFailedPayment codes b reason now)"
  "keeps credit_inv (releaseSlotForFailedPayment codes b reason now)"
  "keeps loyalty_inv (releaseSlotForFailedPayment codes b reason now)"
  unfolding releaseSlotForFailedPayment_def by (intro keeps_intros)+

section \<open>Retries\<close>

lemma retry_from_keeps:
  assumes "\<And>n. keepsj I (attempt n)"
  shows "keepsj I (retry_from attempt tries)"
  using assms
proof (induction attempt tries rule: retry_from.induct)
  case (1 attempt tries)
  show ?case unfolding retry_from.simps [of attempt tries]
    by (intro keepsj_intros 1) simp_all
qed

lemma retryOnDeadlock_keeps [keepsj_intros]:
  "(\<And>n. keepsj I (attempt n)) \<Longrightarrow> keepsj I (retryOnDeadlock attempt)"
  unfolding retryOnDeadlock_def by (rule retry_from_keeps)

text \<open>What is returned or thrown is what some attempt returned or threw, and a deadlock is thrown
  only by the last.\<close>

lemma retry_from_last:
  assumes "tries \<le> DEADLOCK_ATTEMPTS"
  shows "\<exists>n s1. tries \<le> n \<and> n \<le> DEADLOCK_ATTEMPTS \<and> retry_from attempt tries s = attempt n s1
     \<and> (fst (attempt n s1) = Inl (SqlError ''40P01'') \<longrightarrow> n = DEADLOCK_ATTEMPTS)"
  using assms
proof (induction attempt tries arbitrary: s rule: retry_from.induct)
  case (1 attempt tries)
  obtain r s1 where a: "attempt tries s = (r, s1)" by fastforce
  show ?case
  proof (cases "r = Inl (SqlError ''40P01'') \<and> tries < DEADLOCK_ATTEMPTS")
    case True
    then have "retry_from attempt tries s = retry_from attempt (tries + 1) s1"
      using a by (simp add: retry_from.simps [of attempt tries] catchj_def)
    moreover from True obtain n s2 where "tries + 1 \<le> n \<and> n \<le> DEADLOCK_ATTEMPTS \<and>
        retry_from attempt (tries + 1) s1 = attempt n s2 \<and>
        (fst (attempt n s2) = Inl (SqlError ''40P01'') \<longrightarrow> n = DEADLOCK_ATTEMPTS)"
      using 1(1) [of "SqlError ''40P01''" s1] by auto
    ultimately show ?thesis by (intro exI [of _ n] exI [of _ s2]) simp
  next
    case False
    then have "retry_from attempt tries s = attempt tries s"
      using a 1(2) by (cases r) (auto simp: retry_from.simps [of attempt tries] catchj_def)
    with False a 1(2) show ?thesis by (intro exI [of _ tries] exI [of _ s]) auto
  qed
qed

section \<open>Lapsed holds\<close>

lemma schedule_inv_ids:
  assumes "schedule_inv s"
  shows "distinct (map bk_id (booking s))"
proof -
  have "sorted_wrt (\<lambda>a b. \<not> booking_unique a b) bs \<Longrightarrow> distinct (map bk_id bs)" for bs
    by (induction bs) (auto simp: booking_unique_def)
  with assms show ?thesis by (simp add: schedule_inv_def)
qed

lemma expireLapsedHolds_bookings:
  assumes "schedule_inv s" and "expireLapsedHolds codes ob now s = Inr (x, s')"
  shows "booking s' = updateMany (lapsed ob now) (\<lambda>b. b\<lparr>bk_status := BK_EXPIRED\<rparr>) (booking s)"
proof -
  let ?rows = "filter (lapsed ob now) (booking s)"
  let ?t = "updateMany (lapsed ob now) (\<lambda>b. b\<lparr>bk_status := BK_EXPIRED\<rparr>) (booking s)"
  have same: "updateMany (\<lambda>b. bk_id b \<in> set (map bk_id ?rows)) (\<lambda>b. b\<lparr>bk_status := BK_EXPIRED\<rparr>) (booking s) = ?t"
    using distinct_key_eq [OF schedule_inv_ids [OF assms(1)]] by (auto simp: updateMany_def)
  have "keeps (\<lambda>s. booking s = ?t) (for_each ?rows (\<lambda>b. give_back codes b now))"
    by (intro keeps_intros give_back_frame) simp_all
  note kept = keepsD [OF this]
  show ?thesis
  proof (cases "?rows = []")
    case True
    then have "?t = booking s" by (auto simp: filter_empty_conv updateMany_def intro: map_idI)
    with True assms(2) show ?thesis by (simp add: expireLapsedHolds_def tx_simps)
  next
    case False
    with assms(2) have "for_each ?rows (\<lambda>b. give_back codes b now) (s\<lparr>booking := ?t\<rparr>) = Inr (x, s')"
      unfolding expireLapsedHolds_def bindt_steps(2) if_not_P [OF False] tx_updateMany_apply(2) same by simp
    from kept [OF _ this] show ?thesis by simp
  qed
qed

end
