(* ===== verification/Reserve.thy ===== *)
theory Reserve
  imports Holds Slot_List
begin

text \<open>
  Reserving a slot, src/apps/api/src/features/booking/reserve.ts, with the choice of payment
  provider (features/payments/bog-checkout.ts, lib/deployment.ts).

  \<open>reserveSlot\<close> checks the request against the database it reads, prices it, and then runs one
  transaction, retried on a deadlock, that holds the slot and takes whatever pays for it. What
  the code does not decide is a field of \<open>world\<close>: the environment of the process, SHA-256, the
  referral codes, astronomy and time zones, the ids and the clock the database hands out at
  each attempt, whether the database breaks a deadlock by aborting the attempt, and what other
  sessions commit before each attempt (\<open>w_others W n\<close>, n from 1) and before the look-up that
  follows a conflict (\<open>w_others W 0\<close>).
\<close>

section \<open>Numbers in messages\<close>

fun decimal_nat :: "nat \<Rightarrow> string" where
  "decimal_nat n = (if n < 10 then [digit (int n)] else decimal_nat (n div 10) @ [digit (int (n mod 10))])"

declare decimal_nat.simps [simp del]

definition decimal :: "int \<Rightarrow> string" where
  "decimal n = (if n < 0 then ''-'' else []) @ decimal_nat (nat \<bar>n\<bar>)"

definition decimal_opt :: "int option \<Rightarrow> string" where
  "decimal_opt v = (case v of None \<Rightarrow> ''null'' | Some n \<Rightarrow> decimal n)"

section \<open>Payment provider (bog-checkout.ts, deployment.ts)\<close>

text \<open>
  The variables read. \<open>new URL(path, APP_URL)\<close> with an absolute path is the origin of
  \<open>APP_URL\<close> followed by the path; the origin is kept.
\<close>

record environment =
  env_NODE_ENV :: string
  env_DARKVIEW_DEPLOYMENT :: "string option"
  env_PAYMENT_PROVIDER :: "paymentProvider option"
  env_BOG_CLIENT_ID :: "string option"
  env_BOG_SECRET_KEY :: "string option"
  env_APP_ORIGIN :: string

text \<open>A JavaScript string tested for truth: present and not empty.\<close>

definition truthy :: "string option \<Rightarrow> bool" where
  "truthy v \<longleftrightarrow> v \<noteq> None \<and> v \<noteq> Some []"

definition sandboxMoneyAllowed :: "environment \<Rightarrow> bool" where
  "sandboxMoneyAllowed E \<longleftrightarrow> env_NODE_ENV E \<noteq> ''production'' \<or> env_DARKVIEW_DEPLOYMENT E = Some ''demo''"

definition credentials :: "environment \<Rightarrow> (string \<times> string) option" where
  "credentials E =
     (case (env_BOG_CLIENT_ID E, env_BOG_SECRET_KEY E) of
        (Some clientId, Some secretKey) \<Rightarrow> if clientId \<noteq> [] \<and> secretKey \<noteq> [] then Some (clientId, secretKey) else None
      | _ \<Rightarrow> None)"

definition paymentProvider :: "environment \<Rightarrow> paymentProvider option" where
  "paymentProvider E =
     (let provider = (case env_PAYMENT_PROVIDER E of Some p \<Rightarrow> p
                      | None \<Rightarrow> if sandboxMoneyAllowed E then SANDBOX else BOG_IPAY)
      in if provider = SANDBOX then (if sandboxMoneyAllowed E then Some provider else None)
         else if credentials E \<noteq> None then Some provider else None)"

definition sandboxCheckoutPath :: "ident \<Rightarrow> string" where
  "sandboxCheckoutPath paymentId = ''/payments/'' @ paymentId @ ''/sandbox-checkout''"

definition sandboxCheckoutUrl :: "environment \<Rightarrow> ident \<Rightarrow> string" where
  "sandboxCheckoutUrl E paymentId = env_APP_ORIGIN E @ ''/api'' @ sandboxCheckoutPath paymentId"

definition paymentCheckout :: "environment \<Rightarrow> ident \<Rightarrow> paymentProvider \<times> string" where
  "paymentCheckout E paymentId =
     (let provider = (case paymentProvider E of None \<Rightarrow> SANDBOX | Some p \<Rightarrow> p)
      in if provider = SANDBOX then (provider, sandboxCheckoutUrl E paymentId)
         else (provider, env_APP_ORIGIN E @ ''/api/payments/'' @ paymentId @ ''/checkout''))"

section \<open>Requests and results\<close>

record createBookingRequest =
  rq_observatoryId :: ident
  rq_targetId :: "ident option"
  rq_slotStartAt :: "time option"
  rq_durationMinutes :: int
  rq_voucherCode :: "string option"
  rq_loyaltyPoints :: "int option"
  rq_useSubscriptionMinutes :: "bool option"

text \<open>\<open>rq_slotStartAt\<close> is \<open>new Date(request.slotStartAt)\<close>: \<open>None\<close> when it is not a valid instant.\<close>

datatype errorCode =
  ERR_INTERNAL | ERR_NOT_FOUND | ERR_VALIDATION_FAILED | ERR_SLOT_UNAVAILABLE | ERR_WEATHER_HOLD
| ERR_OBSERVATORY_OFFLINE | ERR_TARGET_NOT_OBSERVABLE | ERR_CONFLICT

record reserveSlotFailure =
  rf_status :: nat
  rf_code :: errorCode
  rf_message :: string
  rf_blockReasons :: "visibilityBlockReason list option"

record paymentIntent =
  pn_paymentId :: ident
  pn_provider :: paymentProvider
  pn_status :: paymentStatus
  pn_redirectUrl :: "string option"
  pn_expiresAt :: "string option"

record contractEntitlement =
  cn_status :: entitlementOutcome
  cn_cause :: lossCause
  cn_minutesLost :: int
  cn_expiresAt :: string
  cn_rescheduledBookingId :: "ident option"

record contractBooking =
  cb_id :: ident
  cb_userId :: ident
  cb_observatoryId :: ident
  cb_targetId :: ident
  cb_slotStartAt :: string
  cb_durationMinutes :: int
  cb_status :: bookingStatus
  cb_priceMinor :: int
  cb_currency :: currency
  cb_paymentId :: "ident option"
  cb_paymentIntent :: "paymentIntent option"
  cb_missionId :: "ident option"
  cb_tierDiscountMinor :: int
  cb_loyaltyPointsRedeemed :: int
  cb_subscriptionMinutesSpent :: int
  cb_entitlement :: "contractEntitlement option"
  cb_createdAt :: string

text \<open>A success carries the booking, the payment to make and whether it is a replay.\<close>

datatype reserveSlotResult =
    Reserved contractBooking "paymentIntent option" bool
  | Refused reserveSlotFailure

definition failure :: "nat \<Rightarrow> errorCode \<Rightarrow> string \<Rightarrow> reserveSlotFailure" where
  "failure status code message =
     \<lparr>rf_status = status, rf_code = code, rf_message = message, rf_blockReasons = None\<rparr>"

definition toPaymentIntent :: "payment_row \<Rightarrow> time option \<Rightarrow> paymentIntent" where
  "toPaymentIntent p expiresAt =
     \<lparr>pn_paymentId = pay_id p, pn_provider = pay_provider p, pn_status = pay_status p,
      pn_redirectUrl = pay_redirectUrl p, pn_expiresAt = map_option toISOString expiresAt\<rparr>"

definition toContractEntitlement :: "entitlement_row \<Rightarrow> contractEntitlement option" where
  "toContractEntitlement e =
     (case (en_cause e, en_expiresAt e) of
        (Some cause, Some expiresAt) \<Rightarrow>
          if en_outcome e \<noteq> EN_NONE
          then Some \<lparr>cn_status = en_outcome e, cn_cause = cause, cn_minutesLost = en_minutesLost e,
                     cn_expiresAt = toISOString expiresAt, cn_rescheduledBookingId = en_rescheduledBookingId e\<rparr>
          else None
      | _ \<Rightarrow> None)"

text \<open>\<open>toContractBooking\<close> of a row with the relations that were read with it.\<close>

definition toContractBooking :: "booking_row \<Rightarrow> payment_row option \<Rightarrow> entitlement_row option \<Rightarrow> contractBooking" where
  "toContractBooking row pay ent =
     \<lparr>cb_id = bk_id row, cb_userId = bk_userId row, cb_observatoryId = bk_observatoryId row,
      cb_targetId = bk_targetId row, cb_slotStartAt = toISOString (bk_slotStartAt row),
      cb_durationMinutes = bk_durationMinutes row, cb_status = bk_status row, cb_priceMinor = bk_priceMinor row,
      cb_currency = bk_currency row, cb_paymentId = bk_paymentId row,
      cb_paymentIntent = (if bk_status row = BK_PENDING_PAYMENT
         then map_option (\<lambda>p. toPaymentIntent p (bk_holdExpiresAt row)) pay else None),
      cb_missionId = bk_missionId row, cb_tierDiscountMinor = bk_tierDiscountMinor row,
      cb_loyaltyPointsRedeemed = bk_loyaltyPointsRedeemed row,
      cb_subscriptionMinutesSpent = bk_subscriptionMinutesSpent row,
      cb_entitlement = (case ent of None \<Rightarrow> None | Some e \<Rightarrow> toContractEntitlement e),
      cb_createdAt = toISOString (bk_createdAt row)\<rparr>"

section \<open>The world outside\<close>

record world =
  w_environment :: environment
  w_sha256 :: "string \<Rightarrow> string"
  w_codes :: "ident \<Rightarrow> string"
  w_astronomy :: astronomy
  w_zone :: "string \<Rightarrow> time \<Rightarrow> wall_parts"
  w_dark :: "site \<Rightarrow> int \<Rightarrow> time \<Rightarrow> time option"
  w_bookingId :: "nat \<Rightarrow> ident"
  w_paymentId :: "nat \<Rightarrow> ident"
  w_missionId :: "nat \<Rightarrow> ident"
  w_createdAt :: "nat \<Rightarrow> time"
  w_deadlock :: "nat \<Rightarrow> bool"
  w_others :: "nat \<Rightarrow> db \<Rightarrow> db"

text \<open>The n-th run of a transaction.\<close>

definition attempt_of :: "world \<Rightarrow> (nat \<Rightarrow> (db, 'a) tx) \<Rightarrow> nat \<Rightarrow> (db, 'a) job" where
  "attempt_of W m n =
     (\<lambda>s. if w_deadlock W n then (Inl (SqlError ''40P01''), w_others W n s)
          else transaction (m n) (w_others W n s))"

section \<open>The checks (reserveSlot)\<close>

text \<open>
  A check throws, or returns early with a failure, or goes on with a value.
\<close>

type_synonym 'a check = "exn + (reserveSlotFailure + 'a)"

definition pass :: "'a \<Rightarrow> 'a check" where "pass x = Inr (Inr x)"
definition refuse :: "reserveSlotFailure \<Rightarrow> 'a check" where "refuse f = Inr (Inl f)"

definition andthen :: "'a check \<Rightarrow> ('a \<Rightarrow> 'b check) \<Rightarrow> 'b check" where
  "andthen c f = (case c of Inl e \<Rightarrow> Inl e | Inr (Inl r) \<Rightarrow> Inr (Inl r) | Inr (Inr x) \<Rightarrow> f x)"

definition refuse_when :: "bool \<Rightarrow> reserveSlotFailure \<Rightarrow> unit check" where
  "refuse_when c f = (if c then refuse f else pass ())"

definition require :: "'a option \<Rightarrow> reserveSlotFailure \<Rightarrow> 'a check" where
  "require v f = (case v of None \<Rightarrow> refuse f | Some x \<Rightarrow> pass x)"

text \<open>A call that can throw.\<close>

definition call :: "exn + 'a \<Rightarrow> 'a check" where
  "call v = (case v of Inl e \<Rightarrow> Inl e | Inr x \<Rightarrow> pass x)"

definition targetTooLongForSlot :: "target_row \<Rightarrow> int \<Rightarrow> string option" where
  "targetTooLongForSlot tg durationMinutes =
     (if tg_expectedMissionMinutes tg \<le> durationMinutes then None
      else Some (tg_nameEn tg @ '' needs '' @ decimal (tg_expectedMissionMinutes tg) @ '' minutes; this slot is ''
                 @ decimal durationMinutes @ ''.''))"

fun block_reason_text :: "visibilityBlockReason \<Rightarrow> string" where
  "block_reason_text VB_SAFETY_ENVELOPE_UNMEASURED = ''SAFETY_ENVELOPE_UNMEASURED''"
| "block_reason_text VB_TARGET_DISABLED = ''TARGET_DISABLED''"
| "block_reason_text VB_OBSERVATORY_OFFLINE = ''OBSERVATORY_OFFLINE''"
| "block_reason_text VB_WEATHER_HOLD = ''WEATHER_HOLD''"
| "block_reason_text VB_BELOW_HORIZON = ''BELOW_HORIZON''"
| "block_reason_text VB_BELOW_MIN_ALTITUDE = ''BELOW_MIN_ALTITUDE''"
| "block_reason_text VB_ABOVE_MAX_ALTITUDE = ''ABOVE_MAX_ALTITUDE''"
| "block_reason_text VB_BEHIND_HORIZON_MASK = ''BEHIND_HORIZON_MASK''"
| "block_reason_text VB_IN_FORBIDDEN_AZIMUTH = ''IN_FORBIDDEN_AZIMUTH''"
| "block_reason_text VB_SUN_TOO_HIGH = ''SUN_TOO_HIGH''"
| "block_reason_text VB_TOO_CLOSE_TO_SUN = ''TOO_CLOSE_TO_SUN''"
| "block_reason_text VB_TOO_CLOSE_TO_MOON = ''TOO_CLOSE_TO_MOON''"
| "block_reason_text VB_DOES_NOT_FIT_FIELD = ''DOES_NOT_FIT_FIELD''"

fun join_comma :: "string list \<Rightarrow> string" where
  "join_comma [] = []"
| "join_comma [t] = t"
| "join_comma (t # ts) = t @ '', '' @ join_comma ts"

definition targetNotObservableInSlot ::
  "astronomy \<Rightarrow> db \<Rightarrow> bookableObservatory \<Rightarrow> target_row \<Rightarrow> time \<Rightarrow> int \<Rightarrow> unit check" where
  "targetNotObservableInSlot A s ob tg slotStartAt durationMinutes =
     andthen (call (slotVisibilityForBooking A s ob tg slotStartAt durationMinutes)) (\<lambda>visibility.
     refuse_when (\<not> sv_observable visibility)
       ((failure 422 ERR_TARGET_NOT_OBSERVABLE
           (tg_nameEn tg @ '' cannot be observed from this telescope for the whole slot (''
            @ join_comma (map block_reason_text (sv_blockReasons visibility))
            @ ''). Choose another target or another slot.''))
          \<lparr>rf_blockReasons := Some (sv_blockReasons visibility)\<rparr>))"

text \<open>The \<open>switch\<close> on why the generator calls the slot unavailable; it is given no bookings or offers.\<close>

definition slot_refusal :: "slotUnavailableReason option \<Rightarrow> reserveSlotFailure option" where
  "slot_refusal reason =
     (case reason of
        Some IN_THE_PAST \<Rightarrow> Some (failure 409 ERR_SLOT_UNAVAILABLE ''That slot has already started.'')
      | Some WEATHER_HOLD \<Rightarrow> Some (failure 409 ERR_WEATHER_HOLD ''The observatory is on weather hold for that night.'')
      | Some OBSERVATORY_OFFLINE \<Rightarrow> Some (failure 409 ERR_OBSERVATORY_OFFLINE ''The observatory is offline.'')
      | _ \<Rightarrow> None)"

definition chosen_target :: "db \<Rightarrow> createBookingRequest \<Rightarrow> target_row option check" where
  "chosen_target s rq =
     (if truthy (rq_targetId rq)
      then case find (\<lambda>tg. Some (tg_id tg) = rq_targetId rq) (target s) of
             Some tg \<Rightarrow> if tg_enabled tg then pass (Some tg) else refuse (failure 404 ERR_NOT_FOUND ''No such target.'')
           | None \<Rightarrow> refuse (failure 404 ERR_NOT_FOUND ''No such target.'')
      else pass None)"

text \<open>The request's observatory, slot and target, each check in the order of the code.\<close>

definition admit_request ::
  "world \<Rightarrow> db \<Rightarrow> ident \<Rightarrow> createBookingRequest \<Rightarrow> time \<Rightarrow> (bookableObservatory \<times> time \<times> slot \<times> target_row) check" where
  "admit_request W s userId rq now =
     andthen (require (findBookableObservatory s (rq_observatoryId rq))
        (failure 404 ERR_NOT_FOUND ''No such observatory.'')) (\<lambda>ob.
     andthen (chosen_target s rq) (\<lambda>chosen.
     andthen (require (rq_slotStartAt rq)
        (failure 422 ERR_VALIDATION_FAILED ''`slotStartAt` is not a valid instant.'')) (\<lambda>slotStartAt.
     andthen (refuse_when (\<not> isSessionLength (rq_durationMinutes rq))
        (failure 422 ERR_VALIDATION_FAILED ''A session runs 15 minutes to 4 hours, in quarter hours.'')) (\<lambda>_.
     andthen (call (findGeneratedSlot (w_zone W) (w_dark W) slotStartAt ob now (rq_durationMinutes rq))) (\<lambda>found.
     andthen (require found
        (failure 422 ERR_VALIDATION_FAILED (''That instant is not a slot this observatory offers. Slots come from ''
           @ ''GET /slots and start on the grid inside astronomical darkness, within ''
           @ ''the hours the observatory is available.''))) (\<lambda>sl.
     andthen (case chosen of None \<Rightarrow> pass ()
        | Some tg \<Rightarrow> (case targetTooLongForSlot tg (sl_durationMinutes sl) of None \<Rightarrow> pass ()
            | Some tooLong \<Rightarrow> refuse (failure 422 ERR_VALIDATION_FAILED tooLong))) (\<lambda>_.
     andthen (case slot_refusal (sl_unavailableReason sl) of None \<Rightarrow> pass () | Some f \<Rightarrow> refuse f) (\<lambda>_.
     andthen (refuse_when
        (offersAround s \<lparr>sr_observatoryId = bo_id ob, sr_slotStartAt = slotStartAt, sr_durationMinutes = sl_durationMinutes sl\<rparr>
           now (Some userId) \<noteq> [])
        (failure 409 ERR_SLOT_UNAVAILABLE ''That slot is being offered to someone on its waitlist.'')) (\<lambda>_.
     andthen (case chosen of
          Some tg \<Rightarrow> andthen (targetNotObservableInSlot (w_astronomy W) s ob tg slotStartAt (sl_durationMinutes sl)) (\<lambda>_. pass tg)
        | None \<Rightarrow> andthen (call (bestTargetForSlot (w_astronomy W) s ob slotStartAt (sl_durationMinutes sl))) (\<lambda>best.
            require best (failure 422 ERR_VALIDATION_FAILED (''No target is observable from this telescope for the whole of that slot. ''
              @ ''Choose another slot.'')))) (\<lambda>tg.
     pass (ob, slotStartAt, sl, tg)))))))))))"

definition reductions :: "createBookingRequest \<Rightarrow> nat" where
  "reductions rq = length (filter id [rq_voucherCode rq \<noteq> None, rq_loyaltyPoints rq \<noteq> None,
     rq_useSubscriptionMinutes rq = Some True])"

section \<open>What pays: vouchers and prizes\<close>

definition VOUCHER_UNUSABLE :: reserveSlotFailure where
  "VOUCHER_UNUSABLE = failure 422 ERR_VALIDATION_FAILED ''That voucher code cannot be used.''"

record voucherSpend =
  vs_claim :: "ident \<Rightarrow> ident \<Rightarrow> time \<Rightarrow> (db, bool) tx"
  vs_category :: auditCategory
  vs_action :: string
  vs_entityType :: string
  vs_entityId :: ident
  vs_message :: string

definition wrongLength :: "int option \<Rightarrow> reserveSlotFailure" where
  "wrongLength durationMinutes = failure 422 ERR_VALIDATION_FAILED
     (''This voucher is for a '' @ decimal_opt durationMinutes @ ''-minute observation.'')"

definition claim_voucher :: "ident \<Rightarrow> string \<Rightarrow> int \<Rightarrow> ident \<Rightarrow> ident \<Rightarrow> time \<Rightarrow> (db, bool) tx" where
  "claim_voucher voucherId codeHash durationMinutes bookingId userId t =
     bindt (tx_updateMany giftVoucher giftVoucher_update
        (\<lambda>v. gv_id v = voucherId \<and> gv_codeHash v = codeHash \<and> gv_status v = GV_ACTIVE
           \<and> gv_durationMinutes v = durationMinutes \<and> (case gv_expiresAt v of None \<Rightarrow> False | Some e \<Rightarrow> t < e))
        (\<lambda>v. v\<lparr>gv_status := GV_REDEEMED, gv_redeemedAt := Some t, gv_redeemedByUserId := Some userId,
              gv_redeemedBookingId := Some bookingId\<rparr>)) (\<lambda>count. ret (count = 1))"

definition giftVoucherSpend :: "(string \<Rightarrow> string) \<Rightarrow> db \<Rightarrow> string \<Rightarrow> int \<Rightarrow> time \<Rightarrow> voucherSpend check" where
  "giftVoucherSpend sha256 s code durationMinutes now =
     (let codeHash = hashVoucherCode sha256 code
      in case find (\<lambda>v. gv_codeHash v = codeHash) (giftVoucher s) of None \<Rightarrow> refuse VOUCHER_UNUSABLE
         | Some v \<Rightarrow>
            if gv_status v \<noteq> GV_ACTIVE \<or> (case gv_expiresAt v of None \<Rightarrow> True | Some e \<Rightarrow> e \<le> now)
            then refuse VOUCHER_UNUSABLE
            else if gv_durationMinutes v \<noteq> durationMinutes then refuse (wrongLength (Some (gv_durationMinutes v)))
            else pass \<lparr>vs_claim = claim_voucher (gv_id v) codeHash durationMinutes, vs_category = BOOKING,
               vs_action = ''GIFT_VOUCHER_REDEEMED'', vs_entityType = ''GiftVoucher'', vs_entityId = gv_id v,
               vs_message = ''Paid by gift voucher; mission scheduled for the booked slot.''\<rparr>)"

definition freeSlotPrizeSpend :: "cardPrize_row \<Rightarrow> int \<Rightarrow> voucherSpend check" where
  "freeSlotPrizeSpend prize durationMinutes =
     (if pz_durationMinutes prize \<noteq> Some durationMinutes then refuse (wrongLength (pz_durationMinutes prize))
      else pass \<lparr>vs_claim = (\<lambda>bookingId userId t. claimPrize (pz_id prize) userId t (Some bookingId) None),
         vs_category = CARD_DRAW, vs_action = ''CARD_PRIZE_REDEEMED'', vs_entityType = ''CardPrize'',
         vs_entityId = pz_id prize, vs_message = ''Paid by a card-draw prize; mission scheduled for the booked slot.''\<rparr>)"

text \<open>How the booking will be paid: minutes, a whole-slot voucher or prize, or money.\<close>

datatype pay_way = With_minutes | With_voucher voucherSpend | With_money "cardPrize_row option"

definition voucher_method :: "world \<Rightarrow> db \<Rightarrow> ident \<Rightarrow> bookableObservatory \<Rightarrow> slot \<Rightarrow> string \<Rightarrow> time \<Rightarrow> pay_way check" where
  "voucher_method W s userId ob sl typed now =
     (case normaliseVoucherCode typed of None \<Rightarrow> refuse VOUCHER_UNUSABLE
      | Some code \<Rightarrow>
         andthen (call (findSpendablePrize (hashVoucherCode (w_sha256 W) code) userId now s)) (\<lambda>(found, _).
         case found of
           None \<Rightarrow> andthen (giftVoucherSpend (w_sha256 W) s code (sl_durationMinutes sl) now) (\<lambda>spend. pass (With_voucher spend))
         | Some prize \<Rightarrow>
            if pz_observatoryId prize \<noteq> bo_id ob
            then refuse (failure 422 ERR_VALIDATION_FAILED ''This prize is for another observatory.'')
            else (case pz_kind prize of
                OBSERVER_SEAT \<Rightarrow> refuse (failure 422 ERR_VALIDATION_FAILED
                   ''This prize is an observer seat: spend it on a live session.'')
              | DISCOUNT \<Rightarrow> pass (With_money (Some prize))
              | FREE_SLOT \<Rightarrow> andthen (freeSlotPrizeSpend prize (sl_durationMinutes sl)) (\<lambda>spend.
                  pass (With_voucher spend)))))"

definition choose_method ::
  "world \<Rightarrow> db \<Rightarrow> ident \<Rightarrow> createBookingRequest \<Rightarrow> bookableObservatory \<Rightarrow> slot \<Rightarrow> time \<Rightarrow> pay_way check" where
  "choose_method W s userId rq ob sl now =
     andthen (refuse_when (1 < reductions rq) (failure 422 ERR_VALIDATION_FAILED
        ''A booking uses one of a voucher, loyalty points or subscription minutes.'')) (\<lambda>_.
     if rq_useSubscriptionMinutes rq = Some True then pass With_minutes
     else case rq_voucherCode rq of None \<Rightarrow> pass (With_money None)
       | Some typed \<Rightarrow> voucher_method W s userId ob sl typed now)"

section \<open>What it costs\<close>

definition PAYMENT_HOLD_MINUTES :: int where "PAYMENT_HOLD_MINUTES = 15"

record price =
  pr_listPriceMinor :: int
  pr_tierDiscountMinor :: int
  pr_prizeDiscountMinor :: int
  pr_loyaltyPointsRedeemed :: int
  pr_pointsValueMinor :: int
  pr_amountMinor :: int

text \<open>A missing percentage multiplies as JavaScript's \<open>null\<close> does: as zero.\<close>

definition percent_off :: "cardPrize_row option \<Rightarrow> int" where
  "percent_off prize = (case prize of None \<Rightarrow> 0 | Some p \<Rightarrow> (case pz_percentOff p of None \<Rightarrow> 0 | Some n \<Rightarrow> n))"

definition price_of :: "slot \<Rightarrow> loyaltyScheme_row \<Rightarrow> int \<Rightarrow> cardPrize_row option \<Rightarrow> int \<Rightarrow> price" where
  "price_of sl scheme discountPercent prize points =
     (let tierDiscount = (sl_priceMinor sl * discountPercent) div 100;
          prizeDiscount = ((sl_priceMinor sl - tierDiscount) * percent_off prize) div 100;
          pointsValue = (points * 100) div ls_pointsPerGelRedeemed scheme
      in \<lparr>pr_listPriceMinor = sl_priceMinor sl, pr_tierDiscountMinor = tierDiscount, pr_prizeDiscountMinor = prizeDiscount,
          pr_loyaltyPointsRedeemed = points, pr_pointsValueMinor = pointsValue,
          pr_amountMinor = sl_priceMinor sl - tierDiscount - prizeDiscount - pointsValue\<rparr>)"

definition price_booking ::
  "db \<Rightarrow> ident \<Rightarrow> createBookingRequest \<Rightarrow> slot \<Rightarrow> cardPrize_row option \<Rightarrow> price check" where
  "price_booking s userId rq sl prize =
     andthen (call (readLoyaltyScheme s)) (\<lambda>((scheme, tiers), _).
     let account = find (\<lambda>a. la_userId a = userId) (loyaltyAccount s);
         tierPoints = (case account of None \<Rightarrow> 0 | Some a \<Rightarrow> la_tierPoints a);
         balance = (case account of None \<Rightarrow> 0 | Some a \<Rightarrow> la_balance a);
         points = (case rq_loyaltyPoints rq of None \<Rightarrow> 0 | Some n \<Rightarrow> n)
     in case tierFor tiers tierPoints of None \<Rightarrow> Inl (JsError ''TypeError'')
        | Some tier \<Rightarrow>
           let p = price_of sl scheme (lt_discountPercent tier) prize points;
               maximumValueMinor = max (pr_amountMinor p + pr_pointsValueMinor p - ls_minimumPayableMinor scheme) 0
           in andthen (refuse_when (0 < points \<and> maximumValueMinor < pr_pointsValueMinor p)
                (failure 422 ERR_VALIDATION_FAILED (''At most ''
                   @ decimal ((maximumValueMinor * ls_pointsPerGelRedeemed scheme div 100 div 100) * 100)
                   @ '' points can be spent on this booking.''))) (\<lambda>_.
              andthen (refuse_when (0 < points \<and> balance < points)
                (failure 422 ERR_VALIDATION_FAILED ''Not enough loyalty points.'')) (\<lambda>_.
              pass p)))"

section \<open>The transactions\<close>

text \<open>A booking row as the three ways create it.\<close>

definition booking_for ::
  "ident \<Rightarrow> ident \<Rightarrow> bookableObservatory \<Rightarrow> ident \<Rightarrow> time \<Rightarrow> slot \<Rightarrow> string option \<Rightarrow> time \<Rightarrow> booking_row" where
  "booking_for bookingId userId ob targetId slotStartAt sl idempotencyKey createdAt =
     \<lparr>bk_id = bookingId, bk_userId = userId, bk_targetId = targetId, bk_observatoryId = bo_id ob,
      bk_telescopeId = bo_telescopeId ob, bk_missionId = None, bk_paymentId = None, bk_slotStartAt = slotStartAt,
      bk_durationMinutes = sl_durationMinutes sl, bk_status = BK_CONFIRMED, bk_holdExpiresAt = None, bk_priceMinor = 0,
      bk_currency = sl_currency sl, bk_idempotencyKey = idempotencyKey, bk_tierDiscountMinor = 0,
      bk_loyaltyPointsRedeemed = 0, bk_subscriptionMinutesSpent = 0, bk_isDemo = bo_isDemo ob, bk_createdAt = createdAt\<rparr>"

definition payment_for :: "environment \<Rightarrow> ident \<Rightarrow> ident \<Rightarrow> int \<Rightarrow> currency \<Rightarrow> bool \<Rightarrow> payment_row" where
  "payment_for E paymentId userId amountMinor cur isDemo =
     \<lparr>pay_id = paymentId, pay_userId = userId, pay_purpose = FOR_BOOKING,
      pay_provider = fst (paymentCheckout E paymentId), pay_status = PAY_PENDING, pay_amountMinor = amountMinor,
      pay_currency = cur, pay_providerRef = None, pay_redirectUrl = Some (snd (paymentCheckout E paymentId)),
      pay_failureReason = None, pay_capturedAt = None, pay_refundedAt = None, pay_subscriptionId = None,
      pay_periodStart = None, pay_isDemo = isDemo\<rparr>"

definition prize_redeemed_audit :: "ident \<Rightarrow> ident \<Rightarrow> ident \<Rightarrow> int \<Rightarrow> bool \<Rightarrow> auditLog_row" where
  "prize_redeemed_audit userId prizeId bookingId prizeDiscountMinor isDemo =
     (audit_entry CARD_DRAW ''CARD_PRIZE_REDEEMED''
        [(''bookingId'', JStr bookingId), (''kind'', JStr ''DISCOUNT''), (''prizeDiscountMinor'', JNum prizeDiscountMinor)])
     \<lparr>au_actorUserId := Some userId, au_entityType := Some ''CardPrize'', au_entityId := Some prizeId, au_isDemo := isDemo\<rparr>"

definition reserved_audit :: "booking_row \<Rightarrow> price \<Rightarrow> time \<Rightarrow> ident \<Rightarrow> auditLog_row" where
  "reserved_audit b p holdExpiresAt paymentId =
     (audit_entry BOOKING ''BOOKING_RESERVED''
        [(''targetId'', JStr (bk_targetId b)), (''observatoryId'', JStr (bk_observatoryId b)),
         (''slotStartAt'', JStr (toISOString (bk_slotStartAt b))), (''durationMinutes'', JNum (bk_durationMinutes b)),
         (''priceMinor'', JNum (pr_amountMinor p)), (''listPriceMinor'', JNum (pr_listPriceMinor p)),
         (''tierDiscountMinor'', JNum (pr_tierDiscountMinor p)), (''prizeDiscountMinor'', JNum (pr_prizeDiscountMinor p)),
         (''loyaltyPointsRedeemed'', JNum (pr_loyaltyPointsRedeemed p)), (''currency'', JStr ''GEL''),
         (''holdExpiresAt'', JStr (toISOString holdExpiresAt)), (''paymentId'', JStr paymentId)])
     \<lparr>au_actorUserId := Some (bk_userId b), au_entityType := Some ''Booking'', au_entityId := Some (bk_id b),
      au_isDemo := bk_isDemo b\<rparr>"

definition redeem_entry :: "ident \<Rightarrow> ident \<Rightarrow> int \<Rightarrow> loyaltyEntry" where
  "redeem_entry bookingId userId points =
     (loyalty_entry userId REDEEMED_POINTS (- points) (booking_source bookingId))
       \<lparr>lp_bookingId := Some bookingId, lp_actorUserId := Some userId, lp_refuseNegativeBalance := True\<rparr>"

definition claim_discount :: "cardPrize_row option \<Rightarrow> ident \<Rightarrow> ident \<Rightarrow> time \<Rightarrow> int \<Rightarrow> bool \<Rightarrow> (db, unit) tx" where
  "claim_discount prize userId bookingId now prizeDiscountMinor isDemo =
     (case prize of None \<Rightarrow> ret ()
      | Some p \<Rightarrow> bindt (claimPrize (pz_id p) userId now (Some bookingId) None) (\<lambda>claimed.
          if \<not> claimed then throw VoucherUnusable
          else recordAuditEvent (prize_redeemed_audit userId (pz_id p) bookingId prizeDiscountMinor isDemo)))"

definition spend_points :: "(ident \<Rightarrow> string) \<Rightarrow> ident \<Rightarrow> ident \<Rightarrow> int \<Rightarrow> (db, unit) tx" where
  "spend_points codes userId bookingId points =
     (if 0 < points
      then bindt (postLoyaltyEntry codes (redeem_entry bookingId userId points)) (\<lambda>spent.
           case spent of Points_posted _ _ \<Rightarrow> ret () | Points_refused _ \<Rightarrow> throw PointsUnavailable)
      else bindt (ensureLoyaltyAccount codes userId None) (\<lambda>_. ret ()))"

definition reserve_cash ::
  "world \<Rightarrow> ident \<Rightarrow> bookableObservatory \<Rightarrow> ident \<Rightarrow> time \<Rightarrow> slot \<Rightarrow> cardPrize_row option \<Rightarrow> price \<Rightarrow> string option \<Rightarrow> time
   \<Rightarrow> nat \<Rightarrow> (db, booking_row \<times> payment_row) tx" where
  "reserve_cash W userId ob targetId slotStartAt sl prize p idempotencyKey now n =
     (let holdExpiresAt = now + PAYMENT_HOLD_MINUTES * minute_ms;
          b = (booking_for (w_bookingId W n) userId ob targetId slotStartAt sl idempotencyKey (w_createdAt W n))
                \<lparr>bk_paymentId := Some (w_paymentId W n), bk_status := BK_PENDING_PAYMENT,
                 bk_holdExpiresAt := Some holdExpiresAt, bk_priceMinor := pr_amountMinor p,
                 bk_tierDiscountMinor := pr_tierDiscountMinor p, bk_loyaltyPointsRedeemed := pr_loyaltyPointsRedeemed p\<rparr>
      in bindt (expireLapsedHolds (w_codes W) (bo_id ob) now) (\<lambda>_.
         bindt (tx_create payment payment_update (\<lambda>new old. pay_id new = pay_id old)
           (payment_for (w_environment W) (w_paymentId W n) userId (pr_amountMinor p) (sl_currency sl) (bo_isDemo ob))) (\<lambda>pay.
         bindt (createBooking b) (\<lambda>b.
         bindt (claim_discount prize userId (bk_id b) now (pr_prizeDiscountMinor p) (bo_isDemo ob)) (\<lambda>_.
         bindt (spend_points (w_codes W) userId (bk_id b) (pr_loyaltyPointsRedeemed p)) (\<lambda>_.
         bindt (recordAuditEvent (reserved_audit b p holdExpiresAt (pay_id pay))) (\<lambda>_.
         ret (b, pay))))))))"

definition mission_for :: "ident \<Rightarrow> booking_row \<Rightarrow> bookableObservatory \<Rightarrow> observatoryMode \<Rightarrow> time \<Rightarrow> mission_row" where
  "mission_for missionId b ob mode now =
     \<lparr>mi_id = missionId, mi_userId = bk_userId b, mi_targetId = bk_targetId b, mi_observatoryId = bo_id ob,
      mi_telescopeId = bo_telescopeId ob, mi_state = MS_SCHEDULED, mi_mode = mode, mi_observerCapacity = 10,
      mi_requestedAt = now, mi_scheduledFor = Some (bk_slotStartAt b), mi_isDemo = bo_isDemo ob,
      mi_failureReason = None, mi_joinPolicy = JOIN_DISABLED, mi_broadcast = False, mi_startedAt = None, mi_completedAt = None,
      mi_currentTargetId = None, mi_currentTargetSince = None, mi_imageUnrecoveredSince = None,
      mi_slotEndNotifiedAt = None, mi_sessionEndedNotifiedAt = None\<rparr>"

definition scheduled_event :: "mission_row \<Rightarrow> string \<Rightarrow> time \<Rightarrow> missionEvent_row" where
  "scheduled_event m message now =
     \<lparr>ev_missionId = mi_id m, ev_state = MS_SCHEDULED, ev_failureReason = None, ev_source = FROM_CLOUD,
      ev_commandId = None, ev_message = Some message, ev_occurredAt = now,
      ev_simulated = (mi_mode m = SIMULATED), ev_isDemo = mi_isDemo m\<rparr>"

definition scheduleUnpaidBooking ::
  "ident \<Rightarrow> booking_row \<Rightarrow> bookableObservatory \<Rightarrow> time \<Rightarrow> string \<Rightarrow> (db, booking_row) tx" where
  "scheduleUnpaidBooking missionId b ob now message =
     bindt (tx_findOrThrow observatory (\<lambda>o'. ob_id o' = bo_id ob)) (\<lambda>o'.
     bindt (tx_create mission mission_update (\<lambda>new old. mi_id new = mi_id old)
        (mission_for missionId b ob (ob_mode o') now)) (\<lambda>m.
     bindt (modifies (\<lambda>s. s\<lparr>missionEvent := missionEvent s @ [scheduled_event m message now]\<rparr>)) (\<lambda>_.
     bindt (tx_update booking booking_update (\<lambda>x. bk_id x = bk_id b) (\<lambda>x. x\<lparr>bk_missionId := Some (mi_id m)\<rparr>)) (\<lambda>_.
     bindt (queueEmail (email (bk_userId b) MAIL_BOOKING_CONFIRMED (''booking-confirmed:'' @ bk_id b)
        [(''bookingId'', bk_id b)])) (\<lambda>_.
     ret (b\<lparr>bk_missionId := Some (mi_id m)\<rparr>))))))"

definition unpaid_audit ::
  "auditCategory \<Rightarrow> string \<Rightarrow> string \<Rightarrow> ident \<Rightarrow> (string \<times> json) list \<Rightarrow> (string \<times> json) list \<Rightarrow> booking_row \<Rightarrow> auditLog_row" where
  "unpaid_audit category action entityType entityId before after b =
     (audit_entry category action
        (before @ [(''observatoryId'', JStr (bk_observatoryId b)), (''targetId'', JStr (bk_targetId b)),
          (''slotStartAt'', JStr (toISOString (bk_slotStartAt b))), (''durationMinutes'', JNum (bk_durationMinutes b))] @ after))
     \<lparr>au_actorUserId := Some (bk_userId b), au_missionId := bk_missionId b, au_entityType := Some entityType,
      au_entityId := Some entityId, au_isDemo := bk_isDemo b\<rparr>"

definition reserve_voucher ::
  "world \<Rightarrow> ident \<Rightarrow> voucherSpend \<Rightarrow> bookableObservatory \<Rightarrow> ident \<Rightarrow> time \<Rightarrow> slot \<Rightarrow> string option \<Rightarrow> time \<Rightarrow> nat
   \<Rightarrow> (db, booking_row) tx" where
  "reserve_voucher W userId spend ob targetId slotStartAt sl idempotencyKey now n =
     bindt (expireLapsedHolds (w_codes W) (bo_id ob) now) (\<lambda>_.
     bindt (createBooking
        (booking_for (w_bookingId W n) userId ob targetId slotStartAt sl idempotencyKey (w_createdAt W n))) (\<lambda>b.
     bindt (vs_claim spend (bk_id b) userId now) (\<lambda>claimed.
     if \<not> claimed then throw VoucherUnusable
     else bindt (scheduleUnpaidBooking (w_missionId W n) b ob now (vs_message spend)) (\<lambda>confirmed.
          bindt (recordAuditEvent (unpaid_audit (vs_category spend) (vs_action spend) (vs_entityType spend)
             (vs_entityId spend) [(''bookingId'', JStr (bk_id b))] [] confirmed)) (\<lambda>_.
          ret confirmed)))))"

definition reserve_minutes ::
  "world \<Rightarrow> ident \<Rightarrow> bookableObservatory \<Rightarrow> ident \<Rightarrow> time \<Rightarrow> slot \<Rightarrow> string option \<Rightarrow> time \<Rightarrow> nat \<Rightarrow> (db, booking_row) tx" where
  "reserve_minutes W userId ob targetId slotStartAt sl idempotencyKey now n =
     bindt (expireLapsedHolds (w_codes W) (bo_id ob) now) (\<lambda>_.
     bindt (createBooking
        ((booking_for (w_bookingId W n) userId ob targetId slotStartAt sl idempotencyKey (w_createdAt W n))
           \<lparr>bk_subscriptionMinutesSpent := sl_durationMinutes sl\<rparr>)) (\<lambda>b.
     bindt (spendBookingMinutes (bk_id b) userId (sl_durationMinutes sl) (bo_isDemo ob) now) (\<lambda>spend.
     case spend of
       Not_spent SPEND_DUPLICATE \<Rightarrow> throw (JsError (''Booking '' @ bk_id b @ '' already spent its minutes.''))
     | Not_spent reason \<Rightarrow> throw (MinutesUnavailable reason)
     | Spent \<Rightarrow>
        bindt (scheduleUnpaidBooking (w_missionId W n) b ob now
           ''Paid with subscription minutes; mission scheduled for the booked slot.'') (\<lambda>confirmed.
        bindt (recordAuditEvent (unpaid_audit BOOKING ''BOOKING_PAID_WITH_MINUTES'' ''Booking'' (bk_id b) []
           [(''subscriptionMinutesSpent'', JNum (sl_durationMinutes sl))] confirmed)) (\<lambda>_.
        ret confirmed)))))"

section \<open>Replay and the whole request\<close>

definition replayByIdempotencyKey :: "db \<Rightarrow> ident \<Rightarrow> string \<Rightarrow> reserveSlotResult option" where
  "replayByIdempotencyKey s userId key =
     (case find (\<lambda>b. bk_userId b = userId \<and> bk_idempotencyKey b = Some key) (booking s) of
        None \<Rightarrow> None
      | Some b \<Rightarrow>
         (case find (\<lambda>p. Some (pay_id p) = bk_paymentId b) (payment s) of
            Some p \<Rightarrow> Some (Reserved (toContractBooking b (Some p) None) (Some (toPaymentIntent p (bk_holdExpiresAt b))) True)
          | None \<Rightarrow>
             if list_ex (\<lambda>v. gv_redeemedBookingId v = Some (bk_id b)) (giftVoucher s)
                \<or> list_ex (\<lambda>z. pz_redeemedBookingId z = Some (bk_id b)) (cardPrize s)
                \<or> 0 < bk_subscriptionMinutesSpent b
             then Some (Reserved (toContractBooking b None None) None True)
             else None))"

definition replay_given :: "db \<Rightarrow> ident \<Rightarrow> string option \<Rightarrow> reserveSlotResult option" where
  "replay_given s userId key =
     (if truthy key then replayByIdempotencyKey s userId (the key) else None)"

text \<open>The end of each \<open>catch\<close>: a conflict is a replay or a taken slot; anything else is thrown on.\<close>

definition after_conflict :: "world \<Rightarrow> ident \<Rightarrow> string option \<Rightarrow> exn \<Rightarrow> (db, reserveSlotResult) job" where
  "after_conflict W userId key e =
     (if \<not> isSlotConflict e then throwj e
      else (\<lambda>s. let s' = w_others W 0 s in
             (Inr (case replay_given s' userId key of Some r \<Rightarrow> r
                | None \<Rightarrow> Refused (failure 409 ERR_SLOT_UNAVAILABLE ''That slot has just been taken.'')), s')))"

definition reserveWithMoney ::
  "world \<Rightarrow> ident \<Rightarrow> bookableObservatory \<Rightarrow> ident \<Rightarrow> time \<Rightarrow> slot \<Rightarrow> cardPrize_row option \<Rightarrow> price \<Rightarrow> string option \<Rightarrow> time
   \<Rightarrow> (db, reserveSlotResult) job" where
  "reserveWithMoney W userId ob targetId slotStartAt sl prize p key now =
     catchj
       (bindj (retryOnDeadlock (attempt_of W (reserve_cash W userId ob targetId slotStartAt sl prize p key now))) (\<lambda>(b, pay).
        retj (Reserved (toContractBooking b (Some pay) None)
               (Some (toPaymentIntent pay (Some (now + PAYMENT_HOLD_MINUTES * minute_ms)))) False)))
       (\<lambda>e. if e = PointsUnavailable
            then retj (Refused (failure 422 ERR_VALIDATION_FAILED ''Not enough loyalty points.''))
            else if e = VoucherUnusable then retj (Refused VOUCHER_UNUSABLE)
            else after_conflict W userId key e)"

definition reserveWithVoucher ::
  "world \<Rightarrow> ident \<Rightarrow> voucherSpend \<Rightarrow> bookableObservatory \<Rightarrow> ident \<Rightarrow> time \<Rightarrow> slot \<Rightarrow> string option \<Rightarrow> time
   \<Rightarrow> (db, reserveSlotResult) job" where
  "reserveWithVoucher W userId spend ob targetId slotStartAt sl key now =
     catchj
       (bindj (retryOnDeadlock (attempt_of W (reserve_voucher W userId spend ob targetId slotStartAt sl key now))) (\<lambda>b.
        retj (Reserved (toContractBooking b None None) None False)))
       (\<lambda>e. if e = VoucherUnusable then retj (Refused VOUCHER_UNUSABLE) else after_conflict W userId key e)"

definition minutes_refusal :: "spend_refusal \<Rightarrow> int \<Rightarrow> reserveSlotFailure" where
  "minutes_refusal reason durationMinutes = failure 422 ERR_VALIDATION_FAILED
     (if reason = NO_CURRENT_PERIOD then ''There is no current subscription period to spend minutes from.''
      else ''Not enough subscription minutes: this slot needs '' @ decimal durationMinutes @ ''.'')"

definition reserveWithMinutes ::
  "world \<Rightarrow> ident \<Rightarrow> bookableObservatory \<Rightarrow> ident \<Rightarrow> time \<Rightarrow> slot \<Rightarrow> string option \<Rightarrow> time \<Rightarrow> (db, reserveSlotResult) job" where
  "reserveWithMinutes W userId ob targetId slotStartAt sl key now =
     catchj
       (bindj (retryOnDeadlock (attempt_of W (reserve_minutes W userId ob targetId slotStartAt sl key now))) (\<lambda>b.
        retj (Reserved (toContractBooking b None None) None False)))
       (\<lambda>e. case e of MinutesUnavailable reason \<Rightarrow> retj (Refused (minutes_refusal reason (sl_durationMinutes sl)))
            | _ \<Rightarrow> after_conflict W userId key e)"

text \<open>A check that did not pass ends the request.\<close>

definition checked :: "'a check \<Rightarrow> ('a \<Rightarrow> (db, reserveSlotResult) job) \<Rightarrow> (db, reserveSlotResult) job" where
  "checked c f = (case c of Inl e \<Rightarrow> throwj e | Inr (Inl r) \<Rightarrow> retj (Refused r) | Inr (Inr x) \<Rightarrow> f x)"

definition reserveSlot ::
  "world \<Rightarrow> ident \<Rightarrow> createBookingRequest \<Rightarrow> string option \<Rightarrow> time \<Rightarrow> (db, reserveSlotResult) job" where
  "reserveSlot W userId rq key now =
     (if paymentProvider (w_environment W) = None
      then retj (Refused (failure 500 ERR_INTERNAL ''Bookings are unavailable: no payment provider is configured.''))
      else bindj (readsj (\<lambda>s. s)) (\<lambda>s.
        case replay_given s userId key of Some existing \<Rightarrow> retj existing
        | None \<Rightarrow>
           checked (admit_request W s userId rq now) (\<lambda>(ob, slotStartAt, sl, tg).
           checked (choose_method W s userId rq ob sl now) (\<lambda>m.
           case m of
             With_minutes \<Rightarrow> reserveWithMinutes W userId ob (tg_id tg) slotStartAt sl key now
           | With_voucher spend \<Rightarrow> reserveWithVoucher W userId spend ob (tg_id tg) slotStartAt sl key now
           | With_money prize \<Rightarrow>
               checked (price_booking s userId rq sl prize) (\<lambda>p.
               reserveWithMoney W userId ob (tg_id tg) slotStartAt sl prize p key now)))))"

section \<open>What the transactions keep\<close>

text \<open>The schedule and both ledgers together.\<close>

definition books_inv :: "db \<Rightarrow> bool" where
  "books_inv s \<longleftrightarrow> schedule_inv s \<and> credit_inv s \<and> loyalty_inv s"

lemma books_invI [keeps_intros]:
  "keeps schedule_inv m \<Longrightarrow> keeps credit_inv m \<Longrightarrow> keeps loyalty_inv m \<Longrightarrow> keeps books_inv m"
  by (auto simp: keeps_def hoare_def books_inv_def)

lemma set_mission_keeps [keeps_intros]:
  "keeps schedule_inv (tx_update booking booking_update P (\<lambda>x. x\<lparr>bk_missionId := m\<rparr>))"
  by (intro keeps_table schedule_inv_update) (auto simp: held_status_def)

lemma createBooking_frame:
  assumes "\<And>s t. I s \<Longrightarrow> I (s\<lparr>booking := t\<rparr>)"
  shows "keeps I (createBooking b)"
  by (rule keepsI) (use assms in \<open>auto simp: createBooking_eq_Inr\<close>)

lemma scheduleUnpaidBooking_keeps:
  "keeps schedule_inv (scheduleUnpaidBooking i b ob now msg)" "keeps credit_inv (scheduleUnpaidBooking i b ob now msg)"
  "keeps loyalty_inv (scheduleUnpaidBooking i b ob now msg)"
  unfolding scheduleUnpaidBooking_def
  by (intro keeps_intros keeps_outbox | rule keeps_table | simp)+

lemma claim_voucher_frame:
  assumes "\<And>s t. I s \<Longrightarrow> I (s\<lparr>giftVoucher := t\<rparr>)"
  shows "keeps I (claim_voucher v h d b u t)"
  unfolding claim_voucher_def by (intro keeps_intros keeps_table assms)

lemma reserve_cash_keeps: "keeps books_inv (reserve_cash W u ob tg t sl prize p key now n)"
proof -
  note open_tx = reserve_cash_def claim_discount_def spend_points_def Let_def
  show ?thesis
    by (rule books_invI; unfold open_tx)
      (intro keeps_intros createBooking_frame keeps_outbox claimPrize_frame keeps_loyalty_frame
       | rule keeps_table | simp split: postResult.split add: keeps_intros)+
qed

lemma keeps_spend_result [keeps_intros]:
  "keeps I m \<Longrightarrow> keeps I m0 \<Longrightarrow> keeps I m1 \<Longrightarrow> keeps I m2 \<Longrightarrow>
   keeps I (case r of Spent \<Rightarrow> m | Not_spent x \<Rightarrow>
     (case x of NO_CURRENT_PERIOD \<Rightarrow> m0 | INSUFFICIENT_CREDITS \<Rightarrow> m1 | SPEND_DUPLICATE \<Rightarrow> m2))"
  by (cases r) (auto split: spend_refusal.split)

lemma reserve_minutes_keeps: "keeps books_inv (reserve_minutes W u ob tg t sl key now n)"
  by (rule books_invI; unfold reserve_minutes_def)
    (intro keeps_intros createBooking_frame keeps_outbox keeps_credit_frame scheduleUnpaidBooking_keeps | simp)+

lemma reserve_voucher_keeps:
  assumes "\<And>b u t. keeps schedule_inv (vs_claim spend b u t)" and "\<And>b u t. keeps credit_inv (vs_claim spend b u t)"
    and "\<And>b u t. keeps loyalty_inv (vs_claim spend b u t)"
  shows "keeps books_inv (reserve_voucher W u spend ob tg t sl key now n)"
  by (rule books_invI; unfold reserve_voucher_def)
    (intro keeps_intros createBooking_frame keeps_outbox assms scheduleUnpaidBooking_keeps | simp)+

section \<open>How a request can end\<close>

text \<open>What other sessions alone can make of a database.\<close>

inductive others_only :: "world \<Rightarrow> db \<Rightarrow> db \<Rightarrow> bool" for W where
  others_refl: "others_only W s s"
| others_step: "others_only W s s1 \<Longrightarrow> others_only W s (w_others W n s1)"

lemma others_only_trans: "others_only W s1 s2 \<Longrightarrow> others_only W s s1 \<Longrightarrow> others_only W s s2"
  by (induction rule: others_only.induct) (auto intro: others_only.intros)

lemma others_only_keeps:
  "others_only W s s' \<Longrightarrow> (\<And>n s. I s \<Longrightarrow> I (w_others W n s)) \<Longrightarrow> I s \<Longrightarrow> I s'"
  by (induction rule: others_only.induct) auto

lemma others_only_quiet: "others_only W s s' \<Longrightarrow> (\<And>n s. w_others W n s = s) \<Longrightarrow> s' = s"
  by (induction rule: others_only.induct) auto

text \<open>Deadlocks retried or not, a transaction either ran once to its end or never happened.\<close>

lemma attempts_outcome:
  assumes "retryOnDeadlock (attempt_of W m) s = (r, s')"
  shows "(\<exists>n s0 x. others_only W s s0 \<and> m n s0 = Inr (x, s') \<and> r = Inr x)
    \<or> (others_only W s s' \<and> (\<exists>e. r = Inl e))"
proof -
  have "retry_from (attempt_of W m) k s1 = (r, s') \<Longrightarrow> others_only W s s1 \<Longrightarrow> ?thesis" for k s1
  proof (induction "attempt_of W m" k arbitrary: s1 rule: retry_from.induct)
    case (1 k)
    obtain q s2 where a: "attempt_of W m k s1 = (q, s2)" by fastforce
    have o: "others_only W s (w_others W k s1)" using 1(3) by (rule others_step)
    show ?case
    proof (cases q)
      case (Inr x)
      with a o 1(2) show ?thesis
        by (auto simp: retry_from.simps [of _ k] catchj_def attempt_of_def transaction_eq_Inr split: if_splits)
    next
      case (Inl e)
      with a o have s2: "others_only W s s2"
        by (auto simp: attempt_of_def transaction_def split: if_splits sum.splits)
      show ?thesis
      proof (cases "DEADLOCK_ATTEMPTS \<le> k \<or> e \<noteq> SqlError ''40P01''")
        case True
        with 1(2) a Inl have "r = Inl e" "s' = s2" by (auto simp: retry_from.simps [of _ k] catchj_def)
        with s2 show ?thesis by blast
      next
        case False
        with 1(2) a Inl have "retry_from (attempt_of W m) (k + 1) s2 = (r, s')"
          by (simp add: retry_from.simps [of _ k] catchj_def)
        with 1(1) False s2 show ?thesis by blast
      qed
    qed
  qed
  then show ?thesis using assms others_refl by (simp add: retryOnDeadlock_def)
qed

definition sold :: "exn + reserveSlotResult \<Rightarrow> bool" where
  "sold r \<longleftrightarrow> (case r of Inr (Reserved _ _ replayed) \<Rightarrow> \<not> replayed | _ \<Rightarrow> False)"

lemma sold_simps [simp]:
  "\<not> sold (Inl e)" "\<not> sold (Inr (Refused f))" "sold (Inr (Reserved b i x)) \<longleftrightarrow> \<not> x"
  by (simp_all add: sold_def)

lemma replay_not_sold: "replay_given s u key = Some r \<Longrightarrow> \<not> sold (Inr r)"
  by (auto simp: replay_given_def replayByIdempotencyKey_def split: if_splits option.splits)

lemma after_conflict_outcome:
  "after_conflict W u key e s = (r, s') \<Longrightarrow> others_only W s s' \<and> \<not> sold r"
  using replay_not_sold
  by (auto simp: after_conflict_def Let_def intro: others_refl others_step split: if_splits option.splits)

text \<open>The three ways to reserve, seen as one: a transaction, the answer to its result, and a handler.\<close>

lemma sale_outcome:
  assumes "catchj (bindj (retryOnDeadlock (attempt_of W m)) (\<lambda>x. retj (answer x))) h s = (r, s')"
    and "\<And>e s1 r s'. h e s1 = (r, s') \<Longrightarrow> others_only W s1 s' \<and> \<not> sold r"
  shows "(\<exists>n s0 x. others_only W s s0 \<and> m n s0 = Inr (x, s') \<and> r = Inr (answer x)) \<or> (others_only W s s' \<and> \<not> sold r)"
proof -
  obtain q s1 where q: "retryOnDeadlock (attempt_of W m) s = (q, s1)" by fastforce
  show ?thesis
  proof (cases q)
    case (Inl e)
    with assms(1) q have "h e s1 = (r, s')" by (simp add: catchj_def bindj_def)
    with assms(2) have "others_only W s1 s'" "\<not> sold r" by blast+
    with attempts_outcome [OF q] Inl show ?thesis by (auto intro: others_only_trans)
  next
    case (Inr x)
    with assms(1) q have "r = Inr (answer x)" "s' = s1" by (auto simp: catchj_def bindj_def)
    with attempts_outcome [OF q] Inr show ?thesis by auto
  qed
qed

definition money_answer :: "time \<Rightarrow> booking_row \<times> payment_row \<Rightarrow> reserveSlotResult" where
  "money_answer now = (\<lambda>(b, pay). Reserved (toContractBooking b (Some pay) None)
     (Some (toPaymentIntent pay (Some (now + PAYMENT_HOLD_MINUTES * minute_ms)))) False)"

lemma money_outcome:
  assumes "reserveWithMoney W u ob tg t sl prize p key now s = (r, s')"
  shows "(\<exists>n s0 x. others_only W s s0 \<and> reserve_cash W u ob tg t sl prize p key now n s0 = Inr (x, s') \<and> r = Inr (money_answer now x))
    \<or> (others_only W s s' \<and> \<not> sold r)"
  by (rule sale_outcome [where answer = "money_answer now" and h = "\<lambda>e. if e = PointsUnavailable
            then retj (Refused (failure 422 ERR_VALIDATION_FAILED ''Not enough loyalty points.''))
            else if e = VoucherUnusable then retj (Refused VOUCHER_UNUSABLE)
            else after_conflict W u key e"])
    (use assms after_conflict_outcome in \<open>auto simp: reserveWithMoney_def money_answer_def prod.case_distrib [of retj]
       intro: others_refl split: if_splits cong: if_cong\<close>)

lemma voucher_outcome:
  assumes "reserveWithVoucher W u spend ob tg t sl key now s = (r, s')"
  shows "(\<exists>n s0 b. others_only W s s0 \<and> reserve_voucher W u spend ob tg t sl key now n s0 = Inr (b, s')
      \<and> r = Inr (Reserved (toContractBooking b None None) None False))
    \<or> (others_only W s s' \<and> \<not> sold r)"
  by (rule sale_outcome [where h = "\<lambda>e. if e = VoucherUnusable then retj (Refused VOUCHER_UNUSABLE) else after_conflict W u key e"])
    (use assms after_conflict_outcome in \<open>auto simp: reserveWithVoucher_def intro: others_refl split: if_splits\<close>)

lemma minutes_outcome:
  assumes "reserveWithMinutes W u ob tg t sl key now s = (r, s')"
  shows "(\<exists>n s0 b. others_only W s s0 \<and> reserve_minutes W u ob tg t sl key now n s0 = Inr (b, s')
      \<and> r = Inr (Reserved (toContractBooking b None None) None False))
    \<or> (others_only W s s' \<and> \<not> sold r)"
  by (rule sale_outcome [OF assms [unfolded reserveWithMinutes_def]])
    (use after_conflict_outcome in \<open>auto intro: others_refl split: exn.splits\<close>)

end
