(* ===== verification/Reserve_Correct.thy ===== *)
theory Reserve_Correct
  imports Reserve
begin

text \<open>
  What \<open>reserveSlot\<close> guarantees: what is sold was on offer, it is held by one customer only
  whatever other sessions do, it costs what the scheme says, a refusal leaves no trace, and a
  repeated request is answered with the booking it already made.
\<close>

section \<open>Checks\<close>

lemma andthen_pass: "andthen c f = Inr (Inr y) \<longleftrightarrow> (\<exists>x. c = Inr (Inr x) \<and> f x = Inr (Inr y))"
  by (auto simp: andthen_def split: sum.splits)

lemma check_pass [simp]:
  "pass x = Inr (Inr y) \<longleftrightarrow> x = y" "refuse f \<noteq> Inr (Inr y)"
  "refuse_when c f = Inr (Inr u) \<longleftrightarrow> \<not> c" "require v f = Inr (Inr y) \<longleftrightarrow> v = Some y"
  "call c0 = Inr (Inr y) \<longleftrightarrow> c0 = Inr y"
  by (auto simp: pass_def refuse_def refuse_when_def require_def call_def split: sum.splits option.splits)

lemma checked_pass [simp]: "checked (Inr (Inr x)) f = f x"
  by (simp add: checked_def)

lemma slot_refusal_None:
  "slot_refusal reason = None \<longleftrightarrow> reason = None \<or> reason = Some ALREADY_BOOKED \<or> reason = Some HELD_FOR_WAITLIST"
  by (auto simp: slot_refusal_def split: option.splits slotUnavailableReason.splits)

text \<open>What an admitted request asks for.\<close>

lemma slot_duration:
  "findGeneratedSlot zone dark t ob now d = Inr (Some sl) \<Longrightarrow> sl_durationMinutes sl = d"
  by (erule generated_slot) (simp add: slot_at_def Let_def)

lemma admit_request_facts:
  assumes "admit_request W s u rq now = Inr (Inr (ob, t, sl, tg))"
  shows "findBookableObservatory s (rq_observatoryId rq) = Some ob" "rq_slotStartAt rq = Some t"
    "isSessionLength (rq_durationMinutes rq)"
    "findGeneratedSlot (w_zone W) (w_dark W) t ob now (rq_durationMinutes rq) = Inr (Some sl)"
    "slot_refusal (sl_unavailableReason sl) = None"
    "offersAround s \<lparr>sr_observatoryId = bo_id ob, sr_slotStartAt = t, sr_durationMinutes = sl_durationMinutes sl\<rparr>
       now (Some u) = []"
  using assms unfolding admit_request_def andthen_pass by (auto split: option.splits)

lemma admit_request_target:
  assumes "admit_request W s u rq now = Inr (Inr (ob, t, sl, tg))"
  shows "(truthy (rq_targetId rq) \<longrightarrow> rq_targetId rq = Some (tg_id tg)) \<and> tg \<in> set (target s) \<and> tg_enabled tg \<and> tg_expectedMissionMinutes tg \<le> sl_durationMinutes sl
    \<and> (\<exists>v. slotVisibilityForBooking (w_astronomy W) s ob tg t (sl_durationMinutes sl) = Inr v \<and> sv_observable v)"
proof -
  from assms obtain chosen where c: "chosen_target s rq = Inr (Inr chosen)"
    and fit: "(case chosen of None \<Rightarrow> pass ()
        | Some tg \<Rightarrow> (case targetTooLongForSlot tg (sl_durationMinutes sl) of None \<Rightarrow> pass ()
            | Some tooLong \<Rightarrow> refuse (failure 422 ERR_VALIDATION_FAILED tooLong))) = Inr (Inr ())"
    and tgt: "(case chosen of
          Some tg' \<Rightarrow> targetNotObservableInSlot (w_astronomy W) s ob tg' t (sl_durationMinutes sl) = Inr (Inr ()) \<and> tg' = tg
        | None \<Rightarrow> bestTargetForSlot (w_astronomy W) s ob t (sl_durationMinutes sl) = Inr (Some tg))"
    unfolding admit_request_def andthen_pass by (auto split: option.splits simp: andthen_pass)
  show ?thesis
  proof (cases chosen)
    case None
    with c have "\<not> truthy (rq_targetId rq)" by (auto simp: chosen_target_def split: if_splits option.splits)
    with None tgt show ?thesis by (simp add: bestTarget_fits)
  next
    case (Some x)
    with tgt have x: "x = tg" by simp
    have "(truthy (rq_targetId rq) \<longrightarrow> rq_targetId rq = Some (tg_id tg)) \<and> tg \<in> set (target s) \<and> tg_enabled tg"
      using c Some x by (auto simp: chosen_target_def split: if_splits option.splits dest: find_SomeD)
    moreover have "tg_expectedMissionMinutes tg \<le> sl_durationMinutes sl"
      using fit Some x by (auto simp: targetTooLongForSlot_def split: if_splits)
    moreover have "\<exists>v. slotVisibilityForBooking (w_astronomy W) s ob tg t (sl_durationMinutes sl) = Inr v \<and> sv_observable v"
      using tgt Some x by (auto simp: targetNotObservableInSlot_def andthen_pass)
    ultimately show ?thesis by blast
  qed
qed

text \<open>The slot of an admitted request is available, bookings apart.\<close>

lemma admit_request_slot:
  assumes "admit_request W s u rq now = Inr (Inr (ob, t, sl, tg))" and "four_digit_year t"
  shows "sl_startAt sl = toISOString t" "sl_durationMinutes sl = rq_durationMinutes rq"
    "sl_priceMinor sl = sessionPriceMinor (rq_durationMinutes rq)"
    "now < t" "t mod 900000 = 0" "bo_status ob = OB_ONLINE" "\<not> bo_weatherHold ob"
    "\<exists>date night. nightWindow (w_dark W (siteOf ob)) (w_zone W (bo_timezone ob)) date = Inr (Some night)
       \<and> duskAt night \<le> t \<and> t + rq_durationMinutes rq * minute_ms \<le> dawnAt night"
proof -
  note f = admit_request_facts [OF assms(1)]
  obtain v input night date where g: "sl = slot_at input (rq_durationMinutes rq) v" "toISOString v = toISOString t" "v mod 900000 = 0"
    "nightWindow (w_dark W (siteOf ob)) (w_zone W (bo_timezone ob)) date = Inr (Some night)"
    "duskAt night \<le> v" "v + rq_durationMinutes rq * minute_ms \<le> dawnAt night"
    and i: "si_now input = now" "si_online input = (bo_status ob = OB_ONLINE)" "si_weatherHold input = bo_weatherHold ob"
      "si_held input = []" "si_offers input = None"
    by (rule generated_slot [OF f(4)])
  have v: "v = t" using assms(2) g(2) by (rule toISOString_eq)
  have reason: "sl_unavailableReason sl = unavailableReason t (rq_durationMinutes rq) input"
    by (simp add: g(1) v slot_at_def Let_def)
  have "sl_unavailableReason sl = None"
    using f(5) i unfolding slot_refusal_None reason by (auto simp: unavailableReason_def clashesWithHeld_def split: if_splits)
  then show "now < t" "bo_status ob = OB_ONLINE" "\<not> bo_weatherHold ob"
    using i unfolding reason by (auto simp: unavailableReason_def clashesWithHeld_def split: if_splits)
  show "sl_startAt sl = toISOString t" "sl_durationMinutes sl = rq_durationMinutes rq"
    "sl_priceMinor sl = sessionPriceMinor (rq_durationMinutes rq)" "t mod 900000 = 0"
    using g v by (simp_all add: slot_at_def Let_def)
  show "\<exists>date night. nightWindow (w_dark W (siteOf ob)) (w_zone W (bo_timezone ob)) date = Inr (Some night)
       \<and> duskAt night \<le> t \<and> t + rq_durationMinutes rq * minute_ms \<le> dawnAt night"
    using g v by blast
qed

section \<open>The ways a request ends\<close>

text \<open>What the voucher path claims with.\<close>

lemma spend_claims:
  "giftVoucherSpend h s code d now = Inr (Inr spend) \<Longrightarrow> \<exists>i h d. vs_claim spend = claim_voucher i h d"
  "freeSlotPrizeSpend prize d = Inr (Inr spend) \<Longrightarrow>
     \<exists>i. vs_claim spend = (\<lambda>bookingId userId t. claimPrize i userId t (Some bookingId) None)"
  by (auto simp: giftVoucherSpend_def freeSlotPrizeSpend_def Let_def split: option.splits if_splits) blast

lemma chosen_claim:
  assumes "choose_method W s u rq ob sl now = Inr (Inr (With_voucher spend))"
  shows "(\<exists>i h d. vs_claim spend = claim_voucher i h d) \<or>
    (\<exists>i. vs_claim spend = (\<lambda>bookingId userId t. claimPrize i userId t (Some bookingId) None))"
proof -
  from assms obtain typed where "voucher_method W s u ob sl typed now = Inr (Inr (With_voucher spend))"
    by (auto simp: choose_method_def andthen_pass split: option.splits if_splits)
  then obtain code found s1 where found: "(case found of
           None \<Rightarrow> andthen (giftVoucherSpend (w_sha256 W) s code (sl_durationMinutes sl) now) (\<lambda>spend. pass (With_voucher spend))
         | Some prize \<Rightarrow>
            if pz_observatoryId prize \<noteq> bo_id ob
            then refuse (failure 422 ERR_VALIDATION_FAILED ''This prize is for another observatory.'')
            else (case pz_kind prize of
                OBSERVER_SEAT \<Rightarrow> refuse (failure 422 ERR_VALIDATION_FAILED
                   ''This prize is an observer seat: spend it on a live session.'')
              | DISCOUNT \<Rightarrow> pass (With_money (Some prize))
              | FREE_SLOT \<Rightarrow> andthen (freeSlotPrizeSpend prize (sl_durationMinutes sl)) (\<lambda>spend.
                  pass (With_voucher spend)))) = Inr (Inr (With_voucher spend))"
    by (cases "normaliseVoucherCode typed") (auto simp: voucher_method_def andthen_pass)
  show ?thesis
  proof (cases found)
    case None
    with found have "giftVoucherSpend (w_sha256 W) s code (sl_durationMinutes sl) now = Inr (Inr spend)"
      by (auto simp: andthen_pass)
    then show ?thesis using spend_claims(1) by blast
  next
    case (Some prize)
    with found have "freeSlotPrizeSpend prize (sl_durationMinutes sl) = Inr (Inr spend)"
      by (auto simp: andthen_pass split: if_splits prizeKind.splits)
    then show ?thesis using spend_claims(2) by blast
  qed
qed

text \<open>A sale: the checks passed on the database as first read, and one transaction ran to its end.\<close>

definition sale ::
  "world \<Rightarrow> ident \<Rightarrow> createBookingRequest \<Rightarrow> string option \<Rightarrow> time \<Rightarrow> db \<Rightarrow> bookableObservatory \<Rightarrow> time \<Rightarrow> slot
   \<Rightarrow> target_row \<Rightarrow> nat \<Rightarrow> db \<Rightarrow> reserveSlotResult \<Rightarrow> db \<Rightarrow> bool" where
  "sale W u rq key now s ob t sl tg n s0 r s' \<longleftrightarrow>
     (case choose_method W s u rq ob sl now of
        Inr (Inr With_minutes) \<Rightarrow>
          (\<exists>b. reserve_minutes W u ob (tg_id tg) t sl key now n s0 = Inr (b, s')
             \<and> r = Reserved (toContractBooking b None None) None False)
      | Inr (Inr (With_voucher spend)) \<Rightarrow>
          (\<exists>b. reserve_voucher W u spend ob (tg_id tg) t sl key now n s0 = Inr (b, s')
             \<and> r = Reserved (toContractBooking b None None) None False)
      | Inr (Inr (With_money prize)) \<Rightarrow>
          (\<exists>p x. price_booking s u rq sl prize = Inr (Inr p)
             \<and> reserve_cash W u ob (tg_id tg) t sl prize p key now n s0 = Inr (x, s') \<and> r = money_answer now x)
      | _ \<Rightarrow> False)"

lemma reserveSlot_cases:
  assumes "reserveSlot W u rq key now s = (r, s')"
  shows "(others_only W s s' \<and> \<not> sold r)
    \<or> (\<exists>ob t sl tg n s0 x. paymentProvider (w_environment W) \<noteq> None \<and> replay_given s u key = None
         \<and> admit_request W s u rq now = Inr (Inr (ob, t, sl, tg)) \<and> others_only W s s0
         \<and> sale W u rq key now s ob t sl tg n s0 x s' \<and> r = Inr x)"
proof (cases "paymentProvider (w_environment W) = None \<or> replay_given s u key \<noteq> None
    \<or> (\<nexists>x. admit_request W s u rq now = Inr (Inr x))")
  case True
  with assms show ?thesis
    by (auto simp: reserveSlot_def checked_def intro: others_refl dest: replay_not_sold split: option.splits sum.splits if_splits)
next
  case False
  then obtain ob t sl tg where a: "admit_request W s u rq now = Inr (Inr (ob, t, sl, tg))"
    and p: "paymentProvider (w_environment W) \<noteq> None" and k: "replay_given s u key = None" by auto
  let ?m = "choose_method W s u rq ob sl now"
  have run: "checked ?m (\<lambda>m. case m of
             With_minutes \<Rightarrow> reserveWithMinutes W u ob (tg_id tg) t sl key now
           | With_voucher spend \<Rightarrow> reserveWithVoucher W u spend ob (tg_id tg) t sl key now
           | With_money prize \<Rightarrow> checked (price_booking s u rq sl prize) (\<lambda>p.
               reserveWithMoney W u ob (tg_id tg) t sl prize p key now)) s = (r, s')"
    using assms a p k by (simp add: reserveSlot_def)
  have "(others_only W s s' \<and> \<not> sold r) \<or> (\<exists>n s0 x. others_only W s s0 \<and> sale W u rq key now s ob t sl tg n s0 x s' \<and> r = Inr x)"
  proof (cases "\<exists>m. ?m = Inr (Inr m)")
    case False
    with run show ?thesis by (auto simp: checked_def intro: others_refl split: sum.splits)
  next
    case True
    then obtain m where m: "?m = Inr (Inr m)" by blast
    show ?thesis
    proof (cases m)
      case With_minutes
      with run m show ?thesis by (auto simp: checked_def sale_def dest!: minutes_outcome)
    next
      case (With_voucher spend)
      with run m show ?thesis by (auto simp: checked_def sale_def dest!: voucher_outcome)
    next
      case (With_money prize)
      show ?thesis
      proof (cases "\<exists>p. price_booking s u rq sl prize = Inr (Inr p)")
        case True
        then obtain p where p: "price_booking s u rq sl prize = Inr (Inr p)" by blast
        with run m With_money have "reserveWithMoney W u ob (tg_id tg) t sl prize p key now s = (r, s')" by simp
        from money_outcome [OF this] m With_money p show ?thesis by (simp add: sale_def) blast
      next
        case False
        with run m With_money show ?thesis by (auto simp: checked_def intro: others_refl split: sum.splits)
      qed
    qed
  qed
  with a p k show ?thesis by blast
qed

section \<open>The booking a sale leaves\<close>

lemma scheduleUnpaidBooking_result:
  assumes "scheduleUnpaidBooking i b ob now msg s = Inr (c, s')" and "b \<in> set (booking s)"
  shows "c = b\<lparr>bk_missionId := Some i\<rparr>" "c \<in> set (booking s')" "giftVoucher s' = giftVoucher s" "cardPrize s' = cardPrize s"
    "\<exists>m \<in> set (mission s'). mi_id m = i \<and> mi_userId m = bk_userId b \<and> mi_state m = MS_SCHEDULED
       \<and> mi_scheduledFor m = Some (bk_slotStartAt b) \<and> mi_telescopeId m = bo_telescopeId ob"
  using assms
  by (auto simp: scheduleUnpaidBooking_def tx_simps mission_for_def updateMany_def split: option.splits if_splits)

text \<open>Every sale leaves a booking of the customer on the slot, held, under the request's key.\<close>

definition booked :: "ident \<Rightarrow> bookableObservatory \<Rightarrow> time \<Rightarrow> slot \<Rightarrow> ident \<Rightarrow> string option \<Rightarrow> booking_row \<Rightarrow> bool" where
  "booked u ob t sl targetId key b \<longleftrightarrow> bk_userId b = u \<and> bk_observatoryId b = bo_id ob \<and> bk_slotStartAt b = t
     \<and> bk_durationMinutes b = sl_durationMinutes sl \<and> bk_targetId b = targetId \<and> bk_idempotencyKey b = key \<and> held_status b"

lemma reserve_cash_result:
  assumes "reserve_cash W u ob tg t sl prize p key now n s0 = Inr (x, s')"
  obtains b pay where "x = (b, pay)" "b \<in> set (booking s')" "booked u ob t sl tg key b"
    "find (\<lambda>q. Some (pay_id q) = bk_paymentId b) (payment s') = Some pay"
    "bk_holdExpiresAt b = Some (now + PAYMENT_HOLD_MINUTES * minute_ms)" "bk_status b = BK_PENDING_PAYMENT"
    "bk_priceMinor b = pr_amountMinor p" "pay_amountMinor pay = pr_amountMinor p" "pay_status pay = PAY_PENDING"
proof -
  define b where "b = (booking_for (w_bookingId W n) u ob tg t sl key (w_createdAt W n))
     \<lparr>bk_paymentId := Some (w_paymentId W n), bk_status := BK_PENDING_PAYMENT,
      bk_holdExpiresAt := Some (now + PAYMENT_HOLD_MINUTES * minute_ms), bk_priceMinor := pr_amountMinor p,
      bk_tierDiscountMinor := pr_tierDiscountMinor p, bk_loyaltyPointsRedeemed := pr_loyaltyPointsRedeemed p\<rparr>"
  define pay where "pay = payment_for (w_environment W) (w_paymentId W n) u (pr_amountMinor p) (sl_currency sl) (bo_isDemo ob)"
  let ?I = "\<lambda>s. b \<in> set (booking s) \<and> find (\<lambda>q. Some (pay_id q) = bk_paymentId b) (payment s) = Some pay"
  let ?tail = "bindt (claim_discount prize u (bk_id b) now (pr_prizeDiscountMinor p) (bo_isDemo ob)) (\<lambda>_.
         bindt (spend_points (w_codes W) u (bk_id b) (pr_loyaltyPointsRedeemed p)) (\<lambda>_.
         bindt (recordAuditEvent (reserved_audit b p (now + PAYMENT_HOLD_MINUTES * minute_ms) (pay_id pay))) (\<lambda>_.
         ret (b, pay))))"
  have ids: "pay_id pay = w_paymentId W n" "bk_paymentId b = Some (w_paymentId W n)"
    by (simp_all add: pay_def payment_for_def b_def)
  have "keeps ?I ?tail"
    unfolding claim_discount_def spend_points_def
    by (intro keeps_intros keeps_outbox claimPrize_frame keeps_loyalty_frame
        | simp split: postResult.split add: keeps_intros)+
  moreover obtain s1 where s1: "?I s1" "?tail s1 = Inr (x, s')"
  proof -
    from assms obtain s2 where s2: "\<not> list_ex (\<lambda>old. pay_id pay = pay_id old) (payment s2)"
      "bindt (createBooking b) (\<lambda>b.
         bindt (claim_discount prize u (bk_id b) now (pr_prizeDiscountMinor p) (bo_isDemo ob)) (\<lambda>_.
         bindt (spend_points (w_codes W) u (bk_id b) (pr_loyaltyPointsRedeemed p)) (\<lambda>_.
         bindt (recordAuditEvent (reserved_audit b p (now + PAYMENT_HOLD_MINUTES * minute_ms) (pay_id pay))) (\<lambda>_.
         ret (b, pay))))) (s2\<lparr>payment := payment s2 @ [pay]\<rparr>) = Inr (x, s')"
      unfolding reserve_cash_def Let_def b_def [symmetric] pay_def [symmetric]
      by (auto simp: bindt_eq_Inr [of "expireLapsedHolds a c d" for a c d] tx_create_apply(2) split: if_splits)
    from s2(1) have f: "find (\<lambda>q. Some (pay_id q) = bk_paymentId b) (payment s2 @ [pay]) = Some pay"
      by (auto simp: find_append ids find_None_iff list_ex_iff split: option.splits) (auto dest!: find_SomeD simp: ids)
    from s2(2) have "?tail (s2\<lparr>payment := payment s2 @ [pay], booking := booking s2 @ [b]\<rparr>) = Inr (x, s')"
      by (auto simp: bindt_eq_Inr [of "createBooking a" for a] createBooking_eq_Inr)
    from that [OF _ this] f show thesis by simp
  qed
  ultimately have "?I s'" by (rule keepsD)
  moreover have "x = (b, pay)"
    using s1(2) by (auto simp: bindt_eq_Inr ret_def)
  ultimately show thesis
    using that [of b pay] by (simp add: b_def booked_def booking_for_def held_status_def pay_def payment_for_def)
qed

text \<open>The unpaid ways start alike.\<close>

lemma hold_then:
  assumes "bindt (expireLapsedHolds codes ob now) (\<lambda>_. bindt (createBooking c) k) s0 = Inr (x, s')"
  obtains s1 where "c \<in> set (booking s1)" "k c s1 = Inr (x, s')"
proof -
  from assms obtain s1 y s2 where "createBooking c s1 = Inr (y, s2)" "k y s2 = Inr (x, s')"
    unfolding bindt_eq_Inr by blast
  with that [of s2] show thesis by (auto simp: createBooking_eq_Inr)
qed

lemma reserve_voucher_result:
  assumes "reserve_voucher W u spend ob tg t sl key now n s0 = Inr (b, s')"
    and "(\<exists>i h d. vs_claim spend = claim_voucher i h d) \<or>
      (\<exists>i. vs_claim spend = (\<lambda>bookingId userId t. claimPrize i userId t (Some bookingId) None))"
  shows "b \<in> set (booking s')" "booked u ob t sl tg key b" "bk_paymentId b = None"
    "list_ex (\<lambda>v. gv_redeemedBookingId v = Some (bk_id b)) (giftVoucher s')
     \<or> list_ex (\<lambda>z. pz_redeemedBookingId z = Some (bk_id b)) (cardPrize s')"
    "\<exists>m \<in> set (mission s'). Some (mi_id m) = bk_missionId b \<and> mi_userId m = u \<and> mi_state m = MS_SCHEDULED
       \<and> mi_scheduledFor m = Some t \<and> mi_telescopeId m = bo_telescopeId ob"
    "bk_priceMinor b = 0"
proof -
  define c where "c = booking_for (w_bookingId W n) u ob tg t sl key (w_createdAt W n)"
  let ?rest = "\<lambda>claimed. if \<not> claimed then throw VoucherUnusable
     else bindt (scheduleUnpaidBooking (w_missionId W n) c ob now (vs_message spend)) (\<lambda>confirmed.
          bindt (recordAuditEvent (unpaid_audit (vs_category spend) (vs_action spend) (vs_entityType spend)
             (vs_entityId spend) [(''bookingId'', JStr (bk_id c))] [] confirmed)) (\<lambda>_. ret confirmed))"
  from assms(1) obtain s1 where s1: "c \<in> set (booking s1)" "bindt (vs_claim spend (bk_id c) u now) ?rest s1 = Inr (b, s')"
    unfolding reserve_voucher_def c_def [symmetric]
    by (rule hold_then)
  from s1(2) obtain r s2 where "vs_claim spend (bk_id c) u now s1 = Inr (r, s2)" and rest: "?rest r s2 = Inr (b, s')"
    unfolding bindt_eq_Inr by blast
  then have s2: "c \<in> set (booking s1)" "vs_claim spend (bk_id c) u now s1 = Inr (True, s2)"
    using s1(1) by (cases r; simp add: tx_simps)+
  from rest obtain s3 where s3: "scheduleUnpaidBooking (w_missionId W n) c ob now (vs_message spend) s2 = Inr (b, s3)"
    and s': "booking s' = booking s3" "giftVoucher s' = giftVoucher s3" "cardPrize s' = cardPrize s3" "mission s' = mission s3"
    by (auto simp: bindt_eq_Inr tx_simps recordAuditEvent_def assertDetailCarriesNoSecret_def split: if_splits)
  have claim: "booking s2 = booking s1 \<and> (list_ex (\<lambda>v. gv_redeemedBookingId v = Some (bk_id c)) (giftVoucher s2)
     \<or> list_ex (\<lambda>z. pz_redeemedBookingId z = Some (bk_id c)) (cardPrize s2))"
    using assms(2) s2(2)
    by (auto simp: claim_voucher_def claimPrize_def tx_simps list_ex_iff updateMany_def length_Suc_conv filter_eq_Cons_iff)
  with s2 have "c \<in> set (booking s2)" by simp
  note r = scheduleUnpaidBooking_result [OF s3 this]
  show "b \<in> set (booking s')" "booked u ob t sl tg key b" "bk_paymentId b = None" "bk_priceMinor b = 0"
    using r(1,2) s'(1) by (simp_all add: booked_def c_def booking_for_def held_status_def)
  show "list_ex (\<lambda>v. gv_redeemedBookingId v = Some (bk_id b)) (giftVoucher s')
     \<or> list_ex (\<lambda>z. pz_redeemedBookingId z = Some (bk_id b)) (cardPrize s')"
    using claim r(1,3,4) s' by simp
  show "\<exists>m \<in> set (mission s'). Some (mi_id m) = bk_missionId b \<and> mi_userId m = u \<and> mi_state m = MS_SCHEDULED
       \<and> mi_scheduledFor m = Some t \<and> mi_telescopeId m = bo_telescopeId ob"
    using r(1,5) s'(4) by (auto simp: c_def booking_for_def)
qed

lemma reserve_minutes_result:
  assumes "reserve_minutes W u ob tg t sl key now n s0 = Inr (b, s')"
  shows "b \<in> set (booking s')" "booked u ob t sl tg key b" "bk_paymentId b = None"
    "bk_subscriptionMinutesSpent b = sl_durationMinutes sl"
    "\<exists>m \<in> set (mission s'). Some (mi_id m) = bk_missionId b \<and> mi_userId m = u \<and> mi_state m = MS_SCHEDULED
       \<and> mi_scheduledFor m = Some t \<and> mi_telescopeId m = bo_telescopeId ob"
    "bk_priceMinor b = 0"
proof -
  define c where "c = (booking_for (w_bookingId W n) u ob tg t sl key (w_createdAt W n))
     \<lparr>bk_subscriptionMinutesSpent := sl_durationMinutes sl\<rparr>"
  let ?rest = "\<lambda>spend. case spend of
       Not_spent SPEND_DUPLICATE \<Rightarrow> throw (JsError (''Booking '' @ bk_id c @ '' already spent its minutes.''))
     | Not_spent reason \<Rightarrow> throw (MinutesUnavailable reason)
     | Spent \<Rightarrow>
        bindt (scheduleUnpaidBooking (w_missionId W n) c ob now
           ''Paid with subscription minutes; mission scheduled for the booked slot.'') (\<lambda>confirmed.
        bindt (recordAuditEvent (unpaid_audit BOOKING ''BOOKING_PAID_WITH_MINUTES'' ''Booking'' (bk_id c) []
           [(''subscriptionMinutesSpent'', JNum (sl_durationMinutes sl))] confirmed)) (\<lambda>_.
        ret confirmed))"
  from assms obtain s1 where s1: "c \<in> set (booking s1)"
    "bindt (spendBookingMinutes (bk_id c) u (sl_durationMinutes sl) (bo_isDemo ob) now) ?rest s1 = Inr (b, s')"
    unfolding reserve_minutes_def c_def [symmetric]
    by (rule hold_then)
  from s1(2) obtain r s2 where s2: "spendBookingMinutes (bk_id c) u (sl_durationMinutes sl) (bo_isDemo ob) now s1 = Inr (r, s2)"
    and rest: "?rest r s2 = Inr (b, s')" unfolding bindt_eq_Inr by blast
  have "keeps (\<lambda>s. c \<in> set (booking s)) (spendBookingMinutes (bk_id c) u (sl_durationMinutes sl) (bo_isDemo ob) now)"
    by (rule keeps_credit_frame) simp_all
  from keepsD [OF this s1(1) s2] have c2: "c \<in> set (booking s2)" .
  from rest obtain s3 where s3: "scheduleUnpaidBooking (w_missionId W n) c ob now
      ''Paid with subscription minutes; mission scheduled for the booked slot.'' s2 = Inr (b, s3)"
    and s': "booking s' = booking s3" "mission s' = mission s3"
    by (cases r) (auto simp: bindt_eq_Inr tx_simps recordAuditEvent_def assertDetailCarriesNoSecret_def
        split: spend_refusal.splits if_splits)
  note q = scheduleUnpaidBooking_result [OF s3 c2]
  show "b \<in> set (booking s')" "booked u ob t sl tg key b" "bk_paymentId b = None"
    "bk_subscriptionMinutesSpent b = sl_durationMinutes sl" "bk_priceMinor b = 0"
    using q(1,2) s'(1) by (simp_all add: booked_def c_def booking_for_def held_status_def)
  show "\<exists>m \<in> set (mission s'). Some (mi_id m) = bk_missionId b \<and> mi_userId m = u \<and> mi_state m = MS_SCHEDULED
       \<and> mi_scheduledFor m = Some t \<and> mi_telescopeId m = bo_telescopeId ob"
    using q(1,5) s'(2) by (auto simp: c_def booking_for_def)
qed

text \<open>What is charged: the price worked out for the request, with its payment, or nothing where minutes or a voucher pay.\<close>

definition charged ::
  "world \<Rightarrow> ident \<Rightarrow> createBookingRequest \<Rightarrow> time \<Rightarrow> db \<Rightarrow> bookableObservatory \<Rightarrow> slot \<Rightarrow> db \<Rightarrow> booking_row \<Rightarrow> bool" where
  "charged W u rq now s ob sl s' b \<longleftrightarrow>
     (case choose_method W s u rq ob sl now of
        Inr (Inr (With_money prize)) \<Rightarrow> (\<exists>p q. price_booking s u rq sl prize = Inr (Inr p) \<and> bk_priceMinor b = pr_amountMinor p
           \<and> q \<in> set (payment s') \<and> bk_paymentId b = Some (pay_id q) \<and> pay_amountMinor q = pr_amountMinor p)
      | _ \<Rightarrow> bk_priceMinor b = 0 \<and> bk_paymentId b = None)"

text \<open>All three at once: the row, what it costs, and the body of the answer that a replay would give again.\<close>

lemma sale_booking:
  assumes "sale W u rq key now s ob t sl tg n s0 r s'" and "0 < sl_durationMinutes sl"
  obtains b where "b \<in> set (booking s')" "booked u ob t sl (tg_id tg) key b" "charged W u rq now s ob sl s' b"
    "\<exists>body pay. r = Reserved body pay False \<and> cb_id body = bk_id b \<and> (schedule_inv s' \<longrightarrow>
       (\<forall>k. key = Some k \<longrightarrow> replayByIdempotencyKey s' u k = Some (Reserved body pay True)))"
proof -
  note settled = that
  have found: "find (\<lambda>x. bk_userId x = u \<and> bk_idempotencyKey x = Some k) (booking s') = Some b"
    if "schedule_inv s'" "b \<in> set (booking s')" "booked u ob t sl (tg_id tg) key b" "key = Some k" for b k
  proof -
    have "sorted_wrt (\<lambda>a b. \<not> booking_unique a b) bs \<Longrightarrow> b \<in> set bs \<Longrightarrow>
       find (\<lambda>x. bk_userId x = u \<and> bk_idempotencyKey x = Some k) bs = Some b" for bs
      using that(3,4) by (induction bs) (auto simp: booked_def booking_unique_def)
    with that(1,2) show ?thesis by (simp add: schedule_inv_def)
  qed
  have unpaid: thesis if "b \<in> set (booking s')" "booked u ob t sl (tg_id tg) key b" "bk_paymentId b = None"
    "charged W u rq now s ob sl s' b" "r = Reserved (toContractBooking b None None) None False"
    "list_ex (\<lambda>v. gv_redeemedBookingId v = Some (bk_id b)) (giftVoucher s')
     \<or> list_ex (\<lambda>z. pz_redeemedBookingId z = Some (bk_id b)) (cardPrize s') \<or> 0 < bk_subscriptionMinutesSpent b" for b
  proof -
    have "find (\<lambda>p. Some (pay_id p) = bk_paymentId b) (payment s') = None" by (simp add: that(3) find_None_iff)
    with that(5,6) found [OF _ that(1,2)] show thesis
      by (intro settled [OF that(1,2,4)] exI [of _ "toContractBooking b None None"] exI [of _ None] conjI impI allI)
        (auto simp: toContractBooking_def replayByIdempotencyKey_def)
  qed
  from assms(1) obtain m where m: "choose_method W s u rq ob sl now = Inr (Inr m)"
    by (auto simp: sale_def split: sum.splits)
  show thesis
  proof (cases m)
    case With_minutes
    with assms(1) m obtain b where "reserve_minutes W u ob (tg_id tg) t sl key now n s0 = Inr (b, s')"
      and "r = Reserved (toContractBooking b None None) None False" by (auto simp: sale_def)
    with unpaid [of b] reserve_minutes_result [of W u ob "tg_id tg" t sl key now n s0 b s'] assms(2) m With_minutes
    show thesis by (simp add: charged_def)
  next
    case (With_voucher spend)
    with assms(1) m obtain b where "reserve_voucher W u spend ob (tg_id tg) t sl key now n s0 = Inr (b, s')"
      and r: "r = Reserved (toContractBooking b None None) None False" by (auto simp: sale_def)
    note b = reserve_voucher_result [OF this(1) chosen_claim [OF m [unfolded With_voucher]]]
    have charge: "charged W u rq now s ob sl s' b" using m With_voucher b(3,6) by (simp add: charged_def)
    show thesis by (rule unpaid [OF b(1-3) charge r]) (use b(4) in blast)
  next
    case (With_money prize)
    with assms(1) m obtain p x where price: "price_booking s u rq sl prize = Inr (Inr p)"
      and run: "reserve_cash W u ob (tg_id tg) t sl prize p key now n s0 = Inr (x, s')"
      and r: "r = money_answer now x" by (auto simp: sale_def simp del: split_paired_Ex)
    obtain b' pay where x: "x = (b', pay)" and b': "b' \<in> set (booking s')"
      "booked u ob t sl (tg_id tg) key b'" and pay: "find (\<lambda>q. Some (pay_id q) = bk_paymentId b') (payment s') = Some pay"
      and hold: "bk_holdExpiresAt b' = Some (now + PAYMENT_HOLD_MINUTES * minute_ms)"
      and cost: "bk_priceMinor b' = pr_amountMinor p" "pay_amountMinor pay = pr_amountMinor p" by (rule reserve_cash_result [OF run])
    have "charged W u rq now s ob sl s' b'" using m With_money price cost find_SomeD [OF pay] by (auto simp: charged_def)
    note b = b' this
    show thesis
      by (rule settled [OF b])
        (use found [OF _ b(1,2)] in \<open>auto simp: r x money_answer_def toContractBooking_def replayByIdempotencyKey_def pay hold\<close>)
  qed
qed

section \<open>The books under interference\<close>

lemma sale_keeps_books:
  assumes "sale W u rq key now s ob t sl tg n s0 r s'" and "books_inv s0"
  shows "books_inv s'"
proof -
  from assms(1) obtain m where m: "choose_method W s u rq ob sl now = Inr (Inr m)"
    by (auto simp: sale_def split: sum.splits)
  show ?thesis
  proof (cases m)
    case With_minutes
    with assms m show ?thesis by (auto simp: sale_def dest: keepsD [OF reserve_minutes_keeps])
  next
    case (With_voucher spend)
    have "keeps books_inv (reserve_voucher W u spend ob (tg_id tg) t sl key now n)"
      using chosen_claim [OF m [unfolded With_voucher]]
      by (intro reserve_voucher_keeps) (auto intro!: claim_voucher_frame claimPrize_frame)
    with assms m With_voucher show ?thesis by (auto simp: sale_def dest: keepsD)
  next
    case (With_money prize)
    with assms m show ?thesis by (auto simp: sale_def dest: keepsD [OF reserve_cash_keeps])
  qed
qed

lemma reserveSlot_keeps_books:
  assumes "reserveSlot W u rq key now s = (r, s')" and "books_inv s"
    and "\<And>n s. books_inv s \<Longrightarrow> books_inv (w_others W n s)"
  shows "books_inv s'"
  using reserveSlot_cases [OF assms(1)] others_only_keeps [where I = books_inv, OF _ assms(3) assms(2)] sale_keeps_books
  by blast

lemma sale_sold:
  assumes "sale W u rq key now s ob t sl tg n s0 r s'"
  shows "sold (Inr r)"
proof -
  from assms obtain m where m: "choose_method W s u rq ob sl now = Inr (Inr m)"
    by (auto simp: sale_def split: sum.splits)
  with assms show ?thesis by (cases m) (auto simp: sale_def money_answer_def)
qed

section \<open>The price\<close>

lemma scheme_tier:
  assumes "readLoyaltyScheme s = Inr ((scheme, tiers), s1)" and "tierFor tiers n = Some tier"
  shows "tier \<in> set tiers" "lt_thresholdPoints tier \<le> max n 0"
    "t' \<in> set tiers \<Longrightarrow> lt_thresholdPoints t' \<le> max n 0 \<Longrightarrow> lt_thresholdPoints t' \<le> lt_thresholdPoints tier"
proof -
  have ts: "sorted (map lt_thresholdPoints tiers)" "tiers \<noteq> []" "lt_thresholdPoints (hd tiers) = 0"
    using assms(1) sorted_tiers_props(1) [of s] by (auto simp: readLoyaltyScheme_eq)
  show "tier \<in> set tiers" "lt_thresholdPoints tier \<le> max n 0"
    "t' \<in> set tiers \<Longrightarrow> lt_thresholdPoints t' \<le> max n 0 \<Longrightarrow> lt_thresholdPoints t' \<le> lt_thresholdPoints tier"
    using assms(2) by (auto intro: tierFor_highest [OF ts, of n])
qed

lemma share_bounds:
  fixes x k :: int
  assumes "0 \<le> x" and "0 \<le> k" and "k \<le> 100"
  shows "0 \<le> x * k div 100" "x * k div 100 \<le> x"
proof -
  show "0 \<le> x * k div 100" using assms by (simp add: pos_imp_zdiv_nonneg_iff)
  have "x * k \<le> x * 100" using assms by (intro mult_left_mono) auto
  then have "x * k div 100 \<le> x * 100 div 100" by (rule zdiv_mono1) simp
  then show "x * k div 100 \<le> x" by simp
qed

lemma price_booking_facts:
  assumes "price_booking s u rq sl prize = Inr (Inr p)" and "readLoyaltyScheme s = Inr ((scheme, tiers), s1)"
  defines "points \<equiv> (case rq_loyaltyPoints rq of None \<Rightarrow> 0 | Some n \<Rightarrow> n)"
  obtains tier where "tierFor tiers (tierPointsOf s u) = Some tier" "p = price_of sl scheme (lt_discountPercent tier) prize points"
    "\<not> (0 < points \<and> max (pr_amountMinor p + pr_pointsValueMinor p - ls_minimumPayableMinor scheme) 0 < pr_pointsValueMinor p)"
    "\<not> (0 < points \<and> pointsBalance s u < points)"
  using assms(1,2) unfolding points_def
  by (auto simp: price_booking_def andthen_pass Let_def pointsBalance_def tierPointsOf_def split: option.splits)

section \<open>Properties\<close>

text \<open>
  C1: A slot is sold once. Whatever other sessions commit before each attempt, as long as it
  keeps the books, the request leaves the schedule without conflicts and both ledgers adding
  up, whether it sells, refuses or throws. After a sale the customer's booking holds the
  requested slot, and every other booking that holds the same observatory is at least the
  ten-minute turnaround away from it.
\<close>

theorem slot_is_sold_once:
  assumes "reserveSlot W u rq key now s = (r, s')" and "books_inv s"
    and "\<And>n s. books_inv s \<Longrightarrow> books_inv (w_others W n s)"
  shows "books_inv s' \<and> (sold r \<longrightarrow> (\<exists>b body pay. r = Inr (Reserved body pay False) \<and> b \<in> set (booking s')
    \<and> bk_id b = cb_id body \<and> bk_userId b = u \<and> held_status b \<and> bk_observatoryId b = rq_observatoryId rq
    \<and> Some (bk_slotStartAt b) = rq_slotStartAt rq
    \<and> (\<forall>x \<in> set (booking s'). x \<noteq> b \<longrightarrow> held_status x \<longrightarrow> bk_observatoryId x = bk_observatoryId b \<longrightarrow>
         bk_slotStartAt x + (bk_durationMinutes x + 10) * minute_ms \<le> bk_slotStartAt b
         \<or> bk_slotStartAt b + (bk_durationMinutes b + 10) * minute_ms \<le> bk_slotStartAt x)))"
proof (intro conjI impI)
  show inv: "books_inv s'" by (rule reserveSlot_keeps_books [OF assms])
  assume "sold r"
  with reserveSlot_cases [OF assms(1)] obtain ob t sl tg n s0 x where
    adm: "admit_request W s u rq now = Inr (Inr (ob, t, sl, tg))"
    and sale: "sale W u rq key now s ob t sl tg n s0 x s'" and r: "r = Inr x" by blast
  note f = admit_request_facts [OF adm]
  have "0 < sl_durationMinutes sl"
    using f(3) slot_duration [OF f(4)] by (simp add: isSessionLength_def const_simps)
  from sale_booking [OF sale this] obtain b body pay where b: "b \<in> set (booking s')" "booked u ob t sl (tg_id tg) key b"
    and x: "x = Reserved body pay False" "cb_id body = bk_id b" by metis
  have apart: "bk_slotStartAt y + (bk_durationMinutes y + 10) * minute_ms \<le> bk_slotStartAt b
         \<or> bk_slotStartAt b + (bk_durationMinutes b + 10) * minute_ms \<le> bk_slotStartAt y"
    if "y \<in> set (booking s')" "y \<noteq> b" "held_status y" "bk_observatoryId y = bk_observatoryId b" for y
  proof -
    have "\<not> held_slot_exclusion y b"
      using inv b that by (intro schedule.conflict_free_pair [of "filter held_status (booking s')"])
        (auto simp: books_inv_def schedule_inv_def booked_def)
    with that(4) show ?thesis by (auto simp: held_slot_exclusion_def)
  qed
  show "\<exists>b body pay. r = Inr (Reserved body pay False) \<and> b \<in> set (booking s')
    \<and> bk_id b = cb_id body \<and> bk_userId b = u \<and> held_status b \<and> bk_observatoryId b = rq_observatoryId rq
    \<and> Some (bk_slotStartAt b) = rq_slotStartAt rq
    \<and> (\<forall>x \<in> set (booking s'). x \<noteq> b \<longrightarrow> held_status x \<longrightarrow> bk_observatoryId x = bk_observatoryId b \<longrightarrow>
         bk_slotStartAt x + (bk_durationMinutes x + 10) * minute_ms \<le> bk_slotStartAt b
         \<or> bk_slotStartAt b + (bk_durationMinutes b + 10) * minute_ms \<le> bk_slotStartAt x)"
    by (intro exI [of _ b] exI [of _ body] exI [of _ pay])
      (use b x r f(1,2) findBookable_id [OF f(1)] apart in \<open>auto simp: booked_def\<close>)
qed

text \<open>
  C25: Whatever is sold was on offer, and at its price. For a slot of a year with four digits, a
  sale answers with a booking that is in the table: the customer's, for the requested telescope,
  instant and length, and for the requested target where the request names one. That slot starts in
  the future on a quarter hour, lies inside a dark window of its observatory, which is bookable,
  online and without weather hold, and is not being offered to anyone else on the waitlist; the
  booking's target is enabled, fits the length and is observable for the whole slot. What is
  charged, on the booking and on its payment, is the price worked out from the list price of that
  length; a booking paid with minutes or a voucher costs nothing and has no payment.
\<close>

theorem sold_slot_was_on_offer:
  assumes "reserveSlot W u rq key now s = (r, s')" and "sold r"
    and "rq_slotStartAt rq = Some t" and "four_digit_year t"
  shows "\<exists>ob sl tg b body pay. r = Inr (Reserved body pay False) \<and> b \<in> set (booking s') \<and> bk_id b = cb_id body
    \<and> bk_userId b = u \<and> bk_observatoryId b = rq_observatoryId rq \<and> bk_slotStartAt b = t
    \<and> bk_durationMinutes b = rq_durationMinutes rq \<and> bk_targetId b = tg_id tg
    \<and> findBookableObservatory s (rq_observatoryId rq) = Some ob \<and> bo_status ob = OB_ONLINE \<and> \<not> bo_weatherHold ob
    \<and> now < t \<and> t mod 900000 = 0 \<and> isSessionLength (rq_durationMinutes rq)
    \<and> (\<exists>date night. nightWindow (w_dark W (siteOf ob)) (w_zone W (bo_timezone ob)) date = Inr (Some night)
        \<and> duskAt night \<le> t \<and> t + rq_durationMinutes rq * minute_ms \<le> dawnAt night)
    \<and> offersAround s \<lparr>sr_observatoryId = bo_id ob, sr_slotStartAt = t, sr_durationMinutes = rq_durationMinutes rq\<rparr> now (Some u) = []
    \<and> (truthy (rq_targetId rq) \<longrightarrow> rq_targetId rq = Some (tg_id tg))
    \<and> tg \<in> set (target s) \<and> tg_enabled tg \<and> tg_expectedMissionMinutes tg \<le> rq_durationMinutes rq
    \<and> (\<exists>v. slotVisibilityForBooking (w_astronomy W) s ob tg t (rq_durationMinutes rq) = Inr v \<and> sv_observable v)
    \<and> findGeneratedSlot (w_zone W) (w_dark W) t ob now (rq_durationMinutes rq) = Inr (Some sl)
    \<and> sl_durationMinutes sl = rq_durationMinutes rq \<and> sl_priceMinor sl = sessionPriceMinor (rq_durationMinutes rq)
    \<and> (case choose_method W s u rq ob sl now of
         Inr (Inr (With_money prize)) \<Rightarrow> (\<exists>p q. price_booking s u rq sl prize = Inr (Inr p) \<and> bk_priceMinor b = pr_amountMinor p
            \<and> q \<in> set (payment s') \<and> bk_paymentId b = Some (pay_id q) \<and> pay_amountMinor q = pr_amountMinor p)
       | _ \<Rightarrow> bk_priceMinor b = 0 \<and> bk_paymentId b = None)"
proof -
  from reserveSlot_cases [OF assms(1)] assms(2,3) obtain ob sl tg n s0 x where
    adm: "admit_request W s u rq now = Inr (Inr (ob, t, sl, tg))"
    and sale: "sale W u rq key now s ob t sl tg n s0 x s'" and r: "r = Inr x"
    using admit_request_facts(2) by (metis option.inject)
  note f = admit_request_facts [OF adm] and g = admit_request_slot [OF adm assms(4)]
    and tgt = admit_request_target [OF adm, unfolded g(2)]
  have "0 < sl_durationMinutes sl" using f(3) g(2) by (simp add: isSessionLength_def const_simps)
  from sale_booking [OF sale this] obtain b body pay where b: "b \<in> set (booking s')" "booked u ob t sl (tg_id tg) key b"
    "charged W u rq now s ob sl s' b" and x: "x = Reserved body pay False" "cb_id body = bk_id b" by metis
  show ?thesis
    by (rule exI [of _ ob], rule exI [of _ sl], rule exI [of _ tg], rule exI [of _ b], rule exI [of _ body], rule exI [of _ pay])
      (use b x r f(1,3,4,6) g(2-8) tgt findBookable_id [OF f(1)] in \<open>simp add: booked_def charged_def\<close>)
qed

text \<open>
  C26: A request that does not sell leaves no trace. When the answer is a refusal, a replay or
  an exception, the database is what other sessions alone made of it; with none of them, it is
  unchanged.
\<close>

theorem refusal_leaves_no_trace:
  assumes "reserveSlot W u rq key now s = (r, s')" and "\<not> sold r"
  shows "others_only W s s' \<and> ((\<forall>n s. w_others W n s = s) \<longrightarrow> s' = s)"
proof -
  from reserveSlot_cases [OF assms(1)] assms(2) have "others_only W s s'" using sale_sold by blast
  then show ?thesis using others_only_quiet by blast
qed

text \<open>
  C27: A repeated request is answered with the booking it made. After a sale under an
  idempotency key, any further request of the customer under that key returns the same booking
  and payment, marked as a replay, and changes nothing, whatever it asks for and whenever it
  comes, as long as the deployment can take payments.
\<close>

theorem repeated_request_is_a_replay:
  assumes "reserveSlot W u rq (Some k) now s = (Inr (Reserved body pay False), s')" and "k \<noteq> []" and "books_inv s"
    and "\<And>n s. books_inv s \<Longrightarrow> books_inv (w_others W n s)"
    and "paymentProvider (w_environment W') \<noteq> None"
  shows "reserveSlot W' u rq' (Some k) later s' = (Inr (Reserved body pay True), s')"
proof -
  have inv: "schedule_inv s'" using reserveSlot_keeps_books [OF assms(1,3,4)] by (simp add: books_inv_def)
  from reserveSlot_cases [OF assms(1)] obtain ob t sl tg n s0 where
    adm: "admit_request W s u rq now = Inr (Inr (ob, t, sl, tg))"
    and sale: "sale W u rq (Some k) now s ob t sl tg n s0 (Reserved body pay False) s'" by auto
  note f = admit_request_facts [OF adm]
  have "0 < sl_durationMinutes sl"
    using f(3) slot_duration [OF f(4)] by (simp add: isSessionLength_def const_simps)
  from sale_booking [OF sale this] inv have "replayByIdempotencyKey s' u k = Some (Reserved body pay True)"
    by (metis reserveSlotResult.inject(1))
  with assms(2,5) show ?thesis by (simp add: reserveSlot_def replay_given_def truthy_def)
qed

text \<open>
  C28: What a booking costs, share by share. With percentages between 0 and 100 and a positive
  worth of a point, the tier's share is the percentage of the highest tier the customer's points
  have reached, the prize's share is its percentage of what then remains, both rounded down, and
  the points count at their worth, rounded down; the amount is the list price less the three. It is
  never negative nor above the list price, points never take it below the scheme's minimum payable,
  the customer has the points, and a point never counts for more than it is worth.
\<close>

theorem booking_price_is_exact:
  assumes "price_booking s u rq sl prize = Inr (Inr p)" and "readLoyaltyScheme s = Inr ((scheme, tiers), s1)"
    and "0 \<le> sl_priceMinor sl" and "\<forall>tier \<in> set tiers. 0 \<le> lt_discountPercent tier \<and> lt_discountPercent tier \<le> 100"
    and "0 \<le> percent_off prize" and "percent_off prize \<le> 100" and "0 < ls_pointsPerGelRedeemed scheme" and "0 \<le> ls_minimumPayableMinor scheme"
    and "0 \<le> (case rq_loyaltyPoints rq of None \<Rightarrow> 0 | Some n \<Rightarrow> n)"
  shows "(\<exists>tier \<in> set tiers. lt_thresholdPoints tier \<le> max (tierPointsOf s u) 0
      \<and> (\<forall>t \<in> set tiers. lt_thresholdPoints t \<le> max (tierPointsOf s u) 0 \<longrightarrow> lt_thresholdPoints t \<le> lt_thresholdPoints tier)
      \<and> pr_tierDiscountMinor p = sl_priceMinor sl * lt_discountPercent tier div 100)
    \<and> pr_prizeDiscountMinor p = (sl_priceMinor sl - pr_tierDiscountMinor p)
        * (case prize of None \<Rightarrow> 0 | Some z \<Rightarrow> (case pz_percentOff z of None \<Rightarrow> 0 | Some n \<Rightarrow> n)) div 100
    \<and> pr_loyaltyPointsRedeemed p = (case rq_loyaltyPoints rq of None \<Rightarrow> 0 | Some n \<Rightarrow> n)
    \<and> pr_pointsValueMinor p = pr_loyaltyPointsRedeemed p * 100 div ls_pointsPerGelRedeemed scheme
    \<and> pr_amountMinor p = sl_priceMinor sl - pr_tierDiscountMinor p - pr_prizeDiscountMinor p - pr_pointsValueMinor p
    \<and> 0 \<le> pr_tierDiscountMinor p \<and> 0 \<le> pr_prizeDiscountMinor p \<and> 0 \<le> pr_pointsValueMinor p
    \<and> 0 \<le> pr_amountMinor p \<and> pr_amountMinor p \<le> sl_priceMinor sl
    \<and> (pr_loyaltyPointsRedeemed p = 0
       \<or> min (ls_minimumPayableMinor scheme) (pr_amountMinor p + pr_pointsValueMinor p) \<le> pr_amountMinor p
         \<and> pr_loyaltyPointsRedeemed p \<le> pointsBalance s u
         \<and> pr_pointsValueMinor p * ls_pointsPerGelRedeemed scheme \<le> pr_loyaltyPointsRedeemed p * 100)"
proof -
  define points where "points = (case rq_loyaltyPoints rq of None \<Rightarrow> 0 | Some n \<Rightarrow> n)"
  obtain tier where tierFor: "tierFor tiers (tierPointsOf s u) = Some tier" and p: "p = price_of sl scheme (lt_discountPercent tier) prize points"
    and limit: "\<not> (0 < points \<and> max (pr_amountMinor p + pr_pointsValueMinor p - ls_minimumPayableMinor scheme) 0 < pr_pointsValueMinor p)"
    and have_points: "\<not> (0 < points \<and> pointsBalance s u < points)"
    using price_booking_facts [OF assms(1,2)] unfolding points_def by metis
  note tier = scheme_tier [OF assms(2) tierFor]
  have points: "0 \<le> points" using assms(9) by (simp add: points_def)
  define a where "a = sl_priceMinor sl * lt_discountPercent tier div 100"
  define b where "b = (sl_priceMinor sl - a) * percent_off prize div 100"
  define c where "c = points * 100 div ls_pointsPerGelRedeemed scheme"
  have fields: "pr_tierDiscountMinor p = a" "pr_prizeDiscountMinor p = b" "pr_pointsValueMinor p = c"
    "pr_loyaltyPointsRedeemed p = points" "pr_amountMinor p = sl_priceMinor sl - a - b - c"
    by (simp_all add: p price_of_def Let_def a_def b_def c_def)
  have a: "0 \<le> a" "a \<le> sl_priceMinor sl" using share_bounds [OF assms(3)] assms(4) tier(1) by (simp_all add: a_def)
  have b: "0 \<le> b" "b \<le> sl_priceMinor sl - a" using share_bounds [of "sl_priceMinor sl - a"] a assms(5,6) by (simp_all add: b_def)
  have c: "0 \<le> c" "c * ls_pointsPerGelRedeemed scheme \<le> points * 100"
    using points assms(7) by (simp_all add: c_def pos_imp_zdiv_nonneg_iff) (metis div_mult_mod_eq pos_mod_sign le_add_same_cancel1)
  have zero: "c = 0" if "points = 0" by (simp add: c_def that)
  have shares: "\<exists>tier \<in> set tiers. lt_thresholdPoints tier \<le> max (tierPointsOf s u) 0
      \<and> (\<forall>t \<in> set tiers. lt_thresholdPoints t \<le> max (tierPointsOf s u) 0 \<longrightarrow> lt_thresholdPoints t \<le> lt_thresholdPoints tier)
      \<and> a = sl_priceMinor sl * lt_discountPercent tier div 100" using tier a_def by blast
  have amount: "0 \<le> sl_priceMinor sl - a - b - c" "sl_priceMinor sl - a - b - c \<le> sl_priceMinor sl"
    "points = 0 \<or> min (ls_minimumPayableMinor scheme) (sl_priceMinor sl - a - b - c + c) \<le> sl_priceMinor sl - a - b - c
       \<and> points \<le> pointsBalance s u \<and> c * ls_pointsPerGelRedeemed scheme \<le> points * 100"
    using a b c zero points limit have_points assms(8) unfolding fields by (auto simp: min_def max_def split: if_splits)
  show ?thesis unfolding fields points_def [symmetric]
    by (intro conjI shares amount a(1) b(1) c(1)) (simp_all add: b_def c_def percent_off_def)
qed

section \<open>An example\<close>

text \<open>
  A member books half an hour at the example observatory, leaving the target open; the
  database aborts the first attempt with a deadlock.
\<close>

definition example_environment :: environment where
  "example_environment = \<lparr>env_NODE_ENV = ''development'', env_DARKVIEW_DEPLOYMENT = None, env_PAYMENT_PROVIDER = None,
     env_BOG_CLIENT_ID = None, env_BOG_SECRET_KEY = None, env_APP_ORIGIN = ''https://app''\<rparr>"

definition example_world :: world where
  "example_world = \<lparr>w_environment = example_environment, w_sha256 = id, w_codes = id, w_astronomy = zenith_sky,
     w_zone = example_zone, w_dark = example_dark, w_bookingId = (\<lambda>n. ''b1''), w_paymentId = (\<lambda>n. ''p1''),
     w_missionId = (\<lambda>n. ''m1''), w_createdAt = (\<lambda>n. 0), w_deadlock = (\<lambda>n. n = 1), w_others = (\<lambda>n s. s)\<rparr>"

definition example_sale_db :: db where
  "example_sale_db = example_site_db\<lparr>loyaltyScheme := loyaltyScheme club_db, loyaltyTier := loyaltyTier club_db,
     loyaltyAccount := loyaltyAccount club_db\<rparr>"

definition example_request :: createBookingRequest where
  "example_request = \<lparr>rq_observatoryId = ''o1'', rq_targetId = None, rq_slotStartAt = Some 1788454800000,
     rq_durationMinutes = 30, rq_voucherCode = None, rq_loyaltyPoints = None, rq_useSubscriptionMinutes = None\<rparr>"

lemma example_world_simps [simp]:
  "w_environment example_world = example_environment" "w_codes example_world = id" "w_astronomy example_world = zenith_sky"
  "w_zone example_world = example_zone" "w_dark example_world = example_dark"
  "w_deadlock example_world n = (n = 1)" "w_others example_world n s = s"
  "w_bookingId example_world n = ''b1''" "w_paymentId example_world n = ''p1''" "w_createdAt example_world n = 0"
  by (simp_all add: example_world_def)

lemma example_sale_tables [simp]:
  "booking example_sale_db = []" "payment example_sale_db = []" "waitlistEntry example_sale_db = []"
  "target example_sale_db = target example_site_db" "observatory example_sale_db = observatory example_site_db"
  "observatoryNetworkNode example_sale_db = observatoryNetworkNode example_site_db"
  "safetyEnvelope example_sale_db = safetyEnvelope example_site_db"
  "loyaltyScheme example_sale_db = loyaltyScheme club_db" "loyaltyTier example_sale_db = loyaltyTier club_db"
  "loyaltyAccount example_sale_db = loyaltyAccount club_db" "loyaltyLedgerEntry example_sale_db = []"
  "creditAccount example_sale_db = []" "creditLedger example_sale_db = []"
  by (simp_all add: example_sale_db_def example_site_db_def empty_db_def)

lemma example_sale_books: "books_inv example_sale_db"
  by (simp add: books_inv_def schedule_inv_def credit_inv_def loyalty_inv_def)
    (simp add: club_db_def club_account_def points_sum_def tier_points_sum_def)

lemma example_sale_reads:
  "findBookableObservatory example_sale_db i = findBookableObservatory example_site_db i"
  "bestTargetForSlot A example_sale_db ob t d = bestTargetForSlot A example_site_db ob t d"
  unfolding findBookableObservatory_def BOOKABLE_def bestTargetForSlot_def loadSafetyEnvelope_def example_sale_tables
  by (rule refl)+

lemma example_year: "four_digit_year 1788454800000"
  by code_simp

lemma example_slot:
  obtains sl where "findGeneratedSlot example_zone example_dark 1788454800000 example_observatory 0 30 = Inr (Some sl)"
    "sl_durationMinutes sl = 30" "sl_priceMinor sl = 4500" "sl_unavailableReason sl = None" "sl_currency sl = GEL"
proof -
  obtain sl where sl: "findGeneratedSlot example_zone example_dark 1788454800000 example_observatory 0 30 = Inr (Some sl)"
    using example_generated by blast
  from generated_slot [OF sl] obtain u input where u: "sl = slot_at input 30 u" "toISOString u = toISOString 1788454800000"
    and i: "si_now input = 0" "si_online input" "\<not> si_weatherHold input" "si_held input = []" "si_offers input = None"
    by (metis bookableObservatory.select_convs(5,7))
  have "u = 1788454800000" by (rule toISOString_eq [OF example_year u(2)])
  then have "unavailableReason u 30 input = None" using i by (simp add: unavailableReason_def clashesWithHeld_def)
  with that [OF sl] u(1) show thesis by (simp add: slot_at_def Let_def sessionPriceMinor_def const_simps)
qed

abbreviation example_scheme :: loyaltyScheme_row where
  "example_scheme \<equiv> \<lparr>ls_id = 1, ls_pointsPerGel = 10, ls_pointsPerGelRedeemed = 100,
     ls_welcomeBonusPoints = 50, ls_referralBonusPoints = 200, ls_minimumPayableMinor = 100\<rparr>"

lemma example_scheme_read:
  "readLoyaltyScheme example_sale_db = Inr ((example_scheme, loyaltyTier club_db), example_sale_db)"
  by (simp add: readLoyaltyScheme_eq sorted_tiers_def club_facts) (simp add: club_db_def)

lemma example_price:
  assumes "sl_priceMinor sl = 4500"
  shows "price_booking example_sale_db ''u1'' example_request sl None =
    Inr (Inr \<lparr>pr_listPriceMinor = 4500, pr_tierDiscountMinor = 0, pr_prizeDiscountMinor = 0, pr_loyaltyPointsRedeemed = 0,
      pr_pointsValueMinor = 0, pr_amountMinor = 4500\<rparr>)"
proof -
  have "find (\<lambda>a. la_userId a = ''u1'') (loyaltyAccount club_db) = Some (club_account ''u1'' ''AAAA1111'' (Some ''u2''))"
    "tierFor (loyaltyTier club_db) 0 = Some \<lparr>lt_code = ''COMET'', lt_thresholdPoints = 0, lt_discountPercent = 0\<rparr>"
    by (simp_all add: club_db_def club_account_def tierFor_def)
  with assms show ?thesis
    by (simp add: price_booking_def andthen_def call_def pass_def refuse_when_def example_scheme_read
        example_request_def price_of_def percent_off_def club_account_def Let_def)
qed

lemma example_admitted:
  obtains sl where "admit_request example_world example_sale_db ''u1'' example_request 0
      = Inr (Inr (example_observatory, 1788454800000, sl, albireo))"
    "sl_priceMinor sl = 4500" "sl_durationMinutes sl = 30" "sl_currency sl = GEL"
proof -
  obtain sl where sl: "findGeneratedSlot example_zone example_dark 1788454800000 example_observatory 0 30 = Inr (Some sl)"
    "sl_durationMinutes sl = 30" "sl_priceMinor sl = 4500" "sl_unavailableReason sl = None" "sl_currency sl = GEL"
    by (rule example_slot)
  have "admit_request example_world example_sale_db ''u1'' example_request 0
      = Inr (Inr (example_observatory, 1788454800000, sl, albireo))"
    using sl
    by (simp add: admit_request_def andthen_def pass_def call_def require_def refuse_when_def chosen_target_def truthy_def
        example_request_def example_sale_reads example_bookable example_best isSessionLength_def const_simps slot_refusal_def
        offersAround_def Let_def)
  with that sl show thesis by blast
qed

lemma second_attempt:
  assumes "w_deadlock W 1" and "\<not> w_deadlock W 2" and "\<And>n s. w_others W n s = s" and "m 2 s = Inr (x, s')"
  shows "retryOnDeadlock (attempt_of W m) s = (Inr x, s')"
proof -
  have "retry_from (attempt_of W m) 2 s = (Inr x, s')"
    using assms by (subst retry_from.simps) (simp add: catchj_def attempt_of_def transaction_def)
  moreover have "retry_from (attempt_of W m) 1 s = retry_from (attempt_of W m) 2 s"
    using assms(1,3) by (subst retry_from.simps) (simp add: catchj_def attempt_of_def DEADLOCK_ATTEMPTS_def numeral_2_eq_2)
  ultimately show ?thesis by (simp add: retryOnDeadlock_def)
qed

lemma example_sale:
  "\<exists>body pay s'. reserveSlot example_world ''u1'' example_request (Some ''k'') 0 example_sale_db
     = (Inr (Reserved body pay False), s')"
proof -
  obtain sl where a: "admit_request example_world example_sale_db ''u1'' example_request 0
      = Inr (Inr (example_observatory, 1788454800000, sl, albireo))"
    and sl: "sl_priceMinor sl = 4500" "sl_durationMinutes sl = 30" "sl_currency sl = GEL" by (rule example_admitted)
  have p: "paymentProvider example_environment = Some SANDBOX"
    by (simp add: paymentProvider_def example_environment_def sandboxMoneyAllowed_def)
  have k: "replay_given example_sale_db ''u1'' (Some ''k'') = None"
    by (simp add: replay_given_def truthy_def replayByIdempotencyKey_def)
  have m: "choose_method example_world example_sale_db ''u1'' example_request example_observatory sl 0 = Inr (Inr (With_money None))"
    by (simp add: choose_method_def andthen_def refuse_when_def pass_def reductions_def example_request_def)
  let ?p = "\<lparr>pr_listPriceMinor = 4500, pr_tierDiscountMinor = 0, pr_prizeDiscountMinor = 0, pr_loyaltyPointsRedeemed = 0,
      pr_pointsValueMinor = 0, pr_amountMinor = 4500\<rparr>"
  have "\<exists>x s'. reserve_cash example_world ''u1'' example_observatory (tg_id albireo) 1788454800000 sl None ?p (Some ''k'') 0 n
      example_sale_db = Inr (x, s')" for n
    by (simp add: reserve_cash_def Let_def expireLapsedHolds_def createBooking_def claim_discount_def spend_points_def
        ensureLoyaltyAccount_def reserved_audit_def tx_simps bindt_def)
      (simp add: club_db_def club_account_def tx_simps)
  then obtain x s' where x: "reserve_cash example_world ''u1'' example_observatory (tg_id albireo) 1788454800000 sl None ?p
      (Some ''k'') 0 2 example_sale_db = Inr (x, s')" by blast
  have "retryOnDeadlock (attempt_of example_world (reserve_cash example_world ''u1'' example_observatory (tg_id albireo)
      1788454800000 sl None ?p (Some ''k'') 0)) example_sale_db = (Inr x, s')"
    by (rule second_attempt) (simp_all add: x)
  then show ?thesis
    using a p k m example_price [OF sl(1)]
    by (cases x) (simp add: reserveSlot_def reserveWithMoney_def catchj_def bindj_def)
qed

theorem slot_is_sold_once_witness:
  "\<exists>body pay s' b. reserveSlot example_world ''u1'' example_request (Some ''k'') 0 example_sale_db = (Inr (Reserved body pay False), s')
     \<and> books_inv s' \<and> b \<in> set (booking s') \<and> bk_id b = cb_id body \<and> bk_slotStartAt b = 1788454800000"
proof -
  obtain body pay s' where sale: "reserveSlot example_world ''u1'' example_request (Some ''k'') 0 example_sale_db
     = (Inr (Reserved body pay False), s')" using example_sale by blast
  from slot_is_sold_once [OF this example_sale_books] obtain b where "books_inv s'" "b \<in> set (booking s')"
    "bk_id b = cb_id body" "Some (bk_slotStartAt b) = rq_slotStartAt example_request" by auto
  with sale show ?thesis by (auto simp: example_request_def)
qed

theorem sold_slot_was_on_offer_witness:
  "\<exists>ob tg v b body pay s'. reserveSlot example_world ''u1'' example_request (Some ''k'') 0 example_sale_db = (Inr (Reserved body pay False), s')
     \<and> b \<in> set (booking s') \<and> bk_targetId b = tg_id tg \<and> bk_durationMinutes b = 30 \<and> bk_slotStartAt b = 1788454800000
     \<and> findBookableObservatory example_sale_db ''o1'' = Some ob \<and> bo_status ob = OB_ONLINE
     \<and> slotVisibilityForBooking zenith_sky example_sale_db ob tg 1788454800000 30 = Inr v \<and> sv_observable v"
proof -
  obtain body pay s' where sale: "reserveSlot example_world ''u1'' example_request (Some ''k'') 0 example_sale_db
     = (Inr (Reserved body pay False), s')" using example_sale by blast
  have t: "rq_slotStartAt example_request = Some 1788454800000" "rq_durationMinutes example_request = 30"
    "rq_observatoryId example_request = ''o1''" "sold (Inr (Reserved body pay False))" "w_astronomy example_world = zenith_sky"
    by (simp_all add: example_request_def example_world_def)
  from sold_slot_was_on_offer [OF sale t(4,1) example_year] sale show ?thesis unfolding t by blast
qed

theorem refusal_leaves_no_trace_witness:
  "\<exists>f s'. reserveSlot example_world ''u1'' (example_request\<lparr>rq_observatoryId := ''o9''\<rparr>) None 0 example_sale_db = (Inr (Refused f), s')
     \<and> s' = example_sale_db"
proof -
  have "findBookableObservatory example_sale_db ''o9'' = None"
    by (simp add: findBookableObservatory_def example_site_db_def)
  then obtain f s' where "reserveSlot example_world ''u1'' (example_request\<lparr>rq_observatoryId := ''o9''\<rparr>) None 0 example_sale_db
      = (Inr (Refused f), s')"
    by (simp add: reserveSlot_def paymentProvider_def example_environment_def sandboxMoneyAllowed_def replay_given_def
        truthy_def admit_request_def require_def andthen_def refuse_def checked_def)
  with refusal_leaves_no_trace [OF this] show ?thesis by simp
qed

theorem repeated_request_is_a_replay_witness:
  "\<exists>body pay s'. reserveSlot example_world ''u1'' example_request (Some ''k'') 0 example_sale_db = (Inr (Reserved body pay False), s')
     \<and> reserveSlot example_world ''u1'' (example_request\<lparr>rq_durationMinutes := 45\<rparr>) (Some ''k'') 60000 s'
         = (Inr (Reserved body pay True), s')"
proof -
  obtain body pay s' where sale: "reserveSlot example_world ''u1'' example_request (Some ''k'') 0 example_sale_db
     = (Inr (Reserved body pay False), s')" using example_sale by blast
  have "paymentProvider (w_environment example_world) \<noteq> None"
    by (simp add: paymentProvider_def example_environment_def sandboxMoneyAllowed_def)
  from repeated_request_is_a_replay [OF sale _ example_sale_books _ this, of "example_request\<lparr>rq_durationMinutes := 45\<rparr>" 60000]
  have replay: "reserveSlot example_world ''u1'' (example_request\<lparr>rq_durationMinutes := 45\<rparr>) (Some ''k'') 60000 s'
      = (Inr (Reserved body pay True), s')" by simp
  show ?thesis by (rule exI [of _ body], rule exI [of _ pay], rule exI [of _ s'], rule conjI [OF sale replay])
qed

text \<open>A member of the second tier with a card for ten percent spends five hundred points.\<close>

definition frequent_db :: db where
  "frequent_db = club_db\<lparr>loyaltyAccount := [(club_account ''u1'' ''AAAA1111'' None)\<lparr>la_balance := 1000, la_tierPoints := 600\<rparr>]\<rparr>"

definition ten_percent :: cardPrize_row where
  "ten_percent = example_prize\<lparr>pz_percentOff := Some 10\<rparr>"

lemma frequent_price:
  assumes "sl_priceMinor sl = 4500"
  shows "price_booking frequent_db ''u1'' (example_request\<lparr>rq_loyaltyPoints := Some 500\<rparr>) sl (Some ten_percent) =
    Inr (Inr \<lparr>pr_listPriceMinor = 4500, pr_tierDiscountMinor = 225, pr_prizeDiscountMinor = 427, pr_loyaltyPointsRedeemed = 500,
      pr_pointsValueMinor = 500, pr_amountMinor = 3348\<rparr>)"
proof -
  have "readLoyaltyScheme frequent_db = Inr ((example_scheme, loyaltyTier club_db), frequent_db)"
    using example_scheme_read by (simp add: readLoyaltyScheme_eq sorted_tiers_def frequent_db_def club_db_def)
  moreover have "tierFor (loyaltyTier club_db) 600 = Some \<lparr>lt_code = ''NOVA'', lt_thresholdPoints = 500, lt_discountPercent = 5\<rparr>"
    by (simp add: club_db_def tierFor_def)
  ultimately show ?thesis using assms
    by (simp add: price_booking_def andthen_def call_def pass_def refuse_when_def frequent_db_def club_account_def
        price_of_def percent_off_def ten_percent_def Let_def)
qed

theorem booking_price_is_exact_witness:
  "\<exists>sl p. sl_priceMinor sl = 4500
     \<and> price_booking frequent_db ''u1'' (example_request\<lparr>rq_loyaltyPoints := Some 500\<rparr>) sl (Some ten_percent) = Inr (Inr p)
     \<and> pr_prizeDiscountMinor p = (4500 - pr_tierDiscountMinor p) * 10 div 100 \<and> pr_amountMinor p = 3348"
proof -
  have sl: "sl_priceMinor (slot_at example_night 30 0) = 4500"
    by (simp add: slot_at_def Let_def sessionPriceMinor_def const_simps)
  have tiers: "\<forall>tier \<in> set (loyaltyTier club_db). 0 \<le> lt_discountPercent tier \<and> lt_discountPercent tier \<le> 100"
    by (simp add: club_db_def)
  have scheme: "readLoyaltyScheme frequent_db = Inr ((example_scheme, loyaltyTier club_db), frequent_db)"
    using example_scheme_read by (simp add: readLoyaltyScheme_eq sorted_tiers_def frequent_db_def club_db_def)
  from booking_price_is_exact [OF frequent_price [OF sl] scheme _ tiers] sl frequent_price [OF sl] show ?thesis
    by (auto simp: percent_off_def ten_percent_def)
qed

end
