(* ===== verification/Subscriptions.thy ===== *)
theory Subscriptions
  imports Reserve
begin

text \<open>
  Subscriptions: the calendar of billing periods (src/packages/db/subscriptions.ts), the
  customer's operations and the settlement of a subscription payment
  (src/apps/api/src/features/subscriptions/subscriptions.ts). The renewal sweep is in Renewals.

  \<open>parts\<close> is the wall clock of the billing time zone, Asia/Tbilisi; the ids the database
  generates are arguments.
\<close>

section \<open>Billing periods (subscriptions.ts)\<close>

fun localPartsOf :: "(time \<Rightarrow> wall_parts) \<Rightarrow> time \<Rightarrow> local_date" where
  "localPartsOf parts t = (case parts t of (y, m, d, _) \<Rightarrow> (y, m, d))"

definition offsetAt :: "(time \<Rightarrow> wall_parts) \<Rightarrow> time \<Rightarrow> int" where
  "offsetAt parts t =
     (case parts t of (y, m, d, h, mi, sec) \<Rightarrow> DateUTC_parts (y, m, d, h mod 24, mi, sec)) - (t div 1000) * 1000"

text \<open>The remainder taken twice is the non-negative remainder.\<close>

fun instantOfLocalDate :: "(time \<Rightarrow> wall_parts) \<Rightarrow> local_date \<Rightarrow> time \<Rightarrow> time" where
  "instantOfLocalDate parts (year, month, day) from =
     (let timeOfDay = from + offsetAt parts from;
          millisecondsIntoDay = timeOfDay mod 86400000;
          localMidnight = DateUTC year (month - 1) day;
          approximate = localMidnight + millisecondsIntoDay - offsetAt parts from
      in localMidnight + millisecondsIntoDay - offsetAt parts approximate)"

definition nextPeriodEnd :: "(time \<Rightarrow> wall_parts) \<Rightarrow> time \<Rightarrow> time" where
  "nextPeriodEnd parts from =
     (case localPartsOf parts from of (year, month, day) \<Rightarrow>
        let (targetYear, targetMonth) = (if month = 12 then (year + 1, 1) else (year, month + 1));
            lastDayOfTargetMonth = date_of (Day (DateUTC targetYear targetMonth 0))
        in instantOfLocalDate parts (targetYear, targetMonth, min day lastDayOfTargetMonth) from)"

section \<open>Texts of the enumerations\<close>

fun plan_text :: "subscriptionPlan \<Rightarrow> string" where
  "plan_text PLAN_OBSERVER = ''OBSERVER''" | "plan_text PLAN_EXPLORER = ''EXPLORER''"
| "plan_text PLAN_ADVANCED = ''ADVANCED''"

fun status_text :: "subscriptionStatus \<Rightarrow> string" where
  "status_text SUB_TRIALING = ''TRIALING''" | "status_text SUB_ACTIVE = ''ACTIVE''"
| "status_text SUB_PAUSED = ''PAUSED''" | "status_text SUB_CANCELLED = ''CANCELLED''"
| "status_text SUB_EXPIRED = ''EXPIRED''"

fun provider_text :: "paymentProvider \<Rightarrow> string" where
  "provider_text SANDBOX = ''SANDBOX''" | "provider_text BOG_IPAY = ''BOG_IPAY''"

section \<open>Outcomes of payments (provider.ts, settle.ts)\<close>

datatype outcomeResult = OUT_CAPTURED | OUT_FAILED

record paymentOutcome =
  oc_paymentId :: ident
  oc_providerRef :: string
  oc_result :: outcomeResult
  oc_amountMinor :: int
  oc_currency :: currency
  oc_failureReason :: "string option"
  oc_mandateRef :: "string option"

text \<open>A success says whether this delivery changed anything; a failure carries its message.\<close>

datatype settlementResult = Settled bool "ident option" | Not_settled string

text \<open>The update of a payment, the same in every settlement.\<close>

definition fail_payment :: "ident \<Rightarrow> paymentOutcome \<Rightarrow> (db, unit) tx" where
  "fail_payment paymentId outcome =
     tx_update payment payment_update (\<lambda>q. pay_id q = paymentId)
       (\<lambda>q. q\<lparr>pay_status := PAY_FAILED, pay_providerRef := Some (oc_providerRef outcome),
             pay_failureReason := oc_failureReason outcome\<rparr>)"

definition capture_payment :: "ident \<Rightarrow> paymentOutcome \<Rightarrow> time \<Rightarrow> (db, unit) tx" where
  "capture_payment paymentId outcome now =
     tx_update payment payment_update (\<lambda>q. pay_id q = paymentId)
       (\<lambda>q. q\<lparr>pay_status := PAY_CAPTURED, pay_providerRef := Some (oc_providerRef outcome),
             pay_capturedAt := Some now\<rparr>)"

section \<open>The customer's operations (subscriptions.ts)\<close>

definition FINISHED :: "subscriptionStatus \<Rightarrow> bool" where
  "FINISHED st \<longleftrightarrow> st = SUB_CANCELLED \<or> st = SUB_EXPIRED"

record contractSubscription =
  cs_subscriptionId :: ident
  cs_plan :: subscriptionPlan
  cs_status :: subscriptionStatus
  cs_currentPeriodStart :: "string option"
  cs_currentPeriodEnd :: "string option"
  cs_cancelAtPeriodEnd :: bool
  cs_minuteBalance :: int
  cs_isDemo :: bool

definition toContractSubscription :: "subscription_row \<Rightarrow> int \<Rightarrow> contractSubscription" where
  "toContractSubscription row minuteBalance =
     \<lparr>cs_subscriptionId = sb_id row, cs_plan = sb_plan row, cs_status = sb_status row,
      cs_currentPeriodStart = map_option toISOString (sb_currentPeriodStart row),
      cs_currentPeriodEnd = map_option toISOString (sb_currentPeriodEnd row),
      cs_cancelAtPeriodEnd = sb_cancelAtPeriodEnd row, cs_minuteBalance = minuteBalance, cs_isDemo = sb_isDemo row\<rparr>"

datatype 'a answer = Answer 'a | Refusal nat string

definition readMySubscription :: "db \<Rightarrow> ident \<Rightarrow> contractSubscription option" where
  "readMySubscription s userId =
     (case find (\<lambda>x. sb_userId x = userId) (subscription s) of None \<Rightarrow> None
      | Some row \<Rightarrow> Some (toContractSubscription row (readCreditBalance s userId)))"

definition subscription_audit ::
  "string \<Rightarrow> ident option \<Rightarrow> subscription_row \<Rightarrow> (string \<times> json) list \<Rightarrow> auditLog_row" where
  "subscription_audit action actor row detail =
     (audit_entry SUBSCRIPTION action detail)
       \<lparr>au_actorUserId := actor, au_entityType := Some ''Subscription'', au_entityId := Some (sb_id row), au_isDemo := sb_isDemo row\<rparr>"

definition new_subscription :: "ident \<Rightarrow> ident \<Rightarrow> planConfig_row \<Rightarrow> time \<Rightarrow> subscription_row" where
  "new_subscription subscriptionId userId plan now =
     \<lparr>sb_id = subscriptionId, sb_userId = userId, sb_plan = pc_plan plan, sb_status = SUB_ACTIVE, sb_startsAt = now,
      sb_priceMinor = pc_priceMinor plan, sb_endsAt = None, sb_currentPeriodStart = None, sb_currentPeriodEnd = None,
      sb_cancelAtPeriodEnd = False, sb_pausedAt = None, sb_providerMandateRef = None, sb_lastPaymentId = None,
      sb_isDemo = False\<rparr>"

definition restart_subscription :: "planConfig_row \<Rightarrow> time \<Rightarrow> subscription_row \<Rightarrow> subscription_row" where
  "restart_subscription plan now row =
     row\<lparr>sb_plan := pc_plan plan, sb_status := SUB_ACTIVE, sb_startsAt := now, sb_priceMinor := pc_priceMinor plan,
      sb_endsAt := None, sb_currentPeriodStart := None, sb_currentPeriodEnd := None, sb_cancelAtPeriodEnd := False,
      sb_pausedAt := None, sb_providerMandateRef := None, sb_lastPaymentId := None\<rparr>"

definition subscription_payment ::
  "ident \<Rightarrow> subscription_row \<Rightarrow> paymentProvider \<Rightarrow> time option \<Rightarrow> payment_row" where
  "subscription_payment paymentId row provider periodStart =
     \<lparr>pay_id = paymentId, pay_userId = sb_userId row, pay_purpose = FOR_SUBSCRIPTION, pay_provider = provider,
      pay_status = PAY_PENDING, pay_amountMinor = sb_priceMinor row, pay_currency = GEL, pay_providerRef = None,
      pay_redirectUrl = None, pay_failureReason = None, pay_capturedAt = None, pay_refundedAt = None,
      pay_subscriptionId = Some (sb_id row), pay_periodStart = periodStart, pay_isDemo = sb_isDemo row\<rparr>"

text \<open>The unique indexes of the payment table: id, provider reference, one live charge per period.\<close>

definition payment_unique :: "payment_row \<Rightarrow> payment_row \<Rightarrow> bool" where
  "payment_unique a b \<longleftrightarrow> pay_id a = pay_id b
     \<or> (pay_providerRef a \<noteq> None \<and> pay_provider a = pay_provider b \<and> pay_providerRef a = pay_providerRef b)
     \<or> (pay_subscriptionId a \<noteq> None \<and> pay_periodStart a \<noteq> None \<and> pay_subscriptionId a = pay_subscriptionId b
        \<and> pay_periodStart a = pay_periodStart b \<and> pay_status a \<noteq> PAY_FAILED \<and> pay_status b \<noteq> PAY_FAILED)"

definition place_order :: "ident \<Rightarrow> ident \<Rightarrow> planConfig_row \<Rightarrow> subscription_row \<Rightarrow> (db, (subscription_row \<times> payment_row) option) tx" where
  "place_order paymentId userId plan row =
     bindt (tx_create payment payment_update payment_unique (subscription_payment paymentId row SANDBOX None)) (\<lambda>pay.
     bindt (recordAuditEvent (subscription_audit ''SUBSCRIPTION_ORDERED'' (Some userId) row
        [(''plan'', JStr (plan_text (pc_plan plan))), (''priceMinor'', JNum (pc_priceMinor plan)), (''currency'', JStr ''GEL''),
         (''minutesPerPeriod'', JNum (pc_minutesPerPeriod plan)), (''paymentId'', JStr (pay_id pay))])) (\<lambda>_.
     ret (Some (row, pay))))"

definition open_subscription :: "ident \<Rightarrow> ident \<Rightarrow> ident \<Rightarrow> planConfig_row \<Rightarrow> time \<Rightarrow> (db, (subscription_row \<times> payment_row) option) tx" where
  "open_subscription subscriptionId paymentId userId plan now =
     bindt (tx_find subscription (\<lambda>x. sb_userId x = userId)) (\<lambda>existing.
     case existing of
       None \<Rightarrow> bindt (tx_create subscription subscription_update (\<lambda>new old. sb_userId new = sb_userId old \<or> sb_id new = sb_id old)
                  (new_subscription subscriptionId userId plan now)) (place_order paymentId userId plan)
     | Some row \<Rightarrow>
         if \<not> FINISHED (sb_status row) then ret None
         else bindt (tx_update subscription subscription_update (\<lambda>x. sb_userId x = userId) (restart_subscription plan now)) (\<lambda>_.
              place_order paymentId userId plan (restart_subscription plan now row)))"

definition subscribe ::
  "environment \<Rightarrow> ident \<Rightarrow> ident \<Rightarrow> ident \<Rightarrow> subscriptionPlan \<Rightarrow> time \<Rightarrow> (db, (contractSubscription \<times> paymentIntent) answer) job" where
  "subscribe E subscriptionId paymentId userId requested now =
     (if \<not> sandboxMoneyAllowed E
      then retj (Refusal 500 ''Subscriptions are unavailable: no payment provider is configured.'')
      else bindj (readsj (\<lambda>s. s)) (\<lambda>s.
        if filter pc_isAvailable (subscriptionPlanConfig s) = []
        then retj (Refusal 503 ''No subscription plans are configured on this deployment.'')
        else case find (\<lambda>c. pc_plan c = requested) (subscriptionPlanConfig s) of
            None \<Rightarrow> retj (Refusal 422 ''That plan is not on sale.'')
          | Some plan \<Rightarrow>
             if \<not> pc_isAvailable plan then retj (Refusal 422 ''That plan is not on sale.'')
             else bindj (transaction (open_subscription subscriptionId paymentId userId plan now)) (\<lambda>opened.
               case opened of None \<Rightarrow> retj (Refusal 409 ''That account already has a subscription.'')
               | Some (row, pay) \<Rightarrow> bindj (readsj (\<lambda>s. readCreditBalance s userId)) (\<lambda>balance.
                   retj (Answer (toContractSubscription row balance, toPaymentIntent pay None))))))"

text \<open>
  What an operation decides about the row it read: a refusal, nothing, or a change with its
  audit entry.
\<close>

datatype decision =
    Decline string
  | No_change
  | Change "subscription_row \<Rightarrow> subscription_row" string "(string \<times> json) list"

definition transition :: "ident \<Rightarrow> (subscription_row \<Rightarrow> decision) \<Rightarrow> (db, contractSubscription answer) tx" where
  "transition userId decide =
     bindt (tx_find subscription (\<lambda>x. sb_userId x = userId)) (\<lambda>found.
     case found of None \<Rightarrow> ret (Refusal 404 ''That account has no subscription.'')
     | Some row \<Rightarrow>
        (case decide row of
           Decline message \<Rightarrow> ret (Refusal 409 message)
         | No_change \<Rightarrow> bindt (reads (\<lambda>s. readCreditBalance s userId)) (\<lambda>balance.
             ret (Answer (toContractSubscription row balance)))
         | Change f action detail \<Rightarrow>
             bindt (tx_update subscription subscription_update (\<lambda>x. sb_userId x = userId) f) (\<lambda>_.
             bindt (recordAuditEvent (subscription_audit action (Some userId) row
                ((''plan'', JStr (plan_text (sb_plan row))) # detail))) (\<lambda>_.
             bindt (reads (\<lambda>s. readCreditBalance s userId)) (\<lambda>balance.
             ret (Answer (toContractSubscription (f row) balance)))))))"

definition pause_decision :: "time \<Rightarrow> subscription_row \<Rightarrow> decision" where
  "pause_decision now row =
     (if sb_status row = SUB_PAUSED then No_change
      else if sb_status row \<noteq> SUB_ACTIVE then Decline ''Only an active subscription can be paused.''
      else Change (\<lambda>x. x\<lparr>sb_status := SUB_PAUSED, sb_pausedAt := Some now\<rparr>) ''SUBSCRIPTION_PAUSED'' [])"

definition resume_decision :: "time \<Rightarrow> subscription_row \<Rightarrow> decision" where
  "resume_decision now row =
     (if sb_cancelAtPeriodEnd row then Decline ''That subscription is ending and cannot be resumed.''
      else if sb_status row = SUB_ACTIVE then No_change
      else if sb_status row \<noteq> SUB_PAUSED then Decline ''Only a paused subscription can be resumed.''
      else let lapsed = (case sb_currentPeriodEnd row of None \<Rightarrow> False | Some e \<Rightarrow> e \<le> now)
           in Change (\<lambda>x. let y = x\<lparr>sb_status := SUB_ACTIVE, sb_pausedAt := None\<rparr>
                          in if lapsed then y\<lparr>sb_currentPeriodEnd := Some now\<rparr> else y)
                ''SUBSCRIPTION_RESUMED'' [(''nextRenewalAt'', if lapsed then JStr (toISOString now) else JNull)])"

definition cancel_decision :: "time \<Rightarrow> subscription_row \<Rightarrow> decision" where
  "cancel_decision now row =
     (if FINISHED (sb_status row) then Decline ''That subscription has already ended.''
      else let funded = (case sb_currentPeriodEnd row of None \<Rightarrow> False | Some e \<Rightarrow> now < e)
           in if funded
              then if sb_cancelAtPeriodEnd row then No_change
                   else Change (\<lambda>x. x\<lparr>sb_cancelAtPeriodEnd := True\<rparr>) ''SUBSCRIPTION_CANCEL_SCHEDULED''
                          [(''currentPeriodEnd'', json_opt (map_option toISOString (sb_currentPeriodEnd row)))]
              else Change (\<lambda>x. x\<lparr>sb_status := SUB_CANCELLED, sb_endsAt := Some now, sb_cancelAtPeriodEnd := False\<rparr>)
                     ''SUBSCRIPTION_CANCELLED'' [(''immediate'', JBool True)])"

definition pauseMySubscription :: "ident \<Rightarrow> time \<Rightarrow> (db, contractSubscription answer) tx" where
  "pauseMySubscription userId now = transition userId (pause_decision now)"

definition resumeMySubscription :: "ident \<Rightarrow> time \<Rightarrow> (db, contractSubscription answer) tx" where
  "resumeMySubscription userId now = transition userId (resume_decision now)"

definition cancelMySubscription :: "ident \<Rightarrow> time \<Rightarrow> (db, contractSubscription answer) tx" where
  "cancelMySubscription userId now = transition userId (cancel_decision now)"

section \<open>Settling a subscription payment (subscriptions.ts)\<close>

definition outcome_detail :: "payment_row \<Rightarrow> paymentOutcome \<Rightarrow> (string \<times> json) list" where
  "outcome_detail pay outcome =
     [(''provider'', JStr (provider_text (pay_provider pay))), (''providerRef'', JStr (oc_providerRef outcome)),
      (''paymentId'', JStr (pay_id pay))]"

definition settled_status :: "subscriptionStatus \<Rightarrow> subscriptionStatus" where
  "settled_status st = (if FINISHED st \<or> st = SUB_PAUSED then st else SUB_ACTIVE)"

definition fail_subscription :: "payment_row \<Rightarrow> subscription_row \<Rightarrow> paymentOutcome \<Rightarrow> time \<Rightarrow> (db, settlementResult) tx" where
  "fail_subscription pay row outcome now =
     (let neverFunded = (sb_currentPeriodStart row = None)
      in bindt (fail_payment (pay_id pay) outcome) (\<lambda>_.
         bindt (if neverFunded
                then tx_update subscription subscription_update (\<lambda>x. sb_id x = sb_id row)
                       (\<lambda>x. x\<lparr>sb_status := SUB_EXPIRED, sb_endsAt := Some now\<rparr>)
                else ret ()) (\<lambda>_.
         bindt (recordAuditEvent ((subscription_audit ''SUBSCRIPTION_PAYMENT_FAILED'' (Some (pay_userId pay)) row
            (outcome_detail pay outcome @ [(''failureReason'', json_opt (oc_failureReason outcome)),
             (''plan'', JStr (plan_text (sb_plan row))), (''subscriptionExpired'', JBool neverFunded)]))
             \<lparr>au_isDemo := pay_isDemo pay\<rparr>)) (\<lambda>_.
         ret (Settled True None)))))"

definition fund_subscription ::
  "(time \<Rightarrow> wall_parts) \<Rightarrow> (ident \<Rightarrow> string) \<Rightarrow> payment_row \<Rightarrow> subscription_row \<Rightarrow> paymentOutcome \<Rightarrow> time \<Rightarrow> (db, settlementResult) tx" where
  "fund_subscription parts codes pay row outcome now =
     (let periodStart = (case pay_periodStart pay of None \<Rightarrow> now | Some t \<Rightarrow> t);
          periodEnd = nextPeriodEnd parts periodStart;
          st = settled_status (sb_status row)
      in bindt (capture_payment (pay_id pay) outcome now) (\<lambda>_.
         bindt (tx_findOrThrow subscriptionPlanConfig (\<lambda>c. pc_plan c = sb_plan row)) (\<lambda>plan.
         bindt (tx_update subscription subscription_update (\<lambda>x. sb_id x = sb_id row)
            (\<lambda>x. x\<lparr>sb_status := st, sb_currentPeriodStart := Some periodStart, sb_currentPeriodEnd := Some periodEnd,
                  sb_lastPaymentId := Some (pay_id pay),
                  sb_providerMandateRef := (case oc_mandateRef outcome of None \<Rightarrow> sb_providerMandateRef row | Some m \<Rightarrow> Some m)\<rparr>)) (\<lambda>_.
         bindt (grantSubscriptionMinutes row periodStart (pc_minutesPerPeriod plan)) (\<lambda>granted.
         bindt (recordAuditEvent ((subscription_audit
            (if pay_periodStart pay = None then ''SUBSCRIPTION_ACTIVATED'' else ''SUBSCRIPTION_RENEWED'') (Some (pay_userId pay)) row
            (outcome_detail pay outcome @ [(''amountMinor'', JNum (oc_amountMinor outcome)), (''currency'', JStr ''GEL''),
             (''plan'', JStr (plan_text (sb_plan row))),
             (''minutesGranted'', JNum (case granted of Posted _ \<Rightarrow> pc_minutesPerPeriod plan | Not_posted _ \<Rightarrow> 0)),
             (''currentPeriodStart'', JStr (toISOString periodStart)), (''currentPeriodEnd'', JStr (toISOString periodEnd)),
             (''status'', JStr (status_text st))]))\<lparr>au_isDemo := pay_isDemo pay\<rparr>)) (\<lambda>_.
         bindt (earnOnSettledPayment codes (pay_id pay) (pay_userId pay) (pay_amountMinor pay) None) (\<lambda>_.
         ret (Settled True None))))))))"

definition settleSubscriptionPayment ::
  "(time \<Rightarrow> wall_parts) \<Rightarrow> (ident \<Rightarrow> string) \<Rightarrow> payment_row \<Rightarrow> paymentOutcome \<Rightarrow> time \<Rightarrow> (db, settlementResult) tx" where
  "settleSubscriptionPayment parts codes pay outcome now =
     (case pay_subscriptionId pay of
        None \<Rightarrow> throw (JsError (''Payment '' @ pay_id pay @ '' is for a subscription and names none.''))
      | Some i \<Rightarrow> bindt (tx_findOrThrow subscription (\<lambda>x. sb_id x = i)) (\<lambda>row.
          case oc_result outcome of OUT_FAILED \<Rightarrow> fail_subscription pay row outcome now
          | OUT_CAPTURED \<Rightarrow> fund_subscription parts codes pay row outcome now))"

section \<open>The billing calendar\<close>

lemma offsetAt_fixed:
  assumes "off mod 1000 = 0" and "100 \<le> year_of (Day (t + off))"
  shows "offsetAt (fixed_zone off) t = off"
proof -
  obtain y m d h mi sec where p: "utc_parts (t + off) = (y, m, d, h, mi, sec)" by (metis prod_cases6)
  have "h = TimeWithinDay (t + off) div 3600000" using p by (simp add: utc_parts_def Let_def)
  then have "h mod 24 = h" using TimeWithinDay_range [of "t + off"] by simp
  then have "offsetAt (fixed_zone off) t = DateUTC_parts (utc_parts (t + off)) - t div 1000 * 1000"
    unfolding offsetAt_def fixed_zone_def p by (simp del: DateUTC_parts.simps)
  moreover have "(t + off) mod 1000 = t mod 1000" using assms(1) by (metis add.right_neutral mod_add_right_eq)
  ultimately show ?thesis
    using DateUTC_utc_parts [OF assms(2)] minus_mod_eq_div_mult [of t 1000] by (simp del: DateUTC_parts.simps)
qed

lemma last_day_of_month:
  assumes "1 \<le> m" and "m \<le> 12" and "100 \<le> y"
  shows "date_of (Day (DateUTC y m 0)) = days_in_month y (m - 1)"
proof -
  have "MakeDay y m 0 = MakeDay y (m - 1) (days_in_month y (m - 1))"
  proof (cases "m = 12")
    case True
    then show ?thesis using DayFromYear_Suc [of y]
      by (simp add: MakeDay_def days_in_month_def month_start_12 month_start_def [of _ 0])
  next
    case False
    with assms have "m div 12 = 0" "m mod 12 = m" "(m - 1) div 12 = 0" "(m - 1) mod 12 = m - 1" by simp_all
    then show ?thesis by (simp add: MakeDay_def days_in_month_def)
  qed
  moreover have "1 \<le> days_in_month y (m - 1)" using days_in_month_bounds [of "m - 1" y] assms by simp
  ultimately show ?thesis
    using fields_MakeDay [of "m - 1" "days_in_month y (m - 1)" y] assms by (simp add: DateUTC_def Day_def)
qed

lemma later_month:
  assumes "1 \<le> n"
  shows "d < MakeDay (if month_of d = 11 then year_of d + 1 else year_of d) (if month_of d = 11 then 0 else month_of d + 1) n"
proof (cases "month_of d = 11")
  case True
  have "MakeDay (year_of d + 1) 0 n = DayFromYear (year_of d + 1) + n - 1"
    by (simp add: MakeDay_def month_start_def [of _ 0])
  with True assms day_in_year(2) [of d] DayFromYear_Suc [of "year_of d"] show ?thesis by (simp split: if_splits)
next
  case False
  define k where "k = month_of d"
  have k: "0 \<le> k" "k + 1 < 12" using False month_of_range [of d] by (simp_all add: k_def)
  then have "(k + 1) div 12 = 0" "(k + 1) mod 12 = k + 1" by simp_all
  then have "MakeDay (year_of d) (k + 1) n = DayFromYear (year_of d) + month_start (InLeapYear (year_of d)) (k + 1) + n - 1"
    by (simp add: MakeDay_def Let_def)
  moreover have "date_of d \<le> month_start (InLeapYear (year_of d)) (k + 1) - month_start (InLeapYear (year_of d)) k"
    using date_of_range(2) [of d] by (simp add: days_in_month_def k_def)
  moreover have "d = DayFromYear (year_of d) + month_start (InLeapYear (year_of d)) k + date_of d - 1"
    by (simp add: date_of_def k_def)
  ultimately show ?thesis using False assms unfolding k_def [symmetric] by simp
qed

section \<open>What settling keeps\<close>

lemma subscription_keys [simp]:
  "\<not> FORBIDDEN_DETAIL_KEYS ''minutesPerPeriod''" "\<not> FORBIDDEN_DETAIL_KEYS ''subscriptionExpired''"
  "\<not> FORBIDDEN_DETAIL_KEYS ''minutesGranted''" "\<not> FORBIDDEN_DETAIL_KEYS ''currentPeriodStart''"
  "\<not> FORBIDDEN_DETAIL_KEYS ''currentPeriodEnd''" "\<not> FORBIDDEN_DETAIL_KEYS ''status''"
  "\<not> FORBIDDEN_DETAIL_KEYS ''nextRenewalAt''" "\<not> FORBIDDEN_DETAIL_KEYS ''immediate''"
  by (simp_all add: guard_eval)

lemma payment_update_frame:
  assumes "\<And>s t. I s \<Longrightarrow> I (s\<lparr>payment := t\<rparr>)"
  shows "keeps I (fail_payment p outcome)" "keeps I (capture_payment p outcome now)"
  unfolding fail_payment_def capture_payment_def by (intro keeps_table assms; assumption)+

lemma grant_keeps:
  "keeps schedule_inv (grantSubscriptionMinutes row t n)" "keeps credit_inv (grantSubscriptionMinutes row t n)"
  "keeps loyalty_inv (grantSubscriptionMinutes row t n)"
  unfolding grantSubscriptionMinutes_def
  by (intro keeps_credit_inv_post | rule keeps_postCreditEntry; simp)+

lemma earn_keeps:
  "keeps schedule_inv (earnOnSettledPayment codes p u n b)" "keeps credit_inv (earnOnSettledPayment codes p u n b)"
  by (rule keeps_loyalty_frame; simp)+

lemma settleSubscriptionPayment_keeps:
  "keeps books_inv (settleSubscriptionPayment parts codes pay outcome now)"
  by (rule books_invI; unfold settleSubscriptionPayment_def fail_subscription_def fund_subscription_def Let_def)
    (intro keeps_intros payment_update_frame keeps_outbox grant_keeps earn_keeps | rule keeps_table
     | simp split: outcomeResult.split | intro conjI impI)+

section \<open>Properties\<close>

text \<open>
  A billing period is a calendar month. In a time zone a fixed number of seconds ahead of
  UTC, as Tbilisi's is, the period that starts at an instant ends at the same wall-clock time
  on the same day of the next month, or on that month's last day when it is shorter.
\<close>

theorem next_period_is_a_calendar_month:
  assumes "off mod 1000 = 0" and "100 \<le> year_of (Day (from + off))"
  defines "d \<equiv> Day (from + off)" and "e \<equiv> Day (nextPeriodEnd (fixed_zone off) from + off)"
  shows "TimeWithinDay (nextPeriodEnd (fixed_zone off) from + off) = TimeWithinDay (from + off)
    \<and> (if month_of d = 11 then year_of e = year_of d + 1 \<and> month_of e = 0
       else year_of e = year_of d \<and> month_of e = month_of d + 1)
    \<and> date_of e = min (date_of d) (days_in_month (year_of e) (month_of e)) \<and> d < e"
proof -
  define y m n where "y = (if month_of d = 11 then year_of d + 1 else year_of d)"
    and "m = (if month_of d = 11 then 0 else month_of d + 1)" and "n = min (date_of d) (days_in_month y m)"
  note r = month_of_range [of d] date_of_range [of d]
  have y: "100 \<le> y" "0 \<le> m" "m \<le> 11" using assms(2) r by (auto simp: y_def m_def d_def)
  have n: "1 \<le> n" "n \<le> days_in_month y m" using days_in_month_bounds [OF y(2,3), of y] r by (auto simp: n_def)
  have f: "year_of (MakeDay y m n) = y" "month_of (MakeDay y m n) = m" "date_of (MakeDay y m n) = n"
    using fields_MakeDay [OF y(2,3) n] by simp_all
  have s: "(from + off) mod 86400000 = TimeWithinDay (from + off)" by (simp add: TimeWithinDay_def)
  have o: "offsetAt (fixed_zone off) from = off" using assms(1,2) by (rule offsetAt_fixed)
  have mid: "DateUTC y m n = MakeDay y m n * day_ms" using y by (simp add: DateUTC_def)
  have day: "Day (MakeDay y m n * day_ms + TimeWithinDay (from + off)) = MakeDay y m n"
    using TimeWithinDay_range [of "from + off"] by (simp add: Day_of_parts)
  have o2: "offsetAt (fixed_zone off) (MakeDay y m n * day_ms + TimeWithinDay (from + off) - off) = off"
    using assms(1) by (rule offsetAt_fixed) (simp add: day f y)
  have local: "localPartsOf (fixed_zone off) from = (year_of d, month_of d + 1, date_of d)"
    by (simp add: fixed_zone_def utc_parts_def Let_def d_def)
  have last: "date_of (Day (DateUTC y (m + 1) 0)) = days_in_month y m" using last_day_of_month [of "m + 1" y] y by simp
  have "nextPeriodEnd (fixed_zone off) from = instantOfLocalDate (fixed_zone off) (y, m + 1, n) from"
    unfolding nextPeriodEnd_def local using last
    by (auto simp: y_def m_def n_def add.commute simp del: instantOfLocalDate.simps)
  also have "\<dots> = MakeDay y m n * day_ms + TimeWithinDay (from + off) - off"
    using o o2 s mid by (simp add: Let_def)
  finally have result: "nextPeriodEnd (fixed_zone off) from + off = MakeDay y m n * day_ms + TimeWithinDay (from + off)" by simp
  then have e: "e = MakeDay y m n" using day by (simp add: e_def)
  have t: "TimeWithinDay (MakeDay y m n * day_ms + TimeWithinDay (from + off)) = TimeWithinDay (from + off)"
    by (simp add: TimeWithinDay_def)
  have "d < e" using later_month [OF n(1), of d] unfolding e y_def m_def by simp
  then show ?thesis using f t unfolding result e by (auto simp: y_def m_def n_def)
qed

theorem next_period_is_a_calendar_month_witness:
  "date_of (Day (nextPeriodEnd (fixed_zone 14400000) 1769812200000 + 14400000)) = 28"
proof -
  have d: "year_of (Day (1769812200000 + 14400000)) = 2026" "month_of (Day (1769812200000 + 14400000)) = 0"
    "date_of (Day (1769812200000 + 14400000)) = 31" "days_in_month 2026 1 = 28" by code_simp+
  from next_period_is_a_calendar_month [of 14400000 1769812200000] show ?thesis unfolding d by (simp add: d(4))
qed

end
