(* ===== verification/Renewals.thy ===== *)
theory Renewals
  imports Subscriptions
begin

text \<open>
  The renewal sweep, src/apps/realtime/src/subscriptions/renewals.ts: for every subscription
  whose period has ended, one transaction expires its minutes and ends it, expires it, or
  opens the next charge; the charge itself is submitted after the commit.

  A charger is its provider and, for a charge, the message of the error it throws if it throws
  one. \<open>ids\<close> supplies the id of a payment for the n-th subscription of the sweep.
\<close>

definition RENEWAL_ATTEMPTS :: nat where "RENEWAL_ATTEMPTS = 3"
definition RENEWAL_RETRY_DAYS :: int where "RENEWAL_RETRY_DAYS = 2"
definition RENEWAL_GRACE_DAYS :: int where "RENEWAL_GRACE_DAYS = 7"

record savedInstrumentCharge =
  ch_paymentId :: ident
  ch_mandateRef :: string
  ch_amountMinor :: int
  ch_currency :: currency

type_synonym charger = "paymentProvider \<times> (savedInstrumentCharge \<Rightarrow> string option)"

record renewalSweepSummary =
  rs_charged :: nat
  rs_cancelled :: nat
  rs_expired :: nat
  rs_unsubmitted :: nat

datatype renewalDecision = RN_NONE | RN_CANCELLED | RN_EXPIRED | RN_CHARGE savedInstrumentCharge

section \<open>Deciding one subscription\<close>

definition period_over :: "subscription_row \<Rightarrow> time \<Rightarrow> time option" where
  "period_over row now =
     (if sb_status row \<noteq> SUB_ACTIVE \<and> sb_status row \<noteq> SUB_PAUSED then None
      else case sb_currentPeriodEnd row of None \<Rightarrow> None | Some e \<Rightarrow> if now < e then None else Some e)"

definition end_subscription :: "subscription_row \<Rightarrow> time \<Rightarrow> (db, renewalDecision) tx" where
  "end_subscription row periodEnd =
     bindt (tx_update subscription subscription_update (\<lambda>x. sb_id x = sb_id row)
        (\<lambda>x. x\<lparr>sb_status := SUB_CANCELLED, sb_endsAt := Some periodEnd\<rparr>)) (\<lambda>_.
     bindt (recordAuditEvent (subscription_audit ''SUBSCRIPTION_CANCELLED'' None row
        [(''immediate'', JBool False), (''endsAt'', JStr (toISOString periodEnd))])) (\<lambda>_.
     ret RN_CANCELLED))"

definition expire_subscription :: "subscription_row \<Rightarrow> time \<Rightarrow> nat \<Rightarrow> time \<Rightarrow> (db, renewalDecision) tx" where
  "expire_subscription row periodEnd failed now =
     bindt (tx_update subscription subscription_update (\<lambda>x. sb_id x = sb_id row)
        (\<lambda>x. x\<lparr>sb_status := SUB_EXPIRED, sb_endsAt := Some now\<rparr>)) (\<lambda>_.
     bindt (recordAuditEvent (subscription_audit ''SUBSCRIPTION_EXPIRED'' None row
        [(''periodEnd'', JStr (toISOString periodEnd)), (''failedAttempts'', JNum (int failed)),
         (''reason'', JStr (if \<not> truthy (sb_providerMandateRef row) then ''NO_SAVED_INSTRUMENT''
            else if RENEWAL_ATTEMPTS \<le> failed then ''ATTEMPTS_EXHAUSTED'' else ''GRACE_PERIOD_ENDED''))])) (\<lambda>_.
     ret RN_EXPIRED))"

definition open_charge :: "subscription_row \<Rightarrow> time \<Rightarrow> nat \<Rightarrow> paymentProvider \<Rightarrow> ident \<Rightarrow> (db, renewalDecision) tx" where
  "open_charge row periodEnd failed provider paymentId =
     bindt (tx_createSkip payment payment_update payment_unique
        (subscription_payment paymentId row provider (Some periodEnd))) (\<lambda>count.
     if count = 0 then ret RN_NONE
     else bindt (recordAuditEvent (subscription_audit ''SUBSCRIPTION_RENEWAL_CHARGED'' None row
        [(''paymentId'', JStr paymentId), (''provider'', JStr (provider_text provider)), (''amountMinor'', JNum (sb_priceMinor row)),
         (''currency'', JStr ''GEL''), (''periodStart'', JStr (toISOString periodEnd)), (''attempt'', JNum (int failed + 1))])) (\<lambda>_.
       ret (RN_CHARGE \<lparr>ch_paymentId = paymentId, ch_mandateRef = the (sb_providerMandateRef row),
              ch_amountMinor = sb_priceMinor row, ch_currency = GEL\<rparr>)))"

definition renew :: "subscription_row \<Rightarrow> time \<Rightarrow> paymentProvider option \<Rightarrow> ident \<Rightarrow> time \<Rightarrow> (db, renewalDecision) tx" where
  "renew row periodEnd provider paymentId now =
     bindt (reads (\<lambda>s. filter (\<lambda>p. pay_subscriptionId p = Some (sb_id row) \<and> pay_periodStart p = Some periodEnd) (payment s))) (\<lambda>attempts.
     if list_ex (\<lambda>p. pay_status p = PAY_CAPTURED) attempts then ret RN_NONE
     else let failed = length (filter (\<lambda>p. pay_status p = PAY_FAILED) attempts);
              pending = list_ex (\<lambda>p. pay_status p = PAY_PENDING) attempts;
              graceEnded = (periodEnd + RENEWAL_GRACE_DAYS * day_ms \<le> now);
              noMandate = (\<not> truthy (sb_providerMandateRef row))
          in if RENEWAL_ATTEMPTS \<le> failed \<or> graceEnded \<or> noMandate then expire_subscription row periodEnd failed now
             else case provider of None \<Rightarrow> ret RN_NONE
               | Some p \<Rightarrow>
                  if pending then ret RN_NONE
                  else if now < periodEnd + int failed * RENEWAL_RETRY_DAYS * day_ms then ret RN_NONE
                  else open_charge row periodEnd failed p paymentId)"

definition decide :: "ident \<Rightarrow> paymentProvider option \<Rightarrow> ident \<Rightarrow> time \<Rightarrow> (db, renewalDecision) tx" where
  "decide subscriptionId provider paymentId now =
     bindt (tx_findOrThrow subscription (\<lambda>x. sb_id x = subscriptionId)) (\<lambda>row.
     case period_over row now of None \<Rightarrow> ret RN_NONE
     | Some periodEnd \<Rightarrow>
        bindt (expireSubscriptionMinutes row periodEnd) (\<lambda>_.
        if sb_cancelAtPeriodEnd row then end_subscription row periodEnd
        else if sb_status row = SUB_PAUSED then ret RN_NONE
        else renew row periodEnd provider paymentId now))"

section \<open>The sweep\<close>

definition recordUnsubmitted :: "savedInstrumentCharge \<Rightarrow> string \<Rightarrow> (db, unit) tx" where
  "recordUnsubmitted charge error =
     bindt (tx_updateMany payment payment_update (\<lambda>q. pay_id q = ch_paymentId charge \<and> pay_status q = PAY_PENDING)
        (\<lambda>q. q\<lparr>pay_status := PAY_FAILED, pay_failureReason := Some ''CHARGE_NOT_SUBMITTED''\<rparr>)) (\<lambda>count.
     if count = 0 then ret ()
     else bindt (tx_findOrThrow payment (\<lambda>q. pay_id q = ch_paymentId charge)) (\<lambda>pay.
          recordAuditEvent ((audit_entry SUBSCRIPTION ''SUBSCRIPTION_PAYMENT_FAILED''
             [(''provider'', JStr (provider_text (pay_provider pay))), (''paymentId'', JStr (ch_paymentId charge)),
              (''failureReason'', JStr ''CHARGE_NOT_SUBMITTED''), (''error'', JStr (take 256 error)),
              (''subscriptionExpired'', JBool False)])
             \<lparr>au_entityType := Some ''Subscription'', au_entityId := pay_subscriptionId pay, au_isDemo := pay_isDemo pay\<rparr>)))"

definition count_decision :: "renewalDecision \<Rightarrow> renewalSweepSummary \<Rightarrow> renewalSweepSummary" where
  "count_decision d summary =
     (case d of RN_CANCELLED \<Rightarrow> summary\<lparr>rs_cancelled := rs_cancelled summary + 1\<rparr>
      | RN_EXPIRED \<Rightarrow> summary\<lparr>rs_expired := rs_expired summary + 1\<rparr> | _ \<Rightarrow> summary)"

fun sweep_due :: "charger option \<Rightarrow> (nat \<Rightarrow> ident) \<Rightarrow> time \<Rightarrow> nat \<Rightarrow> ident list \<Rightarrow> renewalSweepSummary \<Rightarrow> (db, renewalSweepSummary) job" where
  "sweep_due charger ids now n [] summary = retj summary"
| "sweep_due charger ids now n (i # is) summary =
     bindj (transaction (decide i (map_option fst charger) (ids n) now)) (\<lambda>d.
     let summary = count_decision d summary
     in case (d, charger) of
          (RN_CHARGE charge, Some (provider, submit)) \<Rightarrow>
            (case submit charge of
               None \<Rightarrow> sweep_due charger ids now (n + 1) is (summary\<lparr>rs_charged := rs_charged summary + 1\<rparr>)
             | Some error \<Rightarrow> bindj (transaction (recordUnsubmitted charge error)) (\<lambda>_.
                 sweep_due charger ids now (n + 1) is (summary\<lparr>rs_unsubmitted := rs_unsubmitted summary + 1\<rparr>)))
        | _ \<Rightarrow> sweep_due charger ids now (n + 1) is summary)"

definition sweepSubscriptions :: "charger option \<Rightarrow> (nat \<Rightarrow> ident) \<Rightarrow> time \<Rightarrow> (db, renewalSweepSummary) job" where
  "sweepSubscriptions charger ids now =
     bindj (readsj (\<lambda>s. map sb_id (filter (\<lambda>x. (sb_status x = SUB_ACTIVE \<or> sb_status x = SUB_PAUSED)
        \<and> (case sb_currentPeriodEnd x of None \<Rightarrow> False | Some e \<Rightarrow> e \<le> now)) (subscription s)))) (\<lambda>due.
     sweep_due charger ids now 0 due \<lparr>rs_charged = 0, rs_cancelled = 0, rs_expired = 0, rs_unsubmitted = 0\<rparr>)"

section \<open>How often a period is charged\<close>

definition charges :: "ident \<Rightarrow> time \<Rightarrow> payment_row list \<Rightarrow> payment_row list" where
  "charges i t ps = filter (\<lambda>q. pay_subscriptionId q = Some i \<and> pay_periodStart q = Some t) ps"

definition live_charges :: "ident \<Rightarrow> time \<Rightarrow> payment_row list \<Rightarrow> payment_row list" where
  "live_charges i t ps = filter (\<lambda>q. pay_status q \<noteq> PAY_FAILED) (charges i t ps)"

text \<open>A period is charged at most three times, and at most one charge has not failed.\<close>

definition renewal_inv :: "db \<Rightarrow> bool" where
  "renewal_inv s \<longleftrightarrow> (\<forall>i t. length (charges i t (payment s)) \<le> RENEWAL_ATTEMPTS
     \<and> length (live_charges i t (payment s)) \<le> 1)"

lemma renewal_inv_frame [simp]:
  "renewal_inv (s\<lparr>creditAccount := a\<rparr>) = renewal_inv s" "renewal_inv (s\<lparr>creditLedger := b\<rparr>) = renewal_inv s"
  "renewal_inv (s\<lparr>auditLog := c\<rparr>) = renewal_inv s" "renewal_inv (s\<lparr>subscription := d\<rparr>) = renewal_inv s"
  "renewal_inv (s\<lparr>loyaltyAccount := e\<rparr>) = renewal_inv s" "renewal_inv (s\<lparr>loyaltyLedgerEntry := f\<rparr>) = renewal_inv s"
  by (simp_all add: renewal_inv_def)

text \<open>A change of payments that keeps what they are for and revives none.\<close>

lemma renewal_inv_update:
  assumes "renewal_inv s"
    and "\<And>q. P q \<Longrightarrow> pay_subscriptionId (f q) = pay_subscriptionId q \<and> pay_periodStart (f q) = pay_periodStart q"
    and "\<And>q. q \<in> set (payment s) \<Longrightarrow> P q \<Longrightarrow> pay_status q = PAY_FAILED \<Longrightarrow> pay_status (f q) = PAY_FAILED"
  shows "renewal_inv (s\<lparr>payment := updateMany P f (payment s)\<rparr>)"
proof -
  have "length (charges i t (updateMany P f ps)) = length (charges i t ps)" for i t ps
    using assms(2) by (induction ps) (auto simp: charges_def)
  moreover have "length (live_charges i t (updateMany P f ps)) \<le> length (live_charges i t ps)"
    if "set ps \<subseteq> set (payment s)" for i t ps
    using that assms(2,3) by (induction ps) (auto simp: charges_def live_charges_def)
  ultimately show ?thesis using assms(1) by (fastforce simp: renewal_inv_def intro: order_trans)
qed

lemma charges_split:
  "length (charges i t ps) = length (filter (\<lambda>q. pay_status q = PAY_FAILED) (charges i t ps)) + length (live_charges i t ps)"
  using sum_length_filter_compl [of "\<lambda>q. pay_status q = PAY_FAILED" "charges i t ps"] by (simp add: live_charges_def)

text \<open>The unique index refuses a second live charge.\<close>

lemma no_live_charge:
  assumes "\<not> list_ex (payment_unique (subscription_payment p row provider (Some t))) ps"
  shows "live_charges (sb_id row) t ps = []"
  using assms by (auto simp: list_ex_iff payment_unique_def subscription_payment_def live_charges_def charges_def filter_empty_conv)

lemma renewal_inv_new:
  assumes "renewal_inv s" and "\<not> list_ex (payment_unique (subscription_payment p row provider (Some t))) (payment s)"
    and "length (filter (\<lambda>q. pay_status q = PAY_FAILED) (charges (sb_id row) t (payment s))) < RENEWAL_ATTEMPTS"
  shows "renewal_inv (s\<lparr>payment := payment s @ [subscription_payment p row provider (Some t)]\<rparr>)"
  using assms(1,3) no_live_charge [OF assms(2)] charges_split [of "sb_id row" t "payment s"]
  by (auto simp: renewal_inv_def charges_def live_charges_def subscription_payment_def)

text \<open>A payment for no period counts for none.\<close>

lemma renewal_inv_order:
  "renewal_inv s \<Longrightarrow> renewal_inv (s\<lparr>payment := payment s @ [subscription_payment p row provider None]\<rparr>)"
  by (simp add: renewal_inv_def charges_def live_charges_def subscription_payment_def)

lemma expire_minutes_keeps:
  assumes "\<And>s t. I s \<Longrightarrow> I (s\<lparr>creditAccount := t\<rparr>)" and "\<And>s t. I s \<Longrightarrow> I (s\<lparr>creditLedger := t\<rparr>)"
    and "\<And>s t. I s \<Longrightarrow> I (s\<lparr>auditLog := t\<rparr>)"
  shows "keeps I (expireSubscriptionMinutes row t)"
  unfolding expireSubscriptionMinutes_def by (intro keeps_intros keeps_postCreditEntry assms)

lemma end_keeps:
  assumes "\<And>s. I s \<Longrightarrow> I (s\<lparr>subscription := updateMany (\<lambda>x. sb_id x = sb_id row)
      (\<lambda>x. x\<lparr>sb_status := SUB_CANCELLED, sb_endsAt := Some t\<rparr>) (subscription s)\<rparr>)"
    and "\<And>s. I s \<Longrightarrow> I (s\<lparr>subscription := updateMany (\<lambda>x. sb_id x = sb_id row)
      (\<lambda>x. x\<lparr>sb_status := SUB_EXPIRED, sb_endsAt := Some now\<rparr>) (subscription s)\<rparr>)"
    and "\<And>s t. I s \<Longrightarrow> I (s\<lparr>auditLog := t\<rparr>)"
  shows "keeps I (end_subscription row t)" "keeps I (expire_subscription row t failed now)"
  unfolding end_subscription_def expire_subscription_def by (intro keeps_intros keeps_table keeps_outbox assms; assumption)+

lemma renew_keeps_renewal_inv: "keeps renewal_inv (renew row t provider p now)"
proof (rule keepsI)
  fix s r s'
  assume inv: "renewal_inv s" and run: "renew row t provider p now s = Inr (r, s')"
  have charge: "renewal_inv s'" if "open_charge row t failed q p s = Inr (r, s')"
      "length (filter (\<lambda>q. pay_status q = PAY_FAILED) (charges (sb_id row) t (payment s))) < RENEWAL_ATTEMPTS" for failed q
  proof -
    have "keeps renewal_inv (recordAuditEvent e)" for e by (rule keeps_outbox) simp
    then show ?thesis using that(1) inv renewal_inv_new [OF inv _ that(2)]
      by (auto simp: open_charge_def tx_simps bindt_eq_Inr [of "recordAuditEvent e" for e] split: if_splits dest: keepsD)
  qed
  have "keeps renewal_inv (expire_subscription row t failed now)" for failed by (rule end_keeps) simp_all
  with run inv charge show "renewal_inv s'"
    by (auto simp: renew_def tx_simps Let_def charges_def [symmetric] not_le dest: keepsD split: if_splits option.splits)
qed

lemma decide_keeps_renewal_inv: "keeps renewal_inv (decide i provider p now)"
  unfolding decide_def
  by (intro keeps_intros expire_minutes_keeps end_keeps renew_keeps_renewal_inv) simp_all

lemma recordUnsubmitted_keeps_renewal_inv: "keeps renewal_inv (recordUnsubmitted charge e)"
  unfolding recordUnsubmitted_def
  by (intro keeps_intros keeps_updateMany keeps_outbox) (auto intro: renewal_inv_update)

text \<open>What every transaction of the sweep keeps, the sweep keeps.\<close>

lemma sweep_due_keeps:
  assumes "\<And>i p. i \<in> set is \<Longrightarrow> keeps I (decide i (map_option fst charger) p now)"
    and "\<And>charge e. keeps I (recordUnsubmitted charge e)"
  shows "keepsj I (sweep_due charger ids now n is summary)"
  using assms(1)
proof (induction "is" arbitrary: n summary)
  case Nil
  show ?case by (simp add: keepsj_def)
next
  case (Cons i "is")
  have later: "keepsj I (sweep_due charger ids now m is summary)" for m summary by (rule Cons) (simp add: Cons.prems)
  show ?case unfolding sweep_due.simps Let_def
    using later by (intro keepsj_bind keepsj_transaction Cons.prems; cases charger)
      (auto intro!: keepsj_bind keepsj_transaction assms(2) split: renewalDecision.split option.split)
qed

lemma sweepSubscriptions_keeps:
  assumes "\<And>i p. keeps I (decide i (map_option fst charger) p now)" and "\<And>charge e. keeps I (recordUnsubmitted charge e)"
  shows "keepsj I (sweepSubscriptions charger ids now)"
  unfolding sweepSubscriptions_def by (intro keepsj_intros sweep_due_keeps assms)

end
