(* ===== verification/Settle.thy ===== *)
theory Settle
  imports Renewals
begin

text \<open>
  Settling a payment, src/apps/api/src/features/payments/settle.ts, with the settlement of a
  gift voucher (src/apps/api/src/features/vouchers/vouchers.ts).

  The whole settlement runs under the lock of the payment row, then of the booking or of the
  mission and the pack, so a settlement is one step of the database. \<open>newMission\<close> is the id
  the database gives to a mission it creates; \<open>codes\<close> the referral codes of new loyalty
  accounts; \<open>parts\<close> the billing time zone.
\<close>

section \<open>Texts\<close>

fun bookingStatus_text :: "bookingStatus \<Rightarrow> string" where
  "bookingStatus_text BK_PENDING_PAYMENT = ''PENDING_PAYMENT''" | "bookingStatus_text BK_CONFIRMED = ''CONFIRMED''"
| "bookingStatus_text BK_CANCELLED = ''CANCELLED''" | "bookingStatus_text BK_EXPIRED = ''EXPIRED''"
| "bookingStatus_text BK_REFUNDED = ''REFUNDED''"

fun paymentStatus_text :: "paymentStatus \<Rightarrow> string" where
  "paymentStatus_text PAY_PENDING = ''PENDING''" | "paymentStatus_text PAY_AUTHORIZED = ''AUTHORIZED''"
| "paymentStatus_text PAY_CAPTURED = ''CAPTURED''" | "paymentStatus_text PAY_FAILED = ''FAILED''"
| "paymentStatus_text PAY_REFUNDED = ''REFUNDED''"

fun result_status :: "outcomeResult \<Rightarrow> paymentStatus" where
  "result_status OUT_CAPTURED = PAY_CAPTURED" | "result_status OUT_FAILED = PAY_FAILED"

section \<open>Refusing (settle.ts, refuse)\<close>

text \<open>Written on a connection of its own; the transaction around it has changed nothing.\<close>

definition refuse_outcome :: "paymentProvider \<Rightarrow> paymentOutcome \<Rightarrow> string \<Rightarrow> (string \<times> json) list \<Rightarrow> (db, settlementResult) tx" where
  "refuse_outcome provider outcome message detail =
     bindt (recordAuditEvent ((audit_entry PAYMENT ''PAYMENT_WEBHOOK_REFUSED''
        ([(''provider'', JStr (provider_text provider)), (''providerRef'', JStr (oc_providerRef outcome)),
          (''result'', JStr (paymentStatus_text (result_status (oc_result outcome))))] @ detail))
        \<lparr>au_entityType := Some ''Payment'', au_entityId := Some (oc_paymentId outcome)\<rparr>)) (\<lambda>_.
     ret (Not_settled message))"

section \<open>Gift vouchers (vouchers.ts)\<close>

definition voucher_payment_audit :: "string \<Rightarrow> payment_row \<Rightarrow> ident \<Rightarrow> (string \<times> json) list \<Rightarrow> auditLog_row" where
  "voucher_payment_audit action pay voucherId detail =
     (audit_entry PAYMENT action detail)
       \<lparr>au_actorUserId := Some (pay_userId pay), au_entityType := Some ''GiftVoucher'', au_entityId := Some voucherId,
        au_isDemo := pay_isDemo pay\<rparr>"

definition settleGiftVoucherPayment :: "(ident \<Rightarrow> string) \<Rightarrow> payment_row \<Rightarrow> paymentOutcome \<Rightarrow> time \<Rightarrow> (db, settlementResult) tx" where
  "settleGiftVoucherPayment codes pay outcome now =
     bindt (tx_findOrThrow giftVoucher (\<lambda>v. gv_paymentId v = pay_id pay)) (\<lambda>voucher.
     case oc_result outcome of
       OUT_FAILED \<Rightarrow>
         bindt (fail_payment (pay_id pay) outcome) (\<lambda>_.
         bindt (tx_update giftVoucher giftVoucher_update (\<lambda>v. gv_id v = gv_id voucher) (\<lambda>v. v\<lparr>gv_status := GV_CANCELLED\<rparr>)) (\<lambda>_.
         bindt (recordAuditEvent (voucher_payment_audit ''GIFT_VOUCHER_PAYMENT_FAILED'' pay (gv_id voucher)
            (outcome_detail pay outcome @ [(''failureReason'', json_opt (oc_failureReason outcome))]))) (\<lambda>_.
         ret (Settled True None))))
     | OUT_CAPTURED \<Rightarrow>
         bindt (capture_payment (pay_id pay) outcome now) (\<lambda>_.
         bindt (tx_update giftVoucher giftVoucher_update (\<lambda>v. gv_id v = gv_id voucher)
            (\<lambda>v. v\<lparr>gv_status := GV_ACTIVE, gv_expiresAt := Some (voucherExpiry now)\<rparr>)) (\<lambda>_.
         bindt (recordAuditEvent (voucher_payment_audit ''GIFT_VOUCHER_ISSUED'' pay (gv_id voucher)
            (outcome_detail pay outcome @ [(''amountMinor'', JNum (oc_amountMinor outcome)), (''currency'', JStr ''GEL''),
             (''expiresAt'', JStr (toISOString (voucherExpiry now)))]))) (\<lambda>_.
         bindt (earnOnSettledPayment codes (pay_id pay) (pay_userId pay) (pay_amountMinor pay) None) (\<lambda>_.
         bindt (queueEmail (email (pay_userId pay) MAIL_GIFT_VOUCHER_ISSUED (''gift-voucher-issued:'' @ gv_id voucher)
            [(''voucherId'', gv_id voucher)])) (\<lambda>_.
         ret (Settled True None)))))))"

section \<open>Observer packs (settle.ts)\<close>

definition TERMINAL_MISSION_STATES :: "missionState \<Rightarrow> bool" where
  "TERMINAL_MISSION_STATES st \<longleftrightarrow> st = MS_COMPLETE \<or> st = MS_CANCELLED \<or> st = MS_FAILED"

type_synonym ownedPack = "observerPack_row \<times> mission_row"

definition lockOwnedPack :: "observerPack_row \<Rightarrow> ident \<Rightarrow> (db, ownedPack option) tx" where
  "lockOwnedPack reference paymentId =
     bindt (tx_find mission (\<lambda>m. mi_id m = pk_missionId reference)) (\<lambda>m.
     case m of None \<Rightarrow> ret None
     | Some m \<Rightarrow>
        bindt (tx_find observerPack (\<lambda>k. pk_id k = pk_id reference)) (\<lambda>pack.
        case pack of None \<Rightarrow> ret None
        | Some k \<Rightarrow> if pk_paymentId k \<noteq> Some paymentId then ret None else ret (Some (k, m))))"

definition undeliverableReason :: "ownedPack option \<Rightarrow> string" where
  "undeliverableReason owned =
     (case owned of None \<Rightarrow> ''PACK_NOT_OWNED_BY_PAYMENT''
      | Some (_, m) \<Rightarrow> if TERMINAL_MISSION_STATES (mi_state m) then ''MISSION_ENDED'' else ''SEAT_TAKEN_AFTER_HOLD_LAPSED'')"

definition holds_seat :: "ident \<Rightarrow> observerPack_row \<Rightarrow> bool" where
  "holds_seat missionId k \<longleftrightarrow> pk_missionId k = missionId \<and> (pk_status k = PK_PENDING_PAYMENT \<or> pk_status k = PK_PAID)"

definition seatCapturedPack :: "ownedPack \<Rightarrow> time \<Rightarrow> (db, (ident \<times> ident) option) tx" where
  "seatCapturedPack owned now =
     (case owned of (k, m) \<Rightarrow>
        if pk_status k = PK_PAID then ret (Some (pk_id k, pk_missionId k))
        else if TERMINAL_MISSION_STATES (mi_state m) then ret None
        else bindt (reads (\<lambda>s. length (filter (holds_seat (pk_missionId k)) (observerPack s)))) (\<lambda>held.
          if pk_status k \<noteq> PK_PENDING_PAYMENT \<and> mi_observerCapacity m \<le> held then ret None
          else bindt (tx_update observerPack observerPack_update (\<lambda>x. pk_id x = pk_id k)
                 (\<lambda>x. x\<lparr>pk_status := PK_PAID, pk_paidAt := Some now, pk_holdExpiresAt := None\<rparr>)) (\<lambda>_.
               ret (Some (pk_id k, pk_missionId k)))))"

definition pack_audit :: "string \<Rightarrow> payment_row \<Rightarrow> ident option \<Rightarrow> ownedPack option \<Rightarrow> (string \<times> json) list \<Rightarrow> auditLog_row" where
  "pack_audit action pay missionId owned detail =
     (audit_entry PAYMENT action detail)
       \<lparr>au_actorUserId := Some (pay_userId pay), au_missionId := missionId,
        au_entityType := Some (if owned = None then ''Payment'' else ''ObserverPack''),
        au_entityId := Some (case owned of None \<Rightarrow> pay_id pay | Some (k, _) \<Rightarrow> pk_id k), au_isDemo := pay_isDemo pay\<rparr>"

definition release_pack :: "ownedPack option \<Rightarrow> (db, bool) tx" where
  "release_pack owned =
     (case owned of None \<Rightarrow> ret False
      | Some (k, _) \<Rightarrow>
         if pk_status k = PK_PENDING_PAYMENT
         then bindt (tx_update observerPack observerPack_update (\<lambda>x. pk_id x = pk_id k)
                (\<lambda>x. x\<lparr>pk_status := PK_CANCELLED, pk_holdExpiresAt := None\<rparr>)) (\<lambda>_. ret True)
         else ret False)"

definition capture_pack ::
  "(ident \<Rightarrow> string) \<Rightarrow> payment_row \<Rightarrow> ident option \<Rightarrow> ownedPack option \<Rightarrow> paymentOutcome \<Rightarrow> time \<Rightarrow> (db, settlementResult) tx" where
  "capture_pack codes pay missionId owned outcome now =
     bindt (capture_payment (pay_id pay) outcome now) (\<lambda>_.
     bindt (case owned of None \<Rightarrow> ret None | Some o' \<Rightarrow> seatCapturedPack o' now) (\<lambda>seated.
     let detail = outcome_detail pay outcome @ [(''amountMinor'', JNum (oc_amountMinor outcome)), (''currency'', JStr ''GEL'')]
     in case seated of
          None \<Rightarrow> bindt (recordAuditEvent (pack_audit ''OBSERVER_PACK_CAPTURED_WITHOUT_SEAT'' pay missionId owned
              (detail @ [(''reason'', JStr (undeliverableReason owned))]))) (\<lambda>_. ret (Settled True missionId))
        | Some (packId, seatMission) \<Rightarrow>
            bindt (earnOnSettledPayment codes (pay_id pay) (pay_userId pay) (pay_amountMinor pay) None) (\<lambda>_.
            bindt (recordAuditEvent ((pack_audit ''OBSERVER_PACK_CAPTURED'' pay (Some seatMission) owned detail)
              \<lparr>au_entityId := Some packId\<rparr>)) (\<lambda>_.
            ret (Settled True (Some seatMission))))))"

definition settleObserverPackPayment ::
  "(ident \<Rightarrow> string) \<Rightarrow> payment_row \<Rightarrow> observerPack_row option \<Rightarrow> paymentOutcome \<Rightarrow> time \<Rightarrow> (db, settlementResult) tx" where
  "settleObserverPackPayment codes pay reference outcome now =
     (let missionId = map_option pk_missionId reference
      in bindt (case reference of None \<Rightarrow> ret None | Some r \<Rightarrow> lockOwnedPack r (pay_id pay)) (\<lambda>owned.
         case oc_result outcome of
           OUT_FAILED \<Rightarrow>
             bindt (fail_payment (pay_id pay) outcome) (\<lambda>_.
             bindt (release_pack owned) (\<lambda>released.
             bindt (recordAuditEvent (pack_audit ''OBSERVER_PACK_PAYMENT_FAILED'' pay missionId owned
                (outcome_detail pay outcome @ [(''failureReason'', json_opt (oc_failureReason outcome)),
                 (''seatReleased'', JBool released)]))) (\<lambda>_.
             ret (Settled True None))))
         | OUT_CAPTURED \<Rightarrow> capture_pack codes pay missionId owned outcome now))"

section \<open>Bookings (settle.ts)\<close>

definition lockBooking :: "ident \<Rightarrow> (db, booking_row \<times> observatoryMode) tx" where
  "lockBooking bookingId =
     bindt (tx_findOrThrow booking (\<lambda>b. bk_id b = bookingId)) (\<lambda>b.
     bindt (tx_findOrThrow observatory (\<lambda>o'. ob_id o' = bk_observatoryId b)) (\<lambda>o'.
     ret (b, ob_mode o')))"

definition payment_audit :: "string \<Rightarrow> payment_row \<Rightarrow> paymentOutcome \<Rightarrow> (string \<times> json) list \<Rightarrow> auditLog_row" where
  "payment_audit action pay outcome detail =
     (audit_entry PAYMENT action
        ([(''provider'', JStr (provider_text (pay_provider pay))), (''providerRef'', JStr (oc_providerRef outcome))] @ detail))
     \<lparr>au_actorUserId := Some (pay_userId pay), au_entityType := Some ''Payment'', au_entityId := Some (pay_id pay),
      au_isDemo := pay_isDemo pay\<rparr>"

definition money_detail :: "paymentOutcome \<Rightarrow> (string \<times> json) list" where
  "money_detail outcome = [(''amountMinor'', JNum (oc_amountMinor outcome)), (''currency'', JStr ''GEL'')]"

definition fail_booking ::
  "(ident \<Rightarrow> string) \<Rightarrow> payment_row \<Rightarrow> booking_row option \<Rightarrow> paymentOutcome \<Rightarrow> time \<Rightarrow> (db, settlementResult) tx" where
  "fail_booking codes pay b outcome now =
     bindt (fail_payment (pay_id pay) outcome) (\<lambda>_.
     bindt (case b of None \<Rightarrow> ret False
            | Some x \<Rightarrow> releaseHeldSlot codes x (case oc_failureReason outcome of None \<Rightarrow> ''PAYMENT_FAILED'' | Some r \<Rightarrow> r) now) (\<lambda>_.
     bindt (recordAuditEvent (payment_audit ''PAYMENT_FAILED'' pay outcome
        [(''bookingId'', json_opt (map_option bk_id b)), (''failureReason'', json_opt (oc_failureReason outcome))])) (\<lambda>_.
     ret (Settled True None))))"

definition booked_mission :: "ident \<Rightarrow> booking_row \<Rightarrow> observatoryMode \<Rightarrow> time \<Rightarrow> mission_row" where
  "booked_mission newMission b mode now =
     \<lparr>mi_id = newMission, mi_userId = bk_userId b, mi_targetId = bk_targetId b, mi_observatoryId = bk_observatoryId b,
      mi_telescopeId = bk_telescopeId b, mi_state = MS_SCHEDULED, mi_mode = mode, mi_observerCapacity = 10,
      mi_requestedAt = now, mi_scheduledFor = Some (bk_slotStartAt b), mi_isDemo = bk_isDemo b,
      mi_failureReason = None, mi_joinPolicy = JOIN_DISABLED, mi_broadcast = False, mi_startedAt = None, mi_completedAt = None,
      mi_currentTargetId = None, mi_currentTargetSince = None, mi_imageUnrecoveredSince = None,
      mi_slotEndNotifiedAt = None, mi_sessionEndedNotifiedAt = None\<rparr>"

definition confirm_booking ::
  "(ident \<Rightarrow> string) \<Rightarrow> ident \<Rightarrow> payment_row \<Rightarrow> booking_row \<Rightarrow> observatoryMode \<Rightarrow> paymentOutcome \<Rightarrow> time \<Rightarrow> (db, settlementResult) tx" where
  "confirm_booking codes newMission pay b mode outcome now =
     bindt (tx_create mission mission_update (\<lambda>new old. mi_id new = mi_id old) (booked_mission newMission b mode now)) (\<lambda>m.
     bindt (modifies (\<lambda>s. s\<lparr>missionEvent := missionEvent s @
        [scheduled_event m ''Payment captured; mission scheduled for the booked slot.'' now]\<rparr>)) (\<lambda>_.
     bindt (tx_update booking booking_update (\<lambda>x. bk_id x = bk_id b)
        (\<lambda>x. x\<lparr>bk_status := BK_CONFIRMED, bk_missionId := Some (mi_id m)\<rparr>)) (\<lambda>_.
     bindt (queueEmail (email (bk_userId b) MAIL_BOOKING_CONFIRMED (''booking-confirmed:'' @ bk_id b)
        [(''bookingId'', bk_id b)])) (\<lambda>_.
     bindt (recordAuditEvent ((payment_audit ''PAYMENT_CAPTURED'' pay outcome
        (money_detail outcome @ [(''bookingId'', JStr (bk_id b))]))\<lparr>au_missionId := Some (mi_id m)\<rparr>)) (\<lambda>_.
     bindt (recordAuditEvent ((audit_entry MISSION ''MISSION_SCHEDULED''
        [(''observatoryId'', JStr (bk_observatoryId b)), (''targetId'', JStr (bk_targetId b)),
         (''scheduledFor'', JStr (toISOString (bk_slotStartAt b))), (''durationMinutes'', JNum (bk_durationMinutes b)),
         (''paymentId'', JStr (pay_id pay))])
        \<lparr>au_actorUserId := Some (pay_userId pay), au_missionId := Some (mi_id m), au_entityType := Some ''Booking'',
         au_entityId := Some (bk_id b), au_isDemo := pay_isDemo pay\<rparr>)) (\<lambda>_.
     bindt (earnOnSettledPayment codes (pay_id pay) (pay_userId pay) (pay_amountMinor pay) (Some (bk_id b))) (\<lambda>_.
     bindt (rewardReferralOnFirstPaidBooking codes (pay_userId pay) now) (\<lambda>_.
     ret (Settled True (Some (mi_id m)))))))))))"

definition capture_booking ::
  "(ident \<Rightarrow> string) \<Rightarrow> ident \<Rightarrow> payment_row \<Rightarrow> (booking_row \<times> observatoryMode) option \<Rightarrow> paymentOutcome \<Rightarrow> time \<Rightarrow> (db, settlementResult) tx" where
  "capture_booking codes newMission pay found outcome now =
     bindt (capture_payment (pay_id pay) outcome now) (\<lambda>_.
     case found of
       Some (b, mode) \<Rightarrow>
         if bk_status b = BK_PENDING_PAYMENT \<and> bk_missionId b = None then confirm_booking codes newMission pay b mode outcome now
         else bindt (recordAuditEvent (payment_audit ''PAYMENT_CAPTURED_WITHOUT_SLOT'' pay outcome
                (money_detail outcome @ [(''bookingId'', JStr (bk_id b)), (''bookingStatus'', JStr (bookingStatus_text (bk_status b)))]))) (\<lambda>_.
              ret (Settled True (bk_missionId b)))
     | None \<Rightarrow> bindt (recordAuditEvent (payment_audit ''PAYMENT_CAPTURED_WITHOUT_SLOT'' pay outcome
                (money_detail outcome @ [(''bookingId'', JNull), (''bookingStatus'', JNull)]))) (\<lambda>_.
              ret (Settled True None)))"

definition settle_booking ::
  "(ident \<Rightarrow> string) \<Rightarrow> ident \<Rightarrow> payment_row \<Rightarrow> booking_row option \<Rightarrow> paymentOutcome \<Rightarrow> time \<Rightarrow> (db, settlementResult) tx" where
  "settle_booking codes newMission pay reference outcome now =
     bindt (case reference of None \<Rightarrow> ret None | Some r \<Rightarrow> bindt (lockBooking (bk_id r)) (\<lambda>x. ret (Some x))) (\<lambda>found.
     case oc_result outcome of
       OUT_FAILED \<Rightarrow> fail_booking codes pay (map_option fst found) outcome now
     | OUT_CAPTURED \<Rightarrow> capture_booking codes newMission pay found outcome now)"

section \<open>The settlement (settle.ts)\<close>

definition booking_of :: "db \<Rightarrow> ident \<Rightarrow> booking_row option" where
  "booking_of s paymentId = find (\<lambda>b. bk_paymentId b = Some paymentId) (booking s)"

definition pack_of :: "db \<Rightarrow> ident \<Rightarrow> observerPack_row option" where
  "pack_of s paymentId = find (\<lambda>k. pk_paymentId k = Some paymentId) (observerPack s)"

text \<open>The mission a settled payment led to.\<close>

definition settled_mission :: "db \<Rightarrow> ident \<Rightarrow> ident option" where
  "settled_mission s paymentId =
     (case pack_of s paymentId of Some k \<Rightarrow> Some (pk_missionId k)
      | None \<Rightarrow> (case booking_of s paymentId of Some b \<Rightarrow> bk_missionId b | None \<Rightarrow> None))"

definition settle_purpose ::
  "(time \<Rightarrow> wall_parts) \<Rightarrow> (ident \<Rightarrow> string) \<Rightarrow> ident \<Rightarrow> payment_row \<Rightarrow> paymentOutcome \<Rightarrow> time \<Rightarrow> (db, settlementResult) tx" where
  "settle_purpose parts codes newMission pay outcome now =
     (case pay_purpose pay of
        FOR_OBSERVER_PACK \<Rightarrow> bindt (reads (\<lambda>s. pack_of s (pay_id pay))) (\<lambda>k. settleObserverPackPayment codes pay k outcome now)
      | FOR_GIFT_VOUCHER \<Rightarrow> settleGiftVoucherPayment codes pay outcome now
      | FOR_SUBSCRIPTION \<Rightarrow> settleSubscriptionPayment parts codes pay outcome now
      | FOR_BOOKING \<Rightarrow> bindt (reads (\<lambda>s. booking_of s (pay_id pay))) (\<lambda>b. settle_booking codes newMission pay b outcome now))"

definition settle_tx ::
  "(time \<Rightarrow> wall_parts) \<Rightarrow> (ident \<Rightarrow> string) \<Rightarrow> ident \<Rightarrow> paymentProvider \<Rightarrow> paymentOutcome \<Rightarrow> time \<Rightarrow> (db, settlementResult) tx" where
  "settle_tx parts codes newMission provider outcome now =
     bindt (tx_find payment (\<lambda>q. pay_id q = oc_paymentId outcome)) (\<lambda>found.
     case found of
       None \<Rightarrow> refuse_outcome provider outcome ''No such payment.'' [(''reason'', JStr ''UNKNOWN_PAYMENT'')]
     | Some pay \<Rightarrow>
        if pay_provider pay \<noteq> provider
        then refuse_outcome provider outcome ''The payment was not opened with that provider.''
               [(''reason'', JStr ''PROVIDER_MISMATCH''), (''expectedProvider'', JStr (provider_text (pay_provider pay)))]
        else if pay_amountMinor pay \<noteq> oc_amountMinor outcome \<or> pay_currency pay \<noteq> oc_currency outcome
        then refuse_outcome provider outcome ''The callback's amount does not match the payment intent.''
               [(''reason'', JStr ''AMOUNT_MISMATCH''), (''expectedAmountMinor'', JNum (pay_amountMinor pay)),
                (''expectedCurrency'', JStr ''GEL''), (''reportedAmountMinor'', JNum (oc_amountMinor outcome)),
                (''reportedCurrency'', JStr ''GEL'')]
        else if pay_status pay = PAY_CAPTURED \<or> pay_status pay = PAY_FAILED
        then if pay_providerRef pay = Some (oc_providerRef outcome) \<and> pay_status pay = result_status (oc_result outcome)
             then bindt (reads (\<lambda>s. settled_mission s (pay_id pay))) (\<lambda>m. ret (Settled False m))
             else refuse_outcome provider outcome ''The payment has already been settled with a different outcome.''
                    [(''reason'', JStr ''ALREADY_SETTLED''), (''settledStatus'', JStr (paymentStatus_text (pay_status pay)))]
        else if pay_status pay = PAY_REFUNDED
        then refuse_outcome provider outcome ''The payment has already been refunded.''
               [(''reason'', JStr ''ALREADY_SETTLED''), (''settledStatus'', JStr (paymentStatus_text (pay_status pay)))]
        else bindt (tx_find payment (\<lambda>q. pay_provider q = provider \<and> pay_providerRef q = Some (oc_providerRef outcome))) (\<lambda>taken.
          if taken \<noteq> None \<and> pay_id (the taken) \<noteq> pay_id pay
          then refuse_outcome provider outcome ''That provider reference already belongs to another payment.''
                 [(''reason'', JStr ''PROVIDER_REF_REUSED'')]
          else settle_purpose parts codes newMission pay outcome now))"

definition settlePayment ::
  "(time \<Rightarrow> wall_parts) \<Rightarrow> (ident \<Rightarrow> string) \<Rightarrow> ident \<Rightarrow> paymentProvider \<Rightarrow> paymentOutcome \<Rightarrow> time \<Rightarrow> (db, settlementResult) job" where
  "settlePayment parts codes newMission provider outcome now = transaction (settle_tx parts codes newMission provider outcome now)"

section \<open>What a settlement leaves alone\<close>

lemma settle_keys [simp]:
  "\<not> FORBIDDEN_DETAIL_KEYS ''endsAt''" "\<not> FORBIDDEN_DETAIL_KEYS ''error''"
  by (simp_all add: guard_eval)

lemma clean_audit:
  "offending_keys (au_metadata e) = [] \<Longrightarrow> recordAuditEvent e s = Inr ((), s\<lparr>auditLog := auditLog s @ [e]\<rparr>)"
  by (simp add: recordAuditEvent_def assertDetailCarriesNoSecret_def tx_simps)

lemma refuse_outcome_eq:
  assumes "offending_keys detail = []"
  obtains e where "refuse_outcome provider outcome message detail s = Inr (Not_settled message, s\<lparr>auditLog := auditLog s @ [e]\<rparr>)"
    and "au_action e = ''PAYMENT_WEBHOOK_REFUSED''" and "au_entityId e = Some (oc_paymentId outcome)"
proof -
  define e where "e = (audit_entry PAYMENT ''PAYMENT_WEBHOOK_REFUSED''
        ([(''provider'', JStr (provider_text provider)), (''providerRef'', JStr (oc_providerRef outcome)),
          (''result'', JStr (paymentStatus_text (result_status (oc_result outcome))))] @ detail))
        \<lparr>au_entityType := Some ''Payment'', au_entityId := Some (oc_paymentId outcome)\<rparr>"
  have "recordAuditEvent e s = Inr ((), s\<lparr>auditLog := auditLog s @ [e]\<rparr>)"
    by (rule clean_audit) (use assms in \<open>simp add: e_def\<close>)
  then show thesis
    by (intro that [of e]) (simp_all add: refuse_outcome_def bindt_def ret_def e_def audit_entry_def)
qed

text \<open>
  A property of the payments alone is left to the changes of payments; what every other table
  is changed to does not matter.
\<close>

definition on_payments :: "(payment_row list \<Rightarrow> bool) \<Rightarrow> db \<Rightarrow> bool" where
  "on_payments P s \<longleftrightarrow> P (payment s)"

lemma on_payments_frame [simp]:
  "on_payments P (s\<lparr>creditAccount := a\<rparr>) = on_payments P s" "on_payments P (s\<lparr>creditLedger := b\<rparr>) = on_payments P s"
  "on_payments P (s\<lparr>loyaltyAccount := c\<rparr>) = on_payments P s" "on_payments P (s\<lparr>loyaltyLedgerEntry := d\<rparr>) = on_payments P s"
  "on_payments P (s\<lparr>auditLog := e\<rparr>) = on_payments P s" "on_payments P (s\<lparr>emailNotification := f\<rparr>) = on_payments P s"
  "on_payments P (s\<lparr>booking := g\<rparr>) = on_payments P s" "on_payments P (s\<lparr>mission := h\<rparr>) = on_payments P s"
  "on_payments P (s\<lparr>missionEvent := i\<rparr>) = on_payments P s" "on_payments P (s\<lparr>giftVoucher := j\<rparr>) = on_payments P s"
  "on_payments P (s\<lparr>cardPrize := k\<rparr>) = on_payments P s" "on_payments P (s\<lparr>subscription := l\<rparr>) = on_payments P s"
  "on_payments P (s\<lparr>observerPack := m\<rparr>) = on_payments P s"
  by (simp_all add: on_payments_def)

lemma on_payments_ops:
  "keeps (on_payments P) (earnOnSettledPayment codes p u n b)" "keeps (on_payments P) (rewardReferralOnFirstPaidBooking codes u now)"
  "keeps (on_payments P) (recordAuditEvent e)" "keeps (on_payments P) (queueEmail m)"
  "keeps (on_payments P) (grantSubscriptionMinutes row t n)" "keeps (on_payments P) (give_back codes bk now)"
  unfolding grantSubscriptionMinutes_def give_back_def
  by (intro keeps_intros keeps_loyalty_frame keeps_outbox keeps_credit_frame releaseCardPrize_frame; simp)+

definition failed_with :: "paymentOutcome \<Rightarrow> payment_row \<Rightarrow> payment_row" where
  "failed_with outcome q = q\<lparr>pay_status := PAY_FAILED, pay_providerRef := Some (oc_providerRef outcome),
     pay_failureReason := oc_failureReason outcome\<rparr>"

definition captured_with :: "paymentOutcome \<Rightarrow> time \<Rightarrow> payment_row \<Rightarrow> payment_row" where
  "captured_with outcome now q = q\<lparr>pay_status := PAY_CAPTURED, pay_providerRef := Some (oc_providerRef outcome),
     pay_capturedAt := Some now\<rparr>"

definition only_reads :: "('s, 'a) tx \<Rightarrow> bool" where
  "only_reads m \<longleftrightarrow> (\<forall>s r s'. m s = Inr (r, s') \<longrightarrow> s' = s)"

lemma only_reads_intros:
  "only_reads (ret x)" "only_reads (reads g)" "only_reads (tx_find get Q)" "only_reads (tx_findOrThrow get Q)"
  by (auto simp: only_reads_def tx_simps split: option.splits)

lemma only_reads_bind: "only_reads m \<Longrightarrow> (\<And>x. only_reads (f x)) \<Longrightarrow> only_reads (bindt m f)"
  unfolding only_reads_def bindt_eq_Inr by blast

lemma only_reads_if:
  "only_reads m \<Longrightarrow> only_reads m' \<Longrightarrow> only_reads (if c then m else m')"
  "only_reads m \<Longrightarrow> (\<And>x. only_reads (f x)) \<Longrightarrow> only_reads (case v of None \<Rightarrow> m | Some x \<Rightarrow> f x)"
  by (simp_all split: option.split)

text \<open>
  Every settlement reads, then marks its payment as failed or captured, then leaves the payment
  so. The locale turns that shape into facts about the payments: \<open>pre\<close> holds of the payments
  before and \<open>post\<close> afterwards, when marking one payment gives \<open>post\<close> and releasing a held slot
  keeps it. Its rules follow the shape of the code.
\<close>

locale payment_marking =
  fixes pre post :: "payment_row \<Rightarrow> paymentOutcome \<Rightarrow> payment_row list \<Rightarrow> bool"
  assumes mark_failed: "oc_result outcome = OUT_FAILED \<Longrightarrow> find (\<lambda>q. pay_id q = pay_id pay) ps = Some pay \<Longrightarrow> pre pay outcome ps \<Longrightarrow>
      post pay outcome (updateMany (\<lambda>q. pay_id q = pay_id pay) (failed_with outcome) ps)"
    and mark_captured: "oc_result outcome = OUT_CAPTURED \<Longrightarrow> find (\<lambda>q. pay_id q = pay_id pay) ps = Some pay \<Longrightarrow> pre pay outcome ps \<Longrightarrow>
      post pay outcome (updateMany (\<lambda>q. pay_id q = pay_id pay) (captured_with outcome now) ps)"
    and release: "oc_result outcome = OUT_FAILED \<Longrightarrow> post pay outcome ps \<Longrightarrow>
      post pay outcome (updateMany (\<lambda>q. pay_id q = p) (\<lambda>q. q\<lparr>pay_status := PAY_FAILED, pay_failureReason := Some r\<rparr>) ps)"
begin

definition marks :: "payment_row \<Rightarrow> paymentOutcome \<Rightarrow> (db, 'a) tx \<Rightarrow> bool" where
  "marks pay outcome m \<longleftrightarrow> (\<forall>s r s'. find (\<lambda>q. pay_id q = pay_id pay) (payment s) = Some pay \<longrightarrow>
     on_payments (pre pay outcome) s \<longrightarrow> m s = Inr (r, s') \<longrightarrow> on_payments (post pay outcome) s')"

lemma release_keeps_settled:
  assumes "oc_result outcome = OUT_FAILED"
  shows "keeps (on_payments (post pay outcome)) (releaseHeldSlot codes b reason now)"
proof -
  have "on_payments (post pay outcome) (s\<lparr>payment := updateMany (\<lambda>q. pay_id q = p)
      (\<lambda>q. q\<lparr>pay_status := PAY_FAILED, pay_failureReason := Some r\<rparr>) (payment s)\<rparr>)"
    if "on_payments (post pay outcome) s" for s p r
    using that assms by (simp add: on_payments_def release)
  then show ?thesis
    unfolding releaseHeldSlot_def by (intro keeps_intros on_payments_ops keeps_table; simp)
qed

lemma marks_read: "only_reads m \<Longrightarrow> (\<And>x. marks pay outcome (f x)) \<Longrightarrow> marks pay outcome (bindt m f)"
  unfolding marks_def only_reads_def bindt_eq_Inr by metis

lemma marks_then:
  assumes "\<And>s x s'. find (\<lambda>q. pay_id q = pay_id pay) (payment s) = Some pay \<Longrightarrow> on_payments (pre pay outcome) s \<Longrightarrow>
      m s = Inr (x, s') \<Longrightarrow> on_payments (post pay outcome) s'"
    and "\<And>x. keeps (on_payments (post pay outcome)) (f x)"
  shows "marks pay outcome (bindt m f)"
  unfolding marks_def bindt_eq_Inr using assms by (blast dest: keepsD)

lemma marks_fail:
  "oc_result outcome = OUT_FAILED \<Longrightarrow> (\<And>x. keeps (on_payments (post pay outcome)) (f x)) \<Longrightarrow>
   marks pay outcome (bindt (fail_payment (pay_id pay) outcome) f)"
  by (rule marks_then)
    (auto simp: fail_payment_def tx_simps on_payments_def split: if_splits intro: mark_failed [unfolded failed_with_def])

lemma marks_capture:
  "oc_result outcome = OUT_CAPTURED \<Longrightarrow> (\<And>x. keeps (on_payments (post pay outcome)) (f x)) \<Longrightarrow>
   marks pay outcome (bindt (capture_payment (pay_id pay) outcome now) f)"
  by (rule marks_then)
    (auto simp: capture_payment_def tx_simps on_payments_def split: if_splits intro: mark_captured [unfolded captured_with_def])

lemma marks_cases:
  "(oc_result outcome = OUT_FAILED \<Longrightarrow> marks pay outcome m) \<Longrightarrow> (oc_result outcome = OUT_CAPTURED \<Longrightarrow> marks pay outcome m') \<Longrightarrow>
   marks pay outcome (case oc_result outcome of OUT_FAILED \<Rightarrow> m | OUT_CAPTURED \<Rightarrow> m')"
  by (cases "oc_result outcome") auto

lemma marks_throw: "marks pay outcome (throw e)"
  by (simp add: marks_def tx_simps)

lemma marks_option:
  "marks pay outcome m \<Longrightarrow> (\<And>x. marks pay outcome (f x)) \<Longrightarrow> marks pay outcome (case v of None \<Rightarrow> m | Some x \<Rightarrow> f x)"
  by (cases v) auto

lemmas marks_intros = marks_read marks_fail marks_capture marks_cases marks_throw marks_option
  only_reads_intros only_reads_bind only_reads_if

lemma settle_booking_marks: "marks pay outcome (settle_booking codes newMission pay b outcome now)"
proof -
  have "keeps (on_payments P) (confirm_booking codes newMission pay x mode outcome now)" for P x mode
    unfolding confirm_booking_def by (intro keeps_intros on_payments_ops keeps_table; simp)
  then show ?thesis
    unfolding settle_booking_def lockBooking_def fail_booking_def capture_booking_def prod.case_eq_if
    by (intro marks_intros keeps_intros on_payments_ops release_keeps_settled)
qed

lemma settleGiftVoucherPayment_marks: "marks pay outcome (settleGiftVoucherPayment codes pay outcome now)"
  unfolding settleGiftVoucherPayment_def
  by (intro marks_intros keeps_intros on_payments_ops keeps_table; simp)

lemma settleSubscriptionPayment_marks: "marks pay outcome (settleSubscriptionPayment parts codes pay outcome now)"
  unfolding settleSubscriptionPayment_def fail_subscription_def fund_subscription_def Let_def
  by (intro marks_intros keeps_intros on_payments_ops keeps_table; simp)

lemma settleObserverPackPayment_marks: "marks pay outcome (settleObserverPackPayment codes pay k outcome now)"
proof -
  have "keeps (on_payments P) (release_pack x)" "keeps (on_payments P) (seatCapturedPack y now)" for P x y
    unfolding release_pack_def seatCapturedPack_def prod.case_eq_if by (intro keeps_intros keeps_table; simp)+
  then show ?thesis
    unfolding settleObserverPackPayment_def lockOwnedPack_def capture_pack_def Let_def prod.case_eq_if
    by (intro marks_intros keeps_intros on_payments_ops)
qed

lemma settle_purpose_marks:
  assumes "find (\<lambda>q. pay_id q = pay_id pay) (payment s) = Some pay" and "pre pay outcome (payment s)"
    and "settle_purpose parts codes newMission pay outcome now s = Inr (r, s')"
  shows "post pay outcome (payment s')"
proof -
  have "marks pay outcome (settle_purpose parts codes newMission pay outcome now)"
    unfolding settle_purpose_def
    by (cases "pay_purpose pay")
      (simp_all add: settleGiftVoucherPayment_marks settleSubscriptionPayment_marks settle_booking_marks
        settleObserverPackPayment_marks marks_read only_reads_intros)
  then show ?thesis using assms unfolding marks_def on_payments_def by blast
qed

end

text \<open>The payment a settlement was about, and how it stands afterwards.\<close>

definition settled_as :: "payment_row \<Rightarrow> paymentOutcome \<Rightarrow> payment_row list \<Rightarrow> bool" where
  "settled_as pay outcome ps \<longleftrightarrow> (\<exists>q. find (\<lambda>q. pay_id q = pay_id pay) ps = Some q
     \<and> pay_status q = result_status (oc_result outcome) \<and> pay_providerRef q = Some (oc_providerRef outcome)
     \<and> pay_provider q = pay_provider pay \<and> pay_amountMinor q = pay_amountMinor pay \<and> pay_currency q = pay_currency pay)"

interpretation settled: payment_marking "\<lambda>_ _ _. True" settled_as
  by unfold_locales (auto simp: settled_as_def failed_with_def captured_with_def find_keyed_update)

text \<open>The value a transaction ends with, when it ends.\<close>

definition yields :: "('a \<Rightarrow> bool) \<Rightarrow> ('s, 'a) tx \<Rightarrow> bool" where
  "yields Q m \<longleftrightarrow> (\<forall>s r s'. m s = Inr (r, s') \<longrightarrow> Q r)"

lemma yields_bind: "(\<And>x. yields Q (f x)) \<Longrightarrow> yields Q (bindt m f)"
  unfolding yields_def bindt_eq_Inr by blast

lemma yields_intros:
  "Q x \<Longrightarrow> yields Q (ret x)" "yields Q (throw e)" "yields Q m1 \<Longrightarrow> yields Q m2 \<Longrightarrow> yields Q (if c then m1 else m2)"
  "yields Q m1 \<Longrightarrow> (\<And>x. yields Q (f x)) \<Longrightarrow> yields Q (case v of None \<Rightarrow> m1 | Some x \<Rightarrow> f x)"
  "yields Q m1 \<Longrightarrow> yields Q m2 \<Longrightarrow> yields Q (case r of OUT_FAILED \<Rightarrow> m1 | OUT_CAPTURED \<Rightarrow> m2)"
  by (auto simp: yields_def tx_simps split: option.split outcomeResult.split)

fun applied :: "settlementResult \<Rightarrow> bool" where
  "applied (Settled fresh m) = fresh" | "applied (Not_settled msg) = False"

lemma settle_purpose_applies: "yields applied (settle_purpose parts codes newMission pay outcome now)"
proof -
  have "yields applied (settle_booking codes newMission pay b outcome now)" for b
    unfolding settle_booking_def fail_booking_def capture_booking_def confirm_booking_def prod.case_eq_if
    by (intro yields_bind yields_intros; simp)
  moreover have "yields applied (settleGiftVoucherPayment codes pay outcome now)"
    unfolding settleGiftVoucherPayment_def by (intro yields_bind yields_intros; simp)
  moreover have "yields applied (settleSubscriptionPayment parts codes pay outcome now)"
    unfolding settleSubscriptionPayment_def fail_subscription_def fund_subscription_def Let_def
    by (intro yields_bind yields_intros; simp)
  moreover have "yields applied (settleObserverPackPayment codes pay k outcome now)" for k
    unfolding settleObserverPackPayment_def capture_pack_def Let_def prod.case_eq_if
    by (intro yields_bind yields_intros; simp)
  ultimately show ?thesis
    unfolding settle_purpose_def by (cases "pay_purpose pay") (auto intro!: yields_bind)
qed

section \<open>When an outcome is taken\<close>

text \<open>The payment the outcome is about, when the outcome fits it.\<close>

definition fits :: "paymentProvider \<Rightarrow> paymentOutcome \<Rightarrow> db \<Rightarrow> payment_row \<Rightarrow> bool" where
  "fits provider outcome s pay \<longleftrightarrow> find (\<lambda>q. pay_id q = oc_paymentId outcome) (payment s) = Some pay
     \<and> pay_provider pay = provider \<and> pay_amountMinor pay = oc_amountMinor outcome \<and> pay_currency pay = oc_currency outcome"

definition open_payment :: "paymentProvider \<Rightarrow> paymentOutcome \<Rightarrow> db \<Rightarrow> payment_row \<Rightarrow> bool" where
  "open_payment provider outcome s pay \<longleftrightarrow> (pay_status pay = PAY_PENDING \<or> pay_status pay = PAY_AUTHORIZED)
     \<and> (\<forall>q. find (\<lambda>q. pay_provider q = provider \<and> pay_providerRef q = Some (oc_providerRef outcome)) (payment s) = Some q
           \<longrightarrow> pay_id q = pay_id pay)"

definition repeats :: "paymentOutcome \<Rightarrow> payment_row \<Rightarrow> bool" where
  "repeats outcome pay \<longleftrightarrow> pay_providerRef pay = Some (oc_providerRef outcome) \<and> pay_status pay = result_status (oc_result outcome)"

lemma result_settled: "result_status r = PAY_CAPTURED \<or> result_status r = PAY_FAILED"
  by (cases r) simp_all

lemma settle_open:
  assumes "fits provider outcome s pay" and "open_payment provider outcome s pay"
  shows "settle_tx parts codes newMission provider outcome now s = settle_purpose parts codes newMission pay outcome now s"
proof (cases "find (\<lambda>q. pay_provider q = provider \<and> pay_providerRef q = Some (oc_providerRef outcome)) (payment s)")
  case None
  with assms show ?thesis by (auto simp: settle_tx_def fits_def open_payment_def tx_simps)
next
  case (Some q)
  moreover from this assms(2) have "pay_id q = pay_id pay" by (simp add: open_payment_def)
  ultimately show ?thesis using assms by (auto simp: settle_tx_def fits_def open_payment_def tx_simps)
qed

lemma settle_repeat:
  assumes "fits provider outcome s pay" and "repeats outcome pay"
  shows "settle_tx parts codes newMission provider outcome now s = Inr (Settled False (settled_mission s (oc_paymentId outcome)), s)"
  using assms result_settled [of "oc_result outcome"]
  by (auto simp: settle_tx_def fits_def repeats_def tx_simps dest: find_SomeD)

lemma settle_otherwise:
  assumes "\<nexists>pay. fits provider outcome s pay \<and> (repeats outcome pay \<or> open_payment provider outcome s pay)"
  obtains msg e where "settle_tx parts codes newMission provider outcome now s = Inr (Not_settled msg, s\<lparr>auditLog := auditLog s @ [e]\<rparr>)"
    and "au_action e = ''PAYMENT_WEBHOOK_REFUSED''" and "au_entityId e = Some (oc_paymentId outcome)"
proof -
  let ?refuses = "\<lambda>m. \<exists>msg d. m s = refuse_outcome provider outcome msg d s \<and> offending_keys d = []"
  have refuse: "?refuses (refuse_outcome provider outcome msg d)" if "offending_keys d = []" for msg d using that by blast
  have "?refuses (settle_tx parts codes newMission provider outcome now)"
  proof (cases "find (\<lambda>q. pay_id q = oc_paymentId outcome) (payment s)")
    case None
    then show ?thesis unfolding settle_tx_def tx_simps by (simp add: refuse)
  next
    case (Some pay)
    define ref where "ref = find (\<lambda>q. pay_provider q = provider \<and> pay_providerRef q = Some (oc_providerRef outcome)) (payment s)"
    have no: "\<not> (pay_provider pay = provider \<and> pay_amountMinor pay = oc_amountMinor outcome \<and> pay_currency pay = oc_currency outcome
        \<and> (repeats outcome pay \<or> open_payment provider outcome s pay))"
      using assms Some by (auto simp: fits_def)
    have fresh: "open_payment provider outcome s pay"
      if "pay_status pay = PAY_PENDING \<or> pay_status pay = PAY_AUTHORIZED" "\<not> (ref \<noteq> None \<and> pay_id (the ref) \<noteq> pay_id pay)"
      using that by (auto simp: open_payment_def ref_def)
    show ?thesis
    proof (cases "pay_provider pay = provider \<and> pay_amountMinor pay = oc_amountMinor outcome \<and> pay_currency pay = oc_currency outcome")
      case True
      with no fresh show ?thesis
        by (cases "pay_status pay"; simp add: settle_tx_def tx_find_apply(2) Some ref_def [symmetric] repeats_def refuse; (blast)?)
    qed (use Some in \<open>auto simp: settle_tx_def tx_find_apply(2) refuse\<close>)
  qed
  then obtain msg d where r: "settle_tx parts codes newMission provider outcome now s = refuse_outcome provider outcome msg d s"
    and d: "offending_keys d = []" by blast
  show thesis by (rule refuse_outcome_eq [OF d, of provider outcome msg s]) (use r that in simp)
qed

end
