(* ===== verification/Settle_Correct.thy ===== *)
theory Settle_Correct
  imports Settle
begin

text \<open>
  The properties of settling a payment: an outcome is applied once and a second answer
  refused; what is refused and what a refusal leaves; a captured booking is confirmed with
  its mission; the ledgers, the schedule and the seats of every mission survive.
\<close>

section \<open>The club never stops a settlement\<close>

lemma post_codes:
  assumes "loyalty_inv s" and "postLoyaltyEntry codes e s = Inr (r, s')" and "lp_userId e \<in> la_userId ` set (loyaltyAccount s)"
  shows "la_userId ` set (loyaltyAccount s') = la_userId ` set (loyaltyAccount s)"
    and "la_referralCode ` set (loyaltyAccount s') = la_referralCode ` set (loyaltyAccount s)"
proof -
  have j: "joined codes (lp_userId e) s = s" using assms(3) by (simp add: joined_def)
  have c: "la_referralCode ` set (loyaltyAccount (pointed e' c au s)) = la_referralCode ` set (loyaltyAccount s)" for e' c au
    by (metis list.set_map pointed_accounts(2))
  from assms(1,2) show "la_userId ` set (loyaltyAccount s') = la_userId ` set (loyaltyAccount s)"
    by (cases rule: postLoyaltyEntry_cases) (simp_all add: j pointed_accounts(3))
  from assms(1,2) show "la_referralCode ` set (loyaltyAccount s') = la_referralCode ` set (loyaltyAccount s)"
    by (cases rule: postLoyaltyEntry_cases) (simp_all add: j c)
qed

text \<open>
  What a sale to a member needs of the club: its scheme and tiers, room for an account of the
  member and, when somebody referred the member, of that person.
\<close>

definition club_ready :: "(ident \<Rightarrow> string) \<Rightarrow> ident \<Rightarrow> db \<Rightarrow> bool" where
  "club_ready codes u s \<longleftrightarrow> loyalty_inv s \<and> scheme_ok s \<and> can_join codes u s
     \<and> (\<forall>a w. find (\<lambda>x. la_userId x = u) (loyaltyAccount s) = Some a \<longrightarrow> la_referredByUserId a = Some w \<longrightarrow> can_join codes w s)"

lemma can_join_cong:
  "la_userId ` set (loyaltyAccount s') = la_userId ` set (loyaltyAccount s) \<Longrightarrow>
   la_referralCode ` set (loyaltyAccount s') = la_referralCode ` set (loyaltyAccount s) \<Longrightarrow>
   scheme_ok s' \<Longrightarrow> can_join codes w s \<Longrightarrow> can_join codes w s'"
  using scheme_ok_reads by (auto simp: can_join_def)

lemma club_after_post:
  assumes "club_ready codes u s" and "lp_userId e = u"
  obtains r s' where "postLoyaltyEntry codes e s = Inr (r, s')" and "club_ready codes u s'"
proof -
  from assms obtain r s' where p: "postLoyaltyEntry codes e s = Inr (r, s')" "loyalty_inv s'" "scheme_ok s'"
    using post_outcome_points [of s codes e] unfolding club_ready_def by metis
  have inv: "loyalty_inv s" using assms(1) by (simp add: club_ready_def)
  have u: "can_join codes u s'" using can_join_after [OF p(1) inv] assms(2) by simp
  have "can_join codes w s'" if a': "find (\<lambda>x. la_userId x = u) (loyaltyAccount s') = Some a'"
    and w: "la_referredByUserId a' = Some w" for a' w
  proof (cases "find (\<lambda>x. la_userId x = u) (loyaltyAccount s)")
    case None
    then have "find (\<lambda>x. la_userId x = u) (loyaltyAccount (joined codes u s)) =
        Some (new_account u (lt_code (hd (sorted_tiers s))) None (codes u))"
      using find_member_None [of u "loyaltyAccount s"] by (simp add: joined_def find_append)
    with inv p(1) have "la_referredByUserId a' = None"
      by (cases rule: postLoyaltyEntry_cases) (use a' assms(2) in \<open>auto simp: find_pointed new_account_def move_points_def\<close>)
    with w show ?thesis by simp
  next
    case (Some a)
    from inv p(1) Some obtain a2 where "find (\<lambda>x. la_userId x = u) (loyaltyAccount s') = Some a2"
      "la_referredByUserId a2 = la_referredByUserId a" by (rule account_after_post)
    with a' w have "la_referredByUserId a = Some w" by simp
    with Some assms(1) have "can_join codes w s" by (auto simp: club_ready_def)
    moreover have "lp_userId e \<in> la_userId ` set (loyaltyAccount s)" using find_SomeD [OF Some] assms(2) by (metis image_eqI)
    ultimately show ?thesis using post_codes [OF inv p(1)] p(3) can_join_cong by blast
  qed
  with p u that show thesis by (auto simp: club_ready_def)
qed

lemma earn_total:
  assumes "club_ready codes u s"
  obtains s' where "earnOnSettledPayment codes p u n b s = Inr ((), s')" and "club_ready codes u s'"
proof -
  have "scheme_ok s" using assms by (simp add: club_ready_def)
  then obtain sch where sch: "readLoyaltyScheme s = Inr ((sch, sorted_tiers s), s)"
    using scheme_ok_reads by (auto simp: readLoyaltyScheme_eq)
  show thesis
  proof (cases "pointsEarnedFor sch n \<le> 0")
    case True
    with sch assms that show thesis by (simp add: earnOnSettledPayment_def bindt_def ret_def)
  next
    case False
    obtain r s' where "postLoyaltyEntry codes (earn_entry p u (pointsEarnedFor sch n) b) s = Inr (r, s')" "club_ready codes u s'"
      by (rule club_after_post [OF assms, of "earn_entry p u (pointsEarnedFor sch n) b"]) (simp add: earn_entry_def)
    with False sch that show thesis by (simp add: earnOnSettledPayment_def bindt_def Let_def ret_def)
  qed
qed

lemma can_join_rewarded: "can_join codes w s \<Longrightarrow> scheme_ok s \<Longrightarrow> can_join codes w (rewarded u now s)"
  by (rule can_join_cong [of _ s]) (simp_all add: rewarded_def image_updateMany_inv scheme_ok_def sorted_tiers_def)

lemma referral_total:
  assumes "club_ready codes u s"
  obtains s' where "rewardReferralOnFirstPaidBooking codes u now s = Inr ((), s')"
proof (cases "\<exists>a w. find (\<lambda>x. la_userId x = u) (loyaltyAccount s) = Some a \<and> la_referredByUserId a = Some w
     \<and> la_referralRewardedAt a = None")
  case False
  then show thesis
    by (intro that [of s]) (auto simp: rewardReferralOnFirstPaidBooking_def tx_simps split: option.splits)
next
  case True
  then obtain a w where a: "find (\<lambda>x. la_userId x = u) (loyaltyAccount s) = Some a" "la_referredByUserId a = Some w"
    "la_referralRewardedAt a = None" by blast
  let ?s0 = "rewarded u now s"
  have inv: "loyalty_inv s" "scheme_ok s" "can_join codes w s" using assms a by (auto simp: club_ready_def)
  have ready: "loyalty_inv ?s0" "scheme_ok ?s0" "can_join codes w ?s0" "can_join codes u ?s0"
    using inv can_join_rewarded assms by (auto simp: loyalty_inv_rewarded club_ready_def)
  note d = loyalty_inv_distinct [OF inv(1)]
  have claim: "length (filter (\<lambda>r. la_userId r = u \<and> la_referralRewardedAt r = None) (loyaltyAccount s)) = 1"
    "s\<lparr>loyaltyAccount := updateMany (\<lambda>r. la_userId r = u \<and> la_referralRewardedAt r = None)
       (\<lambda>r. r\<lparr>la_referralRewardedAt := Some now\<rparr>) (loyaltyAccount s)\<rparr> = ?s0"
    using keyed_filter [OF d a(1)] keyed_updateMany [OF d a(1)] a(3) by (simp_all add: rewarded_def)
  obtain sch where sch: "readLoyaltyScheme ?s0 = Inr ((sch, sorted_tiers ?s0), ?s0)"
    using scheme_ok_reads [OF ready(2)] by (auto simp: readLoyaltyScheme_eq)
  let ?e = "\<lambda>x. loyalty_entry x REFERRAL_BONUS (ls_referralBonusPoints sch) (referee_source u)"
  obtain r1 s1 where s1: "postLoyaltyEntry codes (?e u) ?s0 = Inr (r1, s1)" "loyalty_inv s1" "scheme_ok s1"
    using post_outcome_points [of ?s0 codes "?e u"] ready by (metis loyalty_entry_simps(1))
  have "u \<in> la_userId ` set (loyaltyAccount ?s0)"
    using find_SomeD [OF a(1)] by (auto simp: rewarded_def image_updateMany_inv)
  then have "can_join codes (lp_userId (?e w)) s1"
    using post_codes [OF ready(1) s1(1)] ready(3) s1(3) can_join_cong by simp
  then obtain r2 s2 where s2: "postLoyaltyEntry codes (?e w) s1 = Inr (r2, s2)"
    using post_outcome_points [OF s1(2,3)] by metis
  have "\<exists>s'. rewardReferralOnFirstPaidBooking codes u now s = Inr ((), s')"
    using a claim sch s1(1) s2
    by (simp add: rewardReferralOnFirstPaidBooking_def tx_simps bindt_def [of readLoyaltyScheme]) (simp add: bindt_def ret_def)
  with that show thesis by blast
qed

lemma club_ready_cong:
  assumes "loyaltyAccount s' = loyaltyAccount s" "loyaltyLedgerEntry s' = loyaltyLedgerEntry s"
    "loyaltyScheme s' = loyaltyScheme s" "loyaltyTier s' = loyaltyTier s"
  shows "club_ready codes u s' = club_ready codes u s"
proof -
  have "loyalty_inv s' = loyalty_inv s" "scheme_ok s' = scheme_ok s" "can_join codes w s' = can_join codes w s" for w
    using assms by (simp_all add: loyalty_inv_def scheme_ok_def can_join_def readLoyaltyScheme_eq sorted_tiers_def)
  with assms(1) show ?thesis by (simp add: club_ready_def)
qed

section \<open>Settling keeps the books\<close>

lemma sale_keeps:
  "keeps schedule_inv (earnOnSettledPayment codes p u n b)" "keeps credit_inv (earnOnSettledPayment codes p u n b)"
  "keeps schedule_inv (rewardReferralOnFirstPaidBooking codes u now)" "keeps credit_inv (rewardReferralOnFirstPaidBooking codes u now)"
  by (rule keeps_loyalty_frame; simp)+

lemma confirm_keeps_schedule:
  "hoare (\<lambda>s. schedule_inv s \<and> b \<in> set (booking s) \<and> bk_status b = BK_PENDING_PAYMENT)
     (confirm_booking codes newMission pay b mode outcome now) (\<lambda>_. schedule_inv)"
proof -
  let ?J = "\<lambda>s. schedule_inv s \<and> b \<in> set (booking s) \<and> bk_status b = BK_PENDING_PAYMENT"
  have create: "hoare ?J (tx_create mission mission_update C x) (\<lambda>_. ?J)" for C x
    unfolding keeps_def [symmetric] by (intro keeps_table) simp
  have event: "hoare ?J (modifies (\<lambda>s. s\<lparr>missionEvent := f s\<rparr>)) (\<lambda>_. ?J)" for f
    unfolding keeps_def [symmetric] by (intro keeps_table) simp
  have change: "hoare ?J (tx_update booking booking_update (\<lambda>x. bk_id x = bk_id b)
      (\<lambda>x. x\<lparr>bk_status := BK_CONFIRMED, bk_missionId := Some m\<rparr>)) (\<lambda>_. schedule_inv)" for m
  proof (rule hoareI)
    fix s x s'
    assume J: "?J s" and u: "tx_update booking booking_update (\<lambda>x. bk_id x = bk_id b)
        (\<lambda>x. x\<lparr>bk_status := BK_CONFIRMED, bk_missionId := Some m\<rparr>) s = Inr (x, s')"
    have "y = b" if "y \<in> set (booking s)" "bk_id y = bk_id b" for y
      using distinct_key_eq [of bk_id] schedule_inv_ids J that by blast
    with J have "schedule_inv (s\<lparr>booking := updateMany (\<lambda>x. bk_id x = bk_id b)
        (\<lambda>x. x\<lparr>bk_status := BK_CONFIRMED, bk_missionId := Some m\<rparr>) (booking s)\<rparr>)"
      by (intro schedule_inv_update) (auto simp: held_status_def)
    with u show "schedule_inv s'" by (simp add: tx_simps split: if_splits)
  qed
  have rest: "keeps schedule_inv (bindt (queueEmail mail) (\<lambda>_. bindt (recordAuditEvent e1) (\<lambda>_. bindt (recordAuditEvent e2) (\<lambda>_.
      bindt (earnOnSettledPayment codes p u n b') (\<lambda>_. bindt (rewardReferralOnFirstPaidBooking codes u now) (\<lambda>_. ret r))))))"
    for mail e1 e2 p u n b' r
    by (intro keeps_intros keeps_outbox sale_keeps) simp_all
  show ?thesis unfolding confirm_booking_def
    by (rule hoare_bindt [OF create], rule hoare_bindt [OF event], rule hoare_bindt [OF change],
        rule rest [unfolded keeps_def])
qed

lemma confirm_keeps_ledgers:
  "keeps credit_inv (confirm_booking codes newMission pay b mode outcome now)"
  "keeps loyalty_inv (confirm_booking codes newMission pay b mode outcome now)"
  unfolding confirm_booking_def by (intro keeps_intros keeps_outbox sale_keeps keeps_table; simp)+

text \<open>The booking a settlement reads under its lock.\<close>

lemma settle_booking_found:
  assumes "settle_booking codes newMission pay b outcome now s = Inr (r, s')"
  obtains found where "\<forall>x. found = Some x \<longrightarrow> fst x \<in> set (booking s)"
    and "oc_result outcome = OUT_FAILED \<Longrightarrow> fail_booking codes pay (map_option fst found) outcome now s = Inr (r, s')"
    and "oc_result outcome = OUT_CAPTURED \<Longrightarrow> capture_booking codes newMission pay found outcome now s = Inr (r, s')"
proof (cases b)
  case None
  with assms show thesis by (intro that [of None]) (simp_all add: settle_booking_def tx_simps)
next
  case (Some x)
  with assms obtain y mode where "y \<in> set (booking s)"
    "oc_result outcome = OUT_FAILED \<longrightarrow> fail_booking codes pay (Some y) outcome now s = Inr (r, s')"
    "oc_result outcome = OUT_CAPTURED \<longrightarrow> capture_booking codes newMission pay (Some (y, mode)) outcome now s = Inr (r, s')"
    by (cases "oc_result outcome") (auto simp: settle_booking_def bindt_assoc lockBooking_def tx_findOrThrow_apply(2) bindt_ret
        split: option.splits dest: find_SomeD)
  then show thesis by (intro that [of "Some (y, mode)"]) auto
qed

lemma report_keeps_schedule: "keeps schedule_inv (bindt (recordAuditEvent e) (\<lambda>_. ret x))"
  by (intro keeps_intros keeps_outbox) simp_all

lemma capture_booking_keeps_schedule:
  assumes "schedule_inv s" and "\<And>x. found = Some x \<Longrightarrow> fst x \<in> set (booking s)"
    and "capture_booking codes newMission pay found outcome now s = Inr (r, s')"
  shows "schedule_inv s'"
proof -
  obtain s1 where s1: "capture_payment (pay_id pay) outcome now s = Inr ((), s1)"
    using assms(3) by (auto simp: capture_booking_def bindt_eq_Inr [of "capture_payment a b c" for a b c])
  then have s: "booking s1 = booking s" "schedule_inv s1"
    using assms(1) by (auto simp: capture_payment_def tx_simps split: if_splits)
  show ?thesis
  proof (cases found)
    case None
    with assms(3) s1 have "bindt (recordAuditEvent (payment_audit ''PAYMENT_CAPTURED_WITHOUT_SLOT'' pay outcome
        (money_detail outcome @ [(''bookingId'', JNull), (''bookingStatus'', JNull)]))) (\<lambda>_. ret (Settled True None)) s1 = Inr (r, s')"
      by (simp add: capture_booking_def bindt_Inr)
    then show ?thesis by (rule keepsD [OF report_keeps_schedule s(2)])
  next
    case (Some x)
    then obtain b mode where x: "found = Some (b, mode)" "b \<in> set (booking s1)" using assms(2) s(1) by (cases x) auto
    then consider (confirm) "confirm_booking codes newMission pay b mode outcome now s1 = Inr (r, s')" "bk_status b = BK_PENDING_PAYMENT"
      | (report) e y where "bindt (recordAuditEvent e) (\<lambda>_. ret y) s1 = Inr (r, s')"
      using assms(3) s1 by (auto simp: capture_booking_def bindt_Inr split: if_splits)
    then show ?thesis
    proof cases
      case confirm
      with s(2) x(2) show ?thesis by (intro hoareD [OF confirm_keeps_schedule]) simp_all
    qed (rule keepsD [OF report_keeps_schedule s(2)])
  qed
qed

lemma settle_booking_keeps_schedule: "keeps schedule_inv (settle_booking codes newMission pay b outcome now)"
proof (rule keepsI)
  fix s r s'
  assume inv: "schedule_inv s" and run: "settle_booking codes newMission pay b outcome now s = Inr (r, s')"
  have fail: "keeps schedule_inv (fail_booking codes pay x outcome now)" for x
    unfolding fail_booking_def
    by (intro keeps_intros keeps_outbox payment_update_frame) simp_all
  from run obtain found where found: "\<forall>x. found = Some x \<longrightarrow> fst x \<in> set (booking s)"
    and failed: "oc_result outcome = OUT_FAILED \<Longrightarrow> fail_booking codes pay (map_option fst found) outcome now s = Inr (r, s')"
    and captured: "oc_result outcome = OUT_CAPTURED \<Longrightarrow> capture_booking codes newMission pay found outcome now s = Inr (r, s')"
    by (rule settle_booking_found) blast
  show "schedule_inv s'"
  proof (cases "oc_result outcome")
    case OUT_FAILED
    from failed [OF this] show ?thesis by (rule keepsD [OF fail inv])
  next
    case OUT_CAPTURED
    from captured [OF this] show ?thesis by (rule capture_booking_keeps_schedule [OF inv, rotated]) (use found in blast)
  qed
qed
lemma keeps_outcome [keeps_intros]:
  "keeps I m \<Longrightarrow> keeps I m' \<Longrightarrow> keeps I (case r of OUT_FAILED \<Rightarrow> m | OUT_CAPTURED \<Rightarrow> m')"
  by (cases r) simp_all

lemma settle_purpose_keeps: "keeps books_inv (settle_purpose parts codes newMission pay outcome now)"
proof -
  have ledgers: "keeps credit_inv (settle_booking codes newMission pay b outcome now)"
    "keeps loyalty_inv (settle_booking codes newMission pay b outcome now)" for b
    unfolding settle_booking_def lockBooking_def fail_booking_def capture_booking_def prod.case_eq_if
    by (intro keeps_intros keeps_outbox payment_update_frame confirm_keeps_ledgers; simp)+
  have booking: "keeps books_inv (settle_booking codes newMission pay b outcome now)" for b
    by (rule books_invI [OF settle_booking_keeps_schedule ledgers])
  have voucher: "keeps books_inv (settleGiftVoucherPayment codes pay outcome now)"
    unfolding settleGiftVoucherPayment_def
    by (rule books_invI; intro keeps_intros keeps_outbox payment_update_frame sale_keeps keeps_table; simp)
  have pack: "keeps books_inv (settleObserverPackPayment codes pay k outcome now)" for k
    unfolding settleObserverPackPayment_def lockOwnedPack_def capture_pack_def release_pack_def seatCapturedPack_def Let_def prod.case_eq_if
    by (rule books_invI; intro keeps_intros keeps_outbox payment_update_frame sale_keeps keeps_table; simp)
  show ?thesis unfolding settle_purpose_def
    by (cases "pay_purpose pay") (simp_all add: booking voucher pack settleSubscriptionPayment_keeps keeps_bindt keeps_reads)
qed

lemma settle_tx_cases:
  assumes "settle_tx parts codes newMission provider outcome now s = Inr (r, s')"
  obtains (purpose) pay where "fits provider outcome s pay" "open_payment provider outcome s pay"
      "settle_purpose parts codes newMission pay outcome now s = Inr (r, s')" "applied r"
  | (repeat) pay where "fits provider outcome s pay" "repeats outcome pay"
      "r = Settled False (settled_mission s (oc_paymentId outcome))" "s' = s"
  | (refused) msg e where "\<nexists>pay. fits provider outcome s pay \<and> (repeats outcome pay \<or> open_payment provider outcome s pay)"
      "r = Not_settled msg" "s' = s\<lparr>auditLog := auditLog s @ [e]\<rparr>" "au_action e = ''PAYMENT_WEBHOOK_REFUSED''"
      "au_entityId e = Some (oc_paymentId outcome)"
proof (cases "\<exists>pay. fits provider outcome s pay \<and> (repeats outcome pay \<or> open_payment provider outcome s pay)")
  case True
  then obtain pay where f: "fits provider outcome s pay" and c: "repeats outcome pay \<or> open_payment provider outcome s pay" by blast
  show thesis
  proof (cases "repeats outcome pay")
    case True
    from assms settle_repeat [OF f True, of parts codes newMission now] show thesis by (intro repeat [OF f True]) auto
  next
    case False
    with c have o: "open_payment provider outcome s pay" by simp
    from assms have p: "settle_purpose parts codes newMission pay outcome now s = Inr (r, s')" unfolding settle_open [OF f o] .
    with settle_purpose_applies have "applied r" unfolding yields_def by blast
    with f o p purpose show thesis by blast
  qed
next
  case False
  obtain msg e where "settle_tx parts codes newMission provider outcome now s = Inr (Not_settled msg, s\<lparr>auditLog := auditLog s @ [e]\<rparr>)"
    "au_action e = ''PAYMENT_WEBHOOK_REFUSED''" "au_entityId e = Some (oc_paymentId outcome)"
    by (rule settle_otherwise [OF False])
  with assms show thesis by (intro refused [OF False]) auto
qed

lemma settlePayment_keeps:
  assumes "\<And>pay. keeps I (settle_purpose parts codes newMission pay outcome now)" and "\<And>s t. I s \<Longrightarrow> I (s\<lparr>auditLog := t\<rparr>)"
  shows "keepsj I (settlePayment parts codes newMission provider outcome now)"
proof -
  have "keeps I (settle_tx parts codes newMission provider outcome now)"
  proof (rule keepsI)
    fix s r s'
    assume "I s" "settle_tx parts codes newMission provider outcome now s = Inr (r, s')"
    from this(2,1) show "I s'" by (cases rule: settle_tx_cases) (auto dest: keepsD [OF assms(1)] assms(2))
  qed
  then show ?thesis unfolding settlePayment_def by (rule keepsj_transaction)
qed

section \<open>Seats\<close>

definition seats_inv :: "db \<Rightarrow> bool" where
  "seats_inv s \<longleftrightarrow> distinct (map pk_id (observerPack s)) \<and> distinct (map mi_id (mission s))
     \<and> (\<forall>k \<in> set (observerPack s). pk_missionId k \<in> mi_id ` set (mission s))
     \<and> (\<forall>m \<in> set (mission s). length (filter (holds_seat (mi_id m)) (observerPack s)) \<le> mi_observerCapacity m)"

lemma seats_inv_frame [simp]:
  "seats_inv (s\<lparr>payment := a\<rparr>) = seats_inv s" "seats_inv (s\<lparr>auditLog := b\<rparr>) = seats_inv s"
  "seats_inv (s\<lparr>emailNotification := c\<rparr>) = seats_inv s" "seats_inv (s\<lparr>loyaltyAccount := d\<rparr>) = seats_inv s"
  "seats_inv (s\<lparr>loyaltyLedgerEntry := e\<rparr>) = seats_inv s" "seats_inv (s\<lparr>creditAccount := f\<rparr>) = seats_inv s"
  "seats_inv (s\<lparr>creditLedger := g\<rparr>) = seats_inv s" "seats_inv (s\<lparr>booking := h\<rparr>) = seats_inv s"
  "seats_inv (s\<lparr>missionEvent := i\<rparr>) = seats_inv s" "seats_inv (s\<lparr>giftVoucher := j\<rparr>) = seats_inv s"
  "seats_inv (s\<lparr>cardPrize := k\<rparr>) = seats_inv s" "seats_inv (s\<lparr>subscription := l\<rparr>) = seats_inv s"
  by (simp_all add: seats_inv_def)

text \<open>Changing one row of a keyed table changes a count by at most one.\<close>

lemma count_update:
  assumes "distinct (map k t)" and "r \<in> set t"
  shows "length (filter H (updateMany (\<lambda>x. k x = k r) f t)) \<le> length (filter H t) + (if H (f r) \<and> \<not> H r then 1 else 0)"
  using assms
proof (induction t)
  case (Cons a t)
  show ?case
  proof (cases "a = r")
    case True
    with Cons.prems(1) have "updateMany (\<lambda>x. k x = k r) f t = t" by (intro updateMany_id) (auto simp: rev_image_eqI)
    with True show ?thesis by simp
  next
    case False
    with Cons have "r \<in> set t" "k a \<noteq> k r" by (auto simp: rev_image_eqI)
    with Cons show ?thesis by auto
  qed
qed simp

lemma seats_inv_pack:
  assumes "seats_inv s" and "k \<in> set (observerPack s)" and "\<And>x. pk_id (f x) = pk_id x \<and> pk_missionId (f x) = pk_missionId x"
    and room: "holds_seat (pk_missionId k) (f k) \<Longrightarrow> \<not> holds_seat (pk_missionId k) k \<Longrightarrow>
      \<exists>m \<in> set (mission s). mi_id m = pk_missionId k \<and> length (filter (holds_seat (pk_missionId k)) (observerPack s)) < mi_observerCapacity m"
  shows "seats_inv (s\<lparr>observerPack := updateMany (\<lambda>x. pk_id x = pk_id k) f (observerPack s)\<rparr>)"
proof -
  note d = assms(1) [unfolded seats_inv_def]
  have "length (filter (holds_seat (mi_id m)) (updateMany (\<lambda>x. pk_id x = pk_id k) f (observerPack s))) \<le> mi_observerCapacity m"
    if m: "m \<in> set (mission s)" for m
  proof -
    have "length (filter (holds_seat (mi_id m)) (updateMany (\<lambda>x. pk_id x = pk_id k) f (observerPack s)))
        \<le> length (filter (holds_seat (mi_id m)) (observerPack s)) + (if holds_seat (mi_id m) (f k) \<and> \<not> holds_seat (mi_id m) k then 1 else 0)"
      using d assms(2) by (intro count_update) auto
    moreover have "length (filter (holds_seat (mi_id m)) (observerPack s)) < mi_observerCapacity m"
      if "holds_seat (mi_id m) (f k)" "\<not> holds_seat (mi_id m) k"
    proof -
      have "mi_id m = pk_missionId k" using that(1) assms(3) [of k] by (simp add: holds_seat_def)
      with that room obtain m' where "m' \<in> set (mission s)" "mi_id m' = mi_id m"
        "length (filter (holds_seat (mi_id m)) (observerPack s)) < mi_observerCapacity m'" by auto
      with m d show ?thesis using distinct_key_eq [of mi_id "mission s" m' m] by auto
    qed
    ultimately show ?thesis using d m by (auto split: if_splits)
  qed
  moreover have "map pk_id (updateMany (\<lambda>x. pk_id x = pk_id k) f (observerPack s)) = map pk_id (observerPack s)"
    using assms(3) by (simp add: map_updateMany_inv)
  ultimately show ?thesis using d assms(3) by (auto simp: seats_inv_def ball_updateMany)
qed

lemma seats_inv_mission:
  assumes "seats_inv s" and "\<not> list_ex (\<lambda>old. mi_id m = mi_id old) (mission s)"
  shows "seats_inv (s\<lparr>mission := mission s @ [m]\<rparr>)"
proof -
  have new: "mi_id m \<notin> mi_id ` set (mission s)" using assms(2) by (simp add: list_ex_key)
  with assms(1) have "k \<in> set (observerPack s) \<Longrightarrow> \<not> holds_seat (mi_id m) k" for k
    by (metis holds_seat_def seats_inv_def)
  then have "filter (holds_seat (mi_id m)) (observerPack s) = []" by (simp add: filter_empty_conv)
  with assms(1) new show ?thesis by (auto simp: seats_inv_def)
qed

text \<open>What a pack settlement knows when it changes the pack.\<close>

definition owns :: "ownedPack option \<Rightarrow> db \<Rightarrow> bool" where
  "owns owned s \<longleftrightarrow> (\<forall>k m. owned = Some (k, m) \<longrightarrow> k \<in> set (observerPack s) \<and> m \<in> set (mission s) \<and> mi_id m = pk_missionId k)"

text \<open>
  What a settlement asks of an invariant over seats: it does not look at the other tables it
  writes, a new mission leaves it alone, and so do the two changes it makes to a pack: letting
  a hold go, and paying for a seat that is held or still free.
\<close>

locale pack_contract =
  fixes I :: "db \<Rightarrow> bool"
  assumes frame [simp]:
      "I (s\<lparr>payment := a\<rparr>) = I s" "I (s\<lparr>auditLog := b\<rparr>) = I s"
      "I (s\<lparr>emailNotification := c\<rparr>) = I s" "I (s\<lparr>loyaltyAccount := d\<rparr>) = I s"
      "I (s\<lparr>loyaltyLedgerEntry := e\<rparr>) = I s" "I (s\<lparr>creditAccount := f\<rparr>) = I s"
      "I (s\<lparr>creditLedger := g\<rparr>) = I s" "I (s\<lparr>booking := h\<rparr>) = I s"
      "I (s\<lparr>missionEvent := i\<rparr>) = I s" "I (s\<lparr>giftVoucher := j\<rparr>) = I s"
      "I (s\<lparr>cardPrize := k\<rparr>) = I s" "I (s\<lparr>subscription := l\<rparr>) = I s"
    and keyed: "I s \<Longrightarrow> distinct (map pk_id (observerPack s))"
    and mission_added: "I s \<Longrightarrow> \<not> list_ex (\<lambda>old. mi_id m = mi_id old) (mission s) \<Longrightarrow> I (s\<lparr>mission := mission s @ [m]\<rparr>)"
    and hold_released: "I s \<Longrightarrow> r \<in> set (observerPack s) \<Longrightarrow> pk_status r = PK_PENDING_PAYMENT \<Longrightarrow>
      I (s\<lparr>observerPack := updateMany (\<lambda>x. pk_id x = pk_id r)
         (\<lambda>x. x\<lparr>pk_status := PK_CANCELLED, pk_holdExpiresAt := None\<rparr>) (observerPack s)\<rparr>)"
    and seat_paid: "I s \<Longrightarrow> r \<in> set (observerPack s) \<Longrightarrow> m \<in> set (mission s) \<Longrightarrow> mi_id m = pk_missionId r \<Longrightarrow>
      pk_status r = PK_PENDING_PAYMENT \<or> length (filter (holds_seat (pk_missionId r)) (observerPack s)) < mi_observerCapacity m \<Longrightarrow>
      I (s\<lparr>observerPack := updateMany (\<lambda>x. pk_id x = pk_id r)
         (\<lambda>x. x\<lparr>pk_status := PK_PAID, pk_paidAt := Some now, pk_holdExpiresAt := None\<rparr>) (observerPack s)\<rparr>)"
begin

lemma pack_ops:
  "keeps I (earnOnSettledPayment codes p u n b)" "keeps I (rewardReferralOnFirstPaidBooking codes u now)"
  "keeps I (recordAuditEvent e)" "keeps I (queueEmail m)" "keeps I (grantSubscriptionMinutes row t n)"
  "keeps I (give_back codes bk now)" "keeps I (fail_payment p outcome)" "keeps I (capture_payment p outcome now)"
  unfolding grantSubscriptionMinutes_def give_back_def
  by (intro keeps_intros keeps_loyalty_frame keeps_outbox keeps_credit_frame releaseCardPrize_frame payment_update_frame; simp)+

lemma release_pack_keeps: "hoare (\<lambda>s. I s \<and> owns owned s) (release_pack owned) (\<lambda>_. I)"
proof (rule hoareI)
  fix s r s'
  assume s: "I s \<and> owns owned s" and run: "release_pack owned s = Inr (r, s')"
  have "I (s\<lparr>observerPack := updateMany (\<lambda>x. pk_id x = pk_id k)
      (\<lambda>x. x\<lparr>pk_status := PK_CANCELLED, pk_holdExpiresAt := None\<rparr>) (observerPack s)\<rparr>)"
    if "owned = Some (k, m)" "pk_status k = PK_PENDING_PAYMENT" for k m
    by (rule hold_released) (use s that in \<open>auto simp: owns_def\<close>)
  with s run show "I s'"
    by (auto simp: release_pack_def tx_simps split: option.splits if_splits)
qed

lemma seatCapturedPack_keeps:
  "hoare (\<lambda>s. I s \<and> owns (Some owned) s) (seatCapturedPack owned now) (\<lambda>_. I)"
proof (rule hoareI)
  fix s r s'
  assume s: "I s \<and> owns (Some owned) s" and run: "seatCapturedPack owned now s = Inr (r, s')"
  obtain k m where o: "owned = (k, m)" by (cases owned)
  with s have k: "k \<in> set (observerPack s)" "m \<in> set (mission s)" "mi_id m = pk_missionId k" by (auto simp: owns_def)
  have "I (s\<lparr>observerPack := updateMany (\<lambda>x. pk_id x = pk_id k)
      (\<lambda>x. x\<lparr>pk_status := PK_PAID, pk_paidAt := Some now, pk_holdExpiresAt := None\<rparr>) (observerPack s)\<rparr>)"
    if "pk_status k = PK_PENDING_PAYMENT \<or> length (filter (holds_seat (pk_missionId k)) (observerPack s)) < mi_observerCapacity m"
    by (rule seat_paid) (use s k that in simp_all)
  with s run show "I s'"
    by (auto simp: seatCapturedPack_def o tx_simps not_le split: if_splits)
qed

lemma lockOwnedPack_owns:
  assumes "I s" and "r \<in> set (observerPack s)" and "lockOwnedPack r p s = Inr (owned, s')"
  shows "s' = s \<and> owns owned s"
proof -
  have "find (\<lambda>k. pk_id k = pk_id r) (observerPack s) = Some r"
    using assms(1,2) by (intro distinct_find keyed)
  with assms(3) show ?thesis
    by (auto simp: lockOwnedPack_def tx_simps owns_def split: option.splits if_splits dest: find_SomeD)
qed

lemma owned_then:
  assumes "hoare (\<lambda>s. I s \<and> owns owned s) m (\<lambda>_. I)" and "\<And>x. keeps I (f x)"
    and "mark = fail_payment p outcome \<or> mark = capture_payment p outcome now"
  shows "hoare (\<lambda>s. I s \<and> owns owned s) (bindt mark (\<lambda>_. bindt m f)) (\<lambda>_. I)"
proof -
  have "keeps (\<lambda>s. I s \<and> owns owned s) mark"
    using assms(3) payment_update_frame [of "\<lambda>s. I s \<and> owns owned s"] by (auto simp: owns_def)
  then have mark: "hoare (\<lambda>s. I s \<and> owns owned s) mark (\<lambda>_ s. I s \<and> owns owned s)" by (simp add: keeps_def)
  show ?thesis
    by (rule hoare_bindt [OF mark], rule hoare_bindt [OF assms(1)]) (use assms(2) in \<open>simp add: keeps_def\<close>)
qed

lemmas owned_fail = owned_then [OF _ _ disjI1 [OF refl]]
lemmas owned_capture = owned_then [OF _ _ disjI2 [OF refl]]

lemma hoare_outcome:
  "hoare P m Q \<Longrightarrow> hoare P m' Q \<Longrightarrow> hoare P (case r of OUT_FAILED \<Rightarrow> m | OUT_CAPTURED \<Rightarrow> m') Q"
  by (cases r) simp_all

lemma settleObserverPackPayment_keeps:
  "hoare (\<lambda>s. I s \<and> (\<forall>r. k = Some r \<longrightarrow> r \<in> set (observerPack s)))
     (settleObserverPackPayment codes pay k outcome now) (\<lambda>_. I)"
proof -
  have lock: "hoare (\<lambda>s. I s \<and> (\<forall>r. k = Some r \<longrightarrow> r \<in> set (observerPack s)))
      (case k of None \<Rightarrow> ret None | Some r \<Rightarrow> lockOwnedPack r (pay_id pay)) (\<lambda>owned s. I s \<and> owns owned s)"
  proof (cases k)
    case (Some r)
    then show ?thesis by (intro hoareI) (auto dest: lockOwnedPack_owns)
  qed (simp add: hoare_def ret_def owns_def)
  have seat: "hoare (\<lambda>s. I s \<and> owns owned s) (case owned of None \<Rightarrow> ret None | Some o' \<Rightarrow> seatCapturedPack o' now) (\<lambda>_. I)"
    for owned
    using seatCapturedPack_keeps by (cases owned) (auto simp: hoare_def ret_def)
  have captured: "hoare (\<lambda>s. I s \<and> owns owned s) (capture_pack codes pay m owned outcome now) (\<lambda>_. I)" for m owned
    unfolding capture_pack_def Let_def prod.case_eq_if
    by (rule owned_capture [OF seat]) (intro keeps_intros pack_ops)
  have failed: "hoare (\<lambda>s. I s \<and> owns owned s) (bindt (fail_payment (pay_id pay) outcome) (\<lambda>_. bindt (release_pack owned) (\<lambda>x.
      bindt (recordAuditEvent (e x)) (\<lambda>_. ret y)))) (\<lambda>_. I)" for owned e and y :: settlementResult
    by (rule owned_fail [OF release_pack_keeps]) (intro keeps_intros pack_ops)
  show ?thesis
    unfolding settleObserverPackPayment_def Let_def
    by (rule hoare_bindt [OF lock], rule hoare_outcome [OF failed captured])
qed

lemma settle_purpose_keeps_packs: "keeps I (settle_purpose parts codes newMission pay outcome now)"
proof (cases "pay_purpose pay = FOR_OBSERVER_PACK")
  case True
  show ?thesis
  proof (rule keepsI)
    fix s r s'
    assume inv: "I s" and "settle_purpose parts codes newMission pay outcome now s = Inr (r, s')"
    then have "settleObserverPackPayment codes pay (pack_of s (pay_id pay)) outcome now s = Inr (r, s')"
      using True by (simp add: settle_purpose_def bindt_steps(2))
    then show "I s'"
      by (rule hoareD [OF settleObserverPackPayment_keeps, rotated]) (use inv in \<open>auto simp: pack_of_def dest: find_SomeD\<close>)
  qed
next
  case False
  have confirm: "keeps I (confirm_booking codes newMission pay b mode outcome now)" for b mode
    unfolding confirm_booking_def by (intro keeps_intros pack_ops keeps_table mission_added; simp)
  have release: "keeps I (releaseHeldSlot codes b reason now)" for b reason
    unfolding releaseHeldSlot_def by (intro keeps_intros pack_ops keeps_table; simp)
  have "keeps I (settle_booking codes newMission pay b outcome now)" for b
    unfolding settle_booking_def lockBooking_def fail_booking_def capture_booking_def prod.case_eq_if
    by (intro keeps_intros pack_ops confirm release)
  moreover have "keeps I (settleGiftVoucherPayment codes pay outcome now)"
    unfolding settleGiftVoucherPayment_def by (intro keeps_intros pack_ops keeps_table; simp)
  moreover have "keeps I (settleSubscriptionPayment parts codes pay outcome now)"
    unfolding settleSubscriptionPayment_def fail_subscription_def fund_subscription_def Let_def
    by (intro keeps_intros pack_ops keeps_table; simp)
  ultimately show ?thesis using False unfolding settle_purpose_def
    by (cases "pay_purpose pay") (simp_all add: keeps_bindt keeps_reads)
qed

lemma settlement_keeps_packs: "keepsj I (settlePayment parts codes newMission provider outcome now)"
  by (rule settlePayment_keeps [OF settle_purpose_keeps_packs]) simp

end

lemma seats_released:
  assumes "seats_inv s" and "r \<in> set (observerPack s)"
  shows "seats_inv (s\<lparr>observerPack := updateMany (\<lambda>x. pk_id x = pk_id r)
      (\<lambda>x. x\<lparr>pk_status := PK_CANCELLED, pk_holdExpiresAt := None\<rparr>) (observerPack s)\<rparr>)"
  by (rule seats_inv_pack [OF assms]) (simp_all add: holds_seat_def)

lemma seats_paid:
  assumes "seats_inv s" and "r \<in> set (observerPack s)" and "m \<in> set (mission s)" and "mi_id m = pk_missionId r"
    and "pk_status r = PK_PENDING_PAYMENT \<or> length (filter (holds_seat (pk_missionId r)) (observerPack s)) < mi_observerCapacity m"
  shows "seats_inv (s\<lparr>observerPack := updateMany (\<lambda>x. pk_id x = pk_id r)
      (\<lambda>x. x\<lparr>pk_status := PK_PAID, pk_paidAt := Some now, pk_holdExpiresAt := None\<rparr>) (observerPack s)\<rparr>)"
  by (rule seats_inv_pack [OF assms(1,2)]) (use assms(3-5) in \<open>auto simp: holds_seat_def [of _ r] intro!: bexI [of _ m]\<close>)

interpretation seats: pack_contract seats_inv
proof unfold_locales
  fix s assume "seats_inv s"
  then show "distinct (map pk_id (observerPack s))" by (simp add: seats_inv_def)
qed (simp_all add: seats_inv_mission seats_released seats_paid)

section \<open>The confirmation of a booking\<close>

text \<open>The tables a confirmation is about, all but the club's.\<close>

definition sale_tables :: "db \<Rightarrow> booking_row list \<times> mission_row list \<times> payment_row list \<times> email_row list" where
  "sale_tables s = (booking s, mission s, payment s, emailNotification s)"

lemma sale_tables_after:
  assumes "earnOnSettledPayment codes p u n b s = Inr ((), s1)" and "rewardReferralOnFirstPaidBooking codes w now s1 = Inr ((), s2)"
  shows "sale_tables s2 = sale_tables s"
proof -
  have frame: "keeps (\<lambda>x. sale_tables x = sale_tables s) (earnOnSettledPayment codes p u n b)"
    "keeps (\<lambda>x. sale_tables x = sale_tables s) (rewardReferralOnFirstPaidBooking codes w now)"
    by (rule keeps_loyalty_frame; simp add: sale_tables_def)+
  show ?thesis using keepsD [OF frame(1) _ assms(1)] keepsD [OF frame(2) _ assms(2)] by simp
qed

lemma queueEmail_booking:
  obtains x ms where "queueEmail (email u k key [(''bookingId'', i)]) s = Inr (x, s\<lparr>emailNotification := ms\<rparr>)"
    and "\<exists>m \<in> set ms. ml_dedupeKey m = key"
proof (cases "list_ex (\<lambda>m. key = ml_dedupeKey m) (emailNotification s)")
  case True
  then show thesis by (intro that [of False "emailNotification s"])
      (auto simp: queueEmail_def assertDetailCarriesNoSecret_def tx_simps list_ex_iff)
next
  case False
  then show thesis
    by (intro that [of True "emailNotification s @ [email u k key [(''bookingId'', i)]]"])
      (auto simp: queueEmail_def assertDetailCarriesNoSecret_def tx_simps list_ex_iff)
qed

lemma confirm_booking_total:
  assumes club: "club_ready codes (pay_userId pay) s" and fresh: "newMission \<notin> mi_id ` set (mission s)"
    and b: "b \<in> set (booking s)"
  obtains s' where "confirm_booking codes newMission pay b mode outcome now s = Inr (Settled True (Some newMission), s')"
    and "booking s' = updateMany (\<lambda>x. bk_id x = bk_id b) (\<lambda>x. x\<lparr>bk_status := BK_CONFIRMED, bk_missionId := Some newMission\<rparr>) (booking s)"
    and "mission s' = mission s @ [booked_mission newMission b mode now]" and "payment s' = payment s"
    and "\<exists>m \<in> set (emailNotification s'). ml_dedupeKey m = ''booking-confirmed:'' @ bk_id b"
proof -
  define m where "m = booked_mission newMission b mode now"
  define s1 where "s1 = s\<lparr>mission := mission s @ [m],
    missionEvent := missionEvent s @ [scheduled_event m ''Payment captured; mission scheduled for the booked slot.'' now],
    booking := updateMany (\<lambda>x. bk_id x = bk_id b) (\<lambda>x. x\<lparr>bk_status := BK_CONFIRMED, bk_missionId := Some newMission\<rparr>) (booking s)\<rparr>"
  have mid: "mi_id m = newMission" by (simp add: m_def booked_mission_def)
  obtain x ms where mail: "queueEmail (email (bk_userId b) MAIL_BOOKING_CONFIRMED (''booking-confirmed:'' @ bk_id b) [(''bookingId'', bk_id b)]) s1
      = Inr (x, s1\<lparr>emailNotification := ms\<rparr>)" and ms: "\<exists>m \<in> set ms. ml_dedupeKey m = ''booking-confirmed:'' @ bk_id b"
    by (rule queueEmail_booking)
  define s2 where "s2 = s1\<lparr>emailNotification := ms\<rparr>"
  define e1 e2 where "e1 = (payment_audit ''PAYMENT_CAPTURED'' pay outcome
        (money_detail outcome @ [(''bookingId'', JStr (bk_id b))]))\<lparr>au_missionId := Some newMission\<rparr>"
    and "e2 = (audit_entry MISSION ''MISSION_SCHEDULED''
        [(''observatoryId'', JStr (bk_observatoryId b)), (''targetId'', JStr (bk_targetId b)),
         (''scheduledFor'', JStr (toISOString (bk_slotStartAt b))), (''durationMinutes'', JNum (bk_durationMinutes b)),
         (''paymentId'', JStr (pay_id pay))])
        \<lparr>au_actorUserId := Some (pay_userId pay), au_missionId := Some newMission, au_entityType := Some ''Booking'',
         au_entityId := Some (bk_id b), au_isDemo := pay_isDemo pay\<rparr>"
  let ?s4 = "s2\<lparr>auditLog := auditLog s2 @ [e1, e2]\<rparr>"
  have audits: "recordAuditEvent e1 s2 = Inr ((), s2\<lparr>auditLog := auditLog s2 @ [e1]\<rparr>)"
    "recordAuditEvent e2 (s2\<lparr>auditLog := auditLog s2 @ [e1]\<rparr>) = Inr ((), ?s4)"
    by (simp_all add: clean_audit e1_def e2_def payment_audit_def money_detail_def)
  have "club_ready codes (pay_userId pay) ?s4 = club_ready codes (pay_userId pay) s"
    by (rule club_ready_cong) (simp_all add: s2_def s1_def)
  with club obtain s5 where s5: "earnOnSettledPayment codes (pay_id pay) (pay_userId pay) (pay_amountMinor pay) (Some (bk_id b)) ?s4 = Inr ((), s5)"
    "club_ready codes (pay_userId pay) s5" by (metis earn_total)
  obtain s6 where s6: "rewardReferralOnFirstPaidBooking codes (pay_userId pay) now s5 = Inr ((), s6)" using referral_total [OF s5(2)] .
  have ex: "list_ex (\<lambda>x. bk_id x = bk_id b) (booking s)" using b by (auto simp: list_ex_iff)
  have run: "confirm_booking codes newMission pay b mode outcome now s = Inr (Settled True (Some newMission), s6)"
    using fresh mid ex
    by (simp add: confirm_booking_def m_def [symmetric] tx_create_apply(2) bindt_steps(3) tx_update_apply(2) list_ex_key s1_def [symmetric]
        del: append_Cons)
      (simp add: bindt_def mail [folded s2_def] audits s5(1) s6 e1_def [symmetric] e2_def [symmetric] ret_apply del: append_Cons)
  have "sale_tables s6 = sale_tables ?s4" by (rule sale_tables_after [OF s5(1) s6])
  then show thesis using ms run by (intro that [of s6]) (simp_all add: sale_tables_def s2_def s1_def m_def)
qed
lemma fits_found:
  assumes "fits provider outcome s pay"
  shows "pay_id pay = oc_paymentId outcome" and "find (\<lambda>q. pay_id q = pay_id pay) (payment s) = Some pay"
proof -
  have "find (\<lambda>q. pay_id q = oc_paymentId outcome) (payment s) = Some pay" using assms by (simp add: fits_def)
  moreover from find_SomeD [OF this] show "pay_id pay = oc_paymentId outcome" by simp
  ultimately show "find (\<lambda>q. pay_id q = pay_id pay) (payment s) = Some pay" by simp
qed

section \<open>An example\<close>

definition due_payment :: payment_row where
  "due_payment = \<lparr>pay_id = ''p1'', pay_userId = ''u1'', pay_purpose = FOR_BOOKING, pay_provider = BOG_IPAY, pay_status = PAY_PENDING,
     pay_amountMinor = 5000, pay_currency = GEL, pay_providerRef = None, pay_redirectUrl = None, pay_failureReason = None,
     pay_capturedAt = None, pay_refundedAt = None, pay_subscriptionId = None, pay_periodStart = None, pay_isDemo = False\<rparr>"

definition due_booking :: booking_row where
  "due_booking = \<lparr>bk_id = ''b1'', bk_userId = ''u1'', bk_targetId = ''t1'', bk_observatoryId = ''o1'', bk_telescopeId = ''s1'',
     bk_missionId = None, bk_paymentId = Some ''p1'', bk_slotStartAt = 1788454800000, bk_durationMinutes = 30,
     bk_status = BK_PENDING_PAYMENT, bk_holdExpiresAt = Some 900000, bk_priceMinor = 5000, bk_currency = GEL,
     bk_idempotencyKey = None, bk_tierDiscountMinor = 0, bk_loyaltyPointsRedeemed = 0, bk_subscriptionMinutesSpent = 0,
     bk_isDemo = False, bk_createdAt = 0\<rparr>"

definition due_db :: db where
  "due_db = club_db\<lparr>payment := [due_payment], booking := [due_booking], observatory := [real_observatory]\<rparr>"

definition capture :: paymentOutcome where
  "capture = \<lparr>oc_paymentId = ''p1'', oc_providerRef = ''bog-1'', oc_result = OUT_CAPTURED, oc_amountMinor = 5000,
     oc_currency = GEL, oc_failureReason = None, oc_mandateRef = None\<rparr>"

lemma due_facts:
  "fits BOG_IPAY capture due_db due_payment" "open_payment BOG_IPAY capture due_db due_payment"
  "pay_purpose due_payment = FOR_BOOKING" "oc_result capture = OUT_CAPTURED"
  "booking_of due_db (pay_id due_payment) = Some due_booking" "bk_status due_booking = BK_PENDING_PAYMENT" "bk_missionId due_booking = None"
  "find (\<lambda>o'. ob_id o' = bk_observatoryId due_booking) (observatory due_db) = Some real_observatory"
  "mission due_db = []" "oc_paymentId capture = ''p1''"
  by (simp_all add: fits_def open_payment_def capture_def due_db_def due_payment_def due_booking_def booking_of_def
      real_observatory_def club_db_def empty_db_def)

lemma due_club: "club_ready codes (pay_userId due_payment) due_db"
proof -
  have "club_ready codes ''u1'' due_db = club_ready codes ''u1'' club_db"
    by (rule club_ready_cong) (simp_all add: due_db_def)
  moreover have "club_ready codes ''u1'' club_db"
    using club_facts(1,2,5,6) by (auto simp: club_ready_def club_db_def club_account_def new_account_def)
  ultimately show ?thesis by (simp add: due_payment_def)
qed

lemma due_books: "books_inv due_db"
proof -
  have "schedule_inv due_db" by (simp add: schedule_inv_def due_db_def)
  moreover have "credit_inv due_db" by (simp add: credit_inv_def due_db_def club_db_def empty_db_def)
  moreover have "loyalty_inv due_db" using club_facts(1) by (simp add: due_db_def)
  ultimately show ?thesis by (simp add: books_inv_def)
qed

section \<open>Properties\<close>

text \<open>
  C30: A captured payment for a held slot confirms the booking: the settlement returns, the
  booking is CONFIRMED with the new mission, which is scheduled for the booked target, site and
  start, the payment is CAPTURED with the provider's reference, no other booking or payment
  changes, the customer's confirmation is in the outbox, and the ledgers and the schedule hold.
  The loyalty scheme has to be set up, and a referral code free for whoever is not a member yet.
\<close>

theorem captured_booking_is_confirmed:
  assumes pay: "fits provider outcome s pay" "open_payment provider outcome s pay" "pay_purpose pay = FOR_BOOKING"
      "oc_result outcome = OUT_CAPTURED"
    and b: "booking_of s (pay_id pay) = Some b" "bk_status b = BK_PENDING_PAYMENT" "bk_missionId b = None"
    and site: "find (\<lambda>o'. ob_id o' = bk_observatoryId b) (observatory s) = Some ob"
    and inv: "books_inv s" and club: "club_ready codes (pay_userId pay) s" and fresh: "newMission \<notin> mi_id ` set (mission s)"
  shows "\<exists>s'. settlePayment parts codes newMission provider outcome now s = (Inr (Settled True (Some newMission)), s')
    \<and> booking s' = updateMany (\<lambda>x. bk_id x = bk_id b) (\<lambda>x. x\<lparr>bk_status := BK_CONFIRMED, bk_missionId := Some newMission\<rparr>) (booking s)
    \<and> mission s' = mission s @ [booked_mission newMission b (ob_mode ob) now]
    \<and> (\<exists>m. mission s' = mission s @ [m] \<and> mi_id m = newMission \<and> mi_state m = MS_SCHEDULED
         \<and> mi_scheduledFor m = Some (bk_slotStartAt b) \<and> mi_userId m = bk_userId b \<and> mi_targetId m = bk_targetId b
         \<and> mi_observatoryId m = bk_observatoryId b \<and> mi_telescopeId m = bk_telescopeId b \<and> mi_mode m = ob_mode ob)
    \<and> payment s' = updateMany (\<lambda>q. pay_id q = pay_id pay) (\<lambda>q. q\<lparr>pay_status := PAY_CAPTURED,
         pay_providerRef := Some (oc_providerRef outcome), pay_capturedAt := Some now\<rparr>) (payment s)
    \<and> (\<exists>m \<in> set (emailNotification s'). ml_dedupeKey m = ''booking-confirmed:'' @ bk_id b) \<and> books_inv s'"
proof -
  have ids: "distinct (map bk_id (booking s))" using inv by (simp add: books_inv_def schedule_inv_ids)
  have mem: "b \<in> set (booking s)" using b(1) by (auto simp: booking_of_def dest: find_SomeD)
  then have found: "find (\<lambda>x. bk_id x = bk_id b) (booking s) = Some b" using ids by (intro distinct_find)
  define s1 where "s1 = s\<lparr>payment := updateMany (\<lambda>q. pay_id q = pay_id pay) (\<lambda>q. q\<lparr>pay_status := PAY_CAPTURED,
      pay_providerRef := Some (oc_providerRef outcome), pay_capturedAt := Some now\<rparr>) (payment s)\<rparr>"
  have capture: "capture_payment (pay_id pay) outcome now s = Inr ((), s1)"
    using fits_found(2) [OF pay(1)] by (simp add: capture_payment_def tx_simps s1_def list_ex_find)
  have "club_ready codes (pay_userId pay) s1 = club_ready codes (pay_userId pay) s" by (rule club_ready_cong) (simp_all add: s1_def)
  with club fresh mem obtain s' where s': "confirm_booking codes newMission pay b (ob_mode ob) outcome now s1 = Inr (Settled True (Some newMission), s')"
    "booking s' = updateMany (\<lambda>x. bk_id x = bk_id b) (\<lambda>x. x\<lparr>bk_status := BK_CONFIRMED, bk_missionId := Some newMission\<rparr>) (booking s)"
    "mission s' = mission s @ [booked_mission newMission b (ob_mode ob) now]" "payment s' = payment s1"
    "\<exists>m \<in> set (emailNotification s'). ml_dedupeKey m = ''booking-confirmed:'' @ bk_id b"
    using confirm_booking_total [of codes pay s1 newMission b "ob_mode ob" outcome now] by (auto simp: s1_def)
  have "settle_purpose parts codes newMission pay outcome now s = Inr (Settled True (Some newMission), s')"
    using pay(3,4) b site found capture s'(1)
    by (simp add: settle_purpose_def settle_booking_def lockBooking_def capture_booking_def bindt_steps(2) bindt_assoc
        tx_findOrThrow_apply(2) bindt_ret bindt_def [of "capture_payment a b c" for a b c])
  then have run: "settle_tx parts codes newMission provider outcome now s = Inr (Settled True (Some newMission), s')"
    by (simp add: settle_open [OF pay(1,2)])
  moreover have "books_inv s'" using settle_purpose_keeps inv run [unfolded settle_open [OF pay(1,2)]] by (rule keepsD)
  moreover have "\<exists>m. mission s' = mission s @ [m] \<and> mi_id m = newMission \<and> mi_state m = MS_SCHEDULED
       \<and> mi_scheduledFor m = Some (bk_slotStartAt b) \<and> mi_userId m = bk_userId b \<and> mi_targetId m = bk_targetId b
       \<and> mi_observatoryId m = bk_observatoryId b \<and> mi_telescopeId m = bk_telescopeId b \<and> mi_mode m = ob_mode ob"
    unfolding s'(3) by (intro exI [of _ "booked_mission newMission b (ob_mode ob) now"]) (simp add: booked_mission_def)
  ultimately show ?thesis using s'(2-) by (auto simp: settlePayment_def transaction_def s1_def)
qed

theorem captured_booking_is_confirmed_witness:
  "\<exists>s'. settlePayment utc_parts (\<lambda>u. u) ''m1'' BOG_IPAY capture 7 due_db = (Inr (Settled True (Some ''m1'')), s')
     \<and> map bk_status (booking s') = [BK_CONFIRMED]"
proof -
  have "books_inv due_db" "club_ready (\<lambda>u. u) (pay_userId due_payment) due_db" "''m1'' \<notin> mi_id ` set (mission due_db)"
    using due_books due_club due_facts(9) by auto
  from captured_booking_is_confirmed [OF due_facts(1-8) this, of utc_parts 7] show ?thesis
    by (auto simp: due_db_def)
qed
text \<open>
  C29: An outcome is applied once. After an applied settlement the same outcome, delivered
  again, is answered as already applied and changes nothing; any other answer about the same
  payment, through any provider, is refused and changes nothing but the audit log.
\<close>

theorem outcome_is_applied_once:
  assumes "settlePayment parts codes newMission provider outcome now s = (Inr (Settled True m), s')"
  shows "settlePayment parts' codes' newMission' provider outcome later s'
      = (Inr (Settled False (settled_mission s' (oc_paymentId outcome))), s')
    \<and> (oc_paymentId other = oc_paymentId outcome
        \<and> (oc_result other \<noteq> oc_result outcome \<or> oc_providerRef other \<noteq> oc_providerRef outcome) \<longrightarrow>
      (\<exists>msg e. settlePayment parts' codes' newMission' provider' other later s'
         = (Inr (Not_settled msg), s'\<lparr>auditLog := auditLog s' @ [e]\<rparr>) \<and> au_action e = ''PAYMENT_WEBHOOK_REFUSED''))"
proof -
  from assms have "settle_tx parts codes newMission provider outcome now s = Inr (Settled True m, s')"
    by (simp add: settlePayment_def transaction_eq_Inr)
  then obtain pay where f: "fits provider outcome s pay"
    and run: "settle_purpose parts codes newMission pay outcome now s = Inr (Settled True m, s')"
    by (cases rule: settle_tx_cases) auto
  have "settled_as pay outcome (payment s')" by (rule settled.settle_purpose_marks [OF fits_found(2) [OF f] _ run]) simp
  then obtain q where q: "find (\<lambda>q. pay_id q = oc_paymentId outcome) (payment s') = Some q"
    "pay_status q = result_status (oc_result outcome)" "pay_providerRef q = Some (oc_providerRef outcome)"
    "pay_provider q = provider" "pay_amountMinor q = oc_amountMinor outcome" "pay_currency q = oc_currency outcome"
    using f fits_found(1) [OF f] by (auto simp: settled_as_def fits_def)
  have "settle_tx parts' codes' newMission' provider outcome later s'
      = Inr (Settled False (settled_mission s' (oc_paymentId outcome)), s')"
    by (rule settle_repeat [of _ _ _ q]) (use q in \<open>simp_all add: fits_def repeats_def\<close>)
  moreover have "\<exists>msg e. settlePayment parts' codes' newMission' provider' other later s'
         = (Inr (Not_settled msg), s'\<lparr>auditLog := auditLog s' @ [e]\<rparr>) \<and> au_action e = ''PAYMENT_WEBHOOK_REFUSED''"
    if o: "oc_paymentId other = oc_paymentId outcome"
      "oc_result other \<noteq> oc_result outcome \<or> oc_providerRef other \<noteq> oc_providerRef outcome"
  proof -
    have "\<not> repeats other q"
      using q(2,3) o(2) by (cases "oc_result other"; cases "oc_result outcome") (auto simp: repeats_def)
    moreover have "\<not> open_payment provider' other s' q"
      using result_settled [of "oc_result outcome"] q(2) by (auto simp: open_payment_def)
    ultimately have "\<nexists>x. fits provider' other s' x \<and> (repeats other x \<or> open_payment provider' other s' x)"
      using q(1) o(1) by (auto simp: fits_def)
    then obtain msg e where "settle_tx parts' codes' newMission' provider' other later s' = Inr (Not_settled msg, s'\<lparr>auditLog := auditLog s' @ [e]\<rparr>)"
      "au_action e = ''PAYMENT_WEBHOOK_REFUSED''" by (rule settle_otherwise)
    then show ?thesis by (auto simp: settlePayment_def transaction_def)
  qed
  ultimately show ?thesis by (simp add: settlePayment_def transaction_def)
qed

lemma due_settles:
  obtains s' where "settlePayment utc_parts (\<lambda>u. u) ''m1'' BOG_IPAY capture 7 due_db = (Inr (Settled True (Some ''m1'')), s')"
proof -
  obtain s1 where s1: "capture_payment (pay_id due_payment) capture 7 due_db = Inr ((), s1)" "booking s1 = booking due_db" "mission s1 = mission due_db"
    "loyaltyAccount s1 = loyaltyAccount due_db" "loyaltyLedgerEntry s1 = loyaltyLedgerEntry due_db"
    "loyaltyScheme s1 = loyaltyScheme due_db" "loyaltyTier s1 = loyaltyTier due_db"
    using fits_found(2) [OF due_facts(1)] by (simp add: capture_payment_def tx_simps list_ex_find)
  have "club_ready (\<lambda>u. u) (pay_userId due_payment) s1" using club_ready_cong [OF s1(4-7)] due_club by simp
  then obtain s' where "confirm_booking (\<lambda>u. u) ''m1'' due_payment due_booking (ob_mode real_observatory) capture 7 s1 = Inr (Settled True (Some ''m1''), s')"
    by (rule confirm_booking_total) (use s1 due_facts(9) in \<open>simp_all add: due_db_def\<close>)
  moreover have "find (\<lambda>x. bk_id x = bk_id due_booking) (booking due_db) = Some due_booking" by (simp add: due_db_def)
  ultimately have "settle_purpose utc_parts (\<lambda>u. u) ''m1'' due_payment capture 7 due_db = Inr (Settled True (Some ''m1''), s')"
    using due_facts s1(1)
    by (simp add: settle_purpose_def settle_booking_def lockBooking_def capture_booking_def bindt_steps(2) bindt_assoc
        tx_findOrThrow_apply(2) bindt_ret bindt_def [of "capture_payment a b c" for a b c])
  then show thesis
    by (intro that) (simp add: settlePayment_def transaction_def settle_open [OF due_facts(1,2)])
qed

theorem outcome_is_applied_once_witness:
  "\<exists>s' s''. settlePayment utc_parts (\<lambda>u. u) ''m1'' BOG_IPAY capture 7 due_db = (Inr (Settled True (Some ''m1'')), s')
     \<and> settlePayment utc_parts (\<lambda>u. u) ''m2'' BOG_IPAY capture 9 s' = (Inr (Settled False (settled_mission s' ''p1'')), s')
     \<and> (\<exists>msg. settlePayment utc_parts (\<lambda>u. u) ''m2'' BOG_IPAY (capture\<lparr>oc_result := OUT_FAILED\<rparr>) 9 s' = (Inr (Not_settled msg), s''))"
proof -
  obtain s' where s': "settlePayment utc_parts (\<lambda>u. u) ''m1'' BOG_IPAY capture 7 due_db = (Inr (Settled True (Some ''m1'')), s')"
    by (rule due_settles)
  from outcome_is_applied_once [OF s', of utc_parts "\<lambda>u. u" "''m2''" 9 "capture\<lparr>oc_result := OUT_FAILED\<rparr>" BOG_IPAY] s' due_facts(4,10)
  show ?thesis by auto
qed

text \<open>
  What is refused, exactly, and what a refusal leaves. An outcome is refused if and only if
  it does not fit its payment (no such payment, another provider, another sum), or the payment
  is settled and the outcome does not repeat that settlement, or it is refunded, or the
  provider's reference belongs to another payment; and a refusal adds one audit row, naming the
  payment, and changes nothing else.
\<close>

theorem outcome_refused_iff:
  assumes "settlePayment parts codes newMission provider outcome now s = (Inr r, s')"
  shows "((\<exists>msg. r = Not_settled msg) \<longleftrightarrow>
      (\<nexists>pay. find (\<lambda>q. pay_id q = oc_paymentId outcome) (payment s) = Some pay
         \<and> pay_provider pay = provider \<and> pay_amountMinor pay = oc_amountMinor outcome \<and> pay_currency pay = oc_currency outcome
         \<and> (if pay_status pay = PAY_CAPTURED \<or> pay_status pay = PAY_FAILED
            then pay_providerRef pay = Some (oc_providerRef outcome) \<and> pay_status pay = result_status (oc_result outcome)
            else pay_status pay \<noteq> PAY_REFUNDED
              \<and> (\<forall>q. find (\<lambda>q. pay_provider q = provider \<and> pay_providerRef q = Some (oc_providerRef outcome)) (payment s) = Some q
                   \<longrightarrow> pay_id q = pay_id pay))))
    \<and> ((\<exists>msg. r = Not_settled msg) \<longrightarrow> (\<exists>e. s' = s\<lparr>auditLog := auditLog s @ [e]\<rparr> \<and> au_action e = ''PAYMENT_WEBHOOK_REFUSED''
         \<and> au_entityId e = Some (oc_paymentId outcome)))"
proof -
  have "(fits provider outcome s pay \<and> (repeats outcome pay \<or> open_payment provider outcome s pay)) \<longleftrightarrow>
     (find (\<lambda>q. pay_id q = oc_paymentId outcome) (payment s) = Some pay
         \<and> pay_provider pay = provider \<and> pay_amountMinor pay = oc_amountMinor outcome \<and> pay_currency pay = oc_currency outcome
         \<and> (if pay_status pay = PAY_CAPTURED \<or> pay_status pay = PAY_FAILED
            then pay_providerRef pay = Some (oc_providerRef outcome) \<and> pay_status pay = result_status (oc_result outcome)
            else pay_status pay \<noteq> PAY_REFUNDED
              \<and> (\<forall>q. find (\<lambda>q. pay_provider q = provider \<and> pay_providerRef q = Some (oc_providerRef outcome)) (payment s) = Some q
                   \<longrightarrow> pay_id q = pay_id pay)))" for pay
    using result_settled [of "oc_result outcome"]
    by (cases "pay_status pay") (auto simp: fits_def repeats_def open_payment_def)
  note reading = this [symmetric]
  from assms have "settle_tx parts codes newMission provider outcome now s = Inr (r, s')"
    by (simp add: settlePayment_def transaction_eq_Inr)
  then show ?thesis unfolding reading
  proof (cases rule: settle_tx_cases)
    case (purpose pay)
    then show "((\<exists>msg. r = Not_settled msg) \<longleftrightarrow> (\<nexists>pay. fits provider outcome s pay \<and> (repeats outcome pay \<or> open_payment provider outcome s pay)))
      \<and> ((\<exists>msg. r = Not_settled msg) \<longrightarrow> (\<exists>e. s' = s\<lparr>auditLog := auditLog s @ [e]\<rparr> \<and> au_action e = ''PAYMENT_WEBHOOK_REFUSED''
         \<and> au_entityId e = Some (oc_paymentId outcome)))" by auto
  qed (simp; blast)+
qed

theorem outcome_refused_iff_witness:
  "\<exists>msg s'. settlePayment utc_parts (\<lambda>u. u) ''m1'' BOG_IPAY (capture\<lparr>oc_amountMinor := 1\<rparr>) 7 due_db = (Inr (Not_settled msg), s')
     \<and> payment s' = [due_payment] \<and> booking s' = [due_booking]"
proof -
  let ?o = "capture\<lparr>oc_amountMinor := 1\<rparr>"
  have no: "\<not> (fits BOG_IPAY ?o due_db pay)" for pay
    by (auto simp: fits_def due_db_def capture_def due_payment_def)
  obtain msg e where run: "settle_tx utc_parts (\<lambda>u. u) ''m1'' BOG_IPAY ?o 7 due_db = Inr (Not_settled msg, due_db\<lparr>auditLog := auditLog due_db @ [e]\<rparr>)"
    by (rule settle_otherwise [of BOG_IPAY ?o due_db]) (use no in auto)
  then have s: "settlePayment utc_parts (\<lambda>u. u) ''m1'' BOG_IPAY ?o 7 due_db = (Inr (Not_settled msg), due_db\<lparr>auditLog := auditLog due_db @ [e]\<rparr>)"
    by (simp add: settlePayment_def transaction_def)
  obtain e' where "due_db\<lparr>auditLog := auditLog due_db @ [e]\<rparr> = due_db\<lparr>auditLog := auditLog due_db @ [e']\<rparr>"
    using outcome_refused_iff [OF s] by blast
  then show ?thesis using s by (auto simp: due_db_def)
qed

text \<open>
  C31: Settling keeps the books and oversells no seat. Whatever the outcome, the ledgers' sums,
  the schedule without overlaps, and the rule that no mission has more seats held or paid for
  than its capacity survive a settlement, also one that fails.
\<close>

theorem settlement_keeps_books_and_seats:
  assumes "books_inv s" and "seats_inv s"
  shows "books_inv (snd (settlePayment parts codes newMission provider outcome now s))
    \<and> seats_inv (snd (settlePayment parts codes newMission provider outcome now s))"
proof -
  have "keepsj books_inv (settlePayment parts codes newMission provider outcome now)"
    by (rule settlePayment_keeps [OF settle_purpose_keeps]) (simp add: books_inv_def)
  moreover have "keepsj seats_inv (settlePayment parts codes newMission provider outcome now)"
    by (rule seats.settlement_keeps_packs)
  ultimately show ?thesis using assms by (simp add: keepsjD)
qed

theorem settlement_keeps_books_and_seats_witness:
  "seats_inv (snd (settlePayment utc_parts (\<lambda>u. u) ''m1'' BOG_IPAY capture 7 due_db))"
proof -
  have "seats_inv due_db" by (simp add: seats_inv_def due_db_def club_db_def empty_db_def)
  with settlement_keeps_books_and_seats [OF due_books] show ?thesis by blast
qed

end
