(* ===== verification/Billing.thy ===== *)
theory Billing
  imports Settle_Correct
begin

text \<open>
  The life of subscriptions: the customers' operations, the renewal sweep and the settlement of
  payments, in any order and at any times. A step is one committed operation of one of the
  three modules; a run is a list of steps with their times.
\<close>

section \<open>Steps and runs\<close>

datatype billing_action =
    Subscribe environment ident ident ident subscriptionPlan
  | Pause ident
  | Resume ident
  | Cancel ident
  | Sweep "charger option" "nat \<Rightarrow> ident"
  | Settle_payment ident paymentProvider paymentOutcome

fun perform :: "(time \<Rightarrow> wall_parts) \<Rightarrow> (ident \<Rightarrow> string) \<Rightarrow> time \<Rightarrow> billing_action \<Rightarrow> db \<Rightarrow> db" where
  "perform parts codes now (Subscribe E i p u plan) s = snd (subscribe E i p u plan now s)"
| "perform parts codes now (Pause u) s = snd (transaction (pauseMySubscription u now) s)"
| "perform parts codes now (Resume u) s = snd (transaction (resumeMySubscription u now) s)"
| "perform parts codes now (Cancel u) s = snd (transaction (cancelMySubscription u now) s)"
| "perform parts codes now (Sweep charger ids) s = snd (sweepSubscriptions charger ids now s)"
| "perform parts codes now (Settle_payment m provider outcome) s = snd (settlePayment parts codes m provider outcome now s)"

inductive billing_run :: "(time \<Rightarrow> wall_parts) \<Rightarrow> (ident \<Rightarrow> string) \<Rightarrow> (time \<times> billing_action) list \<Rightarrow> db \<Rightarrow> db \<Rightarrow> bool"
  for parts codes where
  run_start: "billing_run parts codes [] s s"
| run_step: "billing_run parts codes acts s s' \<Longrightarrow> billing_run parts codes (acts @ [(now, a)]) s (perform parts codes now a s')"

inductive_cases billing_run_snoc: "billing_run parts codes (acts @ [x]) s s'"

lemma billing_run_invariant:
  assumes "billing_run parts codes acts s s'" and "I s"
    and "\<And>now a t. (now, a) \<in> set acts \<Longrightarrow> I t \<Longrightarrow> I (perform parts codes now a t)"
  shows "I s'"
  using assms by (induction rule: billing_run.induct) auto

lemma billing_run_total: "\<exists>s'. billing_run parts codes acts s s'"
proof (induction acts rule: rev_induct)
  case Nil
  show ?case using run_start by blast
next
  case (snoc x xs)
  then show ?case by (cases x) (auto intro: run_step)
qed

section \<open>Keys\<close>

definition billing_inv :: "db \<Rightarrow> bool" where
  "billing_inv s \<longleftrightarrow> renewal_inv s \<and> distinct (map pay_id (payment s))"

lemma billing_inv_frame [simp]:
  "billing_inv (s\<lparr>creditAccount := a\<rparr>) = billing_inv s" "billing_inv (s\<lparr>creditLedger := b\<rparr>) = billing_inv s"
  "billing_inv (s\<lparr>auditLog := c\<rparr>) = billing_inv s" "billing_inv (s\<lparr>subscription := d\<rparr>) = billing_inv s"
  by (simp_all add: billing_inv_def)

lemma billing_inv_new:
  assumes "billing_inv s" and "\<not> list_ex (payment_unique p) (payment s)" and "renewal_inv (s\<lparr>payment := payment s @ [p]\<rparr>)"
  shows "billing_inv (s\<lparr>payment := payment s @ [p]\<rparr>)"
proof -
  have "pay_id p \<notin> pay_id ` set (payment s)" using assms(2) by (auto simp: list_ex_iff payment_unique_def)
  with assms(1,3) show ?thesis by (simp add: billing_inv_def)
qed

text \<open>What the sweep and the customers' operations do to payments.\<close>

lemma decide_keeps_ids: "keeps (\<lambda>s. distinct (map pay_id (payment s))) (decide i provider p now)"
proof -
  have "distinct (map pay_id (payment s @ [q]))"
    if "distinct (map pay_id (payment s))" "\<not> list_ex (payment_unique q) (payment s)" for s q
    using that by (auto simp: list_ex_iff payment_unique_def)
  then have "keeps (\<lambda>s. distinct (map pay_id (payment s))) (open_charge row t failed q p)" for row t failed q
    unfolding open_charge_def by (intro keeps_intros keeps_createSkip keeps_outbox) (simp_all del: map_append)
  then show ?thesis
    unfolding decide_def renew_def
    by (intro keeps_intros expire_minutes_keeps end_keeps; simp)
qed

lemma sweep_keeps_billing: "keepsj billing_inv (sweepSubscriptions charger ids now)"
proof -
  have "keeps (\<lambda>s. distinct (map pay_id (payment s))) (recordUnsubmitted charge e)" for charge e
    unfolding recordUnsubmitted_def
    by (intro keeps_intros keeps_updateMany keeps_outbox) (simp_all add: map_updateMany_inv)
  then show ?thesis
    unfolding billing_inv_def
    by (intro sweepSubscriptions_keeps keeps_conj decide_keeps_renewal_inv recordUnsubmitted_keeps_renewal_inv decide_keeps_ids)
qed

lemma transition_keeps:
  assumes "\<And>s t. I s \<Longrightarrow> I (s\<lparr>subscription := t\<rparr>)" and "\<And>s t. I s \<Longrightarrow> I (s\<lparr>auditLog := t\<rparr>)"
  shows "keeps I (transition u d)"
  unfolding transition_def
  by (intro keeps_intros) (auto intro!: keeps_intros keeps_table keeps_outbox assms split: decision.split)

lemma subscribe_keeps:
  assumes "\<And>plan. keeps I (open_subscription i p u plan now)"
  shows "keepsj I (subscribe E i p u requested now)"
  unfolding subscribe_def prod.case_eq_if by (intro keepsj_intros keepsj_transaction assms)

text \<open>\<open>R\<close> is what is known of the subscription an order is for.\<close>

lemma open_subscription_keeps:
  assumes "\<And>s. I s \<Longrightarrow> \<not> list_ex (\<lambda>old. u = sb_userId old \<or> i = sb_id old) (subscription s) \<Longrightarrow>
      R (new_subscription i u plan now) \<and> I (s\<lparr>subscription := subscription s @ [new_subscription i u plan now]\<rparr>)"
    and "\<And>s row. I s \<Longrightarrow> find (\<lambda>x. sb_userId x = u) (subscription s) = Some row \<Longrightarrow> FINISHED (sb_status row) \<Longrightarrow>
      R (restart_subscription plan now row)
      \<and> I (s\<lparr>subscription := updateMany (\<lambda>x. sb_userId x = u) (restart_subscription plan now) (subscription s)\<rparr>)"
    and "\<And>s row. I s \<Longrightarrow> R row \<Longrightarrow> \<not> list_ex (payment_unique (subscription_payment p row SANDBOX None)) (payment s) \<Longrightarrow>
      I (s\<lparr>payment := payment s @ [subscription_payment p row SANDBOX None]\<rparr>)"
    and "\<And>s t. I s \<Longrightarrow> I (s\<lparr>auditLog := t\<rparr>)"
  shows "keeps I (open_subscription i p u plan now)"
proof (rule keepsI)
  fix s r s'
  assume inv: "I s" and run: "open_subscription i p u plan now s = Inr (r, s')"
  have order: "keeps I (place_order p u plan row)" if "R row" for row
    unfolding place_order_def by (intro keeps_intros keeps_create keeps_outbox assms(3) assms(4) that)
  show "I s'"
  proof (cases "find (\<lambda>x. sb_userId x = u) (subscription s)")
    case None
    with run have "\<not> list_ex (\<lambda>old. u = sb_userId old \<or> i = sb_id old) (subscription s)"
      and "place_order p u plan (new_subscription i u plan now) (s\<lparr>subscription := subscription s @ [new_subscription i u plan now]\<rparr>) = Inr (r, s')"
      by (simp_all add: open_subscription_def tx_find_apply(2) tx_create_apply(2) new_subscription_def split: if_splits)
    with assms(1) [OF inv] show ?thesis by (blast intro: keepsD [OF order])
  next
    case (Some row)
    then have "list_ex (\<lambda>x. sb_userId x = u) (subscription s)" by (simp add: list_ex_find)
    with Some run inv assms(2) [OF inv Some] show ?thesis
      by (auto simp: open_subscription_def tx_find_apply(2) tx_update_apply(2) ret_apply split: if_splits dest: keepsD [OF order])
  qed
qed

lemma subscribe_keeps_billing: "keepsj billing_inv (subscribe E i p u requested now)"
proof -
  have "billing_inv (s\<lparr>payment := payment s @ [subscription_payment p row SANDBOX None]\<rparr>)"
    if "billing_inv s" "\<not> list_ex (payment_unique (subscription_payment p row SANDBOX None)) (payment s)" for s row
    using that renewal_inv_order by (intro billing_inv_new) (simp_all add: billing_inv_def)
  then show ?thesis
    by (intro subscribe_keeps open_subscription_keeps [where R = "\<lambda>_. True"]) simp_all
qed

section \<open>Settlements\<close>

definition billing_payments :: "payment_row list \<Rightarrow> bool" where
  "billing_payments ps \<longleftrightarrow> (\<forall>i t. length (charges i t ps) \<le> RENEWAL_ATTEMPTS \<and> length (live_charges i t ps) \<le> 1)
     \<and> distinct (map pay_id ps)"

lemma billing_inv_payments: "billing_inv s \<longleftrightarrow> billing_payments (payment s)"
  by (simp add: billing_inv_def billing_payments_def renewal_inv_def)

lemma billing_payments_update:
  assumes "billing_payments ps"
    and "\<And>q. pay_id (f q) = pay_id q \<and> pay_subscriptionId (f q) = pay_subscriptionId q \<and> pay_periodStart (f q) = pay_periodStart q"
    and "\<And>q. q \<in> set ps \<Longrightarrow> P q \<Longrightarrow> pay_status q = PAY_FAILED \<Longrightarrow> pay_status (f q) = PAY_FAILED"
  shows "billing_payments (updateMany P f ps)"
proof -
  let ?s = "empty_db\<lparr>payment := ps\<rparr>"
  have "renewal_inv ?s" using assms(1) by (simp add: billing_payments_def renewal_inv_def)
  then have "renewal_inv (?s\<lparr>payment := updateMany P f (payment ?s)\<rparr>)"
    by (rule renewal_inv_update) (use assms(2,3) in auto)
  moreover have "map pay_id (updateMany P f ps) = map pay_id ps" using assms(2) by (simp add: map_updateMany_inv)
  ultimately show ?thesis using assms(1) by (simp add: billing_payments_def renewal_inv_def)
qed

interpretation billed: payment_marking "\<lambda>pay _ ps. billing_payments ps \<and> pay_status pay \<noteq> PAY_FAILED" "\<lambda>_ _ ps. billing_payments ps"
proof
  fix outcome :: paymentOutcome and pay ps now
  assume "oc_result outcome = OUT_CAPTURED" and pay: "find (\<lambda>q. pay_id q = pay_id pay) ps = Some pay"
    and pre: "billing_payments ps \<and> pay_status pay \<noteq> PAY_FAILED"
  have "q = pay" if "q \<in> set ps" "pay_id q = pay_id pay" for q
    using that pre distinct_key_eq [of pay_id ps q pay] find_SomeD [OF pay] by (auto simp: billing_payments_def)
  then show "billing_payments (updateMany (\<lambda>q. pay_id q = pay_id pay) (captured_with outcome now) ps)"
    using pre by (intro billing_payments_update) (auto simp: captured_with_def)
qed (auto intro!: billing_payments_update simp: failed_with_def)

lemma settlePayment_keeps_billing: "keepsj billing_inv (settlePayment parts codes m provider outcome now)"
proof -
  have "keeps billing_inv (settle_tx parts codes m provider outcome now)"
  proof (rule keepsI)
    fix s r s'
    assume inv: "billing_inv s" and "settle_tx parts codes m provider outcome now s = Inr (r, s')"
    from this(2) show "billing_inv s'"
    proof (cases rule: settle_tx_cases)
      case (purpose pay)
      then show ?thesis
        using billed.settle_purpose_marks [OF fits_found(2) [OF purpose(1)] _ purpose(3)] inv
        by (auto simp: billing_inv_payments open_payment_def)
    qed (use inv in simp_all)
  qed
  then show ?thesis unfolding settlePayment_def by (rule keepsj_transaction)
qed

lemma perform_keeps_billing: "billing_inv s \<Longrightarrow> billing_inv (perform parts codes now a s)"
  using keepsjD [OF subscribe_keeps_billing] keepsjD [OF sweep_keeps_billing] keepsjD [OF settlePayment_keeps_billing]
    keepsjD [OF keepsj_transaction [OF transition_keeps [of billing_inv]]]
  by (cases a) (simp_all add: pauseMySubscription_def resumeMySubscription_def cancelMySubscription_def)

section \<open>The period a customer has paid for\<close>

definition paid_row :: "time \<Rightarrow> time \<Rightarrow> subscription_row \<Rightarrow> bool" where
  "paid_row b e row \<longleftrightarrow> sb_currentPeriodStart row = Some b \<and> sb_currentPeriodEnd row = Some e
     \<and> (sb_status row = SUB_ACTIVE \<or> sb_status row = SUB_PAUSED)"

definition subs_keyed :: "db \<Rightarrow> bool" where
  "subs_keyed s \<longleftrightarrow> distinct (map sb_id (subscription s)) \<and> distinct (map sb_userId (subscription s))"

text \<open>Subscription \<open>i\<close> is paid for from \<open>b\<close> to \<open>e\<close>, and its payments are among \<open>known\<close>.\<close>

definition paid :: "ident \<Rightarrow> time \<Rightarrow> time \<Rightarrow> ident set \<Rightarrow> db \<Rightarrow> bool" where
  "paid i b e known s \<longleftrightarrow> subs_keyed s \<and> (\<exists>row \<in> set (subscription s). sb_id row = i \<and> paid_row b e row)
     \<and> (\<forall>q \<in> set (payment s). pay_subscriptionId q = Some i \<longrightarrow> pay_id q \<in> known)"

lemma paid_frame [simp]:
  "paid i b e known (s\<lparr>creditAccount := t1\<rparr>) = paid i b e known s" "paid i b e known (s\<lparr>creditLedger := t2\<rparr>) = paid i b e known s"
  "paid i b e known (s\<lparr>loyaltyAccount := t3\<rparr>) = paid i b e known s" "paid i b e known (s\<lparr>loyaltyLedgerEntry := t4\<rparr>) = paid i b e known s"
  "paid i b e known (s\<lparr>auditLog := t5\<rparr>) = paid i b e known s" "paid i b e known (s\<lparr>emailNotification := t6\<rparr>) = paid i b e known s"
  "paid i b e known (s\<lparr>booking := t7\<rparr>) = paid i b e known s" "paid i b e known (s\<lparr>mission := t8\<rparr>) = paid i b e known s"
  "paid i b e known (s\<lparr>missionEvent := t9\<rparr>) = paid i b e known s" "paid i b e known (s\<lparr>giftVoucher := t10\<rparr>) = paid i b e known s"
  "paid i b e known (s\<lparr>cardPrize := t11\<rparr>) = paid i b e known s" "paid i b e known (s\<lparr>observerPack := t12\<rparr>) = paid i b e known s"
  by (simp_all add: paid_def subs_keyed_def)

lemma paid_update:
  assumes "paid i b e known s" and "\<And>x. sb_id (f x) = sb_id x \<and> sb_userId (f x) = sb_userId x"
    and "\<And>x. x \<in> set (subscription s) \<Longrightarrow> P x \<Longrightarrow> sb_id x = i \<Longrightarrow> paid_row b e x \<Longrightarrow> paid_row b e (f x)"
  shows "paid i b e known (s\<lparr>subscription := updateMany P f (subscription s)\<rparr>)"
proof -
  have "map sb_id (updateMany P f (subscription s)) = map sb_id (subscription s)"
    "map sb_userId (updateMany P f (subscription s)) = map sb_userId (subscription s)"
    using assms(2) by (simp_all add: map_updateMany_inv)
  moreover obtain row where row: "row \<in> set (subscription s)" "sb_id row = i" "paid_row b e row"
    using assms(1) by (auto simp: paid_def)
  moreover have "(if P row then f row else row) \<in> set (updateMany P f (subscription s))"
    using row(1) unfolding set_updateMany by (rule imageI)
  moreover have "sb_id (if P row then f row else row) = i \<and> paid_row b e (if P row then f row else row)"
    using row assms(2,3) by simp
  ultimately show ?thesis using assms(1) unfolding paid_def subs_keyed_def by auto
qed

lemma paid_pay_update:
  assumes "paid i b e known s" and "\<And>q. pay_id (f q) = pay_id q \<and> pay_subscriptionId (f q) = pay_subscriptionId q"
  shows "paid i b e known (s\<lparr>payment := updateMany P f (payment s)\<rparr>)"
  using assms by (auto simp: paid_def subs_keyed_def set_updateMany)

lemma paid_pay_new:
  assumes "paid i b e known s" and "pay_subscriptionId q \<noteq> Some i"
  shows "paid i b e known (s\<lparr>payment := payment s @ [q]\<rparr>)"
  using assms by (auto simp: paid_def subs_keyed_def)

lemma user_row:
  assumes "subs_keyed s" and "find (\<lambda>x. sb_userId x = u) (subscription s) = Some row" and "x \<in> set (subscription s)" and "sb_userId x = u"
  shows "x = row"
  using assms distinct_key_eq [of sb_userId "subscription s" x row] find_SomeD [OF assms(2)] by (auto simp: subs_keyed_def)

text \<open>Pausing, resuming and cancelling before the period ends.\<close>

lemma transition_keeps_paid:
  assumes "\<And>row f action detail. d row = Change f action detail \<Longrightarrow>
      (\<forall>x. sb_id (f x) = sb_id x \<and> sb_userId (f x) = sb_userId x) \<and> (paid_row b e row \<longrightarrow> paid_row b e (f row))"
  shows "keeps (paid i b e known) (transition u d)"
proof (rule keepsI)
  fix s r s'
  assume inv: "paid i b e known s" and run: "transition u d s = Inr (r, s')"
  have audit: "keeps (paid i b e known) (bindt (recordAuditEvent ev) (\<lambda>_. bindt (reads g) (\<lambda>x. ret (h x))))" for ev g and h :: "int \<Rightarrow> contractSubscription answer"
    by (intro keeps_intros keeps_outbox) simp_all
  show "paid i b e known s'"
  proof (cases "find (\<lambda>x. sb_userId x = u) (subscription s)")
    case None
    with run inv show ?thesis by (simp add: transition_def tx_find_apply(2) ret_apply)
  next
    case (Some row)
    show ?thesis
    proof (cases "d row")
      case (Change f action detail)
      from assms [OF this] inv user_row [OF _ Some] have "paid i b e known (s\<lparr>subscription := updateMany (\<lambda>x. sb_userId x = u) f (subscription s)\<rparr>)"
        by (intro paid_update) (auto simp: paid_def)
      with Change Some run show ?thesis
        by (auto simp: transition_def tx_find_apply(2) tx_update_apply(2) split: if_splits dest: keepsD [OF audit])
    qed (use Some run inv in \<open>simp_all add: transition_def tx_simps\<close>)
  qed
qed

lemma decisions_keep_paid:
  assumes "now < e"
  shows "keeps (paid i b e known) (pauseMySubscription u now)" "keeps (paid i b e known) (resumeMySubscription u now)"
    "keeps (paid i b e known) (cancelMySubscription u now)"
  unfolding pauseMySubscription_def resumeMySubscription_def cancelMySubscription_def
  by (rule transition_keeps_paid;
      use assms in \<open>auto simp: pause_decision_def resume_decision_def cancel_decision_def paid_row_def Let_def split: if_splits option.splits\<close>)+

text \<open>A sweep before the period ends finds other subscriptions due, never this one.\<close>

lemma due_row_unpaid:
  assumes "paid i b e known s" and "find (\<lambda>x. sb_id x = j) (subscription s) = Some row" and "period_over row now = Some t" and "now < e"
  shows "\<forall>x \<in> set (subscription s). sb_id x = sb_id row \<longrightarrow> \<not> paid_row b e x" and "sb_id row \<noteq> i"
proof -
  have "\<not> paid_row b e row" using assms(3,4) by (auto simp: period_over_def paid_row_def split: if_splits option.splits)
  moreover have "x = row" if "x \<in> set (subscription s)" "sb_id x = sb_id row" for x
    using distinct_key_eq [of sb_id "subscription s" x row] find_SomeD [OF assms(2)] assms(1) that by (auto simp: paid_def subs_keyed_def)
  ultimately show "\<forall>x \<in> set (subscription s). sb_id x = sb_id row \<longrightarrow> \<not> paid_row b e x" by blast
  then show "sb_id row \<noteq> i" using assms(1) by (auto simp: paid_def)
qed

definition apart_from :: "ident \<Rightarrow> time \<Rightarrow> time \<Rightarrow> ident set \<Rightarrow> ident \<Rightarrow> db \<Rightarrow> bool" where
  "apart_from i b e known j s \<longleftrightarrow> paid i b e known s \<and> j \<noteq> i"

lemma apart_from_frame [simp]:
  "apart_from i b e known j (s\<lparr>creditAccount := t1\<rparr>) = apart_from i b e known j s"
  "apart_from i b e known j (s\<lparr>creditLedger := t2\<rparr>) = apart_from i b e known j s"
  "apart_from i b e known j (s\<lparr>auditLog := t3\<rparr>) = apart_from i b e known j s"
  by (simp_all add: apart_from_def)

lemma decide_keeps_paid:
  assumes "now < e"
  shows "keeps (paid i b e known) (decide j provider p now)"
proof (rule keepsI)
  fix s r s'
  assume inv: "paid i b e known s" and run: "decide j provider p now s = Inr (r, s')"
  obtain row where row: "find (\<lambda>x. sb_id x = j) (subscription s) = Some row"
    using run by (auto simp: decide_def tx_findOrThrow_apply(2) split: option.splits)
  show "paid i b e known s'"
  proof (cases "period_over row now")
    case None
    with row run inv show ?thesis by (simp add: decide_def tx_findOrThrow_apply(2) ret_apply)
  next
    case (Some t)
    let ?I = "apart_from i b e known (sb_id row)"
    have ends: "keeps ?I (end_subscription row t)" "keeps ?I (expire_subscription row t failed now)" for failed
      by (rule end_keeps; auto simp: apart_from_def intro!: paid_update)+
    have charge: "keeps ?I (open_charge row t failed q p)" for failed q
      unfolding open_charge_def
      by (intro keeps_intros keeps_createSkip keeps_outbox) (auto simp: apart_from_def subscription_payment_def intro!: paid_pay_new)
    have rest: "keeps ?I (bindt (expireSubscriptionMinutes row t) (\<lambda>_. if sb_cancelAtPeriodEnd row then end_subscription row t
        else if sb_status row = SUB_PAUSED then ret RN_NONE else renew row t provider p now))"
      unfolding renew_def by (intro keeps_intros expire_minutes_keeps ends charge) simp_all
    have "?I s" using inv due_row_unpaid(2) [OF inv row Some assms] by (simp add: apart_from_def)
    moreover have "bindt (expireSubscriptionMinutes row t) (\<lambda>_. if sb_cancelAtPeriodEnd row then end_subscription row t
        else if sb_status row = SUB_PAUSED then ret RN_NONE else renew row t provider p now) s = Inr (r, s')"
      using run by (simp add: decide_def tx_findOrThrow_apply(2) row Some)
    ultimately have "?I s'" by (rule keepsD [OF rest])
    then show ?thesis by (simp add: apart_from_def)
  qed
qed

lemma sweep_keeps_paid: "now < e \<Longrightarrow> keepsj (paid i b e known) (sweepSubscriptions charger ids now)"
proof (rule sweepSubscriptions_keeps)
  show "keeps (paid i b e known) (recordUnsubmitted charge err)" for charge err
    unfolding recordUnsubmitted_def
    by (intro keeps_intros keeps_updateMany keeps_outbox) (auto intro: paid_pay_update)
qed (rule decide_keeps_paid)

lemma subscribe_keeps_paid: "keepsj (paid i b e known) (subscribe E j p u requested now)"
proof (rule subscribe_keeps, rule open_subscription_keeps [where R = "\<lambda>row. sb_id row \<noteq> i"])
  fix plan s
  assume inv: "paid i b e known s" and new: "\<not> list_ex (\<lambda>old. u = sb_userId old \<or> j = sb_id old) (subscription s)"
  then have "j \<noteq> i" by (auto simp: paid_def list_ex_iff)
  with inv new show "sb_id (new_subscription j u plan now) \<noteq> i
      \<and> paid i b e known (s\<lparr>subscription := subscription s @ [new_subscription j u plan now]\<rparr>)"
    by (auto simp: paid_def subs_keyed_def new_subscription_def list_ex_iff)
next
  fix plan s row
  assume inv: "paid i b e known s" and row: "find (\<lambda>x. sb_userId x = u) (subscription s) = Some row" and f: "FINISHED (sb_status row)"
  have "\<not> paid_row b e row" using f by (auto simp: paid_row_def FINISHED_def)
  moreover have "\<exists>x \<in> set (subscription s). sb_id x = i \<and> paid_row b e x" using inv by (simp add: paid_def)
  ultimately have "sb_id row \<noteq> i"
    using find_SomeD [OF row] inv distinct_key_eq [of sb_id "subscription s"] by (metis paid_def subs_keyed_def)
  moreover have "paid i b e known (s\<lparr>subscription := updateMany (\<lambda>x. sb_userId x = u) (restart_subscription plan now) (subscription s)\<rparr>)"
    using inv by (rule paid_update)
      (use user_row [OF _ row] inv \<open>\<not> paid_row b e row\<close> in \<open>auto simp: restart_subscription_def paid_def\<close>)
  ultimately show "sb_id (restart_subscription plan now row) \<noteq> i
      \<and> paid i b e known (s\<lparr>subscription := updateMany (\<lambda>x. sb_userId x = u) (restart_subscription plan now) (subscription s)\<rparr>)"
    by (simp add: restart_subscription_def)
qed (auto simp: subscription_payment_def intro: paid_pay_new)

text \<open>A settlement, unless it captures a payment of this very subscription.\<close>

lemma paid_ops:
  "keeps (paid i b e known) (earnOnSettledPayment codes p u n bk)" "keeps (paid i b e known) (rewardReferralOnFirstPaidBooking codes u now)"
  "keeps (paid i b e known) (recordAuditEvent ev)" "keeps (paid i b e known) (queueEmail m)" "keeps (paid i b e known) (grantSubscriptionMinutes row t n)"
  "keeps (paid i b e known) (give_back codes held now)"
  unfolding grantSubscriptionMinutes_def give_back_def
  by (intro keeps_intros keeps_loyalty_frame keeps_outbox keeps_credit_frame releaseCardPrize_frame; simp)+

lemma paid_payments:
  "keeps (paid i b e known) (fail_payment p outcome)" "keeps (paid i b e known) (capture_payment p outcome now)"
  "keeps (paid i b e known) (releaseHeldSlot codes x reason now)"
  unfolding fail_payment_def capture_payment_def releaseHeldSlot_def
  by (intro keeps_intros keeps_table paid_ops; simp add: paid_pay_update)+

lemma settle_subscription_keeps_paid:
  assumes "oc_result outcome = OUT_FAILED \<or> pay_subscriptionId pay \<noteq> Some i"
  shows "keeps (paid i b e known) (settleSubscriptionPayment parts codes pay outcome now)"
proof (rule keepsI)
  fix s r s'
  assume inv: "paid i b e known s" and run: "settleSubscriptionPayment parts codes pay outcome now s = Inr (r, s')"
  obtain j row where row: "pay_subscriptionId pay = Some j" "find (\<lambda>x. sb_id x = j) (subscription s) = Some row"
    using run by (auto simp: settleSubscriptionPayment_def tx_simps split: option.splits)
  note id = find_SomeD [OF row(2)]
  show "paid i b e known s'"
  proof (cases "oc_result outcome")
    case OUT_FAILED
    have "\<not> paid_row b e x" if "sb_currentPeriodStart row = None" "x \<in> set (subscription s)" "sb_id x = sb_id row" for x
      using distinct_key_eq [of sb_id "subscription s" x row] inv that id by (auto simp: paid_def subs_keyed_def paid_row_def)
    then have other: "sb_id row \<noteq> i" if "sb_currentPeriodStart row = None" using inv that by (auto simp: paid_def)
    have "keeps (paid i b e known) (fail_subscription pay row outcome now)"
      unfolding fail_subscription_def Let_def
      by (intro keeps_intros paid_ops paid_payments keeps_update paid_update) (use other in auto)
    with run inv row OUT_FAILED show ?thesis by (auto simp: settleSubscriptionPayment_def tx_findOrThrow_apply(2) dest: keepsD)
  next
    case OUT_CAPTURED
    with assms row id have "sb_id row \<noteq> i" by auto
    then have "keeps (paid i b e known) (fund_subscription parts codes pay row outcome now)"
      unfolding fund_subscription_def Let_def
      by (intro keeps_intros paid_ops paid_payments keeps_update paid_update) auto
    with run inv row OUT_CAPTURED show ?thesis by (auto simp: settleSubscriptionPayment_def tx_findOrThrow_apply(2) dest: keepsD)
  qed
qed

lemma settle_purpose_keeps_paid:
  assumes "oc_result outcome = OUT_FAILED \<or> pay_subscriptionId pay \<noteq> Some i"
  shows "keeps (paid i b e known) (settle_purpose parts codes m pay outcome now)"
proof -
  have "keeps (paid i b e known) (settle_booking codes m pay x outcome now)" for x
    unfolding settle_booking_def lockBooking_def fail_booking_def capture_booking_def confirm_booking_def prod.case_eq_if
    by (intro keeps_intros paid_ops paid_payments keeps_table; simp)
  moreover have "keeps (paid i b e known) (settleGiftVoucherPayment codes pay outcome now)"
    unfolding settleGiftVoucherPayment_def by (intro keeps_intros paid_ops paid_payments keeps_table; simp)
  moreover have "keeps (paid i b e known) (settleObserverPackPayment codes pay k outcome now)" for k
    unfolding settleObserverPackPayment_def lockOwnedPack_def capture_pack_def release_pack_def seatCapturedPack_def Let_def prod.case_eq_if
    by (intro keeps_intros paid_ops paid_payments keeps_table; simp)
  ultimately show ?thesis
    unfolding settle_purpose_def
    by (cases "pay_purpose pay") (simp_all add: settle_subscription_keeps_paid [OF assms] keeps_bindt keeps_reads)
qed

lemma settlePayment_keeps_paid:
  assumes "oc_result outcome = OUT_FAILED \<or> oc_paymentId outcome \<notin> known"
  shows "keepsj (paid i b e known) (settlePayment parts codes m provider outcome now)"
proof -
  have "keeps (paid i b e known) (settle_tx parts codes m provider outcome now)"
  proof (rule keepsI)
    fix s r s'
    assume inv: "paid i b e known s" and "settle_tx parts codes m provider outcome now s = Inr (r, s')"
    from this(2) show "paid i b e known s'"
    proof (cases rule: settle_tx_cases)
      case (purpose pay)
      have "pay \<in> set (payment s)" using find_SomeD [OF fits_found(2) [OF purpose(1)]] by simp
      with assms inv fits_found(1) [OF purpose(1)] have "oc_result outcome = OUT_FAILED \<or> pay_subscriptionId pay \<noteq> Some i"
        by (auto simp: paid_def)
      from settle_purpose_keeps_paid [OF this] inv purpose(3) show ?thesis by (rule keepsD)
    qed (use inv in simp_all)
  qed
  then show ?thesis unfolding settlePayment_def by (rule keepsj_transaction)
qed

lemma perform_keeps_paid:
  assumes "now < e" and "\<And>m provider outcome. a = Settle_payment m provider outcome \<Longrightarrow> oc_result outcome = OUT_FAILED \<or> oc_paymentId outcome \<notin> known"
    and "paid i b e known s"
  shows "paid i b e known (perform parts codes now a s)"
proof (cases a)
  case (Settle_payment m provider outcome)
  with assms(2) have "oc_result outcome = OUT_FAILED \<or> oc_paymentId outcome \<notin> known" by blast
  from keepsjD [OF settlePayment_keeps_paid [OF this] assms(3)] Settle_payment show ?thesis by simp
qed (use keepsjD [OF subscribe_keeps_paid assms(3)] keepsjD [OF sweep_keeps_paid [OF assms(1)] assms(3)]
    keepsjD [OF keepsj_transaction [OF decisions_keep_paid(1) [OF assms(1)]] assms(3)]
    keepsjD [OF keepsj_transaction [OF decisions_keep_paid(2) [OF assms(1)]] assms(3)]
    keepsjD [OF keepsj_transaction [OF decisions_keep_paid(3) [OF assms(1)]] assms(3)] in simp_all)

section \<open>Properties\<close>

text \<open>
  C32: No renewal is overcharged. In every run of subscribing, pausing, resuming, cancelling,
  renewal sweeps and settlements, in any order and at any times, a period the sweep renews a
  subscription for is charged at most three times, and at most one of those charges has not
  failed. The payment that opens a subscription carries no period and is not counted: the period
  it buys starts when it is captured.
\<close>

theorem no_renewal_is_overcharged:
  assumes "billing_run parts codes acts s s'" and "billing_inv s"
  shows "length (filter (\<lambda>q. pay_subscriptionId q = Some i \<and> pay_periodStart q = Some t) (payment s')) \<le> 3
    \<and> length (filter (\<lambda>q. pay_subscriptionId q = Some i \<and> pay_periodStart q = Some t \<and> pay_status q \<noteq> PAY_FAILED) (payment s')) \<le> 1"
proof -
  from assms(1) have "billing_inv s'" by (rule billing_run_invariant) (use assms(2) perform_keeps_billing in auto)
  then show ?thesis
    by (auto simp: billing_inv_def renewal_inv_def charges_def live_charges_def RENEWAL_ATTEMPTS_def conj_ac)
qed

definition member :: subscription_row where
  "member = \<lparr>sb_id = ''s1'', sb_userId = ''u1'', sb_plan = PLAN_EXPLORER, sb_status = SUB_ACTIVE, sb_startsAt = 0, sb_priceMinor = 9000,
     sb_endsAt = None, sb_currentPeriodStart = Some 1000, sb_currentPeriodEnd = Some 90000, sb_cancelAtPeriodEnd = False, sb_pausedAt = None,
     sb_providerMandateRef = Some ''card-1'', sb_lastPaymentId = Some ''p0'', sb_isDemo = False\<rparr>"

definition member_db :: db where
  "member_db = club_db\<lparr>subscription := [member]\<rparr>"

theorem no_renewal_is_overcharged_witness:
  "\<exists>s'. billing_run utc_parts (\<lambda>u. u) [(90000, Sweep (Some (SANDBOX, \<lambda>_. None)) (\<lambda>_. ''p1'')), (90001, Sweep (Some (SANDBOX, \<lambda>_. None)) (\<lambda>_. ''p2''))] member_db s'
     \<and> length (filter (\<lambda>q. pay_subscriptionId q = Some ''s1'' \<and> pay_periodStart q = Some 90000) (payment s')) \<le> 3"
proof -
  obtain s' where run: "billing_run utc_parts (\<lambda>u. u) [(90000, Sweep (Some (SANDBOX, \<lambda>_. None)) (\<lambda>_. ''p1'')), (90001, Sweep (Some (SANDBOX, \<lambda>_. None)) (\<lambda>_. ''p2''))] member_db s'"
    using billing_run_total by blast
  have "billing_inv member_db"
    by (simp add: billing_inv_def renewal_inv_def charges_def live_charges_def member_db_def club_db_def empty_db_def)
  with run no_renewal_is_overcharged [OF run, of "''s1''" 90000] show ?thesis by blast
qed

text \<open>
  C33: A paid period is never cut short. Whatever happens before its end - the customer or
  anybody else pauses, resumes, cancels or subscribes, sweeps run, payments fail, and payments
  other than this subscription's own are captured - the subscription keeps the period it was
  paid for and stays active or paused.
\<close>

theorem paid_period_is_never_cut_short:
  assumes run: "billing_run parts codes acts s s'" and keyed: "subs_keyed s"
    and row: "row \<in> set (subscription s)" "sb_currentPeriodStart row = Some b" "sb_currentPeriodEnd row = Some e"
      "sb_status row = SUB_ACTIVE \<or> sb_status row = SUB_PAUSED"
    and before: "\<And>now a. (now, a) \<in> set acts \<Longrightarrow> now < e"
    and others: "\<And>now m provider outcome q. (now, Settle_payment m provider outcome) \<in> set acts \<Longrightarrow> oc_result outcome = OUT_CAPTURED \<Longrightarrow>
      q \<in> set (payment s) \<Longrightarrow> pay_subscriptionId q = Some (sb_id row) \<Longrightarrow> pay_id q \<noteq> oc_paymentId outcome"
  shows "\<exists>row' \<in> set (subscription s'). sb_id row' = sb_id row \<and> sb_currentPeriodStart row' = Some b \<and> sb_currentPeriodEnd row' = Some e
    \<and> (sb_status row' = SUB_ACTIVE \<or> sb_status row' = SUB_PAUSED)"
proof -
  define known where "known = pay_id ` {q \<in> set (payment s). pay_subscriptionId q = Some (sb_id row)}"
  have "paid (sb_id row) b e known s" using keyed row by (auto simp: paid_def paid_row_def known_def)
  with run have "paid (sb_id row) b e known s'"
  proof (rule billing_run_invariant)
    fix now a t
    assume step: "(now, a) \<in> set acts" and "paid (sb_id row) b e known t"
    moreover have "oc_result outcome = OUT_FAILED \<or> oc_paymentId outcome \<notin> known" if "a = Settle_payment m provider outcome" for m provider outcome
    proof (cases "oc_result outcome")
      case OUT_CAPTURED
      from others [OF _ this, of now m provider] step that show ?thesis by (fastforce simp: known_def)
    qed simp
    ultimately show "paid (sb_id row) b e known (perform parts codes now a t)" using before by (intro perform_keeps_paid)
  qed
  then show ?thesis by (simp add: paid_def paid_row_def)
qed

theorem paid_period_is_never_cut_short_witness:
  "\<exists>s'. billing_run utc_parts (\<lambda>u. u) [(5000, Cancel ''u1''), (6000, Pause ''u1''), (7000, Sweep None (\<lambda>_. ''p1''))] member_db s'
     \<and> (\<exists>row' \<in> set (subscription s'). sb_id row' = ''s1'' \<and> sb_currentPeriodEnd row' = Some 90000)"
proof -
  obtain s' where run: "billing_run utc_parts (\<lambda>u. u) [(5000, Cancel ''u1''), (6000, Pause ''u1''), (7000, Sweep None (\<lambda>_. ''p1''))] member_db s'"
    using billing_run_total by blast
  have "subs_keyed member_db" "member \<in> set (subscription member_db)" by (simp_all add: subs_keyed_def member_db_def)
  moreover have "sb_id member = ''s1''" "sb_currentPeriodStart member = Some 1000" "sb_currentPeriodEnd member = Some 90000" "sb_status member = SUB_ACTIVE"
    by (simp_all add: member_def)
  moreover have "now < 90000" if "(now, a) \<in> set [(5000, Cancel ''u1''), (6000, Pause ''u1''), (7000, Sweep None (\<lambda>_. ''p1''))]" for now :: time and a
    using that by auto
  ultimately obtain row' where "row' \<in> set (subscription s')" "sb_id row' = sb_id member" "sb_currentPeriodEnd row' = Some 90000"
    using paid_period_is_never_cut_short [OF run, of member 1000 90000] by auto
  with run \<open>sb_id member = ''s1''\<close> show ?thesis by auto
qed

end
