(* ===== verification/Sessions.thy ===== *)
theory Sessions
  imports Slot_List
begin

text \<open>
  Owning a telescope: src/apps/api/src/features/missions/session.ts, with the numbers of a
  booked session, src/packages/db/booked-session.ts, and the bell of
  src/apps/api/src/lib/observatory/relay.ts.

  A request reads the mission and its observatory, decides, and then runs one transaction.
  What other requests commit between the reads and the transaction is a function on the
  database, an argument (\<open>others\<close>); so are the identifiers the database and \<open>randomUUID\<close>
  hand out. The two partial unique indexes that carry the exclusivity (one session that is not
  revoked per mission, one live mission per observatory) are part of the writes they guard.
  A failure keeps the status, the code and those details a client acts on; the message is
  display text and left out, as is the same text where an audit entry repeats it.
\<close>

section \<open>Constants (booked-session.ts, session.ts)\<close>

definition DWELL_SECONDS :: int where [const_simps]: "DWELL_SECONDS = 600"
definition CAPTURE_COOLDOWN_SECONDS :: int where [const_simps]: "CAPTURE_COOLDOWN_SECONDS = 30"
definition MAX_CAPTURES_PER_MISSION :: nat where [const_simps]: "MAX_CAPTURES_PER_MISSION = 50"
definition CAPTURE_CLOSE_SECONDS :: int where [const_simps]: "CAPTURE_CLOSE_SECONDS = 60"
definition RETARGET_CLOSE_SECONDS :: int where [const_simps]: "RETARGET_CLOSE_SECONDS = 300"
definition VISIBLE_NOW_WINDOW_SECONDS :: int where [const_simps]: "VISIBLE_NOW_WINDOW_SECONDS = DWELL_SECONDS"
definition END_TELEMETRY_SECONDS :: int where [const_simps]: "END_TELEMETRY_SECONDS = 300"
definition UNBOOKED_SESSION_MINUTES :: int where [const_simps]: "UNBOOKED_SESSION_MINUTES = 30"
definition COMMAND_TTL_SECONDS :: int where [const_simps]: "COMMAND_TTL_SECONDS = 30"

definition dwellEndsAt :: "time option \<Rightarrow> time option" where
  "dwellEndsAt currentTargetSince =
     (case currentTargetSince of None \<Rightarrow> None | Some t \<Rightarrow> Some (t + DWELL_SECONDS * second_ms))"

datatype sessionEndReason = SLOT_ENDED | CUSTOMER_ENDED | OPERATOR_ENDED | ENDED_BY_WEATHER | ENDED_BY_FAULT

definition sessionEndReasonOf :: "missionState \<Rightarrow> missionFailureReason option \<Rightarrow> sessionEndReason" where
  "sessionEndReasonOf state failureReason =
     (if state = MS_COMPLETE then SLOT_ENDED
      else if failureReason = Some SESSION_EXPIRED then SLOT_ENDED
      else if failureReason = Some CUSTOMER_CANCELLED then CUSTOMER_ENDED
      else if failureReason = Some OPERATOR_ABORT then OPERATOR_ENDED
      else if failureReason = Some WEATHER_UNSAFE \<or> state = MS_WEATHER_HOLD then ENDED_BY_WEATHER
      else ENDED_BY_FAULT)"

definition LIVE_MISSION_STATES :: "missionState list" where
  "LIVE_MISSION_STATES =
     [MS_PREPARING, MS_SLEWING, MS_VERIFYING, MS_CENTERING, MS_OBSERVING, MS_CAPTURING, MS_PROCESSING]"

definition TERMINAL_MISSION_STATES :: "missionState list" where
  "TERMINAL_MISSION_STATES = [MS_COMPLETE, MS_CANCELLED, MS_FAILED]"

abbreviation is_live :: "mission_row \<Rightarrow> bool" where
  "is_live m \<equiv> mi_state m \<in> set LIVE_MISSION_STATES"

datatype clientCommandType = CC_NUDGE | CC_CAPTURE | CC_RECENTER | CC_ABORT | CC_RETARGET

definition ALLOWED_CLIENT_COMMANDS :: "clientCommandType list" where
  "ALLOWED_CLIENT_COMMANDS = [CC_NUDGE, CC_CAPTURE, CC_RECENTER, CC_ABORT, CC_RETARGET]"

section \<open>Failures and actors\<close>

datatype missionErrorCode =
  MC_NOT_FOUND | MC_SESSION_NOT_OWNER | MC_MISSION_NOT_ACTIVE | MC_OBSERVATORY_OFFLINE | MC_WEATHER_HOLD
| MC_INTERNAL | MC_SAFETY_NOT_CONFIGURED | MC_SAFETY_REFUSED | MC_CONFLICT | MC_VALIDATION_FAILED | MC_FORBIDDEN
| MC_MISSION_BUSY | MC_SESSION_ENDING | MC_DWELL_LOCKED | MC_TARGET_NOT_OBSERVABLE | MC_CAPTURE_IN_PROGRESS
| MC_CAPTURE_COOLDOWN | MC_CAPTURE_LIMIT_REACHED

text \<open>\<open>details.rejectionReason\<close>: the agent's vocabulary, or the code itself where the two share a name.\<close>

datatype rejectionReason =
    By_safety commandRejectionReason
  | By_code missionErrorCode
  | COMMAND_NOT_PERMITTED_FOR_CLIENT
  | TARGET_NOT_VISIBLE_NOW

record missionFailure =
  mf_status :: nat
  mf_code :: missionErrorCode
  mf_rejectionReason :: "rejectionReason option"
  mf_allowedAt :: "time option"
  mf_blockReasons :: "visibilityBlockReason list option"
  mf_rejectedFields :: "string list option"

definition failure :: "nat \<Rightarrow> missionErrorCode \<Rightarrow> missionFailure" where
  "failure status code = \<lparr>mf_status = status, mf_code = code, mf_rejectionReason = None, mf_allowedAt = None,
     mf_blockReasons = None, mf_rejectedFields = None\<rparr>"

datatype userRole = ROLE_USER | ROLE_OPERATOR

record actor =
  ac_id :: ident
  ac_role :: userRole

definition isUniqueViolation :: "exn \<Rightarrow> bool" where
  "isUniqueViolation e \<longleftrightarrow> e = SqlError ''23505''"

section \<open>The guarded writes\<close>

text \<open>
  \<open>Mission_active_per_observatory_unique\<close>: an update that would leave two live missions at one
  observatory is refused by the database.
\<close>

definition active_per_observatory :: "mission_row list \<Rightarrow> bool" where
  "active_per_observatory ms \<longleftrightarrow> distinct (map mi_observatoryId (filter is_live ms))"

definition updateMissions :: "(mission_row \<Rightarrow> bool) \<Rightarrow> (mission_row \<Rightarrow> mission_row) \<Rightarrow> (db, nat) tx" where
  "updateMissions P f =
     (\<lambda>s. let ms = updateMany P f (mission s)
          in if active_per_observatory ms then Inr (length (filter P (mission s)), s\<lparr>mission := ms\<rparr>)
             else Inl (SqlError ''23505''))"

text \<open>\<open>MissionSession_active_owner_unique\<close>, with the primary key.\<close>

definition session_conflict :: "missionSession_row \<Rightarrow> missionSession_row \<Rightarrow> bool" where
  "session_conflict new old \<longleftrightarrow> ss_id new = ss_id old
     \<or> ss_missionId new = ss_missionId old \<and> ss_revokedAt new = None \<and> ss_revokedAt old = None"

definition createSession :: "missionSession_row \<Rightarrow> (db, missionSession_row) tx" where
  "createSession = tx_create missionSession missionSession_update session_conflict"

definition revokeSessions :: "(missionSession_row \<Rightarrow> bool) \<Rightarrow> time \<Rightarrow> string option \<Rightarrow> (db, nat) tx" where
  "revokeSessions P now reason =
     tx_updateMany missionSession missionSession_update (\<lambda>x. P x \<and> ss_revokedAt x = None)
       (\<lambda>x. x\<lparr>ss_revokedAt := Some now,
          ss_revokedFor := (case reason of None \<Rightarrow> ss_revokedFor x | Some r \<Rightarrow> Some r)\<rparr>)"

definition createCommand :: "command_row \<Rightarrow> (db, command_row) tx" where
  "createCommand = tx_create observatoryCommand observatoryCommand_update (\<lambda>new old. cm_id new = cm_id old)"

definition createEvent :: "missionEvent_row \<Rightarrow> (db, unit) tx" where
  "createEvent e = modifies (\<lambda>s. s\<lparr>missionEvent := missionEvent s @ [e]\<rparr>)"

definition notifyAgent :: "agentNotification \<Rightarrow> (db, unit) tx" where
  "notifyAgent n = modifies (\<lambda>s. s\<lparr>agentChannel := agentChannel s @ [n]\<rparr>)"

section \<open>Opening a session\<close>

definition mission_booking :: "db \<Rightarrow> mission_row \<Rightarrow> booking_row option" where
  "mission_booking s m = find (\<lambda>b. bk_missionId b = Some (mi_id m)) (booking s)"

abbreviation slot_end :: "booking_row \<Rightarrow> time" where
  "slot_end b \<equiv> bk_slotStartAt b + bk_durationMinutes b * minute_ms"

definition sessionExpiry :: "booking_row option \<Rightarrow> time \<Rightarrow> time" where
  "sessionExpiry b now =
     (case b of None \<Rightarrow> now + UNBOOKED_SESSION_MINUTES * minute_ms | Some bk \<Rightarrow> slot_end bk)"

definition sessionEndsAtOf :: "booking_row option \<Rightarrow> missionSession_row option \<Rightarrow> time option" where
  "sessionEndsAtOf b session =
     (case b of Some bk \<Rightarrow> Some (sessionExpiry b (bk_slotStartAt bk))
      | None \<Rightarrow> map_option ss_expiresAt session)"

definition currentSession :: "db \<Rightarrow> ident \<Rightarrow> time \<Rightarrow> missionSession_row option" where
  "currentSession s missionId now =
     find (\<lambda>x. ss_missionId x = missionId \<and> ss_revokedAt x = None \<and> now < ss_expiresAt x) (missionSession s)"

text \<open>\<open>siteOf(observatory)\<close> on the full row; the relations a foreign key guarantees are read with it.\<close>

definition site_of :: "observatory_row \<Rightarrow> site" where
  "site_of ob = \<lparr>st_latitudeDegrees = ob_latitude ob, st_longitudeDegrees = ob_longitude ob, st_elevationMetres = None\<rparr>"

definition observatory_of :: "db \<Rightarrow> ident \<Rightarrow> exn + observatory_row" where
  "observatory_of s i = (case find (\<lambda>ob. ob_id ob = i) (observatory s) of None \<Rightarrow> Inl NotFoundError | Some ob \<Rightarrow> Inr ob)"

definition target_of :: "db \<Rightarrow> ident \<Rightarrow> exn + target_row" where
  "target_of s i = (case find (\<lambda>tg. tg_id tg = i) (target s) of None \<Rightarrow> Inl NotFoundError | Some tg \<Rightarrow> Inr tg)"

record contractSession =
  cs_sessionId :: ident
  cs_missionId :: ident
  cs_userId :: ident
  cs_issuedAt :: string
  cs_expiresAt :: string
  cs_missionChannelUrl :: string
  cs_allowedCommands :: "clientCommandType list"

definition toContractSession :: "missionSession_row \<Rightarrow> contractSession" where
  "toContractSession row = \<lparr>cs_sessionId = ss_id row, cs_missionId = ss_missionId row, cs_userId = ss_userId row,
     cs_issuedAt = toISOString (ss_issuedAt row), cs_expiresAt = toISOString (ss_expiresAt row),
     cs_missionChannelUrl = ''/ws/mission/'' @ ss_missionId row, cs_allowedCommands = ALLOWED_CLIENT_COMMANDS\<rparr>"

datatype sessionResult = Session_open contractSession | Session_refused missionFailure

text \<open>What the reads of a start decide: a refusal, a session on a live mission, or the start of a scheduled one.\<close>

datatype startPlan =
    Refuse_start missionFailure
  | Open_live mission_row time
  | Start_scheduled mission_row observatory_row booking_row goto_payload time

definition pointing_at :: "safetyEnvelopeConfig option \<Rightarrow> site \<Rightarrow> time \<Rightarrow> horizontal \<Rightarrow> pointingInput" where
  "pointing_at config st now hz = \<lparr>pi_config = config, pi_site = Some st, pi_at = now,
     pi_altitudeDegrees = Num (hz_altitudeDegrees hz), pi_azimuthDegrees = Num (hz_azimuthDegrees hz),
     pi_operatorOverride = False\<rparr>"

definition judge_coordinates ::
  "astronomy \<Rightarrow> safetyEnvelopeConfig option \<Rightarrow> observatory_row \<Rightarrow> equatorial \<Rightarrow> time \<Rightarrow> safetyVerdict" where
  "judge_coordinates A config ob coordinates now =
     evaluatePointing A (pointing_at config (site_of ob) now (horizontalAirlessOf A coordinates now (site_of ob)))"

definition goto_of :: "target_row \<Rightarrow> equatorial \<Rightarrow> goto_payload" where
  "goto_of tg coordinates = \<lparr>gp_targetId = tg_id tg, gp_coordinates = coordinates,
     gp_opticalConfig = tg_opticalConfig tg, gp_imagingProfile = tg_imagingProfile tg\<rparr>"

definition judge_start ::
  "astronomy \<Rightarrow> db \<Rightarrow> mission_row \<Rightarrow> observatory_row \<Rightarrow> time \<Rightarrow> time \<Rightarrow> exn + startPlan" where
  "judge_start A s m ob now expiresAt =
     (case mission_booking s m of None \<Rightarrow> Inr (Refuse_start (failure 409 MC_MISSION_NOT_ACTIVE))
      | Some bk \<Rightarrow>
         if now < bk_slotStartAt bk then Inr (Refuse_start (failure 409 MC_MISSION_NOT_ACTIVE))
         else case target_of s (mi_targetId m) of Inl e \<Rightarrow> Inl e
         | Inr tg \<Rightarrow>
             if bk_targetId bk \<noteq> tg_id tg then Inr (Refuse_start (failure 409 MC_INTERNAL))
             else case loadSafetyEnvelope s (mi_observatoryId m) of Inl e \<Rightarrow> Inl e
             | Inr config \<Rightarrow>
                 if \<not> isMeasured config then Inr (Refuse_start (failure 409 MC_SAFETY_NOT_CONFIGURED))
                 else case equatorialFor A tg now (site_of ob) of Inl e \<Rightarrow> Inl e
                 | Inr coordinates \<Rightarrow>
                    (case judge_coordinates A config ob coordinates now of
                       Refused_pointing r \<Rightarrow> Inr (Refuse_start (failure 409 MC_SAFETY_REFUSED))
                     | PERMITTED \<Rightarrow> Inr (Start_scheduled m ob bk (goto_of tg coordinates) expiresAt)))"

definition plan_start :: "astronomy \<Rightarrow> db \<Rightarrow> ident \<Rightarrow> actor \<Rightarrow> time \<Rightarrow> exn + startPlan" where
  "plan_start A s missionId act now =
     (case find (\<lambda>m. mi_id m = missionId) (mission s) of None \<Rightarrow> Inr (Refuse_start (failure 404 MC_NOT_FOUND))
      | Some m \<Rightarrow>
         (let scheduled = (mi_state m = MS_SCHEDULED); expiresAt = sessionExpiry (mission_booking s m) now
          in if ac_role act \<noteq> ROLE_OPERATOR \<and> mi_userId m \<noteq> ac_id act then Inr (Refuse_start (failure 404 MC_NOT_FOUND))
             else if scheduled \<and> mi_userId m \<noteq> ac_id act then Inr (Refuse_start (failure 409 MC_SESSION_NOT_OWNER))
             else if \<not> scheduled \<and> \<not> is_live m then Inr (Refuse_start (failure 409 MC_MISSION_NOT_ACTIVE))
             else case observatory_of s (mi_observatoryId m) of Inl e \<Rightarrow> Inl e
             | Inr ob \<Rightarrow>
                 if ob_status ob \<noteq> OB_ONLINE then Inr (Refuse_start (failure 409 MC_OBSERVATORY_OFFLINE))
                 else if ob_holdActive ob = Some True then Inr (Refuse_start (failure 409 MC_WEATHER_HOLD))
                 else if expiresAt \<le> now then Inr (Refuse_start (failure 409 MC_MISSION_NOT_ACTIVE))
                 else if scheduled then judge_start A s m ob now expiresAt
                 else Inr (Open_live m expiresAt)))"

definition session_row :: "ident \<Rightarrow> mission_row \<Rightarrow> ident \<Rightarrow> time \<Rightarrow> time \<Rightarrow> missionSession_row" where
  "session_row i m userId now expiresAt = \<lparr>ss_id = i, ss_missionId = mi_id m, ss_userId = userId, ss_issuedAt = now,
     ss_expiresAt = expiresAt, ss_revokedAt = None, ss_revokedFor = None, ss_isDemo = mi_isDemo m\<rparr>"

definition opened_audit :: "mission_row \<Rightarrow> missionSession_row \<Rightarrow> string \<Rightarrow> string \<Rightarrow> auditLog_row" where
  "opened_audit m session role bounded =
     (audit_entry MISSION ''MISSION_SESSION_OPENED''
        [(''actorRole'', JStr role), (''expiresAt'', JStr (toISOString (ss_expiresAt session))), (''bounded'', JStr bounded)])
     \<lparr>au_actorUserId := Some (ss_userId session), au_missionId := Some (mi_id m),
      au_entityType := Some ''MissionSession'', au_entityId := Some (ss_id session), au_isDemo := mi_isDemo m\<rparr>"

definition role_name :: "userRole \<Rightarrow> string" where
  "role_name r = (case r of ROLE_USER \<Rightarrow> ''USER'' | ROLE_OPERATOR \<Rightarrow> ''OPERATOR'')"

definition open_session ::
  "ident \<Rightarrow> mission_row \<Rightarrow> actor \<Rightarrow> time \<Rightarrow> time \<Rightarrow> string \<Rightarrow> (db, missionSession_row) tx" where
  "open_session newSession m act now expiresAt bounded =
     bindt (revokeSessions (\<lambda>x. ss_missionId x = mi_id m \<and> ss_expiresAt x \<le> now) now (Some ''EXPIRED'')) (\<lambda>_.
     bindt (revokeSessions (\<lambda>x. ss_missionId x = mi_id m \<and> ss_userId x = ac_id act) now (Some ''REPLACED_BY_OWNER'')) (\<lambda>_.
     bindt (createSession (session_row newSession m (ac_id act) now expiresAt)) (\<lambda>session.
     bindt (notifyAgent (NOTIFY_SESSION (mi_observatoryId m) (mi_id m) (Some (ss_id session)))) (\<lambda>_.
     bindt (recordAuditEvent (opened_audit m session (role_name (ac_role act)) bounded)) (\<lambda>_.
     ret session)))))"

text \<open>The event and the command a start writes.\<close>

definition cloud_event :: "mission_row \<Rightarrow> missionState \<Rightarrow> string \<Rightarrow> time \<Rightarrow> missionEvent_row" where
  "cloud_event m state message now = \<lparr>ev_missionId = mi_id m, ev_state = state, ev_failureReason = None,
     ev_source = FROM_CLOUD, ev_commandId = None, ev_message = Some message, ev_occurredAt = now,
     ev_simulated = (mi_mode m = SIMULATED), ev_isDemo = mi_isDemo m\<rparr>"

definition command_for ::
  "ident \<Rightarrow> mission_row \<Rightarrow> observatory_row \<Rightarrow> missionSession_row \<Rightarrow> time \<Rightarrow> commandType \<Rightarrow> commandPayload \<Rightarrow> command_row" where
  "command_for commandId m ob session now type payload =
     \<lparr>cm_id = commandId, cm_missionId = mi_id m, cm_sessionId = ss_id session, cm_userId = ss_userId session,
      cm_observatoryId = mi_observatoryId m, cm_type = type, cm_status = CS_RECEIVED, cm_issuedAt = now,
      cm_expiresAt = now + COMMAND_TTL_SECONDS * second_ms, cm_relayedAt = None, cm_completedAt = None,
      cm_payload = payload, cm_result = None, cm_simulated = (ob_mode ob = SIMULATED), cm_isDemo = mi_isDemo m\<rparr>"

definition started_audit ::
  "mission_row \<Rightarrow> ident \<Rightarrow> ident \<Rightarrow> booking_row \<Rightarrow> missionSession_row \<Rightarrow> equatorial \<Rightarrow> auditLog_row" where
  "started_audit m actorId commandId bk session coordinates =
     (audit_entry MISSION ''MISSION_STARTED''
        [(''sessionId'', JStr (ss_id session)), (''slotStartAt'', JStr (toISOString (bk_slotStartAt bk))),
         (''coordinates'', JObj [(''raHours'', JReal (eq_raHours coordinates)), (''decDegrees'', JReal (eq_decDegrees coordinates))])])
     \<lparr>au_actorUserId := Some actorId, au_missionId := Some (mi_id m), au_commandId := Some commandId,
      au_entityType := Some ''Mission'', au_entityId := Some (mi_id m), au_isDemo := mi_isDemo m\<rparr>"

definition begin_mission ::
  "ident \<Rightarrow> ident \<Rightarrow> mission_row \<Rightarrow> observatory_row \<Rightarrow> booking_row \<Rightarrow> goto_payload \<Rightarrow> ident \<Rightarrow> time \<Rightarrow> time
   \<Rightarrow> (db, missionSession_row option) tx" where
  "begin_mission newSession newCommand m ob bk goto actorId now expiresAt =
     bindt (updateMissions (\<lambda>x. mi_id x = mi_id m \<and> mi_state x = MS_SCHEDULED)
        (\<lambda>x. x\<lparr>mi_state := MS_PREPARING, mi_startedAt := Some now, mi_currentTargetId := Some (gp_targetId goto)\<rparr>)) (\<lambda>moved.
     if moved \<noteq> 1 then ret None
     else
       bindt (createEvent (cloud_event m MS_PREPARING ''Started by the customer inside the booked slot.'' now)) (\<lambda>_.
       bindt (createSession (session_row newSession m actorId now expiresAt)) (\<lambda>session.
       bindt (notifyAgent (NOTIFY_SESSION (mi_observatoryId m) (mi_id m) (Some (ss_id session)))) (\<lambda>_.
       bindt (createCommand (command_for newCommand m ob session now CMD_GOTO (Goto goto (Some False)))) (\<lambda>c.
       bindt (notifyAgent (NOTIFY_COMMAND (cm_id c) (mi_observatoryId m))) (\<lambda>_.
       bindt (recordAuditEvent (opened_audit m session ''USER'' ''BOOKING'')) (\<lambda>_.
       bindt (recordAuditEvent (started_audit m actorId newCommand bk session (gp_coordinates goto))) (\<lambda>_.
       ret (Some session)))))))))"

definition startMissionSession ::
  "astronomy \<Rightarrow> (db \<Rightarrow> db) \<Rightarrow> ident \<Rightarrow> ident \<Rightarrow> ident \<Rightarrow> actor \<Rightarrow> time \<Rightarrow> db \<Rightarrow> (exn + sessionResult) \<times> db" where
  "startMissionSession A others newSession newCommand missionId act now s =
     (case plan_start A s missionId act now of
        Inl e \<Rightarrow> (Inl e, others s)
      | Inr (Refuse_start f) \<Rightarrow> (Inr (Session_refused f), others s)
      | Inr (Open_live m expiresAt) \<Rightarrow>
         (let bounded = (if mission_booking s m = None then ''UNBOOKED_DEFAULT'' else ''BOOKING'')
          in case transaction (open_session newSession m act now expiresAt bounded) (others s) of
            (Inr session, s') \<Rightarrow> (Inr (Session_open (toContractSession session)), s')
          | (Inl e, s') \<Rightarrow>
              if isUniqueViolation e then (Inr (Session_refused (failure 409 MC_SESSION_NOT_OWNER)), s') else (Inl e, s'))
      | Inr (Start_scheduled m ob bk goto expiresAt) \<Rightarrow>
         (case transaction (begin_mission newSession newCommand m ob bk goto (ac_id act) now expiresAt) (others s) of
            (Inr (Some session), s') \<Rightarrow> (Inr (Session_open (toContractSession session)), s')
          | (Inr None, s') \<Rightarrow> (Inr (Session_refused (failure 409 MC_MISSION_NOT_ACTIVE)), s')
          | (Inl e, s') \<Rightarrow>
              if isUniqueViolation e then (Inr (Session_refused (failure 409 MC_CONFLICT)), s') else (Inl e, s')))"

section \<open>Ending a session\<close>

definition revoked_audit :: "ident \<Rightarrow> string \<Rightarrow> nat \<Rightarrow> auditLog_row" where
  "revoked_audit missionId reason count =
     (audit_entry MISSION ''MISSION_SESSION_REVOKED'' [(''reason'', JStr reason), (''revokedCount'', JNum (int count))])
     \<lparr>au_missionId := Some missionId, au_entityType := Some ''Mission'', au_entityId := Some missionId\<rparr>"

definition revokeMissionSession :: "ident \<Rightarrow> string \<Rightarrow> time \<Rightarrow> (db, bool) tx" where
  "revokeMissionSession missionId reason now =
     bindt (tx_find mission (\<lambda>m. mi_id m = missionId)) (\<lambda>found. case found of
       None \<Rightarrow> ret False
     | Some m \<Rightarrow>
         bindt (revokeSessions (\<lambda>x. ss_missionId x = missionId) now (Some reason)) (\<lambda>count.
         bindt (recordAuditEvent (revoked_audit missionId reason count)) (\<lambda>_.
         bindt (notifyAgent (NOTIFY_SESSION (mi_observatoryId m) missionId None)) (\<lambda>_.
         ret (0 < count)))))"

section \<open>What a client is told\<close>

record bookedSessionView =
  bf_currentTargetId :: "ident option"
  bf_sessionEndsAt :: "string option"
  bf_retargetAllowedAt :: "string option"

text \<open>\<open>sessions\<close> is the newest session that is not revoked, as \<open>BOOKED_SESSION_SELECT\<close> reads it.\<close>

definition newest_session :: "db \<Rightarrow> ident \<Rightarrow> missionSession_row option" where
  "newest_session s missionId =
     (case filter (\<lambda>x. ss_missionId x = missionId \<and> ss_revokedAt x = None) (missionSession s) of [] \<Rightarrow> None
      | x # xs \<Rightarrow> Some (foldl (\<lambda>best y. if ss_issuedAt best < ss_issuedAt y then y else best) x xs))"

definition bookedSessionFields :: "db \<Rightarrow> mission_row \<Rightarrow> bookedSessionView" where
  "bookedSessionFields s m =
     \<lparr>bf_currentTargetId = (case mi_currentTargetId m of Some t \<Rightarrow> Some t
        | None \<Rightarrow> if mi_startedAt m \<noteq> None then Some (mi_targetId m) else None),
      bf_sessionEndsAt = map_option toISOString (sessionEndsAtOf (mission_booking s m) (newest_session s (mi_id m))),
      bf_retargetAllowedAt = (if is_live m then map_option toISOString (dwellEndsAt (mi_currentTargetSince m)) else None)\<rparr>"

end
