(* ===== verification/Commands.thy ===== *)
theory Commands
  imports Sessions
begin

text \<open>
  From a customer's intent to a command for the mount: src/apps/api/src/features/missions/in-slot.ts
  (the rules of a booked session), src/apps/api/src/lib/ephemeris/visible-now.ts with
  features/missions/targets.ts (what the session may switch to), features/missions/command.ts
  (minting), features/admin/override.ts (the operator's way in) and
  src/apps/api/src/lib/observatory/command-authorization.ts.

  A command is decided on what the request reads and written by one transaction after it; as
  in Sessions, \<open>others\<close> is what other requests commit in between. \<open>String.localeCompare\<close>, which
  only orders the list of targets, is an argument.
\<close>

section \<open>Names in audit details\<close>

fun command_name :: "commandType \<Rightarrow> string" where
  "command_name CMD_GOTO = ''GOTO''"
| "command_name CMD_NUDGE = ''NUDGE''"
| "command_name CMD_CAPTURE = ''CAPTURE''"
| "command_name CMD_FOCUS = ''FOCUS''"
| "command_name CMD_ABORT = ''ABORT''"
| "command_name CMD_PARK = ''PARK''"
| "command_name CMD_SET_PROFILE = ''SET_PROFILE''"
| "command_name CMD_RETARGET = ''RETARGET''"

fun client_name :: "clientCommandType \<Rightarrow> string" where
  "client_name CC_NUDGE = ''NUDGE''"
| "client_name CC_CAPTURE = ''CAPTURE''"
| "client_name CC_RECENTER = ''RECENTER''"
| "client_name CC_ABORT = ''ABORT''"
| "client_name CC_RETARGET = ''RETARGET''"

fun safety_name :: "commandRejectionReason \<Rightarrow> string" where
  "safety_name SAFETY_ENVELOPE_UNMEASURED = ''SAFETY_ENVELOPE_UNMEASURED''"
| "safety_name DEVICE_UNAVAILABLE = ''DEVICE_UNAVAILABLE''"
| "safety_name SAFETY_SUN_EXCLUSION = ''SAFETY_SUN_EXCLUSION''"
| "safety_name SAFETY_DAYLIGHT_LOCK = ''SAFETY_DAYLIGHT_LOCK''"
| "safety_name SAFETY_BELOW_MIN_ALTITUDE = ''SAFETY_BELOW_MIN_ALTITUDE''"
| "safety_name SAFETY_ABOVE_MAX_ALTITUDE = ''SAFETY_ABOVE_MAX_ALTITUDE''"
| "safety_name SAFETY_HORIZON_MASK = ''SAFETY_HORIZON_MASK''"
| "safety_name SAFETY_FORBIDDEN_AZIMUTH = ''SAFETY_FORBIDDEN_AZIMUTH''"
| "safety_name SAFETY_NUDGE_LIMIT_EXCEEDED = ''SAFETY_NUDGE_LIMIT_EXCEEDED''"
| "safety_name SAFETY_SLEW_RATE = ''SAFETY_SLEW_RATE''"

text \<open>The codes an in-slot refusal can carry; no other code is written to the trail.\<close>

fun code_name :: "missionErrorCode \<Rightarrow> string" where
  "code_name MC_MISSION_BUSY = ''MISSION_BUSY''"
| "code_name MC_SESSION_ENDING = ''SESSION_ENDING''"
| "code_name MC_DWELL_LOCKED = ''DWELL_LOCKED''"
| "code_name MC_CONFLICT = ''CONFLICT''"
| "code_name MC_CAPTURE_IN_PROGRESS = ''CAPTURE_IN_PROGRESS''"
| "code_name MC_CAPTURE_COOLDOWN = ''CAPTURE_COOLDOWN''"
| "code_name MC_CAPTURE_LIMIT_REACHED = ''CAPTURE_LIMIT_REACHED''"
| "code_name MC_TARGET_NOT_OBSERVABLE = ''TARGET_NOT_OBSERVABLE''"
| "code_name c = []"

fun reason_name :: "rejectionReason \<Rightarrow> string" where
  "reason_name (By_safety r) = safety_name r"
| "reason_name (By_code c) = code_name c"
| "reason_name COMMAND_NOT_PERMITTED_FOR_CLIENT = ''COMMAND_NOT_PERMITTED_FOR_CLIENT''"
| "reason_name TARGET_NOT_VISIBLE_NOW = ''TARGET_NOT_VISIBLE_NOW''"

abbreviation reason_json :: "rejectionReason option \<Rightarrow> json" where
  "reason_json r \<equiv> (case r of None \<Rightarrow> JNull | Some x \<Rightarrow> JStr (reason_name x))"

section \<open>The rules of a booked session (in-slot.ts)\<close>

definition effectiveRetargetAllowedAt :: "time option \<Rightarrow> bool \<Rightarrow> bool \<Rightarrow> time \<Rightarrow> time option" where
  "effectiveRetargetAllowedAt dwellEnds unrecovered currentListed now =
     (case dwellEnds of None \<Rightarrow> None
      | Some t \<Rightarrow> if t \<le> now then None else if unrecovered \<or> \<not> currentListed then None else Some t)"

definition refused :: "missionErrorCode \<Rightarrow> time option \<Rightarrow> missionFailure" where
  "refused code allowedAt = (failure 409 code)\<lparr>mf_rejectionReason := Some (By_code code), mf_allowedAt := allowedAt\<rparr>"

record visibleFacts =
  vf_currentListed :: bool
  vf_listed :: bool
  vf_reasons :: "visibilityBlockReason list"

definition judgeRetarget ::
  "missionState \<Rightarrow> time \<Rightarrow> time \<Rightarrow> ident option \<Rightarrow> ident \<Rightarrow> time option \<Rightarrow> bool \<Rightarrow> visibleFacts \<Rightarrow> missionFailure option" where
  "judgeRetarget state now sessionEndsAt currentTargetId targetId dwellEnds unrecovered visible =
     (if state \<noteq> MS_OBSERVING then Some (refused MC_MISSION_BUSY None)
      else if sessionEndsAt - now < RETARGET_CLOSE_SECONDS * second_ms then Some (refused MC_SESSION_ENDING None)
      else if Some targetId = currentTargetId then Some (failure 409 MC_CONFLICT)
      else case effectiveRetargetAllowedAt dwellEnds unrecovered (vf_currentListed visible) now of
        Some allowedAt \<Rightarrow> Some (refused MC_DWELL_LOCKED (Some allowedAt))
      | None \<Rightarrow>
          if \<not> vf_listed visible
          then Some ((failure 409 MC_TARGET_NOT_OBSERVABLE)
                 \<lparr>mf_rejectionReason := Some TARGET_NOT_VISIBLE_NOW, mf_blockReasons := Some (vf_reasons visible)\<rparr>)
          else None)"

definition captureCooldownEndsAt :: "time option \<Rightarrow> time \<Rightarrow> time option" where
  "captureCooldownEndsAt lastIssuedAt now =
     (case lastIssuedAt of None \<Rightarrow> None
      | Some t \<Rightarrow> let endsAt = t + CAPTURE_COOLDOWN_SECONDS * second_ms in if now < endsAt then Some endsAt else None)"

record captureFacts =
  cf_lastIssuedAt :: "time option"
  cf_awaitingVerdict :: bool
  cf_captureCount :: nat

definition judgeCapture :: "missionState \<Rightarrow> time \<Rightarrow> time \<Rightarrow> captureFacts \<Rightarrow> missionFailure option" where
  "judgeCapture state now sessionEndsAt facts =
     (if cf_awaitingVerdict facts \<or> state = MS_CAPTURING \<or> state = MS_PROCESSING
      then Some (refused MC_CAPTURE_IN_PROGRESS None)
      else case captureCooldownEndsAt (cf_lastIssuedAt facts) now of
        Some t \<Rightarrow> Some (refused MC_CAPTURE_COOLDOWN (Some t))
      | None \<Rightarrow>
          if MAX_CAPTURES_PER_MISSION \<le> cf_captureCount facts then Some (refused MC_CAPTURE_LIMIT_REACHED None)
          else if sessionEndsAt - now < CAPTURE_CLOSE_SECONDS * second_ms then Some (refused MC_SESSION_ENDING None)
          else None)"

section \<open>What the session may switch to (visible-now.ts, targets.ts)\<close>

text \<open>\<open>evaluateSlotVisibility\<close> over a window given by its end: its length need not be whole minutes.\<close>

definition window_visibility ::
  "astronomy \<Rightarrow> site \<Rightarrow> safetyEnvelopeConfig option \<Rightarrow> observatoryState \<Rightarrow> target_row \<Rightarrow> time \<Rightarrow> time \<Rightarrow> exn + slotVisibility" where
  "window_visibility A st envelope ob tg startAt endMs =
     judge_samples (sample_reasons A tg st envelope ob) (samples_from startAt endMs @ [endMs]) [] None"

record visibleNowTarget =
  vn_target :: target_row
  vn_visibility :: slotVisibility
  vn_observableUntil :: time
  vn_current :: bool

record visibleNow =
  vs_evaluatedAt :: time
  vs_windowEndsAt :: time
  vs_items :: "visibleNowTarget list"
  vs_blocked :: "(ident \<times> visibilityBlockReason list) list"

fun last_observable :: "(time \<Rightarrow> exn + slotVisibility) \<Rightarrow> time \<Rightarrow> time list \<Rightarrow> exn + time" where
  "last_observable judge lst [] = Inr lst"
| "last_observable judge lst (t # ts) =
     (case judge t of Inl e \<Rightarrow> Inl e
      | Inr v \<Rightarrow> if \<not> sv_observable v then Inr lst else last_observable judge t ts)"

definition observableUntil ::
  "(target_row \<Rightarrow> time \<Rightarrow> time \<Rightarrow> exn + slotVisibility) \<Rightarrow> target_row \<Rightarrow> time \<Rightarrow> time \<Rightarrow> exn + time" where
  "observableUntil judge tg now sessionEndsAt =
     (let endMs = max now sessionEndsAt
      in last_observable (\<lambda>t. judge tg t t) now (samples_from now endMs @ [endMs]))"

text \<open>\<open>ranked.sort\<close>: highest first, then by slug; the sort is stable.\<close>

definition ranks_before :: "(string \<Rightarrow> string \<Rightarrow> bool) \<Rightarrow> visibleNowTarget \<times> real \<Rightarrow> visibleNowTarget \<times> real \<Rightarrow> bool" where
  "ranks_before before a b \<longleftrightarrow>
     snd b < snd a \<or> snd a = snd b \<and> before (tg_slug (vn_target (fst a))) (tg_slug (vn_target (fst b)))"

fun insert_ranked ::
  "(string \<Rightarrow> string \<Rightarrow> bool) \<Rightarrow> visibleNowTarget \<times> real \<Rightarrow> (visibleNowTarget \<times> real) list \<Rightarrow> (visibleNowTarget \<times> real) list" where
  "insert_ranked before x [] = [x]"
| "insert_ranked before x (y # ys) = (if ranks_before before x y then x # y # ys else y # insert_ranked before x ys)"

text \<open>The loop over the targets: those that pass, with their altitude, and why the others do not.\<close>

fun rank_targets ::
  "(target_row \<Rightarrow> exn + (visibleNowTarget \<times> real) + visibilityBlockReason list) \<Rightarrow> target_row list
   \<Rightarrow> (visibleNowTarget \<times> real) list \<Rightarrow> (ident \<times> visibilityBlockReason list) list
   \<Rightarrow> exn + (visibleNowTarget \<times> real) list \<times> (ident \<times> visibilityBlockReason list) list" where
  "rank_targets judge [] ranked blocked = Inr (ranked, blocked)"
| "rank_targets judge (tg # tgs) ranked blocked =
     (case judge tg of Inl e \<Rightarrow> Inl e
      | Inr (Inl item) \<Rightarrow> rank_targets judge tgs (ranked @ [item]) blocked
      | Inr (Inr reasons) \<Rightarrow> rank_targets judge tgs ranked (blocked @ [(tg_id tg, reasons)]))"

definition judge_target ::
  "astronomy \<Rightarrow> site \<Rightarrow> safetyEnvelopeConfig option \<Rightarrow> observatoryState \<Rightarrow> time \<Rightarrow> time \<Rightarrow> time \<Rightarrow> ident option
   \<Rightarrow> target_row \<Rightarrow> exn + (visibleNowTarget \<times> real) + visibilityBlockReason list" where
  "judge_target A st envelope ob now windowEndsAt sessionEndsAt currentTargetId tg =
     (case window_visibility A st envelope ob tg now windowEndsAt of Inl e \<Rightarrow> Inl e
      | Inr v \<Rightarrow>
         if \<not> sv_observable v then Inr (Inr (sv_blockReasons v))
         else case observableUntil (window_visibility A st envelope ob) tg now sessionEndsAt of Inl e \<Rightarrow> Inl e
         | Inr until \<Rightarrow>
            (case evaluateVisibility A tg st envelope ob ((now + windowEndsAt) div 2) of Inl e \<Rightarrow> Inl e
             | Inr mid \<Rightarrow> Inr (Inl (\<lparr>vn_target = tg, vn_visibility = v, vn_observableUntil = until,
                 vn_current = (Some (tg_id tg) = currentTargetId)\<rparr>, hz_altitudeDegrees (tv_horizontal mid)))))"

definition evaluateVisibleNow ::
  "astronomy \<Rightarrow> (string \<Rightarrow> string \<Rightarrow> bool) \<Rightarrow> target_row list \<Rightarrow> site \<Rightarrow> safetyEnvelopeConfig option \<Rightarrow> observatoryState
   \<Rightarrow> time \<Rightarrow> time \<Rightarrow> ident option \<Rightarrow> exn + visibleNow" where
  "evaluateVisibleNow A before targets st envelope ob now sessionEndsAt currentTargetId =
     (let windowEndsAt = max now (min sessionEndsAt (now + VISIBLE_NOW_WINDOW_SECONDS * second_ms))
      in if \<not> isMeasured envelope
         then Inr \<lparr>vs_evaluatedAt = now, vs_windowEndsAt = windowEndsAt, vs_items = [],
                vs_blocked = map (\<lambda>tg. (tg_id tg, [VB_SAFETY_ENVELOPE_UNMEASURED])) targets\<rparr>
         else case rank_targets (judge_target A st envelope ob now windowEndsAt sessionEndsAt currentTargetId) targets [] [] of
             Inl e \<Rightarrow> Inl e
           | Inr (ranked, blocked) \<Rightarrow>
               Inr \<lparr>vs_evaluatedAt = now, vs_windowEndsAt = windowEndsAt,
                 vs_items = map fst (foldl (\<lambda>acc x. insert_ranked before x acc) [] ranked), vs_blocked = blocked\<rparr>)"

text \<open>The query's order by slug is overridden by the sort above and left out.\<close>

definition visibleNowFor ::
  "astronomy \<Rightarrow> (string \<Rightarrow> string \<Rightarrow> bool) \<Rightarrow> db \<Rightarrow> observatory_row \<Rightarrow> ident option \<Rightarrow> time \<Rightarrow> time \<Rightarrow> exn + visibleNow" where
  "visibleNowFor A before s ob currentTargetId sessionEndsAt now =
     (case loadSafetyEnvelope s (ob_id ob) of Inl e \<Rightarrow> Inl e
      | Inr envelope \<Rightarrow>
          evaluateVisibleNow A before (filter tg_enabled (target s)) (site_of ob) envelope
            \<lparr>os_online = (ob_status ob = OB_ONLINE), os_weatherHold = (ob_holdActive ob = Some True)\<rparr>
            now sessionEndsAt currentTargetId)"

record missionTargetList =
  mt_missionId :: ident
  mt_sessionEndsAt :: time
  mt_currentTargetId :: ident
  mt_retargetAllowedAt :: "time option"
  mt_visible :: visibleNow

definition listMissionTargets ::
  "astronomy \<Rightarrow> (string \<Rightarrow> string \<Rightarrow> bool) \<Rightarrow> db \<Rightarrow> ident \<Rightarrow> ident \<Rightarrow> time \<Rightarrow> exn + missionTargetList + missionFailure" where
  "listMissionTargets A before s missionId userId now =
     (case find (\<lambda>m. mi_id m = missionId \<and> mi_userId m = userId) (mission s) of
        None \<Rightarrow> Inr (Inr (failure 404 MC_NOT_FOUND))
      | Some m \<Rightarrow>
         if \<not> is_live m then Inr (Inr (failure 409 MC_MISSION_NOT_ACTIVE))
         else case sessionEndsAtOf (mission_booking s m) (currentSession s missionId now) of
           None \<Rightarrow> Inr (Inr (failure 409 MC_MISSION_NOT_ACTIVE))
         | Some sessionEndsAt \<Rightarrow>
            (let currentTargetId = (case mi_currentTargetId m of None \<Rightarrow> mi_targetId m | Some t \<Rightarrow> t)
             in case observatory_of s (mi_observatoryId m) of Inl e \<Rightarrow> Inl e
             | Inr ob \<Rightarrow> (case visibleNowFor A before s ob (Some currentTargetId) sessionEndsAt now of Inl e \<Rightarrow> Inl e
               | Inr visible \<Rightarrow> Inr (Inl \<lparr>mt_missionId = mi_id m, mt_sessionEndsAt = sessionEndsAt,
                   mt_currentTargetId = currentTargetId,
                   mt_retargetAllowedAt = effectiveRetargetAllowedAt (dwellEndsAt (mi_currentTargetSince m))
                     (mi_imageUnrecoveredSince m \<noteq> None) (list_ex vn_current (vs_items visible)) now,
                   mt_visible = visible\<rparr>))))"

section \<open>What a client may not send (command.ts)\<close>

definition CLOUD_MINTED_FIELDS :: "string list" where
  "CLOUD_MINTED_FIELDS = [''commandId'', ''sessionId'', ''userId'', ''issuedAt'', ''expiresAt'']"

definition OPERATOR_ONLY_COMMANDS :: "string list" where
  "OPERATOR_ONLY_COMMANDS = [''GOTO'', ''FOCUS'', ''PARK'', ''SET_PROFILE'']"

fun fields_of :: "json \<Rightarrow> (string \<times> json) list" where
  "fields_of (JObj kvs) = kvs"
| "fields_of _ = []"

definition rejectCloudMintedFields :: "json \<Rightarrow> missionFailure option" where
  "rejectCloudMintedFields body =
     (let offending = filter (\<lambda>f. f \<in> fst ` set (fields_of body)) CLOUD_MINTED_FIELDS
      in if offending = [] then None
         else Some ((failure 422 MC_VALIDATION_FAILED)\<lparr>mf_rejectedFields := Some offending\<rparr>))"

definition rejectOperatorOnlyCommand :: "json \<Rightarrow> missionFailure option" where
  "rejectOperatorOnlyCommand body =
     (case map_of (fields_of body) ''type'' of
        Some (JStr type) \<Rightarrow>
          if type \<in> set OPERATOR_ONLY_COMMANDS
          then Some ((failure 403 MC_FORBIDDEN)\<lparr>mf_rejectionReason := Some COMMAND_NOT_PERMITTED_FOR_CLIENT\<rparr>)
          else None
      | _ \<Rightarrow> None)"

section \<open>Minting a command (command.ts)\<close>

record missionCommandRequest =
  mr_type :: clientCommandType
  mr_nudge :: "nudge_payload option"
  mr_capture :: "capture_payload option"
  mr_retarget :: "ident option"
  mr_reason :: "string option"

text \<open>The reads of \<open>captureHistory\<close>: the newest CAPTURE, those awaiting a verdict, the captures taken.\<close>

definition captures_of :: "db \<Rightarrow> ident \<Rightarrow> command_row list" where
  "captures_of s missionId = filter (\<lambda>c. cm_missionId c = missionId \<and> cm_type c = CMD_CAPTURE) (observatoryCommand s)"

definition awaiting :: "time \<Rightarrow> command_row \<Rightarrow> bool" where
  "awaiting now c \<longleftrightarrow> cm_status c \<in> {CS_RECEIVED, CS_AUTHORIZED, CS_EXECUTING} \<and> cm_result c = None \<and> now < cm_expiresAt c"

definition captureHistory :: "db \<Rightarrow> ident \<Rightarrow> time \<Rightarrow> captureFacts" where
  "captureHistory s missionId now =
     \<lparr>cf_lastIssuedAt = (case map cm_issuedAt (captures_of s missionId) of [] \<Rightarrow> None | t # ts \<Rightarrow> Some (foldl max t ts)),
      cf_awaitingVerdict = list_ex (awaiting now) (captures_of s missionId),
      cf_captureCount = length (filter (\<lambda>c. cp_missionId c = missionId) (capture s))\<rparr>"

abbreviation missingPayload :: missionFailure where
  "missingPayload \<equiv> failure 422 MC_VALIDATION_FAILED"

definition buildPayload ::
  "astronomy \<Rightarrow> missionCommandRequest \<Rightarrow> mission_row \<Rightarrow> target_row \<Rightarrow> target_row option \<Rightarrow> booking_row option
   \<Rightarrow> observatory_row \<Rightarrow> target_row option \<Rightarrow> time \<Rightarrow> exn + missionFailure + commandType \<times> commandPayload" where
  "buildPayload A request m tg currentTarget bk ob retargetTo now =
     (case mr_type request of
        CC_NUDGE \<Rightarrow> Inr (case mr_nudge request of None \<Rightarrow> Inl missingPayload | Some n \<Rightarrow> Inr (CMD_NUDGE, Nudge n))
      | CC_CAPTURE \<Rightarrow> Inr (case mr_capture request of None \<Rightarrow> Inl missingPayload | Some c \<Rightarrow> Inr (CMD_CAPTURE, Capture c))
      | CC_ABORT \<Rightarrow> Inr (Inr (CMD_ABORT,
          Abort (Some (case mr_reason request of None \<Rightarrow> ''CUSTOMER_ABORT'' | Some r \<Rightarrow> r))))
      | CC_RECENTER \<Rightarrow>
          (if (case bk of None \<Rightarrow> mi_targetId m | Some b \<Rightarrow> bk_targetId b) \<noteq> tg_id tg then Inr (Inl (failure 409 MC_INTERNAL))
           else let current = (case currentTarget of None \<Rightarrow> tg | Some c \<Rightarrow> c)
                in case equatorialFor A current now (site_of ob) of Inl e \<Rightarrow> Inl e
                   | Inr coordinates \<Rightarrow> Inr (Inr (CMD_GOTO, Goto (goto_of current coordinates) (Some True))))
      | CC_RETARGET \<Rightarrow>
          (case (mr_retarget request, retargetTo) of
             (Some _, Some to) \<Rightarrow>
               (case equatorialFor A to now (site_of ob) of Inl e \<Rightarrow> Inl e
                | Inr coordinates \<Rightarrow> Inr (Inr (CMD_RETARGET, Retarget (goto_of to coordinates))))
           | _ \<Rightarrow> Inr (Inl missingPayload)))"

definition unsafe :: "commandRejectionReason \<Rightarrow> missionFailure" where
  "unsafe reason = (failure 409 MC_SAFETY_REFUSED)\<lparr>mf_rejectionReason := Some (By_safety reason)\<rparr>"

definition verdict_failure :: "safetyVerdict \<Rightarrow> missionFailure option" where
  "verdict_failure v = (case v of PERMITTED \<Rightarrow> None | Refused_pointing r \<Rightarrow> Some (unsafe r))"

definition preValidate ::
  "astronomy \<Rightarrow> db \<Rightarrow> commandType \<Rightarrow> commandPayload \<Rightarrow> observatory_row \<Rightarrow> time \<Rightarrow> exn + missionFailure option" where
  "preValidate A s type payload ob now =
     (if type \<noteq> CMD_GOTO \<and> type \<noteq> CMD_NUDGE \<and> type \<noteq> CMD_RETARGET then Inr None
      else case loadSafetyEnvelope s (ob_id ob) of Inl e \<Rightarrow> Inl e
      | Inr config \<Rightarrow>
          Inr (case (type, payload) of
             (CMD_NUDGE, Nudge n) \<Rightarrow> verdict_failure (evaluateNudgeStep config (np_stepArcminutes n / 60))
           | (CMD_GOTO, Goto g _) \<Rightarrow> verdict_failure (judge_coordinates A config ob (gp_coordinates g) now)
           | (CMD_RETARGET, Retarget g) \<Rightarrow> verdict_failure (judge_coordinates A config ob (gp_coordinates g) now)
           | _ \<Rightarrow> None))"

text \<open>The in-slot judgement of a CAPTURE or a RETARGET; \<open>retargetTo\<close> is the requested target's row.\<close>

definition visible_facts :: "visibleNow option \<Rightarrow> target_row \<Rightarrow> visibleFacts" where
  "visible_facts visible requested =
     (let items = (case visible of None \<Rightarrow> [] | Some v \<Rightarrow> vs_items v);
          listed = list_ex (\<lambda>i. tg_id (vn_target i) = tg_id requested) items
      in \<lparr>vf_currentListed = list_ex vn_current items, vf_listed = listed,
          vf_reasons = (if listed then []
            else case (case visible of None \<Rightarrow> None | Some v \<Rightarrow> map_of (rev (vs_blocked v)) (tg_id requested)) of
              Some rs \<Rightarrow> rs
            | None \<Rightarrow> if tg_enabled requested then [] else [VB_TARGET_DISABLED])\<rparr>)"

definition judge_retarget ::
  "astronomy \<Rightarrow> (string \<Rightarrow> string \<Rightarrow> bool) \<Rightarrow> db \<Rightarrow> mission_row \<Rightarrow> observatory_row \<Rightarrow> time \<Rightarrow> time \<Rightarrow> target_row
   \<Rightarrow> exn + missionFailure option" where
  "judge_retarget A before s m ob sessionEndsAt now requested =
     (let currentTargetId = (case mi_currentTargetId m of None \<Rightarrow> mi_targetId m | Some t \<Rightarrow> t)
      in case (if mi_state m = MS_OBSERVING \<and> tg_id requested \<noteq> currentTargetId
               then map_sum id Some (visibleNowFor A before s ob (Some currentTargetId) sessionEndsAt now)
               else Inr None) of
           Inl e \<Rightarrow> Inl e
         | Inr visible \<Rightarrow>
             Inr (judgeRetarget (mi_state m) now sessionEndsAt (Some currentTargetId) (tg_id requested)
               (dwellEndsAt (mi_currentTargetSince m)) (mi_imageUnrecoveredSince m \<noteq> None) (visible_facts visible requested)))"

text \<open>
  What the reads decide: a refusal, with the audit entry it leaves, or a payload to write for
  the session that owns the mission.
\<close>

datatype mintPlan =
    Refuse_mint missionFailure "auditLog_row option"
  | Mint mission_row observatory_row missionSession_row commandType commandPayload

definition refusal_audit ::
  "auditCategory \<Rightarrow> string \<Rightarrow> actor \<Rightarrow> mission_row \<Rightarrow> string \<Rightarrow> json \<Rightarrow> auditLog_row" where
  "refusal_audit category action act m name reason =
     (audit_entry category action [(''commandType'', JStr name), (''rejectionReason'', reason)])
     \<lparr>au_actorUserId := Some (ac_id act), au_missionId := Some (mi_id m), au_entityType := Some ''Mission'',
      au_entityId := Some (mi_id m), au_isDemo := mi_isDemo m\<rparr>"

definition in_slot_audit :: "actor \<Rightarrow> mission_row \<Rightarrow> clientCommandType \<Rightarrow> missionFailure \<Rightarrow> auditLog_row" where
  "in_slot_audit act m type f =
     refusal_audit COMMAND ''COMMAND_REFUSED_IN_SLOT'' act m (client_name type)
       (case mf_rejectionReason f of None \<Rightarrow> JStr (code_name (mf_code f)) | Some r \<Rightarrow> JStr (reason_name r))"

text \<open>The rest of a mint, once the in-slot rules have spoken.\<close>

definition mint_payload ::
  "astronomy \<Rightarrow> db \<Rightarrow> missionCommandRequest \<Rightarrow> actor \<Rightarrow> mission_row \<Rightarrow> observatory_row \<Rightarrow> missionSession_row
   \<Rightarrow> target_row option \<Rightarrow> time \<Rightarrow> missionFailure option \<Rightarrow> exn + mintPlan" where
  "mint_payload A s request act m ob session retargetTo now inSlot =
     (case inSlot of Some f \<Rightarrow> Inr (Refuse_mint f (Some (in_slot_audit act m (mr_type request) f)))
      | None \<Rightarrow>
        (case target_of s (mi_targetId m) of Inl e \<Rightarrow> Inl e
         | Inr tg \<Rightarrow>
           (case buildPayload A request m tg (find (\<lambda>t. Some (tg_id t) = mi_currentTargetId m) (target s))
                  (mission_booking s m) ob retargetTo now of
              Inl e \<Rightarrow> Inl e
            | Inr (Inl f) \<Rightarrow> Inr (Refuse_mint f None)
            | Inr (Inr (type, payload)) \<Rightarrow>
                (case preValidate A s type payload ob now of Inl e \<Rightarrow> Inl e
                 | Inr (Some f) \<Rightarrow> Inr (Refuse_mint f (Some (refusal_audit SAFETY ''COMMAND_REFUSED_BY_CLOUD'' act m
                     (command_name type) (reason_json (mf_rejectionReason f)))))
                 | Inr None \<Rightarrow> Inr (Mint m ob session type payload)))))"

definition ends_at :: "db \<Rightarrow> mission_row \<Rightarrow> missionSession_row \<Rightarrow> time" where
  "ends_at s m session =
     (case sessionEndsAtOf (mission_booking s m) (Some session) of None \<Rightarrow> ss_expiresAt session | Some t \<Rightarrow> t)"

definition plan_command ::
  "astronomy \<Rightarrow> (string \<Rightarrow> string \<Rightarrow> bool) \<Rightarrow> db \<Rightarrow> ident \<Rightarrow> missionCommandRequest \<Rightarrow> actor \<Rightarrow> time \<Rightarrow> exn + mintPlan" where
  "plan_command A before s missionId request act now =
     (case find (\<lambda>m. mi_id m = missionId) (mission s) of None \<Rightarrow> Inr (Refuse_mint (failure 404 MC_NOT_FOUND) None)
      | Some m \<Rightarrow>
         if ac_role act \<noteq> ROLE_OPERATOR \<and> mi_userId m \<noteq> ac_id act then Inr (Refuse_mint (failure 404 MC_NOT_FOUND) None)
         else if \<not> is_live m then Inr (Refuse_mint (failure 409 MC_MISSION_NOT_ACTIVE) None)
         else case currentSession s missionId now of None \<Rightarrow> Inr (Refuse_mint (failure 409 MC_MISSION_NOT_ACTIVE) None)
         | Some session \<Rightarrow>
             if ss_userId session \<noteq> ac_id act then Inr (Refuse_mint (failure 409 MC_SESSION_NOT_OWNER) None)
             else case observatory_of s (mi_observatoryId m) of Inl e \<Rightarrow> Inl e
             | Inr ob \<Rightarrow>
                (let sessionEndsAt = ends_at s m session
                 in case mr_type request of
                      CC_CAPTURE \<Rightarrow> mint_payload A s request act m ob session None now
                        (judgeCapture (mi_state m) now sessionEndsAt (captureHistory s missionId now))
                    | CC_RETARGET \<Rightarrow>
                        (case mr_retarget request of None \<Rightarrow> Inr (Refuse_mint missingPayload None)
                         | Some targetId \<Rightarrow>
                            (case find (\<lambda>t. tg_id t = targetId) (target s) of
                               None \<Rightarrow> Inr (Refuse_mint (failure 404 MC_NOT_FOUND) None)
                             | Some to \<Rightarrow>
                                (case judge_retarget A before s m ob sessionEndsAt now to of Inl e \<Rightarrow> Inl e
                                 | Inr inSlot \<Rightarrow> mint_payload A s request act m ob session (Some to) now inSlot)))
                    | _ \<Rightarrow> mint_payload A s request act m ob session None now None))"

text \<open>The transaction that writes a command, rings the bell and records it; the override shares it.\<close>

definition write_command :: "command_row \<Rightarrow> auditLog_row \<Rightarrow> (db, unit) tx" where
  "write_command c entry =
     bindt (createCommand c) (\<lambda>_.
     bindt (notifyAgent (NOTIFY_COMMAND (cm_id c) (cm_observatoryId c))) (\<lambda>_.
     recordAuditEvent entry))"

definition minted_audit :: "actor \<Rightarrow> clientCommandType \<Rightarrow> command_row \<Rightarrow> auditLog_row" where
  "minted_audit act requested c =
     (audit_entry COMMAND ''COMMAND_MINTED''
        [(''commandType'', JStr (command_name (cm_type c))), (''requestedType'', JStr (client_name requested)),
         (''sessionId'', JStr (cm_sessionId c)), (''expiresAt'', JStr (toISOString (cm_expiresAt c))),
         (''simulated'', JBool (cm_simulated c))])
     \<lparr>au_actorUserId := Some (ac_id act), au_missionId := Some (cm_missionId c), au_commandId := Some (cm_id c),
      au_isDemo := cm_isDemo c\<rparr>"

record missionCommandAccepted =
  ma_commandId :: ident
  ma_missionId :: ident
  ma_type :: commandType
  ma_issuedAt :: string
  ma_expiresAt :: string
  ma_status :: acceptanceStatus

definition accepted :: "command_row \<Rightarrow> missionCommandAccepted" where
  "accepted c = \<lparr>ma_commandId = cm_id c, ma_missionId = cm_missionId c, ma_type = cm_type c,
     ma_issuedAt = toISOString (cm_issuedAt c), ma_expiresAt = toISOString (cm_expiresAt c), ma_status = AS_ACCEPTED\<rparr>"

datatype mintResult = Command_accepted missionCommandAccepted | Command_refused missionFailure

text \<open>A refusal that leaves an entry writes only that; one that leaves none writes nothing.\<close>

definition refuse_with :: "missionFailure \<Rightarrow> auditLog_row option \<Rightarrow> db \<Rightarrow> (exn + mintResult) \<times> db" where
  "refuse_with f entry s =
     (case entry of None \<Rightarrow> (Inr (Command_refused f), s)
      | Some a \<Rightarrow> transaction (bindt (recordAuditEvent a) (\<lambda>_. ret (Command_refused f))) s)"

definition mintMissionCommand ::
  "astronomy \<Rightarrow> (string \<Rightarrow> string \<Rightarrow> bool) \<Rightarrow> (db \<Rightarrow> db) \<Rightarrow> ident \<Rightarrow> ident \<Rightarrow> missionCommandRequest \<Rightarrow> actor \<Rightarrow> time \<Rightarrow> db
   \<Rightarrow> (exn + mintResult) \<times> db" where
  "mintMissionCommand A before others newCommand missionId request act now s =
     (case plan_command A before s missionId request act now of
        Inl e \<Rightarrow> (Inl e, others s)
      | Inr (Refuse_mint f entry) \<Rightarrow> refuse_with f entry (others s)
      | Inr (Mint m ob session type payload) \<Rightarrow>
          (let c = command_for newCommand m ob session now type payload
           in transaction (bindt (write_command c (minted_audit act (mr_type request) c))
                (\<lambda>_. ret (Command_accepted (accepted c)))) (others s)))"

section \<open>The operator's override (override.ts)\<close>

fun payload_kind :: "commandPayload \<Rightarrow> commandType" where
  "payload_kind (Goto g r) = CMD_GOTO"
| "payload_kind (Nudge n) = CMD_NUDGE"
| "payload_kind (Capture c) = CMD_CAPTURE"
| "payload_kind (Focus f p) = CMD_FOCUS"
| "payload_kind (Abort r) = CMD_ABORT"
| "payload_kind (Park r) = CMD_PARK"
| "payload_kind (SetProfile p) = CMD_SET_PROFILE"
| "payload_kind (Retarget g) = CMD_RETARGET"

definition RECOVERY_COMMANDS :: "commandType list" where
  "RECOVERY_COMMANDS = [CMD_PARK, CMD_ABORT]"

definition isRecoveryCommand :: "commandType \<Rightarrow> bool" where
  "isRecoveryCommand kind \<longleftrightarrow> kind \<in> set RECOVERY_COMMANDS"

record overrideRequest =
  or_missionId :: "ident option"
  or_type :: commandType
  or_payload :: commandPayload
  or_reason :: string

definition overrideIsExemptFromMetering :: "overrideRequest \<Rightarrow> bool" where
  "overrideIsExemptFromMetering request \<longleftrightarrow>
     isRecoveryCommand (or_type request) \<and> isRecoveryCommand (payload_kind (or_payload request))"

fun slew_of :: "commandPayload \<Rightarrow> equatorial option" where
  "slew_of (Goto g r) = Some (gp_coordinates g)"
| "slew_of (Retarget g) = Some (gp_coordinates g)"
| "slew_of _ = None"

definition preValidateOverride ::
  "astronomy \<Rightarrow> db \<Rightarrow> commandPayload \<Rightarrow> observatory_row \<Rightarrow> time \<Rightarrow> exn + missionFailure option" where
  "preValidateOverride A s payload ob now =
     (if isRecoveryCommand (payload_kind payload) then Inr None
      else case slew_of payload of None \<Rightarrow> Inr None
      | Some coordinates \<Rightarrow>
         (case loadSafetyEnvelope s (ob_id ob) of Inl e \<Rightarrow> Inl e
          | Inr config \<Rightarrow> Inr (verdict_failure (judge_coordinates A config ob coordinates now))))"

definition override_audit :: "ident \<Rightarrow> mission_row \<Rightarrow> (string \<times> json) list \<Rightarrow> auditLog_row" where
  "override_audit operatorId m detail =
     (audit_entry OPERATOR_OVERRIDE ''OPERATOR_OVERRIDE_ISSUED'' detail)
     \<lparr>au_actorUserId := Some operatorId, au_missionId := Some (mi_id m), au_isDemo := mi_isDemo m\<rparr>"

definition refused_override_audit :: "ident \<Rightarrow> mission_row \<Rightarrow> overrideRequest \<Rightarrow> missionFailure \<Rightarrow> auditLog_row" where
  "refused_override_audit operatorId m request f =
     (override_audit operatorId m
        [(''outcome'', JStr ''REFUSED_BY_CLOUD''), (''commandType'', JStr (command_name (or_type request))),
         (''reason'', JStr (or_reason request)), (''rejectionReason'', reason_json (mf_rejectionReason f))])
     \<lparr>au_entityType := Some ''Mission'', au_entityId := Some (mi_id m)\<rparr>"

definition relayed_override_audit ::
  "ident \<Rightarrow> mission_row \<Rightarrow> overrideRequest \<Rightarrow> missionSession_row \<Rightarrow> ident \<Rightarrow> auditLog_row" where
  "relayed_override_audit operatorId m request session commandId =
     (override_audit operatorId m
        [(''outcome'', JStr ''RELAYED''), (''commandType'', JStr (command_name (or_type request))),
         (''reason'', JStr (or_reason request)), (''sessionOwnerId'', JStr (ss_userId session))])
     \<lparr>au_commandId := Some commandId, au_entityType := Some ''ObservatoryCommand'', au_entityId := Some commandId\<rparr>"

definition plan_override :: "astronomy \<Rightarrow> db \<Rightarrow> overrideRequest \<Rightarrow> ident \<Rightarrow> time \<Rightarrow> exn + mintPlan" where
  "plan_override A s request operatorId now =
     (case or_missionId request of None \<Rightarrow> Inr (Refuse_mint missingPayload None)
      | Some missionId \<Rightarrow>
        (case find (\<lambda>m. mi_id m = missionId) (mission s) of None \<Rightarrow> Inr (Refuse_mint (failure 404 MC_NOT_FOUND) None)
         | Some m \<Rightarrow>
            if \<not> is_live m then Inr (Refuse_mint (failure 409 MC_MISSION_NOT_ACTIVE) None)
            else case currentSession s missionId now of None \<Rightarrow> Inr (Refuse_mint (failure 409 MC_MISSION_NOT_ACTIVE) None)
            | Some session \<Rightarrow>
                if payload_kind (or_payload request) \<noteq> or_type request then Inr (Refuse_mint missingPayload None)
                else case observatory_of s (mi_observatoryId m) of Inl e \<Rightarrow> Inl e
                | Inr ob \<Rightarrow>
                   (case preValidateOverride A s (or_payload request) ob now of Inl e \<Rightarrow> Inl e
                    | Inr (Some f) \<Rightarrow> Inr (Refuse_mint f (Some (refused_override_audit operatorId m request f)))
                    | Inr None \<Rightarrow> Inr (Mint m ob session (or_type request) (or_payload request)))))"

definition issueOperatorOverride ::
  "astronomy \<Rightarrow> (db \<Rightarrow> db) \<Rightarrow> ident \<Rightarrow> overrideRequest \<Rightarrow> ident \<Rightarrow> time \<Rightarrow> db \<Rightarrow> (exn + mintResult) \<times> db" where
  "issueOperatorOverride A others newCommand request operatorId now s =
     (case plan_override A s request operatorId now of
        Inl e \<Rightarrow> (Inl e, others s)
      | Inr (Refuse_mint f entry) \<Rightarrow> refuse_with f entry (others s)
      | Inr (Mint m ob session type payload) \<Rightarrow>
          (let c = command_for newCommand m ob session now type payload
           in transaction (bindt (write_command c (relayed_override_audit operatorId m request session newCommand))
                (\<lambda>_. ret (Command_accepted (accepted c)))) (others s)))"

section \<open>Authorization of a command (command-authorization.ts)\<close>

datatype commandCategory = CATEGORY_MISSION | CATEGORY_ADMINISTRATIVE
datatype commandDenial =
  UNAUTHENTICATED | ROLE_FORBIDDEN | NO_ACTIVE_MISSION | INVALID_LEASE | COMMAND_EXPIRED
| OBSERVATORY_NOT_READY | SAFETY_REJECTED

record authorizationContext =
  ax_actor :: "actor option"
  ax_mission :: "(ident \<times> ident \<times> bool \<times> missionState) option"
  ax_lease :: "(ident \<times> ident \<times> time \<times> time option) option"
  ax_category :: commandCategory
  ax_expiresAt :: time
  ax_observatoryReady :: bool
  ax_safetyApproved :: bool
  ax_now :: time

text \<open>A mission is its id, owner, whether a session is active, and state; a lease its mission, user, end and revocation.\<close>

definition authorizeTelescopeCommand :: "authorizationContext \<Rightarrow> commandDenial option" where
  "authorizeTelescopeCommand ctx =
     (case ax_actor ctx of None \<Rightarrow> Some UNAUTHENTICATED
      | Some act \<Rightarrow>
         if ax_category ctx = CATEGORY_ADMINISTRATIVE \<and> ac_role act = ROLE_USER then Some ROLE_FORBIDDEN
         else case ax_mission ctx of None \<Rightarrow> Some NO_ACTIVE_MISSION
         | Some (mid, owner, sessionActive, state) \<Rightarrow>
             if \<not> sessionActive \<or> state \<notin> set LIVE_MISSION_STATES \<or> ac_role act = ROLE_USER \<and> owner \<noteq> ac_id act
             then Some NO_ACTIVE_MISSION
             else case ax_lease ctx of None \<Rightarrow> Some INVALID_LEASE
             | Some (lmid, luser, lexp, lrev) \<Rightarrow>
                 if lrev \<noteq> None \<or> lexp \<le> ax_now ctx \<or> lmid \<noteq> mid \<or> luser \<noteq> ac_id act then Some INVALID_LEASE
                 else if ax_expiresAt ctx \<le> ax_now ctx then Some COMMAND_EXPIRED
                 else if \<not> ax_observatoryReady ctx then Some OBSERVATORY_NOT_READY
                 else if \<not> ax_safetyApproved ctx then Some SAFETY_REJECTED
                 else None)"

end
