(* ===== verification/Mission_Link.thy ===== *)
theory Mission_Link
  imports Commands
begin

text \<open>
  The observatory's side of a mission: src/apps/realtime/src/link/store.ts (the transition
  table and the vocabulary of verdicts), the writes of src/apps/realtime/src/link/prisma-store.ts,
  and what a watching client is told, src/apps/realtime/src/mission/booked-session.ts. With them
  the operator's cancellation, \<open>cancelMissionAsOperator\<close> of
  src/apps/api/src/features/admin/missions.ts. Two more routes of the operator write a mission's
  state and are not modelled: the weather hold (admin/observatory.ts, which also mints a PARK)
  and the test mission (admin/test-mission.ts).

  Each write is one transaction. \<open>recordCommandVerdict\<close> and the two sweeps run several: what
  other connections commit before each of theirs is a function on the database, an argument.
\<close>

section \<open>The transition table (store.ts)\<close>

definition HOLD_MISSION_STATES :: "missionState list" where
  "HOLD_MISSION_STATES = [MS_WEATHER_HOLD, MS_NOT_VISIBLE, MS_HARDWARE_ERROR]"

fun LEGAL_PREDECESSORS :: "missionState \<Rightarrow> missionState list" where
  "LEGAL_PREDECESSORS MS_REQUESTED = []"
| "LEGAL_PREDECESSORS MS_SCHEDULED = []"
| "LEGAL_PREDECESSORS MS_PREPARING = MS_SCHEDULED # HOLD_MISSION_STATES"
| "LEGAL_PREDECESSORS MS_SLEWING = [MS_PREPARING, MS_CENTERING, MS_OBSERVING]"
| "LEGAL_PREDECESSORS MS_VERIFYING = [MS_SLEWING]"
| "LEGAL_PREDECESSORS MS_CENTERING = [MS_VERIFYING]"
| "LEGAL_PREDECESSORS MS_OBSERVING = [MS_VERIFYING, MS_PROCESSING]"
| "LEGAL_PREDECESSORS MS_CAPTURING = [MS_OBSERVING]"
| "LEGAL_PREDECESSORS MS_PROCESSING = [MS_CAPTURING]"
| "LEGAL_PREDECESSORS MS_COMPLETE = [MS_PROCESSING, MS_OBSERVING]"
| "LEGAL_PREDECESSORS MS_WEATHER_HOLD = LIVE_MISSION_STATES @ [MS_SCHEDULED]"
| "LEGAL_PREDECESSORS MS_NOT_VISIBLE = LIVE_MISSION_STATES @ [MS_SCHEDULED]"
| "LEGAL_PREDECESSORS MS_HARDWARE_ERROR = LIVE_MISSION_STATES @ [MS_SCHEDULED]"
| "LEGAL_PREDECESSORS MS_CANCELLED = LIVE_MISSION_STATES @ [MS_SCHEDULED]"
| "LEGAL_PREDECESSORS MS_FAILED = LIVE_MISSION_STATES @ [MS_SCHEDULED]"

definition legalPredecessorsOf :: "missionState \<Rightarrow> missionState list" where
  "legalPredecessorsOf to = to # LEGAL_PREDECESSORS to"

definition isLegalMissionTransition :: "missionState \<Rightarrow> missionState \<Rightarrow> bool" where
  "isLegalMissionTransition from to \<longleftrightarrow> from \<in> set (legalPredecessorsOf to)"

abbreviation is_terminal :: "missionState \<Rightarrow> bool" where
  "is_terminal st \<equiv> st \<in> set TERMINAL_MISSION_STATES"

section \<open>Verdicts (store.ts)\<close>

definition START_NOT_RUN_STATUSES :: "commandStatus list" where
  "START_NOT_RUN_STATUSES = [CS_REJECTED, CS_EXPIRED, CS_FAILED]"

definition TERMINAL_COMMAND_STATUSES :: "commandStatus list" where
  "TERMINAL_COMMAND_STATUSES = [CS_COMPLETED, CS_REJECTED, CS_EXPIRED, CS_FAILED]"

definition isTerminalCommandStatus :: "commandStatus \<Rightarrow> bool" where
  "isTerminalCommandStatus status \<longleftrightarrow> status \<in> set TERMINAL_COMMAND_STATUSES"

fun isStartingGoto :: "commandType \<Rightarrow> commandPayload \<Rightarrow> bool" where
  "isStartingGoto CMD_GOTO (Goto g recenter) = (recenter \<noteq> Some True)"
| "isStartingGoto _ _ = False"

fun payload_target :: "commandPayload \<Rightarrow> ident option" where
  "payload_target (Goto g recenter) = Some (gp_targetId g)"
| "payload_target (Retarget g) = Some (gp_targetId g)"
| "payload_target _ = None"

definition dwellTargetOf :: "commandType \<Rightarrow> commandPayload \<Rightarrow> ident option" where
  "dwellTargetOf type payload =
     (if type \<noteq> CMD_RETARGET \<and> \<not> isStartingGoto type payload then None else payload_target payload)"

definition failureReasonForRefusedStart :: "string option \<Rightarrow> missionFailureReason option" where
  "failureReasonForRefusedStart rejectionReason =
     (case rejectionReason of None \<Rightarrow> None
      | Some r \<Rightarrow> if take 7 r = ''SAFETY_'' then Some MF_SAFETY_REFUSED else None)"

fun COMMAND_STATUS_FOR :: "acceptanceStatus \<Rightarrow> commandStatus option" where
  "COMMAND_STATUS_FOR AS_ACCEPTED = Some CS_EXECUTING"
| "COMMAND_STATUS_FOR AS_REJECTED = Some CS_REJECTED"
| "COMMAND_STATUS_FOR AS_EXPIRED = Some CS_EXPIRED"
| "COMMAND_STATUS_FOR AS_COMPLETED = Some CS_COMPLETED"
| "COMMAND_STATUS_FOR AS_FAILED = Some CS_FAILED"
| "COMMAND_STATUS_FOR AS_DUPLICATE = None"

section \<open>Reading and relaying (prisma-store.ts)\<close>

definition recordInboundMessage :: "ident \<Rightarrow> (db, bool) tx" where
  "recordInboundMessage messageId =
     bindt (tx_createSkip agentMessage agentMessage_update (=) messageId) (\<lambda>count. ret (count = 1))"

definition PENDING_SWEEP_LIMIT :: nat where "PENDING_SWEEP_LIMIT = 50"

definition pendingCommands :: "db \<Rightarrow> ident \<Rightarrow> time \<Rightarrow> command_row list" where
  "pendingCommands s observatoryId now =
     take PENDING_SWEEP_LIMIT (sort_key cm_issuedAt
       (filter (\<lambda>c. cm_observatoryId c = observatoryId \<and> cm_relayedAt c = None \<and> now < cm_expiresAt c) (observatoryCommand s)))"

definition markCommandRelayed :: "ident \<Rightarrow> time \<Rightarrow> (db, unit) tx" where
  "markCommandRelayed commandId now =
     tx_update observatoryCommand observatoryCommand_update (\<lambda>c. cm_id c = commandId)
       (\<lambda>c. c\<lparr>cm_relayedAt := Some now, cm_status := CS_EXECUTING\<rparr>)"

definition loadSession :: "db \<Rightarrow> ident \<Rightarrow> missionSession_row option" where
  "loadSession s sessionId =
     (case find (\<lambda>x. ss_id x = sessionId) (missionSession s) of None \<Rightarrow> None
      | Some x \<Rightarrow> if ss_revokedAt x \<noteq> None then None else Some x)"

definition newest :: "missionSession_row list \<Rightarrow> missionSession_row option" where
  "newest xs = (case xs of [] \<Rightarrow> None
     | y # ys \<Rightarrow> Some (foldl (\<lambda>best z. if ss_issuedAt best < ss_issuedAt z then z else best) y ys))"

definition activeSession :: "db \<Rightarrow> ident \<Rightarrow> time \<Rightarrow> missionSession_row option" where
  "activeSession s observatoryId now =
     newest (filter (\<lambda>x. ss_revokedAt x = None \<and> now < ss_expiresAt x
       \<and> list_ex (\<lambda>m. mi_id m = ss_missionId x \<and> mi_observatoryId m = observatoryId \<and> is_live m) (mission s)) (missionSession s))"

definition liveMissionId :: "db \<Rightarrow> ident \<Rightarrow> ident option" where
  "liveMissionId s observatoryId =
     map_option mi_id (find (\<lambda>m. mi_observatoryId m = observatoryId \<and> is_live m) (mission s))"

definition observatoryOwnsMission :: "db \<Rightarrow> ident \<Rightarrow> ident \<Rightarrow> bool" where
  "observatoryOwnsMission s observatoryId missionId \<longleftrightarrow>
     (case find (\<lambda>m. mi_id m = missionId) (mission s) of None \<Rightarrow> False | Some m \<Rightarrow> mi_observatoryId m = observatoryId)"

definition heldObserverSeat :: "db \<Rightarrow> ident \<Rightarrow> ident \<Rightarrow> bool" where
  "heldObserverSeat s missionId userId \<longleftrightarrow>
     list_ex (\<lambda>p. mp_missionId p = missionId \<and> mp_userId p = userId \<and> mp_status p = MP_JOINED
       \<and> list_ex (\<lambda>m. mi_id m = missionId \<and> mi_joinPolicy m = JOIN_OPEN) (mission s)) (missionParticipant s)"

definition mayWatchMission :: "db \<Rightarrow> ident \<Rightarrow> ident \<Rightarrow> time \<Rightarrow> bool" where
  "mayWatchMission s missionId userId now \<longleftrightarrow>
     list_ex (\<lambda>x. ss_missionId x = missionId \<and> ss_userId x = userId \<and> ss_revokedAt x = None \<and> now < ss_expiresAt x) (missionSession s)
     \<or> heldObserverSeat s missionId userId"

section \<open>What the agent reports of a mission\<close>

record missionEventRecord =
  me_observatoryId :: ident
  me_missionId :: ident
  me_state :: missionState
  me_failureReason :: "missionFailureReason option"
  me_occurredAt :: time
  me_commandId :: "ident option"
  me_detail :: "string option"

datatype missionEventOutcome = EV_APPLIED | EV_RECORDED | EV_WRONG_OBSERVATORY | EV_NOT_FOUND

definition move_mission :: "missionEventRecord \<Rightarrow> mission_row \<Rightarrow> mission_row" where
  "move_mission e m = m\<lparr>mi_state := me_state e, mi_failureReason := me_failureReason e,
     mi_completedAt := (if is_terminal (me_state e) then Some (me_occurredAt e) else mi_completedAt m)\<rparr>"

definition agent_event :: "missionEventRecord \<Rightarrow> mission_row \<Rightarrow> command_row option \<Rightarrow> missionEvent_row" where
  "agent_event e m causedBy = \<lparr>ev_missionId = me_missionId e, ev_state = me_state e, ev_failureReason = me_failureReason e,
     ev_source = FROM_AGENT, ev_commandId = map_option cm_id causedBy, ev_message = me_detail e,
     ev_occurredAt = me_occurredAt e, ev_simulated = (mi_mode m = SIMULATED), ev_isDemo = mi_isDemo m\<rparr>"

definition applyMissionEvent :: "missionEventRecord \<Rightarrow> (db, missionEventOutcome) tx" where
  "applyMissionEvent e =
     bindt (tx_find mission (\<lambda>m. mi_id m = me_missionId e)) (\<lambda>found. case found of
       None \<Rightarrow> ret EV_NOT_FOUND
     | Some m \<Rightarrow>
         if mi_observatoryId m \<noteq> me_observatoryId e then ret EV_WRONG_OBSERVATORY
         else
           bindt (tx_find observatoryCommand (\<lambda>c. Some (cm_id c) = me_commandId e \<and> cm_observatoryId c = me_observatoryId e)) (\<lambda>causedBy.
           bindt (createEvent (agent_event e m causedBy)) (\<lambda>_.
           bindt (updateMissions (\<lambda>x. mi_id x = me_missionId e \<and> mi_observatoryId x = me_observatoryId e
                \<and> mi_state x \<in> set (legalPredecessorsOf (me_state e))) (move_mission e)) (\<lambda>count.
           ret (if count = 1 then EV_APPLIED else EV_RECORDED)))))"

definition recordImageHealth :: "ident \<Rightarrow> ident \<Rightarrow> bool \<Rightarrow> time \<Rightarrow> (db, unit) tx" where
  "recordImageHealth observatoryId missionId unrecovered now =
     bindt (updateMissions (\<lambda>m. mi_id m = missionId \<and> mi_observatoryId m = observatoryId
          \<and> (if unrecovered then mi_imageUnrecoveredSince m = None else mi_imageUnrecoveredSince m \<noteq> None))
        (\<lambda>m. m\<lparr>mi_imageUnrecoveredSince := (if unrecovered then Some now else None)\<rparr>)) (\<lambda>_. ret ())"

section \<open>The link coming up\<close>

datatype resumeOutcome = RESOLVED | STILL_LIVE | NOT_LIVE | WRONG_OBSERVATORY | RESUME_NOT_FOUND

definition resolved_audit :: "ident \<Rightarrow> mission_row \<Rightarrow> auditLog_row" where
  "resolved_audit observatoryId m =
     (audit_entry MISSION ''MISSION_RESOLVED_AFTER_AGENT_RESTART'' [(''failureReason'', JStr ''AGENT_LINK_LOST'')])
     \<lparr>au_missionId := Some (mi_id m), au_entityType := Some ''Observatory'', au_entityId := Some observatoryId,
      au_isDemo := mi_isDemo m\<rparr>"

definition settleHeldMission :: "ident \<Rightarrow> ident \<Rightarrow> bool \<Rightarrow> time \<Rightarrow> string \<Rightarrow> (db, resumeOutcome) tx" where
  "settleHeldMission observatoryId missionId restarted now message =
     bindt (tx_find mission (\<lambda>m. mi_id m = missionId)) (\<lambda>found. case found of
       None \<Rightarrow> ret RESUME_NOT_FOUND
     | Some m \<Rightarrow>
         if mi_observatoryId m \<noteq> observatoryId then ret WRONG_OBSERVATORY
         else if \<not> restarted then ret (if is_live m then STILL_LIVE else NOT_LIVE)
         else
           bindt (updateMissions (\<lambda>x. mi_id x = missionId \<and> mi_observatoryId x = observatoryId \<and> is_live x)
              (\<lambda>x. x\<lparr>mi_state := MS_FAILED, mi_failureReason := Some AGENT_LINK_LOST\<rparr>)) (\<lambda>count.
           if count = 0 then ret NOT_LIVE
           else
             bindt (createEvent (cloud_event m MS_FAILED message now)) (\<lambda>_.
             bindt (revokeSessions (\<lambda>x. ss_missionId x = missionId) now (Some ''AGENT_LINK_LOST'')) (\<lambda>_.
             bindt (recordAuditEvent (resolved_audit observatoryId m)) (\<lambda>_.
             ret RESOLVED)))))"

definition link_audit :: "string \<Rightarrow> ident \<Rightarrow> (string \<times> json) list \<Rightarrow> auditLog_row" where
  "link_audit action observatoryId detail =
     (audit_entry AGENT_LINK action detail)\<lparr>au_entityType := Some ''Observatory'', au_entityId := Some observatoryId\<rparr>"

definition RESTARTED_HOLDING :: string where
  "RESTARTED_HOLDING = ''Agent restarted holding this mission. The mount parked locally and the cloud closed the mission out.''"

definition RESTARTED_WITHOUT :: string where
  "RESTARTED_WITHOUT =
     ''Agent restarted without the mission it was holding. Nothing is driving it, so the cloud closed the mission out.''"

text \<open>The two ways a hello settles the mission of a process: the one it names, or the one it lost.\<close>

definition settle_hello :: "ident \<Rightarrow> ident option \<Rightarrow> bool \<Rightarrow> bool \<Rightarrow> time \<Rightarrow> (db, resumeOutcome option) tx" where
  "settle_hello observatoryId resumeMissionId restarted remembered now =
     (case resumeMissionId of
        Some missionId \<Rightarrow> bindt (settleHeldMission observatoryId missionId restarted now RESTARTED_HOLDING) (\<lambda>r. ret (Some r))
      | None \<Rightarrow>
          if restarted \<and> remembered
          then bindt (tx_find mission (\<lambda>m. mi_observatoryId m = observatoryId \<and> is_live m)) (\<lambda>live. case live of
                 None \<Rightarrow> ret None
               | Some m \<Rightarrow> bindt (settleHeldMission observatoryId (mi_id m) restarted now RESTARTED_WITHOUT) (\<lambda>r. ret (Some r)))
          else ret None)"

definition markLinkUp :: "ident \<Rightarrow> time \<Rightarrow> ident option \<Rightarrow> time \<Rightarrow> (db, bool \<times> resumeOutcome option) tx" where
  "markLinkUp observatoryId bootedAt resumeMissionId now =
     bindt (tx_find observatory (\<lambda>ob. ob_id ob = observatoryId)) (\<lambda>previous.
       let remembered = (case previous of None \<Rightarrow> None | Some ob \<Rightarrow> ob_agentBootedAt ob);
           restarted = (remembered \<noteq> Some bootedAt)
       in bindt (settle_hello observatoryId resumeMissionId restarted (remembered \<noteq> None) now) (\<lambda>resumed.
          bindt (tx_update observatory observatory_update (\<lambda>ob. ob_id ob = observatoryId)
             (\<lambda>ob. ob\<lparr>ob_status := OB_ONLINE, ob_linkLostAt := None, ob_agentBootedAt := Some bootedAt\<rparr>)) (\<lambda>_.
          bindt (recordAuditEvent (link_audit ''AGENT_LINK_UP'' observatoryId [])) (\<lambda>_.
          ret (restarted, resumed)))))"

definition markLinkLost :: "ident \<Rightarrow> time \<Rightarrow> (db, unit) tx" where
  "markLinkLost observatoryId now =
     bindt (tx_update observatory observatory_update (\<lambda>ob. ob_id ob = observatoryId)
        (\<lambda>ob. ob\<lparr>ob_status := OB_OFFLINE, ob_linkLostAt := Some now\<rparr>)) (\<lambda>_.
     recordAuditEvent (link_audit ''AGENT_LINK_LOST'' observatoryId [(''lostAt'', JStr (toISOString now))]))"

text \<open>A posture other than DISARMED has no reason; the entry records the change.\<close>

fun posture_name :: "agentPosture \<Rightarrow> string" where
  "posture_name AP_SIMULATED = ''SIMULATED''"
| "posture_name AP_ATTENDED = ''ATTENDED''"
| "posture_name AP_UNATTENDED = ''UNATTENDED''"
| "posture_name AP_DISARMED = ''DISARMED''"

fun disarm_name :: "disarmReason \<Rightarrow> string" where
  "disarm_name HARDWARE_FAULT = ''HARDWARE_FAULT''"
| "disarm_name PARK_FAILED = ''PARK_FAILED''"
| "disarm_name LINK_LOST = ''LINK_LOST''"
| "disarm_name APPROVAL_WITHDRAWN = ''APPROVAL_WITHDRAWN''"
| "disarm_name LOCAL_DISARM = ''LOCAL_DISARM''"
| "disarm_name SKY_SENSOR_STALE = ''SKY_SENSOR_STALE''"

definition recordPosture :: "ident \<Rightarrow> agentPosture \<Rightarrow> disarmReason option \<Rightarrow> (db, unit) tx" where
  "recordPosture observatoryId posture disarmReason =
     bindt (tx_find observatory (\<lambda>ob. ob_id ob = observatoryId)) (\<lambda>previous.
     let reason = (if posture = AP_DISARMED then disarmReason else None)
     in bindt (tx_update observatory observatory_update (\<lambda>ob. ob_id ob = observatoryId)
           (\<lambda>ob. ob\<lparr>ob_agentPosture := Some posture, ob_agentDisarmReason := reason\<rparr>)) (\<lambda>_.
        recordAuditEvent (link_audit ''AGENT_POSTURE_CHANGED'' observatoryId
          [(''from'', json_opt (map_option posture_name (case previous of None \<Rightarrow> None | Some ob \<Rightarrow> ob_agentPosture ob))),
           (''to'', JStr (posture_name posture)), (''disarmReason'', json_opt (map_option disarm_name reason))])))"

definition loadApprovalStatus :: "db \<Rightarrow> ident \<Rightarrow> approvalStatus" where
  "loadApprovalStatus s observatoryId =
     (case find (\<lambda>n. nn_observatoryId n = observatoryId) (observatoryNetworkNode s) of
        None \<Rightarrow> NODE_DRAFT | Some n \<Rightarrow> nn_approvalStatus n)"

section \<open>Captures\<close>

record captureRecord =
  cc_observatoryId :: ident
  cc_missionId :: ident
  cc_commandId :: ident
  cc_capturedAt :: time
  cc_imagingProfile :: imagingProfile
  cc_opticalConfig :: opticalConfig
  cc_exposureMilliseconds :: real
  cc_gain :: int
  cc_framesStacked :: int
  cc_integrationSeconds :: real
  cc_widthPx :: "int option"
  cc_heightPx :: "int option"
  cc_solvedFocalLengthMm :: "real option"
  cc_targetId :: "ident option"
  cc_assets :: "(assetKind \<times> string) list"

datatype captureOutcome = Capture_recorded capture_row | Capture_duplicate | Capture_not_found | Capture_wrong_observatory

definition current_target :: "mission_row \<Rightarrow> ident" where
  "current_target m = (case mi_currentTargetId m of None \<Rightarrow> mi_targetId m | Some t \<Rightarrow> t)"

definition captureTargetOf :: "db \<Rightarrow> captureRecord \<Rightarrow> mission_row \<Rightarrow> ident" where
  "captureTargetOf s c m =
     (case cc_targetId c of None \<Rightarrow> current_target m
      | Some reported \<Rightarrow>
          if reported = [] \<or> reported = current_target m \<or> reported = mi_targetId m then reported
          else if list_ex (\<lambda>x. cm_missionId x = cc_missionId c \<and> cm_type x = CMD_RETARGET
                    \<and> payload_target (cm_payload x) = Some reported) (observatoryCommand s)
               then reported else current_target m)"

fun asset_name :: "assetKind \<Rightarrow> string" where
  "asset_name ASSET_IMAGE = ''IMAGE''"
| "asset_name ASSET_THUMBNAIL = ''THUMBNAIL''"
| "asset_name ASSET_FITS = ''FITS''"
| "asset_name ASSET_UNMARKED = ''UNMARKED''"

definition mode_name :: "observatoryMode \<Rightarrow> string" where
  "mode_name mode = (case mode of SIMULATED \<Rightarrow> ''SIMULATED'' | REAL \<Rightarrow> ''REAL'')"

definition capture_audit :: "captureRecord \<Rightarrow> mission_row \<Rightarrow> capture_row \<Rightarrow> auditLog_row" where
  "capture_audit c m row =
     (audit_entry MISSION ''CAPTURE_RECORDED''
        [(''framesStacked'', JNum (cc_framesStacked c)), (''integrationSeconds'', JReal (cc_integrationSeconds c)),
         (''assetKinds'', JList (map (\<lambda>a. JStr (asset_name (fst a))) (cc_assets c))), (''mode'', JStr (mode_name (mi_mode m)))])
     \<lparr>au_missionId := Some (cc_missionId c), au_commandId := Some (cc_commandId c),
      au_entityType := Some ''Capture'', au_entityId := Some (cp_id row)\<rparr>"

definition capture_of :: "ident \<Rightarrow> captureRecord \<Rightarrow> mission_row \<Rightarrow> ident \<Rightarrow> capture_row" where
  "capture_of newCapture c m targetId =
     \<lparr>cp_id = newCapture, cp_userId = mi_userId m, cp_missionId = cc_missionId c, cp_targetId = targetId,
      cp_observatoryId = mi_observatoryId m, cp_telescopeId = mi_telescopeId m, cp_commandId = Some (cc_commandId c),
      cp_capturedAt = cc_capturedAt c, cp_imagingProfile = cc_imagingProfile c, cp_opticalConfig = cc_opticalConfig c,
      cp_exposureMilliseconds = cc_exposureMilliseconds c, cp_gain = cc_gain c,
      cp_framesStacked = cc_framesStacked c, cp_integrationSeconds = cc_integrationSeconds c,
      cp_widthPx = cc_widthPx c, cp_heightPx = cc_heightPx c, cp_solvedFocalLengthMm = cc_solvedFocalLengthMm c,
      cp_fitsAvailable = list_ex (\<lambda>a. fst a = ASSET_FITS) (cc_assets c),
      cp_processingPreset = ''NATURAL'', cp_assets = cc_assets c,
      cp_mode = mi_mode m, cp_isDemo = mi_isDemo m\<rparr>"

text \<open>\<open>Capture_command_unique\<close> lets any number of captures have no command.\<close>

definition capture_conflict :: "capture_row \<Rightarrow> capture_row \<Rightarrow> bool" where
  "capture_conflict new old \<longleftrightarrow> cp_id new = cp_id old \<or> cp_commandId new \<noteq> None \<and> cp_commandId new = cp_commandId old"

text \<open>The transaction of a capture that is not filed yet: the row, its owner's access, the entry, and the email of an unbooked mission.\<close>

definition file_capture :: "ident \<Rightarrow> captureRecord \<Rightarrow> mission_row \<Rightarrow> (db, captureOutcome) tx" where
  "file_capture newCapture c m =
     bindt (reads (\<lambda>s. captureTargetOf s c m)) (\<lambda>targetId.
     bindt (tx_create capture capture_update capture_conflict (capture_of newCapture c m targetId)) (\<lambda>row.
     bindt (tx_create captureAccess captureAccess_update
        (\<lambda>new old. cx_captureId new = cx_captureId old \<and> cx_userId new = cx_userId old)
        \<lparr>cx_captureId = cp_id row, cx_missionId = cc_missionId c, cx_userId = mi_userId m,
         cx_status = ''AVAILABLE'', cx_isDemo = mi_isDemo m\<rparr>) (\<lambda>_.
     bindt (recordAuditEvent (capture_audit c m row)) (\<lambda>_.
     bindt (reads (\<lambda>s. mission_booking s m)) (\<lambda>bk.
     bindt (if bk = None
            then queueEmail (email (mi_userId m) MAIL_CAPTURE_READY (''capture-ready:'' @ cp_id row)
                   [(''captureId'', cp_id row)])
            else ret False) (\<lambda>_.
     ret (Capture_recorded row)))))))"

definition recordCapture :: "ident \<Rightarrow> captureRecord \<Rightarrow> (db, captureOutcome) tx" where
  "recordCapture newCapture c =
     bindt (tx_find mission (\<lambda>m. mi_id m = cc_missionId c)) (\<lambda>found. case found of
       None \<Rightarrow> ret Capture_not_found
     | Some m \<Rightarrow>
         if mi_observatoryId m \<noteq> cc_observatoryId c then ret Capture_wrong_observatory
         else
           bindt (tx_find observatoryCommand (\<lambda>x. cm_id x = cc_commandId c \<and> cm_observatoryId x = cc_observatoryId c
              \<and> cm_missionId x = cc_missionId c)) (\<lambda>command. case command of
             None \<Rightarrow> ret Capture_wrong_observatory
           | Some _ \<Rightarrow>
             bindt (tx_find capture (\<lambda>x. cp_commandId x = Some (cc_commandId c))) (\<lambda>existing. case existing of
               Some _ \<Rightarrow> ret Capture_duplicate
             | None \<Rightarrow> file_capture newCapture c m)))"

section \<open>Verdicts on commands\<close>

record verdictRecord =
  vr_observatoryId :: ident
  vr_commandId :: ident
  vr_status :: acceptanceStatus
  vr_rejectionReason :: "string option"
  vr_detail :: "string option"
  vr_decidedAt :: time

datatype verdictOutcome = VR_RECORDED | VR_DUPLICATE_ACK | VR_IGNORED_STALE | VR_WRONG_OBSERVATORY | VR_NOT_FOUND

fun acceptance_name :: "acceptanceStatus \<Rightarrow> string" where
  "acceptance_name AS_ACCEPTED = ''ACCEPTED''"
| "acceptance_name AS_REJECTED = ''REJECTED''"
| "acceptance_name AS_DUPLICATE = ''DUPLICATE''"
| "acceptance_name AS_EXPIRED = ''EXPIRED''"
| "acceptance_name AS_COMPLETED = ''COMPLETED''"
| "acceptance_name AS_FAILED = ''FAILED''"

definition verdict_audit :: "verdictRecord \<Rightarrow> auditLog_row" where
  "verdict_audit v =
     (audit_entry COMMAND ''COMMAND_VERDICT_RECORDED''
        [(''status'', JStr (acceptance_name (vr_status v))), (''rejectionReason'', json_opt (vr_rejectionReason v)),
         (''detail'', json_opt (vr_detail v)), (''decidedAt'', JStr (toISOString (vr_decidedAt v)))])
     \<lparr>au_commandId := Some (vr_commandId v), au_entityType := Some ''Observatory'', au_entityId := Some (vr_observatoryId v)\<rparr>"

definition apply_verdict :: "verdictRecord \<Rightarrow> commandStatus \<Rightarrow> (db, nat) tx" where
  "apply_verdict v status =
     tx_updateMany observatoryCommand observatoryCommand_update
       (\<lambda>c. cm_id c = vr_commandId v \<and> cm_observatoryId c = vr_observatoryId v \<and> \<not> isTerminalCommandStatus (cm_status c))
       (\<lambda>c. c\<lparr>cm_status := status,
          cm_completedAt := (if isTerminalCommandStatus status then Some (vr_decidedAt v) else cm_completedAt c),
          cm_result := Some \<lparr>cr_status = vr_status v, cr_rejectionReason = vr_rejectionReason v, cr_detail = vr_detail v,
            cr_decidedAt = vr_decidedAt v\<rparr>\<rparr>)"

definition target_changed_audit :: "verdictRecord \<Rightarrow> command_row \<Rightarrow> ident \<Rightarrow> auditLog_row" where
  "target_changed_audit v c targetId =
     (audit_entry MISSION ''MISSION_TARGET_CHANGED''
        [(''targetId'', JStr targetId), (''acceptedAt'', JStr (toISOString (vr_decidedAt v)))])
     \<lparr>au_missionId := Some (cm_missionId c), au_commandId := Some (vr_commandId v),
      au_entityType := Some ''Mission'', au_entityId := Some (cm_missionId c)\<rparr>"

definition start_dwell :: "verdictRecord \<Rightarrow> command_row \<Rightarrow> ident \<Rightarrow> (db, unit) tx" where
  "start_dwell v c targetId =
     bindt (updateMissions (\<lambda>m. mi_id m = cm_missionId c \<and> mi_observatoryId m = vr_observatoryId v \<and> is_live m)
        (\<lambda>m. m\<lparr>mi_currentTargetId := Some targetId, mi_currentTargetSince := Some (vr_decidedAt v)\<rparr>)) (\<lambda>moved.
     if moved = 1 \<and> cm_type c = CMD_RETARGET then recordAuditEvent (target_changed_audit v c targetId) else ret ())"

definition failure_json :: "missionFailureReason option \<Rightarrow> json" where
  "failure_json r = (case r of None \<Rightarrow> JNull | Some _ \<Rightarrow> JStr ''SAFETY_REFUSED'')"

definition start_refused_audit :: "verdictRecord \<Rightarrow> mission_row \<Rightarrow> auditLog_row" where
  "start_refused_audit v m =
     (audit_entry MISSION ''MISSION_START_REFUSED_BY_AGENT''
        [(''rejectionReason'', json_opt (vr_rejectionReason v)),
         (''failureReason'', failure_json (failureReasonForRefusedStart (vr_rejectionReason v)))])
     \<lparr>au_missionId := Some (mi_id m), au_commandId := Some (vr_commandId v),
      au_entityType := Some ''Mission'', au_entityId := Some (mi_id m), au_isDemo := mi_isDemo m\<rparr>"

text \<open>\<open>clock\<close> is the \<open>new Date()\<close> of the revocation.\<close>

definition failRefusedStart :: "verdictRecord \<Rightarrow> ident \<Rightarrow> time \<Rightarrow> (db, unit) tx" where
  "failRefusedStart v missionId clock =
     (let failureReason = failureReasonForRefusedStart (vr_rejectionReason v)
      in bindt (tx_find mission (\<lambda>m. mi_id m = missionId)) (\<lambda>found. case found of
           None \<Rightarrow> ret ()
         | Some m \<Rightarrow>
             bindt (updateMissions (\<lambda>x. mi_id x = missionId \<and> mi_observatoryId x = vr_observatoryId v \<and> mi_state x = MS_PREPARING)
                (\<lambda>x. x\<lparr>mi_state := MS_FAILED, mi_failureReason := failureReason\<rparr>)) (\<lambda>count.
             if count = 0 then ret ()
             else
               bindt (createEvent \<lparr>ev_missionId = missionId, ev_state = MS_FAILED, ev_failureReason = failureReason,
                 ev_source = FROM_CLOUD, ev_commandId = Some (vr_commandId v), ev_message = vr_detail v,
                 ev_occurredAt = vr_decidedAt v, ev_simulated = (mi_mode m = SIMULATED), ev_isDemo = mi_isDemo m\<rparr>) (\<lambda>_.
               bindt (revokeSessions (\<lambda>x. ss_missionId x = missionId) clock (Some ''START_REFUSED_BY_AGENT'')) (\<lambda>_.
               bindt (recordAuditEvent (start_refused_audit v m)) (\<lambda>_.
               notifyAgent (NOTIFY_SESSION (vr_observatoryId v) missionId None)))))))"

text \<open>
  The statements of \<open>recordCommandVerdict\<close> in order, each its own transaction: the guarded
  update, its audit entry, the dwell lock and the failed start. \<open>others n\<close> is committed before
  the n-th of them.
\<close>

definition dwell_step :: "(nat \<Rightarrow> db \<Rightarrow> db) \<Rightarrow> verdictRecord \<Rightarrow> command_row \<Rightarrow> db \<Rightarrow> (exn + unit) \<times> db" where
  "dwell_step others v c s =
     (case dwellTargetOf (cm_type c) (cm_payload c) of
        Some targetId \<Rightarrow> if vr_status v = AS_ACCEPTED then transaction (start_dwell v c targetId) (others 2 s) else (Inr (), s)
      | None \<Rightarrow> (Inr (), s))"

definition start_step ::
  "(nat \<Rightarrow> db \<Rightarrow> db) \<Rightarrow> time \<Rightarrow> verdictRecord \<Rightarrow> command_row \<Rightarrow> commandStatus \<Rightarrow> db \<Rightarrow> (exn + unit) \<times> db" where
  "start_step others clock v c status s =
     (if status \<in> set START_NOT_RUN_STATUSES \<and> isStartingGoto (cm_type c) (cm_payload c)
      then transaction (failRefusedStart v (cm_missionId c) clock) (others 3 s) else (Inr (), s))"

definition after_verdict ::
  "(nat \<Rightarrow> db \<Rightarrow> db) \<Rightarrow> time \<Rightarrow> verdictRecord \<Rightarrow> command_row \<Rightarrow> commandStatus \<Rightarrow> db \<Rightarrow> (exn + unit) \<times> db" where
  "after_verdict others clock v c status s =
     (case transaction (recordAuditEvent (verdict_audit v)) (others 1 s) of (Inl e, s1) \<Rightarrow> (Inl e, s1)
      | (Inr _, s1) \<Rightarrow> (case dwell_step others v c s1 of (Inl e, s2) \<Rightarrow> (Inl e, s2)
        | (Inr _, s2) \<Rightarrow> start_step others clock v c status s2))"

definition recordCommandVerdict ::
  "(nat \<Rightarrow> db \<Rightarrow> db) \<Rightarrow> time \<Rightarrow> verdictRecord \<Rightarrow> db \<Rightarrow> (exn + verdictOutcome) \<times> db" where
  "recordCommandVerdict others clock v s =
     (case find (\<lambda>c. cm_id c = vr_commandId v) (observatoryCommand s) of None \<Rightarrow> (Inr VR_NOT_FOUND, others 0 s)
      | Some c \<Rightarrow>
         if cm_observatoryId c \<noteq> vr_observatoryId v then (Inr VR_WRONG_OBSERVATORY, others 0 s)
         else case COMMAND_STATUS_FOR (vr_status v) of None \<Rightarrow> (Inr VR_DUPLICATE_ACK, others 0 s)
         | Some status \<Rightarrow>
            (case transaction (apply_verdict v status) (others 0 s) of (Inl e, s0) \<Rightarrow> (Inl e, s0)
             | (Inr count, s0) \<Rightarrow>
                 if count = 1
                 then case after_verdict others clock v c status s0 of
                        (Inl e, s') \<Rightarrow> (Inl e, s') | (Inr _, s') \<Rightarrow> (Inr VR_RECORDED, s')
                 else (Inr VR_IGNORED_STALE, s0)))"

section \<open>The sweeps\<close>

text \<open>A loop over candidates, one transaction each: \<open>others x\<close> is committed before the one for \<open>x\<close>.\<close>

fun sweep :: "('a \<Rightarrow> db \<Rightarrow> db) \<Rightarrow> ('a \<Rightarrow> (db, bool) tx) \<Rightarrow> 'a list \<Rightarrow> 'a list \<Rightarrow> db \<Rightarrow> (exn + 'a list) \<times> db" where
  "sweep others f [] won s = (Inr won, s)"
| "sweep others f (x # xs) won s =
     (case transaction (f x) (others x s) of (Inl e, s') \<Rightarrow> (Inl e, s')
      | (Inr applied, s') \<Rightarrow> sweep others f xs (if applied then won @ [x] else won) s')"

text \<open>The missions whose booked slot is over, with the slot's end: read once, before the loop.\<close>

definition ended_slots :: "(mission_row \<Rightarrow> bool) \<Rightarrow> time \<Rightarrow> db \<Rightarrow> (mission_row \<times> time) list" where
  "ended_slots P now s =
     List.map_filter (\<lambda>m. if P m then (case mission_booking s m of None \<Rightarrow> None
        | Some bk \<Rightarrow> if bk_slotStartAt bk \<le> now \<and> slot_end bk \<le> now then Some (m, slot_end bk) else None) else None) (mission s)"

definition not_started_audit :: "mission_row \<Rightarrow> time \<Rightarrow> auditLog_row" where
  "not_started_audit m slotEndsAt =
     (audit_entry MISSION ''MISSION_NOT_STARTED'' [(''slotEndedAt'', JStr (toISOString slotEndsAt))])
     \<lparr>au_missionId := Some (mi_id m), au_entityType := Some ''Mission'', au_entityId := Some (mi_id m), au_isDemo := mi_isDemo m\<rparr>"

definition close_unstarted :: "time \<Rightarrow> mission_row \<times> time \<Rightarrow> (db, bool) tx" where
  "close_unstarted now = (\<lambda>(m, slotEndsAt).
     bindt (updateMissions (\<lambda>x. mi_id x = mi_id m \<and> mi_state x = MS_SCHEDULED)
        (\<lambda>x. x\<lparr>mi_state := MS_CANCELLED, mi_failureReason := Some SESSION_EXPIRED, mi_completedAt := Some now\<rparr>)) (\<lambda>count.
     if count = 0 then ret False
     else
       bindt (createEvent ((cloud_event m MS_CANCELLED ''Nobody started this mission before its booked slot ended.'' now)
          \<lparr>ev_failureReason := Some SESSION_EXPIRED\<rparr>)) (\<lambda>_.
       bindt (recordAuditEvent (not_started_audit m slotEndsAt)) (\<lambda>_.
       ret True))))"

definition closeUnstartedMissions :: "(mission_row \<times> time \<Rightarrow> db \<Rightarrow> db) \<Rightarrow> time \<Rightarrow> db \<Rightarrow> (exn + (mission_row \<times> time) list) \<times> db" where
  "closeUnstartedMissions others now s =
     sweep others (close_unstarted now) (ended_slots (\<lambda>m. mi_state m = MS_SCHEDULED) now s) [] s"

definition slot_ended_audit :: "mission_row \<Rightarrow> time \<Rightarrow> auditLog_row" where
  "slot_ended_audit m slotEndsAt =
     (audit_entry MISSION ''MISSION_SLOT_ENDED''
        [(''slotEndedAt'', JStr (toISOString slotEndsAt)), (''endReason'', JStr ''SLOT_ENDED'')])
     \<lparr>au_missionId := Some (mi_id m), au_entityType := Some ''Mission'', au_entityId := Some (mi_id m), au_isDemo := mi_isDemo m\<rparr>"

definition claim_slot :: "time \<Rightarrow> mission_row \<times> time \<Rightarrow> (db, bool) tx" where
  "claim_slot now = (\<lambda>(m, slotEndsAt).
     bindt (updateMissions (\<lambda>x. mi_id x = mi_id m \<and> mi_slotEndNotifiedAt x = None)
        (\<lambda>x. x\<lparr>mi_slotEndNotifiedAt := Some now\<rparr>)) (\<lambda>count.
     if count = 0 then ret False
     else bindt (recordAuditEvent (slot_ended_audit m slotEndsAt)) (\<lambda>_. ret True)))"

definition claimEndedSlots :: "(mission_row \<times> time \<Rightarrow> db \<Rightarrow> db) \<Rightarrow> time \<Rightarrow> db \<Rightarrow> (exn + (mission_row \<times> time) list) \<times> db" where
  "claimEndedSlots others now s =
     sweep others (claim_slot now) (ended_slots (\<lambda>m. is_live m \<and> mi_slotEndNotifiedAt m = None) now s) [] s"

section \<open>The end of a session\<close>

fun end_name :: "sessionEndReason \<Rightarrow> string" where
  "end_name SLOT_ENDED = ''SLOT_ENDED''"
| "end_name CUSTOMER_ENDED = ''CUSTOMER_ENDED''"
| "end_name OPERATOR_ENDED = ''OPERATOR_ENDED''"
| "end_name ENDED_BY_WEATHER = ''WEATHER''"
| "end_name ENDED_BY_FAULT = ''FAULT''"

record sessionEndedRecord =
  sr_missionId :: ident
  sr_state :: missionState
  sr_failureReason :: "missionFailureReason option"
  sr_endReason :: sessionEndReason
  sr_endedAt :: time
  sr_parked :: bool
  sr_captureIds :: "ident list"
  sr_summaryEmailQueued :: bool

definition session_ended_audit :: "mission_row \<Rightarrow> sessionEndedRecord \<Rightarrow> auditLog_row" where
  "session_ended_audit m r =
     (audit_entry MISSION ''MISSION_SESSION_ENDED''
        [(''endReason'', JStr (end_name (sr_endReason r))), (''parked'', JBool (sr_parked r)),
         (''captureCount'', JNum (int (length (sr_captureIds r)))), (''summaryEmailQueued'', JBool (sr_summaryEmailQueued r))])
     \<lparr>au_missionId := Some (mi_id m), au_entityType := Some ''Mission'', au_entityId := Some (mi_id m), au_isDemo := mi_isDemo m\<rparr>"

definition ended_record :: "db \<Rightarrow> mission_row \<Rightarrow> bool \<Rightarrow> time \<Rightarrow> bool \<Rightarrow> sessionEndedRecord" where
  "ended_record s m parked now queued =
     \<lparr>sr_missionId = mi_id m, sr_state = mi_state m, sr_failureReason = mi_failureReason m,
      sr_endReason = sessionEndReasonOf (mi_state m) (mi_failureReason m),
      sr_endedAt = (case mi_completedAt m of None \<Rightarrow> now | Some t \<Rightarrow> t), sr_parked = parked,
      sr_captureIds = map cp_id (sort_key cp_capturedAt (filter (\<lambda>c. cp_missionId c = mi_id m) (capture s))),
      sr_summaryEmailQueued = queued\<rparr>"

text \<open>Once the mission is marked: the summary email, for a booked mission that reached OBSERVING, and the entry.\<close>

definition announce_end :: "mission_row \<Rightarrow> bool \<Rightarrow> time \<Rightarrow> (db, sessionEndedRecord) tx" where
  "announce_end m parked now =
     bindt (reads (\<lambda>s. mission_booking s m \<noteq> None
        \<and> list_ex (\<lambda>e. ev_missionId e = mi_id m \<and> ev_state e = MS_OBSERVING) (missionEvent s))) (\<lambda>summary.
     bindt (if summary
            then queueEmail (email (mi_userId m) MAIL_SESSION_SUMMARY (''session-summary:'' @ mi_id m) [(''missionId'', mi_id m)])
            else ret False) (\<lambda>queued.
     bindt (reads (\<lambda>s. ended_record s m parked now queued)) (\<lambda>record.
     bindt (recordAuditEvent (session_ended_audit m record)) (\<lambda>_.
     ret record))))"

definition endMissionSession :: "ident \<Rightarrow> bool \<Rightarrow> time \<Rightarrow> (db, sessionEndedRecord option) tx" where
  "endMissionSession missionId parked now =
     bindt (tx_find mission (\<lambda>m. mi_id m = missionId)) (\<lambda>found. case found of
       None \<Rightarrow> ret None
     | Some m \<Rightarrow>
         if \<not> is_terminal (mi_state m) \<or> mi_currentTargetId m = None then ret None
         else
           bindt (updateMissions (\<lambda>x. mi_id x = missionId \<and> mi_sessionEndedNotifiedAt x = None)
              (\<lambda>x. x\<lparr>mi_sessionEndedNotifiedAt := Some now\<rparr>)) (\<lambda>count.
           if count = 0 then ret None
           else bindt (announce_end m parked now) (\<lambda>record. ret (Some record))))"

text \<open>\<open>updatedAt\<close> of a row, which no modelled operation reads otherwise, is an argument.\<close>

definition overdueSessionEnds :: "(mission_row \<Rightarrow> time) \<Rightarrow> time \<Rightarrow> db \<Rightarrow> ident list" where
  "overdueSessionEnds updatedAt now s =
     (let cutoff = now - END_TELEMETRY_SECONDS * second_ms
      in map mi_id (filter (\<lambda>m. is_terminal (mi_state m) \<and> mi_currentTargetId m \<noteq> None \<and> mi_sessionEndedNotifiedAt m = None
           \<and> (case mi_completedAt m of Some t \<Rightarrow> t \<le> cutoff | None \<Rightarrow> updatedAt m \<le> cutoff)) (mission s)))"

section \<open>What a watching client is told (mission/booked-session.ts)\<close>

record missionLiveContext =
  lc_missionId :: ident
  lc_state :: missionState
  lc_currentTargetId :: "ident option"
  lc_currentTargetSince :: "time option"
  lc_sessionEndsAt :: "time option"
  lc_lastCaptureIssuedAt :: "time option"
  lc_captureAwaitingVerdict :: bool
  lc_captureCount :: nat

text \<open>
  Three queries, and no transaction around them: the mission with its booking, its newest session
  and its count of captures, then side by side the newest CAPTURE and the number of those awaiting
  a verdict. Other connections may commit in between, so each query has the database it reads.
\<close>

definition loadMissionLiveContext :: "db \<Rightarrow> db \<Rightarrow> db \<Rightarrow> ident \<Rightarrow> time \<Rightarrow> missionLiveContext option" where
  "loadMissionLiveContext s sLast sAwaiting missionId now =
     (case find (\<lambda>m. mi_id m = missionId) (mission s) of None \<Rightarrow> None
      | Some m \<Rightarrow> Some \<lparr>lc_missionId = mi_id m, lc_state = mi_state m, lc_currentTargetId = mi_currentTargetId m,
          lc_currentTargetSince = mi_currentTargetSince m,
          lc_sessionEndsAt = (case mission_booking s m of Some bk \<Rightarrow> Some (slot_end bk)
            | None \<Rightarrow> map_option ss_expiresAt (newest_session s missionId)),
          lc_lastCaptureIssuedAt = (case map cm_issuedAt (captures_of sLast missionId) of [] \<Rightarrow> None | t # ts \<Rightarrow> Some (foldl max t ts)),
          lc_captureAwaitingVerdict = list_ex (\<lambda>c. \<not> isTerminalCommandStatus (cm_status c) \<and> cm_result c = None
            \<and> now < cm_expiresAt c) (captures_of sAwaiting missionId),
          lc_captureCount = length (filter (\<lambda>c. cp_missionId c = missionId) (capture s))\<rparr>)"

datatype endPhase = PHASE_PARKED | PHASE_PARKING | PHASE_FINISHING

record bookedTelemetry =
  bt_currentTargetId :: "ident option"
  bt_retargetAllowedAt :: "time option"
  bt_captureAllowedAt :: "time option"
  bt_endPhase :: "endPhase option"

text \<open>The agent's picture verdict is relayed unchanged; only whether it says UNRECOVERED is read here.\<close>

definition bookedSessionTelemetry :: "missionLiveContext option \<Rightarrow> bool \<Rightarrow> bool \<Rightarrow> time \<Rightarrow> bookedTelemetry" where
  "bookedSessionTelemetry context unrecovered parked now =
     (case context of None \<Rightarrow> \<lparr>bt_currentTargetId = None, bt_retargetAllowedAt = None, bt_captureAllowedAt = None, bt_endPhase = None\<rparr>
      | Some ctx \<Rightarrow>
         let live = (lc_state ctx \<in> set LIVE_MISSION_STATES);
             capturing = (lc_captureAwaitingVerdict ctx \<or> lc_state ctx = MS_CAPTURING \<or> lc_state ctx = MS_PROCESSING);
             after = (\<lambda>t. case t of None \<Rightarrow> None | Some x \<Rightarrow> if now < x then Some x else None);
             cooldown = map_option (\<lambda>t. t + CAPTURE_COOLDOWN_SECONDS * second_ms) (lc_lastCaptureIssuedAt ctx)
         in \<lparr>bt_currentTargetId = lc_currentTargetId ctx,
             bt_retargetAllowedAt = (if live \<and> \<not> unrecovered then after (dwellEndsAt (lc_currentTargetSince ctx)) else None),
             bt_captureAllowedAt = (if live \<and> \<not> capturing \<and> lc_captureCount ctx < MAX_CAPTURES_PER_MISSION then after cooldown else None),
             bt_endPhase = (if is_terminal (lc_state ctx) then Some (if parked then PHASE_PARKED else PHASE_PARKING)
               else if live \<and> (case lc_sessionEndsAt ctx of None \<Rightarrow> False | Some t \<Rightarrow> t \<le> now) then Some PHASE_FINISHING
               else None)\<rparr>)"

section \<open>The operator's cancellation (admin/missions.ts)\<close>

fun state_name :: "missionState \<Rightarrow> string" where
  "state_name MS_REQUESTED = ''REQUESTED''"
| "state_name MS_SCHEDULED = ''SCHEDULED''"
| "state_name MS_PREPARING = ''PREPARING''"
| "state_name MS_SLEWING = ''SLEWING''"
| "state_name MS_VERIFYING = ''VERIFYING''"
| "state_name MS_CENTERING = ''CENTERING''"
| "state_name MS_OBSERVING = ''OBSERVING''"
| "state_name MS_CAPTURING = ''CAPTURING''"
| "state_name MS_PROCESSING = ''PROCESSING''"
| "state_name MS_COMPLETE = ''COMPLETE''"
| "state_name MS_WEATHER_HOLD = ''WEATHER_HOLD''"
| "state_name MS_NOT_VISIBLE = ''NOT_VISIBLE''"
| "state_name MS_HARDWARE_ERROR = ''HARDWARE_ERROR''"
| "state_name MS_CANCELLED = ''CANCELLED''"
| "state_name MS_FAILED = ''FAILED''"

definition cancelled_audit :: "ident \<Rightarrow> mission_row \<Rightarrow> string \<Rightarrow> string \<Rightarrow> nat \<Rightarrow> auditLog_row" where
  "cancelled_audit operatorId m reason resolution revoked =
     (audit_entry MISSION ''OPERATOR_MISSION_CANCELLED''
        [(''from'', JStr (state_name (mi_state m))), (''reason'', JStr reason), (''resolution'', JStr resolution),
         (''sessionsRevoked'', JNum (int revoked)), (''wasLive'', JBool (is_live m))])
     \<lparr>au_actorUserId := Some operatorId, au_missionId := Some (mi_id m), au_entityType := Some ''Mission'',
      au_entityId := Some (mi_id m), au_isDemo := mi_isDemo m\<rparr>"

text \<open>The mission returned to the operator is a rendering of its row and left out.\<close>

definition cancelMissionAsOperator :: "ident \<Rightarrow> string \<Rightarrow> string \<Rightarrow> ident \<Rightarrow> time \<Rightarrow> (db, missionFailure option) tx" where
  "cancelMissionAsOperator missionId reason resolution operatorId now =
     bindt (tx_find mission (\<lambda>m. mi_id m = missionId)) (\<lambda>found. case found of
       None \<Rightarrow> ret (Some (failure 404 MC_NOT_FOUND))
     | Some m \<Rightarrow>
         bindt (updateMissions (\<lambda>x. mi_id x = missionId \<and> \<not> is_terminal (mi_state x))
            (\<lambda>x. x\<lparr>mi_state := MS_CANCELLED, mi_failureReason := Some OPERATOR_ABORT, mi_completedAt := Some now\<rparr>)) (\<lambda>count.
         if count \<noteq> 1 then ret (Some (failure 409 MC_CONFLICT))
         else
           bindt (createEvent \<lparr>ev_missionId = missionId, ev_state = MS_CANCELLED, ev_failureReason = Some OPERATOR_ABORT,
             ev_source = FROM_OPERATOR, ev_commandId = None, ev_message = Some reason, ev_occurredAt = now,
             ev_simulated = False, ev_isDemo = mi_isDemo m\<rparr>) (\<lambda>_.
           bindt (revokeSessions (\<lambda>x. ss_missionId x = missionId) now None) (\<lambda>revoked.
           bindt (if 0 < revoked then notifyAgent (NOTIFY_SESSION (mi_observatoryId m) missionId None) else ret ()) (\<lambda>_.
           bindt (recordAuditEvent (cancelled_audit operatorId m reason resolution revoked)) (\<lambda>_.
           ret None))))))"

end
