(* ===== verification/Mission_Run.thy ===== *)
theory Mission_Run
  imports Mission_Link
begin

text \<open>
  Missions over time. A run interleaves every operation of Sessions, Commands and Mission_Link,
  the scheduling of new missions and whatever else the platform does to its other tables; an
  operation of several transactions lets others commit between them. A run is judged by a
  guarantee, \<open>good\<close>: from a database with the invariant it reaches one with the invariant, and
  nothing it depends on is lost on the way: missions move only along the transition table,
  sessions are never reinstated, sites stay where they are. The guarantee is reflexive and
  transitive, so it is proved once per statement and carried through each operation by the
  rules of \<open>keeps\<close>.
\<close>

section \<open>How a mission may move\<close>

text \<open>The agent's table, and the operator, who may cancel whatever is not over.\<close>

definition edge :: "missionState \<Rightarrow> missionState \<Rightarrow> bool" where
  "edge a b \<longleftrightarrow> isLegalMissionTransition a b \<or> b = MS_CANCELLED \<and> \<not> is_terminal a"

lemmas table_defs = isLegalMissionTransition_def legalPredecessorsOf_def HOLD_MISSION_STATES_def
  LIVE_MISSION_STATES_def TERMINAL_MISSION_STATES_def

lemma edge_terminal: "edge a b \<Longrightarrow> is_terminal a \<Longrightarrow> b = a"
  by (cases b) (auto simp: edge_def table_defs)

lemma edge_requests: "edge a b \<Longrightarrow> b \<in> {MS_REQUESTED, MS_SCHEDULED} \<Longrightarrow> a = b"
  by (cases b) (auto simp: edge_def table_defs)

lemma may_become_terminal: "edge\<^sup>*\<^sup>* a b \<Longrightarrow> is_terminal a \<Longrightarrow> b = a"
  by (induction rule: rtranclp_induct) (auto dest: edge_terminal)

lemma may_become_scheduled: "edge\<^sup>*\<^sup>* a b \<Longrightarrow> b = MS_SCHEDULED \<Longrightarrow> a = MS_SCHEDULED"
  by (induction rule: converse_rtranclp_induct) (auto dest: edge_requests)

section \<open>The guarantee\<close>

definition follows :: "mission_row \<Rightarrow> mission_row \<Rightarrow> bool" where
  "follows m m' \<longleftrightarrow> mi_id m' = mi_id m \<and> mi_observatoryId m' = mi_observatoryId m \<and> mi_userId m' = mi_userId m
     \<and> edge\<^sup>*\<^sup>* (mi_state m) (mi_state m')
     \<and> (mi_sessionEndedNotifiedAt m \<noteq> None \<longrightarrow> mi_sessionEndedNotifiedAt m' = mi_sessionEndedNotifiedAt m)
     \<and> (mi_slotEndNotifiedAt m \<noteq> None \<longrightarrow> mi_slotEndNotifiedAt m' = mi_slotEndNotifiedAt m)"

definition persists :: "missionSession_row \<Rightarrow> missionSession_row \<Rightarrow> bool" where
  "persists x x' \<longleftrightarrow> ss_id x' = ss_id x \<and> ss_missionId x' = ss_missionId x \<and> ss_userId x' = ss_userId x
     \<and> ss_expiresAt x' = ss_expiresAt x \<and> (ss_revokedAt x \<noteq> None \<longrightarrow> ss_revokedAt x' = ss_revokedAt x)"

abbreviation site_key :: "observatory_row \<Rightarrow> ident \<times> real \<times> real" where
  "site_key ob \<equiv> (ob_id ob, ob_latitude ob, ob_longitude ob)"

definition progress :: "db \<Rightarrow> db \<Rightarrow> bool" where
  "progress s s' \<longleftrightarrow> (\<forall>m \<in> set (mission s). \<exists>m' \<in> set (mission s'). follows m m')
     \<and> (\<forall>x \<in> set (missionSession s). \<exists>x' \<in> set (missionSession s'). persists x x')
     \<and> map site_key (observatory s') = map site_key (observatory s)"

text \<open>
  A position of the sky at an instant is clear of the Sun when it is at least 15 degrees from
  it and the Sun is not above the horizon.
\<close>

definition clear_of_sun :: "astronomy \<Rightarrow> site \<Rightarrow> equatorial \<Rightarrow> time \<Rightarrow> bool" where
  "clear_of_sun A st coordinates t \<longleftrightarrow>
     15 \<le> horizontalSeparationDegrees (horizontalAirlessOf A coordinates t st) (sunHorizontal A t st)
     \<and> sunAltitudeDegrees A t st \<le> 0"

text \<open>What a command rests on: where it goes, and whose session it is.\<close>

definition placed :: "astronomy \<Rightarrow> command_row \<Rightarrow> db \<Rightarrow> bool" where
  "placed A c s \<longleftrightarrow> cm_expiresAt c = cm_issuedAt c + COMMAND_TTL_SECONDS * second_ms
     \<and> (\<exists>m \<in> set (mission s). mi_id m = cm_missionId c \<and> mi_observatoryId m = cm_observatoryId c)
     \<and> (\<forall>coordinates. slew_of (cm_payload c) = Some coordinates \<longrightarrow>
          (\<exists>ob \<in> set (observatory s). ob_id ob = cm_observatoryId c
             \<and> clear_of_sun A (site_of ob) coordinates (cm_issuedAt c)))"

definition owned :: "command_row \<Rightarrow> db \<Rightarrow> bool" where
  "owned c s \<longleftrightarrow> (\<exists>x \<in> set (missionSession s). ss_id x = cm_sessionId c \<and> ss_missionId x = cm_missionId c
     \<and> ss_userId x = cm_userId c \<and> cm_issuedAt c < ss_expiresAt x)"

definition missions_ok :: "db \<Rightarrow> bool" where
  "missions_ok s \<longleftrightarrow> distinct (map mi_id (mission s)) \<and> active_per_observatory (mission s)"

definition owners_ok :: "missionSession_row list \<Rightarrow> bool" where
  "owners_ok xs \<longleftrightarrow> distinct (map ss_id xs) \<and> distinct (map ss_missionId (filter (\<lambda>x. ss_revokedAt x = None) xs))"

definition mission_inv :: "astronomy \<Rightarrow> db \<Rightarrow> bool" where
  "mission_inv A s \<longleftrightarrow> missions_ok s \<and> owners_ok (missionSession s)
     \<and> (\<forall>c \<in> set (observatoryCommand s). placed A c s \<and> owned c s)"

definition good :: "astronomy \<Rightarrow> db \<Rightarrow> db \<Rightarrow> bool" where
  "good A s s' \<longleftrightarrow> (mission_inv A s \<longrightarrow> mission_inv A s' \<and> progress s s')"

lemma follows_refl [simp]: "follows m m"
  by (simp add: follows_def)

lemma follows_trans: "follows m m1 \<Longrightarrow> follows m1 m2 \<Longrightarrow> follows m m2"
  unfolding follows_def by (metis rtranclp_trans)

lemma persists_refl [simp]: "persists x x"
  by (simp add: persists_def)

lemma persists_trans: "persists x x1 \<Longrightarrow> persists x1 x2 \<Longrightarrow> persists x x2"
  unfolding persists_def by metis

lemma follow_self [simp]: "m \<in> set ms \<Longrightarrow> \<exists>m' \<in> set ms. follows m m'"
  by (rule bexI [of _ m]) simp_all

lemma persist_self [simp]: "x \<in> set xs \<Longrightarrow> \<exists>x' \<in> set xs. persists x x'"
  by (rule bexI [of _ x]) simp_all

lemma follow_update: "m \<in> set ms \<Longrightarrow> (P m \<Longrightarrow> follows m (f m)) \<Longrightarrow> \<exists>m' \<in> set (updateMany P f ms). follows m m'"
  by (rule bexI [of _ "if P m then f m else m"]) (auto simp: updateMany_def)

lemma persist_update: "x \<in> set xs \<Longrightarrow> (P x \<Longrightarrow> persists x (f x)) \<Longrightarrow> \<exists>x' \<in> set (updateMany P f xs). persists x x'"
  by (rule bexI [of _ "if P x then f x else x"]) (auto simp: updateMany_def)

lemma progress_refl [simp]: "progress s s"
  by (simp add: progress_def)

lemma progress_trans:
  assumes "progress s s1" and "progress s1 s2"
  shows "progress s s2"
  using assms unfolding progress_def by (metis follows_trans persists_trans)

lemma site_kept:
  assumes "map site_key (observatory s') = map site_key (observatory s)" and "ob \<in> set (observatory s)"
  shows "\<exists>ob' \<in> set (observatory s'). ob_id ob' = ob_id ob \<and> site_of ob' = site_of ob"
proof -
  from assms(2) have "site_key ob \<in> set (map site_key (observatory s))" by auto
  then have "site_key ob \<in> set (map site_key (observatory s'))" using assms(1) by simp
  then obtain ob' where "ob' \<in> set (observatory s')" "site_key ob' = site_key ob" by auto
  then show ?thesis by (auto simp: site_of_def)
qed

lemma placed_mono:
  assumes "progress s s'" and "placed A c s"
  shows "placed A c s'"
proof -
  from assms obtain m where m: "m \<in> set (mission s)" "mi_id m = cm_missionId c" "mi_observatoryId m = cm_observatoryId c"
    by (auto simp: placed_def)
  with assms(1) obtain m' where "m' \<in> set (mission s')" "follows m m'" by (auto simp: progress_def)
  with m have place: "\<exists>m \<in> set (mission s'). mi_id m = cm_missionId c \<and> mi_observatoryId m = cm_observatoryId c"
    by (auto simp: follows_def)
  have "\<exists>ob' \<in> set (observatory s'). ob_id ob' = cm_observatoryId c \<and> clear_of_sun A (site_of ob') co (cm_issuedAt c)"
    if "slew_of (cm_payload c) = Some co" for co
  proof -
    from assms(2) that obtain ob where "ob \<in> set (observatory s)" "ob_id ob = cm_observatoryId c"
      "clear_of_sun A (site_of ob) co (cm_issuedAt c)" by (auto simp: placed_def)
    moreover from assms(1) have "map site_key (observatory s') = map site_key (observatory s)" by (simp add: progress_def)
    ultimately show ?thesis using site_kept [of s' s ob] by metis
  qed
  with place assms(2) show ?thesis by (simp add: placed_def)
qed

lemma owned_mono: "progress s s' \<Longrightarrow> owned c s \<Longrightarrow> owned c s'"
  unfolding progress_def owned_def persists_def by metis

lemma good_refl [simp]: "good A s s"
  by (simp add: good_def)

lemma good_trans: "good A s s1 \<Longrightarrow> good A s1 s2 \<Longrightarrow> good A s s2"
  unfolding good_def by (metis progress_trans)

text \<open>
  To show a statement good: what it does to missions, sessions and sites, and that it writes
  no command but those already resting on them.
\<close>

lemma goodI:
  assumes "mission_inv A s \<Longrightarrow> missions_ok s' \<and> owners_ok (missionSession s') \<and> progress s s'"
    and "\<And>c. mission_inv A s \<Longrightarrow> c \<in> set (observatoryCommand s') \<Longrightarrow> \<exists>c' \<in> set (observatoryCommand s).
       \<forall>A t. (placed A c' t \<longrightarrow> placed A c t) \<and> (owned c' t \<longrightarrow> owned c t)"
  shows "good A s s'"
  unfolding good_def mission_inv_def
proof (intro impI conjI ballI; elim conjE)
  assume inv: "missions_ok s" "owners_ok (missionSession s)" "\<forall>c \<in> set (observatoryCommand s). placed A c s \<and> owned c s"
  then have i: "mission_inv A s" by (simp add: mission_inv_def)
  from assms(1) [OF i] show "missions_ok s'" "owners_ok (missionSession s')" "progress s s'" by auto
  fix c assume "c \<in> set (observatoryCommand s')"
  from assms(2) [OF i this] obtain c' where c': "c' \<in> set (observatoryCommand s)"
    and le: "\<And>A t. placed A c' t \<Longrightarrow> placed A c t" "\<And>t. owned c' t \<Longrightarrow> owned c t" by blast
  from inv(3) c' have "placed A c' s" "owned c' s" by auto
  with assms(1) [OF i] show "placed A c s'" "owned c s'" using le placed_mono owned_mono by blast+
qed

lemma good_frame:
  assumes "mission s' = mission s" and "missionSession s' = missionSession s"
    and "observatoryCommand s' = observatoryCommand s" and "map site_key (observatory s') = map site_key (observatory s)"
  shows "good A s s'"
  by (rule goodI) (use assms in \<open>auto simp: mission_inv_def missions_ok_def progress_def\<close>)

lemma keeps_good: "(\<And>s x s'. m s = Inr (x, s') \<Longrightarrow> good A s s') \<Longrightarrow> keeps (good A s0) m"
  by (rule keepsI) (blast intro: good_trans)

named_theorems good_intros "the guarantee of the statements of the mission operations"

lemma good_recordAuditEvent [good_intros]: "keeps (good A s0) (recordAuditEvent e)"
  by (rule keeps_recordAuditEvent, erule good_trans, rule good_frame) simp_all

lemma good_queueEmail [good_intros]: "keeps (good A s0) (queueEmail e)"
  by (rule keeps_queueEmail, erule good_trans, rule good_frame) simp_all

lemma good_createEvent [good_intros]: "keeps (good A s0) (createEvent e)"
  unfolding createEvent_def by (rule keeps_modifies, erule good_trans, rule good_frame) simp_all

lemma good_notifyAgent [good_intros]: "keeps (good A s0) (notifyAgent n)"
  unfolding notifyAgent_def by (rule keeps_modifies, erule good_trans, rule good_frame) simp_all

lemma good_create_capture [good_intros]:
  "keeps (good A s0) (tx_create capture capture_update C row)"
  "keeps (good A s0) (tx_create captureAccess captureAccess_update D access)"
  by (rule keeps_create, erule good_trans, rule good_frame, simp_all)+

lemma updateMissions_eq_Inr:
  "updateMissions P f s = Inr (n, s') \<longleftrightarrow> active_per_observatory (updateMany P f (mission s))
     \<and> n = length (filter P (mission s)) \<and> s' = s\<lparr>mission := updateMany P f (mission s)\<rparr>"
  by (auto simp: updateMissions_def Let_def)

lemma good_updateMissions:
  assumes "\<And>x. P x \<Longrightarrow> follows x (f x)"
  shows "keeps (good A s0) (updateMissions P f)"
proof (rule keeps_good)
  fix s n s' assume u: "updateMissions P f s = Inr (n, s')"
  have ids: "map mi_id (updateMany P f (mission s)) = map mi_id (mission s)"
    using assms by (auto intro!: map_updateMany_inv simp: follows_def)
  have "\<exists>m' \<in> set (updateMany P f (mission s)). follows m m'" if "m \<in> set (mission s)" for m
    using that assms by (rule follow_update)
  with u ids show "good A s s'"
    by (intro goodI) (auto simp: updateMissions_eq_Inr mission_inv_def missions_ok_def progress_def)
qed

lemma owners_ok_append:
  assumes "owners_ok xs" and "\<not> list_ex (session_conflict x) xs"
  shows "owners_ok (xs @ [x])"
  using assms by (auto simp: owners_ok_def session_conflict_def list_ex_iff)

lemma owners_ok_revoke:
  assumes "owners_ok xs" and "\<And>x. P x \<Longrightarrow> ss_id (f x) = ss_id x \<and> ss_revokedAt (f x) \<noteq> None"
  shows "owners_ok (updateMany P f xs)"
proof -
  have revoked: "P x \<Longrightarrow> \<exists>t. ss_revokedAt (f x) = Some t" for x using assms(2) by auto
  have "filter (\<lambda>x. ss_revokedAt x = None) (updateMany P f xs) = filter (\<lambda>x. \<not> P x) (filter (\<lambda>x. ss_revokedAt x = None) xs)"
    by (induction xs) (auto dest: revoked)
  then show ?thesis
    using assms map_updateMany_inv [of P ss_id f xs] by (simp add: owners_ok_def distinct_map_filter del: filter_filter)
qed

lemma good_createSession [good_intros]: "keeps (good A s0) (createSession x)"
proof (rule keeps_good)
  fix s y s' assume "createSession x s = Inr (y, s')"
  then show "good A s s'"
    by (intro goodI) (auto simp: createSession_def tx_create_def mission_inv_def missions_ok_def owners_ok_append progress_def
        split: if_splits)
qed

lemma good_revokeSessions [good_intros]: "keeps (good A s0) (revokeSessions P now reason)"
proof (rule keeps_good)
  fix s n s'
  let ?P = "\<lambda>x. P x \<and> ss_revokedAt x = None"
  let ?f = "\<lambda>x. x\<lparr>ss_revokedAt := Some now, ss_revokedFor := (case reason of None \<Rightarrow> ss_revokedFor x | Some r \<Rightarrow> Some r)\<rparr>"
  assume "revokeSessions P now reason s = Inr (n, s')"
  then have s': "s' = s\<lparr>missionSession := updateMany ?P ?f (missionSession s)\<rparr>"
    by (simp add: revokeSessions_def tx_updateMany_def)
  have "\<exists>x' \<in> set (updateMany ?P ?f (missionSession s)). persists x x'" if "x \<in> set (missionSession s)" for x
    using that by (rule persist_update) (simp add: persists_def)
  then show "good A s s'"
    unfolding s' by (intro goodI) (auto simp: mission_inv_def missions_ok_def progress_def intro!: owners_ok_revoke)
qed

text \<open>A command row already written may change only in what it does not rest on.\<close>

lemma good_updateCommands:
  assumes "\<And>c. P c \<Longrightarrow> cm_missionId (f c) = cm_missionId c \<and> cm_sessionId (f c) = cm_sessionId c \<and> cm_userId (f c) = cm_userId c
      \<and> cm_observatoryId (f c) = cm_observatoryId c \<and> cm_issuedAt (f c) = cm_issuedAt c \<and> cm_expiresAt (f c) = cm_expiresAt c
      \<and> cm_payload (f c) = cm_payload c"
  shows "good A s (s\<lparr>observatoryCommand := updateMany P f (observatoryCommand s)\<rparr>)"
proof (rule goodI)
  show "missions_ok (s\<lparr>observatoryCommand := updateMany P f (observatoryCommand s)\<rparr>)
    \<and> owners_ok (missionSession (s\<lparr>observatoryCommand := updateMany P f (observatoryCommand s)\<rparr>))
    \<and> progress s (s\<lparr>observatoryCommand := updateMany P f (observatoryCommand s)\<rparr>)" if "mission_inv A s"
    using that by (auto simp: mission_inv_def missions_ok_def progress_def)
  fix c assume "c \<in> set (observatoryCommand (s\<lparr>observatoryCommand := updateMany P f (observatoryCommand s)\<rparr>))"
  then obtain c' where c': "c' \<in> set (observatoryCommand s)" and c: "c = (if P c' then f c' else c')"
    by (auto simp: set_updateMany)
  have "(placed A c' t \<longrightarrow> placed A c t) \<and> (owned c' t \<longrightarrow> owned c t)" for A t
    using assms [of c'] unfolding c by (auto simp: placed_def owned_def)
  with c' show "\<exists>c' \<in> set (observatoryCommand s). \<forall>A t. (placed A c' t \<longrightarrow> placed A c t) \<and> (owned c' t \<longrightarrow> owned c t)"
    by blast
qed

text \<open>
  A fact that lasts rides along with the guarantee. A command may be written once it rests on
  what the database holds, and keeps doing so.
\<close>

abbreviation under :: "astronomy \<Rightarrow> (db \<Rightarrow> bool) \<Rightarrow> db \<Rightarrow> db \<Rightarrow> bool" where
  "under A Q s0 s \<equiv> good A s0 s \<and> (mission_inv A s0 \<longrightarrow> Q s)"

abbreviation rests :: "astronomy \<Rightarrow> command_row \<Rightarrow> db \<Rightarrow> bool" where
  "rests A c s \<equiv> placed A c s \<and> owned c s"

lemma under_step:
  assumes "\<And>s s'. progress s s' \<Longrightarrow> Q s \<Longrightarrow> Q s'" and "under A Q s0 s" and "good A s s'"
  shows "under A Q s0 s'"
  using assms by (metis good_def good_trans)

lemma keeps_under:
  assumes "\<And>s s'. progress s s' \<Longrightarrow> Q s \<Longrightarrow> Q s'" and "\<And>s0. keeps (good A s0) m"
  shows "keeps (under A Q s0) m"
proof (rule keepsI)
  fix s x s' assume u: "under A Q s0 s" and m: "m s = Inr (x, s')"
  have "good A s s'" using assms(2) [of s] good_refl m by (rule keepsD)
  then show "under A Q s0 s'" using under_step [of Q A s0 s s'] assms(1) u by blast
qed

lemma rests_mono: "progress s s' \<Longrightarrow> rests A c s \<Longrightarrow> rests A c s'"
  by (blast intro: placed_mono owned_mono)

lemma keeps_placed: "(\<And>s0. keeps (good A s0) m) \<Longrightarrow> keeps (under A (placed B c) s0) m"
  by (rule keeps_under) (auto intro: placed_mono)

lemma keeps_rests: "(\<And>s0. keeps (good A s0) m) \<Longrightarrow> keeps (under A (rests B c) s0) m"
  by (rule keeps_under) (auto intro: placed_mono owned_mono)

lemma rests_createCommand: "keeps (under A (rests A c) s0) (createCommand c)"
proof (rule keepsI)
  fix s x s' assume r: "under A (rests A c) s0 s" and "createCommand c s = Inr (x, s')"
  then have s': "s' = s\<lparr>observatoryCommand := observatoryCommand s @ [c]\<rparr>"
    by (auto simp: createCommand_def tx_create_def split: if_splits)
  have "progress s s'" unfolding s' by (auto simp: progress_def)
  moreover have "placed A d s' = placed A d s" "owned d s' = owned d s" for d
    unfolding s' by (simp_all add: placed_def owned_def)
  ultimately show "under A (rests A c) s0 s'"
    using r unfolding good_def by (auto simp: s' mission_inv_def missions_ok_def dest: progress_trans [of s0 s])
qed

lemma rests_write_command: "keeps (under A (rests A c) s0) (write_command c entry)"
  unfolding write_command_def by (intro keeps_intros rests_createCommand keeps_rests good_intros)

section \<open>Decisions\<close>

lemma limits_floor: "15 \<le> sunExclusionDegrees c" "daylightLockAltitudeDegrees c \<le> 0"
  by (simp_all add: limits_eq split: number.split)

lemma judge_coordinates_clear:
  assumes "judge_coordinates A config ob coordinates now = PERMITTED"
  shows "clear_of_sun A (site_of ob) coordinates now"
proof -
  define h where "h = horizontalAirlessOf A coordinates now (site_of ob)"
  have h: "\<lparr>hz_altitudeDegrees = hz_altitudeDegrees h, hz_azimuthDegrees = hz_azimuthDegrees h\<rparr> = h" by simp
  from assms obtain c where "sunExclusionDegrees c \<le> horizontalSeparationDegrees h (sunHorizontal A now (site_of ob))"
    and "sunAltitudeDegrees A now (site_of ob) \<le> daylightLockAltitudeDegrees c"
    by (auto simp: judge_coordinates_def pointing_at_def evaluatePointing_judged judge_permitted h_def [symmetric] h)
  with limits_floor [of c] show ?thesis unfolding clear_of_sun_def h_def by linarith
qed

lemma verdict_failure_None [simp]: "verdict_failure v = None \<longleftrightarrow> v = PERMITTED"
  by (cases v) (simp_all add: verdict_failure_def)

lemma observatory_of_Inr: "observatory_of s i = Inr ob \<Longrightarrow> ob \<in> set (observatory s) \<and> ob_id ob = i"
  by (auto simp: observatory_of_def dest: find_SomeD split: option.splits)

lemma judge_start_scheduled:
  assumes "judge_start A s m ob now expiresAt = Inr (Start_scheduled m' ob' bk goto e)"
  shows "m' = m \<and> ob' = ob \<and> e = expiresAt \<and> mission_booking s m = Some bk \<and> bk_slotStartAt bk \<le> now
    \<and> gp_targetId goto = bk_targetId bk \<and> clear_of_sun A (site_of ob) (gp_coordinates goto) now"
  using assms by (auto simp: judge_start_def goto_of_def split: option.splits if_splits sum.splits safetyVerdict.splits
      dest: judge_coordinates_clear)


lemma plan_start_scheduled:
  assumes "plan_start A s i act now = Inr (Start_scheduled m ob bk goto e)"
  shows "find (\<lambda>m. mi_id m = i) (mission s) = Some m \<and> mi_userId m = ac_id act \<and> mi_state m = MS_SCHEDULED
    \<and> observatory_of s (mi_observatoryId m) = Inr ob \<and> ob_status ob = OB_ONLINE \<and> ob_holdActive ob \<noteq> Some True
    \<and> e = sessionExpiry (mission_booking s m) now \<and> now < e \<and> judge_start A s m ob now e = Inr (Start_scheduled m ob bk goto e)"
  using assms
  by (auto simp: plan_start_def Let_def split: option.splits if_splits sum.splits dest: judge_start_scheduled)

lemma plan_start_live:
  assumes "plan_start A s i act now = Inr (Open_live m e)"
  shows "find (\<lambda>m. mi_id m = i) (mission s) = Some m \<and> is_live m \<and> now < e"
proof -
  have "judge_start A s m' ob t e' \<noteq> Inr (Open_live m e)" for m' ob t e'
    by (auto simp: judge_start_def split: option.splits if_splits sum.splits safetyVerdict.splits)
  with assms show ?thesis
    by (auto simp: plan_start_def Let_def split: option.splits if_splits sum.splits)
qed

lemma buildPayload_kind:
  "buildPayload A request m tg cur bk ob to now = Inr (Inr (type, payload)) \<Longrightarrow> payload_kind payload = type"
  by (auto simp: buildPayload_def Let_def split: clientCommandType.splits option.splits if_splits sum.splits)

lemma mint_payload_Mint:
  assumes "mint_payload A s request act m ob session to now inSlot = Inr (Mint m' ob' session' type payload)"
  shows "m' = m \<and> ob' = ob \<and> session' = session \<and> inSlot = None \<and> payload_kind payload = type
    \<and> preValidate A s type payload ob now = Inr None"
  using assms
  by (auto simp: mint_payload_def split: option.splits sum.splits prod.splits dest: buildPayload_kind)

lemma plan_command_Mint:
  assumes "plan_command A before s i request act now = Inr (Mint m ob session type payload)"
  shows "find (\<lambda>m. mi_id m = i) (mission s) = Some m \<and> is_live m \<and> currentSession s i now = Some session
    \<and> ss_userId session = ac_id act \<and> observatory_of s (mi_observatoryId m) = Inr ob
    \<and> payload_kind payload = type \<and> preValidate A s type payload ob now = Inr None"
  using assms
  by (auto simp: plan_command_def Let_def split: option.splits if_splits sum.splits clientCommandType.splits
      dest!: mint_payload_Mint)

lemma plan_override_Mint:
  assumes "plan_override A s request operatorId now = Inr (Mint m ob session type payload)"
  shows "or_missionId request = Some (mi_id m) \<and> find (\<lambda>x. mi_id x = mi_id m) (mission s) = Some m \<and> is_live m
    \<and> currentSession s (mi_id m) now = Some session \<and> observatory_of s (mi_observatoryId m) = Inr ob
    \<and> payload = or_payload request \<and> type = or_type request \<and> payload_kind payload = type
    \<and> preValidateOverride A s payload ob now = Inr None"
  using assms by (auto simp: plan_override_def dest: find_SomeD split: option.splits if_splits sum.splits)

lemma preValidate_clear:
  "preValidate A s (payload_kind payload) payload ob now = Inr None \<Longrightarrow> slew_of payload = Some co \<Longrightarrow>
     clear_of_sun A (site_of ob) co now"
  by (cases payload) (auto simp: preValidate_def split: sum.splits dest: judge_coordinates_clear)

lemma preValidateOverride_clear:
  "preValidateOverride A s payload ob now = Inr None \<Longrightarrow> slew_of payload = Some co \<Longrightarrow> clear_of_sun A (site_of ob) co now"
  by (cases payload) (auto simp: preValidateOverride_def isRecoveryCommand_def RECOVERY_COMMANDS_def
      split: sum.splits dest: judge_coordinates_clear)

lemma currentSession_Some:
  "currentSession s i now = Some x \<Longrightarrow> x \<in> set (missionSession s) \<and> ss_missionId x = i \<and> ss_revokedAt x = None \<and> now < ss_expiresAt x"
  by (auto simp: currentSession_def dest: find_SomeD)

lemma command_for_placed:
  assumes "m \<in> set (mission s)" and "observatory_of s (mi_observatoryId m) = Inr ob"
    and "\<And>co. slew_of payload = Some co \<Longrightarrow> clear_of_sun A (site_of ob) co now"
  shows "placed A (command_for i m ob session now type payload) s"
  using assms observatory_of_Inr [OF assms(2)] by (auto simp: placed_def command_for_def)

lemma command_for_owned:
  "currentSession s (mi_id m) now = Some session \<Longrightarrow> owned (command_for i m ob session now type payload) s"
  by (auto simp: owned_def command_for_def dest!: currentSession_Some)

section \<open>Every operation keeps the guarantee\<close>

lemma edge_may [intro]: "edge a b \<Longrightarrow> edge\<^sup>*\<^sup>* a b"
  by (rule r_into_rtranclp)

lemma edge_moves:
  "a \<in> set (legalPredecessorsOf b) \<Longrightarrow> edge a b"
  "edge MS_SCHEDULED MS_PREPARING" "edge MS_SCHEDULED MS_CANCELLED" "edge MS_PREPARING MS_FAILED"
  "a \<in> set LIVE_MISSION_STATES \<Longrightarrow> edge a MS_FAILED" "\<not> is_terminal a \<Longrightarrow> edge a MS_CANCELLED"
  by (auto simp: edge_def table_defs)

lemma follows_moves:
  "edge (mi_state x) (mi_state (f x)) \<Longrightarrow> mi_id (f x) = mi_id x \<Longrightarrow> mi_observatoryId (f x) = mi_observatoryId x \<Longrightarrow>
   mi_userId (f x) = mi_userId x \<Longrightarrow>
   (mi_sessionEndedNotifiedAt x \<noteq> None \<Longrightarrow> mi_sessionEndedNotifiedAt (f x) = mi_sessionEndedNotifiedAt x) \<Longrightarrow>
   (mi_slotEndNotifiedAt x \<noteq> None \<Longrightarrow> mi_slotEndNotifiedAt (f x) = mi_slotEndNotifiedAt x) \<Longrightarrow> follows x (f x)"
  by (auto simp: follows_def)

lemma edge_same: "edge a a"
  by (simp add: edge_def table_defs)

lemmas good_moves = good_updateMissions [OF follows_moves]

lemma good_open_session [good_intros]: "keeps (good A s0) (open_session i m act now e bounded)"
  unfolding open_session_def by (intro keeps_intros good_intros)

lemma good_revokeMissionSession [good_intros]: "keeps (good A s0) (revokeMissionSession i reason now)"
  unfolding revokeMissionSession_def by (intro keeps_intros good_intros)

lemma good_applyMissionEvent [good_intros]: "keeps (good A s0) (applyMissionEvent e)"
  unfolding applyMissionEvent_def
  by (intro keeps_intros good_intros good_moves) (auto simp: move_mission_def intro: edge_moves)

lemma good_recordImageHealth [good_intros]: "keeps (good A s0) (recordImageHealth i j u now)"
  unfolding recordImageHealth_def by (intro keeps_intros good_intros good_moves) (auto simp: edge_same)

lemma good_settleHeldMission [good_intros]: "keeps (good A s0) (settleHeldMission ob i r now msg)"
  unfolding settleHeldMission_def
  by (intro keeps_intros good_intros good_moves) (auto intro: edge_moves)

lemma good_observatory:
  assumes "\<And>ob. P ob \<Longrightarrow> site_key (f ob) = site_key ob"
  shows "keeps (good A s0) (tx_update observatory observatory_update P f)"
proof (rule keeps_update)
  fix s assume "good A s0 s"
  then show "good A s0 (s\<lparr>observatory := updateMany P f (observatory s)\<rparr>)"
    by (rule good_trans) (rule good_frame; simp add: map_updateMany_inv [of P site_key f] assms)
qed

lemma good_markLinkUp [good_intros]: "keeps (good A s0) (markLinkUp i b r now)"
  unfolding markLinkUp_def settle_hello_def Let_def
  by (intro keeps_intros good_intros good_observatory) simp_all

lemma good_markLinkLost [good_intros]: "keeps (good A s0) (markLinkLost i now)"
  unfolding markLinkLost_def by (intro keeps_intros good_intros good_observatory) simp

lemma good_recordPosture [good_intros]: "keeps (good A s0) (recordPosture i p r)"
  unfolding recordPosture_def Let_def by (intro keeps_intros good_intros good_observatory) simp

lemma good_recordCapture [good_intros]: "keeps (good A s0) (recordCapture i c)"
  unfolding recordCapture_def file_capture_def by (intro keeps_intros good_intros)

lemma good_markCommandRelayed [good_intros]: "keeps (good A s0) (markCommandRelayed i now)"
  unfolding markCommandRelayed_def
  by (rule keeps_update, erule good_trans) (rule good_updateCommands, simp)

lemma good_apply_verdict [good_intros]: "keeps (good A s0) (apply_verdict v status)"
  unfolding apply_verdict_def
  by (rule keeps_updateMany, erule good_trans) (rule good_updateCommands, simp)

lemma good_start_dwell [good_intros]: "keeps (good A s0) (start_dwell v c i)"
  unfolding start_dwell_def by (intro keeps_intros good_intros good_moves) (auto simp: edge_same)

lemma good_failRefusedStart [good_intros]: "keeps (good A s0) (failRefusedStart v i clock)"
  unfolding failRefusedStart_def Let_def
  by (intro keeps_intros good_intros good_moves) (auto intro: edge_moves)

lemma good_close_unstarted [good_intros]: "keeps (good A s0) (close_unstarted now x)"
  unfolding close_unstarted_def prod.case_eq_if
  by (intro keeps_intros good_intros good_moves) (auto intro: edge_moves)

lemma good_claim_slot [good_intros]: "keeps (good A s0) (claim_slot now x)"
  unfolding claim_slot_def prod.case_eq_if
  by (intro keeps_intros good_intros good_moves) (auto simp: edge_same)

lemma good_endMissionSession [good_intros]: "keeps (good A s0) (endMissionSession i parked now)"
  unfolding endMissionSession_def announce_end_def by (intro keeps_intros good_intros good_moves) (auto simp: edge_same)

lemma good_cancelMissionAsOperator [good_intros]: "keeps (good A s0) (cancelMissionAsOperator i r z o' now)"
  unfolding cancelMissionAsOperator_def
  by (intro keeps_intros good_intros good_moves) (auto intro: edge_moves)

text \<open>A start writes the session and, resting on it, the first command.\<close>

lemma good_begin_mission:
  fixes i j u :: ident and m :: mission_row and ob :: observatory_row and goto :: goto_payload
  assumes "now < e"
  defines "x \<equiv> session_row i m u now e"
  defines "c \<equiv> command_for j m ob x now CMD_GOTO (Goto goto (Some False))"
  shows "hoare (under A (placed A c) s0) (begin_mission i j m ob bk goto u now e) (\<lambda>_. good A s0)"
proof -
  have session: "hoare (under A (placed A c) s0) (createSession x) (\<lambda>y s. y = x \<and> under A (rests A c) s0 s)"
  proof (rule hoareI)
    fix s y s' assume u: "under A (placed A c) s0 s" and cs: "createSession x s = Inr (y, s')"
    from cs have "y = x" and "x \<in> set (missionSession s')" by (auto simp: createSession_def tx_create_def split: if_splits)
    moreover have "owned c s'" using \<open>x \<in> set (missionSession s')\<close> assms(1)
      unfolding owned_def by (intro bexI [of _ x]) (simp_all add: c_def x_def command_for_def session_row_def)
    moreover have "under A (placed A c) s0 s'"
      using keepsD [OF keeps_placed [OF good_createSession] u cs] .
    ultimately show "y = x \<and> under A (rests A c) s0 s'" by simp
  qed
  have rest: "hoare (\<lambda>s. y = x \<and> under A (rests A c) s0 s)
      (bindt (notifyAgent (NOTIFY_SESSION (mi_observatoryId m) (mi_id m) (Some (ss_id y)))) (\<lambda>_.
       bindt (createCommand (command_for j m ob y now CMD_GOTO (Goto goto (Some False)))) (\<lambda>c.
       bindt (notifyAgent (NOTIFY_COMMAND (cm_id c) (mi_observatoryId m))) (\<lambda>_.
       bindt (recordAuditEvent (opened_audit m y ''USER'' ''BOOKING'')) (\<lambda>_.
       bindt (recordAuditEvent (started_audit m u j bk y (gp_coordinates goto))) (\<lambda>_.
       ret (Some y))))))) (\<lambda>_. good A s0)" for y
  proof (cases "y = x")
    case True
    have "keeps (under A (rests A c) s0) (bindt (notifyAgent (NOTIFY_SESSION (mi_observatoryId m) (mi_id m) (Some (ss_id x)))) (\<lambda>_.
       bindt (createCommand c) (\<lambda>c.
       bindt (notifyAgent (NOTIFY_COMMAND (cm_id c) (mi_observatoryId m))) (\<lambda>_.
       bindt (recordAuditEvent (opened_audit m x ''USER'' ''BOOKING'')) (\<lambda>_.
       bindt (recordAuditEvent (started_audit m u j bk x (gp_coordinates goto))) (\<lambda>_.
       ret (Some x)))))))"
      by (intro keeps_intros rests_createCommand keeps_rests good_intros)
    then show ?thesis unfolding True c_def [symmetric] keeps_def hoare_def by blast
  qed (simp add: hoare_def)
  have move: "hoare (under A (placed A c) s0) (updateMissions P f) (\<lambda>_. under A (placed A c) s0)"
    if "\<And>x. P x \<Longrightarrow> follows x (f x)" for P f
    using keeps_placed [OF good_updateMissions [OF that]] by (simp add: keeps_def)
  have event: "hoare (under A (placed A c) s0) (createEvent v) (\<lambda>_. under A (placed A c) s0)" for v
    using keeps_placed [OF good_createEvent] by (simp add: keeps_def)
  have none: "hoare (under A (placed A c) s0) (ret y) (\<lambda>_. good A s0)" for y :: "missionSession_row option"
    by (auto simp: hoare_def ret_def)
  show ?thesis
    unfolding begin_mission_def x_def [symmetric]
    by (rule hoare_bindt [OF move]) (auto intro!: follows_moves edge_moves(2) hoare_bindt [OF event] hoare_bindt [OF session] rest none)
qed

text \<open>The operations that decide first and write after others have committed.\<close>

lemma good_transaction: "good A s0 s \<Longrightarrow> keeps (good A s0) m \<Longrightarrow> good A s0 (snd (transaction m s))"
  by (rule transaction_keeps)

lemma transaction_hoare:
  assumes "hoare P m (\<lambda>_. I)" and "P s" and "I s"
  shows "I (snd (transaction m s))"
  using assms by (auto simp: transaction_def dest: hoareD split: sum.splits)

lemma good_startMissionSession:
  assumes others: "good A s (others s)"
  shows "good A s (snd (startMissionSession A others i j missionId act now s))"
proof (cases "plan_start A s missionId act now")
  case (Inl e)
  with others show ?thesis by (simp add: startMissionSession_def)
next
  case (Inr plan)
  show ?thesis
  proof (cases plan)
    case (Refuse_start f)
    with Inr others show ?thesis by (simp add: startMissionSession_def)
  next
    case (Open_live m e)
    define b where "b = (if mission_booking s m = None then ''UNBOOKED_DEFAULT'' else ''BOOKING'')"
    obtain r t where rt: "transaction (open_session i m act now e b) (others s) = (r, t)" by fastforce
    with good_transaction [OF others good_open_session] have "good A s t" by (metis snd_conv)
    with Inr Open_live show ?thesis
      by (cases r) (simp_all add: startMissionSession_def Let_def b_def [symmetric] rt)
  next
    case (Start_scheduled m ob bk goto e)
    with Inr have plan: "plan_start A s missionId act now = Inr (Start_scheduled m ob bk goto e)" by simp
    define c where "c = command_for j m ob (session_row i m (ac_id act) now e) now CMD_GOTO (Goto goto (Some False))"
    have "placed A c s"
      using plan_start_scheduled [OF plan] judge_start_scheduled [of A s m ob now e m ob bk goto e]
      unfolding c_def by (intro command_for_placed) (auto dest: find_SomeD)
    with others have "under A (placed A c) s (others s)" by (auto simp: good_def intro: placed_mono)
    with others have "good A s (snd (transaction (begin_mission i j m ob bk goto (ac_id act) now e) (others s)))"
      using plan_start_scheduled [OF plan] unfolding c_def
      by (intro transaction_hoare [OF good_begin_mission]) simp_all
    moreover obtain r t where rt: "transaction (begin_mission i j m ob bk goto (ac_id act) now e) (others s) = (r, t)" by fastforce
    ultimately have "good A s t" by simp
    with plan show ?thesis
      by (cases r) (simp_all add: startMissionSession_def rt split: option.splits)
  qed
qed

lemma good_refuse_with: "good A s0 s \<Longrightarrow> good A s0 (snd (refuse_with f entry s))"
  unfolding refuse_with_def by (cases entry) (simp_all, intro good_transaction keeps_intros good_intros)

text \<open>A planned command rests on the database it was planned on, so it may be written on a later one.\<close>

lemma good_planned_command:
  fixes j :: ident and type :: commandType
  assumes later: "good A s t"
    and "m \<in> set (mission s)" and "observatory_of s (mi_observatoryId m) = Inr ob"
    and "currentSession s (mi_id m) now = Some session"
    and "\<And>co. slew_of payload = Some co \<Longrightarrow> clear_of_sun A (site_of ob) co now"
  defines "c \<equiv> command_for j m ob session now type payload"
  shows "good A s (snd (transaction (bindt (write_command c entry) (\<lambda>_. ret r)) t))"
proof -
  have "rests A c s"
    using assms(2-5) unfolding c_def by (simp add: command_for_placed command_for_owned)
  with later have u: "under A (rests A c) s t" by (auto simp: good_def intro: placed_mono owned_mono)
  have "keeps (under A (rests A c) s) (bindt (write_command c entry) (\<lambda>_. ret r))"
    by (intro keeps_intros rests_write_command)
  from transaction_keeps [OF this u] show ?thesis by blast
qed

lemma good_mintMissionCommand:
  assumes others: "good A s (others s)"
  shows "good A s (snd (mintMissionCommand A before others j missionId request act now s))"
proof (cases "plan_command A before s missionId request act now")
  case (Inr plan)
  show ?thesis
  proof (cases plan)
    case (Mint m ob session type payload)
    with Inr have plan: "plan_command A before s missionId request act now = Inr (Mint m ob session type payload)" by simp
    note p = plan_command_Mint [OF plan]
    then have m: "m \<in> set (mission s)" "mi_id m = missionId" by (auto dest: find_SomeD)
    have "good A s (snd (transaction (bindt (write_command (command_for j m ob session now type payload) entry) (\<lambda>_. ret r)) (others s)))"
      for entry and r :: mintResult
      using p m preValidate_clear [of A s payload ob now] by (intro good_planned_command [OF others]) simp_all
    then show ?thesis unfolding mintMissionCommand_def plan Let_def by simp
  qed (use Inr others in \<open>simp add: mintMissionCommand_def good_refuse_with\<close>)
qed (use others in \<open>simp add: mintMissionCommand_def\<close>)

lemma good_issueOperatorOverride:
  assumes others: "good A s (others s)"
  shows "good A s (snd (issueOperatorOverride A others j request operatorId now s))"
proof (cases "plan_override A s request operatorId now")
  case (Inr plan)
  show ?thesis
  proof (cases plan)
    case (Mint m ob session type payload)
    with Inr have plan: "plan_override A s request operatorId now = Inr (Mint m ob session type payload)" by simp
    note p = plan_override_Mint [OF plan]
    then have m: "m \<in> set (mission s)" by (auto dest: find_SomeD)
    have "good A s (snd (transaction (bindt (write_command (command_for j m ob session now type payload) entry) (\<lambda>_. ret r)) (others s)))"
      for entry and r :: mintResult
      using p m by (intro good_planned_command [OF others]) (auto intro: preValidateOverride_clear)
    then show ?thesis unfolding issueOperatorOverride_def plan Let_def by simp
  qed (use Inr others in \<open>simp add: issueOperatorOverride_def good_refuse_with\<close>)
qed (use others in \<open>simp add: issueOperatorOverride_def\<close>)

lemma good_sweep:
  assumes "\<And>x s. good A s (others x s)" and "\<And>x s0. keeps (good A s0) (f x)"
  shows "good A s0 s \<Longrightarrow> good A s0 (snd (sweep others f xs won s))"
proof (induction xs arbitrary: won s)
  case (Cons x xs)
  then have "good A s0 (snd (transaction (f x) (others x s)))"
    by (intro good_transaction assms(2) good_trans [OF _ assms(1)])
  with Cons.IH show ?case by (auto split: prod.splits sum.splits)
qed simp

lemma good_after_verdict:
  assumes others: "\<And>n s. good A s (others n s)" and "good A s0 s"
  shows "good A s0 (snd (after_verdict others clock v c status s))"
proof -
  have step: "good A s0 (snd (transaction m (others n t)))" if "good A s0 t" and "\<And>s0. keeps (good A s0) m"
    for n t and m :: "(db, unit) tx"
    using good_trans [OF that(1) others] that(2) by (rule good_transaction)
  obtain r1 s1 where t1: "transaction (recordAuditEvent (verdict_audit v)) (others (Suc 0) s) = (r1, s1)" by fastforce
  have "good A s0 (snd (transaction (recordAuditEvent (verdict_audit v)) (others (Suc 0) s)))"
    using assms(2) good_recordAuditEvent by (rule step)
  then have g1: "good A s0 s1" by (simp add: t1)
  have dwell: "good A s0 (snd (dwell_step others v c s1))"
    unfolding dwell_step_def using g1 by (auto split: option.splits intro!: step good_start_dwell)
  have start: "good A s0 (snd (start_step others clock v c status s2))" if "good A s0 s2" for s2
    unfolding start_step_def using that by (auto intro!: step good_failRefusedStart)
  show ?thesis
    unfolding after_verdict_def using g1 dwell start by (auto simp: t1 split: prod.splits sum.splits)
qed

lemma good_recordCommandVerdict:
  assumes others: "\<And>n s. good A s (others n s)"
  shows "good A s (snd (recordCommandVerdict others clock v s))"
proof -
  have applied: "good A s (snd (transaction (apply_verdict v status) (others 0 s)))" for status
    using others good_apply_verdict by (rule good_transaction)
  show ?thesis
  proof (cases "\<exists>c status. find (\<lambda>c. cm_id c = vr_commandId v) (observatoryCommand s) = Some c
      \<and> cm_observatoryId c = vr_observatoryId v \<and> COMMAND_STATUS_FOR (vr_status v) = Some status")
    case True
    then obtain c status where c: "find (\<lambda>c. cm_id c = vr_commandId v) (observatoryCommand s) = Some c"
      "cm_observatoryId c = vr_observatoryId v" "COMMAND_STATUS_FOR (vr_status v) = Some status" by blast
    obtain r t where rt: "transaction (apply_verdict v status) (others 0 s) = (r, t)" by fastforce
    obtain r' t' where rt': "after_verdict others clock v c status t = (r', t')" by fastforce
    from applied [of status] have g: "good A s t" by (simp add: rt)
    have "good A s (snd (after_verdict others clock v c status t))" using others g by (rule good_after_verdict)
    then have "good A s t'" by (simp add: rt')
    with g show ?thesis by (cases r; cases r') (simp_all add: recordCommandVerdict_def c rt rt')
  qed (use others in \<open>auto simp: recordCommandVerdict_def split: option.splits\<close>)
qed

section \<open>Runs\<close>

text \<open>
  What the rest of the platform may do: anything to the other tables, and move no site. New
  missions come from a settled payment or a booking paid otherwise (Settle, Reserve): scheduled,
  with a fresh id.
\<close>

definition elsewhere :: "db \<Rightarrow> db \<Rightarrow> bool" where
  "elsewhere s s' \<longleftrightarrow> mission s' = mission s \<and> missionSession s' = missionSession s
     \<and> observatoryCommand s' = observatoryCommand s \<and> map site_key (observatory s') = map site_key (observatory s)"

inductive mission_run :: "astronomy \<Rightarrow> db \<Rightarrow> db \<Rightarrow> bool" for A :: astronomy where
  idle: "mission_run A s s"
| elsewhere: "mission_run A s0 s \<Longrightarrow> elsewhere s s' \<Longrightarrow> mission_run A s0 s'"
| scheduled: "mission_run A s0 s \<Longrightarrow> mi_state m = MS_SCHEDULED \<Longrightarrow> mi_id m \<notin> mi_id ` set (mission s) \<Longrightarrow>
    mission_run A s0 (s\<lparr>mission := mission s @ [m]\<rparr>)"
| start: "mission_run A s0 s \<Longrightarrow> (\<And>t. mission_run A t (others t)) \<Longrightarrow>
    mission_run A s0 (snd (startMissionSession A others i j missionId act now s))"
| mint: "mission_run A s0 s \<Longrightarrow> (\<And>t. mission_run A t (others t)) \<Longrightarrow>
    mission_run A s0 (snd (mintMissionCommand A before others j missionId request act now s))"
| override: "mission_run A s0 s \<Longrightarrow> (\<And>t. mission_run A t (others t)) \<Longrightarrow>
    mission_run A s0 (snd (issueOperatorOverride A others j orequest operatorId now s))"
| revoke: "mission_run A s0 s \<Longrightarrow> mission_run A s0 (snd (transaction (revokeMissionSession missionId reason now) s))"
| cancel: "mission_run A s0 s \<Longrightarrow>
    mission_run A s0 (snd (transaction (cancelMissionAsOperator missionId reason resolution operatorId now) s))"
| event: "mission_run A s0 s \<Longrightarrow> mission_run A s0 (snd (transaction (applyMissionEvent e) s))"
| image: "mission_run A s0 s \<Longrightarrow> mission_run A s0 (snd (transaction (recordImageHealth observatoryId missionId u now) s))"
| link_up: "mission_run A s0 s \<Longrightarrow> mission_run A s0 (snd (transaction (markLinkUp observatoryId booted held now) s))"
| link_lost: "mission_run A s0 s \<Longrightarrow> mission_run A s0 (snd (transaction (markLinkLost observatoryId now) s))"
| posture: "mission_run A s0 s \<Longrightarrow> mission_run A s0 (snd (transaction (recordPosture observatoryId p d) s))"
| relay: "mission_run A s0 s \<Longrightarrow> mission_run A s0 (snd (transaction (markCommandRelayed commandId now) s))"
| capture: "mission_run A s0 s \<Longrightarrow> mission_run A s0 (snd (transaction (recordCapture newCapture c) s))"
| verdict: "mission_run A s0 s \<Longrightarrow> (\<And>n t. mission_run A t (others2 n t)) \<Longrightarrow>
    mission_run A s0 (snd (recordCommandVerdict others2 clock v s))"
| no_show: "mission_run A s0 s \<Longrightarrow> (\<And>x t. mission_run A t (others3 x t)) \<Longrightarrow>
    mission_run A s0 (snd (closeUnstartedMissions others3 now s))"
| slot_end: "mission_run A s0 s \<Longrightarrow> (\<And>x t. mission_run A t (others3 x t)) \<Longrightarrow>
    mission_run A s0 (snd (claimEndedSlots others3 now s))"
| session_end: "mission_run A s0 s \<Longrightarrow> mission_run A s0 (snd (transaction (endMissionSession missionId parked now) s))"

lemma good_scheduled:
  assumes "mi_state m = MS_SCHEDULED" and "mi_id m \<notin> mi_id ` set (mission s)"
  shows "good A s (s\<lparr>mission := mission s @ [m]\<rparr>)"
proof -
  have "\<not> is_live m" using assms(1) by (simp add: LIVE_MISSION_STATES_def)
  then show ?thesis
    using assms(2)
    by (intro goodI) (auto simp: mission_inv_def missions_ok_def active_per_observatory_def progress_def)
qed

text \<open>Any run keeps the guarantee.\<close>

theorem run_good: "mission_run A s0 s \<Longrightarrow> good A s0 s"
proof (induction rule: mission_run.induct)
  case (elsewhere s0 s s')
  then show ?case by (auto simp: elsewhere_def intro: good_trans good_frame)
next
  case (scheduled s0 s m)
  then show ?case by (auto intro: good_trans good_scheduled)
next
  case (no_show s0 s others3 now)
  then show ?case unfolding closeUnstartedMissions_def by (blast intro: good_sweep good_close_unstarted)
next
  case (slot_end s0 s others3 now)
  then show ?case unfolding claimEndedSlots_def by (blast intro: good_sweep good_claim_slot)
next
  case (start s0 s others i j missionId act now)
  show ?case by (rule good_trans [OF start.IH(1) good_startMissionSession]) (rule start.IH(2))
next
  case (mint s0 s others before j missionId request act now)
  show ?case by (rule good_trans [OF mint.IH(1) good_mintMissionCommand]) (rule mint.IH(2))
next
  case (override s0 s others j orequest operatorId now)
  show ?case by (rule good_trans [OF override.IH(1) good_issueOperatorOverride]) (rule override.IH(2))
next
  case (verdict s0 s others2 clock v)
  show ?case by (rule good_trans [OF verdict.IH(1) good_recordCommandVerdict]) (rule verdict.IH(2))
qed (auto intro: good_transaction good_intros)

lemma run_reaches:
  assumes "mission_run A s0 s" and "mission_inv A s0"
  shows "mission_inv A s" "progress s0 s"
  using run_good [OF assms(1)] assms(2) by (simp_all add: good_def)

end
