(* ===== verification/Mission_Correct.thy ===== *)
theory Mission_Correct
  imports Mission_Run
begin

text \<open>
  What the mission operations promise, over runs (Mission_Run) and call by call: who may drive
  a telescope and where it may be sent, that a mission ends once, that a start the observatory
  refuses lets go of it, that a capture is filed once, and that what a client is told agrees
  with what it will be refused.
\<close>

section \<open>Over runs\<close>

lemma live_unique:
  assumes "active_per_observatory ms" and "m \<in> set ms" and "m' \<in> set ms" and "is_live m" and "is_live m'"
    and "mi_observatoryId m = mi_observatoryId m'"
  shows "m = m'"
  using assms by (auto simp: active_per_observatory_def distinct_map dest: inj_onD)

lemma owner_unique:
  assumes "owners_ok xs" and "x \<in> set xs" and "x' \<in> set xs" and "ss_revokedAt x = None" and "ss_revokedAt x' = None"
    and "ss_missionId x = ss_missionId x'"
  shows "x = x'"
  using assms by (auto simp: owners_ok_def distinct_map dest: inj_onD)

text \<open>
  C4: One telescope, one mission, one owner. Whatever is started, commanded, reported, ended,
  cancelled or swept, in any order and with any interleaving of their transactions, an
  observatory never has two live missions and a mission never has two sessions that are not
  revoked.
\<close>

theorem telescope_has_one_owner:
  assumes "mission_run A s0 s" and "mission_inv A s0"
  shows "(\<forall>m \<in> set (mission s). \<forall>m' \<in> set (mission s).
      is_live m \<and> is_live m' \<and> mi_observatoryId m = mi_observatoryId m' \<longrightarrow> m = m')
    \<and> (\<forall>x \<in> set (missionSession s). \<forall>x' \<in> set (missionSession s).
      ss_revokedAt x = None \<and> ss_revokedAt x' = None \<and> ss_missionId x = ss_missionId x' \<longrightarrow> x = x')"
  using run_reaches(1) [OF assms] live_unique [of "mission s"] owner_unique [of "missionSession s"]
  unfolding mission_inv_def missions_ok_def by blast

text \<open>
  C5: No command sends a telescope at the Sun. Every command in the database after any run, by
  whichever of the three ways in it was minted and whatever envelope was stored at the time,
  names the session of its mission and user while it had time left, dies 30 seconds after it
  was issued, and, when it slews, points at least 15 degrees away from the Sun with the Sun not
  above the horizon at the instant and the site it was issued for.
\<close>

theorem every_command_is_safe_and_owned:
  assumes "mission_run A s0 s" and "mission_inv A s0" and "c \<in> set (observatoryCommand s)"
  shows "cm_expiresAt c = cm_issuedAt c + 30000
    \<and> (\<exists>x \<in> set (missionSession s). ss_id x = cm_sessionId c \<and> ss_missionId x = cm_missionId c
        \<and> ss_userId x = cm_userId c \<and> cm_issuedAt c < ss_expiresAt x)
    \<and> (\<exists>m \<in> set (mission s). mi_id m = cm_missionId c \<and> mi_observatoryId m = cm_observatoryId c)
    \<and> (\<forall>coordinates. slew_of (cm_payload c) = Some coordinates \<longrightarrow>
        (\<exists>ob \<in> set (observatory s). ob_id ob = cm_observatoryId c
          \<and> 15 \<le> horizontalSeparationDegrees (horizontalAirlessOf A coordinates (cm_issuedAt c) (site_of ob))
                (sunHorizontal A (cm_issuedAt c) (site_of ob))
          \<and> sunAltitudeDegrees A (cm_issuedAt c) (site_of ob) \<le> 0))"
proof -
  from run_reaches(1) [OF assms(1,2)] assms(3) have "placed A c s" and "owned c s" by (auto simp: mission_inv_def)
  then show ?thesis by (simp add: placed_def owned_def clear_of_sun_def COMMAND_TTL_SECONDS_def)
qed

lemma row_after:
  assumes "progress s s'" and "distinct (map mi_id (mission s'))"
    and "m \<in> set (mission s)" and "m' \<in> set (mission s')" and "mi_id m' = mi_id m"
  shows "follows m m'"
proof -
  from assms(1,3) obtain n where n: "n \<in> set (mission s')" "follows m n" by (auto simp: progress_def)
  then have "mi_id n = mi_id m'" using assms(5) by (simp add: follows_def)
  with n(1) assms(2,4) have "n = m'" by (auto simp: distinct_map dest: inj_onD)
  with n(2) show ?thesis by simp
qed

text \<open>
  C6: A mission ends once. After any run a mission that was complete, cancelled or failed is
  still exactly that, no mission that has left SCHEDULED is ever scheduled again, and it keeps
  its owner and its observatory.
\<close>

theorem finished_mission_stays_finished:
  assumes "mission_run A s s'" and "mission_inv A s"
    and "m \<in> set (mission s)" and "m' \<in> set (mission s')" and "mi_id m' = mi_id m"
  shows "(mi_state m \<in> {MS_COMPLETE, MS_CANCELLED, MS_FAILED} \<longrightarrow> mi_state m' = mi_state m)
    \<and> (mi_state m' = MS_SCHEDULED \<longrightarrow> mi_state m = MS_SCHEDULED)
    \<and> mi_userId m' = mi_userId m \<and> mi_observatoryId m' = mi_observatoryId m"
proof -
  have "distinct (map mi_id (mission s'))"
    using run_reaches(1) [OF assms(1,2)] by (simp add: mission_inv_def missions_ok_def)
  then have "follows m m'" using row_after [OF run_reaches(2) [OF assms(1,2)]] assms(3-5) by blast
  then show ?thesis
    using may_become_terminal [of "mi_state m" "mi_state m'"] may_become_scheduled [of "mi_state m" "mi_state m'"]
    by (auto simp: follows_def TERMINAL_MISSION_STATES_def)
qed

lemma find_by_key: "distinct (map k xs) \<Longrightarrow> x \<in> set xs \<Longrightarrow> find (\<lambda>y. k y = k x) xs = Some x"
  by (induction xs) force+

lemma filter_by_key:
  assumes "distinct (map k xs)" and "x \<in> set xs"
  shows "filter (\<lambda>y. k y = k x \<and> Q y) xs = (if Q x then [x] else [])"
  using assms
proof (induction xs)
  case (Cons z xs)
  have none: "filter (\<lambda>y. k y = k z \<and> Q y) xs = []"
    using Cons.prems(1) by (force simp: filter_empty_conv image_iff)
  show ?case
  proof (cases "x = z")
    case False
    with Cons.prems have "k z \<noteq> k x" by auto
    with Cons False show ?thesis by simp
  qed (use none in simp)
qed simp

lemmas find_by_id = find_by_key [where k = mi_id]
lemmas filter_by_id = filter_by_key [where k = mi_id]

lemma updateMany_none: "(\<And>x. x \<in> set xs \<Longrightarrow> \<not> P x) \<Longrightarrow> updateMany P f xs = xs"
  by (induction xs) auto

text \<open>The row an update of one mission leaves behind.\<close>

lemma updateMissions_by_id:
  assumes "missions_ok s" and "m \<in> set (mission s)" and "Q m"
    and "updateMissions (\<lambda>x. mi_id x = mi_id m \<and> Q x) f s = Inr (n, s')"
  shows "n = 1 \<and> f m \<in> set (mission s')"
  using assms filter_by_id [of "mission s" m Q]
  by (auto simp: updateMissions_eq_Inr missions_ok_def set_updateMany intro!: image_eqI [where x = m])

lemma updateMissions_none:
  assumes "active_per_observatory (mission s)" and "\<And>x. x \<in> set (mission s) \<Longrightarrow> \<not> P x"
  shows "updateMissions P f s = Inr (0, s)"
  using assms by (simp add: updateMissions_def updateMany_none Let_def filter_empty_conv)

lemma announce_end_missions: "keeps (\<lambda>s. mission s = ms) (announce_end m parked now)"
  unfolding announce_end_def by (intro keeps_intros keeps_outbox) simp_all

lemma ended_marks:
  assumes "missions_ok s" and "endMissionSession i parked now s = Inr (Some r, s')"
  shows "\<exists>m \<in> set (mission s'). mi_id m = i \<and> mi_sessionEndedNotifiedAt m \<noteq> None"
proof -
  let ?f = "\<lambda>x :: mission_row. x\<lparr>mi_sessionEndedNotifiedAt := Some now\<rparr>"
  let ?Q = "\<lambda>x :: mission_row. mi_sessionEndedNotifiedAt x = None"
  obtain m where m: "find (\<lambda>m. mi_id m = i) (mission s) = Some m"
    using assms(2) by (auto simp: endMissionSession_def tx_find_apply(2) ret_apply split: option.splits)
  then have id: "m \<in> set (mission s)" "mi_id m = i" by (auto dest: find_SomeD)
  from assms(2) m obtain n s1 where u: "updateMissions (\<lambda>x. mi_id x = i \<and> ?Q x) ?f s = Inr (n, s1)" and n: "n \<noteq> 0"
    and e: "announce_end m parked now s1 = Inr (r, s')"
    by (auto simp: endMissionSession_def tx_find_apply(2) ret_apply bindt_eq_Inr split: if_splits)
  have "?Q m"
    using n u filter_by_id [of "mission s" m ?Q] assms(1) id
    by (auto simp: updateMissions_eq_Inr missions_ok_def split: if_splits)
  with updateMissions_by_id [of s m ?Q ?f n s1] assms(1) id u have "?f m \<in> set (mission s1)" by simp
  moreover have "mission s' = mission s1" using announce_end_missions [of "mission s1"] e by (auto dest: keepsD)
  ultimately show ?thesis using id by (intro bexI [of _ "?f m"]) simp_all
qed

text \<open>
  C11: The end of a session is announced once. After \<open>endMissionSession\<close> has announced the end
  of a mission's session, no later call announces it again, whatever has run in between.
\<close>

theorem session_end_is_announced_once:
  assumes "mission_inv A s" and "transaction (endMissionSession i parked now) s = (Inr (Some r), s1)"
    and "mission_run A s1 s2"
  shows "transaction (endMissionSession i parked' now') s2 = (Inr None, s2)"
proof -
  from assms(2) have e: "endMissionSession i parked now s = Inr (Some r, s1)"
    by (auto simp: transaction_def split: sum.splits)
  have "mission_inv A s1" using keepsD [OF good_endMissionSession [of A s] good_refl e] assms(1) by (simp add: good_def)
  note r2 = run_reaches [OF assms(3) this]
  from ended_marks [OF _ e] assms(1) obtain m where m: "m \<in> set (mission s1)" "mi_id m = i" "mi_sessionEndedNotifiedAt m \<noteq> None"
    by (auto simp: mission_inv_def)
  have ok: "missions_ok s2" using r2(1) by (simp add: mission_inv_def)
  have told: "mi_sessionEndedNotifiedAt x \<noteq> None" if "x \<in> set (mission s2)" "mi_id x = i" for x
    using row_after [OF r2(2) _ m(1) that(1)] ok m that(2) by (auto simp: follows_def missions_ok_def)
  have "updateMissions (\<lambda>x. mi_id x = i \<and> mi_sessionEndedNotifiedAt x = None) f s2 = Inr (0, s2)" for f
    using told ok by (intro updateMissions_none) (auto simp: missions_ok_def)
  then have "endMissionSession i parked' now' s2 = Inr (None, s2)"
    by (auto simp: endMissionSession_def tx_find_apply ret_apply bindt_def [of "updateMissions a b" for a b] split: option.splits)
  then show ?thesis by (simp add: transaction_def)
qed

section \<open>What the agent reports\<close>

lemma applyMissionEvent_result:
  assumes "missions_ok s" and "m \<in> set (mission s)" and "me_missionId e = mi_id m"
    and "me_observatoryId e = mi_observatoryId m" and "applyMissionEvent e s = Inr (r, s')"
  shows "(if isLegalMissionTransition (mi_state m) (me_state e)
          then r = EV_APPLIED \<and> move_mission e m \<in> set (mission s')
          else r = EV_RECORDED \<and> mission s' = mission s)
    \<and> (\<exists>causedBy. missionEvent s' = missionEvent s @ [agent_event e m causedBy])"
proof -
  let ?Q = "\<lambda>x. mi_observatoryId x = me_observatoryId e \<and> mi_state x \<in> set (legalPredecessorsOf (me_state e))"
  have f: "find (\<lambda>x. mi_id x = me_missionId e) (mission s) = Some m"
    using find_by_id [of "mission s" m] assms(1,2,3) by (simp add: missions_ok_def)
  have q: "filter (\<lambda>x. mi_id x = mi_id m \<and> ?Q x) (mission s) = (if ?Q m then [m] else [])"
    using filter_by_id [of "mission s" m ?Q] assms(1,2) by (simp add: missions_ok_def)
  define causedBy where "causedBy = find (\<lambda>c. Some (cm_id c) = me_commandId e \<and> cm_observatoryId c = me_observatoryId e) (observatoryCommand s)"
  define s1 where "s1 = s\<lparr>missionEvent := missionEvent s @ [agent_event e m causedBy]\<rparr>"
  from assms(3-5) f obtain n where u: "updateMissions (\<lambda>x. mi_id x = mi_id m \<and> ?Q x) (move_mission e) s1 = Inr (n, s')"
    and r: "r = (if n = 1 then EV_APPLIED else EV_RECORDED)"
    by (auto simp: applyMissionEvent_def tx_find_apply createEvent_def bindt_eq_Inr ret_apply modifies_apply s1_def causedBy_def)
  have events: "missionEvent s' = missionEvent s @ [agent_event e m causedBy]"
    using u by (auto simp: updateMissions_eq_Inr s1_def)
  show ?thesis
  proof (cases "?Q m")
    case True
    have "n = 1 \<and> move_mission e m \<in> set (mission s')"
      by (rule updateMissions_by_id [OF _ _ True u]) (use assms(1,2) in \<open>simp_all add: s1_def missions_ok_def\<close>)
    with True r events show ?thesis by (auto simp: isLegalMissionTransition_def)
  next
    case False
    with q have "\<not> (mi_id x = mi_id m \<and> ?Q x)" if "x \<in> set (mission s1)" for x
      using that unfolding s1_def by (auto simp: filter_empty_conv)
    then have "updateMissions (\<lambda>x. mi_id x = mi_id m \<and> ?Q x) (move_mission e) s1 = Inr (0, s1)"
      using assms(1) by (intro updateMissions_none) (auto simp: s1_def missions_ok_def)
    with u r False events assms(4) show ?thesis by (auto simp: isLegalMissionTransition_def s1_def)
  qed
qed

text \<open>
  An event moves a mission along the table or not at all. What an observatory reports of
  its own mission is always written to the event log; the mission moves to the reported state
  when the table allows it from where it is, and otherwise stays as it was, row for row.
\<close>

theorem event_moves_along_the_table:
  assumes "missions_ok s" and "m \<in> set (mission s)" and "me_missionId e = mi_id m"
    and "me_observatoryId e = mi_observatoryId m" and "applyMissionEvent e s = Inr (r, s')"
  shows "(if isLegalMissionTransition (mi_state m) (me_state e)
          then r = EV_APPLIED \<and> move_mission e m \<in> set (mission s')
          else r = EV_RECORDED \<and> mission s' = mission s)
    \<and> (\<exists>causedBy. missionEvent s' = missionEvent s @ [agent_event e m causedBy])"
  using assms by (rule applyMissionEvent_result)

text \<open>
  A state may always be re-reported, a final one included: a second report of the state a
  mission ended in replaces the reason and the time recorded with the first.
\<close>

theorem repeated_report_rewrites_the_reason:
  assumes "missions_ok s" and "m \<in> set (mission s)" and "is_terminal (mi_state m)"
    and "e = \<lparr>me_observatoryId = mi_observatoryId m, me_missionId = mi_id m, me_state = mi_state m,
      me_failureReason = reason, me_occurredAt = t, me_commandId = None, me_detail = None\<rparr>"
    and "applyMissionEvent e s = Inr (r, s')"
  shows "r = EV_APPLIED \<and> m\<lparr>mi_failureReason := reason, mi_completedAt := Some t\<rparr> \<in> set (mission s')"
proof -
  have "move_mission e m = m\<lparr>mi_failureReason := reason, mi_completedAt := Some t\<rparr>"
    using assms(3,4) by (simp add: move_mission_def)
  with applyMissionEvent_result [OF assms(1,2) _ _ assms(5)] assms(4) show ?thesis
    by (auto simp: isLegalMissionTransition_def legalPredecessorsOf_def)
qed

section \<open>A start the observatory refuses\<close>

lemma bindt_updateMissions:
  "bindt (updateMissions P f) k s =
     (if active_per_observatory (updateMany P f (mission s))
      then k (length (filter P (mission s))) (s\<lparr>mission := updateMany P f (mission s)\<rparr>) else Inl (SqlError ''23505''))"
  by (simp add: bindt_def updateMissions_def Let_def)

lemma distinct_map_sub:
  assumes "distinct (map g (filter P xs))" and "\<And>x. Q x \<Longrightarrow> P x"
  shows "distinct (map g (filter Q xs))"
proof -
  have "filter Q xs = filter Q (filter P xs)" using assms(2) by (auto intro: filter_cong)
  with assms(1) show ?thesis by (simp only: distinct_map_filter)
qed

text \<open>Taking missions out of the live states never meets the index.\<close>

lemma active_after_ending:
  assumes "active_per_observatory ms" and "\<And>x. P x \<Longrightarrow> \<not> is_live (f x)"
  shows "active_per_observatory (updateMany P f ms)"
proof -
  have "filter is_live (updateMany P f ms) = filter (\<lambda>x. is_live x \<and> \<not> P x) ms"
    using assms(2) by (induction ms) (auto simp: LIVE_MISSION_STATES_def)
  with assms(1) show ?thesis by (auto simp: active_per_observatory_def intro: distinct_map_sub)
qed

lemma failRefusedStart_apply:
  assumes "missions_ok s" and "m \<in> set (mission s)" and "mi_state m = MS_PREPARING" and "mi_observatoryId m = vr_observatoryId v"
  defines "gone \<equiv> \<lambda>x. x\<lparr>mi_state := MS_FAILED, mi_failureReason := failureReasonForRefusedStart (vr_rejectionReason v)\<rparr>"
  shows "\<exists>ev. failRefusedStart v (mi_id m) clock s =
     Inr ((), s\<lparr>mission := updateMany (\<lambda>x. mi_id x = mi_id m \<and> mi_observatoryId x = vr_observatoryId v \<and> mi_state x = MS_PREPARING) gone (mission s),
       missionEvent := missionEvent s @ [ev],
       missionSession := updateMany (\<lambda>x. ss_missionId x = mi_id m \<and> ss_revokedAt x = None)
         (\<lambda>x. x\<lparr>ss_revokedAt := Some clock, ss_revokedFor := Some ''START_REFUSED_BY_AGENT''\<rparr>) (missionSession s),
       auditLog := auditLog s @ [start_refused_audit v m],
       agentChannel := agentChannel s @ [NOTIFY_SESSION (vr_observatoryId v) (mi_id m) None]\<rparr>)"
proof -
  let ?Q = "\<lambda>x. mi_observatoryId x = vr_observatoryId v \<and> mi_state x = MS_PREPARING"
  have f: "find (\<lambda>x. mi_id x = mi_id m) (mission s) = Some m"
    using find_by_id [of "mission s" m] assms(1,2) by (simp add: missions_ok_def)
  have q: "length (filter (\<lambda>x. mi_id x = mi_id m \<and> ?Q x) (mission s)) = 1"
    using filter_by_id [of "mission s" m ?Q] assms(1-4) by (simp add: missions_ok_def)
  have a: "active_per_observatory (updateMany (\<lambda>x. mi_id x = mi_id m \<and> ?Q x) gone (mission s))"
    using assms(1) by (intro active_after_ending) (simp_all add: missions_ok_def gone_def LIVE_MISSION_STATES_def)
  have g: "offending_keys (au_metadata (start_refused_audit v m)) = []" by (simp add: start_refused_audit_def)
  show ?thesis
    unfolding failRefusedStart_def Let_def gone_def [symmetric]
    by (simp add: tx_find_apply(2) f bindt_updateMissions a q createEvent_def notifyAgent_def revokeSessions_def
        bindt_steps tx_updateMany_apply(2) recordAuditEvent_ok [OF g] modifies_apply) (rule exI, rule refl)
qed

text \<open>
  C7: A start the observatory refuses lets go of it. When the agent rejects the GOTO that
  started a mission, lets it expire or fails it, while the mission is still PREPARING, the
  mission is failed (as a safety refusal where the agent's reason says so), every session of
  the mission is revoked, the agent is told so, and no mission at all is live at the
  observatory, so the next one can start.
\<close>

theorem refused_start_frees_the_observatory:
  assumes "missions_ok s" and "distinct (map cm_id (observatoryCommand s))" and "c \<in> set (observatoryCommand s)"
    and "cm_id c = vr_commandId v" and "cm_observatoryId c = vr_observatoryId v"
    and "\<not> isTerminalCommandStatus (cm_status c)" and "isStartingGoto (cm_type c) (cm_payload c)"
    and "vr_status v \<in> {AS_REJECTED, AS_EXPIRED, AS_FAILED}"
    and "m \<in> set (mission s)" and "mi_id m = cm_missionId c" and "mi_state m = MS_PREPARING"
    and "mi_observatoryId m = vr_observatoryId v"
  shows "\<exists>s'. recordCommandVerdict (\<lambda>n t. t) clock v s = (Inr VR_RECORDED, s')
    \<and> m\<lparr>mi_state := MS_FAILED, mi_failureReason := failureReasonForRefusedStart (vr_rejectionReason v)\<rparr> \<in> set (mission s')
    \<and> (\<forall>x \<in> set (mission s'). mi_observatoryId x = mi_observatoryId m \<longrightarrow> \<not> is_live x)
    \<and> (\<forall>y \<in> set (missionSession s'). ss_missionId y = mi_id m \<longrightarrow> ss_revokedAt y \<noteq> None)
    \<and> last (agentChannel s') = NOTIFY_SESSION (mi_observatoryId m) (mi_id m) None"
proof -
  obtain status where st: "COMMAND_STATUS_FOR (vr_status v) = Some status" "status \<in> set START_NOT_RUN_STATUSES"
    using assms(8) by (auto simp: START_NOT_RUN_STATUSES_def)
  have notacc: "vr_status v \<noteq> AS_ACCEPTED" using assms(8) by auto
  have fc: "find (\<lambda>x. cm_id x = vr_commandId v) (observatoryCommand s) = Some c"
    using find_by_key [OF assms(2,3)] assms(4) by simp
  have one: "length (filter (\<lambda>x. cm_id x = vr_commandId v \<and> cm_observatoryId x = vr_observatoryId v \<and> \<not> isTerminalCommandStatus (cm_status x))
      (observatoryCommand s)) = 1"
    using filter_by_key [OF assms(2,3), of "\<lambda>x. cm_observatoryId x = vr_observatoryId v \<and> \<not> isTerminalCommandStatus (cm_status x)"]
      assms(4-6) by simp
  obtain cs where av: "apply_verdict v status s = Inr (1, s\<lparr>observatoryCommand := cs\<rparr>)"
    using one by (simp add: apply_verdict_def tx_updateMany_apply)
  define s1 where "s1 = s\<lparr>observatoryCommand := cs, auditLog := auditLog s @ [verdict_audit v]\<rparr>"
  have g: "offending_keys (au_metadata (verdict_audit v)) = []" by (simp add: verdict_audit_def)
  have ok1: "missions_ok s1" "m \<in> set (mission s1)" using assms(1,9) by (simp_all add: s1_def missions_ok_def)
  from failRefusedStart_apply [OF ok1 assms(11,12), of clock] obtain s' where
    fs: "failRefusedStart v (mi_id m) clock s1 = Inr ((), s')"
    and ms: "mission s' = updateMany (\<lambda>x. mi_id x = mi_id m \<and> mi_observatoryId x = vr_observatoryId v \<and> mi_state x = MS_PREPARING)
      (\<lambda>x. x\<lparr>mi_state := MS_FAILED, mi_failureReason := failureReasonForRefusedStart (vr_rejectionReason v)\<rparr>) (mission s)"
    and ss: "missionSession s' = updateMany (\<lambda>x. ss_missionId x = mi_id m \<and> ss_revokedAt x = None)
      (\<lambda>x. x\<lparr>ss_revokedAt := Some clock, ss_revokedFor := Some ''START_REFUSED_BY_AGENT''\<rparr>) (missionSession s)"
    and ch: "agentChannel s' = agentChannel s @ [NOTIFY_SESSION (vr_observatoryId v) (mi_id m) None]"
    by (auto simp: s1_def)
  have "recordCommandVerdict (\<lambda>n t. t) clock v s = (Inr VR_RECORDED, s')"
    using fs st notacc assms(5,7,10)
    by (simp add: recordCommandVerdict_def fc transaction_def av after_verdict_def recordAuditEvent_ok [OF g]
        dwell_step_def start_step_def s1_def [symmetric] split: option.splits)
  moreover have "\<not> is_live x" if "x \<in> set (mission s')" "mi_observatoryId x = mi_observatoryId m" for x
  proof
    assume "is_live x"
    with that(1) have "x \<in> set (mission s)" "\<not> (mi_id x = mi_id m \<and> mi_observatoryId x = vr_observatoryId v \<and> mi_state x = MS_PREPARING)"
      unfolding ms set_updateMany by (auto simp: LIVE_MISSION_STATES_def split: if_splits)
    moreover have "is_live m" using assms(11) by (simp add: LIVE_MISSION_STATES_def)
    ultimately have "x = m" using live_unique [of "mission s" x m] assms(1,9) \<open>is_live x\<close> that(2) by (simp add: missions_ok_def)
    with \<open>\<not> (mi_id x = mi_id m \<and> _)\<close> assms(11,12) show False by simp
  qed
  moreover have "m\<lparr>mi_state := MS_FAILED, mi_failureReason := failureReasonForRefusedStart (vr_rejectionReason v)\<rparr> \<in> set (mission s')"
    unfolding ms set_updateMany using assms(9,11,12) by (intro image_eqI [where x = m]) simp_all
  moreover have "\<forall>y \<in> set (missionSession s'). ss_missionId y = mi_id m \<longrightarrow> ss_revokedAt y \<noteq> None"
    unfolding ss set_updateMany by auto
  moreover have "last (agentChannel s') = NOTIFY_SESSION (mi_observatoryId m) (mi_id m) None"
    by (simp add: ch assms(12))
  ultimately show ?thesis by blast
qed

section \<open>The customer's commands\<close>

lemma write_command_ok:
  assumes "offending_keys (au_metadata entry) = []" and "cm_id c \<notin> cm_id ` set (observatoryCommand s)"
  shows "write_command c entry s = Inr ((), s\<lparr>observatoryCommand := observatoryCommand s @ [c],
     agentChannel := agentChannel s @ [NOTIFY_COMMAND (cm_id c) (cm_observatoryId c)], auditLog := auditLog s @ [entry]\<rparr>)"
proof -
  have "\<not> list_ex (\<lambda>old. cm_id c = cm_id old) (observatoryCommand s)" using assms(2) by (auto simp: list_ex_iff)
  then show ?thesis
    by (simp add: write_command_def createCommand_def notifyAgent_def tx_create_apply(2) bindt_steps recordAuditEvent_ok [OF assms(1)])
qed

lemma plan_abort:
  assumes "find (\<lambda>m. mi_id m = i) (mission s) = Some m" and "is_live m" and "mi_userId m = ac_id act"
    and "currentSession s i now = Some x" and "ss_userId x = ac_id act"
    and "observatory_of s (mi_observatoryId m) = Inr ob" and "target_of s (mi_targetId m) = Inr tg"
    and "mr_type request = CC_ABORT"
  shows "plan_command A before s i request act now
    = Inr (Mint m ob x CMD_ABORT (Abort (Some (case mr_reason request of None \<Rightarrow> ''CUSTOMER_ABORT'' | Some r \<Rightarrow> r))))"
  using assms by (simp add: plan_command_def mint_payload_def buildPayload_def preValidate_def)

text \<open>
  C9: The owner can always abort. Whatever the envelope says, or fails to say, whatever the
  mission is doing and whatever commits meanwhile, an ABORT by the session's owner on a live
  mission is accepted, written and announced to the agent (a command id is fresh: it is a UUID).
\<close>

theorem owner_can_always_abort:
  assumes "find (\<lambda>m. mi_id m = i) (mission s) = Some m" and "is_live m" and "mi_userId m = ac_id act"
    and "currentSession s i now = Some x" and "ss_userId x = ac_id act"
    and "observatory_of s (mi_observatoryId m) = Inr ob" and "target_of s (mi_targetId m) = Inr tg"
    and "j \<notin> cm_id ` set (observatoryCommand (others s))" and "mr_type request = CC_ABORT"
  shows "\<exists>c s'. mintMissionCommand A before others j i request act now s = (Inr (Command_accepted (accepted c)), s')
    \<and> observatoryCommand s' = observatoryCommand (others s) @ [c] \<and> cm_id c = j \<and> cm_missionId c = i
    \<and> cm_sessionId c = ss_id x \<and> cm_type c = CMD_ABORT
    \<and> cm_payload c = Abort (Some (case mr_reason request of None \<Rightarrow> ''CUSTOMER_ABORT'' | Some r \<Rightarrow> r))
    \<and> last (agentChannel s') = NOTIFY_COMMAND j (mi_observatoryId m)"
proof -
  define payload where "payload = Abort (Some (case mr_reason request of None \<Rightarrow> ''CUSTOMER_ABORT'' | Some r \<Rightarrow> r))"
  define c where "c = command_for j m ob x now CMD_ABORT payload"
  have plan: "plan_command A before s i request act now = Inr (Mint m ob x CMD_ABORT payload)"
    unfolding payload_def by (rule plan_abort [OF assms(1-7,9)])
  have g: "offending_keys (au_metadata (minted_audit act (mr_type request) c)) = []" by (simp add: minted_audit_def)
  have j: "cm_id c = j" by (simp add: c_def command_for_def)
  from write_command_ok [OF g, of c "others s"] assms(8) j obtain s' where
    w: "write_command c (minted_audit act (mr_type request) c) (others s) = Inr ((), s')"
    and s': "observatoryCommand s' = observatoryCommand (others s) @ [c]"
      "last (agentChannel s') = NOTIFY_COMMAND j (cm_observatoryId c)" by simp
  have "mintMissionCommand A before others j i request act now s = (Inr (Command_accepted (accepted c)), s')"
    unfolding mintMissionCommand_def plan by (simp add: Let_def c_def [symmetric] transaction_def bindt_Inr [where m = "write_command _ _", OF w] ret_apply)
  with s' assms(1) show ?thesis
    by (intro exI [of _ c] exI [of _ s']) (auto simp: c_def command_for_def payload_def dest: find_SomeD)
qed

lemma buildPayload_intent:
  "buildPayload A request m tg cur bk ob to now = Inr (Inr (type, payload)) \<Longrightarrow>
     (type = CMD_GOTO \<longleftrightarrow> mr_type request = CC_RECENTER)
     \<and> (type = CMD_RETARGET \<longrightarrow> payload_target payload = map_option tg_id to)"
  by (auto simp: buildPayload_def goto_of_def Let_def split: clientCommandType.splits option.splits if_splits sum.splits)

lemma mint_payload_intent:
  "mint_payload A s request act m ob session to now inSlot = Inr (Mint m' ob' session' type payload) \<Longrightarrow>
     (type = CMD_GOTO \<longleftrightarrow> mr_type request = CC_RECENTER)
     \<and> (type = CMD_RETARGET \<longrightarrow> payload_target payload = map_option tg_id to)"
  by (auto simp: mint_payload_def split: option.splits sum.splits prod.splits dest: buildPayload_intent)

lemma buildPayload_retargets:
  "buildPayload A request m tg cur bk ob to now = Inr (Inr (CMD_RETARGET, payload)) \<Longrightarrow> mr_type request = CC_RETARGET"
  by (cases "mr_type request") (auto simp: buildPayload_def Let_def split: option.splits if_splits sum.splits)

lemma mint_payload_retargets:
  "mint_payload A s request act m ob session to now inSlot = Inr (Mint m' ob' session' CMD_RETARGET payload) \<Longrightarrow>
     mr_type request = CC_RETARGET"
  by (auto simp: mint_payload_def split: option.splits sum.splits prod.splits dest: buildPayload_retargets)

lemma plan_command_retarget:
  assumes "plan_command A before s i request act now = Inr (Mint m ob session type payload)" and "mr_type request = CC_RETARGET"
  shows "\<exists>targetId to. mr_retarget request = Some targetId \<and> find (\<lambda>t. tg_id t = targetId) (target s) = Some to
    \<and> judge_retarget A before s m ob (ends_at s m session) now to = Inr None
    \<and> mint_payload A s request act m ob session (Some to) now None = Inr (Mint m ob session type payload)"
proof -
  have None: "inSlot = None \<and> m0 = m \<and> ob0 = ob \<and> x0 = session"
    if "mint_payload A s request act m0 ob0 x0 to now inSlot = Inr (Mint m ob session type payload)" for m0 ob0 x0 to inSlot
    using mint_payload_Mint [OF that] by simp
  show ?thesis
    using assms by (auto simp: plan_command_def Let_def split: option.splits if_splits sum.splits dest: None)
qed

lemma plan_command_other:
  assumes "plan_command A before s i request act now = Inr (Mint m ob session type payload)" and "mr_type request \<noteq> CC_RETARGET"
  shows "\<exists>inSlot. mint_payload A s request act m ob session None now inSlot = Inr (Mint m ob session type payload)"
proof -
  have same: "m0 = m \<and> ob0 = ob \<and> x0 = session"
    if "mint_payload A s request act m0 ob0 x0 to now inSlot = Inr (Mint m ob session type payload)" for m0 ob0 x0 to inSlot
    using mint_payload_Mint [OF that] by simp
  show ?thesis
    using assms
    by (cases "mr_type request") (auto simp: plan_command_def Let_def split: option.splits if_splits sum.splits dest: same)
qed

lemma plan_command_intent:
  assumes "plan_command A before s i request act now = Inr (Mint m ob session type payload)"
  shows "(type = CMD_GOTO \<longleftrightarrow> mr_type request = CC_RECENTER) \<and> (type = CMD_RETARGET \<longrightarrow> payload_target payload = mr_retarget request)"
proof (cases "mr_type request = CC_RETARGET")
  case True
  from plan_command_retarget [OF assms True] obtain targetId to where t: "mr_retarget request = Some targetId"
    and f: "find (\<lambda>t. tg_id t = targetId) (target s) = Some to"
    and mp: "mint_payload A s request act m ob session (Some to) now None = Inr (Mint m ob session type payload)" by blast
  from f have "tg_id to = targetId" by (auto dest: find_SomeD)
  with mint_payload_intent [OF mp] t show ?thesis by simp
next
  case False
  from plan_command_other [OF assms False] obtain inSlot where
    mp: "mint_payload A s request act m ob session None now inSlot = Inr (Mint m ob session type payload)" by blast
  with mint_payload_intent [OF mp] mint_payload_retargets False show ?thesis by blast
qed

text \<open>
  C8: A customer commands only what they own. A command is accepted only from the owner of the
  session that holds the mission, not revoked and not over, while the mission is live; a slew
  back is a GOTO only for a RECENTER, and a RETARGET goes to the target asked for; the mint
  writes one command, rings the bell once, adds one audit entry and leaves the rest to the
  others. A refusal writes nothing or one audit entry.
\<close>

theorem command_is_the_owners:
  assumes "mintMissionCommand A before others j i request act now s = (Inr r, s')"
  shows "case r of
      Command_refused f \<Rightarrow> s' = others s \<or> (\<exists>entry. s' = (others s)\<lparr>auditLog := auditLog (others s) @ [entry]\<rparr>)
    | Command_accepted a \<Rightarrow> (\<exists>m x c entry. find (\<lambda>m. mi_id m = i) (mission s) = Some m \<and> is_live m
        \<and> currentSession s i now = Some x \<and> ss_userId x = ac_id act \<and> a = accepted c \<and> cm_userId c = ac_id act
        \<and> (ma_type a = CMD_GOTO \<longleftrightarrow> mr_type request = CC_RECENTER)
        \<and> (ma_type a = CMD_RETARGET \<longrightarrow> payload_target (cm_payload c) = mr_retarget request)
        \<and> s' = (others s)\<lparr>observatoryCommand := observatoryCommand (others s) @ [c],
             agentChannel := agentChannel (others s) @ [NOTIFY_COMMAND j (mi_observatoryId m)],
             auditLog := auditLog (others s) @ [entry]\<rparr>)"
proof (cases "plan_command A before s i request act now")
  case (Inl e)
  with assms show ?thesis by (simp add: mintMissionCommand_def)
next
  case (Inr plan)
  show ?thesis
  proof (cases plan)
    case (Refuse_mint f entry)
    with Inr assms show ?thesis
      by (auto simp: mintMissionCommand_def refuse_with_def transaction_def recordAuditEvent_def assertDetailCarriesNoSecret_def
          bindt_def throw_def ret_def modifies_def split: option.splits if_splits)
  next
    case (Mint m ob x type payload)
    with Inr have plan: "plan_command A before s i request act now = Inr (Mint m ob x type payload)" by simp
    define c where "c = command_for j m ob x now type payload"
    define entry where "entry = minted_audit act (mr_type request) c"
    have g: "offending_keys (au_metadata entry) = []" by (simp add: entry_def minted_audit_def)
    have c: "cm_id c = j" "cm_observatoryId c = mi_observatoryId m" "cm_userId c = ss_userId x" "cm_type c = type" "cm_payload c = payload"
      by (simp_all add: c_def command_for_def)
    have "cm_id c \<notin> cm_id ` set (observatoryCommand (others s))"
    proof
      assume "cm_id c \<in> cm_id ` set (observatoryCommand (others s))"
      then have "list_ex (\<lambda>old. cm_id c = cm_id old) (observatoryCommand (others s))" by (auto simp: list_ex_iff)
      then have "write_command c entry (others s) = Inl (SqlError ''23505'')"
        by (simp add: write_command_def createCommand_def tx_create_apply(2))
      with assms show False
        unfolding mintMissionCommand_def plan by (simp add: Let_def c_def [symmetric] entry_def [symmetric] transaction_def bindt_def)
    qed
    note w = write_command_ok [OF g this]
    from assms w have r: "r = Command_accepted (accepted c)" and s': "s' = (others s)\<lparr>observatoryCommand := observatoryCommand (others s) @ [c],
       agentChannel := agentChannel (others s) @ [NOTIFY_COMMAND j (mi_observatoryId m)], auditLog := auditLog (others s) @ [entry]\<rparr>"
      unfolding mintMissionCommand_def plan
      by (simp_all add: Let_def c_def [symmetric] entry_def [symmetric] transaction_def bindt_def ret_def c)
    show ?thesis
      unfolding r mintResult.case s' using plan_command_Mint [OF plan] plan_command_intent [OF plan]
      by (intro exI [of _ m] exI [of _ x] exI [of _ c] exI [of _ entry]) (simp add: c accepted_def)
  qed
qed

section \<open>What a client is told, and what it is refused\<close>

text \<open>
  The countdown of a context is the refusal on the facts it was loaded from: the API and the
  realtime service read the same rows and do the same arithmetic on them. What a client is shown
  also depends on how old the context is, which is the relay's affair (theory \<open>Live_Relay\<close>).
\<close>

lemma context_facts:
  assumes "loadMissionLiveContext s sLast sAwaiting i a = Some ctx"
  shows "\<exists>m. find (\<lambda>m. mi_id m = i) (mission s) = Some m \<and> lc_state ctx = mi_state m"
    "lc_lastCaptureIssuedAt ctx = cf_lastIssuedAt (captureHistory sLast i a)"
    "lc_captureAwaitingVerdict ctx = cf_awaitingVerdict (captureHistory sAwaiting i a)"
    "lc_captureCount ctx = cf_captureCount (captureHistory s i a)"
proof -
  have "awaiting a c \<longleftrightarrow> \<not> isTerminalCommandStatus (cm_status c) \<and> cm_result c = None \<and> a < cm_expiresAt c" for c
    by (cases "cm_status c") (auto simp: awaiting_def isTerminalCommandStatus_def TERMINAL_COMMAND_STATUSES_def)
  then have w: "awaiting a = (\<lambda>c. \<not> isTerminalCommandStatus (cm_status c) \<and> cm_result c = None \<and> a < cm_expiresAt c)" by blast
  from assms show "\<exists>m. find (\<lambda>m. mi_id m = i) (mission s) = Some m \<and> lc_state ctx = mi_state m"
    "lc_lastCaptureIssuedAt ctx = cf_lastIssuedAt (captureHistory sLast i a)"
    "lc_captureAwaitingVerdict ctx = cf_awaitingVerdict (captureHistory sAwaiting i a)"
    "lc_captureCount ctx = cf_captureCount (captureHistory s i a)"
    by (auto simp: loadMissionLiveContext_def captureHistory_def w split: option.splits)
qed

lemma context_countdown:
  assumes "lc_captureCount ctx < MAX_CAPTURES_PER_MISSION" and "lc_state ctx \<in> set LIVE_MISSION_STATES"
  shows "bt_captureAllowedAt (bookedSessionTelemetry (Some ctx) unrecovered parked now) = Some t \<longleftrightarrow>
    judgeCapture (lc_state ctx) now sessionEndsAt \<lparr>cf_lastIssuedAt = lc_lastCaptureIssuedAt ctx,
      cf_awaitingVerdict = lc_captureAwaitingVerdict ctx, cf_captureCount = lc_captureCount ctx\<rparr>
      = Some (refused MC_CAPTURE_COOLDOWN (Some t))"
  using assms unfolding bookedSessionTelemetry_def judgeCapture_def captureCooldownEndsAt_def
  by (auto simp: Let_def refused_def failure_def split: option.splits)

lemma rank_targets_listed:
  "rank_targets judge tgs ranked blocked = Inr (ranked', blocked') \<Longrightarrow> x \<in> set ranked' \<Longrightarrow>
     x \<in> set ranked \<or> (\<exists>tg \<in> set tgs. judge tg = Inr (Inl x))"
  by (induction judge tgs ranked blocked rule: rank_targets.induct) (fastforce split: sum.splits)+

lemma set_insert_ranked [simp]: "set (insert_ranked before x xs) = insert x (set xs)"
  by (induction xs) auto

lemma set_ranked: "set (foldl (\<lambda>acc x. insert_ranked before x acc) acc xs) = set acc \<union> set xs"
  by (induction xs arbitrary: acc) auto

lemma visible_now_item:
  assumes "evaluateVisibleNow A before tgs st envelope ob now endsAt cur = Inr v" and "item \<in> set (vs_items v)"
  shows "isMeasured envelope \<and> (\<exists>tg \<in> set tgs. \<exists>h. judge_target A st envelope ob now
       (max now (min endsAt (now + VISIBLE_NOW_WINDOW_SECONDS * second_ms))) endsAt cur tg = Inr (Inl (item, h)) \<and> vn_target item = tg)"
proof -
  define W where "W = max now (min endsAt (now + VISIBLE_NOW_WINDOW_SECONDS * second_ms))"
  from assms have me: "isMeasured envelope" by (auto simp: evaluateVisibleNow_def Let_def split: if_splits)
  with assms(1) obtain ranked blocked where
    r: "rank_targets (judge_target A st envelope ob now W endsAt cur) tgs [] [] = Inr (ranked, blocked)"
    and v: "vs_items v = map fst (foldl (\<lambda>acc x. insert_ranked before x acc) [] ranked)"
    by (auto simp: evaluateVisibleNow_def Let_def W_def split: sum.splits)
  from v assms(2) obtain h where "(item, h) \<in> set ranked" by (auto simp: set_ranked)
  from rank_targets_listed [OF r this] obtain tg where "tg \<in> set tgs" "judge_target A st envelope ob now W endsAt cur tg = Inr (Inl (item, h))" by auto
  moreover from this(2) have "vn_target item = tg" by (auto simp: judge_target_def split: sum.splits if_splits)
  ultimately show ?thesis using me by (auto simp: W_def)
qed

lemma judge_target_observable:
  "judge_target A st envelope ob now W endsAt cur tg = Inr (Inl (item, h)) \<Longrightarrow>
     \<exists>v. window_visibility A st envelope ob tg now W = Inr v \<and> sv_observable v"
  by (auto simp: judge_target_def split: sum.splits if_splits)

lemma judge_retarget_passes:
  assumes "judge_retarget A before s m ob endsAt now to = Inr None"
  shows "mi_state m = MS_OBSERVING \<and> now + RETARGET_CLOSE_SECONDS * second_ms \<le> endsAt
    \<and> (\<exists>envelope tg v. loadSafetyEnvelope s (ob_id ob) = Inr envelope \<and> tg \<in> set (target s) \<and> tg_enabled tg \<and> tg_id tg = tg_id to
        \<and> window_visibility A (site_of ob) envelope \<lparr>os_online = (ob_status ob = OB_ONLINE), os_weatherHold = (ob_holdActive ob = Some True)\<rparr>
             tg now (max now (min endsAt (now + VISIBLE_NOW_WINDOW_SECONDS * second_ms))) = Inr v \<and> sv_observable v)"
proof -
  define cur where "cur = (case mi_currentTargetId m of None \<Rightarrow> mi_targetId m | Some t \<Rightarrow> t)"
  from assms obtain visible where
    w: "(if mi_state m = MS_OBSERVING \<and> tg_id to \<noteq> cur then map_sum id Some (visibleNowFor A before s ob (Some cur) endsAt now)
        else Inr None) = Inr visible"
    and j: "judgeRetarget (mi_state m) now endsAt (Some cur) (tg_id to)
      (dwellEndsAt (mi_currentTargetSince m)) (mi_imageUnrecoveredSince m \<noteq> None) (visible_facts visible to) = None"
    unfolding judge_retarget_def Let_def cur_def [symmetric] by (auto split: sum.splits simp del: not_None_eq)
  from j have st: "mi_state m = MS_OBSERVING" "now + RETARGET_CLOSE_SECONDS * second_ms \<le> endsAt" "vf_listed (visible_facts visible to)"
    by (auto simp: judgeRetarget_def split: if_splits option.splits)
  from st(3) obtain v item where v: "visible = Some v" "item \<in> set (vs_items v)" "tg_id (vn_target item) = tg_id to"
    by (auto simp: visible_facts_def Let_def list_ex_iff split: option.splits)
  with w have "visibleNowFor A before s ob (Some cur) endsAt now = Inr v"
    by (cases "visibleNowFor A before s ob (Some cur) endsAt now") (auto split: if_splits)
  then obtain envelope where e: "loadSafetyEnvelope s (ob_id ob) = Inr envelope"
    and ev: "evaluateVisibleNow A before (filter tg_enabled (target s)) (site_of ob) envelope
      \<lparr>os_online = (ob_status ob = OB_ONLINE), os_weatherHold = (ob_holdActive ob = Some True)\<rparr> now endsAt (Some cur) = Inr v"
    by (auto simp: visibleNowFor_def split: sum.splits)
  from visible_now_item [OF ev v(2)] v(3) judge_target_observable e st(1,2) show ?thesis by fastforce
qed

lemma mint_accepted:
  assumes "mintMissionCommand A before others j i request act now s = (Inr (Command_accepted a), s')"
  shows "\<exists>m ob x type payload. plan_command A before s i request act now = Inr (Mint m ob x type payload)
    \<and> a = accepted (command_for j m ob x now type payload)"
  using assms
  by (auto simp: mintMissionCommand_def Let_def refuse_with_def transaction_def bindt_def ret_def
      split: sum.splits mintPlan.splits option.splits prod.splits)

text \<open>
  C10: A session switches only to what it can keep watching. A RETARGET is accepted only while
  the mission is observing, with at least five minutes of the session left, and for an enabled
  target that is observable at every sampled instant of the ten minutes it will be held, or of
  what is left of the session if that is less.
\<close>

theorem retarget_is_visible_for_the_window:
  assumes "mintMissionCommand A before others j i request act now s = (Inr (Command_accepted a), s')" and "ma_type a = CMD_RETARGET"
  shows "\<exists>m x ob envelope tg v. find (\<lambda>m. mi_id m = i) (mission s) = Some m \<and> mi_state m = MS_OBSERVING
    \<and> currentSession s i now = Some x \<and> now + 300000 \<le> ends_at s m x
    \<and> observatory_of s (mi_observatoryId m) = Inr ob \<and> loadSafetyEnvelope s (ob_id ob) = Inr envelope
    \<and> tg \<in> set (target s) \<and> tg_enabled tg \<and> mr_retarget request = Some (tg_id tg)
    \<and> window_visibility A (site_of ob) envelope \<lparr>os_online = (ob_status ob = OB_ONLINE), os_weatherHold = (ob_holdActive ob = Some True)\<rparr>
         tg now (min (ends_at s m x) (now + 600000)) = Inr v \<and> sv_observable v"
proof -
  from mint_accepted [OF assms(1)] assms(2) obtain m ob x payload where
    plan: "plan_command A before s i request act now = Inr (Mint m ob x CMD_RETARGET payload)"
    by (auto simp: accepted_def command_for_def)
  have rt: "mr_type request = CC_RETARGET"
    using plan_command_other [OF plan] mint_payload_retargets by blast
  from plan_command_retarget [OF plan rt] obtain to where to: "mr_retarget request = Some (tg_id to)"
    and jr: "judge_retarget A before s m ob (ends_at s m x) now to = Inr None" by (auto dest: find_SomeD)
  from judge_retarget_passes [OF jr] have "max now (min (ends_at s m x) (now + VISIBLE_NOW_WINDOW_SECONDS * second_ms)) = min (ends_at s m x) (now + 600000)"
    by (simp add: VISIBLE_NOW_WINDOW_SECONDS_def DWELL_SECONDS_def RETARGET_CLOSE_SECONDS_def)
  with judge_retarget_passes [OF jr] plan_command_Mint [OF plan] to show ?thesis by (fastforce simp: RETARGET_CLOSE_SECONDS_def)
qed

section \<open>Filing a capture\<close>

lemma file_capture_adds:
  assumes "file_capture i c m s = Inr (r, s')"
  shows "r = Capture_recorded (capture_of i c m (captureTargetOf s c m))
    \<and> capture s' = capture s @ [capture_of i c m (captureTargetOf s c m)]
    \<and> captureAccess s' = captureAccess s @ [\<lparr>cx_captureId = i, cx_missionId = cc_missionId c, cx_userId = mi_userId m,
         cx_status = ''AVAILABLE'', cx_isDemo = mi_isDemo m\<rparr>]
    \<and> mission s' = mission s \<and> observatoryCommand s' = observatoryCommand s"
proof -
  have g: "offending_keys (au_metadata (capture_audit c m row)) = []" for row by (simp add: capture_audit_def)
  have e: "offending_keys (ml_payload (email u k d [(''captureId'', x)])) = []" for u k d x by (simp add: email_def)
  from assms show ?thesis
    by (auto simp: file_capture_def bindt_steps tx_create_apply(2) recordAuditEvent_ok [OF g] queueEmail_ok [OF e] capture_of_def
       bindt_def [of "ret x" for x] ret_apply split: if_splits)
qed

lemma recordCapture_recorded:
  assumes "recordCapture i c s = Inr (Capture_recorded row, s')"
  shows "\<exists>m x. find (\<lambda>m. mi_id m = cc_missionId c) (mission s) = Some m \<and> mi_observatoryId m = cc_observatoryId c
    \<and> find (\<lambda>x. cm_id x = cc_commandId c \<and> cm_observatoryId x = cc_observatoryId c \<and> cm_missionId x = cc_missionId c) (observatoryCommand s) = Some x
    \<and> file_capture i c m s = Inr (Capture_recorded row, s')"
  using assms by (auto simp: recordCapture_def tx_find_apply(2) ret_apply split: option.splits if_splits)

lemma recordCapture_known:
  assumes "find (\<lambda>x. cp_commandId x = Some (cc_commandId c)) (capture s) \<noteq> None"
  shows "\<exists>r. recordCapture i c s = Inr (r, s) \<and> r \<in> {Capture_not_found, Capture_wrong_observatory, Capture_duplicate}"
  using assms by (auto simp: recordCapture_def tx_find_apply(2) ret_apply split: option.splits)

text \<open>
  C12: A capture is filed once, for its mission's owner. A report that is recorded adds one row,
  which carries the command, the mission and the observatory of the report and the mission's user,
  and gives that user, and nobody else, access to it. The mission is the one the report names, and
  belongs to the observatory that reports. The same report again, which an agent sends after an
  outage, is a duplicate, and as long as the row is there no report of that command writes
  anything, whatever else such a report says.
\<close>

theorem capture_is_filed_once:
  assumes "recordCapture i c s = Inr (Capture_recorded row, s1)"
  shows "(\<exists>m. find (\<lambda>m. mi_id m = cc_missionId c) (mission s) = Some m \<and> mi_observatoryId m = cc_observatoryId c
      \<and> cp_id row = i \<and> cp_commandId row = Some (cc_commandId c) \<and> cp_missionId row = cc_missionId c
      \<and> cp_userId row = mi_userId m \<and> cp_observatoryId row = cc_observatoryId c
      \<and> captureAccess s1 = captureAccess s @ [\<lparr>cx_captureId = i, cx_missionId = cc_missionId c, cx_userId = mi_userId m,
         cx_status = ''AVAILABLE'', cx_isDemo = mi_isDemo m\<rparr>])
    \<and> capture s1 = capture s @ [row] \<and> recordCapture j c s1 = Inr (Capture_duplicate, s1)
    \<and> (\<forall>k c' s2. cc_commandId c' = cc_commandId c \<and> row \<in> set (capture s2) \<longrightarrow>
        (\<exists>r. recordCapture k c' s2 = Inr (r, s2) \<and> r \<in> {Capture_not_found, Capture_wrong_observatory, Capture_duplicate}))"
proof -
  from recordCapture_recorded [OF assms] obtain m x where m: "find (\<lambda>m. mi_id m = cc_missionId c) (mission s) = Some m"
    "mi_observatoryId m = cc_observatoryId c"
    and x: "find (\<lambda>x. cm_id x = cc_commandId c \<and> cm_observatoryId x = cc_observatoryId c \<and> cm_missionId x = cc_missionId c)
      (observatoryCommand s) = Some x"
    and f: "file_capture i c m s = Inr (Capture_recorded row, s1)" by blast
  note a = file_capture_adds [OF f]
  then have row: "row = capture_of i c m (captureTargetOf s c m)" by simp
  have known: "find (\<lambda>x. cp_commandId x = Some (cc_commandId c)) (capture s2) \<noteq> None" if "row \<in> set (capture s2)" for s2
    using that unfolding find_None_iff row by (auto simp: capture_of_def)
  have "recordCapture j c s1 = Inr (Capture_duplicate, s1)"
    using known [of s1] a m x by (auto simp: recordCapture_def tx_find_apply(2) ret_apply row split: option.splits)
  moreover have "\<exists>r. recordCapture k c' s2 = Inr (r, s2) \<and> r \<in> {Capture_not_found, Capture_wrong_observatory, Capture_duplicate}"
    if "cc_commandId c' = cc_commandId c" "row \<in> set (capture s2)" for k c' s2
    using recordCapture_known [of c' s2 k] known [OF that(2)] that(1) by simp
  moreover have "cp_id row = i" "cp_commandId row = Some (cc_commandId c)" "cp_missionId row = cc_missionId c"
    "cp_userId row = mi_userId m" "cp_observatoryId row = cc_observatoryId c"
    by (simp_all add: row capture_of_def m)
  ultimately show ?thesis using a m row by simp
qed

text \<open>
  The relay writes EXECUTING whatever the command has come to since it was sent: a verdict
  recorded before it is undone, and a command already completed or refused is open again.
\<close>

theorem relay_reopens_a_decided_command:
  assumes "distinct (map cm_id (observatoryCommand s))" and "c \<in> set (observatoryCommand s)" and "cm_status c = CS_REJECTED"
  shows "\<exists>s'. markCommandRelayed (cm_id c) now s = Inr ((), s') \<and> c\<lparr>cm_relayedAt := Some now, cm_status := CS_EXECUTING\<rparr> \<in> set (observatoryCommand s')"
proof -
  have "list_ex (\<lambda>x. cm_id x = cm_id c) (observatoryCommand s)" using assms(2) by (auto simp: list_ex_iff)
  with assms(2) show ?thesis
    by (auto simp: markCommandRelayed_def tx_update_def set_updateMany intro!: image_eqI [where x = c])
qed

section \<open>One night, for the examples\<close>

text \<open>A mission that is being started: its session is open and its starting GOTO awaits the agent.\<close>

definition night_mission :: mission_row where
  "night_mission = \<lparr>mi_id = ''m1'', mi_userId = ''u1'', mi_targetId = ''t1'', mi_observatoryId = ''o1'', mi_telescopeId = ''s1'',
     mi_state = MS_PREPARING, mi_mode = REAL, mi_observerCapacity = 0, mi_requestedAt = 0, mi_scheduledFor = Some 0,
     mi_isDemo = False, mi_failureReason = None, mi_joinPolicy = JOIN_DISABLED, mi_broadcast = False, mi_startedAt = None,
     mi_completedAt = None, mi_currentTargetId = Some ''t1'', mi_currentTargetSince = Some 0, mi_imageUnrecoveredSince = None,
     mi_slotEndNotifiedAt = None, mi_sessionEndedNotifiedAt = None\<rparr>"

definition night_session :: missionSession_row where
  "night_session = session_row ''x1'' night_mission ''u1'' 0 1800000"

definition night_goto :: command_row where
  "night_goto = command_for ''c1'' night_mission real_observatory night_session 0 CMD_GOTO
     (Goto (goto_of albireo \<lparr>eq_raHours = 19, eq_decDegrees = 28\<rparr>) None)"

definition night_db :: db where
  "night_db = empty_db\<lparr>observatory := [real_observatory], target := [albireo], mission := [night_mission],
     missionSession := [night_session], observatoryCommand := [night_goto]\<rparr>"

lemma night_tables [simp]:
  "mission night_db = [night_mission]" "missionSession night_db = [night_session]"
  "observatoryCommand night_db = [night_goto]" "observatory night_db = [real_observatory]" "target night_db = [albireo]"
  "booking night_db = []" "capture night_db = []" "agentChannel night_db = []"
  by (simp_all add: night_db_def empty_db_def)

lemmas night_rows = night_mission_def night_session_def night_goto_def session_row_def command_for_def
  real_observatory_def goto_of_def albireo_def

lemma night_inv: "mission_inv zenith_sky night_db"
proof -
  have "clear_of_sun zenith_sky (site_of real_observatory) \<lparr>eq_raHours = 19, eq_decDegrees = 28\<rparr> 0"
    by (simp add: clear_of_sun_def horizontalAirlessOf_def sunHorizontal_def sunAltitudeDegrees_def zenith_sky_def nadir_zenith Let_def)
  then show ?thesis
    by (simp add: mission_inv_def missions_ok_def owners_ok_def active_per_observatory_def placed_def owned_def)
      (simp add: night_rows LIVE_MISSION_STATES_def COMMAND_TTL_SECONDS_def)
qed

definition slewing :: missionEventRecord where
  "slewing = \<lparr>me_observatoryId = ''o1'', me_missionId = ''m1'', me_state = MS_SLEWING, me_failureReason = None,
     me_occurredAt = 5, me_commandId = None, me_detail = None\<rparr>"

definition slewing_db :: db where
  "slewing_db = snd (transaction (applyMissionEvent slewing) night_db)"

lemma slewing_run: "mission_run zenith_sky night_db slewing_db"
  unfolding slewing_db_def by (rule mission_run.event [OF mission_run.idle])

lemma slewing_apply: "applyMissionEvent slewing night_db = Inr (EV_APPLIED, slewing_db)"
proof -
  have "\<exists>r s'. applyMissionEvent slewing night_db = Inr (r, s') \<and> r = EV_APPLIED"
    by (simp add: applyMissionEvent_def tx_find_apply createEvent_def bindt_steps modifies_apply
        active_per_observatory_def ret_apply bindt_updateMissions)
      (simp add: slewing_def night_rows table_defs move_mission_def)
  then show ?thesis by (auto simp: slewing_db_def transaction_def)
qed

theorem telescope_has_one_owner_witness:
  "{m \<in> set (mission slewing_db). is_live m \<and> mi_observatoryId m = ''o1''} = {move_mission slewing night_mission}"
proof -
  have "move_mission slewing night_mission \<in> set (mission slewing_db)"
    using applyMissionEvent_result [OF _ _ _ _ slewing_apply, of night_mission] night_inv
    by (simp add: mission_inv_def) (simp add: slewing_def night_mission_def table_defs)
  moreover have "is_live (move_mission slewing night_mission) \<and> mi_observatoryId (move_mission slewing night_mission) = ''o1''"
    by (simp add: slewing_def night_mission_def move_mission_def LIVE_MISSION_STATES_def)
  ultimately show ?thesis using telescope_has_one_owner [OF slewing_run night_inv] by auto
qed

lemma applyMissionEvent_commands: "keeps (\<lambda>s. observatoryCommand s = cs) (applyMissionEvent e)"
  unfolding applyMissionEvent_def createEvent_def
  by (intro keeps_intros) (auto simp: updateMissions_eq_Inr modifies_apply intro!: keeps_intros keepsI)

lemma slewing_commands [simp]: "observatoryCommand slewing_db = [night_goto]"
  using keepsD [OF applyMissionEvent_commands [of "[night_goto]"] _ slewing_apply] by simp

theorem every_command_is_safe_and_owned_witness:
  "night_goto \<in> set (observatoryCommand slewing_db) \<and> cm_expiresAt night_goto = cm_issuedAt night_goto + 30000
   \<and> (\<exists>ob \<in> set (observatory slewing_db).
        15 \<le> horizontalSeparationDegrees (horizontalAirlessOf zenith_sky \<lparr>eq_raHours = 19, eq_decDegrees = 28\<rparr> 0 (site_of ob))
              (sunHorizontal zenith_sky 0 (site_of ob)))"
  using every_command_is_safe_and_owned [OF slewing_run night_inv, of night_goto]
  by (auto simp: night_goto_def command_for_def goto_of_def)

theorem event_moves_along_the_table_witness:
  "applyMissionEvent slewing night_db = Inr (EV_APPLIED, slewing_db) \<and> move_mission slewing night_mission \<in> set (mission slewing_db)"
  using event_moves_along_the_table [OF _ _ _ _ slewing_apply, of night_mission] night_inv slewing_apply
  by (simp add: mission_inv_def) (simp add: slewing_def night_mission_def table_defs)

definition failed_mission :: mission_row where
  "failed_mission = night_mission\<lparr>mi_state := MS_FAILED\<rparr>"

definition failed_db :: db where
  "failed_db = night_db\<lparr>mission := [failed_mission]\<rparr>"

lemma failed_tables [simp]: "mission failed_db = [failed_mission]"
  by (simp add: failed_db_def)

lemma failed_inv: "mission_inv zenith_sky failed_db"
  using night_inv unfolding mission_inv_def missions_ok_def placed_def owned_def failed_db_def
  by (simp add: active_per_observatory_def) (simp add: failed_mission_def LIVE_MISSION_STATES_def)

theorem finished_mission_stays_finished_witness:
  "\<exists>m' \<in> set (mission (snd (transaction (applyMissionEvent slewing) failed_db))). mi_id m' = ''m1'' \<and> mi_state m' = MS_FAILED"
proof -
  have run: "mission_run zenith_sky failed_db (snd (transaction (applyMissionEvent slewing) failed_db))"
    by (rule mission_run.event [OF mission_run.idle])
  from run_reaches(2) [OF run failed_inv] obtain m' where m': "m' \<in> set (mission (snd (transaction (applyMissionEvent slewing) failed_db)))"
    "mi_id m' = mi_id failed_mission" by (auto simp: progress_def follows_def)
  from finished_mission_stays_finished [OF run failed_inv _ m'] have "mi_state m' = MS_FAILED" by (simp add: failed_mission_def)
  with m' show ?thesis by (auto simp: failed_mission_def night_mission_def)
qed

lemma announce_end_unbooked:
  assumes "mission_booking s m = None"
  shows "\<exists>r s'. announce_end m parked now s = Inr (r, s')"
proof -
  have "offending_keys (au_metadata (session_ended_audit m r)) = []" for r by (simp add: session_ended_audit_def)
  then show ?thesis
    using assms by (simp add: announce_end_def bindt_steps bindt_def [of "ret x" for x] ret_apply recordAuditEvent_ok)
qed

theorem session_end_is_announced_once_witness:
  "\<exists>r s1. transaction (endMissionSession ''m1'' True 9) failed_db = (Inr (Some r), s1)
     \<and> transaction (endMissionSession ''m1'' True 12) s1 = (Inr None, s1)"
proof -
  let ?s = "failed_db\<lparr>mission := [failed_mission\<lparr>mi_sessionEndedNotifiedAt := Some 9\<rparr>]\<rparr>"
  obtain r s1 where "announce_end failed_mission True 9 ?s = Inr (r, s1)"
    using announce_end_unbooked [of ?s failed_mission True 9] by (auto simp: mission_booking_def failed_db_def)
  then have "endMissionSession ''m1'' True 9 failed_db = Inr (Some r, s1)"
    by (simp add: endMissionSession_def tx_find_apply bindt_updateMissions active_per_observatory_def bindt_def [of "announce_end a b c" for a b c]
        ret_apply)
      (simp add: failed_mission_def night_mission_def table_defs)
  then obtain r s1 where e: "transaction (endMissionSession ''m1'' True 9) failed_db = (Inr (Some r), s1)"
    by (auto simp: transaction_def)
  from session_end_is_announced_once [OF failed_inv e mission_run.idle] e show ?thesis by blast
qed

definition start_rejected :: verdictRecord where
  "start_rejected = \<lparr>vr_observatoryId = ''o1'', vr_commandId = ''c1'', vr_status = AS_REJECTED,
     vr_rejectionReason = Some ''SAFETY_SUN_EXCLUSION'', vr_detail = None, vr_decidedAt = 3\<rparr>"

theorem refused_start_frees_the_observatory_witness:
  "\<exists>s'. recordCommandVerdict (\<lambda>n t. t) 4 start_rejected night_db = (Inr VR_RECORDED, s')
     \<and> night_mission\<lparr>mi_state := MS_FAILED, mi_failureReason := Some MF_SAFETY_REFUSED\<rparr> \<in> set (mission s')"
proof -
  have m: "missions_ok night_db" using night_inv by (simp add: mission_inv_def)
  have "failureReasonForRefusedStart (vr_rejectionReason start_rejected) = Some MF_SAFETY_REFUSED"
    by (simp add: start_rejected_def failureReasonForRefusedStart_def)
  moreover from refused_start_frees_the_observatory [OF m, of night_goto start_rejected night_mission 4]
  have "\<exists>s'. recordCommandVerdict (\<lambda>n t. t) 4 start_rejected night_db = (Inr VR_RECORDED, s')
     \<and> night_mission\<lparr>mi_state := MS_FAILED, mi_failureReason := failureReasonForRefusedStart (vr_rejectionReason start_rejected)\<rparr> \<in> set (mission s')"
    by (simp add: start_rejected_def) (auto simp: night_rows isTerminalCommandStatus_def TERMINAL_COMMAND_STATUSES_def)
  ultimately show ?thesis by simp
qed

definition abort_request :: missionCommandRequest where
  "abort_request = \<lparr>mr_type = CC_ABORT, mr_nudge = None, mr_capture = None, mr_retarget = None, mr_reason = None\<rparr>"

definition night_owner :: actor where
  "night_owner = \<lparr>ac_id = ''u1'', ac_role = ROLE_USER\<rparr>"

lemma night_facts:
  "find (\<lambda>m. mi_id m = ''m1'') (mission night_db) = Some night_mission" "is_live night_mission"
  "mi_userId night_mission = ac_id night_owner" "currentSession night_db ''m1'' 10 = Some night_session"
  "ss_userId night_session = ac_id night_owner" "observatory_of night_db (mi_observatoryId night_mission) = Inr real_observatory"
  "target_of night_db (mi_targetId night_mission) = Inr albireo"
  by (simp_all add: currentSession_def observatory_of_def target_of_def)
    (simp_all add: night_rows LIVE_MISSION_STATES_def night_owner_def)

theorem owner_can_always_abort_witness:
  "\<exists>c s'. mintMissionCommand zenith_sky (\<lambda>a b. False) id ''c2'' ''m1'' abort_request night_owner 10 night_db
     = (Inr (Command_accepted (accepted c)), s') \<and> last (agentChannel s') = NOTIFY_COMMAND ''c2'' ''o1''"
proof -
  have h: "''c2'' \<notin> cm_id ` set (observatoryCommand (id night_db))" "mr_type abort_request = CC_ABORT"
    by (simp_all add: night_goto_def command_for_def abort_request_def)
  from owner_can_always_abort [of "''m1''" night_db night_mission night_owner 10 night_session real_observatory albireo "''c2''" id
      abort_request zenith_sky "\<lambda>a b. False", OF night_facts h] show ?thesis by (auto simp: night_mission_def)
qed

lemma night_abort:
  "\<exists>c s'. mintMissionCommand zenith_sky (\<lambda>a b. False) id ''c2'' ''m1'' abort_request night_owner 10 night_db
     = (Inr (Command_accepted (accepted c)), s')"
proof -
  let ?c = "command_for ''c2'' night_mission real_observatory night_session 10 CMD_ABORT (Abort (Some ''CUSTOMER_ABORT''))"
  have p: "plan_command zenith_sky (\<lambda>a b. False) night_db ''m1'' abort_request night_owner 10
     = Inr (Mint night_mission real_observatory night_session CMD_ABORT (Abort (Some ''CUSTOMER_ABORT'')))"
    using plan_abort [OF night_facts, of abort_request] by (simp add: abort_request_def)
  have "offending_keys (au_metadata (minted_audit night_owner (mr_type abort_request) ?c)) = []" by (simp add: minted_audit_def)
  from write_command_ok [OF this, where s = night_db] show ?thesis
    unfolding mintMissionCommand_def p
    by (simp add: Let_def transaction_def bindt_def ret_def) (auto simp: night_rows)
qed

theorem command_is_the_owners_witness:
  "\<exists>a s' c. mintMissionCommand zenith_sky (\<lambda>a b. False) id ''c2'' ''m1'' abort_request night_owner 10 night_db
     = (Inr (Command_accepted a), s') \<and> a = accepted c \<and> cm_userId c = ''u1''"
proof -
  from night_abort obtain c s' where e: "mintMissionCommand zenith_sky (\<lambda>a b. False) id ''c2'' ''m1'' abort_request night_owner 10 night_db
     = (Inr (Command_accepted (accepted c)), s')" by blast
  from command_is_the_owners [OF e] obtain c' where "accepted c = accepted c'" "cm_userId c' = ac_id night_owner" by auto
  with e show ?thesis by (auto simp: night_owner_def)
qed

text \<open>Another night, well under way: the mission watches a target that has since been withdrawn.\<close>

definition watched :: target_row where
  "watched = albireo\<lparr>tg_id := ''t2'', tg_enabled := False\<rparr>"

definition watching_mission :: mission_row where
  "watching_mission = night_mission\<lparr>mi_targetId := ''t2'', mi_currentTargetId := Some ''t2'', mi_state := MS_OBSERVING\<rparr>"

definition taken_picture :: command_row where
  "taken_picture = (command_for ''c2'' watching_mission real_observatory night_session 0 CMD_CAPTURE
     (Capture \<lparr>cpp_imagingProfile = IP_DOUBLE_STAR, cpp_requestedFrames = None, cpp_targetIntegrationSeconds = None\<rparr>))
     \<lparr>cm_status := CS_COMPLETED\<rparr>"

definition watching_db :: db where
  "watching_db = example_site_db\<lparr>target := [albireo, watched], mission := [watching_mission],
     missionSession := [night_session], observatoryCommand := [taken_picture]\<rparr>"

lemma watching_tables [simp]:
  "mission watching_db = [watching_mission]" "missionSession watching_db = [night_session]"
  "observatoryCommand watching_db = [taken_picture]" "observatory watching_db = [real_observatory]"
  "target watching_db = [albireo, watched]" "booking watching_db = []" "capture watching_db = []"
  "safetyEnvelope watching_db = safetyEnvelope example_site_db"
  by (simp_all add: watching_db_def example_site_db_def empty_db_def)

lemmas watching_rows = watching_mission_def watched_def taken_picture_def night_rows

lemma site_real: "site_of real_observatory = tbilisi"
  by (simp add: site_of_def real_observatory_def tbilisi_def)

lemma watching_envelope: "loadSafetyEnvelope watching_db ''o1'' = Inr (Some measured_envelope)"
proof -
  have "observatory watching_db = observatory example_site_db" by (simp add: example_site_db_def)
  then have "loadSafetyEnvelope watching_db ''o1'' = loadSafetyEnvelope example_site_db ''o1''"
    by (simp only: loadSafetyEnvelope_def watching_tables)
  with example_envelope show ?thesis by simp
qed

lemma zenith_window: "\<exists>v. window_visibility zenith_sky tbilisi (Some measured_envelope) open_dome albireo t u = Inr v \<and> sv_observable v"
  unfolding window_visibility_def by (rule judge_samples_clear) (rule zenith_sample)

lemma last_observable_total: "(\<And>t. \<exists>v. judge t = Inr v) \<Longrightarrow> \<exists>u. last_observable judge lst ts = Inr u"
proof (induction judge lst ts rule: last_observable.induct)
  case (2 judge lst t ts)
  from 2(2) [of t] obtain v where "judge t = Inr v" by blast
  with 2 show ?case by simp
qed simp

lemma zenith_visible_now:
  "\<exists>v item. visibleNowFor zenith_sky before watching_db real_observatory cur 1800000 10 = Inr v
     \<and> vs_items v = [item] \<and> vn_target item = albireo \<and> vn_current item = (Some ''t1'' = cur)"
proof -
  let ?j = "judge_target zenith_sky tbilisi (Some measured_envelope) open_dome 10 600010 1800000 cur"
  from zenith_window [of 10 600010] obtain v where v: "window_visibility zenith_sky tbilisi (Some measured_envelope) open_dome albireo 10 600010 = Inr v"
    "sv_observable v" by blast
  have "\<exists>u. observableUntil (window_visibility zenith_sky tbilisi (Some measured_envelope) open_dome) albireo 10 1800000 = Inr u"
    unfolding observableUntil_def Let_def by (rule last_observable_total) (use zenith_window in blast)
  then obtain u where u: "observableUntil (window_visibility zenith_sky tbilisi (Some measured_envelope) open_dome) albireo 10 1800000 = Inr u" by blast
  have "\<exists>h. evaluateVisibility zenith_sky albireo tbilisi (Some measured_envelope) open_dome 300010 = Inr h"
    by (simp add: evaluateVisibility_def equatorialFor_def Let_def albireo_def)
  then obtain h where h: "evaluateVisibility zenith_sky albireo tbilisi (Some measured_envelope) open_dome 300010 = Inr h" by blast
  have j: "?j albireo = Inr (Inl (\<lparr>vn_target = albireo, vn_visibility = v, vn_observableUntil = u,
      vn_current = (Some (tg_id albireo) = cur)\<rparr>, hz_altitudeDegrees (tv_horizontal h)))"
    by (simp add: judge_target_def v u h)
  have m: "isMeasured (Some measured_envelope)" "ob_id real_observatory = ''o1''" "ob_status real_observatory = OB_ONLINE"
    "ob_holdActive real_observatory = None" "tg_enabled albireo" "\<not> tg_enabled watched" "tg_id albireo = ''t1''"
    by (simp_all add: isMeasured_def marked_envelope_def real_observatory_def albireo_def watched_def)
  show ?thesis
    by (simp add: visibleNowFor_def m watching_envelope site_real evaluateVisibleNow_def j VISIBLE_NOW_WINDOW_SECONDS_def DWELL_SECONDS_def Let_def)
qed

lemma zenith_permitted:
  "judge_coordinates zenith_sky (Some measured_envelope) real_observatory \<lparr>eq_raHours = 19, eq_decDegrees = 28\<rparr> t = PERMITTED"
  by (simp add: judge_coordinates_def pointing_at_def site_real evaluatePointing_def judge_pointing_def horizontalAirlessOf_def
      sunHorizontal_def zenith_sky_def nadir_zenith limits_eq horizonMinimumAltitude_def marked_envelope_def Let_def)

definition switch_request :: missionCommandRequest where
  "switch_request = abort_request\<lparr>mr_type := CC_RETARGET, mr_retarget := Some ''t1''\<rparr>"

lemma watching_facts:
  "mi_id watching_mission = ''m1''" "mi_state watching_mission = MS_OBSERVING" "mi_userId watching_mission = ''u1''"
  "mi_observatoryId watching_mission = ''o1''" "mi_targetId watching_mission = ''t2''" "mi_currentTargetId watching_mission = Some ''t2''"
  "ss_missionId night_session = ''m1''" "ss_revokedAt night_session = None" "ss_expiresAt night_session = 1800000"
  "ss_userId night_session = ''u1''" "ob_id real_observatory = ''o1''" "tg_id albireo = ''t1''" "tg_id watched = ''t2''"
  "cm_id taken_picture = ''c2''"
  by (simp_all add: watching_rows)

lemma watching_plan:
  "\<exists>p. plan_command zenith_sky before watching_db ''m1'' switch_request night_owner 10
     = Inr (Mint watching_mission real_observatory night_session CMD_RETARGET p)"
proof -
  have e: "ends_at watching_db watching_mission night_session = 1800000"
    by (simp add: ends_at_def mission_booking_def sessionEndsAtOf_def watching_facts)
  from zenith_visible_now [of before "Some ''t2''"] obtain v item where
    v: "visibleNowFor zenith_sky before watching_db real_observatory (Some ''t2'') 1800000 10 = Inr v"
    "vs_items v = [item]" "vn_target item = albireo" "\<not> vn_current item" by auto
  have j: "judge_retarget zenith_sky before watching_db watching_mission real_observatory 1800000 10 albireo = Inr None"
    by (simp add: judge_retarget_def watching_facts v visible_facts_def Let_def judgeRetarget_def effectiveRetargetAllowedAt_def
        RETARGET_CLOSE_SECONDS_def split: option.split)
  have q: "equatorialFor zenith_sky albireo 10 (site_of real_observatory) = Inr \<lparr>eq_raHours = 19, eq_decDegrees = 28\<rparr>"
    by (simp add: equatorialFor_def albireo_def)
  have m: "\<exists>p. mint_payload zenith_sky watching_db switch_request night_owner watching_mission real_observatory night_session (Some albireo) 10 None
     = Inr (Mint watching_mission real_observatory night_session CMD_RETARGET p)"
    by (simp add: mint_payload_def target_of_def watching_facts buildPayload_def switch_request_def q preValidate_def watching_envelope
        goto_of_def zenith_permitted verdict_failure_def)
  show ?thesis
    using m by (simp add: plan_command_def watching_facts night_owner_def currentSession_def observatory_of_def e switch_request_def
        LIVE_MISSION_STATES_def j)
qed

theorem retarget_is_visible_for_the_window_witness:
  "\<exists>m x ob envelope v. find (\<lambda>m. mi_id m = ''m1'') (mission watching_db) = Some m \<and> currentSession watching_db ''m1'' 10 = Some x
     \<and> window_visibility zenith_sky (site_of ob) envelope
         \<lparr>os_online = (ob_status ob = OB_ONLINE), os_weatherHold = (ob_holdActive ob = Some True)\<rparr>
         albireo 10 (min (ends_at watching_db m x) 600010) = Inr v \<and> sv_observable v"
proof -
  from watching_plan [of "\<lambda>a b. False"] obtain p where
    p: "plan_command zenith_sky (\<lambda>a b. False) watching_db ''m1'' switch_request night_owner 10
     = Inr (Mint watching_mission real_observatory night_session CMD_RETARGET p)" by blast
  let ?c = "command_for ''c3'' watching_mission real_observatory night_session 10 CMD_RETARGET p"
  have "offending_keys (au_metadata (minted_audit night_owner (mr_type switch_request) ?c)) = []" by (simp add: minted_audit_def)
  from write_command_ok [OF this, where s = watching_db] obtain s' where
    e: "mintMissionCommand zenith_sky (\<lambda>a b. False) id ''c3'' ''m1'' switch_request night_owner 10 watching_db
     = (Inr (Command_accepted (accepted ?c)), s')"
    unfolding mintMissionCommand_def p
    by (auto simp: Let_def transaction_def bindt_def ret_def command_for_def watching_facts)
  have "ma_type (accepted ?c) = CMD_RETARGET" by (simp add: accepted_def command_for_def)
  from retarget_is_visible_for_the_window [OF e this] obtain m x ob envelope tg v where
    r: "find (\<lambda>m. mi_id m = ''m1'') (mission watching_db) = Some m" "currentSession watching_db ''m1'' 10 = Some x"
      "tg \<in> set (target watching_db)" "tg_enabled tg"
      "window_visibility zenith_sky (site_of ob) envelope
         \<lparr>os_online = (ob_status ob = OB_ONLINE), os_weatherHold = (ob_holdActive ob = Some True)\<rparr>
         tg 10 (min (ends_at watching_db m x) (10 + 600000)) = Inr v" "sv_observable v" by blast
  from r(3,4) have "tg = albireo" by (auto simp: watched_def)
  with r show ?thesis by (intro exI [of _ m] exI [of _ x] exI [of _ ob] exI [of _ envelope] exI [of _ v]) simp
qed

definition picture :: captureRecord where
  "picture = \<lparr>cc_observatoryId = ''o1'', cc_missionId = ''m1'', cc_commandId = ''c2'', cc_capturedAt = 8, cc_imagingProfile = IP_DOUBLE_STAR,
     cc_opticalConfig = F10_NATIVE, cc_exposureMilliseconds = 500, cc_gain = 100,
     cc_framesStacked = 10, cc_integrationSeconds = 5, cc_widthPx = None, cc_heightPx = None, cc_solvedFocalLengthMm = None, cc_targetId = None, cc_assets = []\<rparr>"

theorem capture_is_filed_once_witness:
  "\<exists>row s1. recordCapture ''p1'' picture watching_db = Inr (Capture_recorded row, s1)
     \<and> cp_userId row = ''u1'' \<and> recordCapture ''p2'' picture s1 = Inr (Capture_duplicate, s1)"
proof -
  have "\<exists>r s1. file_capture ''p1'' picture watching_mission watching_db = Inr (r, s1)"
    by (simp add: file_capture_def bindt_steps tx_create_apply(2) capture_audit_def recordAuditEvent_ok queueEmail_ok email_def
        mission_booking_def bindt_def [of "ret x" for x] ret_apply)
      (simp add: watching_db_def example_site_db_def empty_db_def)
  then obtain row s1 where "file_capture ''p1'' picture watching_mission watching_db = Inr (Capture_recorded row, s1)"
    using file_capture_adds by blast
  then have e: "recordCapture ''p1'' picture watching_db = Inr (Capture_recorded row, s1)"
    by (simp add: recordCapture_def tx_find_apply(2) picture_def watching_facts) (simp add: watching_rows)
  from capture_is_filed_once [OF e, of "''p2''"] e show ?thesis by (auto simp: picture_def watching_facts)
qed

end
