(* ===== verification/Live_Relay.thy ===== *)
theory Live_Relay
  imports Mission_Correct
begin

text \<open>
  The relay of the realtime service, src/apps/realtime/src/mission/broadcast.ts: what a watching
  client is told of a booked session, and how old that may be. \<open>MissionRelay\<close> keeps, per mission,
  the context it read last and when it asked for it, and serves the telemetry of five seconds from
  it; what passes through the service (a transition, a verdict, a capture, the end) drops it.

  The reads are awaited, so other reports and drops may come between a report and the answer to
  its read: a report that has to read is kept in \<open>rl_reading\<close> until \<open>contextLoaded\<close> continues it.
  Of a message only the booked session's fields are modelled, of the registry whether anybody
  watches the mission; the frames and the wording of the other messages are not.
\<close>

section \<open>The relay (broadcast.ts)\<close>

definition LIVE_CONTEXT_TTL_MS :: int where
  "LIVE_CONTEXT_TTL_MS = 5000"

text \<open>What of \<open>AgentStateDelta\<close> the booked session's fields are made from.\<close>

record stateDelta =
  sd_unrecovered :: bool
  sd_parked :: bool

type_synonym contexts = "ident \<rightharpoonup> missionLiveContext option \<times> time"

record relay =
  rl_contexts :: contexts
  rl_reading :: "(ident \<times> stateDelta \<times> time) list"
  rl_sent :: "(ident \<times> stateDelta \<times> time \<times> bookedTelemetry) list"

definition drop_context :: "ident \<Rightarrow> relay \<Rightarrow> relay" where
  "drop_context missionId r = r\<lparr>rl_contexts := (rl_contexts r)(missionId := None)\<rparr>"

definition missionMoved :: "mission_row \<Rightarrow> relay \<Rightarrow> relay" where
  "missionMoved snapshot r = drop_context (mi_id snapshot) r"

definition captureRecorded :: "capture_row \<Rightarrow> relay \<Rightarrow> relay" where
  "captureRecorded row r = drop_context (cp_missionId row) r"

definition sessionEnded :: "sessionEndedRecord \<Rightarrow> relay \<Rightarrow> relay" where
  "sessionEnded record r = drop_context (sr_missionId record) r"

definition commandAnswered :: "db \<Rightarrow> ident \<Rightarrow> relay \<Rightarrow> relay" where
  "commandAnswered s commandId r =
     (case find (\<lambda>c. cm_id c = commandId) (observatoryCommand s) of None \<Rightarrow> r
      | Some c \<Rightarrow> drop_context (cm_missionId c) r)"

text \<open>
  \<open>liveContext\<close>: the cached context while it is fresh; otherwise every stale entry goes, the
  context is read, and kept with the instant the report came in.
\<close>

definition cached_context :: "contexts \<Rightarrow> ident \<Rightarrow> time \<Rightarrow> missionLiveContext option option" where
  "cached_context cs missionId now =
     (case cs missionId of None \<Rightarrow> None
      | Some (ctx, loadedAt) \<Rightarrow> if now - loadedAt < LIVE_CONTEXT_TTL_MS then Some ctx else None)"

definition sweep_contexts :: "time \<Rightarrow> contexts \<Rightarrow> contexts" where
  "sweep_contexts now cs = (\<lambda>i. case cs i of None \<Rightarrow> None
     | Some (ctx, loadedAt) \<Rightarrow> if LIVE_CONTEXT_TTL_MS \<le> now - loadedAt then None else Some (ctx, loadedAt))"

definition tell :: "ident \<Rightarrow> stateDelta \<Rightarrow> time \<Rightarrow> missionLiveContext option \<Rightarrow> relay \<Rightarrow> relay" where
  "tell missionId d now ctx r =
     r\<lparr>rl_sent := rl_sent r @ [(missionId, d, now, bookedSessionTelemetry ctx (sd_unrecovered d) (sd_parked d) now)]\<rparr>"

definition telemetryReported :: "(ident \<Rightarrow> bool) \<Rightarrow> ident \<Rightarrow> stateDelta \<Rightarrow> time \<Rightarrow> relay \<Rightarrow> relay" where
  "telemetryReported somebody missionId d now r =
     (if \<not> somebody missionId then r
      else case cached_context (rl_contexts r) missionId now of
        Some ctx \<Rightarrow> tell missionId d now ctx r
      | None \<Rightarrow> r\<lparr>rl_contexts := sweep_contexts now (rl_contexts r), rl_reading := rl_reading r @ [(missionId, d, now)]\<rparr>)"

definition contextLoaded :: "missionLiveContext option \<Rightarrow> ident \<times> stateDelta \<times> time \<Rightarrow> relay \<Rightarrow> relay" where
  "contextLoaded ctx request r =
     (case request of (missionId, d, now) \<Rightarrow>
        tell missionId d now ctx
          (r\<lparr>rl_contexts := (rl_contexts r)(missionId \<mapsto> (ctx, now)), rl_reading := remove1 request (rl_reading r)\<rparr>))"

definition idle_relay :: relay where
  "idle_relay = \<lparr>rl_contexts = Map.empty, rl_reading = [], rl_sent = []\<rparr>"

text \<open>
  The runs of the relay beside a database that others write: \<open>h t\<close> is the database at \<open>t\<close>. The
  queries of a read are at instants of their own, none before its report and in their order.
\<close>

inductive relay_run :: "(time \<Rightarrow> db) \<Rightarrow> time \<Rightarrow> relay \<Rightarrow> bool" for h :: "time \<Rightarrow> db" where
  run_idle: "relay_run h now idle_relay"
| run_moved: "relay_run h t r \<Longrightarrow> t \<le> now \<Longrightarrow> relay_run h now (missionMoved snapshot r)"
| run_captured: "relay_run h t r \<Longrightarrow> t \<le> now \<Longrightarrow> relay_run h now (captureRecorded row r)"
| run_ended: "relay_run h t r \<Longrightarrow> t \<le> now \<Longrightarrow> relay_run h now (sessionEnded record r)"
| run_answered: "relay_run h t r \<Longrightarrow> t \<le> now \<Longrightarrow> relay_run h now (commandAnswered (h now) commandId r)"
| run_reported: "relay_run h t r \<Longrightarrow> t \<le> now \<Longrightarrow> relay_run h now (telemetryReported somebody missionId d now r)"
| run_loaded: "relay_run h t r \<Longrightarrow> (missionId, d, asked) \<in> set (rl_reading r) \<Longrightarrow>
    asked \<le> a \<Longrightarrow> a \<le> b \<Longrightarrow> a \<le> c \<Longrightarrow> b \<le> now \<Longrightarrow> c \<le> now \<Longrightarrow> t \<le> now \<Longrightarrow>
    relay_run h now (contextLoaded (loadMissionLiveContext (h a) (h b) (h c) missionId c) (missionId, d, asked) r)"

section \<open>How old a context is\<close>

text \<open>A context read in queries at instants from \<open>start\<close> to \<open>now\<close>.\<close>

definition read_since :: "(time \<Rightarrow> db) \<Rightarrow> time \<Rightarrow> time \<Rightarrow> ident \<Rightarrow> missionLiveContext option \<Rightarrow> bool" where
  "read_since h start now missionId ctx \<longleftrightarrow> (\<exists>a b c. start \<le> a \<and> a \<le> b \<and> a \<le> c \<and> b \<le> now \<and> c \<le> now
     \<and> ctx = loadMissionLiveContext (h a) (h b) (h c) missionId c)"

lemma read_since_mono:
  assumes "read_since h start now i ctx" and "start' \<le> start" and "now \<le> now'"
  shows "read_since h start' now' i ctx"
proof -
  from assms(1) obtain a b c where "start \<le> a" "a \<le> b" "a \<le> c" "b \<le> now" "c \<le> now"
    and ctx: "ctx = loadMissionLiveContext (h a) (h b) (h c) i c" unfolding read_since_def by blast
  with assms(2,3) have "start' \<le> a \<and> a \<le> b \<and> a \<le> c \<and> b \<le> now' \<and> c \<le> now'" by linarith
  with ctx show ?thesis unfolding read_since_def by blast
qed

definition relay_inv :: "(time \<Rightarrow> db) \<Rightarrow> time \<Rightarrow> relay \<Rightarrow> bool" where
  "relay_inv h now r \<longleftrightarrow>
     (\<forall>i ctx t. rl_contexts r i = Some (ctx, t) \<longrightarrow> read_since h t now i ctx)
   \<and> (\<forall>i d t tel. (i, d, t, tel) \<in> set (rl_sent r) \<longrightarrow> (\<exists>ctx. read_since h (t - LIVE_CONTEXT_TTL_MS + 1) now i ctx
        \<and> tel = bookedSessionTelemetry ctx (sd_unrecovered d) (sd_parked d) t))"

lemma relay_inv_later:
  assumes "relay_inv h t r" and "t \<le> now"
  shows "relay_inv h now r"
proof -
  have later: "read_since h start t i ctx \<Longrightarrow> read_since h start now i ctx" for start i ctx
    by (rule read_since_mono [OF _ order_refl assms(2)])
  from assms(1) show ?thesis unfolding relay_inv_def using later by blast
qed

lemma relay_inv_drop: "relay_inv h now r \<Longrightarrow> relay_inv h now (drop_context i r)"
  by (simp add: relay_inv_def drop_context_def)

lemma relay_inv_tell:
  "relay_inv h now r \<Longrightarrow> read_since h (t - LIVE_CONTEXT_TTL_MS + 1) now i ctx \<Longrightarrow> relay_inv h now (tell i d t ctx r)"
  by (auto simp: relay_inv_def tell_def)

lemma relay_inv_reported:
  assumes "relay_inv h now r"
  shows "relay_inv h now (telemetryReported somebody i d now r)"
proof (cases "cached_context (rl_contexts r) i now")
  case None
  with assms show ?thesis
    by (auto simp: telemetryReported_def relay_inv_def sweep_contexts_def split: option.splits if_splits prod.splits)
next
  case (Some ctx)
  then obtain t where t: "rl_contexts r i = Some (ctx, t)" "now - t < LIVE_CONTEXT_TTL_MS"
    by (auto simp: cached_context_def split: option.splits if_splits)
  with assms have "read_since h t now i ctx" by (auto simp: relay_inv_def)
  then have "read_since h (now - LIVE_CONTEXT_TTL_MS + 1) now i ctx" by (rule read_since_mono) (use t(2) in auto)
  with assms Some show ?thesis by (simp add: telemetryReported_def relay_inv_tell)
qed

lemma relay_inv_loaded:
  assumes "relay_inv h now r" and "read_since h t now i ctx"
  shows "relay_inv h now (contextLoaded ctx (i, d, t) r)"
proof -
  have "read_since h (t - LIVE_CONTEXT_TTL_MS + 1) now i ctx"
    using assms(2) by (rule read_since_mono) (simp_all add: LIVE_CONTEXT_TTL_MS_def)
  moreover have "relay_inv h now (r\<lparr>rl_contexts := (rl_contexts r)(i \<mapsto> (ctx, t)), rl_reading := q\<rparr>)" for q
    using assms by (simp add: relay_inv_def)
  ultimately show ?thesis by (simp add: contextLoaded_def relay_inv_tell)
qed

lemma relay_run_inv: "relay_run h now r \<Longrightarrow> relay_inv h now r"
proof (induction rule: relay_run.induct)
  case (run_idle now)
  then show ?case by (simp add: relay_inv_def idle_relay_def)
next
  case (run_answered t r now commandId)
  then show ?case by (auto simp: commandAnswered_def relay_inv_drop relay_inv_later split: option.split)
next
  case (run_loaded t r i d asked a b c now)
  then have "read_since h asked now i (loadMissionLiveContext (h a) (h b) (h c) i c)" unfolding read_since_def by blast
  with run_loaded show ?case by (simp add: relay_inv_loaded relay_inv_later)
qed (auto simp: missionMoved_def captureRecorded_def sessionEnded_def relay_inv_drop relay_inv_reported relay_inv_later)

section \<open>The countdown and the refusal\<close>

text \<open>What \<open>mintMissionCommand\<close> judges a CAPTURE on: the mission's state and its capture history.\<close>

definition capture_facts :: "db \<Rightarrow> ident \<Rightarrow> time \<Rightarrow> missionState option \<times> captureFacts" where
  "capture_facts s i now = (map_option mi_state (find (\<lambda>m. mi_id m = i) (mission s)), captureHistory s i now)"

text \<open>
  C13: What a watching client counts down to is what a CAPTURE is refused until, up to the five
  seconds the relay may serve one read. In every run of the relay, whoever writes the database
  meanwhile, the telemetry sent for a report at \<open>now\<close> is computed from the mission's rows as they
  were less than five seconds before \<open>now\<close>, or later, so a capture the API mints is seen after
  that time at the latest. Where the mission's state and capture history have been the same
  throughout that time, on a live mission with captures left, the instant given for the next
  capture is exactly the one the API's own judgement refuses a CAPTURE until, and none is given
  where it does not refuse for the cooldown.
\<close>

theorem countdown_lags_five_seconds:
  assumes "relay_run h clock r" and "(i, d, now, tel) \<in> set (rl_sent r)"
  shows "\<exists>a b c ctx. now - 5000 < a \<and> a \<le> b \<and> a \<le> c \<and> b \<le> clock \<and> c \<le> clock
      \<and> ctx = loadMissionLiveContext (h a) (h b) (h c) i c
      \<and> tel = bookedSessionTelemetry ctx (sd_unrecovered d) (sd_parked d) now
      \<and> (\<forall>state F t endsAt. (\<forall>u. now - 5000 < u \<and> u \<le> clock \<longrightarrow> capture_facts (h u) i u = (Some state, F))
          \<and> state \<in> set LIVE_MISSION_STATES \<and> cf_captureCount F < MAX_CAPTURES_PER_MISSION \<longrightarrow>
          (bt_captureAllowedAt tel = Some t \<longleftrightarrow> judgeCapture state now endsAt F = Some (refused MC_CAPTURE_COOLDOWN (Some t))))"
proof -
  from relay_run_inv [OF assms(1)] assms(2) obtain ctx where "read_since h (now - LIVE_CONTEXT_TTL_MS + 1) clock i ctx"
    and "tel = bookedSessionTelemetry ctx (sd_unrecovered d) (sd_parked d) now" unfolding relay_inv_def by blast
  then obtain a b c where "now - LIVE_CONTEXT_TTL_MS + 1 \<le> a" and q': "a \<le> b" "a \<le> c" "b \<le> clock" "c \<le> clock"
    and tel: "tel = bookedSessionTelemetry (loadMissionLiveContext (h a) (h b) (h c) i c) (sd_unrecovered d) (sd_parked d) now"
    unfolding read_since_def by blast
  then have q: "now - 5000 < a" "a \<le> b" "a \<le> c" "b \<le> clock" "c \<le> clock" by (simp_all add: LIVE_CONTEXT_TTL_MS_def)
  have "bt_captureAllowedAt tel = Some t \<longleftrightarrow> judgeCapture state now endsAt F = Some (refused MC_CAPTURE_COOLDOWN (Some t))"
    if still: "\<And>u. now - 5000 < u \<and> u \<le> clock \<Longrightarrow> capture_facts (h u) i u = (Some state, F)"
      and live: "state \<in> set LIVE_MISSION_STATES" "cf_captureCount F < MAX_CAPTURES_PER_MISSION" for state F t endsAt
  proof -
    have f: "capture_facts (h a) i a = (Some state, F)" "capture_facts (h b) i b = (Some state, F)" "capture_facts (h c) i c = (Some state, F)"
      using still [of a] still [of b] still [of c] q by auto
    then obtain ctx where ctx: "loadMissionLiveContext (h a) (h b) (h c) i c = Some ctx"
      by (auto simp: capture_facts_def loadMissionLiveContext_def)
    have "lc_state ctx = state" "lc_lastCaptureIssuedAt ctx = cf_lastIssuedAt F"
      "lc_captureAwaitingVerdict ctx = cf_awaitingVerdict F" "lc_captureCount ctx = cf_captureCount F"
      using context_facts [OF ctx] f by (auto simp: capture_facts_def captureHistory_def)
    with context_countdown [of ctx "sd_unrecovered d" "sd_parked d" now t endsAt] live show ?thesis
      unfolding tel ctx by (cases F) simp
  qed
  with q tel show ?thesis by blast
qed

text \<open>A night nobody else writes in: the client is told at ten milliseconds past that it may capture again at thirty seconds.\<close>


theorem countdown_lags_five_seconds_witness:
  "\<exists>r tel. relay_run (\<lambda>_. watching_db) 10 r \<and> (''m1'', \<lparr>sd_unrecovered = False, sd_parked = False\<rparr>, 10, tel) \<in> set (rl_sent r)
     \<and> bt_captureAllowedAt tel = Some 30000
     \<and> judgeCapture MS_OBSERVING 10 1800000 (captureHistory watching_db ''m1'' 10) = Some (refused MC_CAPTURE_COOLDOWN (Some 30000))"
proof -
  let ?h = "\<lambda>_ :: time. watching_db" and ?d = "\<lparr>sd_unrecovered = False, sd_parked = False\<rparr>" and ?F = "captureHistory watching_db ''m1'' 10"
  let ?r = "telemetryReported (\<lambda>_. True) ''m1'' ?d 10 idle_relay"
  let ?ctx = "loadMissionLiveContext watching_db watching_db watching_db ''m1'' 10"
  have r: "rl_reading ?r = [(''m1'', ?d, 10)]" by (simp add: telemetryReported_def cached_context_def idle_relay_def)
  have "relay_run ?h 10 ?r" by (rule relay_run.run_reported [OF relay_run.run_idle [of _ 10]]) simp
  from relay_run.run_loaded [OF this, of "''m1''" ?d 10 10 10 10 10] r
  have run: "relay_run ?h 10 (contextLoaded ?ctx (''m1'', ?d, 10) ?r)" by simp
  let ?tel = "bookedSessionTelemetry ?ctx False False 10"
  have sent: "(''m1'', ?d, 10, ?tel) \<in> set (rl_sent (contextLoaded ?ctx (''m1'', ?d, 10) ?r))"
    by (simp add: contextLoaded_def tell_def)
  have c: "captures_of watching_db ''m1'' = [taken_picture]" by (simp add: captures_of_def) (simp add: watching_rows)
  have p: "cm_issuedAt taken_picture = 0" "cm_status taken_picture = CS_COMPLETED" by (simp_all add: watching_rows)
  have facts: "capture_facts watching_db ''m1'' u = (Some MS_OBSERVING, ?F)" for u
    by (simp add: capture_facts_def captureHistory_def watching_facts c p awaiting_def)
  have F: "cf_captureCount ?F < MAX_CAPTURES_PER_MISSION" "MS_OBSERVING \<in> set LIVE_MISSION_STATES"
    by (simp_all add: captureHistory_def MAX_CAPTURES_PER_MISSION_def LIVE_MISSION_STATES_def)
  have j: "judgeCapture MS_OBSERVING 10 1800000 ?F = Some (refused MC_CAPTURE_COOLDOWN (Some 30000))"
    by (simp add: judgeCapture_def captureHistory_def c p awaiting_def captureCooldownEndsAt_def CAPTURE_COOLDOWN_SECONDS_def)
  from countdown_lags_five_seconds [OF run sent] facts F j have "bt_captureAllowedAt ?tel = Some 30000" by blast
  with run sent j show ?thesis by blast
qed

end
