(* ===== verification/Observers.thy ===== *)
theory Observers
  imports Settle Mission_Link
begin

text \<open>
  Watching a session somebody else controls: src/apps/api/src/features/missions/observer-pack.ts
  (the sale of a seat), observers.ts (taking and leaving it, opening and closing the session),
  close-refund.ts (what a close gives back) and broadcast.ts (opening it to everyone).

  The operations on the seats of a mission lock its row first, so they run one after another;
  the transactions here are atomic. The columns \<open>createdAt\<close> and \<open>updatedAt\<close> of a pack,
  which nothing here reads, are left out, as are the messages of refusals.
\<close>

section \<open>Results\<close>

datatype observerErrorCode =
  OE_NOT_FOUND | OE_CONFLICT | OE_MISSION_NOT_ACTIVE | OE_MISSION_NOT_OBSERVABLE | OE_PAYMENT_REQUIRED
| OE_OBSERVER_CAPACITY_REACHED | OE_VALIDATION_FAILED | OE_INTERNAL

datatype 'a observerResult = Observer_ok 'a | Observer_refused nat observerErrorCode

section \<open>What a close gives back (close-refund.ts)\<close>

text \<open>BigInt division truncates; both operands are positive where it is reached.\<close>

definition closeRefundMinor :: "int \<Rightarrow> time \<Rightarrow> time \<Rightarrow> time \<Rightarrow> int" where
  "closeRefundMinor priceMinor paidAt closedAt expiresAt =
     (let remaining = expiresAt - closedAt; bought = expiresAt - paidAt
      in if priceMinor \<le> 0 \<or> remaining \<le> 0 \<or> bought \<le> 0 then 0
         else if bought \<le> remaining then priceMinor
         else (priceMinor * remaining + bought - 1) div bought)"

record closeRefundSummary =
  cs_refunded :: nat
  cs_owed :: nat
  cs_nothingLost :: nat
  cs_undetermined :: nat

definition no_refunds :: closeRefundSummary where
  "no_refunds = \<lparr>cs_refunded = 0, cs_owed = 0, cs_nothingLost = 0, cs_undetermined = 0\<rparr>"

definition sessionEnd :: "db \<Rightarrow> ident \<Rightarrow> time option" where
  "sessionEnd s missionId =
     (case newest (filter (\<lambda>x. ss_missionId x = missionId) (missionSession s)) of
        Some x \<Rightarrow> Some (ss_expiresAt x)
      | None \<Rightarrow> map_option slot_end (find (\<lambda>b. bk_missionId b = Some missionId) (booking s)))"

text \<open>One turn of the loop: what became of a seat, and how the summary counts it.\<close>

datatype seatRefund = SEAT_SKIPPED | SEAT_UNDETERMINED | SEAT_NOTHING_LOST | SEAT_OWED | SEAT_REFUNDED

fun count_refund :: "seatRefund \<Rightarrow> closeRefundSummary \<Rightarrow> closeRefundSummary" where
  "count_refund SEAT_SKIPPED x = x"
| "count_refund SEAT_UNDETERMINED x = x\<lparr>cs_undetermined := cs_undetermined x + 1\<rparr>"
| "count_refund SEAT_NOTHING_LOST x = x\<lparr>cs_nothingLost := cs_nothingLost x + 1\<rparr>"
| "count_refund SEAT_OWED x = x\<lparr>cs_owed := cs_owed x + 1\<rparr>"
| "count_refund SEAT_REFUNDED x = x\<lparr>cs_refunded := cs_refunded x + 1\<rparr>"

definition close_detail :: "observerPack_row \<Rightarrow> payment_row \<Rightarrow> time \<Rightarrow> time \<Rightarrow> time \<Rightarrow> (string \<times> json) list" where
  "close_detail k p paidAt closedAt expiresAt =
     [(''paymentId'', JStr (pay_id p)), (''provider'', JStr (provider_text (pay_provider p))),
      (''priceMinor'', JNum (pk_priceMinor k)), (''currency'', JStr ''GEL''), (''paidAt'', JStr (toISOString paidAt)),
      (''closedAt'', JStr (toISOString closedAt)), (''expiresAt'', JStr (toISOString expiresAt))]"

definition close_audit :: "string \<Rightarrow> ident \<Rightarrow> ident \<Rightarrow> observerPack_row \<Rightarrow> (string \<times> json) list \<Rightarrow> bool \<Rightarrow> auditLog_row" where
  "close_audit action missionId actorUserId k detail isDemo =
     (audit_entry PAYMENT action detail)
     \<lparr>au_actorUserId := Some actorUserId, au_missionId := Some missionId, au_entityType := Some ''ObserverPack'',
      au_entityId := Some (pk_id k), au_isDemo := isDemo\<rparr>"

definition mark_refund :: "bool \<Rightarrow> int \<Rightarrow> time \<Rightarrow> observerPack_row \<Rightarrow> observerPack_row" where
  "mark_refund issued amount closedAt k =
     (if issued then k\<lparr>pk_refundedMinor := Some amount, pk_refundedAt := Some closedAt\<rparr>
      else k\<lparr>pk_refundOwedMinor := Some amount\<rparr>)"

text \<open>The payment of a seat refunded whole: it is marked so, and the points it earned are taken back.\<close>

definition refund_whole :: "(ident \<Rightarrow> string) \<Rightarrow> payment_row \<Rightarrow> time \<Rightarrow> (db, unit) tx" where
  "refund_whole codes p closedAt =
     bindt (tx_update payment payment_update (\<lambda>x. pay_id x = pay_id p)
        (\<lambda>x. x\<lparr>pay_status := PAY_REFUNDED, pay_refundedAt := Some closedAt\<rparr>)) (\<lambda>_.
     reverseLoyaltyForRefund codes (pay_id p) (pay_userId p) None)"

text \<open>What follows the conditional update of the pack, which a concurrent close may have won.\<close>

definition file_refund ::
  "(ident \<Rightarrow> string) \<Rightarrow> ident \<Rightarrow> ident \<Rightarrow> time \<Rightarrow> bool \<Rightarrow> observerPack_row \<Rightarrow> payment_row \<Rightarrow> (string \<times> json) list \<Rightarrow> int \<Rightarrow> nat
   \<Rightarrow> (db, seatRefund) tx" where
  "file_refund codes missionId actorUserId closedAt isDemo k p detail amount count =
     (if count = 0 then ret SEAT_SKIPPED
      else if pay_provider p \<noteq> SANDBOX
      then bindt (recordAuditEvent (close_audit ''OBSERVER_PACK_REFUND_OWED'' missionId actorUserId k
             (detail @ [(''refundOwedMinor'', JNum amount), (''reason'', JStr ''PROVIDER_REFUND_UNAVAILABLE'')]) isDemo))
             (\<lambda>_. ret SEAT_OWED)
      else
        bindt (if amount = pk_priceMinor k then refund_whole codes p closedAt else ret ()) (\<lambda>_.
        bindt (recordAuditEvent (close_audit ''OBSERVER_PACK_REFUNDED'' missionId actorUserId k
           (detail @ [(''refundedMinor'', JNum amount)]) isDemo)) (\<lambda>_.
        bindt (queueEmail (email (pk_userId k) MAIL_OBSERVER_PACK_REFUNDED (''observer-pack-refunded:'' @ pk_id k)
           [(''observerPackId'', pk_id k)])) (\<lambda>_.
        ret SEAT_REFUNDED))))"

definition refund_seat ::
  "(ident \<Rightarrow> string) \<Rightarrow> ident \<Rightarrow> ident \<Rightarrow> time \<Rightarrow> bool \<Rightarrow> time option \<Rightarrow> observerPack_row \<times> payment_row \<Rightarrow> (db, seatRefund) tx" where
  "refund_seat codes missionId actorUserId closedAt isDemo endsAt = (\<lambda>(k, p).
     case (pk_paidAt k, endsAt) of
       (None, _) \<Rightarrow> ret SEAT_SKIPPED
     | (_, None) \<Rightarrow> ret SEAT_UNDETERMINED
     | (Some paidAt, Some expiresAt) \<Rightarrow>
        (let amount = closeRefundMinor (pk_priceMinor k) paidAt closedAt expiresAt
         in if amount \<le> 0 then ret SEAT_NOTHING_LOST
            else
              bindt (tx_updateMany observerPack observerPack_update
                 (\<lambda>x. pk_id x = pk_id k \<and> pk_refundedMinor x = None \<and> pk_refundOwedMinor x = None)
                 (mark_refund (pay_provider p = SANDBOX) amount closedAt))
                (file_refund codes missionId actorUserId closedAt isDemo k p (close_detail k p paidAt closedAt expiresAt) amount)))"

fun refund_seats :: "(observerPack_row \<times> payment_row \<Rightarrow> (db, seatRefund) tx) \<Rightarrow> (observerPack_row \<times> payment_row) list
   \<Rightarrow> closeRefundSummary \<Rightarrow> (db, closeRefundSummary) tx" where
  "refund_seats f [] summary = ret summary"
| "refund_seats f (x # xs) summary = bindt (f x) (\<lambda>r. refund_seats f xs (count_refund r summary))"

text \<open>The paid seats of buyers who have not left on their own, each with its captured payment.\<close>

definition left_already :: "db \<Rightarrow> ident \<Rightarrow> ident set" where
  "left_already s missionId =
     mp_userId ` set (filter (\<lambda>p. mp_missionId p = missionId \<and> mp_status p = MP_LEFT) (missionParticipant s))"

definition refundable :: "db \<Rightarrow> ident \<Rightarrow> (observerPack_row \<times> payment_row) list" where
  "refundable s missionId =
     List.map_filter (\<lambda>k.
       if pk_missionId k = missionId \<and> pk_status k = PK_PAID \<and> pk_refundedMinor k = None \<and> pk_refundOwedMinor k = None
          \<and> pk_userId k \<notin> left_already s missionId
       then (case find (\<lambda>p. Some (pay_id p) = pk_paymentId k \<and> pay_status p = PAY_CAPTURED) (payment s) of
               None \<Rightarrow> None | Some p \<Rightarrow> Some (k, p))
       else None) (observerPack s)"

definition refundSeatsTakenByClose ::
  "(ident \<Rightarrow> string) \<Rightarrow> ident \<Rightarrow> ident \<Rightarrow> time \<Rightarrow> bool \<Rightarrow> (db, closeRefundSummary) tx" where
  "refundSeatsTakenByClose codes missionId actorUserId closedAt isDemo =
     bindt (reads (\<lambda>s. (refundable s missionId, sessionEnd s missionId))) (\<lambda>(packs, endsAt).
     refund_seats (refund_seat codes missionId actorUserId closedAt isDemo endsAt) packs no_refunds)"

section \<open>Selling a seat (observer-pack.ts)\<close>

definition PROVISIONAL_OBSERVER_PACK_PRICE_MINOR :: int where [const_simps]: "PROVISIONAL_OBSERVER_PACK_PRICE_MINOR = 1500"
definition OBSERVER_PACK_HOLD_MINUTES :: int where [const_simps]: "OBSERVER_PACK_HOLD_MINUTES = 5"
definition MAX_OBSERVER_CAPACITY :: nat where [const_simps]: "MAX_OBSERVER_CAPACITY = 10"

record contractPack =
  op_id :: ident
  op_missionId :: ident
  op_userId :: ident
  op_status :: packStatus
  op_priceMinor :: int
  op_currency :: currency
  op_paymentId :: "ident option"
  op_holdExpiresAt :: "string option"
  op_refundedMinor :: "int option"
  op_refundOwedMinor :: "int option"

definition toContractPack :: "observerPack_row \<Rightarrow> contractPack" where
  "toContractPack k = \<lparr>op_id = pk_id k, op_missionId = pk_missionId k, op_userId = pk_userId k, op_status = pk_status k,
     op_priceMinor = pk_priceMinor k, op_currency = pk_currency k, op_paymentId = pk_paymentId k,
     op_holdExpiresAt = map_option toISOString (pk_holdExpiresAt k), op_refundedMinor = pk_refundedMinor k,
     op_refundOwedMinor = pk_refundOwedMinor k\<rparr>"

type_synonym packSale = "(contractPack \<times> paymentIntent option) observerResult"

abbreviation PRIZE_UNUSABLE :: packSale where
  "PRIZE_UNUSABLE \<equiv> Observer_refused 422 OE_VALIDATION_FAILED"

definition lapsed_pack :: "ident \<Rightarrow> time \<Rightarrow> observerPack_row \<Rightarrow> bool" where
  "lapsed_pack missionId now k \<longleftrightarrow> pk_missionId k = missionId \<and> pk_status k = PK_PENDING_PAYMENT
     \<and> (case pk_holdExpiresAt k of None \<Rightarrow> False | Some t \<Rightarrow> t \<le> now)"

definition expireLapsedPacks :: "ident \<Rightarrow> time \<Rightarrow> (db, nat) tx" where
  "expireLapsedPacks missionId now =
     tx_updateMany observerPack observerPack_update (lapsed_pack missionId now)
       (\<lambda>k. k\<lparr>pk_status := PK_EXPIRED, pk_holdExpiresAt := None\<rparr>)"

text \<open>The two unique keys of \<open>ObserverPack\<close>.\<close>

definition pack_conflict :: "observerPack_row \<Rightarrow> observerPack_row \<Rightarrow> bool" where
  "pack_conflict new old \<longleftrightarrow> pk_id new = pk_id old \<or> pk_missionId new = pk_missionId old \<and> pk_userId new = pk_userId old"

text \<open>A pack bought again keeps its row; otherwise a new one is created.\<close>

definition write_pack ::
  "observerPack_row option \<Rightarrow> (observerPack_row \<Rightarrow> observerPack_row) \<Rightarrow> ident \<Rightarrow> ident \<Rightarrow> ident \<Rightarrow> bool \<Rightarrow> (db, observerPack_row) tx" where
  "write_pack existing f newPack missionId userId isDemo =
     (case existing of
        Some k \<Rightarrow> bindt (tx_update observerPack observerPack_update (\<lambda>x. pk_id x = pk_id k) f) (\<lambda>_. ret (f k))
      | None \<Rightarrow> tx_create observerPack observerPack_update pack_conflict
          (f \<lparr>pk_id = newPack, pk_missionId = missionId, pk_userId = userId, pk_paymentId = None,
              pk_status = PK_PENDING_PAYMENT, pk_holdExpiresAt = None, pk_paidAt = None, pk_priceMinor = 0,
              pk_currency = GEL, pk_isDemo = isDemo, pk_refundedMinor = None, pk_refundedAt = None,
              pk_refundOwedMinor = None\<rparr>))"

definition pack_payment :: "environment \<Rightarrow> ident \<Rightarrow> ident \<Rightarrow> bool \<Rightarrow> payment_row" where
  "pack_payment E paymentId userId isDemo =
     (payment_for E paymentId userId PROVISIONAL_OBSERVER_PACK_PRICE_MINOR GEL isDemo)\<lparr>pay_purpose := FOR_OBSERVER_PACK\<rparr>"

definition pack_reserved_audit :: "mission_row \<Rightarrow> observerPack_row \<Rightarrow> ident \<Rightarrow> time \<Rightarrow> nat \<Rightarrow> auditLog_row" where
  "pack_reserved_audit m k paymentId holdExpiresAt held =
     (audit_entry PAYMENT ''OBSERVER_PACK_RESERVED''
        [(''paymentId'', JStr paymentId), (''priceMinor'', JNum PROVISIONAL_OBSERVER_PACK_PRICE_MINOR), (''currency'', JStr ''GEL''),
         (''holdExpiresAt'', JStr (toISOString holdExpiresAt)), (''seatsHeld'', JNum (int held + 1)),
         (''capacity'', JNum (int (mi_observerCapacity m)))])
     \<lparr>au_actorUserId := Some (pk_userId k), au_missionId := Some (mi_id m), au_entityType := Some ''ObserverPack'',
      au_entityId := Some (pk_id k), au_isDemo := mi_isDemo m\<rparr>"

definition sell_seat ::
  "environment \<Rightarrow> ident \<Rightarrow> ident \<Rightarrow> mission_row \<Rightarrow> ident \<Rightarrow> observerPack_row option \<Rightarrow> nat \<Rightarrow> time \<Rightarrow> (db, packSale) tx" where
  "sell_seat E newPayment newPack m userId existing held now =
     (let p = pack_payment E newPayment userId (mi_isDemo m); holdExpiresAt = now + OBSERVER_PACK_HOLD_MINUTES * minute_ms
      in bindt (tx_create payment payment_update (\<lambda>new old. pay_id new = pay_id old) p) (\<lambda>_.
         bindt (write_pack existing
            (\<lambda>k. k\<lparr>pk_paymentId := Some newPayment, pk_status := PK_PENDING_PAYMENT, pk_holdExpiresAt := Some holdExpiresAt,
               pk_priceMinor := PROVISIONAL_OBSERVER_PACK_PRICE_MINOR, pk_currency := GEL, pk_paidAt := None\<rparr>)
            newPack (mi_id m) userId (mi_isDemo m)) (\<lambda>k.
         bindt (recordAuditEvent (pack_reserved_audit m k newPayment holdExpiresAt held)) (\<lambda>_.
         ret (Observer_ok (toContractPack k, Some (toPaymentIntent p (Some holdExpiresAt))))))))"

definition seat_prize_audit :: "mission_row \<Rightarrow> ident \<Rightarrow> ident \<Rightarrow> ident \<Rightarrow> nat \<Rightarrow> auditLog_row" where
  "seat_prize_audit m userId prizeId packId held =
     (audit_entry CARD_DRAW ''CARD_PRIZE_REDEEMED''
        [(''observerPackId'', JStr packId), (''kind'', JStr ''OBSERVER_SEAT''), (''seatsHeld'', JNum (int held + 1)),
         (''capacity'', JNum (int (mi_observerCapacity m)))])
     \<lparr>au_actorUserId := Some userId, au_missionId := Some (mi_id m), au_entityType := Some ''CardPrize'',
      au_entityId := Some prizeId, au_isDemo := mi_isDemo m\<rparr>"

definition seatPaidByPrize ::
  "ident \<Rightarrow> mission_row \<Rightarrow> ident \<Rightarrow> observerPack_row option \<Rightarrow> ident \<Rightarrow> nat \<Rightarrow> time \<Rightarrow> (db, packSale) tx" where
  "seatPaidByPrize newPack m userId existing prizeId held now =
     bindt (write_pack existing
        (\<lambda>k. k\<lparr>pk_paymentId := None, pk_status := PK_PAID, pk_holdExpiresAt := None, pk_priceMinor := 0,
           pk_currency := GEL, pk_paidAt := Some now\<rparr>)
        newPack (mi_id m) userId (mi_isDemo m)) (\<lambda>k.
     bindt (claimPrize prizeId userId now None (Some (pk_id k))) (\<lambda>claimed.
     if \<not> claimed then throw PrizeAlreadySpent
     else
       bindt (recordAuditEvent (seat_prize_audit m userId prizeId (pk_id k) held)) (\<lambda>_.
       ret (Observer_ok (toContractPack k, None)))))"

text \<open>What the purchase does with the pack it finds, once lapsed holds are out of the way.\<close>

definition buy_seat ::
  "environment \<Rightarrow> ident \<Rightarrow> ident \<Rightarrow> mission_row \<Rightarrow> ident \<Rightarrow> string option \<Rightarrow> observerPack_row option \<Rightarrow> nat \<Rightarrow> time \<Rightarrow> (db, packSale) tx" where
  "buy_seat E newPayment newPack m userId codeHash existing held now =
     (if mi_observerCapacity m \<le> held then ret (Observer_refused 409 OE_OBSERVER_CAPACITY_REACHED)
      else case codeHash of
        Some h \<Rightarrow>
          bindt (findSpendablePrize h userId now) (\<lambda>prize. case prize of
            None \<Rightarrow> ret PRIZE_UNUSABLE
          | Some z \<Rightarrow> if pz_kind z \<noteq> OBSERVER_SEAT \<or> pz_observatoryId z \<noteq> mi_observatoryId m then ret PRIZE_UNUSABLE
              else seatPaidByPrize newPack m userId existing (pz_id z) held now)
      | None \<Rightarrow> sell_seat E newPayment newPack m userId existing held now)"

definition offer_seat ::
  "environment \<Rightarrow> ident \<Rightarrow> ident \<Rightarrow> mission_row \<Rightarrow> ident \<Rightarrow> string option \<Rightarrow> time \<Rightarrow> (db, packSale) tx" where
  "offer_seat E newPayment newPack m userId codeHash now =
     bindt (tx_find observerPack (\<lambda>k. pk_missionId k = mi_id m \<and> pk_userId k = userId)) (\<lambda>existing.
     bindt (reads (\<lambda>s. case existing of None \<Rightarrow> None
        | Some k \<Rightarrow> find (\<lambda>p. Some (pay_id p) = pk_paymentId k) (payment s))) (\<lambda>paid.
     bindt (reads (\<lambda>s. length (filter (holds_seat (mi_id m)) (observerPack s)))) (\<lambda>held.
     case (existing, paid) of
       (Some k, None) \<Rightarrow>
         if pk_status k = PK_PAID then ret (Observer_ok (toContractPack k, None))
         else buy_seat E newPayment newPack m userId codeHash existing held now
     | (Some k, Some p) \<Rightarrow>
         if codeHash \<noteq> None \<and> pk_status k = PK_PENDING_PAYMENT then ret (Observer_refused 409 OE_CONFLICT)
         else if pk_status k = PK_PENDING_PAYMENT \<or> pk_status k = PK_PAID
         then ret (Observer_ok (toContractPack k, Some (toPaymentIntent p (pk_holdExpiresAt k))))
         else buy_seat E newPayment newPack m userId codeHash existing held now
     | (None, _) \<Rightarrow> buy_seat E newPayment newPack m userId codeHash existing held now)))"

definition purchaseInTransaction ::
  "environment \<Rightarrow> ident \<Rightarrow> ident \<Rightarrow> ident \<Rightarrow> ident \<Rightarrow> string option \<Rightarrow> time \<Rightarrow> (db, packSale) tx" where
  "purchaseInTransaction E newPayment newPack missionId userId codeHash now =
     bindt (tx_find mission (\<lambda>m. mi_id m = missionId)) (\<lambda>found. case found of
       None \<Rightarrow> ret (Observer_refused 404 OE_NOT_FOUND)
     | Some m \<Rightarrow>
         if mi_userId m = userId then ret (Observer_refused 409 OE_CONFLICT)
         else if \<not> is_live m then ret (Observer_refused 409 OE_MISSION_NOT_ACTIVE)
         else if mi_joinPolicy m \<noteq> JOIN_OPEN then ret (Observer_refused 403 OE_MISSION_NOT_OBSERVABLE)
         else
           bindt (expireLapsedPacks missionId now) (\<lambda>_.
           offer_seat E newPayment newPack m userId codeHash now))"

definition purchaseObserverPack ::
  "environment \<Rightarrow> (string \<Rightarrow> string) \<Rightarrow> ident \<Rightarrow> ident \<Rightarrow> ident \<Rightarrow> ident \<Rightarrow> string option \<Rightarrow> time \<Rightarrow> db
   \<Rightarrow> (exn + packSale) \<times> db" where
  "purchaseObserverPack E sha256 newPayment newPack missionId userId voucherCode now s =
     (case (case voucherCode of None \<Rightarrow> Some None
            | Some code \<Rightarrow> map_option (\<lambda>c. Some (hashVoucherCode sha256 c)) (normaliseVoucherCode code)) of
        None \<Rightarrow> (Inr PRIZE_UNUSABLE, s)
      | Some codeHash \<Rightarrow>
          if paymentProvider E = None then (Inr (Observer_refused 500 OE_INTERNAL), s)
          else case transaction (purchaseInTransaction E newPayment newPack missionId userId codeHash now) s of
            (Inl e, s') \<Rightarrow> if e = PrizeAlreadySpent then (Inr PRIZE_UNUSABLE, s') else (Inl e, s')
          | (Inr r, s') \<Rightarrow> (Inr r, s'))"

definition hasPaidObserverPack :: "ident \<Rightarrow> ident \<Rightarrow> (db, bool) tx" where
  "hasPaidObserverPack missionId userId =
     bindt (tx_find observerPack (\<lambda>k. pk_missionId k = missionId \<and> pk_userId k = userId)) (\<lambda>k.
     ret (case k of None \<Rightarrow> False | Some x \<Rightarrow> pk_status x = PK_PAID))"

section \<open>Taking and leaving a seat (observers.ts)\<close>

record contractObserver =
  ob_observerId :: ident
  ob_observerMissionId :: ident
  ob_observerUserId :: ident
  ob_joinedAt :: string
  ob_leftAt :: "string option"

definition toContractObserver :: "participant_row \<Rightarrow> contractObserver" where
  "toContractObserver p = \<lparr>ob_observerId = mp_id p, ob_observerMissionId = mp_missionId p, ob_observerUserId = mp_userId p,
     ob_joinedAt = toISOString (mp_joinedAt p), ob_leftAt = map_option toISOString (mp_leftAt p)\<rparr>"

abbreviation seat_of :: "ident \<Rightarrow> ident \<Rightarrow> participant_row \<Rightarrow> bool" where
  "seat_of missionId userId p \<equiv> mp_missionId p = missionId \<and> mp_userId p = userId"

abbreviation watching :: "ident \<Rightarrow> participant_row \<Rightarrow> bool" where
  "watching missionId p \<equiv> mp_missionId p = missionId \<and> mp_status p = MP_JOINED"

definition listMissionObservers :: "db \<Rightarrow> ident \<Rightarrow> actor \<Rightarrow> (contractObserver list \<times> nat) observerResult" where
  "listMissionObservers s missionId act =
     (case find (\<lambda>m. mi_id m = missionId) (mission s) of None \<Rightarrow> Observer_refused 404 OE_NOT_FOUND
      | Some m \<Rightarrow>
         let seats = sort_key mp_joinedAt (filter (watching missionId) (missionParticipant s));
             entitled = (ac_role act = ROLE_OPERATOR \<or> mi_userId m = ac_id act)
         in if \<not> entitled \<and> \<not> list_ex (\<lambda>p. mp_userId p = ac_id act) seats then Observer_refused 404 OE_NOT_FOUND
            else Observer_ok (if entitled then map toContractObserver seats else [], mi_observerCapacity m))"

definition seat_taken_audit :: "mission_row \<Rightarrow> participant_row \<Rightarrow> nat \<Rightarrow> auditLog_row" where
  "seat_taken_audit m p taken =
     (audit_entry MISSION ''OBSERVER_SEAT_TAKEN''
        [(''seatsTaken'', JNum (int taken + 1)), (''capacity'', JNum (int (mi_observerCapacity m)))])
     \<lparr>au_actorUserId := Some (mp_userId p), au_missionId := Some (mi_id m), au_entityType := Some ''MissionParticipant'',
      au_entityId := Some (mp_id p), au_isDemo := mi_isDemo m\<rparr>"

definition participant_conflict :: "participant_row \<Rightarrow> participant_row \<Rightarrow> bool" where
  "participant_conflict new old \<longleftrightarrow> mp_id new = mp_id old \<or> seat_of (mp_missionId old) (mp_userId old) new"

definition attach :: "ident \<Rightarrow> mission_row \<Rightarrow> ident \<Rightarrow> participant_row option \<Rightarrow> time \<Rightarrow> (db, participant_row) tx" where
  "attach newSeat m userId existing now =
     (case existing of
        Some p \<Rightarrow>
          bindt (tx_update missionParticipant missionParticipant_update (\<lambda>x. mp_id x = mp_id p)
             (\<lambda>x. x\<lparr>mp_status := MP_JOINED, mp_joinedAt := now, mp_leftAt := None\<rparr>)) (\<lambda>_.
          ret (p\<lparr>mp_status := MP_JOINED, mp_joinedAt := now, mp_leftAt := None\<rparr>))
      | None \<Rightarrow> tx_create missionParticipant missionParticipant_update participant_conflict
          \<lparr>mp_id = newSeat, mp_missionId = mi_id m, mp_userId = userId, mp_status = MP_JOINED, mp_joinedAt = now,
           mp_leftAt = None, mp_canSaveCaptures = False, mp_isDemo = mi_isDemo m\<rparr>)"

text \<open>What a seat that is paid for does: it is the one already taken, or it takes one of those left.\<close>

definition claim_seat :: "ident \<Rightarrow> mission_row \<Rightarrow> ident \<Rightarrow> time \<Rightarrow> (db, contractObserver observerResult) tx" where
  "claim_seat newSeat m userId now =
     bindt (tx_find missionParticipant (seat_of (mi_id m) userId)) (\<lambda>existing.
     bindt (reads (\<lambda>s. length (filter (watching (mi_id m)) (missionParticipant s)))) (\<lambda>taken.
     if (case existing of None \<Rightarrow> False | Some p \<Rightarrow> mp_status p = MP_JOINED)
     then ret (Observer_ok (toContractObserver (the existing)))
     else if mi_observerCapacity m \<le> taken then ret (Observer_refused 409 OE_OBSERVER_CAPACITY_REACHED)
     else
       bindt (attach newSeat m userId existing now) (\<lambda>p.
       bindt (recordAuditEvent (seat_taken_audit m p taken)) (\<lambda>_.
       ret (Observer_ok (toContractObserver p))))))"

definition seat_tx :: "ident \<Rightarrow> ident \<Rightarrow> ident \<Rightarrow> time \<Rightarrow> (db, contractObserver observerResult) tx" where
  "seat_tx newSeat missionId userId now =
     bindt (tx_find mission (\<lambda>m. mi_id m = missionId)) (\<lambda>found. case found of
       None \<Rightarrow> ret (Observer_refused 404 OE_NOT_FOUND)
     | Some m \<Rightarrow>
         if mi_userId m = userId then ret (Observer_refused 409 OE_CONFLICT)
         else if \<not> is_live m then ret (Observer_refused 409 OE_MISSION_NOT_ACTIVE)
         else if mi_joinPolicy m \<noteq> JOIN_OPEN then ret (Observer_refused 403 OE_MISSION_NOT_OBSERVABLE)
         else
           bindt (hasPaidObserverPack missionId userId) (\<lambda>paid.
           if \<not> paid then ret (Observer_refused 402 OE_PAYMENT_REQUIRED)
           else claim_seat newSeat m userId now))"

definition takeObserverSeat ::
  "ident \<Rightarrow> ident \<Rightarrow> ident \<Rightarrow> time \<Rightarrow> db \<Rightarrow> (exn + contractObserver observerResult) \<times> db" where
  "takeObserverSeat newSeat missionId userId now s =
     (case transaction (seat_tx newSeat missionId userId now) s of
        (Inl e, s') \<Rightarrow> if isUniqueViolation e then (Inr (Observer_refused 409 OE_CONFLICT), s') else (Inl e, s')
      | (Inr r, s') \<Rightarrow> (Inr r, s'))"

definition leave :: "(participant_row \<Rightarrow> bool) \<Rightarrow> time \<Rightarrow> (db, nat) tx" where
  "leave P now =
     tx_updateMany missionParticipant missionParticipant_update (\<lambda>p. P p \<and> mp_status p = MP_JOINED)
       (\<lambda>p. p\<lparr>mp_status := MP_LEFT, mp_leftAt := Some now\<rparr>)"

definition releaseObserverSeat :: "ident \<Rightarrow> ident \<Rightarrow> time \<Rightarrow> (db, unit) tx" where
  "releaseObserverSeat missionId userId now =
     bindt (leave (seat_of missionId userId) now) (\<lambda>count.
     if 0 < count
     then recordAuditEvent ((audit_entry MISSION ''OBSERVER_SEAT_RELEASED'' [])
       \<lparr>au_actorUserId := Some userId, au_missionId := Some missionId, au_entityType := Some ''Mission'',
        au_entityId := Some missionId\<rparr>)
     else ret ())"

definition detachAllObservers :: "ident \<Rightarrow> time \<Rightarrow> (db, nat) tx" where
  "detachAllObservers missionId now = leave (\<lambda>p. mp_missionId p = missionId) now"

section \<open>The owner's consent (observers.ts, broadcast.ts)\<close>

record contractMission =
  ct_id :: ident
  ct_userId :: ident
  ct_bookingId :: "ident option"
  ct_targetId :: ident
  ct_observatoryId :: ident
  ct_state :: missionState
  ct_failureReason :: "missionFailureReason option"
  ct_mode :: observatoryMode
  ct_scheduledStartAt :: "string option"
  ct_requestedAt :: string
  ct_startedAt :: "string option"
  ct_endedAt :: "string option"
  ct_session :: bookedSessionView
  ct_captureIds :: "ident list"
  ct_observable :: bool
  ct_broadcast :: bool
  ct_observerCapacity :: nat
  ct_observerCount :: nat

definition readContractMission :: "ident \<Rightarrow> (db, contractMission) tx" where
  "readContractMission missionId =
     bindt (tx_findOrThrow mission (\<lambda>m. mi_id m = missionId)) (\<lambda>m.
     reads (\<lambda>s. \<lparr>ct_id = mi_id m, ct_userId = mi_userId m, ct_bookingId = map_option bk_id (mission_booking s m),
       ct_targetId = mi_targetId m, ct_observatoryId = mi_observatoryId m, ct_state = mi_state m,
       ct_failureReason = mi_failureReason m, ct_mode = mi_mode m,
       ct_scheduledStartAt = map_option toISOString (mi_scheduledFor m), ct_requestedAt = toISOString (mi_requestedAt m),
       ct_startedAt = map_option toISOString (mi_startedAt m), ct_endedAt = map_option toISOString (mi_completedAt m),
       ct_session = bookedSessionFields s m,
       ct_captureIds = map cp_id (filter (\<lambda>c. cp_missionId c = missionId) (capture s)),
       ct_observable = (mi_joinPolicy m = JOIN_OPEN), ct_broadcast = mi_broadcast m,
       ct_observerCapacity = mi_observerCapacity m,
       ct_observerCount = length (filter (watching missionId) (missionParticipant s))\<rparr>))"

definition summary_json :: "closeRefundSummary \<Rightarrow> json" where
  "summary_json x = JObj [(''refunded'', JNum (int (cs_refunded x))), (''owed'', JNum (int (cs_owed x))),
     (''nothingLost'', JNum (int (cs_nothingLost x))), (''undetermined'', JNum (int (cs_undetermined x)))]"

definition observation_audit :: "ident \<Rightarrow> ident \<Rightarrow> bool \<Rightarrow> bool \<Rightarrow> nat \<Rightarrow> closeRefundSummary option \<Rightarrow> auditLog_row" where
  "observation_audit missionId actorId isDemo observable detached refunds =
     (audit_entry MISSION (if observable then ''MISSION_OPENED_TO_OBSERVERS'' else ''MISSION_CLOSED_TO_OBSERVERS'')
        ([(''observable'', JBool observable), (''detached'', JNum (int detached))]
         @ (case refunds of None \<Rightarrow> [] | Some x \<Rightarrow> [(''refunds'', summary_json x)])))
     \<lparr>au_actorUserId := Some actorId, au_missionId := Some missionId, au_entityType := Some ''Mission'',
      au_entityId := Some missionId, au_isDemo := isDemo\<rparr>"

definition set_policy :: "ident \<Rightarrow> joinPolicy \<Rightarrow> (db, unit) tx" where
  "set_policy missionId policy =
     tx_update mission mission_update (\<lambda>m. mi_id m = missionId) (\<lambda>m. m\<lparr>mi_joinPolicy := policy\<rparr>)"

definition open_observation :: "ident \<Rightarrow> ident \<Rightarrow> bool \<Rightarrow> (db, contractMission observerResult) tx" where
  "open_observation missionId actorId isDemo =
     bindt (set_policy missionId JOIN_OPEN) (\<lambda>_.
     bindt (recordAuditEvent (observation_audit missionId actorId isDemo True 0 None)) (\<lambda>_.
     bindt (readContractMission missionId) (\<lambda>m. ret (Observer_ok m))))"

definition close_observation ::
  "(ident \<Rightarrow> string) \<Rightarrow> ident \<Rightarrow> ident \<Rightarrow> bool \<Rightarrow> time \<Rightarrow> (db, contractMission observerResult) tx" where
  "close_observation codes missionId actorId isDemo now =
     bindt (set_policy missionId JOIN_DISABLED) (\<lambda>_.
     bindt (refundSeatsTakenByClose codes missionId actorId now isDemo) (\<lambda>refunds.
     bindt (detachAllObservers missionId now) (\<lambda>detached.
     bindt (recordAuditEvent (observation_audit missionId actorId isDemo False detached (Some refunds))) (\<lambda>_.
     bindt (readContractMission missionId) (\<lambda>m. ret (Observer_ok m))))))"

definition setMissionObservation ::
  "(ident \<Rightarrow> string) \<Rightarrow> (db \<Rightarrow> db) \<Rightarrow> ident \<Rightarrow> actor \<Rightarrow> bool \<Rightarrow> time \<Rightarrow> db \<Rightarrow> (exn + contractMission observerResult) \<times> db" where
  "setMissionObservation codes others missionId act observable now s =
     (case find (\<lambda>m. mi_id m = missionId) (mission s) of
        None \<Rightarrow> (Inr (Observer_refused 404 OE_NOT_FOUND), others s)
      | Some m \<Rightarrow>
         if mi_userId m \<noteq> ac_id act then (Inr (Observer_refused 404 OE_NOT_FOUND), others s)
         else if \<not> is_live m then (Inr (Observer_refused 409 OE_MISSION_NOT_ACTIVE), others s)
         else transaction (if observable then open_observation missionId (ac_id act) (mi_isDemo m)
                else close_observation codes missionId (ac_id act) (mi_isDemo m) now) (others s))"

definition OPENABLE_STATES :: "missionState list" where
  "OPENABLE_STATES = MS_SCHEDULED # LIVE_MISSION_STATES"

definition broadcast_audit :: "mission_row \<Rightarrow> ident \<Rightarrow> bool \<Rightarrow> auditLog_row" where
  "broadcast_audit m userId broadcast =
     (audit_entry MISSION (if broadcast then ''MISSION_OPENED_TO_TONIGHT'' else ''MISSION_CLOSED_TO_TONIGHT'') [])
     \<lparr>au_actorUserId := Some userId, au_missionId := Some (mi_id m), au_entityType := Some ''Mission'',
      au_entityId := Some (mi_id m), au_isDemo := mi_isDemo m\<rparr>"

definition setMissionBroadcast ::
  "(db \<Rightarrow> db) \<Rightarrow> ident \<Rightarrow> ident \<Rightarrow> bool \<Rightarrow> db \<Rightarrow> (exn + contractMission observerResult) \<times> db" where
  "setMissionBroadcast others missionId userId broadcast s =
     (case find (\<lambda>m. mi_id m = missionId) (mission s) of
        None \<Rightarrow> (Inr (Observer_refused 404 OE_NOT_FOUND), others s)
      | Some m \<Rightarrow>
         if mi_userId m \<noteq> userId then (Inr (Observer_refused 404 OE_NOT_FOUND), others s)
         else if broadcast \<and> mi_state m \<notin> set OPENABLE_STATES then (Inr (Observer_refused 409 OE_MISSION_NOT_ACTIVE), others s)
         else transaction
           (bindt (if mi_broadcast m \<noteq> broadcast
              then bindt (tx_update mission mission_update (\<lambda>x. mi_id x = missionId) (\<lambda>x. x\<lparr>mi_broadcast := broadcast\<rparr>)) (\<lambda>_.
                   recordAuditEvent (broadcast_audit m userId broadcast))
              else ret ()) (\<lambda>_.
            bindt (readContractMission missionId) (\<lambda>c. ret (Observer_ok c)))) (others s))"

text \<open>\<open>mayWatch\<close> of watch.ts: who may read a mission's watch view.\<close>

definition mayWatch :: "ident \<Rightarrow> ident \<Rightarrow> bool \<Rightarrow> bool \<Rightarrow> joinPolicy \<Rightarrow> missionState \<Rightarrow> bool" where
  "mayWatch actorId ownerId seated paid policy state \<longleftrightarrow>
     actorId = ownerId \<or> seated \<or> paid \<or> policy = JOIN_OPEN \<and> state \<in> set LIVE_MISSION_STATES"

end
