(* ===== verification/Observers_Correct.thy ===== *)
theory Observers_Correct
  imports Observers Settle_Correct Mission_Correct
begin

text \<open>
  What watching promises: a seat sold is never sold twice and can always be taken by whoever
  paid for it, a close sends everybody away and gives back, once, the share of the price for
  the time it takes.
\<close>

section \<open>The share of the price\<close>

lemma ceiling_share:
  fixes p r b :: int
  assumes "0 < p" and "0 < r" and "r < b"
  shows "p * r \<le> (p * r + b - 1) div b * b" and "(p * r + b - 1) div b * b < p * r + b"
    and "0 < (p * r + b - 1) div b" and "(p * r + b - 1) div b \<le> p"
proof -
  let ?q = "(p * r + b - 1) div b" and ?m = "(p * r + b - 1) mod b"
  have e: "?q * b = p * r + b - 1 - ?m" using div_mult_mod_eq [of "p * r + b - 1" b] by linarith
  have m: "0 \<le> ?m" "?m < b" using assms by simp_all
  show up: "p * r \<le> ?q * b" using e m by linarith
  show "?q * b < p * r + b" using e m by linarith
  have "0 < p * r" using assms by simp
  with up have "0 < ?q * b" by linarith
  then show "0 < ?q" using assms by (simp add: zero_less_mult_iff)
  have "p * r \<le> p * (b - 1)" using assms by (intro mult_left_mono) simp_all
  then have "p * r + b \<le> (p + 1) * b" using assms by (simp add: algebra_simps)
  then have "?q * b < (p + 1) * b" using e m by linarith
  then show "?q \<le> p" using assms by simp
qed

lemma close_refund_bounds:
  "0 \<le> closeRefundMinor price paidAt closedAt expiresAt" "closeRefundMinor price paidAt closedAt expiresAt \<le> max 0 price"
  using ceiling_share [of price "expiresAt - closedAt" "expiresAt - paidAt"]
  by (auto simp: closeRefundMinor_def Let_def)

text \<open>
  C17: The refund of a seat is the share of its price for the time the close takes, rounded up
  to the whole tetri: it is never less than that share, less than one tetri more, positive, and
  never more than was paid, and closing earlier never gives back less.
\<close>

theorem close_refund_is_the_share_lost:
  assumes "0 < price" and "paidAt < closedAt" and "closedAt < expiresAt"
  shows "price * (expiresAt - closedAt) \<le> closeRefundMinor price paidAt closedAt expiresAt * (expiresAt - paidAt)
    \<and> closeRefundMinor price paidAt closedAt expiresAt * (expiresAt - paidAt) < price * (expiresAt - closedAt) + (expiresAt - paidAt)
    \<and> 0 < closeRefundMinor price paidAt closedAt expiresAt \<and> closeRefundMinor price paidAt closedAt expiresAt \<le> price
    \<and> (\<forall>earlier \<le> closedAt. closeRefundMinor price paidAt closedAt expiresAt \<le> closeRefundMinor price paidAt earlier expiresAt)"
proof -
  let ?b = "expiresAt - paidAt"
  have r: "closeRefundMinor price paidAt closedAt expiresAt = (price * (expiresAt - closedAt) + ?b - 1) div ?b"
    using assms by (simp add: closeRefundMinor_def Let_def)
  note share = ceiling_share [of price "expiresAt - closedAt" ?b]
  have "closeRefundMinor price paidAt closedAt expiresAt \<le> closeRefundMinor price paidAt earlier expiresAt" if "earlier \<le> closedAt" for earlier
  proof (cases "earlier \<le> paidAt")
    case True
    then have "closeRefundMinor price paidAt earlier expiresAt = price" using assms by (simp add: closeRefundMinor_def Let_def)
    then show ?thesis using share(4) assms r by simp
  next
    case False
    then have "closeRefundMinor price paidAt earlier expiresAt = (price * (expiresAt - earlier) + ?b - 1) div ?b"
      using assms that by (simp add: closeRefundMinor_def Let_def)
    moreover have "price * (expiresAt - closedAt) \<le> price * (expiresAt - earlier)" using assms that by (intro mult_left_mono) simp_all
    ultimately show ?thesis using zdiv_mono1 [of "price * (expiresAt - closedAt) + ?b - 1" "price * (expiresAt - earlier) + ?b - 1" ?b] assms
      by (simp only: r)
  qed
  with share assms r show ?thesis by simp
qed

theorem close_refund_is_the_share_lost_witness:
  "closeRefundMinor 1500 0 1200000 1800000 = 500 \<and> closeRefundMinor 1500 0 1200001 1800000 = 500 \<and> (0::int) < 500"
  using close_refund_is_the_share_lost [of 1500 0 1200000 1800000] by (simp add: closeRefundMinor_def Let_def)

section \<open>Seats, sold and taken\<close>

definition paid_seat :: "db \<Rightarrow> ident \<Rightarrow> ident \<Rightarrow> bool" where
  "paid_seat s missionId userId \<longleftrightarrow>
     (\<exists>k \<in> set (observerPack s). pk_missionId k = missionId \<and> pk_userId k = userId \<and> pk_status k = PK_PAID)"

abbreviation pack_key :: "observerPack_row \<Rightarrow> ident \<times> ident" where
  "pack_key k \<equiv> (pk_missionId k, pk_userId k)"

abbreviation seat_key :: "participant_row \<Rightarrow> ident \<times> ident" where
  "seat_key p \<equiv> (mp_missionId p, mp_userId p)"

definition seating_inv :: "db \<Rightarrow> bool" where
  "seating_inv s \<longleftrightarrow> seats_inv s \<and> distinct (map pack_key (observerPack s))
     \<and> distinct (map mp_id (missionParticipant s)) \<and> distinct (map seat_key (missionParticipant s))
     \<and> (\<forall>p \<in> set (missionParticipant s). mp_status p = MP_JOINED \<longrightarrow> paid_seat s (mp_missionId p) (mp_userId p))"

lemma paid_seat_frame [simp]:
  "paid_seat (s\<lparr>payment := a\<rparr>) = paid_seat s" "paid_seat (s\<lparr>auditLog := b\<rparr>) = paid_seat s"
  "paid_seat (s\<lparr>emailNotification := c\<rparr>) = paid_seat s" "paid_seat (s\<lparr>loyaltyAccount := d\<rparr>) = paid_seat s"
  "paid_seat (s\<lparr>loyaltyLedgerEntry := e\<rparr>) = paid_seat s" "paid_seat (s\<lparr>creditAccount := f\<rparr>) = paid_seat s"
  "paid_seat (s\<lparr>creditLedger := g\<rparr>) = paid_seat s" "paid_seat (s\<lparr>booking := h\<rparr>) = paid_seat s"
  "paid_seat (s\<lparr>missionEvent := i\<rparr>) = paid_seat s" "paid_seat (s\<lparr>giftVoucher := j\<rparr>) = paid_seat s"
  "paid_seat (s\<lparr>cardPrize := k\<rparr>) = paid_seat s" "paid_seat (s\<lparr>subscription := l\<rparr>) = paid_seat s"
  "paid_seat (s\<lparr>mission := m\<rparr>) = paid_seat s" "paid_seat (s\<lparr>missionParticipant := n\<rparr>) = paid_seat s"
  by (simp_all add: paid_seat_def fun_eq_iff)

lemma seating_inv_frame [simp]:
  "seating_inv (s\<lparr>payment := a\<rparr>) = seating_inv s" "seating_inv (s\<lparr>auditLog := b\<rparr>) = seating_inv s"
  "seating_inv (s\<lparr>emailNotification := c\<rparr>) = seating_inv s" "seating_inv (s\<lparr>loyaltyAccount := d\<rparr>) = seating_inv s"
  "seating_inv (s\<lparr>loyaltyLedgerEntry := e\<rparr>) = seating_inv s" "seating_inv (s\<lparr>creditAccount := f\<rparr>) = seating_inv s"
  "seating_inv (s\<lparr>creditLedger := g\<rparr>) = seating_inv s" "seating_inv (s\<lparr>booking := h\<rparr>) = seating_inv s"
  "seating_inv (s\<lparr>missionEvent := i\<rparr>) = seating_inv s" "seating_inv (s\<lparr>giftVoucher := j\<rparr>) = seating_inv s"
  "seating_inv (s\<lparr>cardPrize := k\<rparr>) = seating_inv s" "seating_inv (s\<lparr>subscription := l\<rparr>) = seating_inv s"
  by (simp_all add: seating_inv_def)

text \<open>A pack that stays paid keeps its holder's seat; the other rows do not matter.\<close>

lemma paid_seat_update:
  assumes "paid_seat s i u" and "\<And>k. pack_key (f k) = pack_key k"
    and "\<And>k. k \<in> set (observerPack s) \<Longrightarrow> P k \<Longrightarrow> pk_status k = PK_PAID \<Longrightarrow> pk_status (f k) = PK_PAID"
  shows "paid_seat (s\<lparr>observerPack := updateMany P f (observerPack s)\<rparr>) i u"
proof -
  from assms(1) obtain k where k: "k \<in> set (observerPack s)" "pk_missionId k = i" "pk_userId k = u" "pk_status k = PK_PAID"
    by (auto simp: paid_seat_def)
  then have "(if P k then f k else k) \<in> set (updateMany P f (observerPack s))" by (auto simp: updateMany_def)
  moreover have "pk_missionId (f k) = i" "pk_userId (f k) = u" using assms(2) [of k] k by simp_all
  ultimately show ?thesis using k assms(3) [OF k(1)] unfolding paid_seat_def
    by (intro bexI [of _ "if P k then f k else k"]) auto
qed

lemma seating_packs:
  assumes "seating_inv s" and "seats_inv (s\<lparr>observerPack := updateMany P f (observerPack s)\<rparr>)" and "\<And>k. pack_key (f k) = pack_key k"
    and "\<And>k. k \<in> set (observerPack s) \<Longrightarrow> P k \<Longrightarrow> pk_status k = PK_PAID \<Longrightarrow> pk_status (f k) = PK_PAID"
  shows "seating_inv (s\<lparr>observerPack := updateMany P f (observerPack s)\<rparr>)"
proof -
  have "map pack_key (updateMany P f (observerPack s)) = map pack_key (observerPack s)"
    by (rule map_updateMany_inv) (rule assms(3))
  moreover have "paid_seat (s\<lparr>observerPack := updateMany P f (observerPack s)\<rparr>) i u" if "paid_seat s i u" for i u
    using that assms(3,4) by (rule paid_seat_update)
  ultimately show ?thesis using assms(1,2) by (simp add: seating_inv_def)
qed

text \<open>Rows that give up their seat, or keep what they have, never make a session overfull.\<close>

lemma seats_inv_shrink:
  assumes "seats_inv s" and "\<And>k. pk_id (f k) = pk_id k \<and> pk_missionId (f k) = pk_missionId k"
    and "\<And>i k. P k \<Longrightarrow> holds_seat i (f k) \<Longrightarrow> holds_seat i k"
  shows "seats_inv (s\<lparr>observerPack := updateMany P f (observerPack s)\<rparr>)"
proof -
  have "length (filter (holds_seat i) (updateMany P f t)) \<le> length (filter (holds_seat i) t)" for i t
    using assms(3) by (induction t) (auto simp: updateMany_def)
  moreover have "map pk_id (updateMany P f (observerPack s)) = map pk_id (observerPack s)"
    using assms(2) by (simp add: map_updateMany_inv)
  ultimately show ?thesis using assms(1,2) unfolding seats_inv_def by (auto simp: ball_updateMany intro: order_trans [rotated])
qed

lemma seating_shrink:
  assumes "seating_inv s" and "\<And>k. pk_id (f k) = pk_id k \<and> pack_key (f k) = pack_key k"
    and "\<And>k. P k \<Longrightarrow> pk_status (f k) = pk_status k \<or> pk_status k = PK_PENDING_PAYMENT \<and> (\<forall>i. \<not> holds_seat i (f k))"
  shows "seating_inv (s\<lparr>observerPack := updateMany P f (observerPack s)\<rparr>)"
proof (rule seating_packs [OF assms(1)])
  show "seats_inv (s\<lparr>observerPack := updateMany P f (observerPack s)\<rparr>)"
  proof (rule seats_inv_shrink)
    show "holds_seat i k" if "P k" "holds_seat i (f k)" for i k
      using assms(3) [OF that(1)] that(2) assms(2) [of k] by (auto simp: holds_seat_def)
  qed (use assms in \<open>auto simp: seating_inv_def\<close>)
  show "pk_status (f k) = PK_PAID" if "P k" "pk_status k = PK_PAID" for k using assms(3) [OF that(1)] that(2) by auto
qed (use assms(2) in auto)

lemma seating_missions:
  assumes "seating_inv s" and "map (\<lambda>m. (mi_id m, mi_observerCapacity m)) ms = map (\<lambda>m. (mi_id m, mi_observerCapacity m)) (mission s)"
  shows "seating_inv (s\<lparr>mission := ms\<rparr>)"
proof -
  let ?c = "\<lambda>m. (mi_id m, mi_observerCapacity m)"
  have ids: "map mi_id ms = map mi_id (mission s)" using arg_cong [OF assms(2), of "map fst"] by (simp add: comp_def)
  have rows: "?c ` set ms = ?c ` set (mission s)" using arg_cong [OF assms(2), of set] by simp
  have "length (filter (holds_seat (mi_id m)) (observerPack s)) \<le> mi_observerCapacity m" if "m \<in> set ms" for m
  proof -
    from that rows obtain m' where "m' \<in> set (mission s)" "?c m' = ?c m" by force
    then show ?thesis using assms(1) by (auto simp: seating_inv_def seats_inv_def)
  qed
  moreover have "mi_id ` set ms = mi_id ` set (mission s)" using arg_cong [OF ids, of set] by simp
  ultimately show ?thesis using assms(1) ids by (simp add: seating_inv_def seats_inv_def)
qed

text \<open>The laws of a settlement (Settle_Correct) hold of the larger invariant too.\<close>

lemma seating_one:
  assumes "seating_inv s" and "r \<in> set (observerPack s)" and "\<And>k. pk_id (f k) = pk_id k \<and> pack_key (f k) = pack_key k"
    and "holds_seat (pk_missionId r) (f r) \<Longrightarrow> \<not> holds_seat (pk_missionId r) r \<Longrightarrow>
      \<exists>m \<in> set (mission s). mi_id m = pk_missionId r \<and> length (filter (holds_seat (pk_missionId r)) (observerPack s)) < mi_observerCapacity m"
    and "pk_status r = PK_PAID \<Longrightarrow> pk_status (f r) = PK_PAID"
  shows "seating_inv (s\<lparr>observerPack := updateMany (\<lambda>x. pk_id x = pk_id r) f (observerPack s)\<rparr>)"
proof (rule seating_packs [OF assms(1)])
  have s: "seats_inv s" using assms(1) by (simp add: seating_inv_def)
  then show "seats_inv (s\<lparr>observerPack := updateMany (\<lambda>x. pk_id x = pk_id r) f (observerPack s)\<rparr>)"
    by (rule seats_inv_pack) (use assms in auto)
  show "pk_status (f k) = PK_PAID" if "k \<in> set (observerPack s)" "pk_id k = pk_id r" "pk_status k = PK_PAID" for k
    using distinct_key_eq [of pk_id "observerPack s" k r] s assms(2,5) that by (auto simp: seats_inv_def)
qed (use assms(3) in auto)

lemma seating_released:
  assumes "seating_inv s" and "r \<in> set (observerPack s)" and "pk_status r = PK_PENDING_PAYMENT"
  shows "seating_inv (s\<lparr>observerPack := updateMany (\<lambda>x. pk_id x = pk_id r)
      (\<lambda>x. x\<lparr>pk_status := PK_CANCELLED, pk_holdExpiresAt := None\<rparr>) (observerPack s)\<rparr>)"
  by (rule seating_one [OF assms(1,2)]) (simp_all add: holds_seat_def assms(3))

lemma seating_paid:
  assumes "seating_inv s" and "r \<in> set (observerPack s)" and "m \<in> set (mission s)" and "mi_id m = pk_missionId r"
    and "pk_status r = PK_PENDING_PAYMENT \<or> length (filter (holds_seat (pk_missionId r)) (observerPack s)) < mi_observerCapacity m"
  shows "seating_inv (s\<lparr>observerPack := updateMany (\<lambda>x. pk_id x = pk_id r)
      (\<lambda>x. x\<lparr>pk_status := PK_PAID, pk_paidAt := Some now, pk_holdExpiresAt := None\<rparr>) (observerPack s)\<rparr>)"
  by (rule seating_one [OF assms(1,2)]) (use assms(3-5) in \<open>auto simp: holds_seat_def [of _ r] intro!: bexI [of _ m]\<close>)

lemma seating_mission_added:
  "seating_inv s \<Longrightarrow> \<not> list_ex (\<lambda>old. mi_id m = mi_id old) (mission s) \<Longrightarrow> seating_inv (s\<lparr>mission := mission s @ [m]\<rparr>)"
  by (simp add: seating_inv_def seats_inv_mission)

interpretation seated: pack_contract seating_inv
proof unfold_locales
  fix s assume "seating_inv s"
  then show "distinct (map pk_id (observerPack s))" by (simp add: seating_inv_def seats_inv_def)
qed (simp_all add: seating_mission_added seating_released seating_paid)

section \<open>Every operation keeps the seats\<close>

lemma seating_ops:
  "keeps seating_inv (recordAuditEvent e)" "keeps seating_inv (queueEmail m)" "keeps seating_inv (claimPrize p u now b k)"
  "keeps seating_inv (reverseLoyaltyForRefund codes p u bk)"
  by (intro keeps_intros keeps_outbox keeps_loyalty_frame claimPrize_frame; simp)+

lemma seating_expire: "keeps seating_inv (expireLapsedPacks missionId now)"
  unfolding expireLapsedPacks_def
proof (rule keeps_updateMany)
  fix s assume "seating_inv s"
  then show "seating_inv (s\<lparr>observerPack := updateMany (lapsed_pack missionId now)
      (\<lambda>k. k\<lparr>pk_status := PK_EXPIRED, pk_holdExpiresAt := None\<rparr>) (observerPack s)\<rparr>)"
    by (rule seating_shrink) (auto simp: lapsed_pack_def holds_seat_def)
qed

text \<open>A seat sold to somebody who holds none, while one is free.\<close>

definition room :: "mission_row \<Rightarrow> observerPack_row option \<Rightarrow> ident \<Rightarrow> db \<Rightarrow> bool" where
  "room m existing userId s \<longleftrightarrow> seating_inv s \<and> m \<in> set (mission s)
     \<and> length (filter (holds_seat (mi_id m)) (observerPack s)) < mi_observerCapacity m
     \<and> (case existing of None \<Rightarrow> True
        | Some k \<Rightarrow> k \<in> set (observerPack s) \<and> pk_missionId k = mi_id m \<and> pk_userId k = userId \<and> pk_status k \<noteq> PK_PAID)"

lemma seating_new_pack:
  assumes "seating_inv s" and "m \<in> set (mission s)" and "length (filter (holds_seat (mi_id m)) (observerPack s)) < mi_observerCapacity m"
    and "pk_missionId k = mi_id m" and "\<not> list_ex (pack_conflict k) (observerPack s)"
  shows "seating_inv (s\<lparr>observerPack := observerPack s @ [k]\<rparr>)"
proof -
  have new: "pk_id k \<notin> pk_id ` set (observerPack s)" "pack_key k \<notin> pack_key ` set (observerPack s)"
    using assms(5) by (auto simp: list_ex_iff pack_conflict_def)
  have "length (filter (holds_seat (mi_id m')) (observerPack s @ [k])) \<le> mi_observerCapacity m'" if "m' \<in> set (mission s)" for m'
  proof (cases "mi_id m' = mi_id m")
    case True
    then have "m' = m" using distinct_key_eq [of mi_id "mission s" m' m] assms(1,2) that by (auto simp: seating_inv_def seats_inv_def)
    then show ?thesis using assms(3) by simp
  qed (use assms(1,4) that in \<open>auto simp: seating_inv_def seats_inv_def holds_seat_def [of _ k]\<close>)
  then have "seats_inv (s\<lparr>observerPack := observerPack s @ [k]\<rparr>)"
    using assms(1,2,4) new by (auto simp: seating_inv_def seats_inv_def)
  moreover have "paid_seat (s\<lparr>observerPack := observerPack s @ [k]\<rparr>) i u" if "paid_seat s i u" for i u
    using that by (auto simp: paid_seat_def)
  ultimately show ?thesis using assms(1) new(2) by (simp add: seating_inv_def)
qed

lemma seating_write_pack:
  assumes "\<And>k. pk_id (f k) = pk_id k \<and> pack_key (f k) = pack_key k"
  shows "hoare (room m existing userId) (write_pack existing f newPack (mi_id m) userId isDemo) (\<lambda>_. seating_inv)"
proof (rule hoareI)
  fix s r s' assume s: "room m existing userId s" and run: "write_pack existing f newPack (mi_id m) userId isDemo s = Inr (r, s')"
  show "seating_inv s'"
  proof (cases existing)
    case None
    from run None have k: "pk_missionId r = mi_id m" "\<not> list_ex (pack_conflict r) (observerPack s)"
      and s': "s' = s\<lparr>observerPack := observerPack s @ [r]\<rparr>"
      using assms by (auto simp: write_pack_def tx_create_apply split: if_splits)
    show ?thesis unfolding s' by (rule seating_new_pack [where m = m]) (use s k in \<open>auto simp: room_def\<close>)
  next
    case (Some k)
    with s have k: "seating_inv s" "k \<in> set (observerPack s)" "pk_missionId k = mi_id m" "pk_status k \<noteq> PK_PAID" "m \<in> set (mission s)"
      "length (filter (holds_seat (mi_id m)) (observerPack s)) < mi_observerCapacity m" by (auto simp: room_def)
    from run Some have s': "s' = s\<lparr>observerPack := updateMany (\<lambda>x. pk_id x = pk_id k) f (observerPack s)\<rparr>"
      by (auto simp: write_pack_def tx_update_apply ret_apply split: if_splits)
    show ?thesis unfolding s' by (rule seating_one [OF k(1,2) assms]) (use k in auto)
  qed
qed

lemma room_frame [simp]:
  "room m existing userId (s\<lparr>payment := a\<rparr>) = room m existing userId s"
  by (simp add: room_def cong: option.case_cong)

lemma hoare_keeps: "hoare P m (\<lambda>_. I) \<Longrightarrow> (\<And>x. keeps I (f x)) \<Longrightarrow> hoare P (bindt m f) (\<lambda>_. I)"
  by (rule hoare_bindt) (auto simp: keeps_def)

lemma seating_sell: "hoare (room m existing userId) (sell_seat E newPayment newPack m userId existing held now) (\<lambda>_. seating_inv)"
proof -
  have "keeps (room m existing userId) (tx_create payment payment_update C p)" for C p
    by (rule keeps_create) simp
  then have pay: "hoare (room m existing userId) (tx_create payment payment_update C p) (\<lambda>_. room m existing userId)" for C p
    by (simp add: keeps_def)
  show ?thesis unfolding sell_seat_def Let_def
    by (rule hoare_bindt [OF pay], rule hoare_keeps [OF seating_write_pack]) (auto intro!: keeps_intros seating_ops)
qed

lemma seating_prize: "hoare (room m existing userId) (seatPaidByPrize newPack m userId existing prizeId held now) (\<lambda>_. seating_inv)"
  unfolding seatPaidByPrize_def
  by (rule hoare_keeps [OF seating_write_pack]) (auto intro!: keeps_intros seating_ops)

lemma findSpendablePrize_state: "findSpendablePrize h u now s = Inr (r, s') \<Longrightarrow> s' = s"
  by (auto simp: findSpendablePrize_def tx_find_apply ret_apply)

lemma seating_buy:
  assumes "seating_inv s" and "m \<in> set (mission s)" and "held = length (filter (holds_seat (mi_id m)) (observerPack s))"
    and "\<And>k. existing = Some k \<Longrightarrow> k \<in> set (observerPack s) \<and> pk_missionId k = mi_id m \<and> pk_userId k = userId \<and> pk_status k \<noteq> PK_PAID"
    and "buy_seat E newPayment newPack m userId codeHash existing held now s = Inr (r, s')"
  shows "seating_inv s'"
proof (cases "mi_observerCapacity m \<le> held")
  case False
  with assms(1-4) have s: "room m existing userId s" by (auto simp: room_def split: option.splits)
  from assms(5) False consider "s' = s" | "sell_seat E newPayment newPack m userId existing held now s = Inr (r, s')"
    | z where "seatPaidByPrize newPack m userId existing z held now s = Inr (r, s')"
    by (auto simp: buy_seat_def bindt_eq_Inr ret_apply dest!: findSpendablePrize_state split: option.splits if_splits)
  then show ?thesis using hoareD [OF seating_sell s] hoareD [OF seating_prize s] assms(1) by cases blast+
qed (use assms in \<open>simp add: buy_seat_def ret_apply\<close>)

lemma seating_offer:
  assumes "seating_inv s" and "m \<in> set (mission s)" and "offer_seat E newPayment newPack m userId codeHash now s = Inr (r, s')"
  shows "seating_inv s'"
proof -
  let ?existing = "find (\<lambda>k. pk_missionId k = mi_id m \<and> pk_userId k = userId) (observerPack s)"
  have "s' = s \<or> (\<forall>k. ?existing = Some k \<longrightarrow> pk_status k \<noteq> PK_PAID) \<and>
      buy_seat E newPayment newPack m userId codeHash ?existing (length (filter (holds_seat (mi_id m)) (observerPack s))) now s = Inr (r, s')"
    using assms(3) by (auto simp: offer_seat_def tx_find_apply bindt_steps ret_apply split: option.splits if_splits)
  then show ?thesis
    using seating_buy [OF assms(1,2) refl, of ?existing userId E newPayment newPack codeHash now r s'] assms(1) find_SomeD [of _ "observerPack s"] by blast
qed

lemma seating_purchase_tx: "keeps seating_inv (purchaseInTransaction E newPayment newPack missionId userId codeHash now)"
proof (rule keepsI)
  fix s r s' assume s: "seating_inv s" and run: "purchaseInTransaction E newPayment newPack missionId userId codeHash now s = Inr (r, s')"
  from run consider "s' = s" | m n s1 where "find (\<lambda>m. mi_id m = missionId) (mission s) = Some m"
      "expireLapsedPacks missionId now s = Inr (n, s1)" "offer_seat E newPayment newPack m userId codeHash now s1 = Inr (r, s')"
    by (auto simp: purchaseInTransaction_def tx_find_apply bindt_eq_Inr ret_apply split: option.splits if_splits)
  then show "seating_inv s'"
  proof cases
    case 2
    have "mission s1 = mission s" using 2(2) by (auto simp: expireLapsedPacks_def tx_updateMany_apply)
    then show ?thesis using seating_offer [OF keepsD [OF seating_expire s 2(2)] _ 2(3)] find_SomeD [OF 2(1)] by simp
  qed (use s in simp)
qed

lemma seating_purchase: "keepsj seating_inv (purchaseObserverPack E sha256 newPayment newPack missionId userId code now)"
proof -
  have "seating_inv (snd (transaction (purchaseInTransaction E newPayment newPack missionId userId h now) s))" if "seating_inv s" for h s
    using transaction_keeps [OF seating_purchase_tx that] .
  then show ?thesis
    by (auto simp: keepsj_def purchaseObserverPack_def split: option.splits prod.splits sum.splits) (metis snd_conv)+
qed

text \<open>Rows of \<open>MissionParticipant\<close>: who watches has paid.\<close>

lemma seating_participants:
  assumes "seating_inv s" and "distinct (map mp_id ps)" and "distinct (map seat_key ps)"
    and "\<And>p. p \<in> set ps \<Longrightarrow> mp_status p = MP_JOINED \<Longrightarrow> paid_seat s (mp_missionId p) (mp_userId p)"
  shows "seating_inv (s\<lparr>missionParticipant := ps\<rparr>)"
  using assms by (simp add: seating_inv_def seats_inv_def)

lemma seating_update_seats:
  assumes "seating_inv s" and "\<And>p. mp_id (f p) = mp_id p \<and> seat_key (f p) = seat_key p"
    and "\<And>p. p \<in> set (missionParticipant s) \<Longrightarrow> P p \<Longrightarrow> mp_status (f p) = MP_JOINED \<Longrightarrow> paid_seat s (mp_missionId p) (mp_userId p)"
  shows "seating_inv (s\<lparr>missionParticipant := updateMany P f (missionParticipant s)\<rparr>)"
proof (rule seating_participants [OF assms(1)])
  have "map mp_id (updateMany P f (missionParticipant s)) = map mp_id (missionParticipant s)"
    "map seat_key (updateMany P f (missionParticipant s)) = map seat_key (missionParticipant s)"
    using assms(2) by (simp_all add: map_updateMany_inv)
  then show "distinct (map mp_id (updateMany P f (missionParticipant s)))" "distinct (map seat_key (updateMany P f (missionParticipant s)))"
    using assms(1) by (simp_all add: seating_inv_def)
  show "paid_seat s (mp_missionId p) (mp_userId p)"
    if "p \<in> set (updateMany P f (missionParticipant s))" "mp_status p = MP_JOINED" for p
    using that assms unfolding seating_inv_def by (auto simp: updateMany_def split: if_splits)
qed

lemma seating_leave: "keeps seating_inv (leave P now)"
  unfolding leave_def
proof (rule keeps_updateMany)
  fix s assume "seating_inv s"
  then show "seating_inv (s\<lparr>missionParticipant := updateMany (\<lambda>p. P p \<and> mp_status p = MP_JOINED)
      (\<lambda>p. p\<lparr>mp_status := MP_LEFT, mp_leftAt := Some now\<rparr>) (missionParticipant s)\<rparr>)"
    by (rule seating_update_seats) auto
qed

lemma seating_attach:
  assumes "seating_inv s" and "paid_seat s (mi_id m) userId" and "attach newSeat m userId existing now s = Inr (p, s')"
    and "\<And>q. existing = Some q \<Longrightarrow> q \<in> set (missionParticipant s) \<and> seat_key q = (mi_id m, userId)"
  shows "seating_inv s' \<and> p \<in> set (missionParticipant s') \<and> seat_key p = (mi_id m, userId) \<and> mp_status p = MP_JOINED"
proof (cases existing)
  case None
  from assms(3) None have p: "p = \<lparr>mp_id = newSeat, mp_missionId = mi_id m, mp_userId = userId, mp_status = MP_JOINED, mp_joinedAt = now,
        mp_leftAt = None, mp_canSaveCaptures = False, mp_isDemo = mi_isDemo m\<rparr>"
    and s': "s' = s\<lparr>missionParticipant := missionParticipant s @ [p]\<rparr>" and new: "\<not> list_ex (participant_conflict p) (missionParticipant s)"
    by (auto simp: attach_def tx_create_apply split: if_splits)
  have "mp_id p \<notin> mp_id ` set (missionParticipant s)" "seat_key p \<notin> seat_key ` set (missionParticipant s)"
    using new by (auto simp: list_ex_iff participant_conflict_def)
  then have "seating_inv s'" unfolding s'
    by (intro seating_participants) (use assms(1,2) p in \<open>auto simp: seating_inv_def\<close>)
  then show ?thesis using s' p by simp
next
  case (Some q)
  let ?f = "\<lambda>x. x\<lparr>mp_status := MP_JOINED, mp_joinedAt := now, mp_leftAt := None\<rparr>"
  have q: "q \<in> set (missionParticipant s)" "mp_missionId q = mi_id m" "mp_userId q = userId" using assms(4) [OF Some] by simp_all
  from assms(3) Some have s': "s' = s\<lparr>missionParticipant := updateMany (\<lambda>x. mp_id x = mp_id q) ?f (missionParticipant s)\<rparr>" and p: "p = ?f q"
    by (auto simp: attach_def tx_update_apply ret_apply split: if_splits)
  have "paid_seat s (mp_missionId x) (mp_userId x)" if "x \<in> set (missionParticipant s)" "mp_id x = mp_id q" for x
    using distinct_key_eq [of mp_id "missionParticipant s" x q] assms(1,2) that q by (auto simp: seating_inv_def)
  then have "seating_inv s'" unfolding s'
    by (intro seating_update_seats [OF assms(1)]) auto
  moreover have "?f q \<in> set (updateMany (\<lambda>x. mp_id x = mp_id q) ?f (missionParticipant s))"
    using q(1) by (auto simp: updateMany_def)
  ultimately show ?thesis using s' p q by simp
qed

lemma hasPaid_apply:
  assumes "distinct (map pack_key (observerPack s))"
  shows "hasPaidObserverPack missionId userId s = Inr (paid_seat s missionId userId, s)"
proof -
  have "k = k'" if "k \<in> set (observerPack s)" "k' \<in> set (observerPack s)" "pack_key k = pack_key k'" for k k'
    using distinct_key_eq [OF assms that] .
  then have "(case find (\<lambda>k. pk_missionId k = missionId \<and> pk_userId k = userId) (observerPack s) of None \<Rightarrow> False | Some x \<Rightarrow> pk_status x = PK_PAID)
      = paid_seat s missionId userId"
    by (auto simp: paid_seat_def find_None_iff dest!: find_SomeD split: option.splits)
  then show ?thesis by (simp add: hasPaidObserverPack_def tx_find_apply ret_apply)
qed

lemma seating_seat_tx: "keeps seating_inv (seat_tx newSeat missionId userId now)"
proof (rule keepsI)
  fix s r s' assume s: "seating_inv s" and run: "seat_tx newSeat missionId userId now s = Inr (r, s')"
  have "distinct (map pack_key (observerPack s))" using s by (simp add: seating_inv_def)
  note paid = hasPaid_apply [OF this]
  from run consider "s' = s" | m p s1 existing e where "attach newSeat m userId existing now s = Inr (p, s1)" "mi_id m = missionId"
      "recordAuditEvent e s1 = Inr ((), s')" "paid_seat s missionId userId"
      "\<forall>q. existing = Some q \<longrightarrow> q \<in> set (missionParticipant s) \<and> seat_key q = (missionId, userId)"
    by (auto simp: seat_tx_def claim_seat_def tx_find_apply bindt_steps bindt_eq_Inr ret_apply paid
        split: option.splits if_splits dest!: find_SomeD)
  then show "seating_inv s'"
  proof cases
    case 2
    have "seating_inv s1" using seating_attach [OF s _ 2(1)] 2(2,4,5) by auto
    then show ?thesis by (rule keepsD [OF seating_ops(1) _ 2(3)])
  qed (use s in simp)
qed

lemma seating_take: "keepsj seating_inv (takeObserverSeat newSeat missionId userId now)"
  using transaction_keeps [OF seating_seat_tx, of _ newSeat missionId userId now]
  by (auto simp: keepsj_def takeObserverSeat_def split: prod.splits sum.splits) (metis snd_conv)+

section \<open>Closing\<close>

lemma seating_refund_seat: "keeps seating_inv (refund_seat codes missionId actorId closedAt isDemo endsAt x)"
proof -
  have mark: "keeps seating_inv (tx_updateMany observerPack observerPack_update P (mark_refund issued amount closedAt))" for P issued amount
  proof (rule keeps_updateMany)
    fix s assume "seating_inv s"
    then show "seating_inv (s\<lparr>observerPack := updateMany P (mark_refund issued amount closedAt) (observerPack s)\<rparr>)"
      by (rule seating_shrink) (auto simp: mark_refund_def)
  qed
  have pay: "keeps seating_inv (refund_whole codes p closedAt)" for p
    unfolding refund_whole_def by (intro keeps_intros seating_ops keeps_update) simp
  show ?thesis
    unfolding refund_seat_def file_refund_def Let_def case_prod_beta
    by (cases "pk_paidAt (fst x)"; cases endsAt) (auto intro!: keeps_intros mark pay seating_ops)
qed

lemma keeps_refund_seats: "(\<And>x. keeps I (f x)) \<Longrightarrow> keeps I (refund_seats f xs summary)"
  by (induction xs arbitrary: summary) (auto intro!: keeps_intros)

lemma seating_policy: "keeps seating_inv (set_policy missionId policy)"
  unfolding set_policy_def
proof (rule keeps_update)
  fix s assume "seating_inv s"
  then show "seating_inv (s\<lparr>mission := updateMany (\<lambda>m. mi_id m = missionId) (\<lambda>m. m\<lparr>mi_joinPolicy := policy\<rparr>) (mission s)\<rparr>)"
    by (rule seating_missions) (simp add: map_updateMany_inv)
qed

lemma seating_read: "keeps I (readContractMission missionId)"
  unfolding readContractMission_def by (intro keeps_intros)

lemma seating_observation: "seating_inv (others s) \<Longrightarrow> seating_inv (snd (setMissionObservation codes others missionId act observable now s))"
proof -
  assume s: "seating_inv (others s)"
  have opened: "keeps seating_inv (open_observation missionId (ac_id act) isDemo)" for isDemo
    unfolding open_observation_def by (intro keeps_intros seating_policy seating_ops seating_read)
  have closed: "keeps seating_inv (close_observation codes missionId (ac_id act) isDemo now)" for isDemo
    unfolding close_observation_def refundSeatsTakenByClose_def detachAllObservers_def case_prod_beta
    by (intro keeps_intros seating_policy seating_ops seating_read keeps_refund_seats seating_refund_seat seating_leave)
  show ?thesis
    by (simp add: setMissionObservation_def s transaction_keeps [OF opened s] transaction_keeps [OF closed s] split: option.split)
qed

lemma seating_broadcast: "seating_inv (others s) \<Longrightarrow> seating_inv (snd (setMissionBroadcast others missionId userId b s))"
proof -
  assume s: "seating_inv (others s)"
  have flag: "keeps seating_inv (tx_update mission mission_update (\<lambda>x. mi_id x = missionId) (\<lambda>x. x\<lparr>mi_broadcast := b\<rparr>))"
  proof (rule keeps_update)
    fix t assume "seating_inv t"
    then show "seating_inv (t\<lparr>mission := updateMany (\<lambda>x. mi_id x = missionId) (\<lambda>x. x\<lparr>mi_broadcast := b\<rparr>) (mission t)\<rparr>)"
      by (rule seating_missions) (simp add: map_updateMany_inv)
  qed
  have "keeps seating_inv (bindt (if c then bindt (tx_update mission mission_update (\<lambda>x. mi_id x = missionId) (\<lambda>x. x\<lparr>mi_broadcast := b\<rparr>))
      (\<lambda>_. recordAuditEvent e) else ret ()) (\<lambda>_. bindt (readContractMission missionId) (\<lambda>c. ret (Observer_ok c))))" for c e
    by (intro keeps_intros flag seating_ops seating_read)
  from transaction_keeps [OF this s] show ?thesis
    by (simp add: setMissionBroadcast_def s split: option.split)
qed

section \<open>A night of watching\<close>

text \<open>
  What the rest of the modelled program does to these tables: it leaves packs and seats alone,
  keeps the identity and the capacity of every mission and may schedule new ones. Two modules
  that are not modelled write seats and are no steps of these runs: the actions of the shared
  observations (shared-observations/actions.ts, which no route reaches, ADR-034) and the deletion
  of an account (auth/deletion.ts), which removes the person's seats.
\<close>

definition elsewhere :: "db \<Rightarrow> db \<Rightarrow> bool" where
  "elsewhere s s' \<longleftrightarrow> observerPack s' = observerPack s \<and> missionParticipant s' = missionParticipant s
     \<and> distinct (map mi_id (mission s'))
     \<and> take (length (mission s)) (map (\<lambda>m. (mi_id m, mi_observerCapacity m)) (mission s'))
       = map (\<lambda>m. (mi_id m, mi_observerCapacity m)) (mission s)"

inductive seat_run :: "db \<Rightarrow> db \<Rightarrow> bool" for s0 where
  start: "seat_run s0 s0"
| bought: "seat_run s0 s \<Longrightarrow> seat_run s0 (snd (purchaseObserverPack E sha256 newPayment newPack missionId userId code now s))"
| settled: "seat_run s0 s \<Longrightarrow> seat_run s0 (snd (settlePayment parts codes newMission provider outcome now s))"
| taken: "seat_run s0 s \<Longrightarrow> seat_run s0 (snd (takeObserverSeat newSeat missionId userId now s))"
| released: "seat_run s0 s \<Longrightarrow> seat_run s0 (snd (transaction (releaseObserverSeat missionId userId now) s))"
| observation: "seat_run s0 s \<Longrightarrow> seat_run s0 (others s) \<Longrightarrow>
    seat_run s0 (snd (setMissionObservation codes others missionId act observable now s))"
| broadcasting: "seat_run s0 s \<Longrightarrow> seat_run s0 (others s) \<Longrightarrow> seat_run s0 (snd (setMissionBroadcast others missionId userId b s))"
| detached: "seat_run s0 s \<Longrightarrow> seat_run s0 (snd (transaction (detachAllObservers missionId now) s))"
| other: "seat_run s0 s \<Longrightarrow> elsewhere s s' \<Longrightarrow> seat_run s0 s'"

lemma seating_elsewhere:
  assumes "seating_inv s" and "elsewhere s s'"
  shows "seating_inv s'"
proof -
  let ?c = "\<lambda>m. (mi_id m, mi_observerCapacity m)" and ?n = "length (mission s)"
  note e = assms(2) [unfolded elsewhere_def]
  have c: "map ?c (take ?n (mission s')) = map ?c (mission s)" using e by (simp add: take_map)
  have ids: "mi_id ` set (take ?n (mission s')) = mi_id ` set (mission s)"
    using arg_cong [OF c, of "\<lambda>xs. fst ` set xs"] by (simp add: image_image)
  have "length (filter (holds_seat (mi_id m)) (observerPack s)) \<le> mi_observerCapacity m" if m: "m \<in> set (mission s')" for m
  proof (cases "mi_id m \<in> mi_id ` set (mission s)")
    case True
    with ids obtain m' where m': "m' \<in> set (take ?n (mission s'))" "mi_id m' = mi_id m" by force
    then have "m' = m" using distinct_key_eq [of mi_id "mission s'" m' m] e m by (auto dest: in_set_takeD)
    moreover have "?c m' \<in> ?c ` set (mission s)" using imageI [OF m'(1), of ?c] unfolding list.set_map [symmetric] c .
    ultimately show ?thesis using assms(1) by (auto simp: seating_inv_def seats_inv_def)
  next
    case False
    with assms(1) have "k \<in> set (observerPack s) \<Longrightarrow> \<not> holds_seat (mi_id m) k" for k
      by (metis holds_seat_def seating_inv_def seats_inv_def)
    then show ?thesis by (simp add: filter_False)
  qed
  moreover have "mi_id ` set (mission s) \<subseteq> mi_id ` set (mission s')" unfolding ids [symmetric] by (auto dest: in_set_takeD)
  moreover have "paid_seat s' = paid_seat s" using e by (simp add: paid_seat_def fun_eq_iff)
  ultimately show ?thesis using assms(1) e by (simp add: seating_inv_def seats_inv_def subset_iff)
qed

lemma run_seating: "seat_run s0 s \<Longrightarrow> seating_inv s0 \<Longrightarrow> seating_inv s"
proof (induction rule: seat_run.induct)
  case (bought s E sha256 newPayment newPack missionId userId code now)
  then show ?case by (auto intro: keepsjD [OF seating_purchase])
next
  case (settled s parts codes newMission provider outcome now)
  then show ?case by (auto intro: keepsjD [OF seated.settlement_keeps_packs])
next
  case (taken s newSeat missionId userId now)
  then show ?case by (auto intro: keepsjD [OF seating_take])
next
  case (released s missionId userId now)
  have "keeps seating_inv (releaseObserverSeat missionId userId now)"
    unfolding releaseObserverSeat_def by (intro keeps_intros seating_leave seating_ops)
  with released show ?case by (auto intro: transaction_keeps)
next
  case (detached s missionId now)
  then show ?case unfolding detachAllObservers_def by (auto intro: transaction_keeps seating_leave)
qed (auto intro: seating_observation seating_broadcast seating_elsewhere)

lemma filter_length_mono: "(\<And>x. P x \<Longrightarrow> Q x) \<Longrightarrow> length (filter P xs) \<le> length (filter Q xs)"
  by (induction xs) auto

lemma watching_paid:
  "seating_inv s \<Longrightarrow> p \<in> set (missionParticipant s) \<Longrightarrow> watching i p \<Longrightarrow> paid_seat s i (mp_userId p)"
  by (auto simp: seating_inv_def)

text \<open>A seat that is paid for but not taken leaves room for its owner.\<close>

lemma paid_seat_free:
  assumes "seating_inv s" and "m \<in> set (mission s)" and "paid_seat s (mi_id m) userId"
    and "\<And>p. p \<in> set (missionParticipant s) \<Longrightarrow> watching (mi_id m) p \<Longrightarrow> mp_userId p \<noteq> userId"
  shows "length (filter (watching (mi_id m)) (missionParticipant s)) < mi_observerCapacity m"
proof -
  let ?w = "filter (watching (mi_id m)) (missionParticipant s)"
  let ?k = "filter (\<lambda>k. pk_missionId k = mi_id m \<and> pk_status k = PK_PAID) (observerPack s)"
  have "inj_on mp_userId (set ?w)"
    using distinct_key_eq [of seat_key "missionParticipant s"] assms(1) by (auto simp: inj_on_def seating_inv_def)
  moreover have "distinct ?w" using assms(1) by (auto simp: seating_inv_def distinct_map)
  ultimately have w: "length ?w = card (mp_userId ` set ?w)" by (simp only: card_image distinct_card)
  have "insert userId (mp_userId ` set ?w) \<subseteq> pk_userId ` set ?k"
  proof
    fix u assume "u \<in> insert userId (mp_userId ` set ?w)"
    then have "paid_seat s (mi_id m) u" using assms(3) by (auto intro: watching_paid [OF assms(1)])
    then show "u \<in> pk_userId ` set ?k" by (auto simp: paid_seat_def)
  qed
  then have "card (insert userId (mp_userId ` set ?w)) \<le> card (pk_userId ` set ?k)" by (intro card_mono) simp_all
  moreover have "userId \<notin> mp_userId ` set ?w" using assms(4) by auto
  ultimately have "length ?w < card (pk_userId ` set ?k)" using w by simp
  also have "\<dots> \<le> card (set ?k)" by (rule card_image_le) simp
  also have "\<dots> \<le> length ?k" by (rule card_length)
  also have "\<dots> \<le> length (filter (holds_seat (mi_id m)) (observerPack s))"
    by (rule filter_length_mono) (auto simp: holds_seat_def)
  also have "\<dots> \<le> mi_observerCapacity m" using assms(1,2) by (simp add: seating_inv_def seats_inv_def)
  finally show ?thesis .
qed

text \<open>
  C14: Seats are never oversold, and nobody watches without paying. Whatever is bought, settled,
  taken, released, opened and closed, in any order, the packs that hold a seat of a mission
  never outnumber its capacity, nobody has two packs or two seats on one mission, and whoever
  watches has a paid pack.
\<close>

theorem seats_are_never_oversold:
  assumes "seat_run s0 s" and "seating_inv s0" and "m \<in> set (mission s)"
  shows "length (filter (holds_seat (mi_id m)) (observerPack s)) \<le> mi_observerCapacity m
    \<and> distinct (map (\<lambda>k. (pk_missionId k, pk_userId k)) (observerPack s))
    \<and> distinct (map (\<lambda>p. (mp_missionId p, mp_userId p)) (missionParticipant s))
    \<and> (\<forall>p \<in> set (missionParticipant s). watching (mi_id m) p \<longrightarrow>
         (\<exists>k \<in> set (observerPack s). pk_missionId k = mi_id m \<and> pk_userId k = mp_userId p \<and> pk_status k = PK_PAID))"
proof -
  have s: "seating_inv s" using run_seating assms(1,2) .
  note paid = watching_paid [OF s, unfolded paid_seat_def]
  from s assms(3) show ?thesis by (simp add: seating_inv_def seats_inv_def paid)
qed

lemma live_seat_tx:
  assumes "seating_inv s" and "m \<in> set (mission s)" and "is_live m" and "mi_joinPolicy m = JOIN_OPEN" and "mi_userId m \<noteq> userId"
    and "paid_seat s (mi_id m) userId"
  shows "seat_tx newSeat (mi_id m) userId now s = claim_seat newSeat m userId now s"
proof -
  have "find (\<lambda>x. mi_id x = mi_id m) (mission s) = Some m"
    using assms(1,2) by (intro distinct_find) (auto simp: seating_inv_def seats_inv_def)
  moreover have "hasPaidObserverPack (mi_id m) userId s = Inr (True, s)"
    using assms(1,6) by (simp add: hasPaid_apply seating_inv_def)
  ultimately show ?thesis
    using assms(3-5) by (simp add: seat_tx_def tx_find_apply bindt_Inr)
qed

text \<open>
  C15: Whoever paid for a seat can take it. While the session is live and open, the holder of a
  paid pack is never told that the seats are taken: taking the seat, for the first time or
  again, succeeds and leaves them watching.
\<close>

theorem paid_seat_can_always_be_taken:
  assumes "seat_run s0 s" and "seating_inv s0" and "m \<in> set (mission s)" and "is_live m" and "mi_joinPolicy m = JOIN_OPEN"
    and "mi_userId m \<noteq> userId" and "paid_seat s (mi_id m) userId" and "newSeat \<notin> mp_id ` set (missionParticipant s)"
  shows "\<exists>p s'. takeObserverSeat newSeat (mi_id m) userId now s = (Inr (Observer_ok (toContractObserver p)), s')
    \<and> p \<in> set (missionParticipant s') \<and> watching (mi_id m) p \<and> mp_userId p = userId"
proof -
  have s: "seating_inv s" using run_seating assms(1,2) .
  let ?e = "find (seat_of (mi_id m) userId) (missionParticipant s)"
  let ?n = "length (filter (watching (mi_id m)) (missionParticipant s))"
  have "\<exists>p s'. claim_seat newSeat m userId now s = Inr (Observer_ok (toContractObserver p), s')
    \<and> p \<in> set (missionParticipant s') \<and> watching (mi_id m) p \<and> mp_userId p = userId"
  proof (cases "\<exists>p \<in> set (missionParticipant s). watching (mi_id m) p \<and> mp_userId p = userId")
    case True
    then obtain p where p: "p \<in> set (missionParticipant s)" "watching (mi_id m) p" "mp_userId p = userId" by blast
    then have "?e = Some p"
      using distinct_find [of seat_key "missionParticipant s" p] s by (simp add: seating_inv_def)
    then show ?thesis using p by (auto simp: claim_seat_def tx_find_apply bindt_steps ret_apply)
  next
    case False
    then have room: "?n < mi_observerCapacity m" using paid_seat_free [OF s assms(3,7)] by auto
    have e: "q \<in> set (missionParticipant s) \<and> seat_key q = (mi_id m, userId)" if "?e = Some q" for q
      using find_SomeD [OF that] by auto
    have "\<exists>p s1. attach newSeat m userId ?e now s = Inr (p, s1)"
    proof (cases ?e)
      case None
      then have "\<not> list_ex (participant_conflict r) (missionParticipant s)" if "mp_id r = newSeat" "seat_key r = (mi_id m, userId)" for r
        using assms(8) that by (auto simp: list_ex_iff participant_conflict_def find_None_iff)
      then show ?thesis by (simp add: None attach_def tx_create_apply)
    next
      case (Some q)
      then show ?thesis using e [OF Some] by (auto simp: attach_def tx_update_apply ret_apply list_ex_iff)
    qed
    then obtain p s1 where a: "attach newSeat m userId ?e now s = Inr (p, s1)" by blast
    note seat = seating_attach [OF s assms(7) a e]
    have taken: "(case ?e of None \<Rightarrow> False | Some p \<Rightarrow> mp_status p = MP_JOINED) = False"
    proof (cases ?e)
      case (Some q)
      then show ?thesis using e [OF Some] False by auto
    qed simp
    have "claim_seat newSeat m userId now s
        = Inr (Observer_ok (toContractObserver p), s1\<lparr>auditLog := auditLog s1 @ [seat_taken_audit m p ?n]\<rparr>)"
      using taken room
      by (simp add: claim_seat_def tx_find_apply bindt_steps bindt_Inr [of "attach newSeat m userId ?e now" s p s1, OF a]
          recordAuditEvent_ok seat_taken_audit_def ret_apply)
    then show ?thesis using seat by auto
  qed
  then show ?thesis
    using live_seat_tx [OF s assms(3-7), of newSeat now] by (auto simp: takeObserverSeat_def transaction_def)
qed

section \<open>What a close gives back\<close>

text \<open>The rule of ADR-036, for one pack: what the close gives its buyer, zero for nothing.\<close>

definition seat_payment :: "db \<Rightarrow> observerPack_row \<Rightarrow> payment_row option" where
  "seat_payment s k = find (\<lambda>p. Some (pay_id p) = pk_paymentId k \<and> pay_status p = PAY_CAPTURED) (payment s)"

definition close_share :: "db \<Rightarrow> ident \<Rightarrow> time \<Rightarrow> observerPack_row \<Rightarrow> int" where
  "close_share s missionId closedAt k =
     (if pk_missionId k = missionId \<and> pk_status k = PK_PAID \<and> pk_refundedMinor k = None \<and> pk_refundOwedMinor k = None
         \<and> pk_userId k \<notin> left_already s missionId \<and> seat_payment s k \<noteq> None
      then (case (pk_paidAt k, sessionEnd s missionId) of
              (Some paidAt, Some expiresAt) \<Rightarrow> closeRefundMinor (pk_priceMinor k) paidAt closedAt expiresAt
            | _ \<Rightarrow> 0)
      else 0)"

definition after_close :: "db \<Rightarrow> ident \<Rightarrow> time \<Rightarrow> observerPack_row \<Rightarrow> observerPack_row" where
  "after_close s missionId closedAt k =
     (if 0 < close_share s missionId closedAt k
      then mark_refund (\<exists>p. seat_payment s k = Some p \<and> pay_provider p = SANDBOX) (close_share s missionId closedAt k) closedAt k
      else k)"

text \<open>One turn of the refund loop, seen from the table of packs.\<close>

definition seat_amount :: "time \<Rightarrow> time option \<Rightarrow> observerPack_row \<Rightarrow> int" where
  "seat_amount closedAt endsAt k =
     (case (pk_paidAt k, endsAt) of (Some paidAt, Some e) \<Rightarrow> closeRefundMinor (pk_priceMinor k) paidAt closedAt e | _ \<Rightarrow> 0)"

definition mark_one :: "time \<Rightarrow> time option \<Rightarrow> observerPack_row \<times> payment_row \<Rightarrow> observerPack_row list \<Rightarrow> observerPack_row list" where
  "mark_one closedAt endsAt x t =
     (if 0 < seat_amount closedAt endsAt (fst x)
      then updateMany (\<lambda>k. pk_id k = pk_id (fst x) \<and> pk_refundedMinor k = None \<and> pk_refundOwedMinor k = None)
        (mark_refund (pay_provider (snd x) = SANDBOX) (seat_amount closedAt endsAt (fst x)) closedAt) t
      else t)"

lemma pack_frame:
  "keeps (\<lambda>s. observerPack s = t) (recordAuditEvent e)" "keeps (\<lambda>s. observerPack s = t) (queueEmail m)"
  "keeps (\<lambda>s. observerPack s = t) (refund_whole codes p closedAt)" "keeps (\<lambda>s. observerPack s = t) (leave P now)"
  "keeps (\<lambda>s. observerPack s = t) (set_policy i policy)"
  unfolding refund_whole_def leave_def set_policy_def
  by (intro keeps_intros keeps_outbox keeps_loyalty_frame keeps_table; simp)+

lemma mission_frame: "keeps (\<lambda>s. mission s = t) (refund_seat codes missionId actorId closedAt isDemo endsAt x)"
proof -
  have "keeps (\<lambda>s. mission s = t) (file_refund codes missionId actorId closedAt isDemo k p detail amount count)" for k p detail amount count
    unfolding file_refund_def refund_whole_def by (intro keeps_intros keeps_outbox keeps_loyalty_frame keeps_update; simp)
  then show ?thesis unfolding refund_seat_def Let_def case_prod_beta
    by (cases "pk_paidAt (fst x)"; cases endsAt) (auto intro!: keeps_intros keeps_updateMany)
qed

lemma refund_seat_packs:
  assumes "refund_seat codes missionId actorId closedAt isDemo endsAt x s = Inr (r, s')"
  shows "observerPack s' = mark_one closedAt endsAt x (observerPack s)"
proof -
  obtain k p where x: "x = (k, p)" by (cases x)
  let ?a = "seat_amount closedAt endsAt k"
  show ?thesis
  proof (cases "0 < ?a")
    case False
    then have "s' = s" using assms x
      by (auto simp: refund_seat_def seat_amount_def ret_apply Let_def split: option.splits)
    then show ?thesis using False x by (simp add: mark_one_def)
  next
    case True
    let ?P = "\<lambda>y. pk_id y = pk_id k \<and> pk_refundedMinor y = None \<and> pk_refundOwedMinor y = None"
    let ?t = "updateMany ?P (mark_refund (pay_provider p = SANDBOX) ?a closedAt) (observerPack s)"
    obtain paidAt e where pe: "pk_paidAt k = Some paidAt" "endsAt = Some e"
      using True by (auto simp: seat_amount_def split: option.splits)
    from pe have a: "?a = closeRefundMinor (pk_priceMinor k) paidAt closedAt e" by (simp add: seat_amount_def)
    have kept: "keeps (\<lambda>s. observerPack s = ?t) (file_refund codes missionId actorId closedAt isDemo k p detail amount count)" for detail amount count
      unfolding file_refund_def by (intro keeps_intros pack_frame)
    have "file_refund codes missionId actorId closedAt isDemo k p (close_detail k p paidAt closedAt e) ?a
        (length (filter ?P (observerPack s))) (s\<lparr>observerPack := ?t\<rparr>) = Inr (r, s')"
      using assms True unfolding a by (simp add: refund_seat_def x pe tx_updateMany_apply Let_def)
    then have "observerPack s' = ?t" by (rule keepsD [OF kept, rotated]) simp
    then show ?thesis using True x by (simp add: mark_one_def)
  qed
qed

lemma refund_seats_packs:
  "refund_seats (refund_seat codes missionId actorId closedAt isDemo endsAt) xs summary s = Inr (r, s') \<Longrightarrow>
   observerPack s' = fold (mark_one closedAt endsAt) xs (observerPack s)"
proof (induction xs arbitrary: summary s)
  case (Cons x xs)
  then obtain y s1 where "refund_seat codes missionId actorId closedAt isDemo endsAt x s = Inr (y, s1)"
    "refund_seats (refund_seat codes missionId actorId closedAt isDemo endsAt) xs (count_refund y summary) s1 = Inr (r, s')"
    by (auto simp: bindt_eq_Inr)
  then show ?case using Cons.IH refund_seat_packs by fastforce
qed (simp add: ret_apply)

text \<open>Each row is visited once, so the loop is a map over the table.\<close>

lemma fold_visits_each:
  assumes "distinct (map pk_id (us @ ys))"
    and "\<And>y x t1 t2. y \<in> set ys \<Longrightarrow> g y = Some x \<Longrightarrow> distinct (map pk_id (t1 @ y # t2)) \<Longrightarrow> f x (t1 @ y # t2) = t1 @ h y # t2"
    and "\<And>y. pk_id (h y) = pk_id y" and "\<And>y. g y = None \<Longrightarrow> h y = y"
  shows "fold f (List.map_filter g ys) (us @ ys) = us @ map h ys"
  using assms(1,2)
proof (induction ys arbitrary: us)
  case (Cons y ys)
  have step: "fold f (List.map_filter g ys) ((us @ [h y]) @ ys) = (us @ [h y]) @ map h ys"
    using Cons.prems assms(3) by (intro Cons.IH) auto
  show ?case
  proof (cases "g y")
    case None
    then show ?thesis using step assms(4) by (simp add: List.map_filter_simps)
  next
    case (Some x)
    then show ?thesis using step Cons.prems(2) [of y x us ys] Cons.prems(1) by (simp add: List.map_filter_simps)
  qed
qed (simp add: List.map_filter_simps)

lemma update_at:
  assumes "distinct (map pk_id (t1 @ y # t2))" and "P y"
  shows "updateMany (\<lambda>k. pk_id k = pk_id y \<and> P k) f (t1 @ y # t2) = t1 @ f y # t2"
proof -
  have "updateMany (\<lambda>k. pk_id k = pk_id y \<and> P k) f t = t" if "pk_id y \<notin> pk_id ` set t" for t
    using that by (intro updateMany_id) (auto simp: rev_image_eqI)
  with assms show ?thesis by (auto simp: updateMany_def)
qed

lemma close_share_eligible:
  assumes "pk_missionId k = missionId" "pk_status k = PK_PAID" "pk_refundedMinor k = None" "pk_refundOwedMinor k = None"
    "pk_userId k \<notin> left_already s missionId" "seat_payment s k = Some p"
  shows "close_share s missionId closedAt k = seat_amount closedAt (sessionEnd s missionId) k"
    and "after_close s missionId closedAt k = (if 0 < seat_amount closedAt (sessionEnd s missionId) k
      then mark_refund (pay_provider p = SANDBOX) (seat_amount closedAt (sessionEnd s missionId) k) closedAt k else k)"
  using assms by (auto simp: after_close_def close_share_def seat_amount_def)

lemma close_marks_each:
  assumes "distinct (map pk_id (observerPack s))"
  shows "fold (mark_one closedAt (sessionEnd s missionId)) (refundable s missionId) (observerPack s)
    = map (after_close s missionId closedAt) (observerPack s)"
proof -
  let ?g = "\<lambda>k. if pk_missionId k = missionId \<and> pk_status k = PK_PAID \<and> pk_refundedMinor k = None \<and> pk_refundOwedMinor k = None
        \<and> pk_userId k \<notin> left_already s missionId
     then (case seat_payment s k of None \<Rightarrow> None | Some p \<Rightarrow> Some (k, p)) else None"
  have "fold (mark_one closedAt (sessionEnd s missionId)) (List.map_filter ?g (observerPack s)) ([] @ observerPack s)
      = [] @ map (after_close s missionId closedAt) (observerPack s)"
  proof (rule fold_visits_each)
    fix y x t1 t2 assume g: "?g y = Some x" and d: "distinct (map pk_id (t1 @ y # t2))"
    then obtain p where "x = (y, p)" and e: "pk_missionId y = missionId" "pk_status y = PK_PAID" "pk_refundedMinor y = None" "pk_refundOwedMinor y = None"
      "pk_userId y \<notin> left_already s missionId" "seat_payment s y = Some p" by (auto split: if_splits option.splits)
    then show "mark_one closedAt (sessionEnd s missionId) x (t1 @ y # t2) = t1 @ after_close s missionId closedAt y # t2"
      using update_at [OF d, of "\<lambda>k. pk_refundedMinor k = None \<and> pk_refundOwedMinor k = None"]
      by (simp add: mark_one_def close_share_eligible(2) [OF e])
  next
    fix y assume "?g y = None"
    then have "close_share s missionId closedAt y = 0" by (auto simp: close_share_def split: if_splits option.splits)
    then show "after_close s missionId closedAt y = y" by (simp add: after_close_def)
  qed (use assms in \<open>simp_all add: after_close_def mark_refund_def\<close>)
  then show ?thesis unfolding refundable_def seat_payment_def [symmetric] by simp
qed

text \<open>
  C16: A close sends everybody away and gives each buyer, once, the share of the price the close
  takes. Afterwards nobody watches the session and its policy is closed; exactly the paid seats
  never refunded before, of buyers who had not left on their own, whose payment was captured,
  are marked with their share, as refunded for the sandbox and as owed otherwise, never more
  than their price; every other pack is as it was.
\<close>

theorem close_gives_each_seat_its_share:
  assumes "setMissionObservation codes others missionId act False now s = (Inr (Observer_ok c), s')"
    and "distinct (map pk_id (observerPack (others s)))"
  shows "observerPack s' = map (after_close (others s) missionId now) (observerPack (others s))
    \<and> (\<forall>p \<in> set (missionParticipant s'). \<not> watching missionId p)
    \<and> (\<forall>m \<in> set (mission s'). mi_id m = missionId \<longrightarrow> mi_joinPolicy m = JOIN_DISABLED)
    \<and> (\<forall>k \<in> set (observerPack (others s)). close_share (others s) missionId now k \<le> max 0 (pk_priceMinor k))
    \<and> (\<forall>k \<in> set (observerPack s'). \<forall>t. pk_refundedMinor k \<noteq> None \<or> pk_refundOwedMinor k \<noteq> None \<longrightarrow> close_share s' missionId t k = 0)"
proof -
  let ?s = "others s"
  from assms(1) obtain isDemo where run: "close_observation codes missionId (ac_id act) isDemo now ?s = Inr (Observer_ok c, s')"
    by (auto simp: setMissionObservation_def transaction_def split: option.splits if_splits sum.splits)
  then obtain s1 refunds s2 detached s3 e where
    pol: "set_policy missionId JOIN_DISABLED ?s = Inr ((), s1)"
    and ref: "refund_seats (refund_seat codes missionId (ac_id act) now isDemo (sessionEnd s1 missionId)) (refundable s1 missionId) no_refunds s1 = Inr (refunds, s2)"
    and gone: "leave (\<lambda>p. mp_missionId p = missionId) now s2 = Inr (detached, s3)" and aud: "recordAuditEvent e s3 = Inr ((), s')"
    by (auto simp: close_observation_def refundSeatsTakenByClose_def detachAllObservers_def readContractMission_def bindt_eq_Inr
        tx_findOrThrow_apply reads_apply ret_apply split: option.splits)
  have s1: "s1 = ?s\<lparr>mission := updateMany (\<lambda>m. mi_id m = missionId) (\<lambda>m. m\<lparr>mi_joinPolicy := JOIN_DISABLED\<rparr>) (mission ?s)\<rparr>"
    using pol by (auto simp: set_policy_def tx_update_apply split: if_splits)
  then have same: "sessionEnd s1 missionId = sessionEnd ?s missionId" "refundable s1 missionId = refundable ?s missionId"
    by (simp_all add: sessionEnd_def refundable_def left_already_def cong: option.case_cong if_cong)
  have s3: "s3 = s2\<lparr>missionParticipant := updateMany (\<lambda>p. mp_missionId p = missionId \<and> mp_status p = MP_JOINED)
      (\<lambda>p. p\<lparr>mp_status := MP_LEFT, mp_leftAt := Some now\<rparr>) (missionParticipant s2)\<rparr>"
    using gone by (auto simp: leave_def tx_updateMany_apply)
  have s': "observerPack s' = observerPack s3" "mission s' = mission s3" "missionParticipant s' = missionParticipant s3"
    using aud by (auto simp: recordAuditEvent_def bindt_eq_Inr assertDetailCarriesNoSecret_def modifies_apply ret_apply throw_apply split: if_splits)
  have "mission s2 = mission s1"
    using keepsD [OF keeps_refund_seats [OF mission_frame] _ ref, of "mission s1"] by simp
  then have ms: "mission s' = updateMany (\<lambda>m. mi_id m = missionId) (\<lambda>m. m\<lparr>mi_joinPolicy := JOIN_DISABLED\<rparr>) (mission ?s)"
    using s' s3 s1 by simp
  have ps: "missionParticipant s' = updateMany (\<lambda>p. mp_missionId p = missionId \<and> mp_status p = MP_JOINED)
      (\<lambda>p. p\<lparr>mp_status := MP_LEFT, mp_leftAt := Some now\<rparr>) (missionParticipant s2)" using s' s3 by simp
  have "\<forall>m \<in> set (mission s'). mi_id m = missionId \<longrightarrow> mi_joinPolicy m = JOIN_DISABLED"
    unfolding ms by (simp add: ball_updateMany)
  moreover have "\<forall>p \<in> set (missionParticipant s'). \<not> watching missionId p" unfolding ps by (simp add: ball_updateMany)
  moreover have "observerPack s' = map (after_close ?s missionId now) (observerPack ?s)"
    using refund_seats_packs [OF ref] close_marks_each [OF assms(2)] s' s3 s1 same by simp
  moreover have "close_share t missionId u k \<le> max 0 (pk_priceMinor k)" for t u k
    using close_refund_bounds(2) by (auto simp: close_share_def split: option.split)
  ultimately show ?thesis by (simp add: close_share_def)
qed

section \<open>A session watched by one\<close>

definition open_mission :: mission_row where
  "open_mission = night_mission\<lparr>mi_joinPolicy := JOIN_OPEN, mi_observerCapacity := 1\<rparr>"

definition bought_pack :: observerPack_row where
  "bought_pack = \<lparr>pk_id = ''k1'', pk_missionId = ''m1'', pk_userId = ''u2'', pk_paymentId = Some ''y1'', pk_status = PK_PAID,
     pk_holdExpiresAt = None, pk_paidAt = Some 0, pk_priceMinor = 1500, pk_currency = GEL, pk_isDemo = False,
     pk_refundedMinor = None, pk_refundedAt = None, pk_refundOwedMinor = None\<rparr>"

definition pack_paid :: payment_row where
  "pack_paid = \<lparr>pay_id = ''y1'', pay_userId = ''u2'', pay_purpose = FOR_OBSERVER_PACK, pay_provider = SANDBOX,
     pay_status = PAY_CAPTURED, pay_amountMinor = 1500, pay_currency = GEL, pay_providerRef = None, pay_redirectUrl = None,
     pay_failureReason = None, pay_capturedAt = Some 0, pay_refundedAt = None, pay_subscriptionId = None,
     pay_periodStart = None, pay_isDemo = False\<rparr>"

definition open_db :: db where
  "open_db = night_db\<lparr>mission := [open_mission], observerPack := [bought_pack], payment := [pack_paid], missionParticipant := []\<rparr>"

lemma open_tables [simp]:
  "mission open_db = [open_mission]" "observerPack open_db = [bought_pack]" "payment open_db = [pack_paid]"
  "missionParticipant open_db = []" "missionSession open_db = [night_session]" "emailNotification open_db = []"
  by (simp_all add: open_db_def night_db_def empty_db_def)

lemmas open_rows = open_mission_def bought_pack_def pack_paid_def night_mission_def night_session_def session_row_def

lemma open_inv: "seating_inv open_db"
  by (simp add: seating_inv_def seats_inv_def paid_seat_def) (simp add: open_rows holds_seat_def)

lemma open_facts: "mi_id open_mission = ''m1''" "is_live open_mission" "mi_joinPolicy open_mission = JOIN_OPEN" "mi_userId open_mission = ''u1''"
  "mi_observerCapacity open_mission = 1" "paid_seat open_db ''m1'' ''u2''"
  by (simp_all add: paid_seat_def) (simp_all add: open_rows LIVE_MISSION_STATES_def)

theorem paid_seat_can_always_be_taken_witness:
  "\<exists>p s'. takeObserverSeat ''w1'' ''m1'' ''u2'' 5 open_db = (Inr (Observer_ok (toContractObserver p)), s')
    \<and> p \<in> set (missionParticipant s') \<and> watching ''m1'' p \<and> mp_userId p = ''u2''"
  using paid_seat_can_always_be_taken [OF seat_run.start open_inv, of open_mission "''u2''" "''w1''" 5] by (simp add: open_facts)

theorem seats_are_never_oversold_witness:
  "length (filter (holds_seat ''m1'') (observerPack (snd (transaction (detachAllObservers ''m1'' 9) open_db)))) \<le> 1"
proof -
  have "mission (snd (transaction (detachAllObservers ''m1'' 9) open_db)) = [open_mission]"
    by (simp add: transaction_def detachAllObservers_def leave_def tx_updateMany_apply)
  then show ?thesis
    using seats_are_never_oversold [OF seat_run.detached [OF seat_run.start] open_inv, of open_mission "''m1''" 9] by (simp add: open_facts)
qed

definition closed_db :: db where
  "closed_db = open_db\<lparr>mission := [open_mission\<lparr>mi_joinPolicy := JOIN_DISABLED\<rparr>]\<rparr>"

lemma closed_reads:
  "refundable closed_db ''m1'' = [(bought_pack, pack_paid)]" "sessionEnd closed_db ''m1'' = Some 1800000"
  by (simp_all add: closed_db_def refundable_def sessionEnd_def left_already_def List.map_filter_simps)
    (simp_all add: open_rows newest_def)

lemma recorded: "offending_keys (au_metadata e) = [] \<Longrightarrow> \<exists>s'. recordAuditEvent e s = Inr ((), s') \<and> mission s' = mission s"
  by (simp add: recordAuditEvent_ok)

lemma closed_refund:
  "\<exists>r s'. refund_seat codes ''m1'' actorId 1200000 isDemo (Some 1800000) (bought_pack, pack_paid) closed_db = Inr (r, s')
     \<and> mission s' = mission closed_db"
proof -
  have row: "pk_paidAt bought_pack = Some 0" "pk_priceMinor bought_pack = 1500" "pay_provider pack_paid = SANDBOX"
    "pk_id bought_pack = ''k1''" "pk_refundedMinor bought_pack = None" "pk_refundOwedMinor bought_pack = None"
    by (simp_all add: open_rows)
  have amount: "closeRefundMinor 1500 0 1200000 1800000 = 500" by (simp add: closeRefundMinor_def Let_def)
  show ?thesis
    by (simp add: refund_seat_def row amount tx_updateMany_apply file_refund_def recordAuditEvent_ok queueEmail_ok close_audit_def close_detail_def
        email_def closed_db_def ret_apply bindt_ret)
qed

lemma open_close:
  "\<exists>c s'. setMissionObservation codes id ''m1'' night_owner False 1200000 open_db = (Inr (Observer_ok c), s')"
proof -
  let ?demo = "mi_isDemo open_mission"
  obtain r s1 where r: "refund_seat codes ''m1'' (ac_id night_owner) 1200000 ?demo (Some 1800000) (bought_pack, pack_paid) closed_db = Inr (r, s1)"
    and m1: "mission s1 = mission closed_db" using closed_refund by blast
  have policy: "set_policy ''m1'' JOIN_DISABLED open_db = Inr ((), closed_db)"
    by (simp add: set_policy_def tx_update_apply closed_db_def open_facts)
  have refunds: "refundSeatsTakenByClose codes ''m1'' (ac_id night_owner) 1200000 ?demo closed_db = Inr (count_refund r no_refunds, s1)"
    by (simp add: refundSeatsTakenByClose_def bindt_steps closed_reads bindt_def [of "refund_seat a b c d e f g" for a b c d e f g] r ret_apply)
  obtain n s2 where gone: "detachAllObservers ''m1'' 1200000 s1 = Inr (n, s2)" and m2: "mission s2 = mission closed_db"
    by (simp add: detachAllObservers_def leave_def tx_updateMany_apply m1)
  obtain s3 where aud: "recordAuditEvent (observation_audit ''m1'' (ac_id night_owner) ?demo False n (Some (count_refund r no_refunds))) s2 = Inr ((), s3)"
    and m3: "mission s3 = mission closed_db"
    using recorded [of "observation_audit ''m1'' (ac_id night_owner) ?demo False n (Some (count_refund r no_refunds))" s2] m2
    by (auto simp: observation_audit_def summary_json_def)
  obtain c where "readContractMission ''m1'' s3 = Inr (c, s3)"
    by (simp add: readContractMission_def tx_findOrThrow_apply m3 closed_db_def open_facts reads_apply)
  then have "close_observation codes ''m1'' (ac_id night_owner) ?demo 1200000 open_db = Inr (Observer_ok c, s3)"
    unfolding close_observation_def by (simp add: bindt_def policy refunds gone aud ret_apply)
  then show ?thesis
    by (simp add: setMissionObservation_def open_facts transaction_def night_owner_def)
qed

theorem close_gives_each_seat_its_share_witness:
  "\<exists>c s'. setMissionObservation (\<lambda>u. u) id ''m1'' night_owner False 1200000 open_db = (Inr (Observer_ok c), s')
     \<and> observerPack s' = [bought_pack\<lparr>pk_refundedMinor := Some 500, pk_refundedAt := Some 1200000\<rparr>]"
proof -
  obtain c s' where e: "setMissionObservation (\<lambda>u. u) id ''m1'' night_owner False 1200000 open_db = (Inr (Observer_ok c), s')"
    using open_close by blast
  have "close_share open_db ''m1'' 1200000 bought_pack = 500" "seat_payment open_db bought_pack = Some pack_paid"
    by (simp_all add: close_share_def seat_payment_def left_already_def sessionEnd_def)
      (simp_all add: open_rows newest_def closeRefundMinor_def Let_def)
  then have "after_close open_db ''m1'' 1200000 bought_pack = bought_pack\<lparr>pk_refundedMinor := Some 500, pk_refundedAt := Some 1200000\<rparr>"
    by (simp add: after_close_def mark_refund_def pack_paid_def)
  then show ?thesis using close_gives_each_seat_its_share [OF e] e by simp
qed

end
