(* ===== verification/Entitlements.thy ===== *)
theory Entitlements
  imports Reserve Refunds Mission_Link
begin

text \<open>
  A slot that was lost, and what its customer does about it: the sweeps of
  src/apps/realtime/src/refunds/entitlements.ts, which judge ended slots and refund the
  entitlements nobody used, the customer's choice between refund and reschedule
  (src/apps/api/src/features/booking/entitlement.ts), and the cancellation of an unpaid booking
  (src/apps/api/src/features/booking/manage.ts).

  The model's audit table has no \<open>createdAt\<close> column, so the rows about an observatory's weather
  holds and link, ordered by (createdAt, id), are an argument: \<open>history\<close>. \<open>others\<close> is what other
  sessions commit between a read and the transaction that follows it. The column
  \<open>evaluatedAt\<close>, which nothing reads, is left out.
\<close>

section \<open>Time lost (entitlements.ts)\<close>

definition RESCHEDULE_WINDOW_DAYS :: int where "RESCHEDULE_WINDOW_DAYS = 30"
definition EVALUATION_GRACE_MINUTES :: int where "EVALUATION_GRACE_MINUTES = 5"

record lossInterval =
  iv_from :: time
  iv_to :: time
  iv_cause :: lossCause

record slotLoss =
  lo_minutesLost :: int
  lo_cause :: "lossCause option"

definition nothing_lost :: slotLoss where
  "nothing_lost = \<lparr>lo_minutesLost = 0, lo_cause = None\<rparr>"

definition clip :: "time \<Rightarrow> time \<Rightarrow> lossInterval \<Rightarrow> lossInterval" where
  "clip start finish i = i\<lparr>iv_from := max (iv_from i) start, iv_to := min (iv_to i) finish\<rparr>"

text \<open>The loop over neighbouring edges, with the weather and the fault counted so far.\<close>

fun count_edges :: "lossInterval list \<Rightarrow> time list \<Rightarrow> int \<Rightarrow> int \<Rightarrow> int \<times> int" where
  "count_edges clipped (a # b # edges) weather fault =
     (let covering = filter (\<lambda>i. iv_from i \<le> a \<and> b \<le> iv_to i) clipped
      in if covering = [] then count_edges clipped (b # edges) weather fault
         else if list_ex (\<lambda>i. iv_cause i = LOSS_WEATHER) covering
         then count_edges clipped (b # edges) (weather + (b - a)) fault
         else count_edges clipped (b # edges) weather (fault + (b - a)))"
| "count_edges clipped edges weather fault = (weather, fault)"

text \<open>\<open>Math.round(total / 60_000)\<close> of a non-negative whole number of milliseconds.\<close>

definition round_minutes :: "int \<Rightarrow> int" where
  "round_minutes ms = (ms + 30000) div 60000"

definition lostWithin :: "lossInterval list \<Rightarrow> time \<Rightarrow> time \<Rightarrow> slotLoss" where
  "lostWithin intervals start finish =
     (let clipped = filter (\<lambda>i. iv_from i < iv_to i) (map (clip start finish) intervals);
          edges = sort (remdups (concat (map (\<lambda>i. [iv_from i, iv_to i]) clipped)));
          (weather, fault) = count_edges clipped edges 0 0
      in if weather + fault = 0 then nothing_lost
         else \<lparr>lo_minutesLost = round_minutes (weather + fault),
               lo_cause = Some (if fault \<le> weather then LOSS_WEATHER else LOSS_OBSERVATORY_FAULT)\<rparr>)"

section \<open>When an observatory was unavailable (entitlements.ts)\<close>

record auditMark =
  am_action :: string
  am_createdAt :: time

definition HOLD_ACTIONS :: "string list" where
  "HOLD_ACTIONS = [''WEATHER_HOLD_SET'', ''WEATHER_HOLD_CLEARED'']"

definition LINK_ACTIONS :: "string list" where
  "LINK_ACTIONS = [''AGENT_LINK_LOST'', ''AGENT_LINK_UP'']"

definition lastBefore :: "auditMark list \<Rightarrow> time \<Rightarrow> string list \<Rightarrow> auditMark option" where
  "lastBefore history start actions =
     find (\<lambda>r. am_action r \<in> set actions \<and> am_createdAt r < start) (rev history)"

record outage =
  ou_holdSince :: "time option"
  ou_downSince :: "time option"
  ou_intervals :: "lossInterval list"

definition interval :: "time \<Rightarrow> time \<Rightarrow> lossCause \<Rightarrow> lossInterval" where
  "interval a b c = \<lparr>iv_from = a, iv_to = b, iv_cause = c\<rparr>"

text \<open>An interval that closes: nothing when it was never open.\<close>

definition closing :: "time option \<Rightarrow> time \<Rightarrow> lossCause \<Rightarrow> lossInterval list" where
  "closing since t c = (case since of None \<Rightarrow> [] | Some a \<Rightarrow> [interval a t c])"

definition open_since :: "time option \<Rightarrow> time \<Rightarrow> time option" where
  "open_since since t = (case since of None \<Rightarrow> Some t | Some a \<Rightarrow> Some a)"

definition read_mark :: "auditMark \<Rightarrow> outage \<Rightarrow> outage" where
  "read_mark r u =
     (if am_action r = ''WEATHER_HOLD_SET'' then u\<lparr>ou_holdSince := open_since (ou_holdSince u) (am_createdAt r)\<rparr>
      else if am_action r = ''WEATHER_HOLD_CLEARED''
      then u\<lparr>ou_holdSince := None, ou_intervals := ou_intervals u @ closing (ou_holdSince u) (am_createdAt r) LOSS_WEATHER\<rparr>
      else if am_action r = ''AGENT_LINK_LOST'' then u\<lparr>ou_downSince := open_since (ou_downSince u) (am_createdAt r)\<rparr>
      else if am_action r = ''AGENT_LINK_UP''
      then u\<lparr>ou_downSince := None,
             ou_intervals := ou_intervals u @ closing (ou_downSince u) (am_createdAt r) LOSS_OBSERVATORY_FAULT\<rparr>
      else u)"

definition marks_read :: "auditMark list \<Rightarrow> time \<Rightarrow> time \<Rightarrow> auditMark list" where
  "marks_read history start finish =
     sort_key am_createdAt (List.map_filter id [lastBefore history start HOLD_ACTIONS, lastBefore history start LINK_ACTIONS])
     @ filter (\<lambda>r. am_action r \<in> set (HOLD_ACTIONS @ LINK_ACTIONS) \<and> start \<le> am_createdAt r \<and> am_createdAt r < finish) history"

definition unavailability :: "auditMark list \<Rightarrow> time \<Rightarrow> time \<Rightarrow> lossInterval list" where
  "unavailability history start finish =
     (let u = fold read_mark (marks_read history start finish) \<lparr>ou_holdSince = None, ou_downSince = None, ou_intervals = []\<rparr>
      in ou_intervals u @ closing (ou_holdSince u) finish LOSS_WEATHER @ closing (ou_downSince u) finish LOSS_OBSERVATORY_FAULT)"

section \<open>Judging an ended slot (entitlements.ts)\<close>

definition CUSTOMER_ENDINGS :: "missionFailureReason list" where
  "CUSTOMER_ENDINGS = [CUSTOMER_CANCELLED, MF_PAYMENT_FAILED]"

definition ENDED_EARLY :: "missionState list" where
  "ENDED_EARLY = [MS_FAILED, MS_CANCELLED, MS_WEATHER_HOLD, MS_HARDWARE_ERROR, MS_NOT_VISIBLE]"

definition last_event :: "db \<Rightarrow> ident \<Rightarrow> time option" where
  "last_event s missionId =
     (case map ev_occurredAt (filter (\<lambda>e. ev_missionId e = missionId) (missionEvent s)) of
        [] \<Rightarrow> None | t # ts \<Rightarrow> Some (foldl max t ts))"

type_synonym candidate = "booking_row \<times> (mission_row \<times> time option) option"

text \<open>The mission ending on our side: from its last event to the end of the slot.\<close>

definition our_ending :: "(mission_row \<times> time option) option \<Rightarrow> time \<Rightarrow> lossInterval list" where
  "our_ending m finish =
     (case m of
        Some (mis, Some t) \<Rightarrow>
          if mi_state mis \<in> set ENDED_EARLY \<and> mi_failureReason mis \<noteq> Some SESSION_EXPIRED
          then [interval t finish (if mi_state mis = MS_WEATHER_HOLD \<or> mi_failureReason mis = Some WEATHER_UNSAFE
             then LOSS_WEATHER else LOSS_OBSERVATORY_FAULT)]
          else []
      | _ \<Rightarrow> [])"

definition customer_ended :: "(mission_row \<times> time option) option \<Rightarrow> bool" where
  "customer_ended m =
     (case m of None \<Rightarrow> False
      | Some (mis, _) \<Rightarrow> (case mi_failureReason mis of None \<Rightarrow> False | Some r \<Rightarrow> r \<in> set CUSTOMER_ENDINGS))"

definition judge_loss :: "auditMark list \<Rightarrow> candidate \<Rightarrow> slotLoss" where
  "judge_loss history = (\<lambda>(b, m).
     if customer_ended m then nothing_lost
     else lostWithin (unavailability history (bk_slotStartAt b) (slot_end b) @ our_ending m (slot_end b))
            (bk_slotStartAt b) (slot_end b))"

definition is_entitled :: "slotLoss \<Rightarrow> booking_row \<Rightarrow> bool" where
  "is_entitled loss b \<longleftrightarrow> lo_cause loss \<noteq> None \<and> bk_durationMinutes b \<le> lo_minutesLost loss * 2"

definition entitlement_of :: "ident \<Rightarrow> booking_row \<Rightarrow> slotLoss \<Rightarrow> time \<Rightarrow> entitlement_row" where
  "entitlement_of newId b loss now =
     (let entitled = is_entitled loss b
      in \<lparr>en_id = newId, en_bookingId = bk_id b, en_userId = bk_userId b,
          en_outcome = (if entitled then EN_OPEN else EN_NONE), en_resolvedAt = None, en_rescheduledBookingId = None,
          en_cause = (if entitled then lo_cause loss else None), en_minutesLost = lo_minutesLost loss,
          en_expiresAt = (if entitled then Some (now + RESCHEDULE_WINDOW_DAYS * day_ms) else None)\<rparr>)"

definition loss_text :: "lossCause option \<Rightarrow> json" where
  "loss_text c = (case c of None \<Rightarrow> JNull | Some LOSS_WEATHER \<Rightarrow> JStr ''WEATHER'' | Some LOSS_OBSERVATORY_FAULT \<Rightarrow> JStr ''OBSERVATORY_FAULT'')"

definition granted_audit :: "booking_row \<Rightarrow> slotLoss \<Rightarrow> auditLog_row" where
  "granted_audit b loss =
     (audit_entry BOOKING ''BOOKING_ENTITLEMENT_GRANTED''
        [(''cause'', loss_text (lo_cause loss)), (''minutesLost'', JNum (lo_minutesLost loss)),
         (''durationMinutes'', JNum (bk_durationMinutes b))])
     \<lparr>au_entityType := Some ''Booking'', au_entityId := Some (bk_id b)\<rparr>"

text \<open>The unique columns of an entitlement: its id and its booking.\<close>

definition judge_slot :: "(booking_row \<Rightarrow> ident) \<Rightarrow> (ident \<Rightarrow> auditMark list) \<Rightarrow> time \<Rightarrow> candidate \<Rightarrow> (db, bool) tx" where
  "judge_slot newId history now c =
     (let b = fst c; loss = judge_loss (history (bk_observatoryId b)) c
      in bindt (tx_createSkip bookingEntitlement bookingEntitlement_update
             (\<lambda>new old. en_id new = en_id old \<or> en_bookingId new = en_bookingId old)
             (entitlement_of (newId b) b loss now)) (\<lambda>count.
         if count = 0 \<or> \<not> is_entitled loss b then ret False
         else bindt (recordAuditEvent (granted_audit b loss)) (\<lambda>_.
              bindt (queueEmail (email (bk_userId b) MAIL_ENTITLEMENT_AVAILABLE (''entitlement-available:'' @ bk_id b)
                 [(''bookingId'', bk_id b)])) (\<lambda>_. ret True))))"

definition judgeable :: "db \<Rightarrow> time \<Rightarrow> candidate list" where
  "judgeable s now =
     (let before = now - EVALUATION_GRACE_MINUTES * minute_ms
      in List.map_filter (\<lambda>b.
           if bk_status b = BK_CONFIRMED \<and> \<not> list_ex (\<lambda>e. en_bookingId e = bk_id b) (bookingEntitlement s)
              \<and> bk_slotStartAt b \<le> before \<and> slot_end b \<le> before
           then Some (b, map_option (\<lambda>m. (m, last_event s (mi_id m))) (find (\<lambda>m. Some (mi_id m) = bk_missionId b) (mission s)))
           else None) (booking s))"

definition evaluateEndedSlots ::
  "(candidate \<Rightarrow> db \<Rightarrow> db) \<Rightarrow> (booking_row \<Rightarrow> ident) \<Rightarrow> (ident \<Rightarrow> auditMark list) \<Rightarrow> time \<Rightarrow> db \<Rightarrow> (exn + nat) \<times> db" where
  "evaluateEndedSlots others newId history now s =
     (case sweep others (judge_slot newId history now) (judgeable s now) [] s of
        (Inl e, s') \<Rightarrow> (Inl e, s') | (Inr granted, s') \<Rightarrow> (Inr (length granted), s'))"

section \<open>The thirty days (entitlements.ts)\<close>

fun refund_each ::
  "(ident \<Rightarrow> string) \<Rightarrow> (ident \<Rightarrow> db \<Rightarrow> db) \<Rightarrow> time \<Rightarrow> ident list \<Rightarrow> nat \<times> nat \<Rightarrow> db \<Rightarrow> (exn + nat \<times> nat) \<times> db" where
  "refund_each codes others now [] counts s = (Inr counts, s)"
| "refund_each codes others now (b # bs) counts s =
     (case transaction (refundEntitledBooking codes b None True now) (others b s) of
        (Inl e, s') \<Rightarrow> (Inl e, s')
      | (Inr (Refunded p v z m), s') \<Rightarrow> refund_each codes others now bs (fst counts + 1, snd counts) s'
      | (Inr (Refund_refused PROVIDER_REFUND_UNAVAILABLE), s') \<Rightarrow> refund_each codes others now bs (fst counts, snd counts + 1) s'
      | (Inr (Refund_refused _), s') \<Rightarrow> refund_each codes others now bs counts s')"

definition refundExpiredEntitlements ::
  "(ident \<Rightarrow> string) \<Rightarrow> (ident \<Rightarrow> db \<Rightarrow> db) \<Rightarrow> time \<Rightarrow> db \<Rightarrow> (exn + nat \<times> nat) \<times> db" where
  "refundExpiredEntitlements codes others now s =
     refund_each codes others now
       (map en_bookingId (filter (\<lambda>e. en_outcome e = EN_OPEN \<and> (case en_expiresAt e of None \<Rightarrow> False | Some t \<Rightarrow> t \<le> now))
          (bookingEntitlement s))) (0, 0) s"

section \<open>The customer's choice (entitlement.ts)\<close>

datatype bookingResult = Booking_ok contractBooking | Booking_refused reserveSlotFailure

definition no_such_booking :: reserveSlotFailure where
  "no_such_booking = Reserve.failure 404 ERR_NOT_FOUND ''No such booking.''"

definition noEntitlement :: reserveSlotFailure where
  "noEntitlement = Reserve.failure 409 ERR_CONFLICT ''This booking has no open refund or reschedule.''"

definition entitlement_for :: "db \<Rightarrow> ident \<Rightarrow> entitlement_row option" where
  "entitlement_for s bookingId = find (\<lambda>e. en_bookingId e = bookingId) (bookingEntitlement s)"

definition readBooking :: "ident \<Rightarrow> (db, contractBooking) job" where
  "readBooking bookingId = (\<lambda>s. case find (\<lambda>b. bk_id b = bookingId) (booking s) of
     None \<Rightarrow> (Inl NotFoundError, s) | Some b \<Rightarrow> (Inr (toContractBooking b None (entitlement_for s bookingId)), s))"

definition refundMyBooking ::
  "(ident \<Rightarrow> string) \<Rightarrow> (db \<Rightarrow> db) \<Rightarrow> ident \<Rightarrow> ident \<Rightarrow> time \<Rightarrow> (db, bookingResult) job" where
  "refundMyBooking codes others userId bookingId now = (\<lambda>s.
     if \<not> list_ex (\<lambda>b. bk_id b = bookingId \<and> bk_userId b = userId) (booking s)
     then (Inr (Booking_refused no_such_booking), others s)
     else bindj (transaction (refundEntitledBooking codes bookingId (Some userId) False now)) (\<lambda>result.
       case result of
         Refund_refused PROVIDER_REFUND_UNAVAILABLE \<Rightarrow> retj (Booking_refused (Reserve.failure 503 ERR_INTERNAL
           ''Refunds are not yet available for this payment method. Your refund or reschedule stays open.''))
       | Refund_refused _ \<Rightarrow> retj (Booking_refused noEntitlement)
       | Refunded p v z m \<Rightarrow> bindj (readBooking bookingId) (\<lambda>b. retj (Booking_ok b))) (others s))"

record rescheduleRequest =
  rr_targetId :: "ident option"
  rr_slotStartAt :: "time option"

text \<open>The \<open>switch\<close> on why the slot is unavailable, with this route's own words.\<close>

definition reschedule_slot_refusal :: "slotUnavailableReason option \<Rightarrow> reserveSlotFailure option" where
  "reschedule_slot_refusal reason =
     (case reason of
        Some IN_THE_PAST \<Rightarrow> Some (Reserve.failure 409 ERR_SLOT_UNAVAILABLE ''That slot has already started.'')
      | Some WEATHER_HOLD \<Rightarrow> Some (Reserve.failure 409 ERR_WEATHER_HOLD ''The telescope is on weather hold for that night.'')
      | Some OBSERVATORY_OFFLINE \<Rightarrow> Some (Reserve.failure 409 ERR_OBSERVATORY_OFFLINE ''The telescope is offline.'')
      | _ \<Rightarrow> None)"

definition usable :: "entitlement_row \<Rightarrow> time \<Rightarrow> bool" where
  "usable e now \<longleftrightarrow> en_outcome e = EN_OPEN \<and> (case en_expiresAt e of None \<Rightarrow> False | Some t \<Rightarrow> now < t)"

text \<open>
  What the request is for. The generator is asked without a length, and so for slots of the
  default \<open>SLOT_DURATION_MINUTES\<close>.
\<close>

type_synonym reschedulePlan = "booking_row \<times> entitlement_row \<times> bookableObservatory \<times> target_row \<times> time \<times> slot"

definition admit_reschedule :: "world \<Rightarrow> db \<Rightarrow> ident \<Rightarrow> ident \<Rightarrow> rescheduleRequest \<Rightarrow> time \<Rightarrow> reschedulePlan check" where
  "admit_reschedule W s userId bookingId rq now =
     andthen (require (find (\<lambda>b. bk_id b = bookingId \<and> bk_userId b = userId) (booking s)) no_such_booking) (\<lambda>original.
     andthen (require (entitlement_for s (bk_id original)) noEntitlement) (\<lambda>en.
     andthen (refuse_when (\<not> usable en now) noEntitlement) (\<lambda>_.
     andthen (require (findBookableObservatory s (bk_observatoryId original))
        (Reserve.failure 409 ERR_CONFLICT ''This telescope cannot be booked right now. Your refund stays available.'')) (\<lambda>ob.
     let targetId = (case rr_targetId rq of None \<Rightarrow> bk_targetId original | Some i \<Rightarrow> i) in
     andthen (require (case find (\<lambda>tg. tg_id tg = targetId) (target s) of None \<Rightarrow> None
          | Some tg \<Rightarrow> if tg_enabled tg then Some tg else None)
        (Reserve.failure 404 ERR_NOT_FOUND ''No such target.'')) (\<lambda>tg.
     andthen (case rr_slotStartAt rq of None \<Rightarrow> pass None
        | Some t \<Rightarrow> andthen (call (findGeneratedSlot (w_zone W) (w_dark W) t ob now SLOT_DURATION_MINUTES)) (\<lambda>found.
            pass (map_option (Pair t) found))) (\<lambda>found.
     andthen (require found (Reserve.failure 422 ERR_VALIDATION_FAILED
        ''That instant is not a slot this telescope offers. Slots come from GET /slots.'')) (\<lambda>(slotStartAt, sl).
     andthen (refuse_when (sl_durationMinutes sl \<noteq> bk_durationMinutes original) (Reserve.failure 422 ERR_VALIDATION_FAILED
        (''A reschedule is for the same length: '' @ decimal (bk_durationMinutes original) @ '' minutes.''))) (\<lambda>_.
     andthen (case targetTooLongForSlot tg (sl_durationMinutes sl) of None \<Rightarrow> pass ()
        | Some tooLong \<Rightarrow> refuse (Reserve.failure 422 ERR_VALIDATION_FAILED tooLong)) (\<lambda>_.
     andthen (case reschedule_slot_refusal (sl_unavailableReason sl) of None \<Rightarrow> pass () | Some f \<Rightarrow> refuse f) (\<lambda>_.
     andthen (targetNotObservableInSlot (w_astronomy W) s ob tg slotStartAt (sl_durationMinutes sl)) (\<lambda>_.
     pass (original, en, ob, tg, slotStartAt, sl))))))))))))"

text \<open>Free, and confirmed at once.\<close>

definition free_booking :: "ident \<Rightarrow> ident \<Rightarrow> bookableObservatory \<Rightarrow> ident \<Rightarrow> time \<Rightarrow> slot \<Rightarrow> booking_row \<Rightarrow> time \<Rightarrow> booking_row" where
  "free_booking bookingId userId ob targetId slotStartAt sl original createdAt =
     (booking_for bookingId userId ob targetId slotStartAt sl None createdAt)
       \<lparr>bk_currency := bk_currency original, bk_isDemo := bk_isDemo original\<rparr>"

definition claim_entitlement :: "ident \<Rightarrow> ident \<Rightarrow> time \<Rightarrow> (db, nat) tx" where
  "claim_entitlement entitlementId bookingId now =
     tx_updateMany bookingEntitlement bookingEntitlement_update
       (\<lambda>e. en_id e = entitlementId \<and> usable e now)
       (\<lambda>e. e\<lparr>en_outcome := EN_RESCHEDULED, en_resolvedAt := Some now, en_rescheduledBookingId := Some bookingId\<rparr>)"

definition rescheduled_audit :: "ident \<Rightarrow> booking_row \<Rightarrow> mission_row \<Rightarrow> booking_row \<Rightarrow> auditLog_row" where
  "rescheduled_audit userId original m b =
     (audit_entry BOOKING ''BOOKING_RESCHEDULED''
        [(''rescheduledBookingId'', JStr (bk_id b)), (''slotStartAt'', JStr (toISOString (bk_slotStartAt b))),
         (''durationMinutes'', JNum (bk_durationMinutes b)), (''targetId'', JStr (bk_targetId b))])
     \<lparr>au_actorUserId := Some userId, au_missionId := Some (mi_id m), au_entityType := Some ''Booking'',
      au_entityId := Some (bk_id original), au_isDemo := bk_isDemo original\<rparr>"

definition schedule_free :: "ident \<Rightarrow> ident \<Rightarrow> booking_row \<Rightarrow> booking_row \<Rightarrow> bookableObservatory \<Rightarrow> observatoryMode \<Rightarrow> time \<Rightarrow> (db, ident) tx" where
  "schedule_free missionId userId original b ob mode now =
     bindt (tx_create mission mission_update (\<lambda>new old. mi_id new = mi_id old)
        ((mission_for missionId b ob mode now)\<lparr>mi_isDemo := bk_isDemo original\<rparr>)) (\<lambda>m.
     bindt (modifies (\<lambda>s. s\<lparr>missionEvent := missionEvent s
        @ [scheduled_event m ''Rescheduled free of charge after a lost slot.'' now]\<rparr>)) (\<lambda>_.
     bindt (tx_update booking booking_update (\<lambda>x. bk_id x = bk_id b) (\<lambda>x. x\<lparr>bk_missionId := Some (mi_id m)\<rparr>)) (\<lambda>_.
     bindt (recordAuditEvent (rescheduled_audit userId original m b)) (\<lambda>_.
     bindt (queueEmail (email userId MAIL_BOOKING_CONFIRMED (''booking-confirmed:'' @ bk_id b) [(''bookingId'', bk_id b)])) (\<lambda>_.
     ret (bk_id b))))))"

definition reschedule_tx :: "world \<Rightarrow> ident \<Rightarrow> reschedulePlan \<Rightarrow> time \<Rightarrow> nat \<Rightarrow> (db, ident) tx" where
  "reschedule_tx W userId = (\<lambda>(original, en, ob, tg, slotStartAt, sl) now n.
     bindt (expireLapsedHolds (w_codes W) (bo_id ob) now) (\<lambda>_.
     bindt (tx_findOrThrow observatory (\<lambda>o'. ob_id o' = bo_id ob)) (\<lambda>o'.
     bindt (createBooking (free_booking (w_bookingId W n) userId ob (tg_id tg) slotStartAt sl original (w_createdAt W n))) (\<lambda>b.
     bindt (claim_entitlement (en_id en) (bk_id b) now) (\<lambda>count.
     if count = 0 then throw EntitlementGone
     else schedule_free (w_missionId W n) userId original b ob (ob_mode o') now)))))"

definition rescheduleMyBooking :: "world \<Rightarrow> ident \<Rightarrow> ident \<Rightarrow> rescheduleRequest \<Rightarrow> time \<Rightarrow> (db, bookingResult) job" where
  "rescheduleMyBooking W userId bookingId rq now = (\<lambda>s.
     case admit_reschedule W s userId bookingId rq now of
       Inl e \<Rightarrow> (Inl e, s)
     | Inr (Inl refusal) \<Rightarrow> (Inr (Booking_refused refusal), s)
     | Inr (Inr plan) \<Rightarrow>
        catchj (bindj (retryOnDeadlock (attempt_of W (reschedule_tx W userId plan now))) (\<lambda>newBooking.
                bindj (readBooking newBooking) (\<lambda>b. retj (Booking_ok b))))
          (\<lambda>e. if e = EntitlementGone then retj (Booking_refused noEntitlement)
               else if isSlotConflict e
               then retj (Booking_refused (Reserve.failure 409 ERR_SLOT_UNAVAILABLE ''That slot has just been taken.''))
               else throwj e) s)"

section \<open>Cancelling an unpaid booking (manage.ts)\<close>

definition cancel_reason :: "string option \<Rightarrow> string" where
  "cancel_reason reason =
     (if truthy reason then ''Cancelled by customer: '' @ take 500 (the reason) else ''Cancelled by customer'')"

fun booking_status_text :: "bookingStatus \<Rightarrow> string" where
  "booking_status_text BK_PENDING_PAYMENT = ''PENDING_PAYMENT''"
| "booking_status_text BK_CONFIRMED = ''CONFIRMED''"
| "booking_status_text BK_CANCELLED = ''CANCELLED''"
| "booking_status_text BK_EXPIRED = ''EXPIRED''"
| "booking_status_text BK_REFUNDED = ''REFUNDED''"

definition cancel_tx :: "(ident \<Rightarrow> string) \<Rightarrow> booking_row \<Rightarrow> string \<Rightarrow> time \<Rightarrow> (db, bookingResult) tx" where
  "cancel_tx codes owned reason now =
     bindt (tx_findOrThrow booking (\<lambda>b. bk_id b = bk_id owned)) (\<lambda>b.
     if bk_paymentId b \<noteq> bk_paymentId owned then ret (Booking_refused (Reserve.failure 409 ERR_CONFLICT ''The booking changed. Retry.''))
     else if bk_status b = BK_CONFIRMED
     then ret (Booking_refused (Reserve.failure 409 ERR_CONFLICT ''A paid booking cannot be cancelled until refunds are available.''))
     else if bk_status b \<noteq> BK_PENDING_PAYMENT
     then ret (Booking_refused (Reserve.failure 409 ERR_CONFLICT (''The booking is already '' @ booking_status_text (bk_status b) @ ''.'')))
     else
       bindt (releaseHeldSlot codes b reason now) (\<lambda>_.
       bindt (tx_findOrThrow booking (\<lambda>x. bk_id x = bk_id owned)) (\<lambda>c.
       ret (Booking_ok (toContractBooking c None None)))))"

definition cancelMyBooking ::
  "(ident \<Rightarrow> string) \<Rightarrow> (db \<Rightarrow> db) \<Rightarrow> ident \<Rightarrow> ident \<Rightarrow> string option \<Rightarrow> time \<Rightarrow> (db, bookingResult) job" where
  "cancelMyBooking codes others userId bookingId reason now = (\<lambda>s.
     case find (\<lambda>b. bk_id b = bookingId \<and> bk_userId b = userId) (booking s) of
       None \<Rightarrow> (Inr (Booking_refused no_such_booking), others s)
     | Some owned \<Rightarrow> transaction (cancel_tx codes owned (cancel_reason reason) now) (others s))"

end
