(* ===== verification/Entitlements_Correct.thy ===== *)
theory Entitlements_Correct
  imports Entitlements Reserve_Correct
begin

text \<open>
  A lost slot is judged by the time that was really lost, an entitlement is spent once, and the
  slot it is spent on is sold to nobody else.
\<close>

section \<open>Measuring sets of instants\<close>

text \<open>How many of the milliseconds from \<open>a\<close> up to \<open>b\<close> have a property.\<close>

definition elapsed :: "(time \<Rightarrow> bool) \<Rightarrow> time \<Rightarrow> time \<Rightarrow> int" where
  "elapsed P a b = (\<Sum>t \<in> {a..<b}. of_bool (P t))"

lemma elapsed_split: "a \<le> b \<Longrightarrow> b \<le> c \<Longrightarrow> elapsed P a c = elapsed P a b + elapsed P b c"
proof -
  assume "a \<le> b" "b \<le> c"
  then have "{a..<c} = {a..<b} \<union> {b..<c}" by auto
  then show ?thesis unfolding elapsed_def by (simp only: sum.union_disjoint ivl_disj_int_two(3) finite_atLeastLessThan_int)
qed

lemma elapsed_all: "(\<And>t. a \<le> t \<Longrightarrow> t < b \<Longrightarrow> P t) \<Longrightarrow> a \<le> b \<Longrightarrow> elapsed P a b = b - a"
  unfolding elapsed_def by simp

lemma elapsed_none: "(\<And>t. a \<le> t \<Longrightarrow> t < b \<Longrightarrow> \<not> P t) \<Longrightarrow> elapsed P a b = 0"
  unfolding elapsed_def by (rule sum.neutral) simp

lemma elapsed_cong: "(\<And>t. a \<le> t \<Longrightarrow> t < b \<Longrightarrow> P t = Q t) \<Longrightarrow> elapsed P a b = elapsed Q a b"
  unfolding elapsed_def by (rule sum.cong) simp_all

lemma elapsed_plus: "elapsed P a b = elapsed (\<lambda>t. P t \<and> \<not> Q t) a b + elapsed (\<lambda>t. P t \<and> Q t) a b"
  unfolding elapsed_def sum.distrib [symmetric] by (rule sum.cong) simp_all

section \<open>The sweep over edges\<close>

definition covered :: "lossInterval list \<Rightarrow> time \<Rightarrow> bool" where
  "covered is t \<longleftrightarrow> (\<exists>i \<in> set is. iv_from i \<le> t \<and> t < iv_to i)"

definition weathered :: "lossInterval list \<Rightarrow> time \<Rightarrow> bool" where
  "weathered is t \<longleftrightarrow> (\<exists>i \<in> set is. iv_from i \<le> t \<and> t < iv_to i \<and> iv_cause i = LOSS_WEATHER)"

lemma weathered_covered: "weathered is t \<Longrightarrow> covered is t"
  by (auto simp: weathered_def covered_def)

lemma strict_last: "sorted_wrt (<) xs \<Longrightarrow> x \<in> set xs \<Longrightarrow> x \<le> last (xs :: time list)"
  by (induction xs) (auto dest: bspec [OF _ last_in_set])

text \<open>Between two neighbouring edges nothing begins and nothing ends.\<close>

lemma between_edges:
  assumes "\<And>i. i \<in> set is \<Longrightarrow> (iv_from i \<le> a \<or> b \<le> iv_from i) \<and> (iv_to i \<le> a \<or> b \<le> iv_to i)"
    and "a \<le> t" and "t < b" and "i \<in> set is"
  shows "iv_from i \<le> t \<and> t < iv_to i \<longleftrightarrow> iv_from i \<le> a \<and> b \<le> iv_to i"
  using assms(1) [OF assms(4)] assms(2,3) by linarith

lemma count_edges_measures:
  assumes "sorted_wrt (<) (e # es)"
    and "\<And>i. i \<in> set is \<Longrightarrow> (iv_from i \<le> e \<or> iv_from i \<in> set es) \<and> (iv_to i \<le> e \<or> iv_to i \<in> set es)"
  shows "count_edges is (e # es) w f
    = (w + elapsed (weathered is) e (last (e # es)), f + elapsed (\<lambda>t. covered is t \<and> \<not> weathered is t) e (last (e # es)))"
  using assms
proof (induction es arbitrary: e w f)
  case Nil
  then show ?case by (simp add: elapsed_none)
next
  case (Cons b es)
  let ?fault = "\<lambda>t. covered is t \<and> \<not> weathered is t"
  let ?in = "\<lambda>i. iv_from i \<le> e \<and> b \<le> iv_to i"
  have eb: "e < b" and le: "b \<le> last (b # es)"
    using Cons.prems(1) strict_last [of "b # es" b] by auto
  have far: "x \<le> e \<or> b \<le> x" if "x \<le> e \<or> x \<in> set (b # es)" for x using that Cons.prems(1) by auto
  have inside: "iv_from i \<le> t \<and> t < iv_to i \<longleftrightarrow> ?in i" if "e \<le> t" "t < b" "i \<in> set is" for i t
    by (rule between_edges [of "is"]) (use Cons.prems(2) far that in blast)+
  have cov: "covered is t \<longleftrightarrow> filter ?in is \<noteq> []" if "e \<le> t" "t < b" for t
    using inside [OF that] by (auto simp: covered_def filter_empty_conv)
  have wea: "weathered is t \<longleftrightarrow> list_ex (\<lambda>i. iv_cause i = LOSS_WEATHER) (filter ?in is)" if "e \<le> t" "t < b" for t
    using inside [OF that] by (auto simp: weathered_def list_ex_iff)
  have IH: "count_edges is (b # es) w f = (w + elapsed (weathered is) b (last (b # es)), f + elapsed ?fault b (last (b # es)))" for w f
  proof (rule Cons.IH)
    have near: "x \<le> b \<or> x \<in> set es" if "x \<le> e \<or> x \<in> set (b # es)" for x using that eb by auto
    show "(iv_from i \<le> b \<or> iv_from i \<in> set es) \<and> (iv_to i \<le> b \<or> iv_to i \<in> set es)" if "i \<in> set is" for i
      using Cons.prems(2) [OF that] near by blast
  qed (use Cons.prems(1) in simp)
  have split: "elapsed P e (last (e # b # es)) = elapsed P e b + elapsed P b (last (b # es))" for P
    using eb le elapsed_split [of e b "last (b # es)" P] by simp
  have piece: "elapsed (weathered is) e b = (if list_ex (\<lambda>i. iv_cause i = LOSS_WEATHER) (filter ?in is) then b - e else 0)"
    "elapsed ?fault e b = (if filter ?in is \<noteq> [] \<and> \<not> list_ex (\<lambda>i. iv_cause i = LOSS_WEATHER) (filter ?in is) then b - e else 0)"
    using cov wea eb by (auto intro!: elapsed_all elapsed_none)
  show ?case unfolding split
    by (cases "filter ?in is = []") (simp_all add: IH piece Let_def)
qed

lemma covered_clip:
  "covered (filter (\<lambda>i. iv_from i < iv_to i) (map (clip a b) is)) t \<longleftrightarrow> a \<le> t \<and> t < b \<and> covered is t"
  "weathered (filter (\<lambda>i. iv_from i < iv_to i) (map (clip a b) is)) t \<longleftrightarrow> a \<le> t \<and> t < b \<and> weathered is t"
  by (auto simp: covered_def weathered_def clip_def) (force)+

text \<open>The reference: how much was lost, and to what, read off the instants themselves.\<close>

definition loss_of :: "(time \<Rightarrow> bool) \<Rightarrow> (time \<Rightarrow> bool) \<Rightarrow> time \<Rightarrow> time \<Rightarrow> slotLoss" where
  "loss_of lost weather start finish =
     (if elapsed lost start finish = 0 then nothing_lost
      else \<lparr>lo_minutesLost = round_minutes (elapsed lost start finish),
            lo_cause = Some (if elapsed (\<lambda>t. lost t \<and> \<not> weather t) start finish \<le> elapsed (\<lambda>t. lost t \<and> weather t) start finish
              then LOSS_WEATHER else LOSS_OBSERVATORY_FAULT)\<rparr>)"

lemma lostWithin_measures: "lostWithin is start finish = loss_of (covered is) (weathered is) start finish"
proof -
  define cl where "cl = filter (\<lambda>i. iv_from i < iv_to i) (map (clip start finish) is)"
  define es where "es = sort (remdups (concat (map (\<lambda>i. [iv_from i, iv_to i]) cl)))"
  have set_es: "set es = iv_from ` set cl \<union> iv_to ` set cl" by (auto simp: es_def)
  have strict: "sorted_wrt (<) es" unfolding es_def by (simp add: strict_sorted_iff)
  have total: "fst (count_edges cl es 0 0) = elapsed (weathered cl) start finish"
    "snd (count_edges cl es 0 0) = elapsed (\<lambda>t. covered cl t \<and> \<not> weathered cl t) start finish"
  proof (atomize (full), cases es)
    case Nil
    then have "cl = []" using set_es by simp
    then show "fst (count_edges cl es 0 0) = elapsed (weathered cl) start finish
        \<and> snd (count_edges cl es 0 0) = elapsed (\<lambda>t. covered cl t \<and> \<not> weathered cl t) start finish"
      using Nil by (simp add: elapsed_none covered_def weathered_def)
  next
    case (Cons e rest)
    have lo: "e \<le> x" and hi: "x \<le> last es" if "x \<in> set es" for x
      using that strict Cons strict_last [of es x] by auto
    show "fst (count_edges cl es 0 0) = elapsed (weathered cl) start finish
        \<and> snd (count_edges cl es 0 0) = elapsed (\<lambda>t. covered cl t \<and> \<not> weathered cl t) start finish"
    proof -
      have all: "count_edges cl es 0 0 = (elapsed (weathered cl) e (last es), elapsed (\<lambda>t. covered cl t \<and> \<not> weathered cl t) e (last es))"
      proof -
        have "x \<le> e \<or> x \<in> set rest" if "x \<in> set es" for x using that Cons by auto
        then have "(iv_from i \<le> e \<or> iv_from i \<in> set rest) \<and> (iv_to i \<le> e \<or> iv_to i \<in> set rest)" if "i \<in> set cl" for i
          using that set_es by blast
        from count_edges_measures [OF _ this] show ?thesis using strict Cons by simp
      qed
      have "start \<le> x \<and> x \<le> finish" if "x \<in> set es" for x
        using that unfolding set_es by (auto simp: cl_def clip_def)
      then have ends: "start \<le> e" "e \<le> last es" "last es \<le> finish" using lo hi Cons by simp_all
      have same: "elapsed P start finish = elapsed P e (last es)" if "\<And>t. P t \<Longrightarrow> covered cl t" for P
      proof -
        have "e \<le> t \<and> t < last es" if P: "P t" for t
        proof -
          obtain i where i: "i \<in> set cl" "iv_from i \<le> t" "t < iv_to i"
            using \<open>\<And>t. P t \<Longrightarrow> covered cl t\<close> [OF P] by (auto simp: covered_def)
          then have "iv_from i \<in> set es" "iv_to i \<in> set es" by (simp_all add: set_es)
          from lo [OF this(1)] hi [OF this(2)] i show ?thesis by simp
        qed
        then have "elapsed P start e = 0" "elapsed P (last es) finish = 0" by (intro elapsed_none; force)+
        then show ?thesis using elapsed_split [of start e finish P] elapsed_split [of e "last es" finish P] ends by simp
      qed
      show ?thesis unfolding all
        using same [of "weathered cl"] same [of "\<lambda>t. covered cl t \<and> \<not> weathered cl t"] weathered_covered by simp
    qed
  qed
  have w: "elapsed (weathered cl) start finish = elapsed (\<lambda>t. covered is t \<and> weathered is t) start finish"
    "elapsed (\<lambda>t. covered cl t \<and> \<not> weathered cl t) start finish = elapsed (\<lambda>t. covered is t \<and> \<not> weathered is t) start finish"
    unfolding cl_def by (auto intro!: elapsed_cong simp: covered_clip dest: weathered_covered)
  obtain x y where xy: "count_edges cl es 0 0 = (x, y)" by fastforce
  show ?thesis
    using total w elapsed_plus [of "covered is" start finish "weathered is"] xy
    unfolding lostWithin_def loss_of_def Let_def cl_def [symmetric] es_def [symmetric] by (simp add: add.commute)
qed

section \<open>What the records say\<close>

text \<open>
  Whether a condition was in force at an instant: the last row about it up to then switched it
  on.
\<close>

definition in_force :: "string list \<Rightarrow> string \<Rightarrow> auditMark list \<Rightarrow> time \<Rightarrow> bool" where
  "in_force actions on history t =
     (case find (\<lambda>r. am_action r \<in> set actions \<and> am_createdAt r \<le> t) (rev history) of
        None \<Rightarrow> False | Some r \<Rightarrow> am_action r = on)"

definition held_at :: "auditMark list \<Rightarrow> time \<Rightarrow> bool" where
  "held_at history t = in_force HOLD_ACTIONS ''WEATHER_HOLD_SET'' history t"

definition down_at :: "auditMark list \<Rightarrow> time \<Rightarrow> bool" where
  "down_at history t = in_force LINK_ACTIONS ''AGENT_LINK_LOST'' history t"

text \<open>One of the two conditions alone: since when it is on, and the intervals it was on for.\<close>

definition switch :: "string \<Rightarrow> lossCause \<Rightarrow> auditMark \<Rightarrow> time option \<times> lossInterval list \<Rightarrow> time option \<times> lossInterval list" where
  "switch on c r = (\<lambda>(since, is).
     if am_action r = on then (open_since since (am_createdAt r), is)
     else (None, is @ closing since (am_createdAt r) c))"

definition on_at :: "string \<Rightarrow> auditMark list \<Rightarrow> time \<Rightarrow> bool" where
  "on_at on rs t = (case find (\<lambda>r. am_createdAt r \<le> t) (rev rs) of None \<Rightarrow> False | Some r \<Rightarrow> am_action r = on)"

lemma switch_tracks:
  assumes "sorted (map am_createdAt rs)" and "\<And>r. r \<in> set rs \<Longrightarrow> am_createdAt r < finish"
  shows "let (since, is) = fold (switch on c) rs (None, [])
    in (\<forall>t < finish. covered (is @ closing since finish c) t = on_at on rs t)
      \<and> (since \<noteq> None) = (rs \<noteq> [] \<and> am_action (last rs) = on)
      \<and> (\<forall>a. since = Some a \<longrightarrow> rs \<noteq> [] \<and> a \<le> am_createdAt (last rs))
      \<and> (\<forall>i \<in> set is. rs \<noteq> [] \<and> iv_to i \<le> am_createdAt (last rs) \<and> iv_cause i = c)"
  using assms
proof (induction rs rule: rev_induct)
  case Nil
  then show ?case by (simp add: covered_def closing_def on_at_def)
next
  case (snoc r rs)
  obtain since "is" where f: "fold (switch on c) rs (None, []) = (since, is)" by fastforce
  have sorted: "sorted (map am_createdAt rs)" and late: "x \<in> set rs \<Longrightarrow> am_createdAt x \<le> am_createdAt r" for x
    using snoc.prems(1) by (auto simp: sorted_append)
  have IH: "\<forall>t < finish. covered (is @ closing since finish c) t = on_at on rs t"
    "(since \<noteq> None) = (rs \<noteq> [] \<and> am_action (last rs) = on)"
    "\<forall>a. since = Some a \<longrightarrow> rs \<noteq> [] \<and> a \<le> am_createdAt (last rs)"
    "\<forall>i \<in> set is. rs \<noteq> [] \<and> iv_to i \<le> am_createdAt (last rs) \<and> iv_cause i = c"
    using snoc.IH [OF sorted] snoc.prems(2) f by (auto simp: Let_def)
  have last: "rs \<noteq> [] \<Longrightarrow> am_createdAt (last rs) \<le> am_createdAt r" using late by simp
  have rf: "am_createdAt r < finish" using snoc.prems(2) by simp
  have on: "on_at on (rs @ [r]) t = (if am_createdAt r \<le> t then am_action r = on else on_at on rs t)" for t
    by (simp add: on_at_def)
  have after: "\<not> covered is t" if "am_createdAt r \<le> t" for t using IH(4) last that by (fastforce simp: covered_def)
  have cov: "covered (is @ closing since b c) t \<longleftrightarrow> covered is t \<or> (\<exists>a. since = Some a \<and> a \<le> t \<and> t < b)" for b t
    by (cases since) (auto simp: covered_def closing_def interval_def)
  have ages: "a \<le> am_createdAt r" if "since = Some a" for a using IH(3) last that by force
  have ends: "\<forall>i \<in> set is. iv_to i \<le> am_createdAt r \<and> iv_cause i = c" using IH(4) last by fastforce
  show ?case
  proof (cases "am_action r = on")
    case True
    have "covered (is @ closing (open_since since (am_createdAt r)) finish c) t = on_at on (rs @ [r]) t" if "t < finish" for t
      using IH(1) cov [of finish t] ages that unfolding on
      by (cases since) (auto simp: open_since_def True covered_def closing_def interval_def)
    moreover have "fold (switch on c) (rs @ [r]) (None, []) = (open_since since (am_createdAt r), is)"
      by (simp add: f) (simp add: switch_def True)
    ultimately show ?thesis using True ages ends
      by (cases since) (auto simp: open_since_def)
  next
    case False
    have "covered (is @ closing since (am_createdAt r) c) t = on_at on (rs @ [r]) t" if "t < finish" for t
      using IH(1) cov [of finish t] cov [of "am_createdAt r" t] after that unfolding on by (auto simp: False)
    moreover have "fold (switch on c) (rs @ [r]) (None, []) = (None, is @ closing since (am_createdAt r) c)"
      by (simp add: f) (simp add: switch_def False)
    ultimately show ?thesis using False ends
      by (cases since) (auto simp: closing_def interval_def)
  qed
qed

lemma find_rev: "find P (rev xs) = (if filter P xs = [] then None else Some (last (filter P xs)))"
  by (induction xs rule: rev_induct) auto

lemma filter_sorted_split:
  fixes k :: "'a \<Rightarrow> time"
  assumes "sorted (map k xs)" and "a \<le> t"
  shows "filter (\<lambda>x. P x \<and> k x \<le> t) xs = filter (\<lambda>x. P x \<and> k x < a) xs @ filter (\<lambda>x. P x \<and> a \<le> k x \<and> k x \<le> t) xs"
  using assms
proof (induction xs)
  case (Cons x xs)
  show ?case
  proof (cases "k x < a")
    case False
    then have "filter (\<lambda>y. P y \<and> k y < a) (x # xs) = []" using Cons.prems by (fastforce simp: filter_empty_conv)
    moreover have "filter (\<lambda>y. P y \<and> k y \<le> t) (x # xs) = filter (\<lambda>y. P y \<and> a \<le> k y \<and> k y \<le> t) (x # xs)"
      using Cons.prems False by (intro filter_cong) fastforce+
    ultimately show ?thesis by simp
  qed (use Cons in simp)
qed simp

text \<open>The rows about one condition, as the query and the loop see them.\<close>

definition channel :: "string list \<Rightarrow> auditMark list \<Rightarrow> time \<Rightarrow> time \<Rightarrow> auditMark list" where
  "channel actions history start finish =
     (case lastBefore history start actions of None \<Rightarrow> [] | Some r \<Rightarrow> [r])
     @ filter (\<lambda>r. am_action r \<in> set actions \<and> start \<le> am_createdAt r \<and> am_createdAt r < finish) history"

lemma lastBefore_Some: "lastBefore history start actions = Some r \<Longrightarrow> am_action r \<in> set actions \<and> am_createdAt r < start"
  by (auto simp: lastBefore_def dest!: find_SomeD)

lemma channel_facts:
  assumes "sorted (map am_createdAt history)" and "start \<le> finish"
  shows "sorted (map am_createdAt (channel actions history start finish))"
    and "r \<in> set (channel actions history start finish) \<Longrightarrow> am_createdAt r < finish"
    and "start \<le> t \<Longrightarrow> t < finish \<Longrightarrow> on_at on (channel actions history start finish) t = in_force actions on history t"
proof -
  let ?d = "filter (\<lambda>r. am_action r \<in> set actions \<and> start \<le> am_createdAt r \<and> am_createdAt r < finish) history"
  have "sorted (map am_createdAt ?d)" using assms(1) by (rule sorted_filter)
  then show "sorted (map am_createdAt (channel actions history start finish))"
    by (auto simp: channel_def dest!: lastBefore_Some split: option.split)
  show "am_createdAt r < finish" if "r \<in> set (channel actions history start finish)"
    using that assms(2) lastBefore_Some [of history start actions]
    by (cases "lastBefore history start actions") (auto simp: channel_def)
  assume t: "start \<le> t" "t < finish"
  let ?e = "filter (\<lambda>r. am_action r \<in> set actions \<and> start \<le> am_createdAt r \<and> am_createdAt r \<le> t) history"
  let ?b = "filter (\<lambda>r. am_action r \<in> set actions \<and> am_createdAt r < start) history"
  have d: "filter (\<lambda>r. am_action r \<in> set actions \<and> start \<le> am_createdAt r \<and> am_createdAt r < finish \<and> am_createdAt r \<le> t) history = ?e"
    using t by (auto intro: filter_cong)
  have h: "filter (\<lambda>r. am_action r \<in> set actions \<and> am_createdAt r \<le> t) history = ?b @ ?e"
    using assms(1) t(1) by (rule filter_sorted_split)
  have lb: "lastBefore history start actions = (if ?b = [] then None else Some (last ?b))"
    by (simp add: lastBefore_def find_rev)
  show "on_at on (channel actions history start finish) t = in_force actions on history t"
  proof (cases "?b = []")
    case True
    then show ?thesis unfolding on_at_def in_force_def channel_def find_rev by (simp add: h lb d)
  next
    case False
    then have "am_createdAt (last ?b) < start" using last_in_set [OF False] by simp
    with False t show ?thesis unfolding on_at_def in_force_def channel_def find_rev by (simp add: h lb d)
  qed
qed

lemma actions_apart: "set HOLD_ACTIONS \<inter> set LINK_ACTIONS = {}"
  by (simp add: HOLD_ACTIONS_def LINK_ACTIONS_def)

lemma marks_by_channel:
  "filter (\<lambda>r. am_action r \<in> set HOLD_ACTIONS) (marks_read history start finish) = channel HOLD_ACTIONS history start finish"
  "filter (\<lambda>r. am_action r \<in> set LINK_ACTIONS) (marks_read history start finish) = channel LINK_ACTIONS history start finish"
proof -
  let ?h = "\<lambda>r. am_action r \<in> set HOLD_ACTIONS" and ?l = "\<lambda>r. am_action r \<in> set LINK_ACTIONS"
  have apart: "\<not> (?h r \<and> ?l r)" for r using actions_apart by blast
  have "filter ?h (List.map_filter id [lastBefore history start HOLD_ACTIONS, lastBefore history start LINK_ACTIONS])
      = (case lastBefore history start HOLD_ACTIONS of None \<Rightarrow> [] | Some r \<Rightarrow> [r])"
    "filter ?l (List.map_filter id [lastBefore history start HOLD_ACTIONS, lastBefore history start LINK_ACTIONS])
      = (case lastBefore history start LINK_ACTIONS of None \<Rightarrow> [] | Some r \<Rightarrow> [r])"
    using apart by (auto simp: List.map_filter_simps dest!: lastBefore_Some split: option.split)
  moreover have "sort_key am_createdAt (case x of None \<Rightarrow> [] | Some r \<Rightarrow> [r]) = (case x of None \<Rightarrow> [] | Some r \<Rightarrow> [r])" for x
    by (cases x) simp_all
  ultimately show "filter ?h (marks_read history start finish) = channel HOLD_ACTIONS history start finish"
    "filter ?l (marks_read history start finish) = channel LINK_ACTIONS history start finish"
    using apart by (auto simp: marks_read_def channel_def filter_sort intro!: filter_cong)
qed

lemma kinds:
  "''WEATHER_HOLD_SET'' \<in> set HOLD_ACTIONS" "''WEATHER_HOLD_CLEARED'' \<in> set HOLD_ACTIONS"
  "''WEATHER_HOLD_SET'' \<notin> set LINK_ACTIONS" "''WEATHER_HOLD_CLEARED'' \<notin> set LINK_ACTIONS"
  "''AGENT_LINK_LOST'' \<in> set LINK_ACTIONS" "''AGENT_LINK_UP'' \<in> set LINK_ACTIONS"
  "''AGENT_LINK_LOST'' \<notin> set HOLD_ACTIONS" "''AGENT_LINK_UP'' \<notin> set HOLD_ACTIONS"
  by (simp_all add: HOLD_ACTIONS_def LINK_ACTIONS_def)

lemma kinds_differ:
  "a \<notin> set HOLD_ACTIONS \<Longrightarrow> a \<noteq> ''WEATHER_HOLD_SET'' \<and> a \<noteq> ''WEATHER_HOLD_CLEARED''"
  "a \<notin> set LINK_ACTIONS \<Longrightarrow> a \<noteq> ''AGENT_LINK_LOST'' \<and> a \<noteq> ''AGENT_LINK_UP''"
  by (auto simp: HOLD_ACTIONS_def LINK_ACTIONS_def)

definition no_outage :: outage where
  "no_outage = \<lparr>ou_holdSince = None, ou_downSince = None, ou_intervals = []\<rparr>"

lemma read_marks_by_channel:
  "let u = fold read_mark ms no_outage;
       (hold, his) = fold (switch ''WEATHER_HOLD_SET'' LOSS_WEATHER) (filter (\<lambda>r. am_action r \<in> set HOLD_ACTIONS) ms) (None, []);
       (down, dis) = fold (switch ''AGENT_LINK_LOST'' LOSS_OBSERVATORY_FAULT) (filter (\<lambda>r. am_action r \<in> set LINK_ACTIONS) ms) (None, [])
   in ou_holdSince u = hold \<and> ou_downSince u = down \<and> set (ou_intervals u) = set his \<union> set dis"
proof (induction ms rule: rev_induct)
  case Nil
  then show ?case by (simp add: no_outage_def)
next
  case (snoc r ms)
  obtain hold his down dis where f:
    "fold (switch ''WEATHER_HOLD_SET'' LOSS_WEATHER) (filter (\<lambda>r. am_action r \<in> set HOLD_ACTIONS) ms) (None, []) = (hold, his)"
    "fold (switch ''AGENT_LINK_LOST'' LOSS_OBSERVATORY_FAULT) (filter (\<lambda>r. am_action r \<in> set LINK_ACTIONS) ms) (None, []) = (down, dis)"
    by fastforce
  define u where "u = fold read_mark ms no_outage"
  have u: "ou_holdSince u = hold" "ou_downSince u = down" "set (ou_intervals u) = set his \<union> set dis"
    using snoc f by (simp_all add: u_def Let_def)
  consider "am_action r = ''WEATHER_HOLD_SET''" | "am_action r = ''WEATHER_HOLD_CLEARED''" | "am_action r = ''AGENT_LINK_LOST''"
    | "am_action r = ''AGENT_LINK_UP''" | "am_action r \<notin> set HOLD_ACTIONS" "am_action r \<notin> set LINK_ACTIONS"
    by (auto simp: HOLD_ACTIONS_def LINK_ACTIONS_def)
  then show ?case
    by cases (simp_all add: f u_def [symmetric] Let_def kinds, simp_all add: read_mark_def switch_def u Un_ac kinds_differ)
qed

lemma unavailable_iff:
  assumes "sorted (map am_createdAt history)" and "start \<le> t" and "t < finish"
  shows "weathered (unavailability history start finish) t = held_at history t"
    and "covered (unavailability history start finish) t = (held_at history t \<or> down_at history t)"
proof -
  have le: "start \<le> finish" using assms(2,3) by simp
  obtain hold his where h: "fold (switch ''WEATHER_HOLD_SET'' LOSS_WEATHER) (channel HOLD_ACTIONS history start finish) (None, []) = (hold, his)"
    by fastforce
  obtain down dis where d: "fold (switch ''AGENT_LINK_LOST'' LOSS_OBSERVATORY_FAULT) (channel LINK_ACTIONS history start finish) (None, []) = (down, dis)"
    by fastforce
  let ?u = "fold read_mark (marks_read history start finish) no_outage"
  have u: "ou_holdSince ?u = hold" "ou_downSince ?u = down" "set (ou_intervals ?u) = set his \<union> set dis"
    using read_marks_by_channel [of "marks_read history start finish"] h d by (simp_all add: marks_by_channel Let_def)
  have set: "set (unavailability history start finish) = set (his @ closing hold finish LOSS_WEATHER) \<union> set (dis @ closing down finish LOSS_OBSERVATORY_FAULT)"
    using u by (auto simp: unavailability_def no_outage_def [symmetric] Let_def)
  note facts = channel_facts [OF assms(1) le]
  have H: "covered (his @ closing hold finish LOSS_WEATHER) t = held_at history t" "\<forall>i \<in> set his. iv_cause i = LOSS_WEATHER"
    using switch_tracks [of "channel HOLD_ACTIONS history start finish" finish "''WEATHER_HOLD_SET''" LOSS_WEATHER, OF facts(1) facts(2)]
      h facts(3) assms(2,3) by (auto simp: Let_def held_at_def)
  have D: "covered (dis @ closing down finish LOSS_OBSERVATORY_FAULT) t = down_at history t" "\<forall>i \<in> set dis. iv_cause i = LOSS_OBSERVATORY_FAULT"
    using switch_tracks [of "channel LINK_ACTIONS history start finish" finish "''AGENT_LINK_LOST''" LOSS_OBSERVATORY_FAULT, OF facts(1) facts(2)]
      d facts(3) assms(2,3) by (auto simp: Let_def down_at_def)
  show "covered (unavailability history start finish) t = (held_at history t \<or> down_at history t)"
    unfolding H(1) [symmetric] D(1) [symmetric] covered_def set by auto
  have "iv_cause i = LOSS_WEATHER" if "i \<in> set (his @ closing hold finish LOSS_WEATHER)" for i
    using that H(2) by (auto simp: closing_def interval_def split: option.splits)
  moreover have "iv_cause i = LOSS_OBSERVATORY_FAULT" if "i \<in> set (dis @ closing down finish LOSS_OBSERVATORY_FAULT)" for i
    using that D(2) by (auto simp: closing_def interval_def split: option.splits)
  ultimately show "weathered (unavailability history start finish) t = held_at history t"
    unfolding H(1) [symmetric] weathered_def covered_def set by fastforce
qed

text \<open>
  The instants a slot was lost at, for the mission it was booked for: a hold was in force, the
  link was down, or the mission had ended on our side.
\<close>

definition ended_by :: "(mission_row \<times> time option) option \<Rightarrow> time \<Rightarrow> bool" where
  "ended_by m t = (case m of Some (mis, Some e) \<Rightarrow>
      mi_state mis \<in> set ENDED_EARLY \<and> mi_failureReason mis \<noteq> Some SESSION_EXPIRED \<and> e \<le> t | _ \<Rightarrow> False)"

definition weather_ending :: "(mission_row \<times> time option) option \<Rightarrow> bool" where
  "weather_ending m = (case m of Some (mis, _) \<Rightarrow> mi_state mis = MS_WEATHER_HOLD \<or> mi_failureReason mis = Some WEATHER_UNSAFE | None \<Rightarrow> False)"

lemma our_ending_covers:
  assumes "t < finish"
  shows "covered (our_ending m finish) t = ended_by m t"
    and "weathered (our_ending m finish) t = (ended_by m t \<and> weather_ending m)"
proof (atomize (full), cases "\<exists>mis e. m = Some (mis, Some e)")
  case True
  then obtain mis e where "m = Some (mis, Some e)" by blast
  then show "covered (our_ending m finish) t = ended_by m t \<and> weathered (our_ending m finish) t = (ended_by m t \<and> weather_ending m)"
    using assms by (simp add: covered_def weathered_def our_ending_def ended_by_def weather_ending_def interval_def)
next
  case False
  then have "our_ending m finish = []" "\<not> ended_by m t" by (auto simp: our_ending_def ended_by_def split: option.splits)
  then show "covered (our_ending m finish) t = ended_by m t \<and> weathered (our_ending m finish) t = (ended_by m t \<and> weather_ending m)"
    by (simp add: covered_def weathered_def)
qed

lemma covered_append: "covered (xs @ ys) t = (covered xs t \<or> covered ys t)" "weathered (xs @ ys) t = (weathered xs t \<or> weathered ys t)"
  by (auto simp: covered_def weathered_def)

lemma loss_of_cong:
  assumes "\<And>t. a \<le> t \<Longrightarrow> t < b \<Longrightarrow> lost t = lost' t" and "\<And>t. a \<le> t \<Longrightarrow> t < b \<Longrightarrow> weather t = weather' t"
  shows "loss_of lost weather a b = loss_of lost' weather' a b"
proof -
  have "elapsed lost a b = elapsed lost' a b" "elapsed (\<lambda>t. lost t \<and> weather t) a b = elapsed (\<lambda>t. lost' t \<and> weather' t) a b"
    "elapsed (\<lambda>t. lost t \<and> \<not> weather t) a b = elapsed (\<lambda>t. lost' t \<and> \<not> weather' t) a b"
    using assms by (auto intro!: elapsed_cong)
  then show ?thesis by (simp add: loss_of_def)
qed

text \<open>
  C22: A slot is judged by the time that was really lost. Unless the customer ended it, the
  minutes the sweep writes down are the milliseconds of the slot in which a weather hold was in
  force, the link was down or the mission had ended on our side, each counted once whatever
  overlaps, rounded to the minute; the cause is the weather exactly when the weather took at
  least as much of it as our faults alone.
\<close>

theorem loss_counts_what_was_lost:
  assumes "sorted (map am_createdAt history)" and "\<not> customer_ended m"
  shows "judge_loss history (b, m) = loss_of
    (\<lambda>t. held_at history t \<or> down_at history t \<or> ended_by m t)
    (\<lambda>t. held_at history t \<or> ended_by m t \<and> weather_ending m)
    (bk_slotStartAt b) (slot_end b)"
proof -
  have "judge_loss history (b, m) = loss_of
      (covered (unavailability history (bk_slotStartAt b) (slot_end b) @ our_ending m (slot_end b)))
      (weathered (unavailability history (bk_slotStartAt b) (slot_end b) @ our_ending m (slot_end b)))
      (bk_slotStartAt b) (slot_end b)"
    using assms(2) by (simp add: judge_loss_def lostWithin_measures)
  also have "\<dots> = loss_of (\<lambda>t. held_at history t \<or> down_at history t \<or> ended_by m t)
      (\<lambda>t. held_at history t \<or> ended_by m t \<and> weather_ending m) (bk_slotStartAt b) (slot_end b)"
    by (rule loss_of_cong) (auto simp: covered_append unavailable_iff [OF assms(1)] our_ending_covers)
  finally show ?thesis .
qed

theorem loss_counts_what_was_lost_witness:
  "judge_loss [\<lparr>am_action = ''WEATHER_HOLD_SET'', am_createdAt = 900000\<rparr>] (paid_booking, None)
     = \<lparr>lo_minutesLost = 15, lo_cause = Some LOSS_WEATHER\<rparr>"
proof -
  let ?h = "[\<lparr>am_action = ''WEATHER_HOLD_SET'', am_createdAt = 900000\<rparr>]"
  have held: "held_at ?h t = (900000 \<le> t)" "down_at ?h t = False" for t
    by (simp_all add: held_at_def down_at_def in_force_def HOLD_ACTIONS_def LINK_ACTIONS_def)
  have slot: "bk_slotStartAt paid_booking = 1000" "bk_durationMinutes paid_booking = 30" by (simp_all add: paid_booking_def)
  have "elapsed (\<lambda>t. 900000 \<le> t) 1000 1801000 = 901000"
    using elapsed_split [of 1000 900000 1801000 "\<lambda>t. 900000 \<le> t"] elapsed_all [of 900000 1801000 "\<lambda>t. 900000 \<le> t"]
      elapsed_none [of 1000 900000 "\<lambda>t. 900000 \<le> t"] by simp
  moreover have "elapsed (\<lambda>t. False) 1000 1801000 = 0" by (simp add: elapsed_none)
  ultimately show ?thesis
    using loss_counts_what_was_lost [of ?h None paid_booking]
    by (simp add: customer_ended_def held slot ended_by_def loss_of_def round_minutes_def)
qed

section \<open>Spending an entitlement\<close>

lemma admit_reschedule_facts:
  assumes "admit_reschedule W s u b rq now = Inr (Inr (original, en, ob, tg, t, sl))"
  shows "find (\<lambda>x. bk_id x = b \<and> bk_userId x = u) (booking s) = Some original"
    "entitlement_for s (bk_id original) = Some en" "usable en now"
    "findBookableObservatory s (bk_observatoryId original) = Some ob" "rr_slotStartAt rq = Some t"
    "findGeneratedSlot (w_zone W) (w_dark W) t ob now SLOT_DURATION_MINUTES = Inr (Some sl)"
    "sl_durationMinutes sl = bk_durationMinutes original"
    "tg \<in> set (target s)" "tg_enabled tg" "tg_id tg = (case rr_targetId rq of None \<Rightarrow> bk_targetId original | Some i \<Rightarrow> i)"
  using assms unfolding admit_reschedule_def andthen_pass Let_def
  by (auto split: option.splits if_splits simp: andthen_pass dest: find_SomeD)

lemma entitlement_frame:
  "keeps (\<lambda>s. bookingEntitlement s = x) (expireLapsedHolds codes oid now)" "keeps (\<lambda>s. bookingEntitlement s = x) (createBooking b)"
  "keeps (\<lambda>s. bookingEntitlement s = x) (schedule_free i u original b ob mode now)"
  unfolding expireLapsedHolds_def schedule_free_def
  by (intro keeps_intros keeps_table keeps_outbox give_back_frame createBooking_frame; simp)+




text \<open>The mission a booking is observed in: its own, for its customer, telescope, target and start.\<close>

definition mission_of_booking :: "booking_row \<Rightarrow> mission_row \<Rightarrow> bool" where
  "mission_of_booking b m \<longleftrightarrow> bk_missionId b = Some (mi_id m) \<and> mi_state m = MS_SCHEDULED
     \<and> mi_scheduledFor m = Some (bk_slotStartAt b) \<and> mi_userId m = bk_userId b \<and> mi_targetId m = bk_targetId b
     \<and> mi_observatoryId m = bk_observatoryId b \<and> mi_telescopeId m = bk_telescopeId b"

text \<open>What a reschedule that commits has done.\<close>

lemma schedule_free_result:
  assumes "schedule_free i u original b ob mode now s = Inr (x, s')" and "b \<in> set (booking s)"
    and "bk_observatoryId b = bo_id ob" "bk_telescopeId b = bo_telescopeId ob"
  shows "x = bk_id b \<and> b\<lparr>bk_missionId := Some i\<rparr> \<in> set (booking s')
    \<and> (\<exists>m \<in> set (mission s'). mission_of_booking (b\<lparr>bk_missionId := Some i\<rparr>) m)"
proof -
  let ?m = "(mission_for i b ob mode now)\<lparr>mi_isDemo := bk_isDemo original\<rparr>"
  let ?t = "updateMany (\<lambda>x. bk_id x = bk_id b) (\<lambda>x. x\<lparr>bk_missionId := Some i\<rparr>) (booking s)"
  let ?tail = "bindt (recordAuditEvent (rescheduled_audit u original ?m b)) (\<lambda>_.
     bindt (queueEmail (email u MAIL_BOOKING_CONFIRMED (''booking-confirmed:'' @ bk_id b) [(''bookingId'', bk_id b)])) (\<lambda>_.
     ret (bk_id b)))"
  have m: "mi_id ?m = i" "mission_of_booking (b\<lparr>bk_missionId := Some i\<rparr>) ?m"
    using assms(3,4) by (simp_all add: mission_for_def mission_of_booking_def)
  from assms(1) obtain s1 where tail: "?tail s1 = Inr (x, s')" and s1: "booking s1 = ?t" "mission s1 = mission s @ [?m]"
    unfolding schedule_free_def by (auto simp: tx_create_apply bindt_steps tx_update_apply m split: if_splits)
  have "keeps (\<lambda>s. booking s = ?t \<and> mission s = mission s1) ?tail" by (intro keeps_intros keeps_outbox; simp)
  from keepsD [OF this _ tail] s1 have "booking s' = ?t" "mission s' = mission s @ [?m]" by simp_all
  moreover have "x = bk_id b" using tail by (auto simp: bindt_eq_Inr ret_apply)
  moreover have "b\<lparr>bk_missionId := Some i\<rparr> \<in> set ?t" using assms(2) by (auto simp: updateMany_def)
  ultimately show ?thesis using m by auto
qed

lemma reschedule_tx_result:
  assumes "reschedule_tx W u (original, en, ob, tg, t, sl) now n s = Inr (x, s')"
  shows "\<exists>nb \<in> set (booking s'). bk_id nb = x \<and> bk_userId nb = u \<and> bk_status nb = BK_CONFIRMED \<and> bk_priceMinor nb = 0
      \<and> bk_observatoryId nb = bo_id ob \<and> bk_slotStartAt nb = t \<and> bk_durationMinutes nb = sl_durationMinutes sl
      \<and> bk_targetId nb = tg_id tg \<and> (\<exists>m \<in> set (mission s'). mission_of_booking nb m)"
    and "\<exists>e \<in> set (bookingEntitlement s). en_id e = en_id en \<and> usable e now"
    and "bookingEntitlement s' = updateMany (\<lambda>e. en_id e = en_id en \<and> usable e now)
      (\<lambda>e. e\<lparr>en_outcome := EN_RESCHEDULED, en_resolvedAt := Some now, en_rescheduledBookingId := Some x\<rparr>) (bookingEntitlement s)"
proof -
  let ?b = "free_booking (w_bookingId W n) u ob (tg_id tg) t sl original (w_createdAt W n)"
  from assms obtain y s1 where 1: "expireLapsedHolds (w_codes W) (bo_id ob) now s = Inr (y, s1)"
    and rest: "bindt (tx_findOrThrow observatory (\<lambda>o'. ob_id o' = bo_id ob)) (\<lambda>o'. bindt (createBooking ?b) (\<lambda>b'.
      bindt (claim_entitlement (en_id en) (bk_id b') now) (\<lambda>count. if count = 0 then throw EntitlementGone
        else schedule_free (w_missionId W n) u original b' ob (ob_mode o') now))) s1 = Inr (x, s')"
    unfolding reschedule_tx_def prod.case bindt_eq_Inr by blast
  from rest obtain o' :: observatory_row where "bindt (createBooking ?b) (\<lambda>b'.
      bindt (claim_entitlement (en_id en) (bk_id b') now) (\<lambda>count. if count = 0 then throw EntitlementGone
        else schedule_free (w_missionId W n) u original b' ob (ob_mode o') now)) s1 = Inr (x, s')"
    by (auto simp: tx_findOrThrow_apply split: option.splits)
  then obtain b' s2 count s3 where run2: "createBooking ?b s1 = Inr (b', s2)"
    and run3: "claim_entitlement (en_id en) (bk_id b') now s2 = Inr (count, s3)" and c: "count \<noteq> 0"
    and run4: "schedule_free (w_missionId W n) u original b' ob (ob_mode o') now s3 = Inr (x, s')"
    unfolding bindt_eq_Inr by (auto simp: throw_apply split: if_splits)
  have b': "b' = ?b" using run2 by (simp add: createBooking_eq_Inr)
  note 2 = run2 [unfolded b'] and 3 = run3 [unfolded b'] and 4 = run4 [unfolded b']
  have b: "?b \<in> set (booking s2)" using 2 by (auto simp: createBooking_eq_Inr)
  have s3: "s3 = s2\<lparr>bookingEntitlement := updateMany (\<lambda>e. en_id e = en_id en \<and> usable e now)
      (\<lambda>e. e\<lparr>en_outcome := EN_RESCHEDULED, en_resolvedAt := Some now, en_rescheduledBookingId := Some (bk_id ?b)\<rparr>) (bookingEntitlement s2)\<rparr>"
    "count = length (filter (\<lambda>e. en_id e = en_id en \<and> usable e now) (bookingEntitlement s2))"
    using 3 by (auto simp: claim_entitlement_def tx_updateMany_apply)
  have same: "bookingEntitlement s2 = bookingEntitlement s" "bookingEntitlement s' = bookingEntitlement s3"
    using keepsD [OF entitlement_frame(1) _ 1] keepsD [OF entitlement_frame(2) _ 2] keepsD [OF entitlement_frame(3) _ 4] by simp_all
  have own: "bk_observatoryId ?b = bo_id ob" "bk_telescopeId ?b = bo_telescopeId ob"
    by (simp_all add: free_booking_def booking_for_def)
  have fin: "x = bk_id ?b" "?b\<lparr>bk_missionId := Some (w_missionId W n)\<rparr> \<in> set (booking s')"
    "\<exists>m \<in> set (mission s'). mission_of_booking (?b\<lparr>bk_missionId := Some (w_missionId W n)\<rparr>) m"
    using schedule_free_result [OF 4 _ own] b s3(1) by simp_all
  show "\<exists>e \<in> set (bookingEntitlement s). en_id e = en_id en \<and> usable e now"
    using c s3(2) same by (auto simp: filter_empty_conv)
  show "bookingEntitlement s' = updateMany (\<lambda>e. en_id e = en_id en \<and> usable e now)
      (\<lambda>e. e\<lparr>en_outcome := EN_RESCHEDULED, en_resolvedAt := Some now, en_rescheduledBookingId := Some x\<rparr>) (bookingEntitlement s)"
    using same s3(1) fin(1) by simp
  show "\<exists>nb \<in> set (booking s'). bk_id nb = x \<and> bk_userId nb = u \<and> bk_status nb = BK_CONFIRMED \<and> bk_priceMinor nb = 0
      \<and> bk_observatoryId nb = bo_id ob \<and> bk_slotStartAt nb = t \<and> bk_durationMinutes nb = sl_durationMinutes sl
      \<and> bk_targetId nb = tg_id tg \<and> (\<exists>m \<in> set (mission s'). mission_of_booking nb m)"
    using fin by (intro bexI [OF _ fin(2)]) (simp add: free_booking_def booking_for_def)
qed

lemma reschedule_cases:
  assumes "rescheduleMyBooking W u b rq now s = (r, s')"
  shows "(\<exists>original en ob tg t sl n s0 x. admit_reschedule W s u b rq now = Inr (Inr (original, en, ob, tg, t, sl))
       \<and> others_only W s s0 \<and> reschedule_tx W u (original, en, ob, tg, t, sl) now n s0 = Inr (x, s')
       \<and> (\<forall>c. r = Inr (Booking_ok c) \<longrightarrow> cb_id c = x))
    \<or> (others_only W s s' \<and> (\<forall>c. r \<noteq> Inr (Booking_ok c)))"
proof -
  consider (thrown) e where "admit_reschedule W s u b rq now = Inl e" | (refused) f where "admit_reschedule W s u b rq now = Inr (Inl f)"
    | (admitted) plan where "admit_reschedule W s u b rq now = Inr (Inr plan)" by (metis sum.exhaust)
  then show ?thesis
  proof cases
    case admitted
    obtain q s1 where run: "retryOnDeadlock (attempt_of W (reschedule_tx W u plan now)) s = (q, s1)" by fastforce
    obtain original en ob tg t sl where plan: "plan = (original, en, ob, tg, t, sl)" by (cases plan)
    show ?thesis
    proof (cases q)
      case (Inr x)
      with attempts_outcome [OF run] obtain n s0 where o: "others_only W s s0" "reschedule_tx W u plan now n s0 = Inr (x, s1)" by auto
      have "s' = s1 \<and> (\<forall>c. r = Inr (Booking_ok c) \<longrightarrow> cb_id c = x)"
        using assms admitted run Inr
        by (auto simp: rescheduleMyBooking_def catchj_def bindj_def readBooking_def retj_def throwj_def toContractBooking_def
            isSlotConflict_def split: option.splits if_splits dest: find_SomeD)
      with o admitted plan show ?thesis by blast
    next
      case (Inl e)
      with attempts_outcome [OF run] have "others_only W s s1" by auto
      moreover have "s' = s1 \<and> (\<forall>c. r \<noteq> Inr (Booking_ok c))"
        using assms admitted run Inl
        by (auto simp: rescheduleMyBooking_def catchj_def bindj_def retj_def throwj_def split: if_splits)
      ultimately show ?thesis by blast
    qed
  qed (use assms in \<open>auto simp: rescheduleMyBooking_def others_refl\<close>)
qed


text \<open>
  C23: Only half-hour sessions can be rescheduled. A booking of any other length holds an
  entitlement that promises a free reschedule, but whatever instant is asked for, the request is
  refused, or fails before it writes, and the database is as it was: the generator is asked for
  slots of the default length, and the length check then refuses the slot it found.
\<close>

theorem other_lengths_are_never_rescheduled:
  assumes "find (\<lambda>x. bk_id x = b \<and> bk_userId x = u) (booking s) = Some original" and "bk_durationMinutes original \<noteq> 30"
  shows "\<exists>r. rescheduleMyBooking W u b rq now s = (r, s) \<and> (\<forall>c. r \<noteq> Inr (Booking_ok c))"
proof (cases "admit_reschedule W s u b rq now")
  case (Inr q)
  show ?thesis
  proof (cases q)
    case (Inr plan)
    obtain x en ob tg t sl where "plan = (x, en, ob, tg, t, sl)" by (cases plan)
    then have a: "admit_reschedule W s u b rq now = Inr (Inr (x, en, ob, tg, t, sl))" using \<open>admit_reschedule W s u b rq now = Inr q\<close> Inr by simp
    note f = admit_reschedule_facts [OF a]
    have "sl_durationMinutes sl = 30" using slot_duration [OF f(6)] by (simp add: SLOT_DURATION_MINUTES_def)
    then show ?thesis using f(1,7) assms by simp
  qed (use Inr in \<open>simp add: rescheduleMyBooking_def\<close>)
qed (simp add: rescheduleMyBooking_def)

text \<open>An entitlement that is no longer open, and what is left of it: nothing.\<close>

definition spent :: "ident \<Rightarrow> db \<Rightarrow> bool" where
  "spent b s \<longleftrightarrow> (\<exists>e. entitlement_for s b = Some e \<and> en_outcome e \<noteq> EN_OPEN)"

lemma spent_refund: "spent b s \<Longrightarrow> refundEntitledBooking codes b a automatic now s = Inr (Refund_refused NO_OPEN_ENTITLEMENT, s)"
  by (auto simp: spent_def entitlement_for_def refundEntitledBooking_def tx_find_apply ret_apply)

lemma spent_reschedule:
  assumes "spent b s"
  shows "\<exists>f. rescheduleMyBooking W u b rq now s = (Inr (Booking_refused f), s)"
proof (cases "find (\<lambda>x. bk_id x = b \<and> bk_userId x = u) (booking s)")
  case None
  then show ?thesis by (simp add: rescheduleMyBooking_def admit_reschedule_def andthen_def require_def refuse_def)
next
  case (Some original)
  have "bk_id original = b" using find_SomeD [OF Some] by simp
  then have "admit_reschedule W s u b rq now = Inr (Inl noEntitlement)"
    using assms Some by (auto simp: spent_def usable_def admit_reschedule_def andthen_def require_def refuse_def refuse_when_def pass_def)
  then show ?thesis by (simp add: rescheduleMyBooking_def)
qed

text \<open>Each entitlement has its own id, and each booking at most one entitlement.\<close>

definition entitlements_ok :: "db \<Rightarrow> bool" where
  "entitlements_ok s \<longleftrightarrow> distinct (map en_id (bookingEntitlement s)) \<and> distinct (map en_bookingId (bookingEntitlement s))"

definition entitlement_keys :: "db \<Rightarrow> (ident \<times> ident) set" where
  "entitlement_keys s = (\<lambda>e. (en_id e, en_bookingId e)) ` set (bookingEntitlement s)"

lemma others_keep_keys:
  assumes "others_only W s s0" and "entitlements_ok s"
    and "\<And>n s. entitlements_ok s \<Longrightarrow> entitlements_ok (w_others W n s) \<and> entitlement_keys s \<subseteq> entitlement_keys (w_others W n s)"
  shows "entitlements_ok s0 \<and> entitlement_keys s \<subseteq> entitlement_keys s0"
  using assms(1,2) by (induction rule: others_only.induct) (use assms(3) in blast)+

lemma rescheduled_spent:
  assumes "reschedule_tx W u (original, en, ob, tg, t, sl) now n s0 = Inr (x, s')" and "entitlements_ok s0"
    and "(en_id en, b) \<in> entitlement_keys s0"
  shows "spent b s'"
proof -
  note r = reschedule_tx_result [OF assms(1)]
  let ?f = "\<lambda>e. e\<lparr>en_outcome := EN_RESCHEDULED, en_resolvedAt := Some now, en_rescheduledBookingId := Some x\<rparr>"
  from r(2) obtain e where e: "e \<in> set (bookingEntitlement s0)" "en_id e = en_id en" "usable e now" by blast
  from assms(3) obtain e' where e': "e' \<in> set (bookingEntitlement s0)" "en_id e' = en_id en" "en_bookingId e' = b" by (auto simp: entitlement_keys_def)
  have "e' = e" using distinct_key_eq [of en_id "bookingEntitlement s0" e' e] assms(2) e e' by (simp add: entitlements_ok_def)
  with e' have eb: "en_bookingId e = b" by simp
  have "?f e \<in> set (bookingEntitlement s')" unfolding r(3) using e by (auto simp: updateMany_def)
  moreover have "map en_bookingId (bookingEntitlement s') = map en_bookingId (bookingEntitlement s0)" unfolding r(3) by (simp add: map_updateMany_inv)
  ultimately have "find (\<lambda>z. en_bookingId z = en_bookingId (?f e)) (bookingEntitlement s') = Some (?f e)"
    using assms(2) by (intro distinct_find) (simp_all add: entitlements_ok_def)
  then show ?thesis using eb by (simp add: spent_def entitlement_for_def)
qed

lemma refunded_spent:
  assumes "refundMyBooking codes others u b now s = (Inr (Booking_ok c), s')"
  shows "spent b s'"
proof -
  obtain q s1 where t: "transaction (refundEntitledBooking codes b (Some u) False now) (others s) = (q, s1)" by fastforce
  with assms obtain p v z m where q: "q = Inr (Refunded p v z m)" and s1: "s' = s1"
    by (auto simp: refundMyBooking_def bindj_def retj_def readBooking_def split: if_splits sum.splits refundResult.splits refundRefusal.splits option.splits)
  have "refundEntitledBooking codes b (Some u) False now (others s) = Inr (Refunded p v z m, s')"
    using t unfolding q s1 by (simp add: transaction_eq_Inr)
  from refund_effect [OF this] obtain en where "find (\<lambda>e. en_bookingId e = b) (bookingEntitlement (others s)) = Some en"
    "bookingEntitlement s' = closed_entitlements (en_id en) now (bookingEntitlement (others s))" "en_outcome en = EN_OPEN"
    by (auto simp: refund_step_def)
  then show ?thesis by (simp add: spent_def entitlement_for_def find_closed)
qed

text \<open>
  C21: An entitlement is spent once. After a reschedule that succeeded, or a refund the customer
  was given, every further attempt on that booking, a refund by whomever or a reschedule to
  whatever slot, is refused and changes nothing, although other sessions may have been at work
  when it was spent.
\<close>

theorem entitlement_is_spent_once:
  assumes "rescheduleMyBooking W u b rq now s = (Inr (Booking_ok c), s') \<or> refundMyBooking codes others u b now s = (Inr (Booking_ok c), s')"
    and "entitlements_ok s"
    and "\<And>n s. entitlements_ok s \<Longrightarrow> entitlements_ok (w_others W n s) \<and> entitlement_keys s \<subseteq> entitlement_keys (w_others W n s)"
  shows "refundEntitledBooking codes' b actor automatic later s' = Inr (Refund_refused NO_OPEN_ENTITLEMENT, s')
    \<and> (\<exists>f. rescheduleMyBooking W' u' b rq' later s' = (Inr (Booking_refused f), s'))"
proof -
  have "spent b s'" using assms(1)
  proof
    assume "rescheduleMyBooking W u b rq now s = (Inr (Booking_ok c), s')"
    from reschedule_cases [OF this] obtain original en ob tg t sl n s0 x where
      a: "admit_reschedule W s u b rq now = Inr (Inr (original, en, ob, tg, t, sl))" and o: "others_only W s s0"
      and run: "reschedule_tx W u (original, en, ob, tg, t, sl) now n s0 = Inr (x, s')" by auto
    note f = admit_reschedule_facts [OF a]
    have "(en_id en, b) \<in> entitlement_keys s"
      using f(2) find_SomeD [OF f(1)] by (auto simp: entitlement_for_def entitlement_keys_def dest!: find_SomeD)
    with others_keep_keys [OF o assms(2,3)] show ?thesis by (intro rescheduled_spent [OF run]) auto
  qed (rule refunded_spent)
  then show ?thesis using spent_refund spent_reschedule by blast
qed

section \<open>Cancelling an unpaid booking\<close>

lemma releaseHeldSlot_result:
  assumes "releaseHeldSlot codes x reason now s = Inr (y, s')" and "bk_status x = BK_PENDING_PAYMENT"
  shows "booking s' = updateMany (\<lambda>z. bk_id z = bk_id x) (\<lambda>z. z\<lparr>bk_status := BK_CANCELLED\<rparr>) (booking s)"
proof -
  let ?t = "updateMany (\<lambda>z. bk_id z = bk_id x) (\<lambda>z. z\<lparr>bk_status := BK_CANCELLED\<rparr>) (booking s)"
  let ?tail = "bindt (give_back codes x now) (\<lambda>_. bindt (recordAuditEvent (release_audit x reason)) (\<lambda>_. ret True))"
  obtain s1 where tail: "?tail s1 = Inr (y, s')" and s1: "booking s1 = ?t"
    using assms unfolding releaseHeldSlot_def
    by (auto simp: throw_apply tx_update_apply bindt_ret bindt_steps split: option.splits if_splits)
  have "keeps (\<lambda>s. booking s = ?t) ?tail" by (intro keeps_intros keeps_outbox give_back_frame; simp)
  from keepsD [OF this s1 tail] show ?thesis .
qed

lemma cancel_tx_keeps: "keeps books_inv (cancel_tx codes owned reason now)"
  by (rule books_invI; unfold cancel_tx_def) (intro keeps_intros | simp)+

lemma cancel_tx_result:
  assumes run: "cancel_tx codes owned reason now s = Inr (r, s')" and "books_inv s"
  shows "case r of Booking_refused f \<Rightarrow> s' = s
    | Booking_ok c \<Rightarrow> cb_status c = BK_CANCELLED \<and> books_inv s'
        \<and> (\<exists>x \<in> set (booking s). bk_id x = bk_id owned \<and> bk_status x = BK_PENDING_PAYMENT)
        \<and> booking s' = updateMany (\<lambda>x. bk_id x = bk_id owned) (\<lambda>x. x\<lparr>bk_status := BK_CANCELLED\<rparr>) (booking s)"
proof (cases r)
  case (Booking_refused f)
  with run show ?thesis
    by (auto simp: cancel_tx_def tx_findOrThrow_apply ret_apply bindt_eq_Inr split: option.splits if_splits)
next
  case (Booking_ok c)
  from run Booking_ok obtain x y s1 z where x: "find (\<lambda>b. bk_id b = bk_id owned) (booking s) = Some x" "bk_status x = BK_PENDING_PAYMENT"
    and rel: "releaseHeldSlot codes x reason now s = Inr (y, s1)" and s': "s' = s1"
    and z: "find (\<lambda>b. bk_id b = bk_id owned) (booking s1) = Some z" "c = toContractBooking z None None"
    by (auto simp: cancel_tx_def tx_findOrThrow_apply ret_apply bindt_eq_Inr split: option.splits if_splits)
  have id: "bk_id x = bk_id owned" "x \<in> set (booking s)" using find_SomeD [OF x(1)] by simp_all
  note b = releaseHeldSlot_result [OF rel x(2), unfolded id(1)]
  have "z \<in> set (booking s1)" "bk_id z = bk_id owned" using find_SomeD [OF z(1)] by simp_all
  then have "cb_status c = BK_CANCELLED" unfolding b z(2) by (auto simp: updateMany_def toContractBooking_def split: if_splits)
  with keepsD [OF cancel_tx_keeps assms(2) run] b id x(2) s' Booking_ok show ?thesis by auto
qed

text \<open>
  C24: Only an unpaid booking of one's own is cancelled. A cancellation that is refused changes
  nothing; one that goes through had found the booking among the customer's own, found it waiting
  for its payment when it wrote, marks exactly that booking cancelled, and leaves the schedule and
  both ledgers sound. Nobody's booking is
  cancelled by somebody else.
\<close>

theorem only_unpaid_bookings_are_cancelled:
  assumes "cancelMyBooking codes others u b reason now s = (Inr r, s')" and "books_inv (others s)"
  shows "case r of Booking_refused f \<Rightarrow> s' = others s
    | Booking_ok c \<Rightarrow> cb_status c = BK_CANCELLED \<and> books_inv s'
        \<and> (\<exists>own \<in> set (booking s). bk_id own = b \<and> bk_userId own = u)
        \<and> (\<exists>x \<in> set (booking (others s)). bk_id x = b \<and> bk_status x = BK_PENDING_PAYMENT)
        \<and> booking s' = updateMany (\<lambda>x. bk_id x = b) (\<lambda>x. x\<lparr>bk_status := BK_CANCELLED\<rparr>) (booking (others s))"
proof -
  from assms(1) consider (missing) f where "r = Booking_refused f" "s' = others s"
    | (owned) owned where "find (\<lambda>x. bk_id x = b \<and> bk_userId x = u) (booking s) = Some owned"
        "cancel_tx codes owned (cancel_reason reason) now (others s) = Inr (r, s')"
    by (auto simp: cancelMyBooking_def transaction_eq_Inr split: option.splits)
  then show ?thesis
  proof cases
    case owned
    have b: "owned \<in> set (booking s)" "bk_id owned = b" "bk_userId owned = u" using find_SomeD [OF owned(1)] by simp_all
    with cancel_tx_result [OF owned(2) assms(2), unfolded b(2)] show ?thesis by (auto split: bookingResult.splits)
  qed simp
qed

section \<open>An example\<close>

text \<open>
  The member's session was lost to the weather; half an hour on the same telescope is free
  until the entitlement lapses. Another booking still waits for its payment.
\<close>

definition lost_booking :: booking_row where
  "lost_booking = paid_booking\<lparr>bk_id := ''b0'', bk_targetId := ''t1''\<rparr>"

definition open_entitlement :: entitlement_row where
  "open_entitlement = \<lparr>en_id = ''e0'', en_bookingId = ''b0'', en_userId = ''u1'', en_outcome = EN_OPEN,
     en_resolvedAt = None, en_rescheduledBookingId = None, en_cause = Some LOSS_WEATHER, en_minutesLost = 30, en_expiresAt = Some 900\<rparr>"

definition lost_db :: db where
  "lost_db = example_sale_db\<lparr>booking := [lost_booking], bookingEntitlement := [open_entitlement]\<rparr>"

definition example_choice :: rescheduleRequest where
  "example_choice = \<lparr>rr_targetId = None, rr_slotStartAt = Some 1788454800000\<rparr>"

lemma lost_tables [simp]:
  "booking lost_db = [lost_booking]" "bookingEntitlement lost_db = [open_entitlement]" "mission lost_db = []"
  "missionEvent lost_db = []" "emailNotification lost_db = []"
  "target lost_db = [albireo]" "observatory lost_db = [real_observatory]"
  "observatoryNetworkNode lost_db = observatoryNetworkNode example_site_db" "safetyEnvelope lost_db = safetyEnvelope example_site_db"
  "loyaltyAccount lost_db = loyaltyAccount example_sale_db" "loyaltyLedgerEntry lost_db = loyaltyLedgerEntry example_sale_db"
  "creditAccount lost_db = creditAccount example_sale_db" "creditLedger lost_db = creditLedger example_sale_db"
  by (simp_all add: lost_db_def example_sale_db_def example_site_db_def empty_db_def)

lemma site_tables: "observatory example_site_db = [real_observatory]" "target example_site_db = [albireo]"
  by (simp_all add: example_site_db_def empty_db_def)

lemma lost_booking_fields [simp]:
  "bk_id lost_booking = ''b0''" "bk_userId lost_booking = ''u1''" "bk_targetId lost_booking = ''t1''"
  "bk_observatoryId lost_booking = ''o1''" "bk_durationMinutes lost_booking = 30" "bk_status lost_booking = BK_CONFIRMED"
  "bk_slotStartAt lost_booking = 1000" "bk_idempotencyKey lost_booking = None" "bk_missionId lost_booking = None"
  "bk_loyaltyPointsRedeemed lost_booking = 0" "bk_subscriptionMinutesSpent lost_booking = 0"
  by (simp_all add: lost_booking_def paid_booking_def)

lemma lost_books: "books_inv lost_db" "entitlements_ok lost_db"
  using example_sale_books
  by (simp_all add: books_inv_def schedule_inv_def credit_inv_def loyalty_inv_def entitlements_ok_def)

lemma lost_free: "\<not> lapsed i t lost_booking"
    "\<not> booking_unique b lost_booking \<longleftrightarrow> bk_id b \<noteq> ''b0'' \<and> bk_paymentId b \<noteq> Some ''p1''"
    "held_slot_exclusion b lost_booking \<longleftrightarrow> bk_observatoryId b = ''o1'' \<and> bk_slotStartAt b < 2401000
       \<and> 1000 < bk_slotStartAt b + (bk_durationMinutes b + 10) * minute_ms"
  by (auto simp: lapsed_def held_slot_exclusion_def booking_unique_def const_simps) (simp_all add: lost_booking_def paid_booking_def)

lemma lost_usable: "usable open_entitlement 0" "en_id open_entitlement = ''e0''"
  by (simp_all add: usable_def open_entitlement_def)

lemma lost_admitted:
  obtains sl where "admit_reschedule example_world lost_db ''u1'' ''b0'' example_choice 0
      = Inr (Inr (lost_booking, open_entitlement, example_observatory, albireo, 1788454800000, sl))"
    "sl_durationMinutes sl = 30"
proof -
  obtain sl where sl: "findGeneratedSlot example_zone example_dark 1788454800000 example_observatory 0 30 = Inr (Some sl)"
    "sl_durationMinutes sl = 30" "sl_unavailableReason sl = None" by (rule example_slot)
  have ob: "findBookableObservatory lost_db ''o1'' = Some example_observatory"
    using example_bookable unfolding findBookableObservatory_def BOOKABLE_def lost_tables site_tables .
  have env: "loadSafetyEnvelope lost_db ''o1'' = Inr (Some measured_envelope)"
    using example_envelope unfolding loadSafetyEnvelope_def lost_tables site_tables .
  have st: "siteOf example_observatory = tbilisi" "state_of example_observatory = open_dome"
    by (simp_all add: siteOf_def state_of_def tbilisi_def)
  have "\<exists>v. evaluateSlotVisibility zenith_sky albireo tbilisi (Some measured_envelope) open_dome 1788454800000 30 = Inr v \<and> sv_observable v"
    unfolding evaluateSlotVisibility_def by (rule judge_samples_clear) (rule zenith_sample)
  then have vis: "targetNotObservableInSlot zenith_sky lost_db example_observatory albireo 1788454800000 30 = Inr (Inr ())"
    by (auto simp: targetNotObservableInSlot_def slotVisibilityForBooking_def env st andthen_def call_def refuse_when_def pass_def)
  have tg: "tg_id albireo = ''t1''" "tg_enabled albireo" "tg_expectedMissionMinutes albireo = 15" by (simp_all add: albireo_def)
  have "admit_reschedule example_world lost_db ''u1'' ''b0'' example_choice 0
      = Inr (Inr (lost_booking, open_entitlement, example_observatory, albireo, 1788454800000, sl))"
    using sl by (simp add: admit_reschedule_def andthen_def pass_def call_def require_def refuse_when_def example_choice_def ob tg vis
        entitlement_for_def usable_def open_entitlement_def targetTooLongForSlot_def reschedule_slot_refusal_def const_simps Let_def)
  with that sl show thesis by blast
qed

lemma rescheduled_clean: "offending_keys (au_metadata (rescheduled_audit u original m b)) = []"
proof -
  have "\<not> FORBIDDEN_DETAIL_KEYS ''rescheduledBookingId''" "\<not> FORBIDDEN_DETAIL_KEYS ''slotStartAt''"
    "\<not> FORBIDDEN_DETAIL_KEYS ''durationMinutes''" "\<not> FORBIDDEN_DETAIL_KEYS ''targetId''"
    by (simp_all add: guard_eval)
  then show ?thesis by (simp add: rescheduled_audit_def)
qed

lemma lost_rescheduled:
  "\<exists>c s'. rescheduleMyBooking example_world ''u1'' ''b0'' example_choice 0 lost_db = (Inr (Booking_ok c), s')"
proof -
  obtain sl where a: "admit_reschedule example_world lost_db ''u1'' ''b0'' example_choice 0
      = Inr (Inr (lost_booking, open_entitlement, example_observatory, albireo, 1788454800000, sl))"
    and sl: "sl_durationMinutes sl = 30" by (rule lost_admitted)
  let ?plan = "(lost_booking, open_entitlement, example_observatory, albireo, 1788454800000, sl)"
  have "\<exists>x s'. reschedule_tx example_world ''u1'' ?plan 0 2 lost_db = Inr (x, s')"
    by (simp add: reschedule_tx_def expireLapsedHolds_def createBooking_def claim_entitlement_def schedule_free_def free_booking_def
        booking_for_def tx_simps bindt_Inr lost_free lost_usable sl const_simps real_observatory_def
        rescheduled_clean)
  then obtain x s' where x: "reschedule_tx example_world ''u1'' ?plan 0 2 lost_db = Inr (x, s')" by blast
  from reschedule_tx_result(1) [OF x] obtain nb where nb: "nb \<in> set (booking s')" "bk_id nb = x" by blast
  then obtain y where y: "find (\<lambda>b. bk_id b = x) (booking s') = Some y" by (metis (mono_tags) find_None_iff option.exhaust)
  have "retryOnDeadlock (attempt_of example_world (reschedule_tx example_world ''u1'' ?plan 0)) lost_db = (Inr x, s')"
    by (rule second_attempt) (simp_all add: x)
  then show ?thesis using a y by (simp add: rescheduleMyBooking_def catchj_def bindj_def readBooking_def retj_def)
qed


theorem other_lengths_are_never_rescheduled_witness:
  "\<exists>r. rescheduleMyBooking example_world ''u1'' ''b0'' example_choice 0 (lost_db\<lparr>booking := [lost_booking\<lparr>bk_durationMinutes := 60\<rparr>]\<rparr>)
       = (r, lost_db\<lparr>booking := [lost_booking\<lparr>bk_durationMinutes := 60\<rparr>]\<rparr>)"
proof -
  let ?x = "lost_booking\<lparr>bk_durationMinutes := 60\<rparr>"
  have "find (\<lambda>x. bk_id x = ''b0'' \<and> bk_userId x = ''u1'') (booking (lost_db\<lparr>booking := [?x]\<rparr>)) = Some ?x"
    "bk_durationMinutes ?x \<noteq> 30" by simp_all
  from other_lengths_are_never_rescheduled [OF this, of example_world example_choice 0] show ?thesis by blast
qed

theorem entitlement_is_spent_once_witness:
  "\<exists>c s' f. rescheduleMyBooking example_world ''u1'' ''b0'' example_choice 0 lost_db = (Inr (Booking_ok c), s')
     \<and> refundEntitledBooking id ''b0'' None True 950 s' = Inr (Refund_refused NO_OPEN_ENTITLEMENT, s')
     \<and> rescheduleMyBooking example_world ''u1'' ''b0'' example_choice 800 s' = (Inr (Booking_refused f), s')"
proof -
  obtain c s' where r: "rescheduleMyBooking example_world ''u1'' ''b0'' example_choice 0 lost_db = (Inr (Booking_ok c), s')"
    using lost_rescheduled by blast
  have "refundEntitledBooking id ''b0'' None True 950 s' = Inr (Refund_refused NO_OPEN_ENTITLEMENT, s')"
    "\<exists>f. rescheduleMyBooking example_world ''u1'' ''b0'' example_choice 800 s' = (Inr (Booking_refused f), s')"
    using entitlement_is_spent_once [OF disjI1 [OF r] lost_books(2)] by simp_all
  with r show ?thesis by blast
qed

lemma sale_prizes: "cardPrize example_sale_db = []"
  by (simp add: example_sale_db_def example_site_db_def empty_db_def)

theorem only_unpaid_bookings_are_cancelled_witness:
  "\<exists>c s'. cancelMyBooking id id ''u1'' ''b0'' (Some ''rain'') 0
       (example_sale_db\<lparr>booking := [lost_booking\<lparr>bk_status := BK_PENDING_PAYMENT, bk_paymentId := None\<rparr>]\<rparr>) = (Inr (Booking_ok c), s')
     \<and> cb_status c = BK_CANCELLED \<and> map bk_status (booking s') = [BK_CANCELLED]"
proof -
  let ?x = "lost_booking\<lparr>bk_status := BK_PENDING_PAYMENT, bk_paymentId := None\<rparr>"
  let ?s = "example_sale_db\<lparr>booking := [?x]\<rparr>"
  have "books_inv ?s" using example_sale_books
    by (simp add: books_inv_def schedule_inv_def credit_inv_def loyalty_inv_def)
  moreover have "\<exists>c s'. cancelMyBooking id id ''u1'' ''b0'' (Some ''rain'') 0 ?s = (Inr (Booking_ok c), s')"
    by (simp add: cancelMyBooking_def transaction_def cancel_tx_def releaseHeldSlot_def give_back_def releaseRedeemedPoints_def
        releaseSpentMinutes_def releaseCardPrize_def release_audit_def bindt_Inr sale_prizes tx_simps)
  then obtain c s' where r: "cancelMyBooking id id ''u1'' ''b0'' (Some ''rain'') 0 ?s = (Inr (Booking_ok c), s')" by blast
  ultimately show ?thesis using only_unpaid_bookings_are_cancelled [OF r] by auto
qed

end
