(* ===== verification/Card_Draw.thy ===== *)
theory Card_Draw
  imports Reserve
begin

text \<open>
  The weekly card draw, src/apps/api/src/features/cards/draw.ts, with the calendar of
  src/apps/api/src/features/votes/week.ts it deals by. Spending a prize is in Card_Prizes.

  \<open>dice\<close> is the source of random integers: \<open>dice n bound\<close> is what the n-th call of the deal
  returns. The identifiers and creation times the database and \<open>randomUUID\<close> choose, the HMAC and
  SHA-256 are arguments; \<open>others\<close> is what other sessions commit between the reads of a request
  and its transaction. \<open>parts\<close> gives the wall clock of a time zone.
\<close>

section \<open>Weeks (week.ts)\<close>

definition localDateOf :: "(string \<Rightarrow> time \<Rightarrow> wall_parts) \<Rightarrow> time \<Rightarrow> string \<Rightarrow> local_date" where
  "localDateOf parts t timeZone = localDate (parts timeZone) t"

text \<open>The instant of a calendar date's midnight in UTC, and the date of an instant.\<close>

fun midnight_utc :: "local_date \<Rightarrow> time" where
  "midnight_utc (y, m, d) = MakeDay y (m - 1) d * day_ms"

definition utc_date :: "time \<Rightarrow> local_date" where
  "utc_date t = (year_of (Day t), month_of (Day t) + 1, date_of (Day t))"

definition weekOf :: "local_date \<Rightarrow> local_date" where
  "weekOf date =
     (let t = midnight_utc date; sinceMonday = (WeekDay (Day t) + 6) mod 7
      in utc_date (t - sinceMonday * day_ms))"

definition addDays :: "local_date \<Rightarrow> int \<Rightarrow> local_date" where
  "addDays date days = utc_date (midnight_utc date + days * day_ms)"

section \<open>Odds (draw.ts)\<close>

definition BASIS_POINTS :: int where "BASIS_POINTS = 10000"

fun PRIZE_OF :: "cardRarity \<Rightarrow> prizeKind option" where
  "PRIZE_OF CR_LEGENDARY = Some FREE_SLOT"
| "PRIZE_OF CR_EPIC = Some OBSERVER_SEAT"
| "PRIZE_OF CR_RARE = Some DISCOUNT"
| "PRIZE_OF CR_COMMON = None"

definition rarityOfRoll :: "cardDrawScheme_row \<Rightarrow> int \<Rightarrow> cardRarity" where
  "rarityOfRoll scheme roll =
     (let edge = cs_freeSlotChanceBp scheme in if roll < edge then CR_LEGENDARY
      else let edge = edge + cs_observerSeatChanceBp scheme in if roll < edge then CR_EPIC
      else let edge = edge + cs_discountChanceBp scheme in if roll < edge then CR_RARE
      else CR_COMMON)"

definition readCardDrawScheme :: "db \<Rightarrow> exn + cardDrawScheme_row" where
  "readCardDrawScheme s = (case find (\<lambda>x. cs_id x = 1) (cardDrawScheme s) of None \<Rightarrow> Inl NotFoundError | Some x \<Rightarrow> Inr x)"

record cardDrawOdds =
  od_cards :: "(cardRarity \<times> prizeKind option \<times> real) list"
  od_freeSlotsPerWeek :: int
  od_freeSlotDurationMinutes :: int
  od_discountPercentOff :: int
  od_prizeValidDays :: int

definition toContractOdds :: "cardDrawScheme_row \<Rightarrow> cardDrawOdds" where
  "toContractOdds scheme =
     (let common = BASIS_POINTS - cs_freeSlotChanceBp scheme - cs_observerSeatChanceBp scheme - cs_discountChanceBp scheme;
          chances = [(CR_LEGENDARY, cs_freeSlotChanceBp scheme), (CR_EPIC, cs_observerSeatChanceBp scheme),
                     (CR_RARE, cs_discountChanceBp scheme), (CR_COMMON, common)]
      in \<lparr>od_cards = map (\<lambda>(rarity, bp). (rarity, PRIZE_OF rarity, of_int bp / of_int BASIS_POINTS)) chances,
          od_freeSlotsPerWeek = cs_freeSlotsPerWeek scheme, od_freeSlotDurationMinutes = SLOT_DURATION_MINUTES,
          od_discountPercentOff = cs_discountPercentOff scheme, od_prizeValidDays = cs_prizeValidDays scheme\<rparr>)"

definition readCardDrawOdds :: "db \<Rightarrow> exn + cardDrawOdds" where
  "readCardDrawOdds s = (case readCardDrawScheme s of Inl e \<Rightarrow> Inl e | Inr x \<Rightarrow> Inr (toContractOdds x))"

section \<open>What a client sees (draw.ts)\<close>

datatype shownPrizeStatus = SHOWN_EXPIRED | SHOWN prizeStatus

record contractPrize =
  cp_id :: ident
  cp_kind :: prizeKind
  cp_status :: shownPrizeStatus
  cp_observatoryId :: ident
  cp_voucherCode :: "string option"
  cp_codeLast4 :: string
  cp_durationMinutes :: "int option"
  cp_percentOff :: "int option"
  cp_expiresAt :: string
  cp_redeemedBookingId :: "ident option"
  cp_redeemedObserverPackId :: "ident option"
  cp_createdAt :: string

type_synonym hmac = "string \<Rightarrow> string \<Rightarrow> 8 word list"

definition toContractPrize :: "hmac \<Rightarrow> cardPrize_row \<Rightarrow> string \<Rightarrow> time \<Rightarrow> contractPrize" where
  "toContractPrize hmac row secret now =
     (let expired = pz_status row = PZ_ACTIVE \<and> pz_expiresAt row \<le> now;
          status = (if expired then SHOWN_EXPIRED else SHOWN (pz_status row))
      in \<lparr>cp_id = pz_id row, cp_kind = pz_kind row, cp_status = status, cp_observatoryId = pz_observatoryId row,
          cp_voucherCode = (if status = SHOWN PZ_ACTIVE then Some (deriveCardPrizeCode hmac secret (pz_id row)) else None),
          cp_codeLast4 = pz_codeLast4 row, cp_durationMinutes = pz_durationMinutes row, cp_percentOff = pz_percentOff row,
          cp_expiresAt = toISOString (pz_expiresAt row), cp_redeemedBookingId = pz_redeemedBookingId row,
          cp_redeemedObserverPackId = pz_redeemedObserverPackId row, cp_createdAt = toISOString (pz_createdAt row)\<rparr>)"

text \<open>A deal with its cards in order of position and its prize: \<open>DRAW_INCLUDE\<close>.\<close>

definition cards_of :: "db \<Rightarrow> ident \<Rightarrow> cardDrawCard_row list" where
  "cards_of s drawId = sort_key cc_position (filter (\<lambda>c. cc_drawId c = drawId) (cardDrawCard s))"

definition prize_of_draw :: "db \<Rightarrow> ident \<Rightarrow> cardPrize_row option" where
  "prize_of_draw s drawId = find (\<lambda>p. pz_drawId p = drawId) (cardPrize s)"

record contractCard =
  ct_position :: int
  ct_turned :: bool
  ct_rarity :: "cardRarity option"
  ct_targetSlug :: "string option"
  ct_prize :: "contractPrize option"

record contractDraw =
  ctd_id :: ident
  ctd_observatoryId :: ident
  ctd_week :: string
  ctd_dealtAt :: string
  ctd_opensNextAt :: string
  ctd_picked :: "int option"
  ctd_pickedAt :: "string option"
  ctd_cards :: "contractCard list"
  ctd_odds :: cardDrawOdds

definition slug_of :: "db \<Rightarrow> ident option \<Rightarrow> string option" where
  "slug_of s targetId = (case targetId of None \<Rightarrow> None | Some i \<Rightarrow> map_option tg_slug (find (\<lambda>t. tg_id t = i) (target s)))"

definition toContractCard :: "hmac \<Rightarrow> db \<Rightarrow> cardDraw_row \<Rightarrow> string \<Rightarrow> time \<Rightarrow> cardDrawCard_row \<Rightarrow> contractCard" where
  "toContractCard hmac s row secret now c =
     (let turned = cd_pickedPosition row \<noteq> None
      in \<lparr>ct_position = cc_position c, ct_turned = turned,
          ct_rarity = (if turned then Some (cc_rarity c) else None),
          ct_targetSlug = (if turned then slug_of s (cc_targetId c) else None),
          ct_prize = (if turned \<and> Some (cc_position c) = cd_pickedPosition row
             then map_option (\<lambda>p. toContractPrize hmac p secret now) (prize_of_draw s (cd_id row)) else None)\<rparr>)"

definition week_text :: "time \<Rightarrow> string" where
  "week_text week = take 10 (toISOString week)"

definition toContractDraw :: "hmac \<Rightarrow> db \<Rightarrow> cardDraw_row \<Rightarrow> cardDrawScheme_row \<Rightarrow> string \<Rightarrow> time \<Rightarrow> contractDraw" where
  "toContractDraw hmac s row scheme secret now =
     \<lparr>ctd_id = cd_id row, ctd_observatoryId = cd_observatoryId row, ctd_week = week_text (cd_week row),
      ctd_dealtAt = toISOString (cd_createdAt row), ctd_opensNextAt = toISOString (cd_closesAt row),
      ctd_picked = cd_pickedPosition row, ctd_pickedAt = map_option toISOString (cd_pickedAt row),
      ctd_cards = map (toContractCard hmac s row secret now) (cards_of s (cd_id row)), ctd_odds = toContractOdds scheme\<rparr>"

section \<open>Dealing (draw.ts)\<close>

datatype cardDrawRefusal = DRAW_NOT_FOUND | DRAW_NOT_CONFIGURED | DRAW_ALREADY_PICKED | DRAW_CLOSED
datatype cardDrawResult = Draw_ok contractDraw | Draw_refused cardDrawRefusal

definition findDrawObservatory :: "db \<Rightarrow> ident \<Rightarrow> bookableObservatory option" where
  "findDrawObservatory s observatoryId =
     (case findBookableObservatory s observatoryId of None \<Rightarrow> None
      | Some ob \<Rightarrow> if list_ex (\<lambda>n. nn_observatoryId n = observatoryId \<and> nn_kind n = NODE_FIRST_PARTY) (observatoryNetworkNode s)
                   then Some ob else None)"

definition takeFreeSlot :: "ident \<Rightarrow> time \<Rightarrow> int \<Rightarrow> (db, bool) tx" where
  "takeFreeSlot observatoryId week cap =
     bindt (tx_createSkip cardDrawWeek cardDrawWeek_update
        (\<lambda>new old. cw_observatoryId new = cw_observatoryId old \<and> cw_week new = cw_week old)
        \<lparr>cw_observatoryId = observatoryId, cw_week = week, cw_freeSlotsHeld = 0\<rparr>) (\<lambda>_.
     bindt (tx_updateMany cardDrawWeek cardDrawWeek_update
        (\<lambda>w. cw_observatoryId w = observatoryId \<and> cw_week w = week \<and> cw_freeSlotsHeld w < cap)
        (\<lambda>w. w\<lparr>cw_freeSlotsHeld := cw_freeSlotsHeld w + 1\<rparr>)) (\<lambda>taken. ret (taken = 1)))"

text \<open>The loop over the positions of a deal, with the rarities and the capped cards so far.\<close>

fun deal_rarities ::
  "cardDrawScheme_row \<Rightarrow> (nat \<Rightarrow> int \<Rightarrow> int) \<Rightarrow> ident \<Rightarrow> time \<Rightarrow> nat list \<Rightarrow> cardRarity list \<Rightarrow> int \<Rightarrow> (db, cardRarity list \<times> int) tx" where
  "deal_rarities scheme dice observatoryId week [] rarities capped = ret (rarities, capped)"
| "deal_rarities scheme dice observatoryId week (p # ps) rarities capped =
     (let rarity = rarityOfRoll scheme (dice p BASIS_POINTS)
      in if rarity = CR_LEGENDARY
         then bindt (takeFreeSlot observatoryId week (cs_freeSlotsPerWeek scheme)) (\<lambda>held.
              if held then deal_rarities scheme dice observatoryId week ps (rarities @ [rarity]) capped
              else deal_rarities scheme dice observatoryId week ps (rarities @ [CR_RARE]) (capped + 1))
         else deal_rarities scheme dice observatoryId week ps (rarities @ [rarity]) capped)"

text \<open>The faces: taken out of the pool while it lasts (\<open>splice\<close>), then any target, then none.\<close>

fun deal_faces :: "(nat \<Rightarrow> int \<Rightarrow> int) \<Rightarrow> ident list \<Rightarrow> nat list \<Rightarrow> ident list \<Rightarrow> ident option list" where
  "deal_faces dice targets [] pool = []"
| "deal_faces dice targets (p # ps) [] =
     (if targets = [] then None else Some (targets ! nat (dice p (int (length targets))))) # deal_faces dice targets ps []"
| "deal_faces dice targets (p # ps) (t # ts) =
     (let pool = t # ts; k = nat (dice p (int (length pool)))
      in Some (pool ! k) # deal_faces dice targets ps (take k pool @ drop (Suc k) pool))"

fun rarity_text :: "cardRarity \<Rightarrow> string" where
  "rarity_text CR_LEGENDARY = ''LEGENDARY''"
| "rarity_text CR_EPIC = ''EPIC''"
| "rarity_text CR_RARE = ''RARE''"
| "rarity_text CR_COMMON = ''COMMON''"

definition dealt_audit :: "cardDraw_row \<Rightarrow> cardRarity list \<Rightarrow> int \<Rightarrow> auditLog_row" where
  "dealt_audit draw rarities capped =
     (audit_entry CARD_DRAW ''CARD_DRAW_DEALT''
        [(''observatoryId'', JStr (cd_observatoryId draw)), (''week'', JStr (week_text (cd_week draw))),
         (''card0'', JStr (rarity_text (rarities ! 0))), (''card1'', JStr (rarity_text (rarities ! 1))),
         (''card2'', JStr (rarity_text (rarities ! 2))), (''freeSlotsCapped'', JNum capped)])
     \<lparr>au_actorUserId := Some (cd_userId draw), au_entityType := Some ''CardDraw'', au_entityId := Some (cd_id draw),
      au_isDemo := cd_isDemo draw\<rparr>"

text \<open>The unique columns of a deal: its id, and (user, observatory, week).\<close>

definition draw_conflict :: "cardDraw_row \<Rightarrow> cardDraw_row \<Rightarrow> bool" where
  "draw_conflict new old \<longleftrightarrow> cd_id new = cd_id old
     \<or> (cd_userId new = cd_userId old \<and> cd_observatoryId new = cd_observatoryId old \<and> cd_week new = cd_week old)"

fun dealt_cards :: "ident \<Rightarrow> int \<Rightarrow> cardRarity list \<Rightarrow> ident option list \<Rightarrow> cardDrawCard_row list" where
  "dealt_cards drawId position (r # rs) (f # fs) =
     \<lparr>cc_drawId = drawId, cc_position = position, cc_rarity = r, cc_targetId = f\<rparr> # dealt_cards drawId (position + 1) rs fs"
| "dealt_cards drawId position _ _ = []"

definition create_draw :: "cardDraw_row \<Rightarrow> cardDrawCard_row list \<Rightarrow> (db, unit) tx" where
  "create_draw draw cards =
     bindt (tx_create cardDraw cardDraw_update draw_conflict draw) (\<lambda>_.
     for_each cards (\<lambda>c. bindt (tx_create cardDrawCard cardDrawCard_update
        (\<lambda>new old. cc_drawId new = cc_drawId old \<and> cc_position new = cc_position old) c) (\<lambda>_. ret ())))"

record dealing =
  dl_userId :: ident
  dl_observatory :: bookableObservatory
  dl_weekIso :: local_date
  dl_scheme :: cardDrawScheme_row
  dl_targets :: "ident list"

definition deal_week :: "dealing \<Rightarrow> time" where
  "deal_week d = midnight_utc (dl_weekIso d)"

definition new_draw :: "ident \<Rightarrow> time \<Rightarrow> dealing \<Rightarrow> time \<Rightarrow> cardDraw_row" where
  "new_draw newId createdAt d closesAt =
     \<lparr>cd_id = newId, cd_userId = dl_userId d, cd_observatoryId = bo_id (dl_observatory d), cd_week = deal_week d,
      cd_closesAt = closesAt, cd_pickedPosition = None, cd_pickedAt = None, cd_pickIdempotencyKey = None,
      cd_isDemo = bo_isDemo (dl_observatory d), cd_createdAt = createdAt\<rparr>"

definition deal_tx ::
  "(string \<Rightarrow> time \<Rightarrow> wall_parts) \<Rightarrow> (nat \<Rightarrow> int \<Rightarrow> int) \<Rightarrow> ident \<Rightarrow> time \<Rightarrow> dealing \<Rightarrow> (db, cardDraw_row) tx" where
  "deal_tx parts dice newId createdAt d =
     bindt (deal_rarities (dl_scheme d) dice (bo_id (dl_observatory d)) (deal_week d) [0, 1, 2] [] 0) (\<lambda>(rarities, capped).
     let faces = deal_faces dice (dl_targets d) [3, 4, 5] (dl_targets d) in
     case localWallClockToUtc (parts (bo_timezone (dl_observatory d))) (addDays (dl_weekIso d) 7) 0 of
       Inl e \<Rightarrow> throw e
     | Inr closesAt \<Rightarrow>
        let draw = new_draw newId createdAt d closesAt in
        bindt (create_draw draw (dealt_cards newId 0 rarities faces)) (\<lambda>_.
        bindt (recordAuditEvent (dealt_audit draw rarities capped)) (\<lambda>_. ret draw)))"

definition draw_of :: "db \<Rightarrow> ident \<Rightarrow> ident \<Rightarrow> time \<Rightarrow> cardDraw_row option" where
  "draw_of s userId observatoryId week =
     find (\<lambda>x. cd_userId x = userId \<and> cd_observatoryId x = observatoryId \<and> cd_week x = week) (cardDraw s)"

record cardWorld =
  cwd_hmac :: hmac
  cwd_sha256 :: "string \<Rightarrow> string"
  cwd_secret :: "string option"
  cwd_parts :: "string \<Rightarrow> time \<Rightarrow> wall_parts"
  cwd_dice :: "nat \<Rightarrow> int \<Rightarrow> int"
  cwd_newId :: ident
  cwd_createdAt :: time
  cwd_others :: "db \<Rightarrow> db"

text \<open>The answer with a deal, and the \<open>try\<close> around dealing: whoever dealt first, that is the deal.\<close>

definition show_draw :: "cardWorld \<Rightarrow> cardDrawScheme_row \<Rightarrow> time \<Rightarrow> cardDraw_row \<Rightarrow> (db, cardDrawResult) job" where
  "show_draw W scheme now row = readsj (\<lambda>s. Draw_ok (toContractDraw (cwd_hmac W) s row scheme (the (cwd_secret W)) now))"

definition deal_current :: "cardWorld \<Rightarrow> time \<Rightarrow> dealing \<Rightarrow> (db, cardDrawResult) job" where
  "deal_current W now d =
     catchj (bindj (transaction (deal_tx (cwd_parts W) (cwd_dice W) (cwd_newId W) (cwd_createdAt W) d)) (show_draw W (dl_scheme d) now))
       (\<lambda>e s. if e \<noteq> SqlError ''23505'' then (Inl e, s)
          else (case draw_of s (dl_userId d) (bo_id (dl_observatory d)) (deal_week d) of
                  None \<Rightarrow> (Inl NotFoundError, s) | Some raced \<Rightarrow> show_draw W (dl_scheme d) now raced s))"

definition readCurrentCardDraw :: "cardWorld \<Rightarrow> ident \<Rightarrow> ident \<Rightarrow> time \<Rightarrow> (db, cardDrawResult) job" where
  "readCurrentCardDraw W userId observatoryId now = (\<lambda>s.
     if \<not> truthy (cwd_secret W) then (Inr (Draw_refused DRAW_NOT_CONFIGURED), s)
     else (case (findDrawObservatory s observatoryId, readCardDrawScheme s) of
       (None, _) \<Rightarrow> (Inr (Draw_refused DRAW_NOT_FOUND), s)
     | (Some ob, Inl e) \<Rightarrow> (Inl e, s)
     | (Some ob, Inr scheme) \<Rightarrow>
        (let d = \<lparr>dl_userId = userId, dl_observatory = ob, dl_weekIso = weekOf (localDateOf (cwd_parts W) now (bo_timezone ob)),
               dl_scheme = scheme, dl_targets = map tg_id (sort_key tg_slug (filter tg_enabled (target s)))\<rparr>
         in case draw_of s userId (bo_id ob) (deal_week d) of
             Some existing \<Rightarrow> show_draw W scheme now existing s
           | None \<Rightarrow> deal_current W now d (cwd_others W s))))"

section \<open>Picking (draw.ts)\<close>

definition prize_won :: "cardWorld \<Rightarrow> string \<Rightarrow> cardDraw_row \<Rightarrow> prizeKind \<Rightarrow> cardDrawScheme_row \<Rightarrow> time \<Rightarrow> cardPrize_row" where
  "prize_won W secret draw kind scheme now =
     (let code = deriveCardPrizeCode (cwd_hmac W) secret (cwd_newId W)
      in \<lparr>pz_id = cwd_newId W, pz_drawId = cd_id draw, pz_userId = cd_userId draw, pz_observatoryId = cd_observatoryId draw,
          pz_kind = kind, pz_status = PZ_ACTIVE, pz_codeHash = hashVoucherCode (cwd_sha256 W) code, pz_codeLast4 = voucherCodeLast4 code,
          pz_durationMinutes = (if kind = FREE_SLOT then Some SLOT_DURATION_MINUTES else None),
          pz_percentOff = (if kind = DISCOUNT then Some (cs_discountPercentOff scheme) else None),
          pz_expiresAt = now + cs_prizeValidDays scheme * day_ms, pz_redeemedAt = None, pz_redeemedBookingId = None,
          pz_redeemedObserverPackId = None, pz_isDemo = cd_isDemo draw, pz_createdAt = cwd_createdAt W\<rparr>)"

text \<open>The unique columns of a prize: id, deal and code.\<close>

definition prize_conflict :: "cardPrize_row \<Rightarrow> cardPrize_row \<Rightarrow> bool" where
  "prize_conflict new old \<longleftrightarrow> pz_id new = pz_id old \<or> pz_drawId new = pz_drawId old \<or> pz_codeHash new = pz_codeHash old"

definition issue_prize :: "cardWorld \<Rightarrow> string \<Rightarrow> cardDraw_row \<Rightarrow> cardDrawScheme_row \<Rightarrow> time \<Rightarrow> cardRarity \<Rightarrow> (db, cardPrize_row option) tx" where
  "issue_prize W secret draw scheme now rarity =
     (case PRIZE_OF rarity of None \<Rightarrow> ret None
      | Some kind \<Rightarrow>
         bindt (tx_create cardPrize cardPrize_update prize_conflict (prize_won W secret draw kind scheme now)) (\<lambda>p.
         bindt (queueEmail (email (cd_userId draw) MAIL_CARD_PRIZE_WON (''card-prize-won:'' @ pz_id p) [(''cardPrizeId'', pz_id p)])) (\<lambda>_.
         ret (Some p))))"

definition return_free_slots :: "cardDraw_row \<Rightarrow> int \<Rightarrow> (db, unit) tx" where
  "return_free_slots draw unchosen =
     (if 0 < unchosen
      then bindt (tx_updateMany cardDrawWeek cardDrawWeek_update
             (\<lambda>w. cw_observatoryId w = cd_observatoryId draw \<and> cw_week w = cd_week draw)
             (\<lambda>w. w\<lparr>cw_freeSlotsHeld := max (cw_freeSlotsHeld w - unchosen) 0\<rparr>)) (\<lambda>_. ret ())
      else ret ())"

fun prize_kind_text :: "prizeKind \<Rightarrow> string" where
  "prize_kind_text FREE_SLOT = ''FREE_SLOT''"
| "prize_kind_text OBSERVER_SEAT = ''OBSERVER_SEAT''"
| "prize_kind_text DISCOUNT = ''DISCOUNT''"

definition picked_audit :: "cardDraw_row \<Rightarrow> int \<Rightarrow> cardRarity \<Rightarrow> cardPrize_row option \<Rightarrow> int \<Rightarrow> auditLog_row" where
  "picked_audit draw position rarity prize returned =
     (audit_entry CARD_DRAW ''CARD_DRAW_PICKED''
        [(''position'', JNum position), (''rarity'', JStr (rarity_text rarity)),
         (''prizeId'', json_opt (map_option pz_id prize)),
         (''prizeKind'', json_opt (map_option (\<lambda>p. prize_kind_text (pz_kind p)) prize)),
         (''prizeExpiresAt'', json_opt (map_option (\<lambda>p. toISOString (pz_expiresAt p)) prize)),
         (''freeSlotsReturned'', JNum returned)])
     \<lparr>au_actorUserId := Some (cd_userId draw), au_entityType := Some ''CardDraw'', au_entityId := Some (cd_id draw),
      au_isDemo := cd_isDemo draw\<rparr>"

definition unchosen_free_slots :: "cardDrawCard_row list \<Rightarrow> int \<Rightarrow> int" where
  "unchosen_free_slots cards position =
     int (length (filter (\<lambda>c. cc_position c \<noteq> position \<and> cc_rarity c = CR_LEGENDARY) cards))"

text \<open>Turning a card: the transaction once the deal is found open. No card at the position is a \<open>TypeError\<close>.\<close>

definition turn_card :: "cardWorld \<Rightarrow> string \<Rightarrow> cardDrawScheme_row \<Rightarrow> cardDraw_row \<Rightarrow> cardDrawCard_row list \<Rightarrow> int \<Rightarrow> string option \<Rightarrow> time \<Rightarrow> (db, unit) tx" where
  "turn_card W secret scheme draw cards position key now =
     bindt (tx_update cardDraw cardDraw_update (\<lambda>x. cd_id x = cd_id draw)
        (\<lambda>x. x\<lparr>cd_pickedPosition := Some position, cd_pickedAt := Some now, cd_pickIdempotencyKey := key\<rparr>)) (\<lambda>_.
     case find (\<lambda>c. cc_position c = position) cards of None \<Rightarrow> throw (JsError ''TypeError'')
     | Some c \<Rightarrow>
        bindt (issue_prize W secret draw scheme now (cc_rarity c)) (\<lambda>prize.
        bindt (return_free_slots draw (unchosen_free_slots cards position)) (\<lambda>_.
        recordAuditEvent (picked_audit draw position (cc_rarity c) prize (unchosen_free_slots cards position)))))"

definition pick_tx :: "cardWorld \<Rightarrow> string \<Rightarrow> cardDrawScheme_row \<Rightarrow> ident \<Rightarrow> ident \<Rightarrow> int \<Rightarrow> string option \<Rightarrow> time \<Rightarrow> (db, cardDrawResult) tx" where
  "pick_tx W secret scheme userId drawId position key now =
     bindt (tx_find cardDraw (\<lambda>x. cd_id x = drawId \<and> cd_userId x = userId)) (\<lambda>found.
     case found of None \<Rightarrow> ret (Draw_refused DRAW_NOT_FOUND)
     | Some draw \<Rightarrow>
        if cd_pickedPosition draw \<noteq> None
        then if key \<noteq> None \<and> key = cd_pickIdempotencyKey draw
             then bindt (reads (\<lambda>s. toContractDraw (cwd_hmac W) s draw scheme secret now)) (\<lambda>c. ret (Draw_ok c))
             else ret (Draw_refused DRAW_ALREADY_PICKED)
        else if cd_closesAt draw \<le> now then ret (Draw_refused DRAW_CLOSED)
        else bindt (reads (\<lambda>s. cards_of s drawId)) (\<lambda>cards.
             bindt (turn_card W secret scheme draw cards position key now) (\<lambda>_.
             bindt (tx_findOrThrow cardDraw (\<lambda>x. cd_id x = drawId)) (\<lambda>picked.
             bindt (reads (\<lambda>s. toContractDraw (cwd_hmac W) s picked scheme secret now)) (\<lambda>c. ret (Draw_ok c))))))"

definition pickCard :: "cardWorld \<Rightarrow> ident \<Rightarrow> ident \<Rightarrow> int \<Rightarrow> string option \<Rightarrow> time \<Rightarrow> (db, cardDrawResult) job" where
  "pickCard W userId drawId position key now = (\<lambda>s.
     if \<not> truthy (cwd_secret W) then (Inr (Draw_refused DRAW_NOT_CONFIGURED), s)
     else case readCardDrawScheme s of Inl e \<Rightarrow> (Inl e, s)
     | Inr scheme \<Rightarrow> transaction (pick_tx W (the (cwd_secret W)) scheme userId drawId position key now) (cwd_others W s))"

definition listMyCardPrizes :: "hmac \<Rightarrow> string option \<Rightarrow> db \<Rightarrow> ident \<Rightarrow> time \<Rightarrow> contractPrize list option" where
  "listMyCardPrizes hmac secret s userId now =
     (if \<not> truthy secret then None
      else Some (map (\<lambda>row. toContractPrize hmac row (the secret) now)
             (rev (sort_key pz_createdAt (sort_key pz_id (filter (\<lambda>p. pz_userId p = userId) (cardPrize s)))))))"

end
