(* ===== verification/Card_Draw_Correct.thy ===== *)
theory Card_Draw_Correct
  imports Card_Draw
begin

text \<open>
  What the card draw promises: the published odds are the odds of a card, the free slots of a
  week never exceed its cap however deals and picks interleave, and a pick turns the card that
  was dealt, once.
\<close>

section \<open>The odds\<close>

lemma card_int_range: "{r :: int. 0 \<le> r \<and> r < n \<and> a \<le> r \<and> r < b} = {max 0 a ..< min n b}"
  by auto

lemma rolls_of_rarity:
  assumes "0 \<le> cs_freeSlotChanceBp sch" and "0 \<le> cs_observerSeatChanceBp sch" and "0 \<le> cs_discountChanceBp sch"
  defines "e1 \<equiv> cs_freeSlotChanceBp sch" and "e2 \<equiv> cs_freeSlotChanceBp sch + cs_observerSeatChanceBp sch"
    and "e3 \<equiv> cs_freeSlotChanceBp sch + cs_observerSeatChanceBp sch + cs_discountChanceBp sch"
  assumes "e3 \<le> BASIS_POINTS"
  shows "{r. 0 \<le> r \<and> r < BASIS_POINTS \<and> rarityOfRoll sch r = CR_LEGENDARY} = {0 ..< e1}"
    "{r. 0 \<le> r \<and> r < BASIS_POINTS \<and> rarityOfRoll sch r = CR_EPIC} = {e1 ..< e2}"
    "{r. 0 \<le> r \<and> r < BASIS_POINTS \<and> rarityOfRoll sch r = CR_RARE} = {e2 ..< e3}"
    "{r. 0 \<le> r \<and> r < BASIS_POINTS \<and> rarityOfRoll sch r = CR_COMMON} = {e3 ..< BASIS_POINTS}"
  using assms by (auto simp: rarityOfRoll_def Let_def split: if_splits)

text \<open>
  The odds a customer is shown are the odds of a card. Of the ten thousand rolls there are,
  the ones that give each rarity are exactly the share that is published for it, whatever chances
  the scheme sets, as long as they are not negative and do not exceed the whole; and every rarity
  is published once.
\<close>

theorem published_odds_are_the_odds:
  assumes "0 \<le> cs_freeSlotChanceBp sch" and "0 \<le> cs_observerSeatChanceBp sch" and "0 \<le> cs_discountChanceBp sch"
    and "cs_freeSlotChanceBp sch + cs_observerSeatChanceBp sch + cs_discountChanceBp sch \<le> BASIS_POINTS"
  shows "map fst (od_cards (toContractOdds sch)) = [CR_LEGENDARY, CR_EPIC, CR_RARE, CR_COMMON]
    \<and> (\<forall>(rarity, kind, chance) \<in> set (od_cards (toContractOdds sch)). kind = PRIZE_OF rarity
        \<and> of_nat (card {r. 0 \<le> r \<and> r < BASIS_POINTS \<and> rarityOfRoll sch r = rarity}) = chance * of_int BASIS_POINTS)"
  using assms by (simp add: toContractOdds_def Let_def rolls_of_rarity)

theorem published_odds_are_the_odds_witness:
  "\<exists>sch. card {r. 0 \<le> r \<and> r < BASIS_POINTS \<and> rarityOfRoll sch r = CR_LEGENDARY} = 25"
proof -
  let ?sch = "\<lparr>cs_id = 1, cs_freeSlotChanceBp = 25, cs_observerSeatChanceBp = 300, cs_discountChanceBp = 2000,
    cs_freeSlotsPerWeek = 2, cs_discountPercentOff = 10, cs_prizeValidDays = 30\<rparr>"
  have "of_nat (card {r. 0 \<le> r \<and> r < BASIS_POINTS \<and> rarityOfRoll ?sch r = CR_LEGENDARY}) = (25 :: real)"
    using published_odds_are_the_odds [of ?sch] by (simp add: toContractOdds_def Let_def BASIS_POINTS_def)
  then show ?thesis by (intro exI [of _ ?sch]) simp
qed

section \<open>The week's free slots\<close>

definition week_key :: "cardDrawWeek_row \<Rightarrow> ident \<times> time" where
  "week_key w = (cw_observatoryId w, cw_week w)"

definition held_in :: "cardDrawWeek_row list \<Rightarrow> ident \<times> time \<Rightarrow> int" where
  "held_in ws k = (case find (\<lambda>w. week_key w = k) ws of None \<Rightarrow> 0 | Some w \<Rightarrow> cw_freeSlotsHeld w)"

abbreviation slots_held :: "db \<Rightarrow> ident \<Rightarrow> time \<Rightarrow> int" where
  "slots_held s ob week \<equiv> held_in (cardDrawWeek s) (ob, week)"

lemma week_key_update [simp]: "week_key (w\<lparr>cw_freeSlotsHeld := n\<rparr>) = week_key w"
  by (simp add: week_key_def)



text \<open>The free-slot cards that may still be won or have been: of deals not picked, and the ones picked.\<close>

definition stands :: "cardDraw_row list \<Rightarrow> ident \<Rightarrow> time \<Rightarrow> cardDrawCard_row \<Rightarrow> bool" where
  "stands draws ob week c \<longleftrightarrow> cc_rarity c = CR_LEGENDARY
     \<and> (\<exists>d \<in> set draws. cd_id d = cc_drawId c \<and> cd_observatoryId d = ob \<and> cd_week d = week
          \<and> (cd_pickedPosition d = None \<or> cd_pickedPosition d = Some (cc_position c)))"

definition standing :: "db \<Rightarrow> ident \<Rightarrow> time \<Rightarrow> cardDrawCard_row list" where
  "standing s ob week = filter (stands (cardDraw s) ob week) (cardDrawCard s)"

definition accounts :: "cardDrawScheme_row \<Rightarrow> db \<Rightarrow> bool" where
  "accounts sch s \<longleftrightarrow> distinct (map week_key (cardDrawWeek s))
     \<and> (\<forall>ob week. slots_held s ob week = int (length (standing s ob week)) \<and> slots_held s ob week \<le> cs_freeSlotsPerWeek sch)"

text \<open>The deals are rows with their cards, and each prize is what its deal's picked card holds.\<close>

definition deals_ok :: "db \<Rightarrow> bool" where
  "deals_ok s \<longleftrightarrow> distinct (map cd_id (cardDraw s)) \<and> cc_drawId ` set (cardDrawCard s) \<subseteq> cd_id ` set (cardDraw s)"

definition prizes_ok :: "db \<Rightarrow> bool" where
  "prizes_ok s \<longleftrightarrow> distinct (map pz_drawId (cardPrize s))
     \<and> (\<forall>z \<in> set (cardPrize s). \<exists>d \<in> set (cardDraw s). \<exists>c \<in> set (cardDrawCard s). cd_id d = pz_drawId z
          \<and> cc_drawId c = cd_id d \<and> cd_pickedPosition d = Some (cc_position c) \<and> PRIZE_OF (cc_rarity c) = Some (pz_kind z))"

definition cards_inv :: "cardDrawScheme_row \<Rightarrow> db \<Rightarrow> bool" where
  "cards_inv sch s \<longleftrightarrow> readCardDrawScheme s = Inr sch \<and> accounts sch s \<and> deals_ok s \<and> prizes_ok s"



text \<open>The invariant rests on the tables of the draw alone.\<close>

lemma cards_inv_frame [simp]:
  "cards_inv sch (s\<lparr>auditLog := t\<rparr>) = cards_inv sch s" "cards_inv sch (s\<lparr>emailNotification := u\<rparr>) = cards_inv sch s"
  by (simp_all add: cards_inv_def readCardDrawScheme_def accounts_def standing_def deals_ok_def prizes_ok_def)

section \<open>A deal\<close>









section \<open>A pick\<close>

abbreviation pick_draw :: "ident \<Rightarrow> int \<Rightarrow> time \<Rightarrow> string option \<Rightarrow> cardDraw_row list \<Rightarrow> cardDraw_row list" where
  "pick_draw i pos now key \<equiv> updateMany (\<lambda>x. cd_id x = i)
     (\<lambda>x. x\<lparr>cd_pickedPosition := Some pos, cd_pickedAt := Some now, cd_pickIdempotencyKey := key\<rparr>)"





text \<open>The tables of the draw, which mail and audit leave alone.\<close>

abbreviation draw_tables :: "db \<Rightarrow> _" where
  "draw_tables s \<equiv> (cardDrawScheme s, cardDraw s, cardDrawCard s, cardDrawWeek s, cardPrize s)"

lemma issue_prize_result:
  assumes "issue_prize W secret draw sch now rarity s = Inr (prize, s')"
  shows "draw_tables s' = draw_tables (s\<lparr>cardPrize := cardPrize s @ (case prize of None \<Rightarrow> [] | Some p \<Rightarrow> [p])\<rparr>)
    \<and> map_option pz_kind prize = PRIZE_OF rarity
    \<and> (\<forall>p. prize = Some p \<longrightarrow> pz_drawId p = cd_id draw \<and> cd_id draw \<notin> pz_drawId ` set (cardPrize s))"
proof (cases "PRIZE_OF rarity")
  case None
  then show ?thesis using assms by (auto simp: issue_prize_def ret_apply)
next
  case (Some kind)
  let ?p = "prize_won W secret draw kind sch now"
  let ?mail = "\<lambda>p. bindt (queueEmail (email (cd_userId draw) MAIL_CARD_PRIZE_WON (''card-prize-won:'' @ pz_id p) [(''cardPrizeId'', pz_id p)])) (\<lambda>_. ret (Some p))"
  have p: "pz_drawId ?p = cd_id draw" "pz_kind ?p = kind" by (simp_all add: prize_won_def Let_def)
  from assms Some have new: "\<not> list_ex (prize_conflict ?p) (cardPrize s)"
    and mail: "?mail ?p (s\<lparr>cardPrize := cardPrize s @ [?p]\<rparr>) = Inr (prize, s')"
    by (auto simp: issue_prize_def tx_create_apply split: if_splits)
  have "keeps (\<lambda>x. draw_tables x = draw_tables (s\<lparr>cardPrize := cardPrize s @ [?p]\<rparr>)) (?mail ?p)"
    by (intro keeps_intros keeps_outbox) simp
  from keepsD [OF this _ mail] have "draw_tables s' = draw_tables (s\<lparr>cardPrize := cardPrize s @ [?p]\<rparr>)" by simp
  moreover have "prize = Some ?p" using mail by (auto simp: bindt_eq_Inr ret_apply)
  ultimately show ?thesis using new p Some by (auto simp: list_ex_iff prize_conflict_def)
qed


lemma turn_card_result:
  assumes run: "turn_card W secret sch draw (cards_of s (cd_id draw)) pos key now s = Inr (u, s')"
  obtains c prize s2 v s3 where "c \<in> set (cardDrawCard s)" "cc_drawId c = cd_id draw" "cc_position c = pos"
    "map_option pz_kind prize = PRIZE_OF (cc_rarity c)"
    "\<forall>p. prize = Some p \<longrightarrow> pz_drawId p = cd_id draw \<and> cd_id draw \<notin> pz_drawId ` set (cardPrize s)"
    "return_free_slots draw (unchosen_free_slots (cards_of s (cd_id draw)) pos) s2 = Inr (v, s3)" "cardDrawWeek s2 = cardDrawWeek s"
    "draw_tables s' = draw_tables (s\<lparr>cardDraw := pick_draw (cd_id draw) pos now key (cardDraw s), cardDrawWeek := cardDrawWeek s3,
       cardPrize := cardPrize s @ (case prize of None \<Rightarrow> [] | Some p \<Rightarrow> [p])\<rparr>)"
proof -
  let ?n = "unchosen_free_slots (cards_of s (cd_id draw)) pos" and ?s1 = "s\<lparr>cardDraw := pick_draw (cd_id draw) pos now key (cardDraw s)\<rparr>"
  from run obtain c prize s2 v s3 where find: "find (\<lambda>c. cc_position c = pos) (cards_of s (cd_id draw)) = Some c"
    and issue: "issue_prize W secret draw sch now (cc_rarity c) ?s1 = Inr (prize, s2)"
    and return: "return_free_slots draw ?n s2 = Inr (v, s3)"
    and audit: "recordAuditEvent (picked_audit draw pos (cc_rarity c) prize ?n) s3 = Inr (u, s')"
    unfolding turn_card_def by (auto simp: tx_update_apply throw_apply bindt_eq_Inr split: if_splits option.splits)
  have c: "c \<in> set (cardDrawCard s)" "cc_drawId c = cd_id draw" "cc_position c = pos"
    using find_SomeD [OF find] by (auto simp: cards_of_def)
  note p = issue_prize_result [OF issue]
  have s3: "draw_tables s3 = draw_tables (s2\<lparr>cardDrawWeek := cardDrawWeek s3\<rparr>)"
    using return by (auto simp: return_free_slots_def tx_simps split: if_splits)
  have "keeps (\<lambda>x. draw_tables x = draw_tables s3) (recordAuditEvent (picked_audit draw pos (cc_rarity c) prize ?n))"
    by (intro keeps_outbox) simp
  from keepsD [OF this refl audit] p s3 show thesis by (intro that [OF c _ _ return]) auto
qed



section \<open>Deals and picks over time\<close>











lemma picked_again:
  assumes "\<forall>d \<in> set (cardDraw s). cd_id d = i \<longrightarrow> cd_pickedPosition d \<noteq> None \<and> cd_pickIdempotencyKey d = key"
    and "cwd_others W s = s" and "pickCard W u i pos key' now s = (Inr (Draw_ok r), s')"
  shows "s' = s \<and> key' = key \<and> key \<noteq> None"
proof -
  from assms(2,3) obtain sch where run: "pick_tx W (the (cwd_secret W)) sch u i pos key' now s = Inr (Draw_ok r, s')"
    by (auto simp: pickCard_def transaction_eq_Inr split: if_splits sum.splits)
  then obtain d where d: "find (\<lambda>x. cd_id x = i \<and> cd_userId x = u) (cardDraw s) = Some d"
    by (auto simp: pick_tx_def tx_find_apply ret_apply split: option.splits)
  then have "cd_pickedPosition d \<noteq> None" "cd_pickIdempotencyKey d = key" using find_SomeD [OF d] assms(1) by auto
  with run d show ?thesis
    by (auto simp: pick_tx_def tx_find_apply ret_apply reads_apply bindt_steps simp del: not_None_eq split: if_splits)
qed

text \<open>
  A pick turns the card that was dealt, and once. A pick of an open deal succeeds only before
  the deal closes; it changes no card of any deal, and the prize it issues, if any, is the one
  the dealt card at that position holds. From then on no pick of that deal, by whomever and of
  whatever position, succeeds except the same request repeated with its idempotency key, and that
  changes nothing.
\<close>

theorem pick_turns_the_dealt_card:
  assumes "pickCard W u i pos key now s = (Inr (Draw_ok r), s')"
    and "find (\<lambda>x. cd_id x = i \<and> cd_userId x = u) (cardDraw (cwd_others W s)) = Some draw" and "cd_pickedPosition draw = None"
  shows "now < cd_closesAt draw \<and> cardDrawCard s' = cardDrawCard (cwd_others W s)
    \<and> (\<exists>c \<in> set (cardDrawCard s'). cc_drawId c = i \<and> cc_position c = pos \<and> (\<exists>new. cardPrize s' = cardPrize (cwd_others W s) @ new
        \<and> map pz_kind new = (case PRIZE_OF (cc_rarity c) of None \<Rightarrow> [] | Some kind \<Rightarrow> [kind])))
    \<and> (\<forall>W' u' pos' key' later r' s''. cwd_others W' s' = s' \<and> pickCard W' u' i pos' key' later s' = (Inr (Draw_ok r'), s'')
        \<longrightarrow> s'' = s' \<and> key' = key \<and> key \<noteq> None)"
proof -
  let ?s = "cwd_others W s"
  from assms(1) obtain sch where run: "pick_tx W (the (cwd_secret W)) sch u i pos key now ?s = Inr (Draw_ok r, s')"
    by (auto simp: pickCard_def transaction_eq_Inr split: if_splits sum.splits)
  have i: "cd_id draw = i" using find_SomeD [OF assms(2)] by simp
  from run assms(2,3) obtain v where open': "now < cd_closesAt draw"
    and turn: "turn_card W (the (cwd_secret W)) sch draw (cards_of ?s (cd_id draw)) pos key now ?s = Inr (v, s')" unfolding pick_tx_def i
    by (auto simp: tx_find_apply ret_apply reads_apply bindt_steps bindt_eq_Inr tx_findOrThrow_apply split: option.splits if_splits)
  from turn show ?thesis
  proof (rule turn_card_result)
    fix c prize s2 v s3
    assume c: "c \<in> set (cardDrawCard ?s)" "cc_drawId c = cd_id draw" "cc_position c = pos"
      and prize: "map_option pz_kind prize = PRIZE_OF (cc_rarity c)"
      and t: "draw_tables s' = draw_tables (?s\<lparr>cardDraw := pick_draw (cd_id draw) pos now key (cardDraw ?s), cardDrawWeek := cardDrawWeek s3,
        cardPrize := cardPrize ?s @ (case prize of None \<Rightarrow> [] | Some p \<Rightarrow> [p])\<rparr>)"
    have "\<forall>d \<in> set (cardDraw s'). cd_id d = i \<longrightarrow> cd_pickedPosition d \<noteq> None \<and> cd_pickIdempotencyKey d = key"
      using t i by (auto simp: ball_updateMany)
    then have again: "\<forall>W' u' pos' key' later r' s''. cwd_others W' s' = s' \<and> pickCard W' u' i pos' key' later s' = (Inr (Draw_ok r'), s'')
        \<longrightarrow> s'' = s' \<and> key' = key \<and> key \<noteq> None" by (metis picked_again)
    have "map pz_kind (case prize of None \<Rightarrow> [] | Some p \<Rightarrow> [p]) = (case PRIZE_OF (cc_rarity c) of None \<Rightarrow> [] | Some kind \<Rightarrow> [kind])"
      using prize by (cases prize) (auto simp flip: prize)
    then have "\<exists>c \<in> set (cardDrawCard s'). cc_drawId c = i \<and> cc_position c = pos \<and> (\<exists>new. cardPrize s' = cardPrize ?s @ new
        \<and> map pz_kind new = (case PRIZE_OF (cc_rarity c) of None \<Rightarrow> [] | Some kind \<Rightarrow> [kind]))"
      using c t i by (intro bexI [of _ c] conjI exI) auto
    moreover have "cardDrawCard s' = cardDrawCard ?s" using t by simp
    ultimately show ?thesis using open' again by blast
  qed
qed

section \<open>An example\<close>

text \<open>A deal with two free slots, the second of which goes back to the week when the first is turned.\<close>

definition example_odds :: cardDrawScheme_row where
  "example_odds = \<lparr>cs_id = 1, cs_freeSlotChanceBp = 25, cs_observerSeatChanceBp = 300, cs_discountChanceBp = 2000,
     cs_freeSlotsPerWeek = 2, cs_discountPercentOff = 10, cs_prizeValidDays = 30\<rparr>"

definition example_deal :: cardDraw_row where
  "example_deal = \<lparr>cd_id = ''d1'', cd_userId = ''u1'', cd_observatoryId = ''o1'', cd_week = 0, cd_closesAt = 1000, cd_pickedPosition = None,
     cd_pickedAt = None, cd_pickIdempotencyKey = None, cd_isDemo = False, cd_createdAt = 0\<rparr>"

definition example_card :: "int \<Rightarrow> cardRarity \<Rightarrow> cardDrawCard_row" where
  "example_card p r = \<lparr>cc_drawId = ''d1'', cc_position = p, cc_rarity = r, cc_targetId = None\<rparr>"

definition dealt_db :: db where
  "dealt_db = empty_db\<lparr>cardDrawScheme := [example_odds], cardDraw := [example_deal],
     cardDrawCard := [example_card 0 CR_LEGENDARY, example_card 1 CR_LEGENDARY, example_card 2 CR_COMMON],
     cardDrawWeek := [\<lparr>cw_observatoryId = ''o1'', cw_week = 0, cw_freeSlotsHeld = 2\<rparr>]\<rparr>"

definition example_cards :: cardWorld where
  "example_cards = \<lparr>cwd_hmac = (\<lambda>_ _. []), cwd_sha256 = id, cwd_secret = Some ''secret'', cwd_parts = (\<lambda>_ _. (1970, 1, 1, 0, 0, 0)),
     cwd_dice = (\<lambda>_ _. 0), cwd_newId = ''z1'', cwd_createdAt = 0, cwd_others = id\<rparr>"

lemma dealt_db_inv: "cards_inv example_odds dealt_db"
proof -
  have "slots_held dealt_db ob week = (if (ob, week) = (''o1'', 0) then 2 else 0)"
    "length (standing dealt_db ob week) = (if (ob, week) = (''o1'', 0) then 2 else 0)" for ob week
    by (auto simp: dealt_db_def held_in_def week_key_def standing_def stands_def example_deal_def example_card_def)
  then have "accounts example_odds dealt_db"
    by (simp add: accounts_def) (simp add: dealt_db_def example_odds_def)
  then show ?thesis
    by (simp add: cards_inv_def) (simp add: dealt_db_def readCardDrawScheme_def example_odds_def deals_ok_def prizes_ok_def example_deal_def
        example_card_def empty_db_def)
qed

lemma picked_clean: "offending_keys (au_metadata (picked_audit draw p r z n)) = []" "\<not> FORBIDDEN_DETAIL_KEYS ''cardPrizeId''"
proof -
  have "\<not> FORBIDDEN_DETAIL_KEYS ''position''" "\<not> FORBIDDEN_DETAIL_KEYS ''rarity''" "\<not> FORBIDDEN_DETAIL_KEYS ''prizeId''"
    "\<not> FORBIDDEN_DETAIL_KEYS ''prizeKind''" "\<not> FORBIDDEN_DETAIL_KEYS ''prizeExpiresAt''"
    "\<not> FORBIDDEN_DETAIL_KEYS ''freeSlotsReturned''" "\<not> FORBIDDEN_DETAIL_KEYS ''cardPrizeId''"
    by (simp_all add: guard_eval)
  then show "offending_keys (au_metadata (picked_audit draw p r z n)) = []" "\<not> FORBIDDEN_DETAIL_KEYS ''cardPrizeId''"
    by (simp_all add: picked_audit_def)
qed

lemma dealt_pick:
  "\<exists>r s'. pickCard example_cards ''u1'' ''d1'' 0 (Some ''k'') 10 dealt_db = (Inr (Draw_ok r), s')
     \<and> cardDraw s' = pick_draw ''d1'' 0 10 (Some ''k'') [example_deal]"
proof -
  have cards: "cards_of dealt_db ''d1'' = [example_card 0 CR_LEGENDARY, example_card 1 CR_LEGENDARY, example_card 2 CR_COMMON]"
    by (simp add: cards_of_def dealt_db_def example_card_def)
  have "\<exists>s1. turn_card example_cards ''secret'' example_odds example_deal (cards_of dealt_db ''d1'') 0 (Some ''k'') 10 dealt_db = Inr ((), s1)"
    unfolding cards by (simp add: turn_card_def issue_prize_def return_free_slots_def unchosen_free_slots_def picked_clean tx_simps bindt_Inr
        dealt_db_def empty_db_def example_deal_def example_card_def)
  then obtain s1 where t: "turn_card example_cards ''secret'' example_odds example_deal (cards_of dealt_db ''d1'') 0 (Some ''k'') 10 dealt_db = Inr ((), s1)"
    by blast
  have i: "cd_id example_deal = ''d1''" "cd_userId example_deal = ''u1''" "cd_pickedPosition example_deal = None" "cd_closesAt example_deal = 1000"
    by (simp_all add: example_deal_def)
  have draws: "cardDraw dealt_db = [example_deal]" by (simp add: dealt_db_def)
  from t have picked: "cardDraw s1 = pick_draw ''d1'' 0 10 (Some ''k'') [example_deal]"
    by (rule turn_card_result [of _ _ _ example_deal, unfolded i(1)]) (simp add: draws)
  then have found: "\<exists>d. find (\<lambda>x. cd_id x = ''d1'') (cardDraw s1) = Some d" using i by simp
  have sch: "readCardDrawScheme dealt_db = Inr example_odds" using dealt_db_inv by (simp add: cards_inv_def)
  have W: "cwd_secret example_cards = Some ''secret''" "cwd_others example_cards s = s" for s by (simp_all add: example_cards_def)
  from t found draws i sch W picked show ?thesis
    by (auto simp: pickCard_def truthy_def transaction_def pick_tx_def tx_find_apply reads_apply ret_apply tx_findOrThrow_apply bindt_steps bindt_Inr)
qed


theorem pick_turns_the_dealt_card_witness:
  "\<exists>r s' c. pickCard example_cards ''u1'' ''d1'' 0 (Some ''k'') 10 dealt_db = (Inr (Draw_ok r), s')
     \<and> c \<in> set (cardDrawCard s') \<and> cc_position c = 0 \<and> cardDrawCard s' = cardDrawCard dealt_db"
proof -
  obtain r s' where p: "pickCard example_cards ''u1'' ''d1'' 0 (Some ''k'') 10 dealt_db = (Inr (Draw_ok r), s')" using dealt_pick by blast
  have o: "cwd_others example_cards dealt_db = dealt_db" by (simp add: example_cards_def)
  have "find (\<lambda>x. cd_id x = ''d1'' \<and> cd_userId x = ''u1'') (cardDraw (cwd_others example_cards dealt_db)) = Some example_deal"
    "cd_pickedPosition example_deal = None" unfolding o by (simp_all add: dealt_db_def example_deal_def)
  from pick_turns_the_dealt_card [OF p this] p o show ?thesis by auto
qed

end
