(* ===== verification/Waitlist_Join.thy ===== *)
theory Waitlist_Join
  imports Reserve_Correct
begin

text \<open>
  Joining, leaving and reading the waitlist, src/apps/api/src/features/waitlist/waitlist.ts; the
  sweep that offers a freed slot is in Waitlist. The checks of a join are reads of their own, not
  one transaction with the insert: \<open>others\<close> is what other sessions commit in between.
\<close>

section \<open>Definitions (waitlist.ts)\<close>

definition MAX_ACTIVE_PLACES :: nat where "MAX_ACTIVE_PLACES = 3"
definition KEEP_ENDED_DAYS :: int where "KEEP_ENDED_DAYS = 30"

record contractEntry =
  we_id :: ident
  we_observatoryId :: ident
  we_slotStartAt :: string
  we_durationMinutes :: int
  we_status :: waitlistStatus
  we_position :: "nat option"
  we_offerExpiresAt :: "string option"
  we_createdAt :: string

definition toContractEntry :: "waitlist_row \<Rightarrow> nat option \<Rightarrow> contractEntry" where
  "toContractEntry row position =
     \<lparr>we_id = wl_id row, we_observatoryId = wl_observatoryId row, we_slotStartAt = toISOString (wl_slotStartAt row),
      we_durationMinutes = wl_durationMinutes row, we_status = wl_status row,
      we_position = (if wl_status row = WL_WAITING then position else None),
      we_offerExpiresAt = (if wl_status row = WL_OFFERED then map_option toISOString (wl_offerExpiresAt row) else None),
      we_createdAt = toISOString (wl_createdAt row)\<rparr>"

text \<open>Rows that joined before: by \<open>createdAt\<close>, and by id at the same millisecond.\<close>

definition joined_before :: "waitlist_row \<Rightarrow> waitlist_row \<Rightarrow> bool" where
  "joined_before a b \<longleftrightarrow> wl_createdAt a < wl_createdAt b \<or> wl_createdAt a = wl_createdAt b \<and> wl_id a < wl_id b"

definition positionOf :: "db \<Rightarrow> waitlist_row \<Rightarrow> nat" where
  "positionOf s row = length (filter (\<lambda>w. wl_observatoryId w = wl_observatoryId row \<and> wl_slotStartAt w = wl_slotStartAt row
     \<and> wl_status w = WL_WAITING \<and> joined_before w row) (waitlistEntry s)) + 1"

definition listMyWaitlistEntries :: "db \<Rightarrow> ident \<Rightarrow> time \<Rightarrow> contractEntry list" where
  "listMyWaitlistEntries s userId now =
     map (\<lambda>row. toContractEntry row (if wl_status row = WL_WAITING then Some (positionOf s row) else None))
       (rev (sort_key wl_createdAt (sort_key wl_id (filter (\<lambda>w. wl_userId w = userId
          \<and> (ACTIVE_PLACE (wl_status w) \<or> now - KEEP_ENDED_DAYS * day_ms < wl_createdAt w)) (waitlistEntry s)))))"

record joinRequest =
  jr_observatoryId :: ident
  jr_slotStartAt :: "time option"
  jr_durationMinutes :: int

definition active_places :: "db \<Rightarrow> ident \<Rightarrow> nat" where
  "active_places s userId = length (filter (\<lambda>w. wl_userId w = userId \<and> ACTIVE_PLACE (wl_status w)) (waitlistEntry s))"

definition admit_join :: "world \<Rightarrow> db \<Rightarrow> ident \<Rightarrow> joinRequest \<Rightarrow> time \<Rightarrow> slot_ref check" where
  "admit_join W s userId rq now =
     andthen (require (findBookableObservatory s (jr_observatoryId rq)) (Reserve.failure 404 ERR_NOT_FOUND ''No such observatory.'')) (\<lambda>ob.
     andthen (case jr_slotStartAt rq of None \<Rightarrow> pass None
        | Some t \<Rightarrow> if \<not> isSessionLength (jr_durationMinutes rq) then pass None
            else andthen (call (findGeneratedSlot (w_zone W) (w_dark W) t ob now (jr_durationMinutes rq))) (\<lambda>found.
                 pass (map_option (Pair t) found))) (\<lambda>found.
     andthen (require found (Reserve.failure 422 ERR_VALIDATION_FAILED ''That is not a slot this observatory offers.'')) (\<lambda>(slotStartAt, sl).
     andthen (refuse_when (sl_unavailableReason sl = Some IN_THE_PAST) (Reserve.failure 409 ERR_CONFLICT ''That slot has started.'')) (\<lambda>_.
     let place = \<lparr>sr_observatoryId = bo_id ob, sr_slotStartAt = slotStartAt, sr_durationMinutes = sl_durationMinutes sl\<rparr>;
         holders = bookingsHolding s place now in
     andthen (refuse_when (list_ex (\<lambda>h. snd h = userId) holders) (Reserve.failure 409 ERR_CONFLICT ''You already hold that slot.'')) (\<lambda>_.
     andthen (refuse_when (holders = []) (Reserve.failure 409 ERR_CONFLICT ''Nobody holds that slot: book it instead.'')) (\<lambda>_.
     andthen (refuse_when (MAX_ACTIVE_PLACES \<le> active_places s userId) (Reserve.failure 422 ERR_VALIDATION_FAILED
        (''You can wait for at most '' @ decimal (int MAX_ACTIVE_PLACES) @ '' slots at once.''))) (\<lambda>_.
     pass place)))))))"

text \<open>The unique columns of a place: its id, and \<open>WaitlistEntry_active_place_key\<close> among the active.\<close>

definition place_conflict :: "waitlist_row \<Rightarrow> waitlist_row \<Rightarrow> bool" where
  "place_conflict new old \<longleftrightarrow> wl_id new = wl_id old
     \<or> (ACTIVE_PLACE (wl_status new) \<and> ACTIVE_PLACE (wl_status old) \<and> wl_userId new = wl_userId old
        \<and> wl_observatoryId new = wl_observatoryId old \<and> wl_slotStartAt new = wl_slotStartAt old)"

definition new_place :: "ident \<Rightarrow> ident \<Rightarrow> slot_ref \<Rightarrow> time \<Rightarrow> waitlist_row" where
  "new_place newId userId place createdAt =
     \<lparr>wl_id = newId, wl_userId = userId, wl_observatoryId = sr_observatoryId place, wl_slotStartAt = sr_slotStartAt place,
      wl_durationMinutes = sr_durationMinutes place, wl_status = WL_WAITING, wl_offeredAt = None, wl_offerExpiresAt = None,
      wl_endedAt = None, wl_claimedBookingId = None, wl_createdAt = createdAt\<rparr>"

datatype joinResult = Joined contractEntry | Join_refused reserveSlotFailure

definition joinWaitlist ::
  "world \<Rightarrow> ident \<Rightarrow> time \<Rightarrow> (db \<Rightarrow> db) \<Rightarrow> ident \<Rightarrow> joinRequest \<Rightarrow> time \<Rightarrow> (db, joinResult) job" where
  "joinWaitlist W newId createdAt others userId rq now = (\<lambda>s.
     case admit_join W s userId rq now of
       Inl e \<Rightarrow> (Inl e, s)
     | Inr (Inl refusal) \<Rightarrow> (Inr (Join_refused refusal), s)
     | Inr (Inr place) \<Rightarrow>
        catchj (bindj (transaction (tx_create waitlistEntry waitlistEntry_update place_conflict (new_place newId userId place createdAt))) (\<lambda>row.
                readsj (\<lambda>s'. Joined (toContractEntry row (Some (positionOf s' row))))))
          (\<lambda>e. if e = SqlError ''23505''
               then retj (Join_refused (Reserve.failure 409 ERR_CONFLICT ''You already wait for that slot.'')) else throwj e)
          (others s))"

datatype leaveResult = Left_line | Leave_refused reserveSlotFailure

definition leaveWaitlist :: "(db \<Rightarrow> db) \<Rightarrow> ident \<Rightarrow> ident \<Rightarrow> time \<Rightarrow> (db, leaveResult) job" where
  "leaveWaitlist others userId entryId now = (\<lambda>s.
     if \<not> list_ex (\<lambda>w. wl_id w = entryId \<and> wl_userId w = userId) (waitlistEntry s)
     then (Inr (Leave_refused (Reserve.failure 404 ERR_NOT_FOUND ''No such place.'')), s)
     else bindj (transaction (update_places (\<lambda>w. wl_id w = entryId \<and> ACTIVE_PLACE (wl_status w))
            (\<lambda>w. w\<lparr>wl_status := WL_LEFT, wl_endedAt := Some now\<rparr>))) (\<lambda>_. retj Left_line) (others s))"

section \<open>Places in line\<close>

lemma admit_join_facts:
  assumes "admit_join W s u rq now = Inr (Inr place)"
  shows "\<forall>h \<in> set (bookingsHolding s place now). snd h \<noteq> u" "bookingsHolding s place now \<noteq> []"
    "active_places s u < MAX_ACTIVE_PLACES" "jr_slotStartAt rq = Some (sr_slotStartAt place)"
  using assms unfolding admit_join_def andthen_pass Let_def
  by (auto simp: list_ex_iff not_le andthen_pass refuse_when_def refuse_def pass_def split: option.splits if_splits)

lemma join_outcome:
  assumes "joinWaitlist W i t others u rq now s = (Inr (Joined e), s')"
  obtains place where "admit_join W s u rq now = Inr (Inr place)"
    "\<forall>w \<in> set (waitlistEntry (others s)). \<not> place_conflict (new_place i u place t) w"
    "s' = (others s)\<lparr>waitlistEntry := waitlistEntry (others s) @ [new_place i u place t]\<rparr>"
    "e = toContractEntry (new_place i u place t) (Some (positionOf s' (new_place i u place t)))"
  using assms
  by (auto simp: joinWaitlist_def catchj_def bindj_def transaction_def tx_create_apply list_ex_iff split: sum.splits if_splits)

text \<open>Ids are unique, and so is a person's active place for a slot.\<close>

definition places_inv :: "db \<Rightarrow> bool" where
  "places_inv s \<longleftrightarrow> sorted_wrt (\<lambda>a b. \<not> place_conflict b a) (waitlistEntry s)"

lemma leave_keeps_places:
  assumes "places_inv (others s)" and "places_inv s"
  shows "places_inv (snd (leaveWaitlist others u i now s))"
proof -
  let ?P = "\<lambda>w. wl_id w = i \<and> ACTIVE_PLACE (wl_status w)" and ?f = "\<lambda>w. w\<lparr>wl_status := WL_LEFT, wl_endedAt := Some now\<rparr>"
  have step: "\<not> place_conflict (if ?P b then ?f b else b) (if ?P a then ?f a else a)" if "\<not> place_conflict b a" for a b
    using that by (auto simp: place_conflict_def ACTIVE_PLACE_def)
  have "sorted_wrt (\<lambda>a b. \<not> place_conflict b a) (updateMany ?P ?f (waitlistEntry (others s)))"
    unfolding updateMany_def sorted_wrt_map
    by (rule sorted_wrt_mono_rel [OF _ assms(1) [unfolded places_inv_def]]) (rule step)
  then show ?thesis using assms
    by (auto simp: leaveWaitlist_def bindj_def transaction_def update_places_def tx_simps places_inv_def split: if_splits)
qed

theorem place_joined_is_the_only_one:
  assumes "joinWaitlist W i t others u rq now s = (Inr (Joined e), s')" and "places_inv (others s)"
  shows "places_inv s' \<and> (\<exists>place row. bookingsHolding s place now \<noteq> [] \<and> (\<forall>h \<in> set (bookingsHolding s place now). snd h \<noteq> u)
    \<and> jr_slotStartAt rq = Some (wl_slotStartAt row) \<and> slot_of row = place \<and> wl_userId row = u \<and> wl_status row = WL_WAITING
    \<and> waitlistEntry s' = waitlistEntry (others s) @ [row] \<and> we_position e = Some (positionOf s' row))"
  using assms(1)
proof (rule join_outcome)
  fix place
  let ?row = "new_place i u place t"
  assume a: "admit_join W s u rq now = Inr (Inr place)"
    and new: "\<forall>w \<in> set (waitlistEntry (others s)). \<not> place_conflict ?row w"
    and s': "s' = (others s)\<lparr>waitlistEntry := waitlistEntry (others s) @ [?row]\<rparr>"
    and e: "e = toContractEntry ?row (Some (positionOf s' ?row))"
  note f = admit_join_facts [OF a]
  have "places_inv s'" using assms(2) new by (simp add: s' places_inv_def sorted_wrt_append)
  moreover have "slot_of ?row = place" "wl_userId ?row = u" "wl_status ?row = WL_WAITING" "wl_slotStartAt ?row = sr_slotStartAt place"
    by (simp_all add: new_place_def slot_of_def)
  moreover have "we_position e = Some (positionOf s' ?row)" by (simp add: e toContractEntry_def new_place_def)
  ultimately show ?thesis using f(1,2,4) s'
    by (intro conjI exI [of _ place] exI [of _ ?row]) simp_all
qed

text \<open>
  The limit on active places is checked and not held: two joins for different slots, each
  admitted before the other has inserted its row, both succeed, and the person has one place more
  than a single join could have given.
\<close>

theorem racing_joins_pass_the_limit:
  assumes "admit_join W s u rq now = Inr (Inr place)" and "admit_join W s u rq' now = Inr (Inr place')"
    and "sr_slotStartAt place \<noteq> sr_slotStartAt place'" and "i \<noteq> i'" and "i \<notin> wl_id ` set (waitlistEntry s)" and "i' \<notin> wl_id ` set (waitlistEntry s)"
    and "\<forall>w \<in> set (waitlistEntry s). wl_userId w = u \<and> ACTIVE_PLACE (wl_status w)
      \<longrightarrow> wl_slotStartAt w \<noteq> sr_slotStartAt place \<and> wl_slotStartAt w \<noteq> sr_slotStartAt place'"
    and "active_places s u = MAX_ACTIVE_PLACES - 1"
  shows "\<exists>e s'. joinWaitlist W i t (\<lambda>s. snd (joinWaitlist W i' t' id u rq' now s)) u rq now s = (Inr (Joined e), s')
    \<and> active_places s' u = MAX_ACTIVE_PLACES + 1"
proof -
  let ?r = "new_place i u place t" and ?r' = "new_place i' u place' t'"
  let ?s1 = "s\<lparr>waitlistEntry := waitlistEntry s @ [?r']\<rparr>"
  have "\<not> place_conflict ?r' w" "\<not> place_conflict ?r w" if "w \<in> set (waitlistEntry s)" for w
    using assms(5-7) that by (auto simp: place_conflict_def new_place_def)
  moreover have "\<not> place_conflict ?r ?r'" using assms(3,4) by (simp add: place_conflict_def new_place_def)
  ultimately have "snd (joinWaitlist W i' t' id u rq' now s) = ?s1" "\<not> list_ex (place_conflict ?r) (waitlistEntry ?s1)"
    using assms(2) by (simp_all add: joinWaitlist_def catchj_def bindj_def transaction_def tx_create_apply list_ex_iff)
  then have "\<exists>e. joinWaitlist W i t (\<lambda>s. snd (joinWaitlist W i' t' id u rq' now s)) u rq now s
      = (Inr (Joined e), ?s1\<lparr>waitlistEntry := waitlistEntry ?s1 @ [?r]\<rparr>)"
    using assms(1) by (simp add: joinWaitlist_def [of W i] catchj_def bindj_def transaction_def tx_create_apply)
  moreover have "active_places (?s1\<lparr>waitlistEntry := waitlistEntry ?s1 @ [?r]\<rparr>) u = MAX_ACTIVE_PLACES + 1"
    using assms(8) by (simp add: active_places_def new_place_def ACTIVE_PLACE_def MAX_ACTIVE_PLACES_def)
  ultimately show ?thesis by blast
qed

end
