(* ===== verification/Spec2Isabelle.thy ===== *)
theory Spec2Isabelle
  imports Credits Loyalty Slots Waitlist Vouchers Card_Prizes Refunds Safety Visibility Slot_List Holds Reserve_Correct Billing Mission_Correct Live_Relay Observers_Correct Entitlements_Correct
    Card_Draw_Correct Waitlist_Join
begin

text \<open>
  Verification of the Darkview platform (src/), the TypeScript services that sell and run
  sessions on remote telescopes.

  \<^bold>\<open>The program.\<close> An API (src/apps/api) takes the requests of customers and operators, a realtime
  service (src/apps/realtime) keeps the link to each observatory and runs the sweeps, and both
  share one PostgreSQL database through src/packages/db. A customer reserves a slot of the
  night, with money, a gift voucher, a prize or subscription minutes; the payment provider's
  callback settles the payment and schedules a mission; in the slot the customer starts the
  mission and sends commands, which the realtime service relays to the observatory's agent, whose
  reports move the mission on. Others may buy a seat and watch. A slot that was lost entitles its
  customer to a refund or a reschedule; a slot that is taken has a waitlist, and once a week a
  customer may draw a card for a prize. The ledgers of minutes and of loyalty points are moved by nearly all of these. The components meet in the
  database: an operation of one is a transaction over the tables of many.

  \<^bold>\<open>How it is modelled.\<close> Prelude has the transactions: a function of the state that returns a value
  and the next state, or an exception and, since PostgreSQL rolls it back, no state at all.
  \<open>hoare\<close> and \<open>keeps\<close> are its triples and invariants; the collections \<open>tx_simps\<close>,
  \<open>keeps_intros\<close> and \<open>const_simps\<close> carry the proofs. Jobs has what runs outside one
  transaction: handlers and sweeps whose earlier writes stay when a later one throws, retries
  included. Schema has the tables of schema.prisma as records of one database record \<open>db\<close>, and a
  unique index or exclusion constraint is a condition on the insert that names it. Milliseconds
  since the epoch and amounts are integers, as JavaScript's are below 2^53; angles are reals,
  where the sources round. Calendar has the part of \<open>Date\<close> that is used. A transaction is one
  step: the sources lock the rows they decide on (\<open>SELECT ... FOR UPDATE\<close>), and where they do
  not lock and decide on what they read earlier, what others commit in between is a function on
  the database, an argument of the model (\<open>env\<close>, \<open>others\<close>, \<open>w_others\<close>).

  \<^bold>\<open>The theories, and the code they model.\<close>

  \<^item> Audit_Log: packages/db/audit.ts, notifications.ts. The trail refuses details that name a
    secret, and the outbox drops an email already queued.
  \<^item> Ledger, Credits, Loyalty: packages/db/credits.ts, loyalty.ts. The locale
    \<open>idempotent_ledger\<close> is the contract both promise, posting once per key and moving the balance
    by the amount; \<open>credits\<close> and \<open>loyalty\<close> interpret it. Both balances equal the sum of
    their entries whatever others post meanwhile, and a spend that is released, or an earning
    that is reversed, leaves the balance where it was.
  \<^item> Conflict, Slots, Slot_List: lib/slots/generate.ts, darkness.ts, availability.ts;
    features/booking/observatories.ts, slots.ts; features/targets/slot.ts. The locale
    \<open>slot_conflict\<close> is the rule of two sessions with their turnaround, which the generator
    (\<open>held\<close>), the waitlist (\<open>waiting\<close>) and the database's constraint (\<open>schedule\<close>) each
    implement. When a listed slot is available, that what can be booked is listed, and that
    opening hours are intersected exactly with the dark.
  \<^item> Safety, Visibility: lib/safety/envelope.ts, store.ts, lib/ephemeris/engine.ts,
    visibility.ts, slot-visibility.ts, packages/db/simulator-envelope.ts. A slot called
    observable is permitted at every sample, and a limit the simulator made up refuses every
    pointing of a real telescope; that the Sun is kept away is part of the property of commands.
  \<^item> Vouchers, Card_Prizes, Card_Draw, Card_Draw_Correct: packages/db/vouchers.ts,
    card-prizes.ts, features/cards/draw.ts with the weeks of features/votes/week.ts. The deal of
    three cards and the pick: over \<open>card_run\<close>, the free slots of a week stay within its cap, the
    odds published are the odds, and a pick turns the card that was dealt.
  \<^item> Waitlist, Waitlist_Join: packages/db/waitlist.ts, the sweep, statement by statement, and
    features/waitlist/waitlist.ts, joining and leaving. What every sweep leaves, and that one
    booking over two places of one person stops all of them; two requests that race pass the
    limit on places.
  \<^item> Holds, Reserve, Reserve_Correct: features/booking/reserve.ts. A slot is sold to one customer
    only, whatever other sessions do; what is sold was on offer and observable; a refusal writes
    nothing; a repeated request is a replay; a price is the list price less the shares of the
    tier, the prize and the points.
  \<^item> Refunds, Entitlements, Entitlements_Correct: packages/db/refunds.ts,
    features/booking/entitlement.ts, manage.ts, realtime/src/refunds/entitlements.ts. The time
    counted as lost is the measure of the instants some outage covers; an entitlement is spent
    once; a reschedule gives the same telescope and length, with its own mission, and keeps the
    schedule; a refund gives back all or nothing; only an unpaid booking of one's own is
    cancelled.
  \<^item> Subscriptions, Renewals, Settle, Settle_Correct, Billing: packages/db/subscriptions.ts,
    features/subscriptions/subscriptions.ts, realtime/src/subscriptions/renewals.ts,
    features/payments/settle.ts, the settlement of features/vouchers/vouchers.ts. The locale
    \<open>payment_marking\<close> says what every branch of a settlement does to the payments (\<open>settled\<close>,
    \<open>billed\<close>), \<open>pack_contract\<close> what it does to seats (\<open>seats\<close>, \<open>seated\<close>). Billing's
    \<open>billing_run\<close> interleaves customers, sweep and settlements: no renewal is charged beyond its
    attempts, and a paid period is not cut short.
  \<^item> Sessions, Commands, Mission_Link, Mission_Run, Mission_Correct: features/missions/session.ts,
    command.ts, in-slot.ts, targets.ts, lib/ephemeris/visible-now.ts, features/admin/override.ts,
    missions.ts, lib/observatory/command-authorization.ts, relay.ts, packages/db/booked-session.ts,
    realtime/src/link/store.ts, prisma-store.ts, realtime/src/mission/booked-session.ts.
    \<open>mission_run\<close> interleaves every one of these operations; \<open>good\<close> is the guarantee each step
    gives, an invariant together with what it leaves alone. One owner per telescope, every
    command owned and within the envelope, a finished mission stays finished, a refused start
    frees the observatory, the owner can abort.
  \<^item> Live_Relay: realtime/src/mission/broadcast.ts, the relay with its five-second cache and the
    reads in flight. The countdown a client is shown is the API's refusal on rows less than five
    seconds old.
  \<^item> Observers, Observers_Correct: features/missions/observer-pack.ts, observers.ts,
    close-refund.ts, broadcast.ts, watch.ts. Over \<open>seat_run\<close>, seats are never oversold, a paid
    seat can be taken, and a close refunds each seat its share once.

  Theories whose names carry \<open>_Correct\<close>, \<open>_Run\<close> and Billing hold proofs about the theory
  before them; the others hold definitions with their first lemmas. Each property has an example
  at the bottom of its theory, a small database on which its hypotheses hold.

  \<^bold>\<open>Parameters.\<close> What the sources take from elsewhere is an argument of the definitions that use
  it: the astronomy engine, the wall clock of a time zone and the search for the Sun's altitude,
  HMAC and SHA-256, referral codes, generated identifiers and creation times, which transaction
  attempts the database aborts as deadlocks, \<open>String.localeCompare\<close>, the charge of a saved card,
  the environment variables. The audit table of the model has no time column, so
  \<open>evaluateEndedSlots\<close> takes an observatory's history of holds and outages as an argument. What
  other sessions commit is arbitrary but for the hypotheses a theorem states, in general that they
  keep the invariant in question.

  \<^bold>\<open>Bounds.\<close> Loops of the sources with a bound keep it: the walk over reschedules takes at most
  \<open>MAX_RESCHEDULE_CHAIN\<close> = 12 steps (\<open>refund_walks_the_chain\<close> of Refunds says what happens
  beyond), a transaction is retried up to \<open>DEADLOCK_ATTEMPTS\<close> = 5 times, a renewal up to
  \<open>RENEWAL_ATTEMPTS\<close> = 3. All functions of the model are total; no definition has fuel of its
  own: the loops over a night's slots and over days recurse on a difference that falls.

  \<^bold>\<open>Not modelled.\<close> The sockets of the agent link and of the watching clients, the live stream, the
  bank's HTTP client, email sending and object storage: input and output, whose effects on the
  database are the modelled operations. The HTTP routes, which parse with generated validators
  and call one operation each; the generated contracts. Authentication, which rests on
  cryptography and third parties. Reads that only project rows: the listings of bookings, plans,
  missions, captures and the public pages. Of the smaller features: ordering a gift voucher, the
  operator's catalogue and envelope forms, community votes and forecasts. Of the operator's routes
  that write a mission's state the weather hold (admin/observatory.ts, which also mints a PARK)
  and the test mission (admin/test-mission.ts); the steps of \<open>mission_run\<close> are the others. The
  Python agent at the observatory; its reports are inputs. Stored columns that nothing modelled
  reads, such as surrogate ids of append-only tables, have no field.
\<close>

end
